(* ===== verification/Prelude.thy ===== *)
theory Prelude
  imports Main "HOL-Library.Word"
begin

text \<open>
  Shared vocabulary of the development: the machine-integer types of the C++ code, the
  two interfaces every component is measured against (a fixed-width byte codec, a state
  machine with an invariant), and the generic lemmas on words and lists the component
  theories use.

  Conventions. \<open>std::uintN_t\<close> is an \<open>N word\<close>, so that every wrap-around of the source is a
  wrap-around of the model. \<open>std::size_t\<close> values that count elements of a container held
  in memory are \<open>nat\<close>: they cannot reach \<open>2 ^ 64\<close>. Times in milliseconds are \<open>u64\<close>.
\<close>

unbundle bit_operations_syntax

type_synonym u8 = "8 word"
type_synonym u16 = "16 word"
type_synonym u32 = "32 word"
type_synonym u64 = "64 word"
type_synonym bytes = "u8 list"

named_theorems codec_simps "reads over writes at constant offsets of a byte buffer"

section \<open>Interfaces\<close>

subsection \<open>Fixed-width codecs\<close>

text \<open>
  A fixed-width codec writes a value as exactly \<open>width\<close> bytes, reads the value back from
  any buffer that starts with those bytes, and every \<open>width\<close> bytes are the encoding of
  the value read from them.
\<close>

locale fixed_codec =
  fixes enc :: "'a \<Rightarrow> bytes" and dec :: "bytes \<Rightarrow> 'a" and width :: nat
  assumes length_enc: "length (enc x) = width"
    and dec_enc: "dec (enc x @ rest) = x"
    and enc_dec: "width \<le> length bs \<Longrightarrow> enc (dec bs) = take width bs"
begin

lemma dec_enc_exact: "dec (enc x) = x"
  using dec_enc [of x "[]"] by simp

lemma enc_inject: "enc x = enc y \<longleftrightarrow> x = y"
  by (metis dec_enc_exact)

text \<open>Encodings are prefix-free: a stream of them is cut in one way only.\<close>

lemma enc_append_inject: "enc x @ xs = enc y @ ys \<longleftrightarrow> x = y \<and> xs = ys"
  by (metis append_eq_append_conv enc_inject length_enc)

lemma dec_depends_on_prefix:
  "width \<le> length bs \<Longrightarrow> take width bs = take width cs \<Longrightarrow> dec bs = dec cs"
proof -
  assume w: "width \<le> length bs" and eq: "take width bs = take width cs"
  have "length (take width cs) = width"
    using w by (simp flip: eq)
  then have w': "width \<le> length cs" by simp
  have "enc (dec bs) = enc (dec cs)"
    using w w' eq by (simp add: enc_dec)
  then show "dec bs = dec cs" by (simp add: enc_inject)
qed

lemma dec_split: "width \<le> length bs \<Longrightarrow> bs = enc (dec bs) @ drop width bs"
  by (simp add: enc_dec)

end

subsection \<open>State machines with an invariant\<close>

text \<open>
  A component is a step function over its operations. Its invariant, kept by every
  step, holds along every run. \<open>run\<close> is the left fold of the steps.
\<close>

locale invariant_machine =
  fixes step :: "'s \<Rightarrow> 'e \<Rightarrow> 's" and inv :: "'s \<Rightarrow> bool"
  assumes step_inv: "inv s \<Longrightarrow> inv (step s e)"
begin

lemma run_inv: "inv s \<Longrightarrow> inv (foldl step s es)"
  by (induction es arbitrary: s) (auto intro: step_inv)

lemma run_prefix_inv: "inv s \<Longrightarrow> inv (foldl step s (take n es))"
  by (rule run_inv)

end

text \<open>
  A machine refines another one when an abstraction function commutes with every step,
  on the states its invariant allows.
\<close>

locale refining_machine = invariant_machine step inv
  for step :: "'s \<Rightarrow> 'e \<Rightarrow> 's" and inv :: "'s \<Rightarrow> bool" +
  fixes astep :: "'a \<Rightarrow> 'e \<Rightarrow> 'a" and abs :: "'s \<Rightarrow> 'a"
  assumes step_refines: "inv s \<Longrightarrow> abs (step s e) = astep (abs s) e"
begin

lemma run_refines: "inv s \<Longrightarrow> abs (foldl step s es) = foldl astep (abs s) es"
proof (induction es arbitrary: s)
  case Nil
  then show ?case by simp
next
  case (Cons e es)
  then show ?case by (simp add: step_inv step_refines)
qed

end

text \<open>The results of a sequence of calls of an operation, and the state after them.\<close>

fun run_calls :: "('s \<Rightarrow> 'e \<Rightarrow> 'r \<times> 's) \<Rightarrow> 's \<Rightarrow> 'e list \<Rightarrow> 'r list \<times> 's" where
  "run_calls f s [] = ([], s)"
| "run_calls f s (e # es) =
     (case f s e of (r, s') \<Rightarrow> case run_calls f s' es of (rs, s'') \<Rightarrow> (r # rs, s''))"

lemma run_calls_Cons:
  "fst (run_calls f s (e # es)) = fst (f s e) # fst (run_calls f (snd (f s e)) es)"
  "snd (run_calls f s (e # es)) = snd (run_calls f (snd (f s e)) es)"
  by (simp_all add: case_prod_beta)

lemma run_calls_append:
  "fst (run_calls f s (xs @ ys)) = fst (run_calls f s xs) @ fst (run_calls f (snd (run_calls f s xs)) ys)"
  "snd (run_calls f s (xs @ ys)) = snd (run_calls f (snd (run_calls f s xs)) ys)"
  by (induction xs arbitrary: s) (simp_all add: case_prod_beta)

section \<open>Lists\<close>

lemma sum_list_filter_split:
  "sum_list (map f xs) =
     sum_list (map f (filter P xs)) + sum_list (map f (filter (\<lambda>x. \<not> P x) xs))"
  for f :: "'a \<Rightarrow> nat"
  by (induction xs) auto

lemma sum_list_dropWhile_le: "sum_list (map f (dropWhile P xs)) \<le> sum_list (map f xs)"
  for f :: "'a \<Rightarrow> nat"
  by (induction xs) auto

lemma filter_not_dropWhile: "filter (\<lambda>x. \<not> P x) (dropWhile P xs) = filter (\<lambda>x. \<not> P x) xs"
  by (induction xs) auto

lemma length_takeWhile_stops: "\<exists>x \<in> set xs. \<not> P x \<Longrightarrow> length (takeWhile P xs) < length xs"
  by (induction xs) auto

lemma split_at_first_eq:
  "x \<notin> set xs \<Longrightarrow> x \<notin> set ys \<Longrightarrow> xs @ x # xs' = ys @ x # ys' \<longleftrightarrow> xs = ys \<and> xs' = ys'"
proof (induction xs arbitrary: ys)
  case Nil
  then show ?case by (cases ys) auto
next
  case (Cons a xs)
  then show ?case by (cases ys) auto
qed

text \<open>Equality of two byte layouts of a constant length, offset by offset.\<close>

lemma list_eq_by_offsets:
  "length xs = n \<Longrightarrow> length ys = n \<Longrightarrow> list_all (\<lambda>i. xs ! i = ys ! i) [0..<n] \<Longrightarrow> xs = ys"
  by (auto simp: list_eq_iff_nth_eq list_all_iff)

text \<open>\<^verbatim>\<open>std::memcpy(out + off, src, n)\<close> on a buffer that has room for it.\<close>

definition memcpy_at :: "'a list \<Rightarrow> nat \<Rightarrow> 'a list \<Rightarrow> 'a list" where
  "memcpy_at out off src = take off out @ src @ drop (off + length src) out"

lemma length_memcpy_at [simp]:
  "off + length src \<le> length out \<Longrightarrow> length (memcpy_at out off src) = length out"
  by (simp add: memcpy_at_def)

section \<open>Words\<close>

lemma unat_less_pow: "unat (w :: 'a::len word) < 2 ^ LENGTH('a)"
  by (rule unsigned_less)

lemma word_and_one_bit: "(w AND push_bit n 1 \<noteq> 0) \<longleftrightarrow> bit w n" for w :: "'a::len word"
proof
  assume "bit w n"
  then have "bit (w AND push_bit n 1) n"
    using bit_imp_le_length [of w n] by (simp add: bit_and_iff bit_push_bit_iff del: push_bit_of_1)
  then show "w AND push_bit n 1 \<noteq> 0" by auto
next
  assume "w AND push_bit n 1 \<noteq> 0"
  then obtain k where "bit (w AND push_bit n 1) k"
    by (auto simp: bit_eq_iff)
  then show "bit w n"
    by (auto simp: bit_and_iff bit_push_bit_iff bit_1_iff simp del: push_bit_of_1)
qed

lemma word_diff_unat: "b \<le> a \<Longrightarrow> unat (a - b) = unat a - unat b" for a b :: "'a::len word"
  by (rule unat_sub)

lemma unat_ucast_up: "LENGTH('a) \<le> LENGTH('b) \<Longrightarrow> unat (ucast w :: 'b::len word) = unat w"
  for w :: "'a::len word"
  by (simp add: unsigned_ucast_eq take_bit_nat_eq_self_iff)
    (meson le_less_trans less_le_trans one_le_numeral order_refl power_increasing unat_less_pow)

lemma unat_take_bit: "unat (take_bit n b) = unat b mod 2 ^ n" for b :: "'a::len word"
  by (simp only: unsigned_take_bit_eq take_bit_eq_mod [of n "unat b"])

lemma unat_and_low: "unat (b AND mask n) = unat b mod 2 ^ n" for b :: "'a::len word"
  using unat_take_bit [of n b] by (simp only: take_bit_eq_mask)

lemma unat_and_high: "unat (b AND NOT (mask n)) = unat b div 2 ^ n * 2 ^ n" for b :: "'a::len word"
proof -
  have "b AND NOT (mask n) = push_bit n (drop_bit n b)"
    by (rule bit_word_eqI) (auto simp: bit_simps)
  then have *: "(b AND NOT (mask n)) + take_bit n b = b"
    by (simp only: bits_ident)
  have "take_bit n b \<le> b"
    by (simp only: take_bit_eq_mask word_and_le2)
  then have "unat (b - take_bit n b) = unat b - unat (take_bit n b)"
    by (simp only: unat_sub)
  moreover have "b AND NOT (mask n) = b - take_bit n b"
    using * by (metis add_diff_cancel_right')
  ultimately show ?thesis by (simp only: unat_take_bit minus_mod_eq_div_mult)
qed

text \<open>Shifting in the low bits of another value is multiplying and adding, while nothing is lost.\<close>

lemma unat_shift_in:
  fixes w v :: "'a::len word"
  assumes w: "(unat w + 1) * 2 ^ n \<le> 2 ^ LENGTH('a)" and v: "unat v < 2 ^ n"
  shows "unat (push_bit n w OR v) = unat w * 2 ^ n + unat v"
proof -
  have "push_bit n w AND v = 0"
  proof (rule bit_word_eqI)
    fix i
    have "i < n" if "bit v i"
    proof -
      from v have "take_bit n v = v"
        by (simp add: word_unat_eq_iff unat_take_bit)
      with that have "bit (take_bit n v) i" by simp
      then show ?thesis by (simp add: bit_take_bit_iff)
    qed
    then show "bit (push_bit n w AND v) i = bit 0 i"
      by (auto simp: bit_simps)
  qed
  then have "push_bit n w OR v = push_bit n w + v"
    by (simp only: disjunctive_add_eq_or)
  moreover have sum: "unat w * 2 ^ n + unat v < 2 ^ LENGTH('a)"
    using w v by (simp add: algebra_simps)
  moreover have "unat (push_bit n w) = unat w * 2 ^ n"
    using sum
    by (simp only: unsigned_push_bit_eq push_bit_eq_mult [of n "unat w"]
        take_bit_eq_mod [of _ "unat w * 2 ^ n"]) simp
  ultimately show ?thesis
    by (simp add: unat_word_ariths)
qed

end
