(* ===== verification/Wire.thy ===== *)
theory Wire
  imports Prelude
begin

text \<open>
  The wire format of \<^verbatim>\<open>core/include/server/core/protocol/packet.hpp\<close>: big-endian reads and
  writes at an offset of a byte buffer, the 14-byte frame header, segment classes, and the
  version rule of \<^verbatim>\<open>version.hpp\<close>. A C++ pointer \<open>p + k\<close> into a buffer is the buffer and the
  offset \<open>k\<close>. The lemmas show that every header of 14 bytes is read and written without loss, in
  both directions.
\<close>

section \<open>Big-endian helpers\<close>

definition read_be16 :: "bytes \<Rightarrow> nat \<Rightarrow> u16" where
  "read_be16 p i = push_bit 8 (ucast (p ! i)) OR ucast (p ! (i + 1))"

definition read_be32 :: "bytes \<Rightarrow> nat \<Rightarrow> u32" where
  "read_be32 p i =
     push_bit 24 (ucast (p ! i)) OR push_bit 16 (ucast (p ! (i + 1)))
     OR push_bit 8 (ucast (p ! (i + 2))) OR ucast (p ! (i + 3))"

definition write_be16 :: "u16 \<Rightarrow> nat \<Rightarrow> bytes \<Rightarrow> bytes" where
  "write_be16 v i out =
     out[i := ucast (drop_bit 8 v AND 0xFF), i + 1 := ucast (v AND 0xFF)]"

definition write_be32 :: "u32 \<Rightarrow> nat \<Rightarrow> bytes \<Rightarrow> bytes" where
  "write_be32 v i out =
     out[i := ucast (drop_bit 24 v AND 0xFF), i + 1 := ucast (drop_bit 16 v AND 0xFF),
         i + 2 := ucast (drop_bit 8 v AND 0xFF), i + 3 := ucast (v AND 0xFF)]"

section \<open>Frame header\<close>

abbreviation k_header_bytes :: nat where
  "k_header_bytes \<equiv> 14"

record PacketHeader =
  hdr_length :: u16
  hdr_msg_id :: u16
  hdr_flags :: u16
  hdr_seq :: u32
  hdr_utc_ts_ms32 :: u32

definition encode_header :: "PacketHeader \<Rightarrow> bytes \<Rightarrow> bytes" where
  "encode_header h out14 =
     (let out = write_be16 (hdr_length h) 0 out14;
          out = write_be16 (hdr_msg_id h) 2 out;
          out = write_be16 (hdr_flags h) 4 out;
          out = write_be32 (hdr_seq h) 6 out
      in write_be32 (hdr_utc_ts_ms32 h) 10 out)"

definition decode_header :: "bytes \<Rightarrow> PacketHeader" where
  "decode_header in14 =
     \<lparr>hdr_length = read_be16 in14 0, hdr_msg_id = read_be16 in14 2, hdr_flags = read_be16 in14 4,
      hdr_seq = read_be32 in14 6, hdr_utc_ts_ms32 = read_be32 in14 10\<rparr>"

datatype SegmentType = SegUnknown | SegSystemControl | SegApplicationPayload

definition is_system_msg_id :: "u16 \<Rightarrow> bool" where
  "is_system_msg_id msg_id \<longleftrightarrow> 0x0001 \<le> msg_id \<and> msg_id \<le> 0x000F"

definition classify_segment_type :: "u16 \<Rightarrow> SegmentType" where
  "classify_segment_type msg_id =
     (if is_system_msg_id msg_id then SegSystemControl else SegApplicationPayload)"

definition kProtocolVersionMajor :: u16 where "kProtocolVersionMajor = 1"

definition kProtocolVersionMinor :: u16 where "kProtocolVersionMinor = 1"

definition is_protocol_version_compatible :: "u16 \<Rightarrow> u16 \<Rightarrow> bool" where
  "is_protocol_version_compatible client_major client_minor \<longleftrightarrow>
     client_major = kProtocolVersionMajor \<and> client_minor \<le> kProtocolVersionMinor"

section \<open>Byte lanes of a word\<close>

lemma FF_mask8: "(0xFF :: 'a::len word) = mask 8"
  by (simp add: mask_eq_exp_minus_1)

lemma FFFFFFFF_mask32: "(0xFFFFFFFF :: 'a::len word) = mask 32"
  by (simp add: mask_eq_exp_minus_1)

lemma join_be16:
  "push_bit 8 (ucast (ucast (drop_bit 8 v AND 0xFF) :: u8)) OR ucast (ucast (v AND 0xFF) :: u8) = v"
  for v :: u16
  unfolding FF_mask8 by (rule bit_word_eqI) (auto simp: bit_simps)

lemma split_be16:
  fixes a b :: u8
  shows "ucast (drop_bit 8 (push_bit 8 (ucast a) OR ucast b :: u16) AND 0xFF) = a"
    and "ucast ((push_bit 8 (ucast a) OR ucast b :: u16) AND 0xFF) = b"
  unfolding FF_mask8
  by (rule bit_word_eqI, auto simp: bit_simps dest: bit_imp_le_length)+

lemma join_be32:
  "push_bit 24 (ucast (ucast (drop_bit 24 v AND 0xFF) :: u8))
   OR push_bit 16 (ucast (ucast (drop_bit 16 v AND 0xFF) :: u8))
   OR push_bit 8 (ucast (ucast (drop_bit 8 v AND 0xFF) :: u8))
   OR ucast (ucast (v AND 0xFF) :: u8) = v" (is "?w = v") for v :: u32
proof (rule bit_word_eqI)
  fix n
  assume "n < LENGTH(32)"
  then consider "n < 8" | "8 \<le> n" "n < 16" | "16 \<le> n" "n < 24" | "24 \<le> n" "n < 32"
    by fastforce
  then show "bit ?w n = bit v n"
    unfolding FF_mask8 by cases (auto simp: bit_simps less_diff_conv2)
qed

lemma split_be32:
  fixes a b c d :: u8
  defines "w \<equiv> push_bit 24 (ucast a) OR push_bit 16 (ucast b) OR push_bit 8 (ucast c) OR ucast d :: u32"
  shows "ucast (drop_bit 24 w AND 0xFF) = a" and "ucast (drop_bit 16 w AND 0xFF) = b"
    and "ucast (drop_bit 8 w AND 0xFF) = c" and "ucast (w AND 0xFF) = d"
  unfolding FF_mask8 w_def
  by (rule bit_word_eqI, auto simp: bit_simps dest: bit_imp_le_length)+

lemma join_be64:
  "push_bit 32 (ucast (ucast (drop_bit 32 v AND 0xFFFFFFFF) :: u32))
   OR ucast (ucast (v AND 0xFFFFFFFF) :: u32) = v" for v :: u64
  unfolding FFFFFFFF_mask32 by (rule bit_word_eqI) (auto simp: bit_simps)

lemma split_be64:
  fixes a b :: u32
  shows "ucast (drop_bit 32 (push_bit 32 (ucast a) OR ucast b :: u64) AND 0xFFFFFFFF) = a"
    and "ucast ((push_bit 32 (ucast a) OR ucast b :: u64) AND 0xFFFFFFFF) = b"
  unfolding FFFFFFFF_mask32
  by (rule bit_word_eqI, auto simp: bit_simps dest: bit_imp_le_length)+

section \<open>Reads over writes\<close>

lemma length_write_be16 [simp]: "length (write_be16 v i out) = length out"
  by (simp add: write_be16_def)

lemma length_write_be32 [simp]: "length (write_be32 v i out) = length out"
  by (simp add: write_be32_def)

lemma nth_write_be16:
  "i + 1 < length out \<Longrightarrow>
     write_be16 v i out ! j =
       (if j = i then ucast (drop_bit 8 v AND 0xFF)
        else if j = i + 1 then ucast (v AND 0xFF) else out ! j)"
  by (auto simp: write_be16_def nth_list_update)

lemma nth_write_be32:
  "i + 3 < length out \<Longrightarrow>
     write_be32 v i out ! j =
       (if j = i then ucast (drop_bit 24 v AND 0xFF)
        else if j = i + 1 then ucast (drop_bit 16 v AND 0xFF)
        else if j = i + 2 then ucast (drop_bit 8 v AND 0xFF)
        else if j = i + 3 then ucast (v AND 0xFF) else out ! j)"
  by (auto simp: write_be32_def nth_list_update)

lemma read_write_be16: "i + 1 < length out \<Longrightarrow> read_be16 (write_be16 v i out) i = v"
  by (simp add: read_be16_def nth_write_be16 join_be16)

lemma read_write_be32: "i + 3 < length out \<Longrightarrow> read_be32 (write_be32 v i out) i = v"
  by (simp add: read_be32_def nth_write_be32 join_be32)

text \<open>A field written elsewhere is not seen by a read.\<close>

lemma read_be16_write_be16_other:
  "j + 1 < length out \<Longrightarrow> i + 1 < j \<or> j + 1 < i \<Longrightarrow>
     read_be16 (write_be16 v j out) i = read_be16 out i"
  by (auto simp: read_be16_def nth_write_be16)

lemma read_be16_write_be32_other:
  "j + 3 < length out \<Longrightarrow> i + 1 < j \<or> j + 3 < i \<Longrightarrow>
     read_be16 (write_be32 v j out) i = read_be16 out i"
  by (auto simp: read_be16_def nth_write_be32)

lemma read_be32_write_be16_other:
  "j + 1 < length out \<Longrightarrow> i + 3 < j \<or> j + 1 < i \<Longrightarrow>
     read_be32 (write_be16 v j out) i = read_be32 out i"
  by (auto simp: read_be32_def nth_write_be16)

lemma read_be32_write_be32_other:
  "j + 3 < length out \<Longrightarrow> i + 3 < j \<or> j + 3 < i \<Longrightarrow>
     read_be32 (write_be32 v j out) i = read_be32 out i"
  by (auto simp: read_be32_def nth_write_be32)

text \<open>The bytes that writing a value read from a buffer puts back.\<close>

lemma nth_write_read_be16:
  "i + 1 < length out \<Longrightarrow>
     write_be16 (read_be16 p k) i out ! j =
       (if j = i then p ! k else if j = i + 1 then p ! (k + 1) else out ! j)"
  by (simp only: nth_write_be16 read_be16_def split_be16)

lemma nth_write_read_be32:
  "i + 3 < length out \<Longrightarrow>
     write_be32 (read_be32 p k) i out ! j =
       (if j = i then p ! k else if j = i + 1 then p ! (k + 1)
        else if j = i + 2 then p ! (k + 2) else if j = i + 3 then p ! (k + 3) else out ! j)"
  by (simp only: nth_write_be32 read_be32_def split_be32)

lemmas read_over_write [codec_simps] =
  read_write_be16 read_write_be32 read_be16_write_be16_other read_be16_write_be32_other
  read_be32_write_be16_other read_be32_write_be32_other

lemma read_be16_append: "i + 1 < length p \<Longrightarrow> read_be16 (p @ q) i = read_be16 p i"
  by (simp add: read_be16_def nth_append)

lemma read_be32_append: "i + 3 < length p \<Longrightarrow> read_be32 (p @ q) i = read_be32 p i"
  by (simp add: read_be32_def nth_append)

lemma length_encode_header [simp]: "length (encode_header h out) = length out"
  by (simp add: encode_header_def Let_def)

lemma decode_encode_header:
  "k_header_bytes \<le> length out \<Longrightarrow> decode_header (encode_header h out) = h"
  by (simp add: decode_header_def encode_header_def Let_def codec_simps)

lemma decode_header_append:
  "k_header_bytes \<le> length p \<Longrightarrow> decode_header (p @ q) = decode_header p"
  by (simp add: decode_header_def read_be16_append read_be32_append)

lemma upt_14: "[0..<14] = [0, 1, 2, 3, 4, 5, 6, 7, 8, 9, 10, 11, 12, 13]"
  by (simp add: upt_rec)

lemma encode_decode_header:
  assumes "k_header_bytes \<le> length bs" and "length out = k_header_bytes"
  shows "encode_header (decode_header bs) out = take k_header_bytes bs"
proof (rule list_eq_by_offsets [where n = k_header_bytes])
  show "list_all (\<lambda>i. encode_header (decode_header bs) out ! i = take k_header_bytes bs ! i)
          [0..<k_header_bytes]"
    using assms
    by (simp add: upt_14 decode_header_def encode_header_def Let_def nth_write_read_be16
        nth_write_read_be32)
qed (use assms in simp_all)

text \<open>The header codec, on a fresh 14-byte buffer.\<close>

definition header_bytes :: "PacketHeader \<Rightarrow> bytes" where
  "header_bytes h = encode_header h (replicate k_header_bytes 0)"

interpretation header_codec: fixed_codec header_bytes decode_header k_header_bytes
proof
  fix h rest
  show "length (header_bytes h) = k_header_bytes"
    by (simp add: header_bytes_def)
  show "decode_header (header_bytes h @ rest) = h"
    by (simp add: header_bytes_def decode_header_append decode_encode_header)
next
  fix bs :: bytes
  assume "k_header_bytes \<le> length bs"
  then show "header_bytes (decode_header bs) = take k_header_bytes bs"
    by (simp add: header_bytes_def encode_decode_header)
qed


text \<open>
  C18. The frame header loses nothing: a header written into any buffer of at least 14 bytes is read back field for field, and
  the first 14 bytes of any buffer are what encoding the header read from them writes.
\<close>

theorem header_roundtrip:
  assumes "k_header_bytes \<le> length bs"
  shows "decode_header (encode_header h bs) = h \<and>
    encode_header (decode_header bs) (replicate k_header_bytes 0) = take k_header_bytes bs"
  using assms decode_encode_header [of bs h] encode_decode_header [of bs] by simp

theorem header_roundtrip_witness:
  "encode_header (decode_header [0, 1, 2, 3, 4, 5, 6, 7, 8, 9, 10, 11, 12, 13, 14]) (replicate 14 0)
     = [0, 1, 2, 3, 4, 5, 6, 7, 8, 9, 10, 11, 12, 13]"
  using header_roundtrip [of "[0, 1, 2, 3, 4, 5, 6, 7, 8, 9, 10, 11, 12, 13, 14]"] by simp

text \<open>A stream of frames is cut in one way only: two concatenations of a header and a rest are the same bytes
  exactly when the headers and the rests are.
\<close>

theorem header_stream_unambiguous:
  "header_bytes h1 @ rest1 = header_bytes h2 @ rest2 \<longleftrightarrow> h1 = h2 \<and> rest1 = rest2"
  by (rule header_codec.enc_append_inject)

end
