(* ===== verification/Utf8.thy ===== *)
theory Utf8
  imports Wire
begin

text \<open>
  The strict UTF-8 check and the length-prefixed strings of
  \<^verbatim>\<open>core/include/server/core/protocol/packet.hpp\<close>. The byte loop of \<open>is_valid_utf8\<close> is related to
  a reference encoder of Unicode scalar values: it accepts exactly the encodings of lists
  of scalar values. Strings written with \<open>write_lp_utf8\<close> are read back by
  \<open>read_lp_utf8\<close> as long as they need no truncation.
\<close>

section \<open>The validator\<close>

text \<open>The lead byte: number of continuation bytes, payload bits, smallest code point allowed.\<close>

definition utf8_lead :: "u8 \<Rightarrow> (nat \<times> u32 \<times> u32) option" where
  "utf8_lead byte0 =
     (if byte0 AND 0xE0 = 0xC0 then Some (1, ucast (byte0 AND 0x1F), 0x80)
      else if byte0 AND 0xF0 = 0xE0 then Some (2, ucast (byte0 AND 0x0F), 0x800)
      else if byte0 AND 0xF8 = 0xF0 then Some (3, ucast (byte0 AND 0x07), 0x10000)
      else None)"

text \<open>The inner loop over the continuation bytes \<open>s[p], s[p + 1], \<dots>\<close>.\<close>

fun utf8_continue :: "bytes \<Rightarrow> nat \<Rightarrow> nat \<Rightarrow> u32 \<Rightarrow> u32 option" where
  "utf8_continue s p 0 codepoint = Some codepoint"
| "utf8_continue s p (Suc k) codepoint =
     (if s ! p AND 0xC0 \<noteq> 0x80 then None
      else utf8_continue s (p + 1) k (push_bit 6 codepoint OR ucast (s ! p AND 0x3F)))"

text \<open>One iteration of the outer loop at \<open>i < n\<close>: the next index, or \<open>None\<close> for \<open>return false\<close>.\<close>

definition utf8_next :: "bytes \<Rightarrow> nat \<Rightarrow> nat option" where
  "utf8_next s i =
     (if s ! i < 0x80 then Some (i + 1)
      else case utf8_lead (s ! i) of
        None \<Rightarrow> None
      | Some (follow, cp0, min_codepoint) \<Rightarrow>
          if length s \<le> i + follow then None
          else case utf8_continue s (i + 1) follow cp0 of
            None \<Rightarrow> None
          | Some codepoint \<Rightarrow>
              if codepoint < min_codepoint then None
              else if 0x10FFFF < codepoint then None
              else if 0xD800 \<le> codepoint \<and> codepoint \<le> 0xDFFF then None
              else Some (i + follow + 1))"

lemma utf8_next_greater: "utf8_next s i = Some j \<Longrightarrow> i < j"
  by (auto simp: utf8_next_def split: if_splits option.splits prod.splits)

function utf8_loop :: "bytes \<Rightarrow> nat \<Rightarrow> bool" where
  "utf8_loop s i =
     (if i < length s then (case utf8_next s i of None \<Rightarrow> False | Some j \<Rightarrow> utf8_loop s j)
      else True)"
  by pat_completeness auto
termination
  by (relation "measure (\<lambda>(s, i). length s - i)") (auto dest: utf8_next_greater)

declare utf8_loop.simps [simp del]

definition is_valid_utf8 :: "bytes \<Rightarrow> bool" where
  "is_valid_utf8 s = utf8_loop s 0"

section \<open>Length-prefixed strings\<close>

definition write_lp_utf8 :: "bytes \<Rightarrow> bytes \<Rightarrow> bytes" where
  "write_lp_utf8 out str =
     (let str = (if length str > 0xFFFF then take 0xFFFF str else str);
          len = (of_nat (length str) :: u16);
          offset = length out;
          out = out @ replicate (2 + unat len) 0;
          out = write_be16 len offset out
      in if len \<noteq> 0 then memcpy_at out (offset + 2) str else out)"

text \<open>The string read and the rest of the input, or \<open>None\<close> for \<open>false\<close>.\<close>

definition read_lp_utf8 :: "bytes \<Rightarrow> (bytes \<times> bytes) option" where
  "read_lp_utf8 input =
     (if length input < 2 then None
      else let len = unat (read_be16 input 0) in
        if length input < 2 + len then None
        else let payload = take len (drop 2 input) in
          if \<not> is_valid_utf8 payload then None
          else Some (payload, drop (2 + len) input))"

section \<open>Reference encoder\<close>

definition unicode_scalar :: "nat \<Rightarrow> bool" where
  "unicode_scalar c \<longleftrightarrow> c \<le> 0x10FFFF \<and> \<not> (0xD800 \<le> c \<and> c \<le> 0xDFFF)"

definition utf8_units :: "nat \<Rightarrow> nat list" where
  "utf8_units c =
     (if c < 0x80 then [c]
      else if c < 0x800 then [192 + c div 64, 128 + c mod 64]
      else if c < 0x10000 then [224 + c div 4096, 128 + c div 64 mod 64, 128 + c mod 64]
      else [240 + c div 262144, 128 + c div 4096 mod 64, 128 + c div 64 mod 64, 128 + c mod 64])"

definition utf8_encode :: "nat \<Rightarrow> bytes" where
  "utf8_encode c = map of_nat (utf8_units c)"

section \<open>Byte classes\<close>

lemma and_high_eq_iff: "b AND NOT (mask n) = v \<longleftrightarrow> unat b div 2 ^ n * 2 ^ n = unat v"
  for b v :: "'a::len word"
  by (simp only: word_unat_eq_iff unat_and_high)

lemma high_masks:
  "(0xC0 :: u8) = NOT (mask 6)" "(0xE0 :: u8) = NOT (mask 5)"
  "(0xF0 :: u8) = NOT (mask 4)" "(0xF8 :: u8) = NOT (mask 3)"
  by (simp_all add: mask_eq_exp_minus_1)

lemma is_lead2: "b AND 0xE0 = 0xC0 \<longleftrightarrow> 192 \<le> unat b \<and> unat b < 224" for b :: u8
  unfolding high_masks(2) and_high_eq_iff by (auto; linarith)

lemma is_lead3: "b AND 0xF0 = 0xE0 \<longleftrightarrow> 224 \<le> unat b \<and> unat b < 240" for b :: u8
  unfolding high_masks(3) and_high_eq_iff by (auto; linarith)

lemma is_lead4: "b AND 0xF8 = 0xF0 \<longleftrightarrow> 240 \<le> unat b \<and> unat b < 248" for b :: u8
  unfolding high_masks(4) and_high_eq_iff by (auto; linarith)

lemma is_cont: "b AND 0xC0 = 0x80 \<longleftrightarrow> 128 \<le> unat b \<and> unat b < 192" for b :: u8
  unfolding high_masks(1) and_high_eq_iff by (auto; linarith)

lemma low_masks:
  "(0x3F :: u8) = mask 6" "(0x1F :: u8) = mask 5" "(0x0F :: u8) = mask 4" "(0x07 :: u8) = mask 3"
  by (simp_all add: mask_eq_exp_minus_1)

lemma unat_ucast_u8_u32 [simp]: "unat (ucast b :: u32) = unat b" for b :: u8
  by (simp add: unsigned_ucast_eq take_bit_nat_eq_self_iff order_less_trans [OF unat_less_pow])

lemma unat_lead_bits:
  fixes b :: u8
  shows "unat (b AND 0x1F) = unat b mod 32" and "unat (b AND 0x0F) = unat b mod 16"
    and "unat (b AND 0x07) = unat b mod 8" and "unat (b AND 0x3F) = unat b mod 64"
  unfolding low_masks unat_and_low by simp_all

lemma unat_continuation:
  fixes b :: u8
  assumes "unat codepoint < 2 ^ 26"
  shows "unat (push_bit 6 codepoint OR ucast (b AND 0x3F) :: u32) = unat codepoint * 64 + unat b mod 64"
proof -
  have "unat (push_bit 6 codepoint OR ucast (b AND 0x3F) :: u32)
      = unat codepoint * 2 ^ 6 + unat (ucast (b AND 0x3F) :: u32)"
    by (rule unat_shift_in) (use assms in \<open>simp_all add: unat_lead_bits\<close>)
  then show ?thesis by (simp add: unat_lead_bits)
qed

section \<open>One iteration of the loop, on natural numbers\<close>

text \<open>The value of the continuation bytes as a number; the 32-bit accumulator never overflows.\<close>

abbreviation cont_byte :: "u8 \<Rightarrow> bool" where
  "cont_byte b \<equiv> 128 \<le> unat b \<and> unat b < 192"

fun cont_value :: "bytes \<Rightarrow> nat \<Rightarrow> nat \<Rightarrow> nat \<Rightarrow> nat option" where
  "cont_value s p 0 acc = Some acc"
| "cont_value s p (Suc k) acc =
     (if cont_byte (s ! p) then cont_value s (p + 1) k (acc * 64 + (unat (s ! p) - 128)) else None)"

lemma cont_value_unroll:
  "cont_value s p 1 acc = (if cont_byte (s ! p) then Some (acc * 64 + (unat (s ! p) - 128)) else None)"
  "cont_value s p 2 acc =
     (if cont_byte (s ! p) then cont_value s (p + 1) 1 (acc * 64 + (unat (s ! p) - 128)) else None)"
  "cont_value s p 3 acc =
     (if cont_byte (s ! p) then cont_value s (p + 1) 2 (acc * 64 + (unat (s ! p) - 128)) else None)"
  by (simp_all add: numeral_2_eq_2 numeral_3_eq_3)

lemma mod_offset: "k * m \<le> x \<Longrightarrow> x < k * m + m \<Longrightarrow> x mod m = x - k * m" for x :: nat
proof -
  assume "k * m \<le> x" "x < k * m + m"
  then obtain y where "x = k * m + y" and "y < m" by (auto dest: le_Suc_ex)
  then show ?thesis by simp
qed

lemma cont_byte_low: "cont_byte b \<Longrightarrow> unat b mod 64 = unat b - 128"
  using mod_offset [of 2 64 "unat b"] by simp

lemma utf8_continue_value:
  "(unat cp + 1) * 64 ^ k \<le> 2 ^ 32 \<Longrightarrow>
     map_option unat (utf8_continue s p k cp) = cont_value s p k (unat cp)"
proof (induction k arbitrary: p cp)
  case 0
  then show ?case by simp
next
  case (Suc k)
  show ?case
  proof (cases "cont_byte (s ! p)")
    case True
    have "(unat cp + 1) * 64 \<le> (unat cp + 1) * 64 ^ Suc k"
      by (intro mult_le_mono2 self_le_power) simp_all
    then have "(unat cp + 1) * 64 \<le> 2 ^ 32" using Suc.prems by (rule order_trans)
    then have "unat cp < 2 ^ 26" by simp
    then have v: "unat (push_bit 6 cp OR ucast (s ! p AND 0x3F) :: u32)
        = unat cp * 64 + (unat (s ! p) - 128)"
      using True by (simp add: unat_continuation cont_byte_low)
    have "(unat cp * 64 + (unat (s ! p) - 128) + 1) * 64 ^ k \<le> ((unat cp + 1) * 64) * 64 ^ k"
      using True by (intro mult_le_mono1) (auto simp: algebra_simps)
    then have "(unat (push_bit 6 cp OR ucast (s ! p AND 0x3F) :: u32) + 1) * 64 ^ k \<le> 2 ^ 32"
      using Suc.prems unfolding v by (simp add: algebra_simps)
    then show ?thesis
      using True Suc.IH [of "push_bit 6 cp OR ucast (s ! p AND 0x3F)" "p + 1"]
      by (simp add: is_cont v)
  next
    case False
    then show ?thesis by (auto simp: is_cont)
  qed
qed


lemma utf8_lead_classes:
  "unat b < 192 \<or> 248 \<le> unat b \<Longrightarrow> utf8_lead b = None"
  "192 \<le> unat b \<Longrightarrow> unat b < 224 \<Longrightarrow> utf8_lead b = Some (1, ucast (b AND 0x1F), 0x80)"
  "224 \<le> unat b \<Longrightarrow> unat b < 240 \<Longrightarrow> utf8_lead b = Some (2, ucast (b AND 0x0F), 0x800)"
  "240 \<le> unat b \<Longrightarrow> unat b < 248 \<Longrightarrow> utf8_lead b = Some (3, ucast (b AND 0x07), 0x10000)"
  by (auto simp: utf8_lead_def is_lead2 is_lead3 is_lead4)

text \<open>The body after the lead byte, for any lead whose accumulator has room.\<close>

lemma utf8_next_multi:
  assumes "utf8_lead (s ! i) = Some (follow, cp0, m)" and "\<not> s ! i < 0x80"
    and "(unat cp0 + 1) * 64 ^ follow \<le> 2 ^ 32"
  shows "utf8_next s i =
    (if length s \<le> i + follow then None
     else case cont_value s (i + 1) follow (unat cp0) of None \<Rightarrow> None
     | Some c \<Rightarrow> if c < unat m \<or> \<not> unicode_scalar c then None else Some (i + follow + 1))"
proof -
  have v: "map_option unat (utf8_continue s (i + 1) follow cp0) = cont_value s (i + 1) follow (unat cp0)"
    using assms(3) by (rule utf8_continue_value)
  show ?thesis
  proof (cases "utf8_continue s (i + 1) follow cp0")
    case None
    with assms v show ?thesis by (simp add: utf8_next_def)
  next
    case (Some cp)
    with assms v show ?thesis
      by (auto simp: utf8_next_def word_less_nat_alt word_le_nat_alt unicode_scalar_def
          split: option.splits)
  qed
qed

lemma not_ascii_iff: "\<not> b < 0x80 \<longleftrightarrow> 128 \<le> unat b" for b :: u8
  by (simp add: word_less_nat_alt not_less)

text \<open>\<open>c\<close> is encoded at index \<open>i\<close> of \<open>s\<close>.\<close>

definition scalar_at :: "bytes \<Rightarrow> nat \<Rightarrow> nat \<Rightarrow> bool" where
  "scalar_at s i c \<longleftrightarrow> unicode_scalar c \<and> i + length (utf8_units c) \<le> length s \<and>
     list_all (\<lambda>k. unat (s ! (i + k)) = utf8_units c ! k) [0..<length (utf8_units c)]"

lemmas next2 = utf8_next_multi [OF utf8_lead_classes(2)]
  and next3 = utf8_next_multi [OF utf8_lead_classes(3)]
  and next4 = utf8_next_multi [OF utf8_lead_classes(4)]

lemma mod_of_range:
  "192 \<le> x \<Longrightarrow> x < 224 \<Longrightarrow> x mod 32 = x - 192" "224 \<le> x \<Longrightarrow> x < 240 \<Longrightarrow> x mod 16 = x - 224"
  "240 \<le> x \<Longrightarrow> x < 248 \<Longrightarrow> x mod 8 = x - 240" for x :: nat
  using mod_offset [of 6 32 x] mod_offset [of 14 16 x] mod_offset [of 30 8 x] by simp_all

lemma recompose_2: "c div 64 * 64 + c mod 64 = c" for c :: nat
  by simp

lemma recompose_3: "(c div 4096 * 64 + c div 64 mod 64) * 64 + c mod 64 = c" for c :: nat
  using div_mult2_eq [of c 64 64] by simp

lemma recompose_4:
  "((c div 262144 * 64 + c div 4096 mod 64) * 64 + c div 64 mod 64) * 64 + c mod 64 = c" for c :: nat
  using div_mult2_eq [of c 64 4096] div_mult2_eq [of c 64 64] recompose_3 [of "c div 64"] by simp

lemma utf8_next_of_scalar:
  assumes "scalar_at s i c"
  shows "utf8_next s i = Some (i + length (utf8_units c))"
proof -
  consider "c < 0x80" | "0x80 \<le> c" "c < 0x800" | "0x800 \<le> c" "c < 0x10000" | "0x10000 \<le> c"
    by linarith
  then show ?thesis
  proof cases
    case 1
    with assms show ?thesis
      by (simp add: scalar_at_def utf8_units_def utf8_next_def word_less_nat_alt)
  next
    case 2
    then have "c div 64 < 32" by (simp add: less_mult_imp_div_less)
    with 2 assms show ?thesis
      by (simp add: scalar_at_def utf8_units_def upt_rec next2 not_ascii_iff unat_lead_bits
          mod_of_range cont_value_unroll)
  next
    case 3
    then have "c div 4096 < 16" by (simp add: less_mult_imp_div_less)
    with 3 assms recompose_3 [of c] show ?thesis
      by (simp add: scalar_at_def utf8_units_def upt_rec next3 not_ascii_iff unat_lead_bits
          mod_of_range cont_value_unroll)
  next
    case 4
    then have "c div 262144 < 8"
      using assms by (simp add: less_mult_imp_div_less scalar_at_def unicode_scalar_def)
    with 4 assms recompose_4 [of c] show ?thesis
      by (simp add: scalar_at_def utf8_units_def upt_rec next4 not_ascii_iff unat_lead_bits
          mod_of_range cont_value_unroll)
  qed
qed

text \<open>The units of a number given by its 6-bit groups.\<close>

lemma div_groups: "c div 4096 = c div 64 div 64" "c div 262144 = c div 64 div 64 div 64" for c :: nat
  using div_mult2_eq [of c 64 64] div_mult2_eq [of "c" 4096 64] by simp_all

lemma utf8_units_groups:
  assumes c: "c = q * 64 + d" and d: "d < 64"
  shows "q < 32 \<Longrightarrow> 0x80 \<le> c \<Longrightarrow> utf8_units c = [192 + q, 128 + d]"
    and "q = a * 64 + b \<Longrightarrow> b < 64 \<Longrightarrow> a < 16 \<Longrightarrow> 0x800 \<le> c \<Longrightarrow>
           utf8_units c = [224 + a, 128 + b, 128 + d]"
    and "q = r * 64 + b \<Longrightarrow> b < 64 \<Longrightarrow> r = a * 64 + e \<Longrightarrow> e < 64 \<Longrightarrow> 0x10000 \<le> c \<Longrightarrow>
           utf8_units c = [240 + a, 128 + e, 128 + b, 128 + d]"
proof -
  have cd: "c mod 64 = d" "c div 64 = q" using c d by simp_all
  {
    assume "q < 32" "0x80 \<le> c"
    then have "c < 0x800" using c d by simp
    with \<open>0x80 \<le> c\<close> cd show "utf8_units c = [192 + q, 128 + d]"
      by (simp add: utf8_units_def)
  next
    assume *: "q = a * 64 + b" "b < 64" "a < 16" "0x800 \<le> c"
    have "q mod 64 = b" "q div 64 = a" using * by simp_all
    moreover have "c < 0x10000" using * c d by simp
    ultimately show "utf8_units c = [224 + a, 128 + b, 128 + d]"
      using * cd by (simp add: utf8_units_def div_groups)
  next
    assume *: "q = r * 64 + b" "b < 64" "r = a * 64 + e" "e < 64" "0x10000 \<le> c"
    have "q mod 64 = b" "q div 64 = r" using *(1,2) by simp_all
    moreover have "r mod 64 = e" "r div 64 = a" using * by simp_all
    ultimately show "utf8_units c = [240 + a, 128 + e, 128 + b, 128 + d]"
      using * cd by (simp add: utf8_units_def div_groups)
  }
qed

lemma cont_byte_obtain:
  assumes "cont_byte b"
  obtains d where "unat b = 128 + d" and "d < 64"
  using assms that [of "unat b - 128"] by auto

lemmas next_simps = not_ascii_iff unat_lead_bits mod_of_range cont_value_unroll numeral_3_eq_3

lemma scalar_of_next2:
  assumes x: "192 \<le> unat (s ! i)" "unat (s ! i) < 224" and nx: "utf8_next s i = Some j"
  shows "\<exists>c. scalar_at s i c \<and> j = i + length (utf8_units c)"
proof -
  define q where "q = unat (s ! i) - 192"
  have q: "unat (s ! i) = 192 + q" "q < 32" using x by (auto simp: q_def)
  have len: "i + 1 < length s" and cont: "cont_byte (s ! (i + 1))"
    using nx x by (auto simp: next2 next_simps split: if_splits)
  from cont obtain d where d: "unat (s ! (i + 1)) = 128 + d" "d < 64"
    by (rule cont_byte_obtain)
  define c where "c = q * 64 + d"
  have c: "0x80 \<le> c" "unicode_scalar c" "j = i + 2"
    using nx q d len by (auto simp: next2 next_simps c_def split: if_splits)
  have "utf8_units c = [192 + q, 128 + d]"
    by (rule utf8_units_groups(1)) (use d q c in \<open>simp_all add: c_def\<close>)
  then have "scalar_at s i c \<and> j = i + length (utf8_units c)"
    using q d c len by (simp add: scalar_at_def upt_rec numeral_3_eq_3)
  then show ?thesis by blast
qed

lemma scalar_of_next3:
  assumes x: "224 \<le> unat (s ! i)" "unat (s ! i) < 240" and nx: "utf8_next s i = Some j"
  shows "\<exists>c. scalar_at s i c \<and> j = i + length (utf8_units c)"
proof -
  define a where "a = unat (s ! i) - 224"
  have a: "unat (s ! i) = 224 + a" "a < 16" using x by (auto simp: a_def)
  have len: "i + 2 < length s" and cont: "cont_byte (s ! (i + 1))" "cont_byte (s ! (i + 2))"
    using nx x by (auto simp: next3 next_simps split: if_splits)
  from cont obtain b d where b: "unat (s ! (i + 1)) = 128 + b" "b < 64"
    and d: "unat (s ! (i + 2)) = 128 + d" "d < 64"
    by (metis cont_byte_obtain)
  define c where "c = (a * 64 + b) * 64 + d"
  have c: "0x800 \<le> c" "unicode_scalar c" "j = i + 3"
    using nx a b d len by (auto simp: next3 next_simps c_def split: if_splits)
  have "utf8_units c = [224 + a, 128 + b, 128 + d]"
    by (rule utf8_units_groups(2) [where q = "a * 64 + b"])
      (use a b d c in \<open>simp_all add: c_def\<close>)
  then have "scalar_at s i c \<and> j = i + length (utf8_units c)"
    using a b d c len by (simp add: scalar_at_def upt_rec numeral_3_eq_3)
  then show ?thesis by blast
qed

lemma scalar_of_next4:
  assumes x: "240 \<le> unat (s ! i)" "unat (s ! i) < 248" and nx: "utf8_next s i = Some j"
  shows "\<exists>c. scalar_at s i c \<and> j = i + length (utf8_units c)"
proof -
  define a where "a = unat (s ! i) - 240"
  have a: "unat (s ! i) = 240 + a" "a < 8" using x by (auto simp: a_def)
  have len: "i + 3 < length s"
    and cont: "cont_byte (s ! (i + 1))" "cont_byte (s ! (i + 2))" "cont_byte (s ! (i + 3))"
    using nx x by (auto simp: next4 next_simps split: if_splits)
  from cont obtain e b d where e: "unat (s ! (i + 1)) = 128 + e" "e < 64"
    and b: "unat (s ! (i + 2)) = 128 + b" "b < 64" and d: "unat (s ! (i + 3)) = 128 + d" "d < 64"
    by (metis cont_byte_obtain)
  define c where "c = ((a * 64 + e) * 64 + b) * 64 + d"
  have c: "0x10000 \<le> c" "unicode_scalar c" "j = i + 4"
    using nx a e b d len by (auto simp: next4 next_simps c_def split: if_splits)
  have "utf8_units c = [240 + a, 128 + e, 128 + b, 128 + d]"
    by (rule utf8_units_groups(3) [where q = "(a * 64 + e) * 64 + b" and r = "a * 64 + e"])
      (use a e b d c in \<open>simp_all add: c_def\<close>)
  then have "scalar_at s i c \<and> j = i + length (utf8_units c)"
    using a e b d c len by (simp add: scalar_at_def upt_rec numeral_3_eq_3)
  then show ?thesis by blast
qed

lemma scalar_of_utf8_next:
  assumes "i < length s" and nx: "utf8_next s i = Some j"
  shows "\<exists>c. scalar_at s i c \<and> j = i + length (utf8_units c)"
proof -
  let ?x = "unat (s ! i)"
  consider "?x < 128" | "128 \<le> ?x" "?x < 192 \<or> 248 \<le> ?x" | "192 \<le> ?x" "?x < 224"
    | "224 \<le> ?x" "?x < 240" | "240 \<le> ?x" "?x < 248"
    by linarith
  then show ?thesis
  proof cases
    case 1
    with assms have "scalar_at s i ?x \<and> j = i + length (utf8_units ?x)"
      by (auto simp: scalar_at_def utf8_units_def unicode_scalar_def utf8_next_def
          word_less_nat_alt)
    then show ?thesis by blast
  next
    case 2
    with nx have False
      by (auto simp: utf8_next_def utf8_lead_classes word_less_nat_alt)
    then show ?thesis ..
  qed (use nx scalar_of_next2 scalar_of_next3 scalar_of_next4 in blast)+
qed

section \<open>The loop accepts exactly the encodings\<close>

lemma utf8_units_less: "unicode_scalar c \<Longrightarrow> u \<in> set (utf8_units c) \<Longrightarrow> u < 256"
proof -
  assume c: "unicode_scalar c" and u: "u \<in> set (utf8_units c)"
  from c have "c div 262144 < 8"
    by (simp add: unicode_scalar_def div_less_iff_less_mult)
  moreover have "c < 0x800 \<Longrightarrow> c div 64 < 32" "c < 0x10000 \<Longrightarrow> c div 4096 < 16"
    by (simp_all add: div_less_iff_less_mult)
  moreover have "128 + x mod 64 < 256" for x :: nat
    using mod_less_divisor [of 64 x] by linarith
  ultimately show "u < 256"
    using u by (auto simp: utf8_units_def split: if_splits)
qed

lemma scalar_at_iff:
  "scalar_at s i c \<longleftrightarrow> unicode_scalar c \<and> (\<exists>rest. drop i s = utf8_encode c @ rest) \<and> i \<le> length s"
proof
  assume at: "scalar_at s i c"
  let ?n = "length (utf8_units c)"
  have "take ?n (drop i s) = utf8_encode c"
  proof (rule nth_equalityI)
    show "length (take ?n (drop i s)) = length (utf8_encode c)"
      using at by (auto simp: scalar_at_def utf8_encode_def)
  next
    fix k
    assume "k < length (take ?n (drop i s))"
    then have k: "k < ?n" by simp
    with at have "unat (s ! (i + k)) = utf8_units c ! k"
      by (auto simp: scalar_at_def list_all_iff)
    from this [symmetric] have "s ! (i + k) = of_nat (utf8_units c ! k)"
      by simp
    then show "take ?n (drop i s) ! k = utf8_encode c ! k"
      using at k by (simp add: utf8_encode_def scalar_at_def)
  qed
  then have "drop i s = utf8_encode c @ drop ?n (drop i s)"
    by (metis append_take_drop_id)
  then show "unicode_scalar c \<and> (\<exists>rest. drop i s = utf8_encode c @ rest) \<and> i \<le> length s"
    using at by (auto simp: scalar_at_def)
next
  assume *: "unicode_scalar c \<and> (\<exists>rest. drop i s = utf8_encode c @ rest) \<and> i \<le> length s"
  then obtain rest where rest: "drop i s = utf8_encode c @ rest" by blast
  have len: "i + length (utf8_units c) \<le> length s"
    using arg_cong [OF rest, of length] * by (auto simp: utf8_encode_def)
  have "unat (s ! (i + k)) = utf8_units c ! k" if k: "k < length (utf8_units c)" for k
  proof -
    have "s ! (i + k) = drop i s ! k" using len k by simp
    also have "\<dots> = of_nat (utf8_units c ! k)"
      using k by (simp add: rest nth_append utf8_encode_def)
    finally show ?thesis
      using utf8_units_less [of c "utf8_units c ! k"] k * by (simp add: unat_of_nat)
  qed
  then show "scalar_at s i c"
    using * len by (auto simp: scalar_at_def list_all_iff)
qed

lemma length_utf8_encode [simp]: "length (utf8_encode c) = length (utf8_units c)"
  by (simp add: utf8_encode_def)

lemma utf8_encode_nonempty: "utf8_encode c \<noteq> []"
  by (simp add: utf8_encode_def utf8_units_def)

lemma drop_drop_length: "drop i s = xs @ ys \<Longrightarrow> drop (i + length xs) s = ys"
  by (metis add.commute append_eq_conv_conj drop_drop)

lemma utf8_loop_iff:
  "i \<le> length s \<Longrightarrow>
     utf8_loop s i \<longleftrightarrow> (\<exists>cs. list_all unicode_scalar cs \<and> drop i s = concat (map utf8_encode cs))"
proof (induction s i rule: utf8_loop.induct)
  case (1 s i)
  show ?case
  proof (cases "i < length s")
    case False
    then have "drop i s = concat (map utf8_encode [])" by simp
    moreover have "list_all unicode_scalar []" by simp
    ultimately have "\<exists>cs. list_all unicode_scalar cs \<and> drop i s = concat (map utf8_encode cs)"
      by blast
    with False show ?thesis by (simp add: utf8_loop.simps [of s i])
  next
    case True
    show ?thesis
    proof
      assume "utf8_loop s i"
      then obtain j where nx: "utf8_next s i = Some j" and rec: "utf8_loop s j"
        using True by (auto simp: utf8_loop.simps [of s i] split: option.splits)
      from scalar_of_utf8_next [OF True nx] obtain c where at: "scalar_at s i c"
        and j: "j = i + length (utf8_units c)" by blast
      from at have "j \<le> length s" by (simp add: scalar_at_def j)
      with 1(1) [OF True nx] rec obtain cs where "list_all unicode_scalar cs"
        and dj: "drop j s = concat (map utf8_encode cs)" by blast
      moreover obtain rest where rest: "drop i s = utf8_encode c @ rest" and "unicode_scalar c"
        using at scalar_at_iff by blast
      moreover have "rest = drop j s"
        using drop_drop_length [OF rest] by (simp add: j)
      ultimately have "list_all unicode_scalar (c # cs) \<and> drop i s = concat (map utf8_encode (c # cs))"
        by simp
      then show "\<exists>cs. list_all unicode_scalar cs \<and> drop i s = concat (map utf8_encode cs)"
        by blast
    next
      assume "\<exists>cs. list_all unicode_scalar cs \<and> drop i s = concat (map utf8_encode cs)"
      then obtain cs where cs: "list_all unicode_scalar cs" "drop i s = concat (map utf8_encode cs)"
        by blast
      with True obtain c cs' where Cons: "cs = c # cs'" by (cases cs) auto
      with cs True have at: "scalar_at s i c" by (auto simp: scalar_at_iff)
      let ?j = "i + length (utf8_units c)"
      have nx: "utf8_next s i = Some ?j" using at by (rule utf8_next_of_scalar)
      have "drop i s = utf8_encode c @ concat (map utf8_encode cs')"
        using cs Cons by simp
      from drop_drop_length [OF this] have "drop ?j s = concat (map utf8_encode cs')"
        by simp
      moreover have "?j \<le> length s" using at by (simp add: scalar_at_def)
      moreover have "list_all unicode_scalar cs'" using cs Cons by simp
      ultimately have "utf8_loop s ?j"
        using 1(1) [OF True nx] by blast
      with True nx show "utf8_loop s i" by (simp add: utf8_loop.simps [of s i])
    qed
  qed
qed


section \<open>Properties\<close>

text \<open>
  C15. The byte validator \<open>is_valid_utf8\<close> accepts exactly the byte strings that are the
  concatenated encodings of some list of Unicode scalar values: overlong forms, surrogates,
  code points above U+10FFFF and truncated sequences are all rejected.
\<close>

theorem is_valid_utf8_iff:
  "is_valid_utf8 s \<longleftrightarrow> (\<exists>cs. list_all unicode_scalar cs \<and> s = concat (map utf8_encode cs))"
  using utf8_loop_iff [of 0 s] by (simp add: is_valid_utf8_def)

lemma write_lp_utf8_eq:
  assumes "length str \<le> 0xFFFF"
  shows "write_lp_utf8 out str =
    out @ write_be16 (of_nat (length str)) 0 [0, 0] @ str"
proof -
  have len: "unat (of_nat (length str) :: u16) = length str"
    using assms by (simp add: unat_of_nat)
  then have zero: "(of_nat (length str) :: u16) = 0 \<longleftrightarrow> str = []"
    by (simp only: word_unat_eq_iff unat_0 length_0_conv)
  have lp: "write_be16 v (length out) (out @ 0 # 0 # zs) = out @ write_be16 v 0 [0, 0] @ zs"
    for v zs by (simp add: write_be16_def list_update_append)
  have two: "replicate (2 + n) 0 = 0 # 0 # replicate n (0 :: u8)" for n by simp
  have cut: "(if 0xFFFF < length str then take 0xFFFF str else str) = str"
    using assms by simp
  show ?thesis
    unfolding write_lp_utf8_def Let_def cut len zero two lp by (simp add: memcpy_at_def)
qed

lemma read_lp_written:
  assumes "is_valid_utf8 str" and "length str \<le> 0xFFFF"
  shows "read_lp_utf8 (write_be16 (of_nat (length str)) 0 [0, 0] @ str @ rest) = Some (str, rest)"
proof -
  let ?len = "of_nat (length str) :: u16"
  have len: "unat ?len = length str"
    using assms by (simp add: unat_of_nat)
  have "read_be16 (write_be16 ?len 0 [0, 0] @ str @ rest) 0 = ?len"
    by (simp add: read_be16_append read_write_be16)
  then show ?thesis
    using assms len by (simp add: read_lp_utf8_def Let_def)
qed

text \<open>A valid string of at most 65535 bytes is read back whole: \<open>read_lp_utf8\<close> on what
  \<open>write_lp_utf8\<close> appended, followed by anything, returns the string and leaves the rest.
\<close>

theorem read_write_lp_utf8:
  assumes "is_valid_utf8 str" and "length str \<le> 0xFFFF"
  shows "read_lp_utf8 (drop (length out) (write_lp_utf8 out str) @ rest) = Some (str, rest)"
  using read_lp_written [OF assms, of rest] by (simp add: write_lp_utf8_eq [OF assms(2)])

theorem read_write_lp_utf8_witness:
  "read_lp_utf8 (drop (length [7 :: u8]) (write_lp_utf8 [7] [0xC3, 0xA9]) @ [1]) = Some ([0xC3, 0xA9], [1])"
  by (rule read_write_lp_utf8) (code_simp, simp)

text \<open>A string beyond 65535 bytes is cut at that byte, wherever the code points end.\<close>

lemma write_lp_utf8_long:
  assumes "0xFFFF < length str"
  shows "write_lp_utf8 out str = write_lp_utf8 out (take 0xFFFF str)"
  using assms by (simp add: write_lp_utf8_def min_def)

text \<open>What the reader returns for a string beyond 65535 bytes: its first 65535 bytes when the cut falls between
  two code points, and a failure when the cut splits one. Truncation can make the writer's output unreadable.
\<close>

theorem read_lp_utf8_truncated:
  assumes "0xFFFF < length str"
  shows "read_lp_utf8 (write_lp_utf8 [] str @ rest) =
    (if is_valid_utf8 (take 0xFFFF str) then Some (take 0xFFFF str, rest) else None)"
proof -
  let ?cut = "take 0xFFFF str"
  have cut: "length ?cut = 0xFFFF" using assms by simp
  have "read_be16 (write_be16 (of_nat (length ?cut)) 0 [0, 0] @ ?cut @ rest) 0 = 0xFFFF"
    unfolding cut by (simp add: read_be16_append read_write_be16)
  then show ?thesis
    unfolding write_lp_utf8_long [OF assms]
    using write_lp_utf8_eq [of ?cut "[]"] cut by (simp add: read_lp_utf8_def Let_def)
qed


lemma utf8_loop_ascii_prefix:
  assumes "list_all (\<lambda>b. b < 0x80) xs" and "j \<le> length xs"
  shows "utf8_loop (xs @ t) j = utf8_loop (xs @ t) (length xs)"
  using assms(2)
proof (induction rule: inc_induct)
  case (step j)
  with assms(1) have "(xs @ t) ! j < 0x80" by (simp add: nth_append list_all_length)
  with step show ?case
    by (subst utf8_loop.simps) (simp add: utf8_next_def)
qed simp

lemma is_valid_utf8_ascii: "list_all (\<lambda>b. b < 0x80) xs \<Longrightarrow> is_valid_utf8 xs"
  using utf8_loop_ascii_prefix [of xs 0 "[]"] by (simp add: is_valid_utf8_def utf8_loop.simps [of _ "length xs"])

lemma split_sequence_rejected:
  "\<not> is_valid_utf8 (take 0xFFFF (replicate 0xFFFE 0x61 @ [0xC3, 0xA9]))"
proof -
  have "take 0xFFFF (replicate 0xFFFE 0x61 @ [0xC3, 0xA9]) = replicate 0xFFFE (0x61 :: u8) @ [0xC3]"
    by simp
  moreover have "\<not> utf8_loop (replicate 0xFFFE 0x61 @ [0xC3]) (length (replicate 0xFFFE (0x61 :: u8)))"
    by (subst utf8_loop.simps) (simp add: utf8_next_def utf8_lead_def nth_append)
  ultimately show ?thesis
    using utf8_loop_ascii_prefix [of "replicate 0xFFFE 0x61" 0 "[0xC3]"]
    by (simp add: is_valid_utf8_def list_all_length)
qed

theorem read_lp_utf8_truncated_witness:
  "read_lp_utf8 (write_lp_utf8 [] (replicate 0xFFFE 0x61 @ [0xC3, 0xA9]) @ []) = None"
  using read_lp_utf8_truncated [of "replicate 0xFFFE 0x61 @ [0xC3, 0xA9]" "[]"]
    split_sequence_rejected by simp

end
