(* ===== verification/Rudp_Packet.thy ===== *)
theory Rudp_Packet
  imports Wire
begin

text \<open>
  The RUDP datagram of \<^verbatim>\<open>core/include/server/core/net/rudp/rudp_packet.hpp\<close>: the 34-byte outer
  header, \<open>encode_packet\<close>, \<open>decode_packet\<close> and \<open>looks_like_rudp\<close>. \<open>PacketType\<close> is an enum with
  the underlying type \<open>uint8_t\<close> that \<open>decode_packet\<close> fills by a cast: every byte is a value
  of it, so it is a byte here, with the five named values.
\<close>

section \<open>Data\<close>

definition kRudpMagic :: u16 where "kRudpMagic = 0x5255"

abbreviation (input) kRudpHeaderBytes :: nat where
  "kRudpHeaderBytes \<equiv> 34"

type_synonym PacketType = u8

abbreviation (input) kHello :: PacketType where "kHello \<equiv> 1"
abbreviation (input) kHelloAck :: PacketType where "kHelloAck \<equiv> 2"
abbreviation (input) kData :: PacketType where "kData \<equiv> 3"
abbreviation (input) kPing :: PacketType where "kPing \<equiv> 4"
abbreviation (input) kClose :: PacketType where "kClose \<equiv> 5"

abbreviation (input) kFlagAckOnly :: u8 where "kFlagAckOnly \<equiv> push_bit 0 1"
abbreviation (input) kFlagRetransmit :: u8 where "kFlagRetransmit \<equiv> push_bit 1 1"

record RudpHeader =
  rh_magic :: u16
  rh_version :: u8
  rh_type :: PacketType
  rh_connection_id :: u32
  rh_packet_number :: u32
  rh_ack_largest :: u32
  rh_ack_mask :: u64
  rh_ack_delay_ms :: u16
  rh_channel :: u8
  rh_flags :: u8
  rh_timestamp_ms :: u32
  rh_payload_length :: u16

text \<open>\<open>RudpHeader header{}\<close>: the member initialisers.\<close>

definition RudpHeader_default :: RudpHeader where
  "RudpHeader_default =
     \<lparr>rh_magic = kRudpMagic, rh_version = 1, rh_type = kData, rh_connection_id = 0,
      rh_packet_number = 0, rh_ack_largest = 0, rh_ack_mask = 0, rh_ack_delay_ms = 0,
      rh_channel = 0, rh_flags = 0, rh_timestamp_ms = 0, rh_payload_length = 0\<rparr>"

record DecodeResult =
  dr_ok :: bool
  dr_header :: RudpHeader
  dr_payload :: bytes

definition DecodeResult_default :: DecodeResult where
  "DecodeResult_default = \<lparr>dr_ok = False, dr_header = RudpHeader_default, dr_payload = []\<rparr>"

section \<open>Operations\<close>

definition rudp_encode_header :: "RudpHeader \<Rightarrow> bytes \<Rightarrow> bytes" where
  "rudp_encode_header header out =
     (let out = write_be16 (rh_magic header) 0 out;
          out = out[2 := rh_version header];
          out = out[3 := rh_type header];
          out = write_be32 (rh_connection_id header) 4 out;
          out = write_be32 (rh_packet_number header) 8 out;
          out = write_be32 (rh_ack_largest header) 12 out;
          out = write_be32 (ucast (drop_bit 32 (rh_ack_mask header) AND 0xFFFFFFFF)) 16 out;
          out = write_be32 (ucast (rh_ack_mask header AND 0xFFFFFFFF)) 20 out;
          out = write_be16 (rh_ack_delay_ms header) 24 out;
          out = out[26 := rh_channel header];
          out = out[27 := rh_flags header];
          out = write_be32 (rh_timestamp_ms header) 28 out
      in write_be16 (rh_payload_length header) 32 out)"

text \<open>The header fields \<open>decode_packet\<close> reads from a datagram of at least 34 bytes.\<close>

definition rudp_read_header :: "bytes \<Rightarrow> RudpHeader" where
  "rudp_read_header datagram =
     (let ack_hi = (ucast (read_be32 datagram 16) :: u64);
          ack_lo = (ucast (read_be32 datagram 20) :: u64)
      in \<lparr>rh_magic = read_be16 datagram 0, rh_version = datagram ! 2, rh_type = datagram ! 3,
          rh_connection_id = read_be32 datagram 4, rh_packet_number = read_be32 datagram 8,
          rh_ack_largest = read_be32 datagram 12, rh_ack_mask = push_bit 32 ack_hi OR ack_lo,
          rh_ack_delay_ms = read_be16 datagram 24, rh_channel = datagram ! 26,
          rh_flags = datagram ! 27, rh_timestamp_ms = read_be32 datagram 28,
          rh_payload_length = read_be16 datagram 32\<rparr>)"

definition decode_packet :: "bytes \<Rightarrow> DecodeResult" where
  "decode_packet datagram =
     (if length datagram < kRudpHeaderBytes then DecodeResult_default
      else let header = rudp_read_header datagram;
               plen = unat (rh_payload_length header) in
        if length datagram \<noteq> kRudpHeaderBytes + plen then DecodeResult_default
        else \<lparr>dr_ok = True, dr_header = header,
              dr_payload = take plen (drop kRudpHeaderBytes datagram)\<rparr>)"

definition encode_packet :: "RudpHeader \<Rightarrow> bytes \<Rightarrow> bytes" where
  "encode_packet header payload =
     (let out = replicate (kRudpHeaderBytes + length payload) 0;
          mutable_header = header\<lparr>rh_payload_length := of_nat (length payload)\<rparr>;
          out = rudp_encode_header mutable_header out
      in if payload \<noteq> [] then memcpy_at out kRudpHeaderBytes payload else out)"

definition looks_like_rudp :: "bytes \<Rightarrow> bool" where
  "looks_like_rudp datagram \<longleftrightarrow> 2 \<le> length datagram \<and> read_be16 datagram 0 = kRudpMagic"

section \<open>The header as a fixed-width codec\<close>

lemma length_rudp_encode_header [simp]: "length (rudp_encode_header h out) = length out"
  by (simp add: rudp_encode_header_def Let_def)

text \<open>Single-byte fields among the big-endian ones.\<close>

lemma read_be16_update_other:
  "j < i \<or> i + 1 < j \<Longrightarrow> read_be16 (out[j := b]) i = read_be16 out i"
  by (auto simp: read_be16_def)

lemma read_be32_update_other:
  "j < i \<or> i + 3 < j \<Longrightarrow> read_be32 (out[j := b]) i = read_be32 out i"
  by (auto simp: read_be32_def)

lemmas rudp_codec_simps =
  codec_simps read_be16_update_other read_be32_update_other nth_write_be16 nth_write_be32

lemma rudp_read_encode_header:
  "kRudpHeaderBytes \<le> length out \<Longrightarrow> rudp_read_header (rudp_encode_header h out) = h"
  by (simp add: rudp_read_header_def rudp_encode_header_def Let_def rudp_codec_simps join_be64)

lemma rudp_read_header_append:
  "kRudpHeaderBytes \<le> length p \<Longrightarrow> rudp_read_header (p @ q) = rudp_read_header p"
  by (simp add: rudp_read_header_def read_be16_append read_be32_append nth_append)


lemma upt_34:
  "[0..<34] = [0, 1, 2, 3, 4, 5, 6, 7, 8, 9, 10, 11, 12, 13, 14, 15, 16, 17, 18, 19, 20, 21, 22,
     23, 24, 25, 26, 27, 28, 29, 30, 31, 32, 33]"
  by (simp add: upt_rec)

lemma rudp_encode_read_header:
  assumes "kRudpHeaderBytes \<le> length bs" and "length out = kRudpHeaderBytes"
  shows "rudp_encode_header (rudp_read_header bs) out = take kRudpHeaderBytes bs"
proof (rule list_eq_by_offsets [where n = kRudpHeaderBytes])
  show "list_all (\<lambda>i. rudp_encode_header (rudp_read_header bs) out ! i = take kRudpHeaderBytes bs ! i)
          [0..<kRudpHeaderBytes]"
    using assms
    unfolding upt_34 rudp_read_header_def rudp_encode_header_def Let_def RudpHeader.select_convs
      split_be64
    by (simp add: nth_write_read_be16 nth_write_read_be32)
qed (use assms in simp_all)

definition rudp_header_bytes :: "RudpHeader \<Rightarrow> bytes" where
  "rudp_header_bytes h = rudp_encode_header h (replicate kRudpHeaderBytes 0)"

interpretation rudp_codec: fixed_codec rudp_header_bytes rudp_read_header kRudpHeaderBytes
proof
  fix h rest
  show "length (rudp_header_bytes h) = kRudpHeaderBytes"
    by (simp add: rudp_header_bytes_def)
  show "rudp_read_header (rudp_header_bytes h @ rest) = h"
    by (simp add: rudp_header_bytes_def rudp_read_header_append rudp_read_encode_header)
next
  fix bs :: bytes
  assume "kRudpHeaderBytes \<le> length bs"
  then show "rudp_header_bytes (rudp_read_header bs) = take kRudpHeaderBytes bs"
    by (simp add: rudp_header_bytes_def rudp_encode_read_header)
qed

section \<open>Datagrams\<close>

text \<open>A datagram is the header, with the payload's length in it, and the payload.\<close>

lemma write_be16_append:
  "i + 1 < length p \<Longrightarrow> write_be16 v i (p @ q) = write_be16 v i p @ q"
  by (simp add: write_be16_def list_update_append)

lemma write_be32_append:
  "i + 3 < length p \<Longrightarrow> write_be32 v i (p @ q) = write_be32 v i p @ q"
  by (simp add: write_be32_def list_update_append)

lemma rudp_encode_header_append:
  "length p = kRudpHeaderBytes \<Longrightarrow> rudp_encode_header h (p @ q) = rudp_encode_header h p @ q"
  by (simp add: rudp_encode_header_def Let_def write_be16_append write_be32_append
      list_update_append)

lemma encode_packet_eq:
  "encode_packet h payload =
     rudp_header_bytes (h\<lparr>rh_payload_length := of_nat (length payload)\<rparr>) @ payload"
  by (simp add: encode_packet_def rudp_header_bytes_def Let_def replicate_add
      rudp_encode_header_append memcpy_at_def)

lemma length_encode_packet [simp]:
  "length (encode_packet h payload) = kRudpHeaderBytes + length payload"
  by (simp add: encode_packet_eq rudp_codec.length_enc)

lemma decode_packet_ok_iff:
  "dr_ok (decode_packet d) \<longleftrightarrow>
     kRudpHeaderBytes \<le> length d \<and>
     length d = kRudpHeaderBytes + unat (rh_payload_length (rudp_read_header d))"
  by (auto simp: decode_packet_def DecodeResult_default_def Let_def)

lemma decode_packet_okD:
  assumes "dr_ok (decode_packet d)"
  shows "dr_header (decode_packet d) = rudp_read_header d"
    and "dr_payload (decode_packet d) = drop kRudpHeaderBytes d"
  using assms by (auto simp: decode_packet_def DecodeResult_default_def Let_def split: if_splits)

text \<open>
  C17. RUDP datagrams round trip: for a payload of at most 65535 bytes, decoding what
  \<open>encode_packet\<close> built succeeds and gives back the payload and every header field, with
  the payload length field set to the payload's length.
\<close>

theorem decode_encode_packet:
  assumes "length payload \<le> 0xFFFF"
  shows "decode_packet (encode_packet h payload) =
    \<lparr>dr_ok = True, dr_header = h\<lparr>rh_payload_length := of_nat (length payload)\<rparr>, dr_payload = payload\<rparr>"
proof -
  have "unat (of_nat (length payload) :: u16) = length payload"
    using assms by (simp add: unat_of_nat)
  then show ?thesis
    by (simp add: decode_packet_def encode_packet_eq rudp_codec.dec_enc rudp_codec.length_enc Let_def)
qed

theorem decode_encode_packet_witness:
  "dr_payload (decode_packet (encode_packet RudpHeader_default [1, 2, 3])) = [1, 2, 3]"
  using decode_encode_packet [of "[1, 2, 3]" RudpHeader_default] by simp

text \<open>The decoder accepts only what the encoder produces: a datagram that decodes is, byte for byte, the
  encoding of the header and the payload returned, so two different datagrams never decode to the same packet.
\<close>

theorem encode_decode_packet:
  assumes "dr_ok (decode_packet d)"
  shows "encode_packet (dr_header (decode_packet d)) (dr_payload (decode_packet d)) = d"
proof -
  have len: "kRudpHeaderBytes \<le> length d"
    and plen: "length d - kRudpHeaderBytes = unat (rh_payload_length (rudp_read_header d))"
    using assms by (auto simp: decode_packet_ok_iff)
  have "(rudp_read_header d)\<lparr>rh_payload_length := of_nat (length d - kRudpHeaderBytes)\<rparr> = rudp_read_header d"
    unfolding plen by simp
  then show ?thesis
    using len by (simp add: decode_packet_okD [OF assms] encode_packet_eq rudp_codec.enc_dec)
qed

theorem encode_decode_packet_witness:
  "encode_packet (dr_header (decode_packet (replicate 34 0))) (dr_payload (decode_packet (replicate 34 0)))
     = replicate 34 0"
  by (rule encode_decode_packet) (simp add: decode_packet_ok_iff rudp_read_header_def read_be16_def)

lemma looks_like_rudp_encode:
  "looks_like_rudp (encode_packet h payload) \<longleftrightarrow> rh_magic h = kRudpMagic"
proof -
  have "read_be16 d 0 = rh_magic (rudp_read_header d)" for d
    by (simp add: rudp_read_header_def Let_def)
  then show ?thesis
    by (simp add: looks_like_rudp_def encode_packet_eq rudp_codec.length_enc rudp_codec.dec_enc)
qed

end
