(* ===== verification/Ack_Window.thy ===== *)
theory Ack_Window
  imports Prelude
begin

text \<open>
  The receive window of \<^verbatim>\<open>core/src/net/rudp/ack_window.cpp\<close>: the largest packet number observed
  and a 64-bit mask of the numbers below it. The window is related to the set of packet numbers it
  has accepted: it accepts a number exactly when the set specification does, never accepts one
  twice, and the mask it acknowledges with is exactly that set seen from the largest number.
\<close>

section \<open>Data and operations\<close>

record AckObservation =
  ao_accepted :: bool
  ao_duplicate :: bool
  ao_reordered :: bool
  ao_estimated_lost_packets :: u64
  ao_ack_largest :: u32
  ao_ack_mask :: u64

definition AckObservation_default :: AckObservation where
  "AckObservation_default =
     \<lparr>ao_accepted = False, ao_duplicate = False, ao_reordered = False,
      ao_estimated_lost_packets = 0, ao_ack_largest = 0, ao_ack_mask = 0\<rparr>"

record AckWindow =
  aw_initialized :: bool
  aw_largest :: u32
  aw_mask :: u64

definition AckWindow_init :: AckWindow where
  "AckWindow_init = \<lparr>aw_initialized = False, aw_largest = 0, aw_mask = 0\<rparr>"

definition AckWindow_reset :: "AckWindow \<Rightarrow> AckWindow" where
  "AckWindow_reset w = w\<lparr>aw_initialized := False, aw_largest := 0, aw_mask := 0\<rparr>"

definition AckWindow_observe :: "AckWindow \<Rightarrow> u32 \<Rightarrow> AckObservation \<times> AckWindow" where
  "AckWindow_observe w packet_number =
     (let observation = AckObservation_default in
      if \<not> aw_initialized w then
        let w = w\<lparr>aw_initialized := True, aw_largest := packet_number, aw_mask := 1\<rparr> in
        (observation\<lparr>ao_accepted := True, ao_ack_largest := aw_largest w,
           ao_ack_mask := aw_mask w\<rparr>, w)
      else if packet_number > aw_largest w then
        let delta = packet_number - aw_largest w;
            observation =
              (if delta > 1 then observation\<lparr>ao_estimated_lost_packets := ucast (delta - 1)\<rparr>
               else observation);
            w = w\<lparr>aw_mask := if delta \<ge> 64 then 1
                            else push_bit (unat delta) (aw_mask w) OR 1\<rparr>;
            w = w\<lparr>aw_largest := packet_number\<rparr> in
        (observation\<lparr>ao_accepted := True, ao_ack_largest := aw_largest w,
           ao_ack_mask := aw_mask w\<rparr>, w)
      else
        let distance = aw_largest w - packet_number in
        if distance \<ge> 64 then
          (observation\<lparr>ao_duplicate := True, ao_accepted := False, ao_ack_largest := aw_largest w,
             ao_ack_mask := aw_mask w\<rparr>, w)
        else
          let b = push_bit (unat distance) 1 in
          if aw_mask w AND b \<noteq> 0 then
            (observation\<lparr>ao_duplicate := True, ao_accepted := False, ao_ack_largest := aw_largest w,
               ao_ack_mask := aw_mask w\<rparr>, w)
          else
            let w = w\<lparr>aw_mask := aw_mask w OR b\<rparr> in
            (observation\<lparr>ao_accepted := True, ao_reordered := True, ao_ack_largest := aw_largest w,
               ao_ack_mask := aw_mask w\<rparr>, w))"

section \<open>Set specification\<close>

text \<open>
  The specification remembers every number accepted. It accepts the first number, and then a new
  number that is above the largest one or less than 64 below it.
\<close>

definition ack_spec_accepts :: "nat set \<Rightarrow> nat \<Rightarrow> bool" where
  "ack_spec_accepts S p \<longleftrightarrow> S = {} \<or> (p \<notin> S \<and> Max S < p + 64)"

definition ack_spec_step :: "nat set \<Rightarrow> u32 \<Rightarrow> nat set" where
  "ack_spec_step S p = (if ack_spec_accepts S (unat p) then insert (unat p) S else S)"

text \<open>The window with the list of the numbers it has accepted, the latest first.\<close>

definition ack_history_step :: "AckWindow \<times> u32 list \<Rightarrow> u32 \<Rightarrow> AckWindow \<times> u32 list" where
  "ack_history_step = (\<lambda>(w, acc) p. case AckWindow_observe w p of
     (observation, w') \<Rightarrow> (w', if ao_accepted observation then p # acc else acc))"

definition window_tracks :: "AckWindow \<Rightarrow> nat set \<Rightarrow> bool" where
  "window_tracks w S \<longleftrightarrow> finite S \<and> (aw_initialized w \<longleftrightarrow> S \<noteq> {}) \<and>
     (aw_initialized w \<longrightarrow> unat (aw_largest w) = Max S \<and>
        (\<forall>d < 64. bit (aw_mask w) d \<longleftrightarrow> d \<le> Max S \<and> Max S - d \<in> S))"

definition ack_history_inv :: "AckWindow \<times> u32 list \<Rightarrow> bool" where
  "ack_history_inv = (\<lambda>(w, acc). window_tracks w (unat ` set acc) \<and> distinct acc)"

section \<open>The window implements the specification\<close>

lemma observe_accepted_iff:
  assumes "window_tracks w S"
  shows "ao_accepted (fst (AckWindow_observe w p)) \<longleftrightarrow> ack_spec_accepts S (unat p)"
proof (cases "aw_initialized w")
  case False
  with assms show ?thesis
    by (simp add: window_tracks_def AckWindow_observe_def ack_spec_accepts_def Let_def)
next
  case True
  with assms have S: "S \<noteq> {}" "finite S" "unat (aw_largest w) = Max S"
    and bits: "\<forall>d < 64. bit (aw_mask w) d \<longleftrightarrow> d \<le> Max S \<and> Max S - d \<in> S"
    by (auto simp: window_tracks_def)
  show ?thesis
  proof (cases "aw_largest w < p")
    case True
    then have "Max S < unat p" using S by (simp add: word_less_nat_alt)
    moreover from this have "unat p \<notin> S" using S(2) Max_ge by fastforce
    ultimately show ?thesis
      using \<open>aw_initialized w\<close> True by (simp add: AckWindow_observe_def ack_spec_accepts_def Let_def)
  next
    case False
    then have le: "p \<le> aw_largest w" by simp
    then have d: "unat (aw_largest w - p) = Max S - unat p" "unat p \<le> Max S"
      using S by (simp_all add: word_diff_unat word_le_nat_alt)
    then have far: "64 \<le> aw_largest w - p \<longleftrightarrow> 64 \<le> Max S - unat p"
      by (simp add: word_le_nat_alt)
    have "aw_mask w AND push_bit (unat (aw_largest w - p)) 1 \<noteq> 0 \<longleftrightarrow> unat p \<in> S"
      if "\<not> 64 \<le> Max S - unat p"
      using that bits d by (auto simp: word_and_one_bit simp del: push_bit_of_1)
    then show ?thesis
      using \<open>aw_initialized w\<close> False S d far
      by (auto simp: AckWindow_observe_def ack_spec_accepts_def Let_def AckObservation_default_def
          simp del: push_bit_of_1 Max_less_iff)
  qed
qed

text \<open>The mask after each of the three ways a number is accepted.\<close>

lemma mask_advance:
  assumes "finite S" "S \<noteq> {}" "Max S < q" "d < 64"
    and bits: "\<forall>d < 64. bit (m :: u64) d \<longleftrightarrow> d \<le> Max S \<and> Max S - d \<in> S"
  shows "bit (if 64 \<le> q - Max S then 1 else push_bit (q - Max S) m OR 1) d \<longleftrightarrow>
    d \<le> q \<and> q - d \<in> insert q S"
proof -
  have le: "x \<le> Max S" if "x \<in> S" for x using that assms(1) by simp
  have shifted: "q - d \<in> S \<longleftrightarrow> q - Max S \<le> d \<and> Max S - (d - (q - Max S)) \<in> S" if "d \<le> q"
  proof -
    have "q - Max S \<le> d" if "q - d \<in> S" using le [OF that] assms(3) \<open>d \<le> q\<close> by linarith
    moreover have "Max S - (d - (q - Max S)) = q - d" if "q - Max S \<le> d"
      using that assms(3) by linarith
    ultimately show ?thesis by metis
  qed
  show ?thesis
  proof (cases "64 \<le> q - Max S")
    case True
    with assms(4) have "q - d \<notin> S" using le [of "q - d"] by fastforce
    with True show ?thesis by (auto simp: bit_1_iff)
  next
    case False
    then have "bit (push_bit (q - Max S) m OR 1) d \<longleftrightarrow>
        d = 0 \<or> (q - Max S \<le> d \<and> bit m (d - (q - Max S)))"
      using assms(4) by (auto simp: bit_simps)
    also have "\<dots> \<longleftrightarrow> d \<le> q \<and> q - d \<in> insert q S"
      using bits shifted assms(3,4) by auto
    finally show ?thesis using False by simp
  qed
qed

lemma mask_set_bit:
  assumes "q \<le> M" "M - q < 64" "d < 64"
    and bits: "\<forall>d < 64. bit (m :: u64) d \<longleftrightarrow> d \<le> M \<and> M - d \<in> S"
  shows "bit (m OR push_bit (M - q) 1) d \<longleftrightarrow> d \<le> M \<and> M - d \<in> insert q S"
proof -
  have "bit (m OR push_bit (M - q) 1) d \<longleftrightarrow> bit m d \<or> d = M - q"
    using assms(3) by (auto simp: bit_simps simp del: push_bit_of_1)
  then show ?thesis using assms by auto
qed

lemma observe_tracks:
  assumes "window_tracks w S"
  shows "window_tracks (snd (AckWindow_observe w p)) (ack_spec_step S p)"
proof (cases "aw_initialized w")
  case False
  with assms have "S = {}" by (simp add: window_tracks_def)
  with False show ?thesis
    by (auto simp: window_tracks_def AckWindow_observe_def ack_spec_step_def ack_spec_accepts_def
        Let_def bit_1_iff)
next
  case init: True
  with assms have S: "S \<noteq> {}" "finite S" "unat (aw_largest w) = Max S"
    and bits: "\<forall>d < 64. bit (aw_mask w) d \<longleftrightarrow> d \<le> Max S \<and> Max S - d \<in> S"
    by (auto simp: window_tracks_def)
  note spec = observe_accepted_iff [OF assms, of p]
  show ?thesis
  proof (cases "aw_largest w < p")
    case True
    then have d: "Max S < unat p" "unat (p - aw_largest w) = unat p - Max S"
      using S word_diff_unat [OF less_imp_le [OF True]]
      by (simp_all add: word_less_nat_alt del: Max_less_iff)
    moreover have "64 \<le> p - aw_largest w \<longleftrightarrow> 64 \<le> unat p - Max S"
      by (simp add: word_le_nat_alt d)
    moreover have "Max (insert (unat p) S) = unat p"
      using S(1,2) d(1) by (simp add: max_absorb1 less_imp_le del: Max_less_iff)
    moreover have "ack_spec_step S p = insert (unat p) S"
      using spec init True by (simp add: ack_spec_step_def AckWindow_observe_def Let_def)
    ultimately show ?thesis
      using init True S mask_advance [OF S(2,1) d(1) _ bits]
      by (simp add: window_tracks_def AckWindow_observe_def Let_def split del: if_split cong: if_cong)
  next
    case False
    then have le: "p \<le> aw_largest w" by simp
    then have d: "unat (aw_largest w - p) = Max S - unat p" "unat p \<le> Max S"
      using S by (simp_all add: word_diff_unat word_le_nat_alt)
    have far: "64 \<le> aw_largest w - p \<longleftrightarrow> 64 \<le> Max S - unat p"
      by (simp add: word_le_nat_alt d)
    have "Max (insert (unat p) S) = Max S"
      using S d by (simp add: max_def)
    then show ?thesis
      using init False S d far spec bits assms mask_set_bit [OF d(2) _ _ bits]
      by (auto simp: window_tracks_def ack_spec_step_def AckWindow_observe_def Let_def
          AckObservation_default_def simp del: push_bit_of_1)
  qed
qed


text \<open>The observation reports the window it leaves.\<close>

lemma observe_reports [simp]:
  "ao_ack_largest (fst (AckWindow_observe w p)) = aw_largest (snd (AckWindow_observe w p))"
  "ao_ack_mask (fst (AckWindow_observe w p)) = aw_mask (snd (AckWindow_observe w p))"
  by (simp_all add: AckWindow_observe_def Let_def)

section \<open>Runs\<close>

lemma ack_history_step_abs:
  assumes "ack_history_inv s"
  shows "unat ` set (snd (ack_history_step s p)) = ack_spec_step (unat ` set (snd s)) p"
  using assms observe_accepted_iff [of "fst s" "unat ` set (snd s)" p]
  by (auto simp: ack_history_inv_def ack_history_step_def ack_spec_step_def split: prod.splits)

lemma ack_history_step_inv:
  assumes "ack_history_inv s"
  shows "ack_history_inv (ack_history_step s p)"
proof -
  obtain w acc where s: "s = (w, acc)" by (cases s)
  have tracks: "window_tracks w (unat ` set acc)" and "distinct acc"
    using assms by (simp_all add: ack_history_inv_def s)
  moreover have "p \<notin> set acc" if "ao_accepted (fst (AckWindow_observe w p))"
    using that observe_accepted_iff [OF tracks, of p] by (auto simp: ack_spec_accepts_def)
  ultimately have "distinct (snd (ack_history_step s p))"
    by (auto simp: ack_history_step_def s split: prod.splits)
  moreover have "window_tracks (fst (ack_history_step s p)) (unat ` set (snd (ack_history_step s p)))"
    unfolding ack_history_step_abs [OF assms]
    using observe_tracks [OF tracks, of p] by (simp add: ack_history_step_def s case_prod_beta)
  ultimately show ?thesis by (simp add: ack_history_inv_def case_prod_beta)
qed

interpretation ack_history: refining_machine ack_history_step ack_history_inv ack_spec_step
  "\<lambda>s. unat ` set (snd s)"
  by unfold_locales (simp_all add: ack_history_step_inv ack_history_step_abs)

lemma ack_history_init: "ack_history_inv (AckWindow_init, [])"
  by (simp add: ack_history_inv_def window_tracks_def AckWindow_init_def)

definition ack_run :: "u32 list \<Rightarrow> AckWindow \<times> u32 list" where
  "ack_run ps = foldl ack_history_step (AckWindow_init, []) ps"

lemma ack_run_inv: "ack_history_inv (ack_run ps)"
  unfolding ack_run_def by (rule ack_history.run_inv [OF ack_history_init])

section \<open>Properties\<close>

text \<open>Exactly-once delivery: whatever packet numbers arrive, in whatever order and with
  whatever repetitions, a fresh window accepts each number at most once.
\<close>

theorem ack_window_accepts_once: "distinct (snd (ack_run ps))"
  using ack_run_inv [of ps] by (simp add: ack_history_inv_def case_prod_beta)


text \<open>What the window acknowledges is the truth about the last 64 numbers: after any nonempty sequence of
  arrivals the largest number is the maximum of those accepted, and bit \<open>d\<close> of the mask is set
  exactly when the number \<open>d\<close> below the largest was accepted.
\<close>

theorem ack_window_mask_exact:
  assumes "ps \<noteq> []" and "d < 64"
  defines "w \<equiv> fst (ack_run ps)" and "accepted \<equiv> unat ` set (snd (ack_run ps))"
  shows "unat (aw_largest w) = Max accepted \<and>
    (bit (aw_mask w) d \<longleftrightarrow> d \<le> Max accepted \<and> Max accepted - d \<in> accepted)"
proof -
  have tracks: "window_tracks w accepted"
    using ack_run_inv [of ps] by (simp add: ack_history_inv_def w_def accepted_def case_prod_beta)
  have "aw_initialized (fst (foldl ack_history_step s ps))" if "ps \<noteq> [] \<or> aw_initialized (fst s)" for s
    using that
  proof (induction ps arbitrary: s)
    case (Cons p ps)
    have "aw_initialized (fst (ack_history_step s p))"
      by (simp add: ack_history_step_def AckWindow_observe_def Let_def split: prod.splits)
    with Cons.IH show ?case by simp
  qed simp
  then have "aw_initialized w"
    using assms(1) by (simp add: w_def ack_run_def)
  with tracks assms(2) show ?thesis by (simp add: window_tracks_def)
qed

theorem ack_window_mask_exact_witness:
  "unat (aw_largest (fst (ack_run [5, 3, 9]))) = Max (unat ` set (snd (ack_run [5, 3, 9]))) \<and>
   (bit (aw_mask (fst (ack_run [5, 3, 9]))) 4 \<longleftrightarrow>
      4 \<le> Max (unat ` set (snd (ack_run [5, 3, 9]))) \<and>
      Max (unat ` set (snd (ack_run [5, 3, 9]))) - 4 \<in> unat ` set (snd (ack_run [5, 3, 9])))"
  by (rule ack_window_mask_exact) simp_all

end
