(* ===== verification/Retransmission_Queue.thy ===== *)
theory Retransmission_Queue
  imports Prelude
begin

text \<open>
  The queue of packets waiting for an acknowledgement,
  \<^verbatim>\<open>core/src/net/rudp/retransmission_queue.cpp\<close>. The two passes of \<open>erase_acked\<close> (popping acknowledged
  entries from the front, then a \<open>remove_if\<close> with a recount) are shown to be one filter, the byte
  counter to be the sum of the frame sizes, and \<open>collect_timeouts\<close> to return the first overdue
  packets and no packet twice within one timeout.
\<close>

section \<open>Data\<close>

record PendingPacket =
  pp_packet_number :: u32
  pp_first_sent_unix_ms :: u64
  pp_last_sent_unix_ms :: u64
  pp_retransmit_count :: u32
  pp_encoded_frame :: bytes

record RetransmissionEntry =
  en_packet :: PendingPacket
  en_acked :: bool

record RetransmissionQueue =
  rq_pending :: "RetransmissionEntry list"
  rq_inflight_bytes :: nat

abbreviation frame_size :: "RetransmissionEntry \<Rightarrow> nat" where
  "frame_size e \<equiv> length (pp_encoded_frame (en_packet e))"

definition RetransmissionQueue_init :: RetransmissionQueue where
  "RetransmissionQueue_init = \<lparr>rq_pending = [], rq_inflight_bytes = 0\<rparr>"

section \<open>Operations\<close>

definition RetransmissionQueue_reset :: "RetransmissionQueue \<Rightarrow> RetransmissionQueue" where
  "RetransmissionQueue_reset q = q\<lparr>rq_pending := [], rq_inflight_bytes := 0\<rparr>"

definition RetransmissionQueue_push ::
    "RetransmissionQueue \<Rightarrow> u32 \<Rightarrow> u64 \<Rightarrow> bytes \<Rightarrow> RetransmissionQueue" where
  "RetransmissionQueue_push q packet_number sent_unix_ms encoded_frame =
     (if encoded_frame = [] then q
      else let entry = \<lparr>en_packet = \<lparr>pp_packet_number = packet_number,
                 pp_first_sent_unix_ms = sent_unix_ms, pp_last_sent_unix_ms = sent_unix_ms,
                 pp_retransmit_count = 0, pp_encoded_frame = encoded_frame\<rparr>, en_acked = False\<rparr>
        in q\<lparr>rq_inflight_bytes := rq_inflight_bytes q + frame_size entry,
             rq_pending := rq_pending q @ [entry]\<rparr>)"

definition is_acked_by_mask :: "u32 \<Rightarrow> u32 \<Rightarrow> u64 \<Rightarrow> bool" where
  "is_acked_by_mask packet_number ack_largest ack_mask =
     (if packet_number > ack_largest then False
      else if packet_number = ack_largest then True
      else let distance = ack_largest - packet_number in
        if distance \<ge> 64 then True
        else let b = push_bit (unat distance) 1 in ack_mask AND b \<noteq> 0)"

text \<open>The loop that pops acknowledged entries from the front.\<close>

fun erase_acked_front :: "RetransmissionEntry list \<Rightarrow> nat \<Rightarrow> RetransmissionEntry list \<times> nat" where
  "erase_acked_front [] inflight = ([], inflight)"
| "erase_acked_front (e # es) inflight =
     (if en_acked e
      then erase_acked_front es (if inflight \<ge> frame_size e then inflight - frame_size e else 0)
      else (e # es, inflight))"

definition erase_acked :: "RetransmissionQueue \<Rightarrow> RetransmissionQueue" where
  "erase_acked q =
     (case erase_acked_front (rq_pending q) (rq_inflight_bytes q) of (pending, inflight) \<Rightarrow>
        if pending = [] then q\<lparr>rq_pending := pending, rq_inflight_bytes := inflight\<rparr>
        else let original_size = length pending;
                 pending' = filter (\<lambda>e. \<not> en_acked e) pending in
          if length pending' = original_size
          then q\<lparr>rq_pending := pending', rq_inflight_bytes := inflight\<rparr>
          else q\<lparr>rq_pending := pending',
                 rq_inflight_bytes := foldl (\<lambda>n e. n + frame_size e) 0 pending'\<rparr>)"

definition mark_acked :: "RetransmissionQueue \<Rightarrow> u32 \<Rightarrow> u64 \<Rightarrow> RetransmissionQueue" where
  "mark_acked q ack_largest ack_mask =
     erase_acked (q\<lparr>rq_pending := map (\<lambda>entry.
       if \<not> en_acked entry
          \<and> is_acked_by_mask (pp_packet_number (en_packet entry)) ack_largest ack_mask
       then entry\<lparr>en_acked := True\<rparr> else entry) (rq_pending q)\<rparr>)"

text \<open>
  The loop of \<open>collect_timeouts\<close>, with the number of packets already collected: the packets it adds
  to \<open>due\<close> and the entries it leaves.
\<close>

fun collect_loop ::
    "u64 \<Rightarrow> u32 \<Rightarrow> nat \<Rightarrow> nat \<Rightarrow> RetransmissionEntry list \<Rightarrow>
     PendingPacket list \<times> RetransmissionEntry list" where
  "collect_loop now rto max_batch n [] = ([], [])"
| "collect_loop now rto max_batch n (entry # entries) =
     (if en_acked entry then
        (case collect_loop now rto max_batch n entries of (due, es) \<Rightarrow> (due, entry # es))
      else if now - pp_last_sent_unix_ms (en_packet entry) < ucast rto then
        (case collect_loop now rto max_batch n entries of (due, es) \<Rightarrow> (due, entry # es))
      else
        let packet = en_packet entry;
            packet = packet\<lparr>pp_last_sent_unix_ms := now,
                            pp_retransmit_count := pp_retransmit_count packet + 1\<rparr>;
            entry = entry\<lparr>en_packet := packet\<rparr> in
        if n + 1 \<ge> max_batch then ([packet], entry # entries)
        else (case collect_loop now rto max_batch (n + 1) entries of
                (due, es) \<Rightarrow> (packet # due, entry # es)))"

definition collect_timeouts ::
    "RetransmissionQueue \<Rightarrow> u64 \<Rightarrow> u32 \<Rightarrow> nat \<Rightarrow> PendingPacket list \<times> RetransmissionQueue" where
  "collect_timeouts q now_unix_ms rto_ms max_batch =
     (if max_batch = 0 \<or> rto_ms = 0 then ([], q)
      else case collect_loop now_unix_ms rto_ms max_batch 0 (rq_pending q) of
        (due, pending) \<Rightarrow> (due, q\<lparr>rq_pending := pending\<rparr>))"

definition inflight_packets :: "RetransmissionQueue \<Rightarrow> nat" where
  "inflight_packets q = length (rq_pending q)"

section \<open>Erasing is filtering\<close>

definition rq_inv :: "RetransmissionQueue \<Rightarrow> bool" where
  "rq_inv q \<longleftrightarrow> rq_inflight_bytes q = sum_list (map frame_size (rq_pending q)) \<and>
     list_all (\<lambda>e. \<not> en_acked e \<and> pp_encoded_frame (en_packet e) \<noteq> []) (rq_pending q)"

lemma erase_acked_front_eq:
  "inflight = sum_list (map frame_size es) \<Longrightarrow>
     erase_acked_front es inflight =
       (dropWhile en_acked es, sum_list (map frame_size (dropWhile en_acked es)))"
  by (induction es arbitrary: inflight) auto

lemma foldl_add_sum: "foldl (\<lambda>n e. n + f e) a xs = a + sum_list (map f xs)"
  for f :: "'a \<Rightarrow> nat"
  by (induction xs arbitrary: a) auto

lemma erase_acked_eq:
  assumes "rq_inflight_bytes q = sum_list (map frame_size (rq_pending q))"
  shows "erase_acked q =
    (let kept = filter (\<lambda>e. \<not> en_acked e) (rq_pending q)
     in q\<lparr>rq_pending := kept, rq_inflight_bytes := sum_list (map frame_size kept)\<rparr>)"
proof -
  let ?kept = "filter (\<lambda>e. \<not> en_acked e) (rq_pending q)"
  let ?rest = "dropWhile en_acked (rq_pending q)"
  have kept: "filter (\<lambda>e. \<not> en_acked e) ?rest = ?kept"
    by (rule filter_not_dropWhile)
  have "?kept = ?rest" if "length ?kept = length ?rest"
    using that by (metis kept filter_id_conv length_filter_less nat_less_le)
  moreover have "?kept = []" if "?rest = []"
    using that by (metis kept filter.simps(1))
  ultimately show ?thesis
    by (auto simp: erase_acked_def erase_acked_front_eq [OF assms] kept foldl_add_sum Let_def)
qed

lemma mark_acked_eq:
  assumes "rq_inv q"
  shows "mark_acked q largest m =
    (let kept = filter (\<lambda>e. \<not> is_acked_by_mask (pp_packet_number (en_packet e)) largest m)
                  (rq_pending q)
     in q\<lparr>rq_pending := kept, rq_inflight_bytes := sum_list (map frame_size kept)\<rparr>)"
proof -
  let ?mark = "\<lambda>entry. if \<not> en_acked entry
      \<and> is_acked_by_mask (pp_packet_number (en_packet entry)) largest m
    then entry\<lparr>en_acked := True\<rparr> else entry"
  let ?q = "q\<lparr>rq_pending := map ?mark (rq_pending q)\<rparr>"
  have queue': "rq_pending ?q = map ?mark (rq_pending q)" "rq_inflight_bytes ?q = rq_inflight_bytes q"
    by simp_all
  have kept: "filter (\<lambda>e. \<not> en_acked e) (map ?mark es) =
      filter (\<lambda>e. \<not> is_acked_by_mask (pp_packet_number (en_packet e)) largest m) es"
    if "list_all (\<lambda>e. \<not> en_acked e) es" for es
    using that by (induction es) auto
  have "sum_list (map frame_size (map ?mark es)) = sum_list (map frame_size es)" for es
    by (induction es) auto
  then have bytes: "rq_inflight_bytes ?q = sum_list (map frame_size (rq_pending ?q))"
    using assms unfolding queue' by (simp only: rq_inv_def)
  have "list_all (\<lambda>e. \<not> en_acked e) (rq_pending q)"
    using assms by (auto simp: rq_inv_def list_all_iff)
  then show ?thesis
    unfolding mark_acked_def erase_acked_eq [OF bytes] queue' by (simp add: kept Let_def)
qed

section \<open>Collecting the overdue packets\<close>

definition entry_due :: "u64 \<Rightarrow> u32 \<Rightarrow> RetransmissionEntry \<Rightarrow> bool" where
  "entry_due now rto e \<longleftrightarrow> \<not> en_acked e \<and> ucast rto \<le> now - pp_last_sent_unix_ms (en_packet e)"

definition resent :: "u64 \<Rightarrow> RetransmissionEntry \<Rightarrow> RetransmissionEntry" where
  "resent now e = e\<lparr>en_packet := en_packet e\<lparr>pp_last_sent_unix_ms := now,
     pp_retransmit_count := pp_retransmit_count (en_packet e) + 1\<rparr>\<rparr>"

lemma resent_simps [simp]:
  "pp_packet_number (en_packet (resent now e)) = pp_packet_number (en_packet e)"
  "pp_encoded_frame (en_packet (resent now e)) = pp_encoded_frame (en_packet e)"
  "pp_last_sent_unix_ms (en_packet (resent now e)) = now"
  "pp_retransmit_count (en_packet (resent now e)) = pp_retransmit_count (en_packet e) + 1"
  "en_acked (resent now e) = en_acked e"
  by (simp_all add: resent_def)

lemma collect_loop_Cons:
  "collect_loop now rto max_batch n (e # es) =
     (if entry_due now rto e
      then if n + 1 \<ge> max_batch then ([en_packet (resent now e)], resent now e # es)
           else (en_packet (resent now e) # fst (collect_loop now rto max_batch (n + 1) es),
                 resent now e # snd (collect_loop now rto max_batch (n + 1) es))
      else (fst (collect_loop now rto max_batch n es), e # snd (collect_loop now rto max_batch n es)))"
  by (auto simp: entry_due_def resent_def Let_def case_prod_beta)

declare collect_loop.simps(2) [simp del]

lemma collect_loop_due:
  "n < max_batch \<Longrightarrow>
     fst (collect_loop now rto max_batch n es) =
       map (en_packet \<circ> resent now) (take (max_batch - n) (filter (entry_due now rto) es))"
  by (induction es arbitrary: n) (auto simp: collect_loop_Cons take_Cons' Suc_diff_Suc)

lemma collect_loop_frames [simp]:
  "map (\<lambda>e. pp_encoded_frame (en_packet e)) (snd (collect_loop now rto max_batch n es)) =
     map (\<lambda>e. pp_encoded_frame (en_packet e)) es"
  "map (\<lambda>e. pp_packet_number (en_packet e)) (snd (collect_loop now rto max_batch n es)) =
     map (\<lambda>e. pp_packet_number (en_packet e)) es"
  "map en_acked (snd (collect_loop now rto max_batch n es)) = map en_acked es"
  "length (snd (collect_loop now rto max_batch n es)) = length es"
  by (induction es arbitrary: n) (auto simp: collect_loop_Cons)

lemma not_due_after_resend: "rto \<noteq> 0 \<Longrightarrow> \<not> entry_due now rto (resent now e)"
  by (simp add: entry_due_def word_le_nat_alt unat_ucast_up unat_gt_0)

lemma collect_loop_leaves:
  "rto \<noteq> 0 \<Longrightarrow> n < max_batch \<Longrightarrow>
     filter (entry_due now rto) (snd (collect_loop now rto max_batch n es)) =
       drop (max_batch - n) (filter (entry_due now rto) es)"
  by (induction es arbitrary: n)
    (auto simp: collect_loop_Cons drop_Cons' not_due_after_resend Suc_diff_Suc)

lemma collect_loop_numbers:
  "pp_packet_number ` set (fst (collect_loop now rto max_batch n es)) \<subseteq>
     set (map (\<lambda>e. pp_packet_number (en_packet e)) es)"
  by (induction es arbitrary: n) (auto simp: collect_loop_Cons; blast)+

text \<open>With distinct packet numbers, a packet that was collected carries the time of the collection.\<close>

lemma collect_loop_resent_at:
  assumes "distinct (map (\<lambda>e. pp_packet_number (en_packet e)) es)"
    and "e \<in> set (snd (collect_loop now rto max_batch n es))"
    and "pp_packet_number (en_packet e) \<in>
           pp_packet_number ` set (fst (collect_loop now rto max_batch n es))"
  shows "pp_last_sent_unix_ms (en_packet e) = now"
  using assms
proof (induction es arbitrary: n)
  case (Cons x es)
  let ?num = "\<lambda>e. pp_packet_number (en_packet e)"
  have tail: "?num y \<in> set (map ?num es)"
    if "y \<in> set (snd (collect_loop now rto max_batch k es))" for y k
    using that by (metis (no_types, lifting) collect_loop_frames(2) image_eqI list.set_map)
  have x: "?num x \<notin> set (map ?num es)" and "distinct (map ?num es)"
    using Cons.prems(1) by simp_all
  show ?case
  proof (cases "entry_due now rto x \<and> max_batch \<le> n + 1")
    case True
    with Cons.prems x show ?thesis
      by (auto simp: collect_loop_Cons) (metis (no_types, lifting) image_eqI)
  next
    case False
    then obtain k where k: "e = resent now x \<or> \<not> entry_due now rto x \<and> e = x \<or>
        e \<in> set (snd (collect_loop now rto max_batch k es))"
      and due: "?num e \<in> pp_packet_number ` set (fst (collect_loop now rto max_batch k es)) \<or>
        entry_due now rto x \<and> ?num e = ?num x"
      using Cons.prems(2,3) by (auto simp: collect_loop_Cons split: if_splits)
    from k show ?thesis
    proof (elim disjE conjE)
      assume e: "e \<in> set (snd (collect_loop now rto max_batch k es))"
      with tail x have "?num e \<noteq> ?num x" by metis
      with due have "?num e \<in> pp_packet_number ` set (fst (collect_loop now rto max_batch k es))"
        by simp
      with Cons.IH [OF \<open>distinct (map ?num es)\<close> e] show ?thesis .
    next
      assume "\<not> entry_due now rto x" "e = x"
      with due x collect_loop_numbers show ?thesis by blast
    qed simp
  qed
qed simp


lemma collect_timeouts_simps [simp]:
  "map (\<lambda>e. pp_encoded_frame (en_packet e)) (rq_pending (snd (collect_timeouts q now rto k))) =
     map (\<lambda>e. pp_encoded_frame (en_packet e)) (rq_pending q)"
  "map (\<lambda>e. pp_packet_number (en_packet e)) (rq_pending (snd (collect_timeouts q now rto k))) =
     map (\<lambda>e. pp_packet_number (en_packet e)) (rq_pending q)"
  "map en_acked (rq_pending (snd (collect_timeouts q now rto k))) = map en_acked (rq_pending q)"
  "length (rq_pending (snd (collect_timeouts q now rto k))) = length (rq_pending q)"
  "rq_inflight_bytes (snd (collect_timeouts q now rto k)) = rq_inflight_bytes q"
  by (simp_all add: collect_timeouts_def case_prod_beta)

section \<open>Invariant\<close>

datatype rq_op =
    RqPush u32 u64 bytes
  | RqMarkAcked u32 u64
  | RqCollect u64 u32 nat
  | RqReset

fun rq_step :: "RetransmissionQueue \<Rightarrow> rq_op \<Rightarrow> RetransmissionQueue" where
  "rq_step q (RqPush n t frame) = RetransmissionQueue_push q n t frame"
| "rq_step q (RqMarkAcked largest m) = mark_acked q largest m"
| "rq_step q (RqCollect now rto k) = snd (collect_timeouts q now rto k)"
| "rq_step q RqReset = RetransmissionQueue_reset q"

lemma rq_inv_alt:
  "rq_inv q \<longleftrightarrow>
     rq_inflight_bytes q = sum_list (map length (map (\<lambda>e. pp_encoded_frame (en_packet e)) (rq_pending q))) \<and>
     list_all (\<lambda>a. \<not> a) (map en_acked (rq_pending q)) \<and>
     list_all (\<lambda>f. f \<noteq> []) (map (\<lambda>e. pp_encoded_frame (en_packet e)) (rq_pending q))"
  by (auto simp: rq_inv_def list_all_iff o_def)

lemma rq_inv_collect: "rq_inv q \<Longrightarrow> rq_inv (snd (collect_timeouts q now rto k))"
  by (simp only: rq_inv_alt collect_timeouts_simps)

lemma rq_inv_push: "rq_inv q \<Longrightarrow> rq_inv (RetransmissionQueue_push q n t frame)"
  by (auto simp: rq_inv_def RetransmissionQueue_push_def Let_def)

lemma rq_inv_mark_acked: "rq_inv q \<Longrightarrow> rq_inv (mark_acked q largest m)"
  by (auto simp: mark_acked_eq Let_def) (auto simp: rq_inv_def list_all_iff)

lemma rq_inv_reset: "rq_inv (RetransmissionQueue_reset q)"
  by (simp add: rq_inv_def RetransmissionQueue_reset_def)

lemma rq_inv_init: "rq_inv RetransmissionQueue_init"
  by (simp add: rq_inv_def RetransmissionQueue_init_def)

interpretation rq: invariant_machine rq_step rq_inv
proof
  fix q e
  assume "rq_inv q"
  then show "rq_inv (rq_step q e)"
    by (cases e) (simp_all add: rq_inv_collect rq_inv_push rq_inv_mark_acked rq_inv_reset)
qed

section \<open>Properties\<close>

text \<open>The byte counter is exact: along every sequence of queue operations from the empty queue,
  \<open>inflight_bytes\<close> is the sum of the sizes of the frames still pending, whichever of the two
  passes of \<open>erase_acked\<close> removed the acknowledged ones.
\<close>

theorem inflight_bytes_exact:
  "let q = foldl rq_step RetransmissionQueue_init ops
   in rq_inflight_bytes q = sum_list (map frame_size (rq_pending q))"
  using rq.run_inv [OF rq_inv_init, of ops] by (simp add: rq_inv_def Let_def)

text \<open>Acknowledging removes exactly the acknowledged packets: on every reachable queue, \<open>mark_acked\<close>
  keeps, in order, the entries the acknowledgement does not cover, and no others.
\<close>

theorem mark_acked_is_filter:
  "let q = foldl rq_step RetransmissionQueue_init ops
   in rq_pending (mark_acked q largest m) =
      filter (\<lambda>e. \<not> is_acked_by_mask (pp_packet_number (en_packet e)) largest m) (rq_pending q)"
  using mark_acked_eq [OF rq.run_inv [OF rq_inv_init, of ops], of largest m] by (simp add: Let_def)

text \<open>\<open>collect_timeouts\<close> returns the first \<open>max_batch\<close> overdue packets of the queue, in order, stamped
  with the current time and with one more retransmission counted; a second call at the same time returns the next batch.
\<close>

theorem collect_timeouts_batches:
  fixes q :: RetransmissionQueue and now :: u64
  assumes "rto \<noteq> 0" and "0 < k"
  defines "overdue \<equiv> filter (entry_due now rto) (rq_pending q)"
  shows "fst (collect_timeouts q now rto k) = map (en_packet \<circ> resent now) (take k overdue) \<and>
    fst (collect_timeouts (snd (collect_timeouts q now rto k)) now rto k) =
      map (en_packet \<circ> resent now) (take k (drop k overdue))"
  using assms by (simp add: collect_timeouts_def case_prod_beta collect_loop_due collect_loop_leaves)

text \<open>No packet is retransmitted twice within one timeout: of two collections less than \<open>rto\<close>
  milliseconds apart, with nothing in between, the second returns no packet number the first returned.
\<close>

theorem no_double_retransmit:
  assumes "distinct (map (\<lambda>e. pp_packet_number (en_packet e)) (rq_pending q))"
    and "now' - now < ucast rto"
  shows "pp_packet_number ` set (fst (collect_timeouts q now rto k)) \<inter>
    pp_packet_number ` set (fst (collect_timeouts (snd (collect_timeouts q now rto k)) now' rto k')) = {}"
proof (rule ccontr)
  let ?es = "snd (collect_loop now rto k 0 (rq_pending q))"
  assume neg: "\<not> ?thesis"
  then have pos: "rto \<noteq> 0" "0 < k" "0 < k'"
    by (auto simp: collect_timeouts_def split: if_splits)
  with neg obtain p where "p \<in> set (fst (collect_loop now' rto k' 0 ?es))"
    and num: "pp_packet_number p \<in> pp_packet_number ` set (fst (collect_loop now rto k 0 (rq_pending q)))"
    unfolding collect_timeouts_def by (auto simp: case_prod_beta) (metis imageI)
  with pos obtain e where e: "e \<in> set ?es" "entry_due now' rto e" "p = en_packet (resent now' e)"
    by (auto simp: collect_loop_due dest!: in_set_takeD)
  with collect_loop_resent_at [OF assms(1) e(1)] num
  have "pp_last_sent_unix_ms (en_packet e) = now" by simp
  with e(2) assms(2) show False by (simp add: entry_due_def not_less [symmetric])
qed

definition two_pending :: RetransmissionQueue where
  "two_pending = RetransmissionQueue_push (RetransmissionQueue_push RetransmissionQueue_init 1 0 [9]) 2 0 [8]"

theorem collect_timeouts_batches_witness:
  "map pp_packet_number (fst (collect_timeouts two_pending 100 20 1)) = [1] \<and>
   map pp_packet_number (fst (collect_timeouts (snd (collect_timeouts two_pending 100 20 1)) 100 20 1)) = [2]"
  using collect_timeouts_batches [of 20 1 two_pending 100]
  by (simp add: two_pending_def RetransmissionQueue_push_def RetransmissionQueue_init_def Let_def
      entry_due_def)

theorem no_double_retransmit_witness:
  "pp_packet_number ` set (fst (collect_timeouts two_pending 100 20 2)) \<inter>
    pp_packet_number ` set (fst (collect_timeouts (snd (collect_timeouts two_pending 100 20 2)) 119 20 2)) = {}"
  by (rule no_double_retransmit)
    (simp_all add: two_pending_def RetransmissionQueue_push_def RetransmissionQueue_init_def Let_def)

end
