(* ===== verification/Rudp_Peer.thy ===== *)
theory Rudp_Peer
  imports Prelude
begin

text \<open>
  The peer state of an RUDP connection, \<^verbatim>\<open>core/include/server/core/net/rudp/rudp_peer_state.hpp\<close>
  (lifecycle, configuration, round-trip estimator), and the RUDP counters of
  \<^verbatim>\<open>core/src/runtime_metrics.cpp\<close>. The estimator is shown to stay within the range of its samples and
  its timeout within the configured bounds.
\<close>

section \<open>Peer state\<close>

datatype LifecycleState =
  LcIdle | LcHelloSent | LcHelloReceived | LcEstablished | LcDraining | LcClosed

record RudpConfig =
  rc_handshake_timeout_ms :: u32
  rc_idle_timeout_ms :: u32
  rc_ack_delay_ms :: u32
  rc_rto_min_ms :: u32
  rc_rto_max_ms :: u32
  rc_max_inflight_packets :: nat
  rc_max_inflight_bytes :: nat
  rc_mtu_payload_bytes :: nat

definition RudpConfig_default :: RudpConfig where
  "RudpConfig_default =
     \<lparr>rc_handshake_timeout_ms = 1500, rc_idle_timeout_ms = 10000, rc_ack_delay_ms = 10,
      rc_rto_min_ms = 50, rc_rto_max_ms = 2000, rc_max_inflight_packets = 256,
      rc_max_inflight_bytes = 256 * 1024, rc_mtu_payload_bytes = 1200\<rparr>"

record RttEstimator =
  rtt_initialized :: bool
  rtt_srtt_ms :: u32
  rtt_rttvar_ms :: u32
  rtt_rto_ms :: u32

definition RttEstimator_default :: RttEstimator where
  "RttEstimator_default =
     \<lparr>rtt_initialized = False, rtt_srtt_ms = 0, rtt_rttvar_ms = 0, rtt_rto_ms = 200\<rparr>"

text \<open>\<open>std::clamp\<close>.\<close>

definition clamp :: "u32 \<Rightarrow> u32 \<Rightarrow> u32 \<Rightarrow> u32" where
  "clamp v lo hi = (if v < lo then lo else if hi < v then hi else v)"

text \<open>
  \<open>std::abs(static_cast<int>(a) - static_cast<int>(b))\<close>. For values from \<open>2 ^ 31\<close> on the subtraction of the
  two \<open>int\<close>s may overflow, which C++ leaves undefined; the model takes the exact difference there.
\<close>

definition abs_int_diff :: "u32 \<Rightarrow> u32 \<Rightarrow> u32" where
  "abs_int_diff a b = of_int \<bar>sint a - sint b\<bar>"

definition RttEstimator_update :: "RttEstimator \<Rightarrow> u32 \<Rightarrow> u32 \<Rightarrow> u32 \<Rightarrow> RttEstimator" where
  "RttEstimator_update r sample_ms rto_min_ms rto_max_ms =
     (if sample_ms = 0 then r
      else
        let r = (if \<not> rtt_initialized r then
                   r\<lparr>rtt_initialized := True, rtt_srtt_ms := sample_ms,
                     rtt_rttvar_ms := max 1 (sample_ms div 2)\<rparr>
                 else
                   let err = abs_int_diff (rtt_srtt_ms r) sample_ms;
                       r = r\<lparr>rtt_rttvar_ms :=
                               ucast ((3 * ucast (rtt_rttvar_ms r) + ucast err :: u64) div 4)\<rparr>
                   in r\<lparr>rtt_srtt_ms :=
                          ucast ((7 * ucast (rtt_srtt_ms r) + ucast sample_ms :: u64) div 8)\<rparr>);
            candidate = rtt_srtt_ms r + max 1 (4 * rtt_rttvar_ms r)
        in r\<lparr>rtt_rto_ms := clamp candidate rto_min_ms rto_max_ms\<rparr>)"

record RudpPeerState =
  ps_lifecycle :: LifecycleState
  ps_connection_id :: u32
  ps_next_packet_number :: u32
  ps_last_recv_unix_ms :: u64
  ps_last_send_unix_ms :: u64
  ps_last_ack_emit_unix_ms :: u64
  ps_ack_largest :: u32
  ps_ack_mask :: u64
  ps_fallback_required :: bool
  ps_fallback_reason :: string
  ps_rtt :: RttEstimator

definition RudpPeerState_default :: RudpPeerState where
  "RudpPeerState_default =
     \<lparr>ps_lifecycle = LcIdle, ps_connection_id = 0, ps_next_packet_number = 1,
      ps_last_recv_unix_ms = 0, ps_last_send_unix_ms = 0, ps_last_ack_emit_unix_ms = 0,
      ps_ack_largest = 0, ps_ack_mask = 0, ps_fallback_required = False, ps_fallback_reason = [],
      ps_rtt = RttEstimator_default\<rparr>"

definition RudpPeerState_mark_fallback :: "RudpPeerState \<Rightarrow> string \<Rightarrow> RudpPeerState" where
  "RudpPeerState_mark_fallback s reason = s\<lparr>ps_fallback_required := True, ps_fallback_reason := reason\<rparr>"

definition RudpPeerState_reset :: "RudpPeerState \<Rightarrow> RudpPeerState" where
  "RudpPeerState_reset s = RudpPeerState_default"

section \<open>Counters\<close>

text \<open>
  The process-wide RUDP counters. Each \<open>fetch_add\<close> is atomic; a call's effect on the
  counters is a function of their values, so a run of calls is a fold.
\<close>

datatype RudpFallbackReason =
  FbHandshakeTimeout | FbIdleTimeout | FbProtocolError | FbInflightLimit | FbDisabled | FbOther

record RudpMetrics =
  rm_handshake_ok_total :: u64
  rm_handshake_fail_total :: u64
  rm_retransmit_total :: u64
  rm_inflight_packets :: u64
  rm_rtt_ms_sum :: u64
  rm_rtt_ms_count :: u64
  rm_rtt_ms_max :: u64
  rm_rtt_ms_bucket_counts :: "u64 list"
  rm_fallback_total :: "u64 list"

definition kRudpRttBucketUpperBoundsMs :: "u64 list" where
  "kRudpRttBucketUpperBoundsMs = [1, 2, 5, 10, 20, 50, 100, 200, 500, 1000, 2000]"

definition RudpMetrics_default :: RudpMetrics where
  "RudpMetrics_default =
     \<lparr>rm_handshake_ok_total = 0, rm_handshake_fail_total = 0, rm_retransmit_total = 0,
      rm_inflight_packets = 0, rm_rtt_ms_sum = 0, rm_rtt_ms_count = 0, rm_rtt_ms_max = 0,
      rm_rtt_ms_bucket_counts = replicate 11 0, rm_fallback_total = replicate 6 0\<rparr>"

definition normalize_rudp_fallback_index :: "RudpFallbackReason \<Rightarrow> nat" where
  "normalize_rudp_fallback_index reason =
     (case reason of FbHandshakeTimeout \<Rightarrow> 0 | FbIdleTimeout \<Rightarrow> 1 | FbProtocolError \<Rightarrow> 2
        | FbInflightLimit \<Rightarrow> 3 | FbDisabled \<Rightarrow> 4 | FbOther \<Rightarrow> 5)"

definition record_rudp_handshake_result :: "bool \<Rightarrow> RudpMetrics \<Rightarrow> RudpMetrics" where
  "record_rudp_handshake_result ok m =
     (if ok then m\<lparr>rm_handshake_ok_total := rm_handshake_ok_total m + 1\<rparr>
      else m\<lparr>rm_handshake_fail_total := rm_handshake_fail_total m + 1\<rparr>)"

definition record_rudp_retransmit :: "u64 \<Rightarrow> RudpMetrics \<Rightarrow> RudpMetrics" where
  "record_rudp_retransmit count m =
     (if count = 0 then m else m\<lparr>rm_retransmit_total := rm_retransmit_total m + count\<rparr>)"

definition set_rudp_inflight_packets :: "nat \<Rightarrow> RudpMetrics \<Rightarrow> RudpMetrics" where
  "set_rudp_inflight_packets packets m = m\<lparr>rm_inflight_packets := of_nat packets\<rparr>"

text \<open>The first bucket whose bound is not below the sample; a sample above all of them is in none.\<close>

fun count_in_bucket :: "u64 \<Rightarrow> u64 list \<Rightarrow> u64 list \<Rightarrow> u64 list" where
  "count_in_bucket sample (bound # bounds) (c # cs) =
     (if sample \<le> bound then (c + 1) # cs else c # count_in_bucket sample bounds cs)"
| "count_in_bucket sample bounds cs = cs"

definition record_rudp_rtt_ms :: "u32 \<Rightarrow> RudpMetrics \<Rightarrow> RudpMetrics" where
  "record_rudp_rtt_ms rtt_ms m =
     (if rtt_ms = 0 then m
      else let sample = ucast rtt_ms in
        m\<lparr>rm_rtt_ms_sum := rm_rtt_ms_sum m + sample, rm_rtt_ms_count := rm_rtt_ms_count m + 1,
          rm_rtt_ms_max := max (rm_rtt_ms_max m) sample,
          rm_rtt_ms_bucket_counts :=
            count_in_bucket sample kRudpRttBucketUpperBoundsMs (rm_rtt_ms_bucket_counts m)\<rparr>)"

definition record_rudp_fallback :: "RudpFallbackReason \<Rightarrow> RudpMetrics \<Rightarrow> RudpMetrics" where
  "record_rudp_fallback reason m =
     (let i = normalize_rudp_fallback_index reason
      in m\<lparr>rm_fallback_total := (rm_fallback_total m)[i := rm_fallback_total m ! i + 1]\<rparr>)"


section \<open>The estimator stays within its samples\<close>

lemma sint_small: "unat a < 2 ^ 31 \<Longrightarrow> sint a = int (unat a)" for a :: u32
proof -
  assume "unat a < 2 ^ 31"
  then have "int (unat a) < int (2 ^ 31)" by (simp only: of_nat_less_iff)
  then have "uint a < 2 ^ 31" by simp
  moreover have "- (2 ^ 31) \<le> uint a"
    by (rule order_trans [OF _ uint_ge_0]) simp
  ultimately show "sint a = int (unat a)"
    using signed_take_bit_int_eq_self [of 31 "uint a"] by (simp add: sint_uint)
qed

lemma unat_abs_int_diff:
  assumes "unat a < 2 ^ 31" and "unat b < 2 ^ 31"
  shows "unat (abs_int_diff a b) = max (unat a) (unat b) - min (unat a) (unat b)"
proof -
  have "\<bar>sint a - sint b\<bar> = int (max (unat a) (unat b) - min (unat a) (unat b))"
    unfolding sint_small [OF assms(1)] sint_small [OF assms(2)] by arith
  then show ?thesis
    using assms unfolding abs_int_diff_def by (simp only: of_int_of_nat_eq unat_of_nat) simp
qed

text \<open>The weighted means are computed in 64 bits and fit back into 32: nothing is lost.\<close>

lemma unat_ewma:
  fixes s x :: u32
  assumes "p + 1 = q" and "q \<le> 8" and "0 < p"
  shows "unat (ucast ((of_nat p * ucast s + ucast x :: u64) div of_nat q) :: u32)
    = (p * unat s + unat x) div q"
proof -
  have s: "unat s < 2 ^ 32" and x: "unat x < 2 ^ 32"
    using unat_less_pow [of s] unat_less_pow [of x] by simp_all
  then have "p * unat s + unat x < q * 2 ^ 32"
    using assms by (smt (verit) add_mult_distrib add_strict_mono mult.commute mult_1
        mult_less_mono1)
  moreover from this have "p * unat s + unat x < 2 ^ 64"
    using assms(2) by simp
  moreover have "unat (of_nat p :: u64) = p" "unat (of_nat q :: u64) = q"
    using assms by (simp_all add: unat_of_nat)
  moreover from calculation have "p * unat s < 2 ^ 64" by linarith
  ultimately have 64: "unat ((of_nat p * ucast s + ucast x :: u64) div of_nat q)
      = (p * unat s + unat x) div q"
    by (simp add: unat_div unat_word_ariths unat_ucast_up)
  moreover have "(p * unat s + unat x) div q < 2 ^ 32"
    using \<open>_ < q * 2 ^ 32\<close> by (simp add: less_mult_imp_div_less mult.commute)
  ultimately show ?thesis
    by (simp add: unsigned_ucast_eq take_bit_nat_eq_self)
qed

definition rtt_within :: "nat \<Rightarrow> nat \<Rightarrow> RttEstimator \<Rightarrow> bool" where
  "rtt_within a b r \<longleftrightarrow> (rtt_initialized r \<longrightarrow>
     a \<le> unat (rtt_srtt_ms r) \<and> unat (rtt_srtt_ms r) \<le> b \<and> unat (rtt_rttvar_ms r) \<le> b)"

lemma mean_bounds: "a \<le> s \<Longrightarrow> s \<le> b \<Longrightarrow> a \<le> x \<Longrightarrow> x \<le> b \<Longrightarrow> 0 < p \<Longrightarrow>
    a \<le> (p * s + x) div (p + 1) \<and> (p * s + x) div (p + 1) \<le> b" for a b s x p :: nat
proof -
  assume le: "a \<le> s" "s \<le> b" "a \<le> x" "x \<le> b"
  have "a * (p + 1) \<le> p * s + x" "p * s + x \<le> b * (p + 1)"
    using le mult_le_mono2 [OF le(1), of p] mult_le_mono2 [OF le(2), of p]
    unfolding add_mult_distrib2 mult.commute [of _ p] by linarith+
  then show ?thesis
    by (metis div_le_mono nonzero_mult_div_cancel_right add_is_0 one_neq_zero)
qed


lemma rtt_update_within:
  assumes within: "rtt_within a b r" and x: "a \<le> unat x" "unat x \<le> b" "x \<noteq> 0"
    and b: "b < 2 ^ 31"
  shows "rtt_within a b (RttEstimator_update r x lo hi)"
    and "rtt_initialized (RttEstimator_update r x lo hi)"
proof -
  show "rtt_initialized (RttEstimator_update r x lo hi)"
    using x(3) by (simp add: RttEstimator_update_def Let_def)
  have pos: "0 < unat x" using x(3) by (simp add: unat_gt_0)
  show "rtt_within a b (RttEstimator_update r x lo hi)"
  proof (cases "rtt_initialized r")
    case False
    have "unat (max 1 (x div 2)) \<le> b"
      using x(2) pos by (auto simp: max_def unat_div intro: le_trans [OF div_le_dividend])
    then show ?thesis
      using False x by (simp add: rtt_within_def RttEstimator_update_def Let_def)
  next
    case True
    let ?s = "rtt_srtt_ms r" and ?v = "rtt_rttvar_ms r"
    have s: "a \<le> unat ?s" "unat ?s \<le> b" "unat ?v \<le> b"
      using within True by (simp_all add: rtt_within_def)
    have "unat (abs_int_diff ?s x) \<le> b"
      using s x b by (simp add: unat_abs_int_diff le_diff_conv max_def)
    then have "unat (ucast ((3 * ucast ?v + ucast (abs_int_diff ?s x) :: u64) div 4) :: u32) \<le> b"
      using unat_ewma [of 3 4 ?v "abs_int_diff ?s x"] mean_bounds [of 0 "unat ?v" b _ 3] s by simp
    moreover have "a \<le> unat (ucast ((7 * ucast ?s + ucast x :: u64) div 8) :: u32) \<and>
        unat (ucast ((7 * ucast ?s + ucast x :: u64) div 8) :: u32) \<le> b"
      using unat_ewma [of 7 8 ?s x] mean_bounds [of a "unat ?s" b "unat x" 7] s x by simp
    ultimately show ?thesis
      using True x by (simp add: rtt_within_def RttEstimator_update_def Let_def)
  qed
qed

lemma rtt_update_rto:
  "x \<noteq> 0 \<Longrightarrow>
     rtt_rto_ms (RttEstimator_update r x lo hi) =
       clamp (rtt_srtt_ms (RttEstimator_update r x lo hi)
         + max 1 (4 * rtt_rttvar_ms (RttEstimator_update r x lo hi))) lo hi"
  by (simp add: RttEstimator_update_def Let_def)

lemma unat_clamp: "lo \<le> hi \<Longrightarrow> unat (clamp v lo hi) = min (unat hi) (max (unat lo) (unat v))"
  by (auto simp: clamp_def word_le_nat_alt word_less_nat_alt)

definition rtt_run :: "u32 \<Rightarrow> u32 \<Rightarrow> u32 list \<Rightarrow> RttEstimator" where
  "rtt_run lo hi xs = foldl (\<lambda>r x. RttEstimator_update r x lo hi) RttEstimator_default xs"

lemma rtt_run_within:
  assumes "list_all (\<lambda>x. x \<noteq> 0 \<and> a \<le> unat x \<and> unat x \<le> b) xs" and "b < 2 ^ 31"
  shows "rtt_within a b (rtt_run lo hi xs) \<and> (xs \<noteq> [] \<longrightarrow> rtt_initialized (rtt_run lo hi xs))"
  using assms(1)
proof (induction xs rule: rev_induct)
  case Nil
  then show ?case by (simp add: rtt_run_def rtt_within_def RttEstimator_default_def)
next
  case (snoc x xs)
  then show ?case
    using rtt_update_within [of a b "rtt_run lo hi xs" x, OF _ _ _ _ assms(2)]
    by (simp add: rtt_run_def)
qed

text \<open>The round-trip estimator computes what it is meant to: for any nonempty sequence of nonzero samples between
  \<open>a\<close> and \<open>b\<close> milliseconds, the smoothed time stays between \<open>a\<close> and \<open>b\<close>, the variation below \<open>b\<close>, and the timeout is
  the smoothed time plus four variations, without wrap-around, clamped to the configured bounds.
\<close>

theorem rtt_estimator_bounds:
  assumes "list_all (\<lambda>x. x \<noteq> 0 \<and> a \<le> unat x \<and> unat x \<le> b) xs" and "xs \<noteq> []"
    and "5 * b < 2 ^ 32" and "lo \<le> hi"
  defines "r \<equiv> rtt_run lo hi xs"
  shows "a \<le> unat (rtt_srtt_ms r) \<and> unat (rtt_srtt_ms r) \<le> b \<and> unat (rtt_rttvar_ms r) \<le> b \<and>
    unat (rtt_rto_ms r) =
      min (unat hi) (max (unat lo) (unat (rtt_srtt_ms r) + max 1 (4 * unat (rtt_rttvar_ms r))))"
proof -
  let ?s = "unat (rtt_srtt_ms r)" and ?v = "unat (rtt_rttvar_ms r)"
  have bounds: "a \<le> ?s" "?s \<le> b" "?v \<le> b"
    using rtt_run_within [OF assms(1), of lo hi] assms(2,3) by (simp_all add: r_def rtt_within_def)
  obtain ys x where xs: "xs = ys @ [x]" using assms(2) by (cases xs rule: rev_cases) auto
  have rto: "rtt_rto_ms r = clamp (rtt_srtt_ms r + max 1 (4 * rtt_rttvar_ms r)) lo hi"
    using assms(1) xs by (simp add: r_def rtt_run_def rtt_update_rto)
  have "0 < b" using assms(1) xs by (auto simp: unat_gt_0 [symmetric])
  have v4: "unat (4 * rtt_rttvar_ms r) = 4 * ?v"
    using bounds assms(3) by (simp add: unat_word_ariths)
  then have m: "unat (max 1 (4 * rtt_rttvar_ms r)) = max 1 (4 * ?v)"
    by (auto simp: max_def word_le_nat_alt)
  have "?s + max 1 (4 * ?v) < 2 ^ 32"
    using bounds assms(3) \<open>0 < b\<close> by linarith
  then have "unat (rtt_srtt_ms r + max 1 (4 * rtt_rttvar_ms r)) = ?s + max 1 (4 * ?v)"
    by (simp add: unat_word_ariths m)
  with bounds show ?thesis by (simp add: rto unat_clamp [OF assms(4)])
qed

theorem rtt_estimator_bounds_witness:
  "rtt_rto_ms (rtt_run 50 2000 [30, 40]) = 83 \<and> unat (rtt_srtt_ms (rtt_run 50 2000 [30, 40])) \<le> 40"
proof
  show "unat (rtt_srtt_ms (rtt_run 50 2000 [30, 40])) \<le> 40"
    using rtt_estimator_bounds [of 30 40 "[30, 40]" 50 2000] by simp
qed code_simp

end
