(* ===== verification/Rudp_Engine.thy ===== *)
theory Rudp_Engine
  imports Rudp_Packet Ack_Window Retransmission_Queue Rudp_Peer
begin

text \<open>
  The RUDP engine of \<^verbatim>\<open>core/src/net/rudp/rudp_engine.cpp\<close>: one connection's state, its receive window
  and its retransmission queue, driven by received datagrams, queued payloads and polls. The
  process-wide counters are passed along beside the engine. A \<open>std::string\<close> that was moved from is
  empty, as it is in the standard libraries the code is built with.
\<close>

section \<open>Data\<close>

record ProcessResult =
  pr_parsed :: bool
  pr_consumed :: bool
  pr_handshake_established :: bool
  pr_fallback_required :: bool
  pr_fallback_reason :: string
  pr_egress_datagrams :: "bytes list"
  pr_inner_frames :: "bytes list"
  pr_retransmit_count :: u64

definition ProcessResult_default :: ProcessResult where
  "ProcessResult_default =
     \<lparr>pr_parsed = False, pr_consumed = False, pr_handshake_established = False,
      pr_fallback_required = False, pr_fallback_reason = [], pr_egress_datagrams = [],
      pr_inner_frames = [], pr_retransmit_count = 0\<rparr>"

record RudpEngine =
  eng_config :: RudpConfig
  eng_state :: RudpPeerState
  eng_ack_window :: AckWindow
  eng_queue :: RetransmissionQueue

definition RudpEngine_init :: "RudpConfig \<Rightarrow> RudpEngine" where
  "RudpEngine_init config =
     \<lparr>eng_config = config, eng_state = RudpPeerState_default, eng_ack_window = AckWindow_init,
      eng_queue = RetransmissionQueue_init\<rparr>"

section \<open>Operations\<close>

definition now32 :: "u64 \<Rightarrow> u32" where
  "now32 now_unix_ms = ucast (now_unix_ms AND 0xFFFFFFFF)"

definition classify_fallback_reason :: "string \<Rightarrow> RudpFallbackReason" where
  "classify_fallback_reason reason =
     (if reason = ''rudp_handshake_timeout'' then FbHandshakeTimeout
      else if reason = ''rudp_idle_timeout'' then FbIdleTimeout
      else if reason = ''rudp_inflight_limit'' then FbInflightLimit
      else if reason = ''rudp_disabled'' then FbDisabled
      else if reason = ''invalid_rudp_packet'' \<or> reason = ''connection_id_mismatch''
              \<or> reason = ''rudp_not_established'' \<or> reason = ''peer_closed'' then FbProtocolError
      else FbOther)"

definition RudpEngine_reset :: "RudpEngine \<Rightarrow> RudpMetrics \<Rightarrow> RudpEngine \<times> RudpMetrics" where
  "RudpEngine_reset e m =
     (e\<lparr>eng_state := RudpPeerState_reset (eng_state e),
        eng_ack_window := AckWindow_reset (eng_ack_window e),
        eng_queue := RetransmissionQueue_reset (eng_queue e)\<rparr>,
      set_rudp_inflight_packets 0 m)"

definition make_packet_header ::
    "RudpEngine \<Rightarrow> PacketType \<Rightarrow> u8 \<Rightarrow> u8 \<Rightarrow> u32 \<Rightarrow> u64 \<Rightarrow> bytes \<Rightarrow> RudpHeader" where
  "make_packet_header e type flags channel packet_number now_unix_ms payload =
     RudpHeader_default\<lparr>rh_type := type, rh_flags := flags, rh_channel := channel,
       rh_connection_id := ps_connection_id (eng_state e), rh_packet_number := packet_number,
       rh_ack_largest := ps_ack_largest (eng_state e), rh_ack_mask := ps_ack_mask (eng_state e),
       rh_ack_delay_ms := ucast (min (rc_ack_delay_ms (eng_config e)) 0xFFFF),
       rh_timestamp_ms := now32 now_unix_ms, rh_payload_length := of_nat (length payload)\<rparr>"

definition make_packet ::
    "RudpEngine \<Rightarrow> PacketType \<Rightarrow> u8 \<Rightarrow> u8 \<Rightarrow> u32 \<Rightarrow> u64 \<Rightarrow> bytes \<Rightarrow> bytes" where
  "make_packet e type flags channel packet_number now_unix_ms payload =
     encode_packet (make_packet_header e type flags channel packet_number now_unix_ms payload) payload"

definition set_fallback ::
    "RudpEngine \<Rightarrow> RudpMetrics \<Rightarrow> ProcessResult \<Rightarrow> string \<Rightarrow> ProcessResult \<times> RudpEngine \<times> RudpMetrics" where
  "set_fallback e m result reason =
     (let state = RudpPeerState_mark_fallback (eng_state e) reason;
          state = state\<lparr>ps_lifecycle := LcDraining\<rparr>;
          m = record_rudp_fallback (classify_fallback_reason reason) m;
          result = result\<lparr>pr_fallback_required := True, pr_fallback_reason := ps_fallback_reason state\<rparr>;
          state = state\<lparr>ps_fallback_reason := []\<rparr>
      in (result, e\<lparr>eng_state := state\<rparr>, m))"

definition make_hello :: "RudpEngine \<Rightarrow> u32 \<Rightarrow> u64 \<Rightarrow> bytes \<times> RudpEngine" where
  "make_hello e connection_id now_unix_ms =
     (let e = e\<lparr>eng_state := (eng_state e)\<lparr>ps_connection_id := connection_id,
                ps_lifecycle := LcHelloSent, ps_last_send_unix_ms := now_unix_ms\<rparr>\<rparr>
      in (make_packet e kHello 0 0 0 now_unix_ms [], e))"

definition make_close :: "RudpEngine \<Rightarrow> u64 \<Rightarrow> bytes \<times> RudpEngine" where
  "make_close e now_unix_ms =
     (let e = e\<lparr>eng_state := (eng_state e)\<lparr>ps_lifecycle := LcClosed,
                ps_last_send_unix_ms := now_unix_ms\<rparr>\<rparr>
      in (make_packet e kClose 0 0 0 now_unix_ms [], e))"

text \<open>The part of \<open>process_datagram\<close> after the switch: a DATA packet on this connection.\<close>

definition process_data ::
    "RudpEngine \<Rightarrow> RudpMetrics \<Rightarrow> ProcessResult \<Rightarrow> RudpHeader \<Rightarrow> bytes \<Rightarrow> u64 \<Rightarrow>
     ProcessResult \<times> RudpEngine \<times> RudpMetrics" where
  "process_data e m result header payload now_unix_ms =
     (if ps_lifecycle (eng_state e) \<noteq> LcEstablished then
        set_fallback e (record_rudp_handshake_result False m) result ''rudp_not_established''
      else case AckWindow_observe (eng_ack_window e) (rh_packet_number header) of (ack, window) \<Rightarrow>
        let e = e\<lparr>eng_ack_window := window,
                  eng_state := (eng_state e)\<lparr>ps_ack_largest := ao_ack_largest ack,
                                            ps_ack_mask := ao_ack_mask ack\<rparr>\<rparr> in
        if \<not> ao_accepted ack then (result, e, m)
        else
          let result = (if payload \<noteq> []
                then result\<lparr>pr_inner_frames := pr_inner_frames result @ [payload]\<rparr> else result);
              should_emit_ack =
                (rh_flags header AND kFlagAckOnly = 0 \<and>
                 ps_last_ack_emit_unix_ms (eng_state e) + ucast (rc_ack_delay_ms (eng_config e))
                   \<le> now_unix_ms);
              (result, e) =
                (if should_emit_ack then
                   (result\<lparr>pr_egress_datagrams := pr_egress_datagrams result @
                      [make_packet e kData kFlagAckOnly (rh_channel header) 0 now_unix_ms []]\<rparr>,
                    e\<lparr>eng_state := (eng_state e)\<lparr>ps_last_ack_emit_unix_ms := now_unix_ms\<rparr>\<rparr>)
                 else (result, e)) in
          if rh_timestamp_ms header \<noteq> 0 then
            let sent_ts = (ucast (rh_timestamp_ms header) :: u64);
                now_ts = now_unix_ms AND 0xFFFFFFFF;
                sample = (ucast (if sent_ts \<le> now_ts then now_ts - sent_ts else 0) :: u32);
                rtt = RttEstimator_update (ps_rtt (eng_state e)) sample
                        (rc_rto_min_ms (eng_config e)) (rc_rto_max_ms (eng_config e)) in
            (result, e\<lparr>eng_state := (eng_state e)\<lparr>ps_rtt := rtt\<rparr>\<rparr>, record_rudp_rtt_ms sample m)
          else (result, e, m))"

text \<open>The switch on the packet type; a type without a case label falls out of it, as \<open>kData\<close> does.\<close>

definition process_typed ::
    "RudpEngine \<Rightarrow> RudpMetrics \<Rightarrow> ProcessResult \<Rightarrow> RudpHeader \<Rightarrow> bytes \<Rightarrow> u64 \<Rightarrow>
     ProcessResult \<times> RudpEngine \<times> RudpMetrics" where
  "process_typed e m result header payload now_unix_ms =
     (if rh_type header = kHello then
        let new_established = ps_lifecycle (eng_state e) \<noteq> LcEstablished;
            e = e\<lparr>eng_state := (eng_state e)\<lparr>ps_lifecycle := LcEstablished,
                                             ps_last_send_unix_ms := now_unix_ms\<rparr>\<rparr>;
            result = result\<lparr>pr_handshake_established := new_established\<rparr>;
            m = record_rudp_handshake_result True m in
        (result\<lparr>pr_egress_datagrams := pr_egress_datagrams result @
           [make_packet e kHelloAck 0 0 0 now_unix_ms []]\<rparr>, e, m)
      else if rh_type header = kHelloAck then
        (result\<lparr>pr_handshake_established := True\<rparr>,
         e\<lparr>eng_state := (eng_state e)\<lparr>ps_lifecycle := LcEstablished\<rparr>\<rparr>,
         record_rudp_handshake_result True m)
      else if rh_type header = kClose then
        set_fallback (e\<lparr>eng_state := (eng_state e)\<lparr>ps_lifecycle := LcClosed\<rparr>\<rparr>) m result ''peer_closed''
      else if rh_type header = kPing then
        (result\<lparr>pr_egress_datagrams := pr_egress_datagrams result @
           [make_packet e kData kFlagAckOnly 0 0 now_unix_ms []]\<rparr>, e, m)
      else process_data e m result header payload now_unix_ms)"

definition process_datagram ::
    "RudpEngine \<Rightarrow> RudpMetrics \<Rightarrow> bytes \<Rightarrow> u64 \<Rightarrow> ProcessResult \<times> RudpEngine \<times> RudpMetrics" where
  "process_datagram e m datagram now_unix_ms =
     (let result = ProcessResult_default in
      if \<not> looks_like_rudp datagram then (result, e, m)
      else
        let result = result\<lparr>pr_consumed := True\<rparr>;
            decoded = decode_packet datagram;
            header = dr_header decoded in
        if \<not> dr_ok decoded \<or> rh_version header \<noteq> 1 then
          set_fallback e (record_rudp_handshake_result False m) result ''invalid_rudp_packet''
        else
          let result = result\<lparr>pr_parsed := True\<rparr>;
              e = e\<lparr>eng_state := (eng_state e)\<lparr>ps_last_recv_unix_ms := now_unix_ms\<rparr>\<rparr> in
          if ps_connection_id (eng_state e) \<noteq> 0 \<and> rh_connection_id header \<noteq> 0
             \<and> ps_connection_id (eng_state e) \<noteq> rh_connection_id header then
            set_fallback e (record_rudp_handshake_result False m) result ''connection_id_mismatch''
          else
            let e = (if ps_connection_id (eng_state e) = 0
                     then e\<lparr>eng_state := (eng_state e)\<lparr>ps_connection_id := rh_connection_id header\<rparr>\<rparr>
                     else e);
                e = e\<lparr>eng_queue := mark_acked (eng_queue e) (rh_ack_largest header) (rh_ack_mask header)\<rparr>;
                m = set_rudp_inflight_packets (inflight_packets (eng_queue e)) m in
            process_typed e m result header (dr_payload decoded) now_unix_ms)"

text \<open>The datagram to send, or \<open>None\<close> for \<open>false\<close>.\<close>

definition queue_reliable_payload ::
    "RudpEngine \<Rightarrow> RudpMetrics \<Rightarrow> bytes \<Rightarrow> u8 \<Rightarrow> u64 \<Rightarrow> bytes option \<times> RudpEngine \<times> RudpMetrics" where
  "queue_reliable_payload e m inner_frame channel now_unix_ms =
     (if ps_lifecycle (eng_state e) \<noteq> LcEstablished then (None, e, m)
      else if inner_frame = [] then (None, e, m)
      else if length inner_frame > rc_mtu_payload_bytes (eng_config e) then (None, e, m)
      else if inflight_packets (eng_queue e) \<ge> rc_max_inflight_packets (eng_config e) then
        (None, e, record_rudp_fallback FbInflightLimit m)
      else if rq_inflight_bytes (eng_queue e) + length inner_frame
              > rc_max_inflight_bytes (eng_config e) then
        (None, e, record_rudp_fallback FbInflightLimit m)
      else
        let packet_number = ps_next_packet_number (eng_state e);
            e = e\<lparr>eng_state := (eng_state e)\<lparr>ps_next_packet_number := packet_number + 1\<rparr>\<rparr>;
            frame = make_packet e kData 0 channel packet_number now_unix_ms inner_frame;
            e = e\<lparr>eng_queue := RetransmissionQueue_push (eng_queue e) packet_number now_unix_ms frame\<rparr>;
            m = set_rudp_inflight_packets (inflight_packets (eng_queue e)) m;
            e = e\<lparr>eng_state := (eng_state e)\<lparr>ps_last_send_unix_ms := now_unix_ms\<rparr>\<rparr> in
        (Some frame, e, m))"

definition mark_retransmit :: "bytes \<Rightarrow> bytes" where
  "mark_retransmit frame =
     (if length frame \<ge> kRudpHeaderBytes then frame[27 := frame ! 27 OR kFlagRetransmit] else frame)"

definition RudpEngine_poll ::
    "RudpEngine \<Rightarrow> RudpMetrics \<Rightarrow> u64 \<Rightarrow> ProcessResult \<times> RudpEngine \<times> RudpMetrics" where
  "RudpEngine_poll e m now_unix_ms =
     (let result = ProcessResult_default; state = eng_state e; config = eng_config e in
      if ps_lifecycle state = LcHelloSent \<and> 0 < ps_last_send_unix_ms state
         \<and> now_unix_ms > ps_last_send_unix_ms state + ucast (rc_handshake_timeout_ms config) then
        set_fallback e m result ''rudp_handshake_timeout''
      else if ps_lifecycle state = LcEstablished \<and> 0 < ps_last_recv_unix_ms state
         \<and> now_unix_ms > ps_last_recv_unix_ms state + ucast (rc_idle_timeout_ms config) then
        set_fallback e m result ''rudp_idle_timeout''
      else case collect_timeouts (eng_queue e) now_unix_ms (rtt_rto_ms (ps_rtt state)) 16 of
        (due, queue) \<Rightarrow>
          let e = e\<lparr>eng_queue := queue\<rparr> in
          if due = [] then (result, e, m)
          else
            let result = result\<lparr>pr_retransmit_count := of_nat (length due)\<rparr>;
                m = record_rudp_retransmit (pr_retransmit_count result) m;
                m = set_rudp_inflight_packets (inflight_packets (eng_queue e)) m in
            (result\<lparr>pr_egress_datagrams := map (\<lambda>packet. mark_retransmit (pp_encoded_frame packet)) due\<rparr>,
             e, m))"


section \<open>What each operation touches\<close>

abbreviation res_of :: "'r \<times> 'e \<times> 'm \<Rightarrow> 'r" where "res_of x \<equiv> fst x"
abbreviation eng_of :: "'r \<times> 'e \<times> 'm \<Rightarrow> 'e" where "eng_of x \<equiv> fst (snd x)"
abbreviation met_of :: "'r \<times> 'e \<times> 'm \<Rightarrow> 'm" where "met_of x \<equiv> snd (snd x)"

lemma metric_inflight_simps [simp]:
  "rm_inflight_packets (record_rudp_handshake_result ok m) = rm_inflight_packets m"
  "rm_inflight_packets (record_rudp_fallback r m) = rm_inflight_packets m"
  "rm_inflight_packets (record_rudp_retransmit k m) = rm_inflight_packets m"
  "rm_inflight_packets (record_rudp_rtt_ms x m) = rm_inflight_packets m"
  "rm_inflight_packets (set_rudp_inflight_packets n m) = of_nat n"
  by (simp_all add: record_rudp_handshake_result_def record_rudp_fallback_def
      record_rudp_retransmit_def record_rudp_rtt_ms_def set_rudp_inflight_packets_def Let_def)

lemma set_fallback_simps [simp]:
  "eng_config (eng_of (set_fallback e m r reason)) = eng_config e"
  "eng_queue (eng_of (set_fallback e m r reason)) = eng_queue e"
  "eng_ack_window (eng_of (set_fallback e m r reason)) = eng_ack_window e"
  "ps_lifecycle (eng_state (eng_of (set_fallback e m r reason))) = LcDraining"
  "ps_rtt (eng_state (eng_of (set_fallback e m r reason))) = ps_rtt (eng_state e)"
  "ps_next_packet_number (eng_state (eng_of (set_fallback e m r reason))) = ps_next_packet_number (eng_state e)"
  "rm_inflight_packets (met_of (set_fallback e m r reason)) = rm_inflight_packets m"
  "pr_inner_frames (res_of (set_fallback e m r reason)) = pr_inner_frames r"
  "pr_egress_datagrams (res_of (set_fallback e m r reason)) = pr_egress_datagrams r"
  "pr_fallback_reason (res_of (set_fallback e m r reason)) = reason"
  "pr_fallback_required (res_of (set_fallback e m r reason))"
  by (simp_all add: set_fallback_def RudpPeerState_mark_fallback_def Let_def)

lemma process_data_simps [simp]:
  "eng_config (eng_of (process_data e m r h p now)) = eng_config e"
  "eng_queue (eng_of (process_data e m r h p now)) = eng_queue e"
  "ps_next_packet_number (eng_state (eng_of (process_data e m r h p now))) = ps_next_packet_number (eng_state e)"
  "rm_inflight_packets (met_of (process_data e m r h p now)) = rm_inflight_packets m"
  by (simp_all add: process_data_def Let_def case_prod_beta)

lemma process_typed_simps [simp]:
  "eng_config (eng_of (process_typed e m r h p now)) = eng_config e"
  "eng_queue (eng_of (process_typed e m r h p now)) = eng_queue e"
  "ps_next_packet_number (eng_state (eng_of (process_typed e m r h p now))) = ps_next_packet_number (eng_state e)"
  "rm_inflight_packets (met_of (process_typed e m r h p now)) = rm_inflight_packets m"
  by (simp_all add: process_typed_def Let_def)

lemma process_datagram_queue:
  "eng_queue (eng_of (process_datagram e m d now)) = eng_queue e \<and>
     rm_inflight_packets (met_of (process_datagram e m d now)) = rm_inflight_packets m \<or>
   eng_queue (eng_of (process_datagram e m d now)) =
       mark_acked (eng_queue e) (rh_ack_largest (dr_header (decode_packet d)))
         (rh_ack_mask (dr_header (decode_packet d))) \<and>
     rm_inflight_packets (met_of (process_datagram e m d now)) =
       of_nat (inflight_packets (eng_queue (eng_of (process_datagram e m d now))))"
  by (simp add: process_datagram_def Let_def)

lemma process_datagram_simps [simp]:
  "eng_config (eng_of (process_datagram e m d now)) = eng_config e"
  "ps_next_packet_number (eng_state (eng_of (process_datagram e m d now))) = ps_next_packet_number (eng_state e)"
  by (simp_all add: process_datagram_def Let_def)

section \<open>Invariant\<close>

datatype rudp_op =
    OpDatagram bytes u64
  | OpSend bytes u8 u64
  | OpPoll u64
  | OpHello u32 u64
  | OpClose u64
  | OpReset

fun rudp_step :: "RudpEngine \<times> RudpMetrics \<Rightarrow> rudp_op \<Rightarrow> RudpEngine \<times> RudpMetrics" where
  "rudp_step (e, m) (OpDatagram d now) = snd (process_datagram e m d now)"
| "rudp_step (e, m) (OpSend frame channel now) = snd (queue_reliable_payload e m frame channel now)"
| "rudp_step (e, m) (OpPoll now) = snd (RudpEngine_poll e m now)"
| "rudp_step (e, m) (OpHello connection_id now) = (snd (make_hello e connection_id now), m)"
| "rudp_step (e, m) (OpClose now) = (snd (make_close e now), m)"
| "rudp_step (e, m) OpReset = RudpEngine_reset e m"

text \<open>A pending frame is the encoding of a DATA packet with the number it is filed under.\<close>

definition data_frame :: "nat \<Rightarrow> u32 \<Rightarrow> bytes \<Rightarrow> bool" where
  "data_frame mtu n frame \<longleftrightarrow> (\<exists>h payload. frame = encode_packet h payload \<and>
     rh_magic h = kRudpMagic \<and> rh_version h = 1 \<and> rh_type h = kData \<and> rh_flags h = 0 \<and>
     rh_packet_number h = n \<and> payload \<noteq> [] \<and> length payload \<le> mtu)"

definition queue_bounded :: "RudpConfig \<Rightarrow> RetransmissionQueue \<Rightarrow> bool" where
  "queue_bounded c q \<longleftrightarrow> rq_inv q \<and>
     length (rq_pending q) \<le> rc_max_inflight_packets c \<and>
     rq_inflight_bytes q \<le> rc_max_inflight_bytes c + kRudpHeaderBytes \<and>
     list_all (\<lambda>en. data_frame (rc_mtu_payload_bytes c) (pp_packet_number (en_packet en))
        (pp_encoded_frame (en_packet en))) (rq_pending q)"

definition rudp_inv :: "RudpEngine \<times> RudpMetrics \<Rightarrow> bool" where
  "rudp_inv = (\<lambda>(e, m). queue_bounded (eng_config e) (eng_queue e) \<and>
     rm_inflight_packets m = of_nat (inflight_packets (eng_queue e)))"

lemma queue_bounded_mark_acked:
  assumes "queue_bounded c q"
  shows "queue_bounded c (mark_acked q l k)"
proof -
  have inv: "rq_inv q" using assms by (simp add: queue_bounded_def)
  let ?P = "\<lambda>e. \<not> is_acked_by_mask (pp_packet_number (en_packet e)) l k"
  have "sum_list (map frame_size (filter ?P (rq_pending q))) \<le> sum_list (map frame_size (rq_pending q))"
    by (simp add: sum_list_filter_split [of frame_size "rq_pending q" ?P])
  moreover have "length (filter ?P (rq_pending q)) \<le> length (rq_pending q)"
    by (rule length_filter_le)
  ultimately show ?thesis
    using assms rq_inv_mark_acked [OF inv, of l k]
    unfolding queue_bounded_def mark_acked_eq [OF inv] Let_def
    by (auto simp: rq_inv_def list_all_iff intro: le_trans [OF length_filter_le])
qed

lemma queue_bounded_collect:
  assumes "queue_bounded c q"
  shows "queue_bounded c (snd (collect_timeouts q now rto k))"
proof -
  let ?frames = "\<lambda>q. zip (map (\<lambda>e. pp_packet_number (en_packet e)) (rq_pending q))
    (map (\<lambda>e. pp_encoded_frame (en_packet e)) (rq_pending q))"
  have conv: "list_all (\<lambda>en. P (pp_packet_number (en_packet en)) (pp_encoded_frame (en_packet en))) (rq_pending q)
      \<longleftrightarrow> list_all (\<lambda>(n, f). P n f) (?frames q)" for P q
    by (simp add: zip_map_map zip_same_conv_map list_all_iff)
  have "list_all (\<lambda>en. P (pp_packet_number (en_packet en)) (pp_encoded_frame (en_packet en)))
          (rq_pending (snd (collect_timeouts q now rto k))) \<longleftrightarrow>
        list_all (\<lambda>en. P (pp_packet_number (en_packet en)) (pp_encoded_frame (en_packet en)))
          (rq_pending q)" for P
    unfolding conv [of P] collect_timeouts_simps ..
  from this [of "data_frame (rc_mtu_payload_bytes c)"] show ?thesis
    using assms by (simp add: queue_bounded_def rq_inv_collect)
qed

lemma make_packet_data_frame:
  "payload \<noteq> [] \<Longrightarrow> length payload \<le> mtu \<Longrightarrow>
     data_frame mtu n (make_packet e kData 0 channel n now payload)"
  unfolding data_frame_def make_packet_def
  by (rule exI [of _ "make_packet_header e kData 0 channel n now payload"], rule exI [of _ payload])
    (simp add: make_packet_header_def RudpHeader_default_def)

lemma length_make_packet [simp]:
  "length (make_packet e type flags channel n now payload) = kRudpHeaderBytes + length payload"
  by (simp add: make_packet_def)

lemma make_packet_nonempty [simp]: "make_packet e type flags channel n now payload \<noteq> []"
  by (metis length_make_packet list.size(3) add_is_0 zero_neq_numeral)

lemma queue_bounded_push:
  assumes "queue_bounded c q" and "length (rq_pending q) < rc_max_inflight_packets c"
    and "rq_inflight_bytes q + length frame \<le> rc_max_inflight_bytes c + kRudpHeaderBytes"
    and "data_frame (rc_mtu_payload_bytes c) n frame"
  shows "queue_bounded c (RetransmissionQueue_push q n t frame)"
  using assms rq_inv_push [of q n t frame]
  by (auto simp: queue_bounded_def RetransmissionQueue_push_def Let_def)

lemma queue_reliable_payload_inv:
  assumes "rudp_inv (e, m)"
  shows "rudp_inv (snd (queue_reliable_payload e m frame channel now))"
  using assms
  by (auto simp: rudp_inv_def queue_reliable_payload_def Let_def inflight_packets_def
      intro!: queue_bounded_push make_packet_data_frame)

lemma process_datagram_inv:
  assumes "rudp_inv (e, m)"
  shows "rudp_inv (snd (process_datagram e m d now))"
  using assms process_datagram_queue [of e m d now]
  by (auto simp: rudp_inv_def case_prod_beta queue_bounded_mark_acked)

lemma poll_inv:
  assumes "rudp_inv (e, m)"
  shows "rudp_inv (snd (RudpEngine_poll e m now))"
  using assms
  by (auto simp: rudp_inv_def case_prod_beta RudpEngine_poll_def Let_def queue_bounded_collect
      inflight_packets_def)

lemma rudp_step_inv:
  assumes "rudp_inv s"
  shows "rudp_inv (rudp_step s op)"
proof (cases s)
  case (Pair e m)
  with assms show ?thesis
    by (cases op) (auto simp: process_datagram_inv queue_reliable_payload_inv poll_inv,
      auto simp: rudp_inv_def queue_bounded_def make_hello_def make_close_def RudpEngine_reset_def
        RetransmissionQueue_reset_def rq_inv_def inflight_packets_def Let_def)
qed

interpretation rudp: invariant_machine rudp_step rudp_inv
  by unfold_locales (rule rudp_step_inv)

end
