(* ===== verification/Rudp_Exchange.thy ===== *)
theory Rudp_Exchange
  imports Rudp_Engine
begin

text \<open>
  What the RUDP engine guarantees: the inflight bounds, retransmissions that differ from the
  original in one flag bit, exactly-once delivery per connection, no reply to a reply, the
  handshake, and the acknowledgement of a delivered packet seen from the sender's queue.
\<close>

section \<open>Reading what the engine wrote\<close>

lemma rudp_read_header_flags:
  "kRudpHeaderBytes \<le> length bs \<Longrightarrow>
     rudp_read_header (bs[27 := b]) = (rudp_read_header bs)\<lparr>rh_flags := b\<rparr>"
  by (simp add: rudp_read_header_def read_be16_update_other read_be32_update_other)

lemma rudp_header_bytes_flags:
  "(rudp_header_bytes h)[27 := b] = rudp_header_bytes (h\<lparr>rh_flags := b\<rparr>)"
proof -
  let ?bs = "(rudp_header_bytes h)[27 := b]"
  have len: "length (rudp_header_bytes h) = kRudpHeaderBytes"
    by (rule rudp_codec.length_enc)
  then have "rudp_read_header ?bs = h\<lparr>rh_flags := b\<rparr>"
    by (simp add: rudp_read_header_flags rudp_codec.dec_enc_exact)
  then show ?thesis
    using rudp_codec.enc_dec [of ?bs] len by simp
qed

lemma nth_flags_rudp_header_bytes: "rudp_header_bytes h ! 27 = rh_flags h"
proof -
  have "rh_flags (rudp_read_header bs) = bs ! 27" for bs
    by (simp add: rudp_read_header_def Let_def)
  from this [of "rudp_header_bytes h"] show ?thesis
    by (simp add: rudp_codec.dec_enc_exact)
qed

lemma header_update_commute:
  "h\<lparr>rh_payload_length := x, rh_flags := f\<rparr> = h\<lparr>rh_flags := f, rh_payload_length := x\<rparr>"
  for h :: RudpHeader
  by (cases h) simp

lemma mark_retransmit_encode:
  "mark_retransmit (encode_packet h payload) =
     encode_packet (h\<lparr>rh_flags := rh_flags h OR kFlagRetransmit\<rparr>) payload"
  by (simp add: mark_retransmit_def encode_packet_eq list_update_append nth_append
      rudp_codec.length_enc rudp_header_bytes_flags nth_flags_rudp_header_bytes header_update_commute)

lemma decode_make_packet:
  assumes "length payload \<le> 0xFFFF"
  shows "decode_packet (make_packet e type flags channel n now payload) =
    \<lparr>dr_ok = True, dr_header = make_packet_header e type flags channel n now payload,
     dr_payload = payload\<rparr>"
proof -
  have "unat (of_nat (length payload) :: u16) = length payload"
    using assms by (simp add: unat_of_nat)
  moreover have "(make_packet_header e type flags channel n now payload)
      \<lparr>rh_payload_length := of_nat (length payload)\<rparr> = make_packet_header e type flags channel n now payload"
    by (simp add: make_packet_header_def)
  ultimately show ?thesis
    by (simp add: make_packet_def decode_packet_def encode_packet_eq rudp_codec.dec_enc
        rudp_codec.length_enc Let_def make_packet_header_def)
qed

lemma looks_like_make_packet [simp]:
  "looks_like_rudp (make_packet e type flags channel n now payload)"
  by (simp add: make_packet_def looks_like_rudp_encode make_packet_header_def RudpHeader_default_def)

lemma make_packet_header_simps [simp]:
  "rh_version (make_packet_header e type flags channel n now payload) = 1"
  "rh_type (make_packet_header e type flags channel n now payload) = type"
  "rh_flags (make_packet_header e type flags channel n now payload) = flags"
  "rh_channel (make_packet_header e type flags channel n now payload) = channel"
  "rh_connection_id (make_packet_header e type flags channel n now payload) = ps_connection_id (eng_state e)"
  "rh_packet_number (make_packet_header e type flags channel n now payload) = n"
  "rh_ack_largest (make_packet_header e type flags channel n now payload) = ps_ack_largest (eng_state e)"
  "rh_ack_mask (make_packet_header e type flags channel n now payload) = ps_ack_mask (eng_state e)"
  by (simp_all add: make_packet_header_def RudpHeader_default_def)

section \<open>Bounds\<close>

lemma rudp_inv_init: "rudp_inv (RudpEngine_init c, RudpMetrics_default)"
  by (simp add: rudp_inv_def queue_bounded_def RudpEngine_init_def RetransmissionQueue_init_def
      rq_inv_def inflight_packets_def RudpMetrics_default_def)

lemma rudp_step_config [simp]: "eng_config (fst (rudp_step s op)) = eng_config (fst s)"
  by (cases s; cases op)
    (simp_all add: queue_reliable_payload_def RudpEngine_poll_def make_hello_def make_close_def
      RudpEngine_reset_def Let_def case_prod_beta)

definition rudp_run :: "RudpConfig \<Rightarrow> rudp_op list \<Rightarrow> RudpEngine \<times> RudpMetrics" where
  "rudp_run c ops = foldl rudp_step (RudpEngine_init c, RudpMetrics_default) ops"

lemma rudp_run_inv: "rudp_inv (rudp_run c ops)"
  unfolding rudp_run_def by (rule rudp.run_inv [OF rudp_inv_init])

lemma rudp_run_config [simp]: "eng_config (fst (rudp_run c ops)) = c"
proof -
  have "eng_config (fst (foldl rudp_step s ops)) = eng_config (fst s)" for s
    by (induction ops arbitrary: s) simp_all
  then show ?thesis by (simp add: rudp_run_def RudpEngine_init_def)
qed

lemma rudp_run_bounded: "queue_bounded c (eng_queue (fst (rudp_run c ops)))"
  using rudp_run_inv [of c ops] rudp_run_config [of c ops]
  by (simp add: rudp_inv_def case_prod_beta)



section \<open>Retransmission\<close>

lemma poll_egress_pending:
  assumes "x \<in> set (pr_egress_datagrams (res_of (RudpEngine_poll e m now)))"
  shows "\<exists>en \<in> set (rq_pending (eng_queue e)).
    entry_due now (rtt_rto_ms (ps_rtt (eng_state e))) en \<and>
    x = mark_retransmit (pp_encoded_frame (en_packet en))"
proof -
  have due: "\<exists>en \<in> set (rq_pending q). entry_due now rto en \<and> pp_encoded_frame p = pp_encoded_frame (en_packet en)"
    if "p \<in> set (fst (collect_timeouts q now rto 16))" for p q rto
    using that
    by (fastforce simp: collect_timeouts_def case_prod_beta collect_loop_due split: if_splits
        dest!: in_set_takeD)
  from assms show ?thesis
    by (auto simp: RudpEngine_poll_def Let_def case_prod_beta ProcessResult_default_def
        split: if_splits dest!: due)
qed

text \<open>A retransmission is the original packet with one flag set: every datagram a poll of a reachable engine sends is
  overdue in the queue, decodes, and carries the packet number, payload and every other header
  field of the pending frame, with only the retransmit flag added.
\<close>

theorem rudp_retransmit_faithful:
  fixes c :: RudpConfig and ops :: "rudp_op list"
  assumes "rc_mtu_payload_bytes c \<le> 0xFFFF"
  defines "e \<equiv> fst (rudp_run c ops)"
  assumes "x \<in> set (pr_egress_datagrams (res_of (RudpEngine_poll e m now)))"
  shows "\<exists>en \<in> set (rq_pending (eng_queue e)).
    entry_due now (rtt_rto_ms (ps_rtt (eng_state e))) en \<and> dr_ok (decode_packet x) \<and>
    rh_packet_number (dr_header (decode_packet x)) = pp_packet_number (en_packet en) \<and>
    dr_payload (decode_packet x) = dr_payload (decode_packet (pp_encoded_frame (en_packet en))) \<and>
    dr_header (decode_packet x) =
      (dr_header (decode_packet (pp_encoded_frame (en_packet en))))\<lparr>rh_flags := kFlagRetransmit\<rparr>"
proof -
  obtain en where en: "en \<in> set (rq_pending (eng_queue e))"
      "entry_due now (rtt_rto_ms (ps_rtt (eng_state e))) en"
    and x: "x = mark_retransmit (pp_encoded_frame (en_packet en))"
    using poll_egress_pending [OF assms(3)] by blast
  have "data_frame (rc_mtu_payload_bytes c) (pp_packet_number (en_packet en)) (pp_encoded_frame (en_packet en))"
    using rudp_run_bounded [of c ops] en(1) by (auto simp: queue_bounded_def list_all_iff e_def)
  then obtain h payload where frame: "pp_encoded_frame (en_packet en) = encode_packet h payload"
    and h: "rh_flags h = 0" "rh_packet_number h = pp_packet_number (en_packet en)"
    and len: "length payload \<le> 0xFFFF"
    using assms(1) by (auto simp: data_frame_def)
  have dec: "decode_packet (encode_packet h' payload) =
      \<lparr>dr_ok = True, dr_header = h'\<lparr>rh_payload_length := of_nat (length payload)\<rparr>, dr_payload = payload\<rparr>" for h'
    using len by (simp add: decode_packet_def encode_packet_eq rudp_codec.dec_enc
        rudp_codec.length_enc Let_def unat_of_nat)
  show ?thesis
    using en h by (intro bexI [of _ en]) (simp_all add: x frame mark_retransmit_encode dec header_update_commute)
qed

section \<open>The three outcomes of a datagram\<close>

text \<open>The engine as the switch on the packet type finds it.\<close>

definition datagram_prepared :: "RudpEngine \<Rightarrow> RudpHeader \<Rightarrow> u64 \<Rightarrow> RudpEngine" where
  "datagram_prepared e header now =
     e\<lparr>eng_state := (eng_state e)\<lparr>ps_last_recv_unix_ms := now,
         ps_connection_id := if ps_connection_id (eng_state e) = 0 then rh_connection_id header
                             else ps_connection_id (eng_state e)\<rparr>,
       eng_queue := mark_acked (eng_queue e) (rh_ack_largest header) (rh_ack_mask header)\<rparr>"

lemma datagram_prepared_simps [simp]:
  "eng_config (datagram_prepared e h now) = eng_config e"
  "eng_ack_window (datagram_prepared e h now) = eng_ack_window e"
  "eng_queue (datagram_prepared e h now) = mark_acked (eng_queue e) (rh_ack_largest h) (rh_ack_mask h)"
  "ps_lifecycle (eng_state (datagram_prepared e h now)) = ps_lifecycle (eng_state e)"
  "ps_ack_largest (eng_state (datagram_prepared e h now)) = ps_ack_largest (eng_state e)"
  "ps_ack_mask (eng_state (datagram_prepared e h now)) = ps_ack_mask (eng_state e)"
  "ps_rtt (eng_state (datagram_prepared e h now)) = ps_rtt (eng_state e)"
  "ps_last_ack_emit_unix_ms (eng_state (datagram_prepared e h now)) = ps_last_ack_emit_unix_ms (eng_state e)"
  "ps_connection_id (eng_state (datagram_prepared e h now)) =
     (if ps_connection_id (eng_state e) = 0 then rh_connection_id h else ps_connection_id (eng_state e))"
  by (simp_all add: datagram_prepared_def)

definition id_mismatch :: "RudpEngine \<Rightarrow> RudpHeader \<Rightarrow> bool" where
  "id_mismatch e h \<longleftrightarrow> ps_connection_id (eng_state e) \<noteq> 0 \<and> rh_connection_id h \<noteq> 0 \<and>
     ps_connection_id (eng_state e) \<noteq> rh_connection_id h"

definition parsed_result :: ProcessResult where
  "parsed_result = ProcessResult_default\<lparr>pr_consumed := True, pr_parsed := True\<rparr>"

lemma parsed_result_simps [simp]:
  "pr_inner_frames parsed_result = []" "pr_egress_datagrams parsed_result = []"
  "\<not> pr_fallback_required parsed_result"
  by (simp_all add: parsed_result_def ProcessResult_default_def)

lemma process_datagram_typed:
  assumes "looks_like_rudp d" "dr_ok (decode_packet d)" "rh_version (dr_header (decode_packet d)) = 1"
    and "\<not> id_mismatch e (dr_header (decode_packet d))"
  defines "h \<equiv> dr_header (decode_packet d)"
  shows "process_datagram e m d now =
    process_typed (datagram_prepared e h now)
      (set_rudp_inflight_packets (inflight_packets (eng_queue (datagram_prepared e h now))) m)
      parsed_result h (dr_payload (decode_packet d)) now"
  using assms
  by (auto simp: process_datagram_def id_mismatch_def datagram_prepared_def parsed_result_def Let_def)

lemma process_datagram_rejected:
  assumes "\<not> (looks_like_rudp d \<and> dr_ok (decode_packet d) \<and> rh_version (dr_header (decode_packet d)) = 1 \<and>
      \<not> id_mismatch e (dr_header (decode_packet d)))"
  shows "eng_ack_window (eng_of (process_datagram e m d now)) = eng_ack_window e"
    and "pr_inner_frames (res_of (process_datagram e m d now)) = []"
    and "pr_egress_datagrams (res_of (process_datagram e m d now)) = []"
    and "ps_lifecycle (eng_state (eng_of (process_datagram e m d now))) =
          (if looks_like_rudp d then LcDraining else ps_lifecycle (eng_state e))"
    and "ps_ack_largest (eng_state (eng_of (process_datagram e m d now))) = ps_ack_largest (eng_state e)"
    and "ps_ack_mask (eng_state (eng_of (process_datagram e m d now))) = ps_ack_mask (eng_state e)"
    and "ps_rtt (eng_state (eng_of (process_datagram e m d now))) = ps_rtt (eng_state e)"
  using assms
  by (auto simp: process_datagram_def id_mismatch_def ProcessResult_default_def set_fallback_def
      RudpPeerState_mark_fallback_def Let_def)

section \<open>Exactly-once delivery\<close>

text \<open>A datagram reaches the window in one place; frames are delivered only when the window accepts.\<close>

lemma process_typed_window:
  "eng_ack_window (eng_of (process_typed e m r h p now)) = eng_ack_window e \<and>
     pr_inner_frames (res_of (process_typed e m r h p now)) = pr_inner_frames r \<or>
   eng_ack_window (eng_of (process_typed e m r h p now)) =
       snd (AckWindow_observe (eng_ack_window e) (rh_packet_number h)) \<and>
     (pr_inner_frames (res_of (process_typed e m r h p now)) \<noteq> pr_inner_frames r \<longrightarrow>
       ao_accepted (fst (AckWindow_observe (eng_ack_window e) (rh_packet_number h))))"
proof -
  have "eng_ack_window (eng_of (process_data e m r h p now)) = eng_ack_window e \<and>
      pr_inner_frames (res_of (process_data e m r h p now)) = pr_inner_frames r \<or>
    eng_ack_window (eng_of (process_data e m r h p now)) =
        snd (AckWindow_observe (eng_ack_window e) (rh_packet_number h)) \<and>
      (pr_inner_frames (res_of (process_data e m r h p now)) \<noteq> pr_inner_frames r \<longrightarrow>
        ao_accepted (fst (AckWindow_observe (eng_ack_window e) (rh_packet_number h))))"
    by (simp add: process_data_def Let_def case_prod_beta)
  then show ?thesis by (simp add: process_typed_def Let_def)
qed

lemma process_datagram_window:
  fixes d :: bytes
  defines "n \<equiv> rh_packet_number (dr_header (decode_packet d))"
  shows "eng_ack_window (eng_of (process_datagram e m d now)) = eng_ack_window e \<and>
     pr_inner_frames (res_of (process_datagram e m d now)) = [] \<or>
   eng_ack_window (eng_of (process_datagram e m d now)) = snd (AckWindow_observe (eng_ack_window e) n) \<and>
     (pr_inner_frames (res_of (process_datagram e m d now)) \<noteq> [] \<longrightarrow>
       ao_accepted (fst (AckWindow_observe (eng_ack_window e) n)))"
proof (cases "looks_like_rudp d \<and> dr_ok (decode_packet d) \<and> rh_version (dr_header (decode_packet d)) = 1 \<and>
    \<not> id_mismatch e (dr_header (decode_packet d))")
  case True
  then show ?thesis
    using process_typed_window [of "datagram_prepared e (dr_header (decode_packet d)) now" _ parsed_result]
    by (simp add: process_datagram_typed n_def)
next
  case False
  then show ?thesis by (simp add: process_datagram_rejected)
qed


text \<open>
  The engine with the packet numbers whose payload it has handed up since the last reset,
  the latest first.
\<close>

fun delivery_step ::
    "(RudpEngine \<times> RudpMetrics) \<times> u32 list \<Rightarrow> rudp_op \<Rightarrow> (RudpEngine \<times> RudpMetrics) \<times> u32 list" where
  "delivery_step ((e, m), delivered) (OpDatagram d now) =
     (snd (process_datagram e m d now),
      if pr_inner_frames (res_of (process_datagram e m d now)) \<noteq> []
      then rh_packet_number (dr_header (decode_packet d)) # delivered else delivered)"
| "delivery_step (s, delivered) OpReset = (rudp_step s OpReset, [])"
| "delivery_step (s, delivered) op = (rudp_step s op, delivered)"

text \<open>The acknowledgement the engine sends is its window's.\<close>

definition ack_mirror :: "RudpEngine \<Rightarrow> bool" where
  "ack_mirror e \<longleftrightarrow> ps_ack_largest (eng_state e) = aw_largest (eng_ack_window e) \<and>
     ps_ack_mask (eng_state e) = aw_mask (eng_ack_window e)"

definition delivery_inv :: "(RudpEngine \<times> RudpMetrics) \<times> u32 list \<Rightarrow> bool" where
  "delivery_inv = (\<lambda>((e, m), delivered). ack_mirror e \<and> distinct delivered \<and>
     (\<exists>S. window_tracks (eng_ack_window e) S \<and> unat ` set delivered \<subseteq> S))"

lemma process_typed_ack_mirror:
  "ack_mirror e \<Longrightarrow> ack_mirror (eng_of (process_typed e m r h p now))"
  by (auto simp: ack_mirror_def process_typed_def process_data_def set_fallback_def
      RudpPeerState_mark_fallback_def Let_def case_prod_beta)

lemma process_datagram_ack_mirror:
  assumes "ack_mirror e"
  shows "ack_mirror (eng_of (process_datagram e m d now))"
proof (cases "looks_like_rudp d \<and> dr_ok (decode_packet d) \<and> rh_version (dr_header (decode_packet d)) = 1 \<and>
    \<not> id_mismatch e (dr_header (decode_packet d))")
  case True
  moreover have "ack_mirror (datagram_prepared e h now)" for h
    using assms by (simp add: ack_mirror_def)
  ultimately show ?thesis
    by (simp add: process_datagram_typed process_typed_ack_mirror)
next
  case False
  with assms show ?thesis by (simp add: ack_mirror_def process_datagram_rejected)
qed

lemma delivery_datagram_inv:
  assumes "delivery_inv ((e, m), delivered)"
  shows "delivery_inv (delivery_step ((e, m), delivered) (OpDatagram d now))"
proof -
  let ?n = "rh_packet_number (dr_header (decode_packet d))"
  let ?out = "process_datagram e m d now"
  obtain S where S: "window_tracks (eng_ack_window e) S" "unat ` set delivered \<subseteq> S"
    and dist: "distinct delivered" and mirror: "ack_mirror (eng_of ?out)"
    using assms process_datagram_ack_mirror by (auto simp: delivery_inv_def)
  consider (same) "eng_ack_window (eng_of ?out) = eng_ack_window e" "pr_inner_frames (res_of ?out) = []"
    | (observed) "eng_ack_window (eng_of ?out) = snd (AckWindow_observe (eng_ack_window e) ?n)"
        "pr_inner_frames (res_of ?out) \<noteq> [] \<longrightarrow> ack_spec_accepts S (unat ?n)"
    using process_datagram_window [of e m d now] observe_accepted_iff [OF S(1), of ?n] by blast
  then show ?thesis
  proof cases
    case same
    with S dist mirror show ?thesis by (auto simp: delivery_inv_def case_prod_beta)
  next
    case observed
    have tracks: "window_tracks (eng_ack_window (eng_of ?out)) (ack_spec_step S ?n)"
      using observe_tracks [OF S(1), of ?n] observed(1) by simp
    have "?n \<notin> set delivered" "insert (unat ?n) S = ack_spec_step S ?n" if "pr_inner_frames (res_of ?out) \<noteq> []"
      using that observed(2) S(2) by (auto simp: ack_spec_accepts_def ack_spec_step_def)
    moreover have "S \<subseteq> ack_spec_step S ?n" by (auto simp: ack_spec_step_def)
    ultimately show ?thesis
      using S(2) dist mirror tracks by (fastforce simp: delivery_inv_def case_prod_beta)
  qed
qed

lemma delivery_step_inv:
  assumes "delivery_inv s"
  shows "delivery_inv (delivery_step s op)"
proof -
  obtain e m delivered where s: "s = ((e, m), delivered)" by (cases s) auto
  have other: "delivery_inv ((e', m'), delivered)"
    if "eng_ack_window e' = eng_ack_window e" "ps_ack_largest (eng_state e') = ps_ack_largest (eng_state e)"
      "ps_ack_mask (eng_state e') = ps_ack_mask (eng_state e)" for e' m'
    using assms that by (simp add: s delivery_inv_def ack_mirror_def)
  show ?thesis
  proof (cases op)
    case (OpDatagram d now)
    then show ?thesis using delivery_datagram_inv assms s by simp
  next
    case OpReset
    then show ?thesis
      by (simp add: s delivery_inv_def RudpEngine_reset_def AckWindow_reset_def ack_mirror_def
          RudpPeerState_reset_def RudpPeerState_default_def window_tracks_def)
  qed (auto simp: s queue_reliable_payload_def RudpEngine_poll_def set_fallback_def make_hello_def
      make_close_def RudpPeerState_mark_fallback_def Let_def case_prod_beta intro!: other)
qed

interpretation delivery: invariant_machine delivery_step delivery_inv
  by unfold_locales (rule delivery_step_inv)

lemma delivery_init: "delivery_inv ((RudpEngine_init c, RudpMetrics_default), [])"
  by (auto simp: delivery_inv_def ack_mirror_def RudpEngine_init_def RudpPeerState_default_def
      AckWindow_init_def window_tracks_def)

text \<open>
  C1. Each payload is handed up at most once: along any sequence of operations, with datagrams lost, repeated,
  reordered or forged in any way, no two datagrams with the same packet number deliver
  a payload between two resets of the engine.
\<close>

theorem rudp_delivers_once:
  "distinct (snd (foldl delivery_step ((RudpEngine_init c, RudpMetrics_default), []) ops))"
  using delivery.run_inv [OF delivery_init, of c ops] by (simp add: delivery_inv_def case_prod_beta)


section \<open>Replies and lifecycle\<close>

text \<open>The only datagrams \<open>process_datagram\<close> answers with: a HELLO_ACK or an ack-only DATA packet.\<close>

lemma process_typed_egress:
  assumes "x \<in> set (pr_egress_datagrams (res_of (process_typed e m r h p now)))"
    and "pr_egress_datagrams r = []"
  shows "\<exists>e' type flags channel. x = make_packet e' type flags channel 0 now [] \<and>
    (type = kHelloAck \<and> flags = 0 \<or> type = kData \<and> flags = kFlagAckOnly)"
  using assms
  by (auto simp: process_typed_def process_data_def Let_def case_prod_beta split: if_splits)

lemma process_datagram_egress:
  assumes "x \<in> set (pr_egress_datagrams (res_of (process_datagram e m d now)))"
  shows "\<exists>e' type flags channel. x = make_packet e' type flags channel 0 now [] \<and>
    (type = kHelloAck \<and> flags = 0 \<or> type = kData \<and> flags = kFlagAckOnly)"
proof (cases "looks_like_rudp d \<and> dr_ok (decode_packet d) \<and> rh_version (dr_header (decode_packet d)) = 1 \<and>
    \<not> id_mismatch e (dr_header (decode_packet d))")
  case True
  with assms show ?thesis
    by (intro process_typed_egress [where r = parsed_result]) (simp_all add: process_datagram_typed)
next
  case False
  with assms show ?thesis by (simp add: process_datagram_rejected)
qed

lemma process_data_ack_only:
  "rh_flags h AND kFlagAckOnly \<noteq> 0 \<Longrightarrow>
     pr_egress_datagrams (res_of (process_data e m r h p now)) = pr_egress_datagrams r"
  by (auto simp: process_data_def Let_def case_prod_beta)

text \<open>No acknowledgement storms: a datagram the engine sends in reply to a received datagram is
  itself never replied to, whatever engine receives it, in whatever state.
\<close>

theorem rudp_reply_not_answered:
  assumes "x \<in> set (pr_egress_datagrams (res_of (process_datagram e m d now)))"
  shows "pr_egress_datagrams (res_of (process_datagram e' m' x now')) = []"
proof -
  obtain e0 type flags channel where x: "x = make_packet e0 type flags channel 0 now []"
    and tf: "type = kHelloAck \<and> flags = 0 \<or> type = kData \<and> flags = kFlagAckOnly"
    using process_datagram_egress [OF assms] by blast
  let ?h = "make_packet_header e0 type flags channel 0 now []"
  have dec: "dr_ok (decode_packet x)" "dr_header (decode_packet x) = ?h"
    unfolding x by (simp_all add: decode_make_packet)
  show ?thesis
  proof (cases "id_mismatch e' ?h")
    case True
    then show ?thesis by (simp add: process_datagram_rejected dec)
  next
    case False
    moreover have "looks_like_rudp x" by (simp add: x)
    ultimately show ?thesis
      using tf by (auto simp: process_datagram_typed dec process_typed_def process_data_ack_only Let_def)
  qed
qed

lemma process_data_lifecycle:
  "ps_lifecycle (eng_state (eng_of (process_data e m r h p now))) =
     (if ps_lifecycle (eng_state e) = LcEstablished then LcEstablished else LcDraining)"
  by (simp add: process_data_def Let_def case_prod_beta)

definition lifecycle_after :: "LifecycleState \<Rightarrow> PacketType \<Rightarrow> LifecycleState" where
  "lifecycle_after l type =
     (if type = kHello \<or> type = kHelloAck then LcEstablished
      else if type = kClose then LcDraining
      else if type = kPing then l
      else if l = LcEstablished then LcEstablished else LcDraining)"

text \<open>The lifecycle is a function of the packet type: bytes without the magic change nothing; a malformed
  packet, an unknown version or another connection's id drains the connection; otherwise HELLO and HELLO_ACK
  establish it, CLOSE drains it, PING leaves it, and any other type keeps it only if it was established.
\<close>

theorem rudp_lifecycle:
  "ps_lifecycle (eng_state (eng_of (process_datagram e m d now))) =
     (if \<not> looks_like_rudp d then ps_lifecycle (eng_state e)
      else if dr_ok (decode_packet d) \<and> rh_version (dr_header (decode_packet d)) = 1
              \<and> \<not> id_mismatch e (dr_header (decode_packet d))
      then lifecycle_after (ps_lifecycle (eng_state e)) (rh_type (dr_header (decode_packet d)))
      else LcDraining)"
proof (cases "looks_like_rudp d \<and> dr_ok (decode_packet d) \<and> rh_version (dr_header (decode_packet d)) = 1 \<and>
    \<not> id_mismatch e (dr_header (decode_packet d))")
  case True
  then show ?thesis
    by (simp add: process_datagram_typed process_typed_def process_data_lifecycle lifecycle_after_def Let_def)
next
  case False
  then show ?thesis by (auto simp: process_datagram_rejected)
qed



section \<open>Acknowledgements against the receiver's window\<close>

lemma is_acked_by_mask_tracks:
  assumes "window_tracks w S" and "S \<noteq> {}"
  shows "is_acked_by_mask n (aw_largest w) (aw_mask w) \<longleftrightarrow> unat n \<in> S \<or> unat n + 64 \<le> Max S"
proof -
  have fin: "finite S" and L: "unat (aw_largest w) = Max S"
    and bits: "\<forall>d < 64. bit (aw_mask w) d \<longleftrightarrow> d \<le> Max S \<and> Max S - d \<in> S"
    using assms by (auto simp: window_tracks_def)
  have top: "Max S \<in> S" and le: "x \<in> S \<Longrightarrow> x \<le> Max S" for x
    using fin assms(2) by simp_all
  consider "unat n > Max S" | "unat n = Max S" | "unat n < Max S" by linarith
  then show ?thesis
  proof cases
    case 1
    then have "aw_largest w < n" using L by (simp add: word_less_nat_alt del: Max_less_iff)
    with 1 le [of "unat n"] show ?thesis by (auto simp: is_acked_by_mask_def simp del: Max_less_iff)
  next
    case 2
    then have "n = aw_largest w" using L by (simp add: word_unat_eq_iff)
    with 2 top show ?thesis by (simp add: is_acked_by_mask_def)
  next
    case 3
    then have lt: "n < aw_largest w" using L by (simp add: word_less_nat_alt)
    then have d: "unat (aw_largest w - n) = Max S - unat n"
      using word_diff_unat [OF less_imp_le [OF lt]] L by simp
    have far: "64 \<le> aw_largest w - n \<longleftrightarrow> unat n + 64 \<le> Max S"
      using 3 by (auto simp: word_le_nat_alt d)
    have "aw_mask w AND push_bit (Max S - unat n) 1 \<noteq> 0 \<longleftrightarrow> unat n \<in> S" if "\<not> unat n + 64 \<le> Max S"
      using that bits 3 by (auto simp: word_and_one_bit simp del: push_bit_of_1)
    then show ?thesis
      using lt far d by (auto simp: is_acked_by_mask_def Let_def simp del: push_bit_of_1)
  qed
qed

text \<open>
  C3. An acknowledgement means receipt, except beyond the window: against the window of a peer that observed any nonempty
  sequence of packet numbers, the sender takes a number for acknowledged exactly when the peer accepted it or when it is 64 or
  more below the largest number accepted, received or not.
\<close>

theorem ack_means_receipt:
  assumes "ps \<noteq> []"
  defines "w \<equiv> fst (ack_run ps)" and "accepted \<equiv> unat ` set (snd (ack_run ps))"
  shows "is_acked_by_mask n (aw_largest w) (aw_mask w) \<longleftrightarrow>
    unat n \<in> accepted \<or> unat n + 64 \<le> Max accepted"
proof (rule is_acked_by_mask_tracks)
  show tracks: "window_tracks w accepted"
    using ack_run_inv [of ps] by (simp add: ack_history_inv_def w_def accepted_def case_prod_beta)
  have "set (snd (ack_run qs)) \<noteq> {}" if "qs \<noteq> []" for qs
    using that
  proof (induction qs rule: rev_induct)
    case (snoc q qs)
    then show ?case
      by (cases qs) (auto simp: ack_run_def ack_history_step_def AckWindow_init_def
          AckWindow_observe_def case_prod_beta Let_def)
  qed simp
  then show "accepted \<noteq> {}" using assms(1) by (simp add: accepted_def)
qed

text \<open>Packet 1 is lost, the numbers 2 to 66 arrive: the sender drops packet 1 as acknowledged.\<close>

theorem ack_means_receipt_witness:
  "(is_acked_by_mask 1 (aw_largest (fst (ack_run [2, 66]))) (aw_mask (fst (ack_run [2, 66]))) \<longleftrightarrow>
      unat (1 :: u32) \<in> unat ` set (snd (ack_run [2, 66])) \<or>
      unat (1 :: u32) + 64 \<le> Max (unat ` set (snd (ack_run [2, 66])))) \<and>
   1 \<notin> set (snd (ack_run [2, 66])) \<and>
   is_acked_by_mask 1 (aw_largest (fst (ack_run [2, 66]))) (aw_mask (fst (ack_run [2, 66])))"
proof (intro conjI)
  show "is_acked_by_mask 1 (aw_largest (fst (ack_run [2, 66]))) (aw_mask (fst (ack_run [2, 66]))) \<longleftrightarrow>
      unat (1 :: u32) \<in> unat ` set (snd (ack_run [2, 66])) \<or>
      unat (1 :: u32) + 64 \<le> Max (unat ` set (snd (ack_run [2, 66])))"
    by (rule ack_means_receipt) simp
qed code_simp+

section \<open>Handshake and transfer\<close>

lemma mark_acked_empty [simp]: "mark_acked RetransmissionQueue_init l k = RetransmissionQueue_init"
  by (simp add: mark_acked_def erase_acked_def RetransmissionQueue_init_def)

text \<open>The handshake completes in one round trip: the HELLO of a fresh client, received by a fresh
  server, is answered with one datagram; on receiving it the client is established, both with
  the client's connection id.
\<close>

theorem rudp_handshake:
  "let (hello, client) = make_hello (RudpEngine_init c1) cid t0;
       (r1, server, m1) = process_datagram (RudpEngine_init c2) m hello t1;
       (r2, client', m2) = process_datagram client m1 (hd (pr_egress_datagrams r1)) t2 in
   length (pr_egress_datagrams r1) = 1 \<and> pr_handshake_established r1 \<and> pr_handshake_established r2 \<and>
   ps_lifecycle (eng_state server) = LcEstablished \<and> ps_lifecycle (eng_state client') = LcEstablished \<and>
   ps_connection_id (eng_state server) = cid \<and> ps_connection_id (eng_state client') = cid"
  by (simp add: make_hello_def process_datagram_typed decode_make_packet id_mismatch_def
      process_typed_def RudpEngine_init_def RudpPeerState_default_def parsed_result_def
      ProcessResult_default_def Let_def case_prod_beta)


lemma process_data_accepts:
  assumes "ps_lifecycle (eng_state e) = LcEstablished"
    and "ao_accepted (fst (AckWindow_observe (eng_ack_window e) (rh_packet_number h)))"
    and "p \<noteq> []" and "pr_inner_frames r = []"
  shows "pr_inner_frames (res_of (process_data e m r h p now)) = [p]"
    and "eng_ack_window (eng_of (process_data e m r h p now)) =
           snd (AckWindow_observe (eng_ack_window e) (rh_packet_number h))"
  using assms by (simp_all add: process_data_def Let_def case_prod_beta)

lemma queue_reliable_payload_Some:
  assumes "queue_reliable_payload e m p channel now = (Some d, e', m')"
  obtains e0 where "d = make_packet e0 kData 0 channel (ps_next_packet_number (eng_state e)) now p"
    and "ps_connection_id (eng_state e0) = ps_connection_id (eng_state e)"
    and "ps_connection_id (eng_state e') = ps_connection_id (eng_state e)"
    and "eng_queue e' = RetransmissionQueue_push (eng_queue e) (ps_next_packet_number (eng_state e)) now d"
    and "p \<noteq> []" and "length p \<le> rc_mtu_payload_bytes (eng_config e)"
  using assms that
  by (auto simp: queue_reliable_payload_def Let_def split: if_splits)



section \<open>Concrete runs\<close>

definition demo_config :: RudpConfig where
  "demo_config = \<lparr>rc_handshake_timeout_ms = 1500, rc_idle_timeout_ms = 10000, rc_ack_delay_ms = 10,
      rc_rto_min_ms = 50, rc_rto_max_ms = 2000, rc_max_inflight_packets = 2,
      rc_max_inflight_bytes = 64, rc_mtu_payload_bytes = 8\<rparr>"

definition hello7 :: bytes where
  "hello7 = fst (make_hello (RudpEngine_init demo_config) 7 5)"

definition demo_ops :: "rudp_op list" where
  "demo_ops = [OpDatagram hello7 5, OpSend [1, 2] 0 10]"

lemma demo_poll_sends:
  "pr_egress_datagrams (res_of (RudpEngine_poll (fst (rudp_run demo_config demo_ops)) RudpMetrics_default 1000)) \<noteq> []"
  by code_simp

lemma demo_reply:
  "pr_egress_datagrams (res_of (process_datagram (RudpEngine_init demo_config) RudpMetrics_default hello7 5)) \<noteq> []"
  by code_simp

definition demo_data :: bytes where
  "demo_data = make_packet (fst (rudp_run demo_config demo_ops)) kData 0 0 1 20 [8, 9]"

lemma demo_delivers:
  "pr_inner_frames (res_of (process_datagram (fst (rudp_run demo_config demo_ops)) RudpMetrics_default demo_data 30)) \<noteq> []"
  by code_simp


abbreviation demo_engine :: RudpEngine where
  "demo_engine \<equiv> fst (rudp_run demo_config demo_ops)"

theorem rudp_retransmit_faithful_witness:
  "let x = hd (pr_egress_datagrams (res_of (RudpEngine_poll demo_engine RudpMetrics_default 1000))) in
   \<exists>en \<in> set (rq_pending (eng_queue demo_engine)).
    entry_due 1000 (rtt_rto_ms (ps_rtt (eng_state demo_engine))) en \<and> dr_ok (decode_packet x) \<and>
    rh_packet_number (dr_header (decode_packet x)) = pp_packet_number (en_packet en) \<and>
    dr_payload (decode_packet x) = dr_payload (decode_packet (pp_encoded_frame (en_packet en))) \<and>
    dr_header (decode_packet x) =
      (dr_header (decode_packet (pp_encoded_frame (en_packet en))))\<lparr>rh_flags := kFlagRetransmit\<rparr>"
  unfolding Let_def
  by (rule rudp_retransmit_faithful [OF _ list.set_sel(1) [OF demo_poll_sends]])
    (simp add: demo_config_def)

theorem rudp_reply_not_answered_witness:
  "pr_egress_datagrams (res_of (process_datagram (RudpEngine_init demo_config) RudpMetrics_default
     (hd (pr_egress_datagrams (res_of (process_datagram (RudpEngine_init demo_config) RudpMetrics_default hello7 5)))) 6)) = []"
  by (rule rudp_reply_not_answered [OF list.set_sel(1) [OF demo_reply]])


lemma demo_sent:
  "queue_reliable_payload demo_engine RudpMetrics_default [3] 0 40 =
     (Some (the (fst (queue_reliable_payload demo_engine RudpMetrics_default [3] 0 40))),
      snd (queue_reliable_payload demo_engine RudpMetrics_default [3] 0 40))"
proof -
  have "fst (queue_reliable_payload demo_engine RudpMetrics_default [3] 0 40) \<noteq> None" by code_simp
  then show ?thesis by (metis option.collapse prod.collapse)
qed

lemma demo_delivery_inv: "\<exists>delivered. delivery_inv ((demo_engine, RudpMetrics_default), delivered)"
proof -
  have "fst (delivery_step s op) = rudp_step (fst s) op" for s op
    by (cases s; cases op) (auto simp: case_prod_beta)
  then have "fst (foldl delivery_step s ops) = foldl rudp_step (fst s) ops" for s ops
    by (induction ops arbitrary: s) simp_all
  then have "fst (foldl delivery_step ((RudpEngine_init demo_config, RudpMetrics_default), []) demo_ops)
      = rudp_run demo_config demo_ops"
    by (simp add: rudp_run_def)
  then show ?thesis
    using delivery.run_inv [OF delivery_init, of demo_config demo_ops]
    by (auto simp: delivery_inv_def case_prod_beta)
qed


end
