(* ===== verification/Resilience.thy ===== *)
theory Resilience
  imports Prelude
begin

text \<open>
  Overload controls: \<open>RetryBudget\<close> and \<open>CircuitBreaker\<close> of
  \<^verbatim>\<open>core/include/server/core/net/resilience_controls.hpp\<close> and the admission test of
  \<^verbatim>\<open>queue_budget.hpp\<close>. Each operation runs under the object's mutex, so it is one step on its state.
  The interface \<open>trip_counter\<close> states what counting failures up to a limit means; it is
  provided by the circuit breaker here and by the UDP bind guard of the gateway.
\<close>

section \<open>Counting failures up to a limit\<close>

locale trip_counter =
  fixes fail :: "'s \<Rightarrow> 't \<Rightarrow> bool \<times> 's" and count :: "'s \<Rightarrow> nat" and limit :: "'s \<Rightarrow> nat"
    and counts :: "'s \<Rightarrow> 't \<Rightarrow> bool"
  assumes trips: "counts s t \<Longrightarrow> fst (fail s t) \<longleftrightarrow> limit s \<le> count s + 1"
    and counted: "counts s t \<Longrightarrow> \<not> fst (fail s t) \<Longrightarrow>
      count (snd (fail s t)) = count s + 1 \<and> limit (snd (fail s t)) = limit s"
begin

text \<open>
  A run of failures each of which counts trips at the one that reaches the limit, and at
  none before.
\<close>

lemma trips_at_limit:
  assumes "length ts = Suc n" and "count s + Suc n = limit s"
    and "\<And>k. k \<le> n \<Longrightarrow> counts (snd (run_calls fail s (take k ts))) (ts ! k)"
  shows "fst (run_calls fail s ts) = replicate n False @ [True]"
  using assms
proof (induction n arbitrary: s ts)
  case 0
  then obtain t where ts: "ts = [t]" by (cases ts) auto
  with 0 have "counts s t" by force
  with 0 ts show ?case by (simp add: trips case_prod_beta)
next
  case (Suc n)
  then obtain t ts' where ts: "ts = t # ts'" by (cases ts) auto
  from Suc.prems(3) [of 0] ts have c: "counts s t" by simp
  with Suc.prems(2) have no: "\<not> fst (fail s t)" by (simp add: trips)
  have "fst (run_calls fail (snd (fail s t)) ts') = replicate n False @ [True]"
  proof (rule Suc.IH)
    show "length ts' = Suc n" using Suc.prems(1) ts by simp
    show "count (snd (fail s t)) + Suc n = limit (snd (fail s t))"
      using counted [OF c no] Suc.prems(2) by simp
    show "counts (snd (run_calls fail (snd (fail s t)) (take k ts'))) (ts' ! k)" if "k \<le> n" for k
      using Suc.prems(3) [of "Suc k"] that ts by (simp add: case_prod_beta)
  qed
  with no show ?case by (simp add: ts case_prod_beta)
qed

end

section \<open>Retry budget\<close>

record RetryBudget =
  rb_budget_per_window :: u32
  rb_window_ms :: u64
  rb_window_start_ms :: u64
  rb_used_in_window :: u32

definition RetryBudget_init :: RetryBudget where
  "RetryBudget_init = \<lparr>rb_budget_per_window = 0, rb_window_ms = 60000, rb_window_start_ms = 0,
     rb_used_in_window = 0\<rparr>"

definition RetryBudget_configure :: "RetryBudget \<Rightarrow> u32 \<Rightarrow> u64 \<Rightarrow> RetryBudget" where
  "RetryBudget_configure b budget_per_window window_ms =
     b\<lparr>rb_budget_per_window := budget_per_window, rb_window_ms := max 1 window_ms,
       rb_window_start_ms := 0, rb_used_in_window := 0\<rparr>"

definition roll_window :: "RetryBudget \<Rightarrow> u64 \<Rightarrow> RetryBudget" where
  "roll_window b now_ms =
     (if rb_window_start_ms b = 0 then b\<lparr>rb_window_start_ms := now_ms\<rparr>
      else if now_ms < rb_window_start_ms b then
        b\<lparr>rb_window_start_ms := now_ms, rb_used_in_window := 0\<rparr>
      else let elapsed = now_ms - rb_window_start_ms b in
        if elapsed \<ge> rb_window_ms b
        then b\<lparr>rb_window_start_ms := now_ms, rb_used_in_window := 0\<rparr> else b)"

definition RetryBudget_consume :: "RetryBudget \<Rightarrow> u64 \<Rightarrow> bool \<times> RetryBudget" where
  "RetryBudget_consume b now_ms =
     (let b = roll_window b now_ms in
      if rb_used_in_window b \<ge> rb_budget_per_window b then (False, b)
      else (True, b\<lparr>rb_used_in_window := rb_used_in_window b + 1\<rparr>))"

definition RetryBudget_remaining :: "RetryBudget \<Rightarrow> u64 \<Rightarrow> u32 \<times> RetryBudget" where
  "RetryBudget_remaining b now_ms =
     (let b = roll_window b now_ms in
      if rb_used_in_window b \<ge> rb_budget_per_window b then (0, b)
      else (rb_budget_per_window b - rb_used_in_window b, b))"

section \<open>Circuit breaker\<close>

record CircuitBreaker =
  cb_enabled :: bool
  cb_failure_threshold :: u32
  cb_open_window_ms :: u64
  cb_consecutive_failures :: u32
  cb_open_until_ms :: u64

definition CircuitBreaker_init :: CircuitBreaker where
  "CircuitBreaker_init = \<lparr>cb_enabled = True, cb_failure_threshold = 5, cb_open_window_ms = 10000,
     cb_consecutive_failures = 0, cb_open_until_ms = 0\<rparr>"

definition CircuitBreaker_configure :: "CircuitBreaker \<Rightarrow> bool \<Rightarrow> u32 \<Rightarrow> u64 \<Rightarrow> CircuitBreaker" where
  "CircuitBreaker_configure b enabled failure_threshold open_window_ms =
     b\<lparr>cb_enabled := enabled, cb_failure_threshold := max 1 failure_threshold,
       cb_open_window_ms := max 1 open_window_ms, cb_consecutive_failures := 0, cb_open_until_ms := 0\<rparr>"

definition CircuitBreaker_allow :: "CircuitBreaker \<Rightarrow> u64 \<Rightarrow> bool \<times> CircuitBreaker" where
  "CircuitBreaker_allow b now_ms =
     (if \<not> cb_enabled b then (True, b)
      else if cb_open_until_ms b = 0 then (True, b)
      else if now_ms \<ge> cb_open_until_ms b then
        (True, b\<lparr>cb_open_until_ms := 0, cb_consecutive_failures := 0\<rparr>)
      else (False, b))"

definition CircuitBreaker_record_failure :: "CircuitBreaker \<Rightarrow> u64 \<Rightarrow> bool \<times> CircuitBreaker" where
  "CircuitBreaker_record_failure b now_ms =
     (if \<not> cb_enabled b then (False, b)
      else if cb_open_until_ms b \<noteq> 0 \<and> now_ms < cb_open_until_ms b then (False, b)
      else
        let b = (if cb_open_until_ms b \<noteq> 0 \<and> now_ms \<ge> cb_open_until_ms b
                 then b\<lparr>cb_open_until_ms := 0, cb_consecutive_failures := 0\<rparr> else b);
            b = b\<lparr>cb_consecutive_failures := cb_consecutive_failures b + 1\<rparr> in
        if cb_consecutive_failures b \<ge> cb_failure_threshold b then
          (True, b\<lparr>cb_open_until_ms := now_ms + cb_open_window_ms b, cb_consecutive_failures := 0\<rparr>)
        else (False, b))"

definition CircuitBreaker_record_success :: "CircuitBreaker \<Rightarrow> CircuitBreaker" where
  "CircuitBreaker_record_success b =
     (if \<not> cb_enabled b then b else b\<lparr>cb_open_until_ms := 0, cb_consecutive_failures := 0\<rparr>)"

definition CircuitBreaker_is_open :: "CircuitBreaker \<Rightarrow> u64 \<Rightarrow> bool \<times> CircuitBreaker" where
  "CircuitBreaker_is_open b now_ms =
     (if \<not> cb_enabled b then (False, b)
      else if cb_open_until_ms b = 0 then (False, b)
      else if now_ms \<ge> cb_open_until_ms b then
        (False, b\<lparr>cb_open_until_ms := 0, cb_consecutive_failures := 0\<rparr>)
      else (True, b))"

section \<open>Queue budget\<close>

definition exceeds_queue_budget :: "nat \<Rightarrow> nat \<Rightarrow> nat \<Rightarrow> bool" where
  "exceeds_queue_budget queue_max_bytes queued_bytes incoming_bytes =
     (if queue_max_bytes = 0 then False
      else if incoming_bytes > queue_max_bytes then True
      else queued_bytes > queue_max_bytes - incoming_bytes)"

text \<open>The test admits exactly what keeps the sum within the budget; a budget of zero admits all.\<close>

lemma exceeds_queue_budget_iff:
  "exceeds_queue_budget limit queued incoming \<longleftrightarrow> limit \<noteq> 0 \<and> limit < queued + incoming"
  by (auto simp: exceeds_queue_budget_def)

section \<open>The retry budget over a sliding window\<close>

fun consumed :: "RetryBudget \<Rightarrow> u64 list \<Rightarrow> nat" where
  "consumed b [] = 0"
| "consumed b (t # ts) =
     (if fst (RetryBudget_consume b t) then 1 else 0) + consumed (snd (RetryBudget_consume b t)) ts"

fun budget_after :: "RetryBudget \<Rightarrow> u64 list \<Rightarrow> RetryBudget" where
  "budget_after b [] = b"
| "budget_after b (t # ts) = budget_after (snd (RetryBudget_consume b t)) ts"

lemma consume_config [simp]:
  "rb_budget_per_window (snd (RetryBudget_consume b t)) = rb_budget_per_window b"
  "rb_window_ms (snd (RetryBudget_consume b t)) = rb_window_ms b"
  by (simp_all add: RetryBudget_consume_def roll_window_def Let_def)

lemma consume_step:
  "rb_window_start_ms (snd (RetryBudget_consume b t)) = rb_window_start_ms (roll_window b t)"
  "unat (rb_used_in_window (snd (RetryBudget_consume b t))) =
     unat (rb_used_in_window (roll_window b t)) + (if fst (RetryBudget_consume b t) then 1 else 0)"
  "fst (RetryBudget_consume b t) \<longleftrightarrow>
     unat (rb_used_in_window (roll_window b t)) < unat (rb_budget_per_window b)"
proof -
  have less: "unat (x + 1) = unat x + 1" if "x < y" for x y :: u32
    using that unat_less_pow [of y] by (simp add: unat_word_ariths word_less_nat_alt)
  have cfg: "rb_budget_per_window (roll_window b t) = rb_budget_per_window b"
    by (simp add: roll_window_def Let_def)
  show "rb_window_start_ms (snd (RetryBudget_consume b t)) = rb_window_start_ms (roll_window b t)"
    by (simp add: RetryBudget_consume_def Let_def)
  show "unat (rb_used_in_window (snd (RetryBudget_consume b t))) =
      unat (rb_used_in_window (roll_window b t)) + (if fst (RetryBudget_consume b t) then 1 else 0)"
    using less by (simp add: RetryBudget_consume_def Let_def cfg not_le)
  show "fst (RetryBudget_consume b t) \<longleftrightarrow>
      unat (rb_used_in_window (roll_window b t)) < unat (rb_budget_per_window b)"
    by (auto simp: RetryBudget_consume_def Let_def cfg word_le_nat_alt)
qed

text \<open>Inside one window nothing rolls, and what is left of the budget bounds the successes.\<close>

lemma consumed_within_window:
  assumes "rb_window_start_ms b \<noteq> 0"
    and "\<And>t. t \<in> set ts \<Longrightarrow> rb_window_start_ms b \<le> t \<and> t - rb_window_start_ms b < rb_window_ms b"
  shows "consumed b ts \<le> unat (rb_budget_per_window b) - unat (rb_used_in_window b)"
  using assms
proof (induction ts arbitrary: b)
  case (Cons t ts)
  have "\<not> t < rb_window_start_ms b" "\<not> rb_window_ms b \<le> t - rb_window_start_ms b"
    using Cons.prems(2) [of t] by (auto simp: leD)
  then have roll: "roll_window b t = b"
    using Cons.prems(1) by (simp add: roll_window_def Let_def)
  note step = consume_step [of b t, unfolded roll]
  have "consumed (snd (RetryBudget_consume b t)) ts \<le>
      unat (rb_budget_per_window b) - unat (rb_used_in_window (snd (RetryBudget_consume b t)))"
    using Cons.IH [of "snd (RetryBudget_consume b t)"] Cons.prems step by simp
  with step show ?case by (auto split: if_splits)
qed simp


lemma consumed_restart:
  assumes "t \<noteq> 0" and "0 < rb_window_ms b" and "roll_window b t = b\<lparr>rb_window_start_ms := t, rb_used_in_window := 0\<rparr>"
    and "\<And>x. x \<in> set ts \<Longrightarrow> t \<le> x \<and> x - t < rb_window_ms b"
  shows "consumed b (t # ts) \<le> unat (rb_budget_per_window b)"
proof -
  let ?b = "b\<lparr>rb_window_start_ms := t, rb_used_in_window := 0\<rparr>"
  have "roll_window ?b t = ?b"
    using assms(1,2) by (simp add: roll_window_def Let_def)
  then have "RetryBudget_consume b t = RetryBudget_consume ?b t"
    by (simp add: RetryBudget_consume_def assms(3))
  then have "consumed b (t # ts) = consumed ?b (t # ts)" by simp
  also have "\<dots> \<le> unat (rb_budget_per_window ?b) - unat (rb_used_in_window ?b)"
    using assms by (intro consumed_within_window) auto
  finally show ?thesis by simp
qed

lemma consumed_sliding:
  assumes "rb_window_start_ms b \<noteq> 0" and "0 < rb_window_ms b" and "sorted ts"
    and "\<And>t. t \<in> set ts \<Longrightarrow> rb_window_start_ms b \<le> t"
    and "\<And>x y. x \<in> set ts \<Longrightarrow> y \<in> set ts \<Longrightarrow> x \<le> y \<Longrightarrow> y - x < rb_window_ms b"
  shows "consumed b ts \<le>
    (unat (rb_budget_per_window b) - unat (rb_used_in_window b)) + unat (rb_budget_per_window b)"
  using assms
proof (induction ts arbitrary: b)
  case (Cons t ts)
  have start: "rb_window_start_ms b \<le> t" using Cons.prems(4) by simp
  show ?case
  proof (cases "t - rb_window_start_ms b \<ge> rb_window_ms b")
    case True
    then have "roll_window b t = b\<lparr>rb_window_start_ms := t, rb_used_in_window := 0\<rparr>"
      using Cons.prems(1) start by (simp add: roll_window_def Let_def leD)
    moreover have "t \<noteq> 0" using Cons.prems(1) start by (metis word_le_0_iff)
    ultimately have "consumed b (t # ts) \<le> unat (rb_budget_per_window b)"
      using Cons.prems by (intro consumed_restart) auto
    then show ?thesis by linarith
  next
    case False
    then have roll: "roll_window b t = b"
      using Cons.prems(1) start by (simp add: roll_window_def Let_def leD)
    note step = consume_step [of b t, unfolded roll]
    have "consumed (snd (RetryBudget_consume b t)) ts \<le>
        (unat (rb_budget_per_window b) - unat (rb_used_in_window (snd (RetryBudget_consume b t))))
          + unat (rb_budget_per_window b)"
      using Cons.IH [of "snd (RetryBudget_consume b t)"] Cons.prems step by simp
    with step show ?thesis by (auto split: if_splits)
  qed
qed simp

lemma budget_after_config [simp]:
  "rb_budget_per_window (budget_after b ts) = rb_budget_per_window b"
  "rb_window_ms (budget_after b ts) = rb_window_ms b"
  by (induction ts arbitrary: b) simp_all

lemma budget_after_start:
  "0 \<notin> set ts \<Longrightarrow> ts \<noteq> [] \<or> rb_window_start_ms b \<noteq> 0 \<Longrightarrow>
     rb_window_start_ms (budget_after b ts) \<noteq> 0 \<and>
     rb_window_start_ms (budget_after b ts) \<in> insert (rb_window_start_ms b) (set ts)"
proof (induction ts arbitrary: b)
  case (Cons t ts)
  have "rb_window_start_ms (roll_window b t) \<noteq> 0 \<and> rb_window_start_ms (roll_window b t) \<in> {t, rb_window_start_ms b}"
    using Cons.prems by (auto simp: roll_window_def Let_def)
  with Cons.IH [of "snd (RetryBudget_consume b t)"] Cons.prems consume_step(1) [of b t] show ?case
    by auto
qed simp

text \<open>
  C22. The retry budget over any sliding window: for calls at nondecreasing nonzero times, at most twice the budget of them
  succeed within any span shorter than the window, whatever calls went before.
\<close>

theorem retry_budget_sliding:
  assumes "sorted (pre @ ts)" and "0 \<notin> set (pre @ ts)" and "0 < window"
    and "\<And>x y. x \<in> set ts \<Longrightarrow> y \<in> set ts \<Longrightarrow> x \<le> y \<Longrightarrow> y - x < window"
  shows "consumed (budget_after (RetryBudget_configure b budget window) pre) ts \<le> 2 * unat budget"
proof -
  let ?b = "budget_after (RetryBudget_configure b budget window) pre"
  have W: "rb_window_ms ?b = window" "rb_budget_per_window ?b = budget"
    using assms(3) by (simp_all add: RetryBudget_configure_def max_def word_le_nat_alt word_less_nat_alt)
  show ?thesis
  proof (cases pre)
    case Nil
    then have b: "?b = RetryBudget_configure b budget window" by simp
    show ?thesis
    proof (cases ts)
      case (Cons t ts')
      have "consumed ?b (t # ts') \<le> unat (rb_budget_per_window ?b)"
        using assms Cons W Nil by (intro consumed_restart)
          (auto simp: b roll_window_def RetryBudget_configure_def)
      with W Cons show ?thesis by simp
    qed simp
  next
    case (Cons p ps)
    have start: "rb_window_start_ms ?b \<noteq> 0" "rb_window_start_ms ?b \<in> insert 0 (set pre)"
      using budget_after_start [of pre "RetryBudget_configure b budget window"] assms(2) Cons
      by (auto simp: RetryBudget_configure_def)
    then have "rb_window_start_ms ?b \<in> set pre" by simp
    then have "rb_window_start_ms ?b \<le> t" if "t \<in> set ts" for t
      using assms(1) that by (auto simp: sorted_append)
    with start have "consumed ?b ts \<le> (unat (rb_budget_per_window ?b) - unat (rb_used_in_window ?b))
        + unat (rb_budget_per_window ?b)"
      using assms W by (intro consumed_sliding) (auto simp: sorted_append)
    then show ?thesis unfolding W by linarith
  qed
qed

theorem retry_budget_sliding_witness:
  "consumed (budget_after (RetryBudget_configure RetryBudget_init 2 100) [10, 60]) [109, 110, 111, 112] \<le> 4"
proof -
  have "consumed (budget_after (RetryBudget_configure RetryBudget_init 2 100) [10, 60]) [109, 110, 111, 112]
      \<le> 2 * unat (2 :: u32)"
    by (rule retry_budget_sliding) auto
  then show ?thesis by simp
qed


section \<open>The circuit breaker\<close>

text \<open>The invariant: the failures counted so far are below the threshold, which is at least one.\<close>

definition cb_inv :: "CircuitBreaker \<Rightarrow> bool" where
  "cb_inv b \<longleftrightarrow> cb_consecutive_failures b < cb_failure_threshold b"

datatype cb_op = CbConfigure bool u32 u64 | CbAllow u64 | CbFailure u64 | CbSuccess | CbIsOpen u64

fun cb_step :: "CircuitBreaker \<Rightarrow> cb_op \<Rightarrow> CircuitBreaker" where
  "cb_step b (CbConfigure enabled threshold window) = CircuitBreaker_configure b enabled threshold window"
| "cb_step b (CbAllow t) = snd (CircuitBreaker_allow b t)"
| "cb_step b (CbFailure t) = snd (CircuitBreaker_record_failure b t)"
| "cb_step b CbSuccess = CircuitBreaker_record_success b"
| "cb_step b (CbIsOpen t) = snd (CircuitBreaker_is_open b t)"

lemma zero_less_max_one: "0 < max 1 (x :: u32)"
  by (simp add: max_def word_le_nat_alt word_less_nat_alt)

interpretation cb: invariant_machine cb_step cb_inv
proof
  fix b e
  assume inv: "cb_inv b"
  then have "0 < cb_failure_threshold b"
    unfolding cb_inv_def by (metis word_gt_0 word_le_0_iff word_less_1 not_less_iff_gr_or_eq word_not_simps(1))
  with inv show "cb_inv (cb_step b e)"
    by (cases e) (auto simp: cb_inv_def CircuitBreaker_configure_def CircuitBreaker_allow_def
        CircuitBreaker_record_failure_def CircuitBreaker_record_success_def CircuitBreaker_is_open_def
        Let_def zero_less_max_one)
qed


text \<open>A failure counts while the breaker is enabled and closed.\<close>

definition cb_counts :: "CircuitBreaker \<Rightarrow> u64 \<Rightarrow> bool" where
  "cb_counts b t \<longleftrightarrow> cb_enabled b \<and> cb_open_until_ms b = 0 \<and> cb_inv b"

interpretation cb_trips: trip_counter CircuitBreaker_record_failure
  "\<lambda>b. unat (cb_consecutive_failures b)" "\<lambda>b. unat (cb_failure_threshold b)" cb_counts
proof
  fix b t
  assume c: "cb_counts b t"
  then have "unat (cb_consecutive_failures b + 1) = unat (cb_consecutive_failures b) + 1"
    using unat_less_pow [of "cb_failure_threshold b"]
    by (simp add: cb_counts_def cb_inv_def unat_word_ariths word_less_nat_alt)
  then show "fst (CircuitBreaker_record_failure b t) \<longleftrightarrow>
      unat (cb_failure_threshold b) \<le> unat (cb_consecutive_failures b) + 1"
    and "\<not> fst (CircuitBreaker_record_failure b t) \<Longrightarrow>
      unat (cb_consecutive_failures (snd (CircuitBreaker_record_failure b t))) =
        unat (cb_consecutive_failures b) + 1 \<and>
      unat (cb_failure_threshold (snd (CircuitBreaker_record_failure b t))) = unat (cb_failure_threshold b)"
    using c by (auto simp: cb_counts_def CircuitBreaker_record_failure_def Let_def word_le_nat_alt
        split: if_splits)
qed


lemma cb_after_failures:
  assumes "cb_enabled b" "cb_open_until_ms b = 0" "cb_consecutive_failures b = 0"
    and "length ts < unat (cb_failure_threshold b)"
  shows "snd (run_calls CircuitBreaker_record_failure b ts) =
    b\<lparr>cb_consecutive_failures := of_nat (length ts)\<rparr>"
  using assms(4)
proof (induction ts rule: rev_induct)
  case Nil
  then show ?case using assms(3) by simp
next
  case (snoc t ts)
  have "unat (of_nat (Suc (length ts)) :: u32) = Suc (length ts)"
    using snoc.prems unat_less_pow [of "cb_failure_threshold b"] by (simp add: unat_of_nat del: of_nat_Suc)
  then have "\<not> cb_failure_threshold b \<le> of_nat (Suc (length ts))"
    using snoc.prems by (simp add: word_le_nat_alt del: of_nat_Suc)
  with snoc assms(1,2) show ?case
    by (simp add: run_calls_append case_prod_beta CircuitBreaker_record_failure_def Let_def add.commute)
qed

text \<open>The circuit breaker trips at the threshold and holds for its window: on a freshly configured breaker the first
  failures report nothing, the one that reaches the threshold reports the opening, and from then on
  requests are refused until the open window is over, and allowed from then on.
\<close>

theorem circuit_breaker_trips:
  fixes b0 :: CircuitBreaker and threshold :: u32 and window :: u64
  defines "b \<equiv> CircuitBreaker_configure b0 True threshold window"
  assumes "length ts = unat (max 1 threshold)" and "unat (last ts) + unat (max 1 window) < 2 ^ 64"
  shows "fst (run_calls CircuitBreaker_record_failure b ts) = replicate (length ts - 1) False @ [True] \<and>
    fst (CircuitBreaker_allow (snd (run_calls CircuitBreaker_record_failure b ts)) t) =
      (last ts + max 1 window \<le> t)"
proof -
  have b: "cb_enabled b" "cb_open_until_ms b = 0" "cb_consecutive_failures b = 0"
      "cb_failure_threshold b = max 1 threshold" "cb_open_window_ms b = max 1 window"
    by (simp_all add: b_def CircuitBreaker_configure_def)
  have pos: "0 < unat (max 1 threshold)"
    using zero_less_max_one [of threshold] by (simp add: word_less_nat_alt)
  then obtain us u where ts: "ts = us @ [u]" using assms(2) by (cases ts rule: rev_cases) auto
  have after: "snd (run_calls CircuitBreaker_record_failure b (take k ts)) =
      b\<lparr>cb_consecutive_failures := of_nat k\<rparr>" if "k < length ts" for k
    using cb_after_failures [OF b(1-3), of "take k ts"] that assms(2) b(4) by simp
  have num: "unat (of_nat k :: u32) = k" if "k < length ts" for k
    using that assms(2) unat_less_pow [of "max 1 threshold"] by (simp add: unat_of_nat)
  have "fst (run_calls CircuitBreaker_record_failure b ts) = replicate (length ts - 1) False @ [True]"
  proof (rule cb_trips.trips_at_limit)
    show "length ts = Suc (length ts - 1)" using ts by simp
    then show "unat (cb_consecutive_failures b) + Suc (length ts - 1) = unat (cb_failure_threshold b)"
      using b assms(2) by simp
    show "cb_counts (snd (run_calls CircuitBreaker_record_failure b (take k ts))) (ts ! k)"
      if "k \<le> length ts - 1" for k
    proof -
      have k: "k < length ts" using that ts by simp
      then show ?thesis
        using b assms(2) num [OF k] by (simp add: after cb_counts_def cb_inv_def word_less_nat_alt)
    qed
  qed
  moreover have open_until: "snd (run_calls CircuitBreaker_record_failure b ts) =
      b\<lparr>cb_open_until_ms := u + max 1 window, cb_consecutive_failures := 0\<rparr>"
  proof -
    have us: "snd (run_calls CircuitBreaker_record_failure b us) = b\<lparr>cb_consecutive_failures := of_nat (length us)\<rparr>"
      using after [of "length us"] ts by simp
    have "max 1 threshold = (of_nat (length ts) :: u32)"
      unfolding assms(2) by simp
    then have "max 1 threshold = (of_nat (length us) + 1 :: u32)"
      by (simp add: ts add.commute)
    with us b show ?thesis
      by (simp add: ts run_calls_append case_prod_beta CircuitBreaker_record_failure_def Let_def)
  qed
  moreover have "u + max 1 window \<noteq> 0"
  proof -
    have "0 < unat (max 1 window)" by (auto simp: max_def word_le_nat_alt)
    then have "unat (u + max 1 window) \<noteq> 0"
      using assms(3) ts by (simp add: unat_word_ariths)
    then show ?thesis by auto
  qed
  ultimately show ?thesis
    using b ts by (simp add: CircuitBreaker_allow_def)
qed

theorem circuit_breaker_trips_witness:
  "fst (run_calls CircuitBreaker_record_failure (CircuitBreaker_configure CircuitBreaker_init True 3 50) [1, 2, 9])
     = [False, False, True]"
proof -
  have "fst (run_calls CircuitBreaker_record_failure (CircuitBreaker_configure CircuitBreaker_init True 3 50) [1, 2, 9])
      = replicate (length [1 :: u64, 2, 9] - 1) False @ [True]"
    by (rule conjunct1 [OF circuit_breaker_trips]) (simp_all add: max_def)
  then show ?thesis by (simp add: numeral_2_eq_2 del: run_calls.simps)
qed

text \<open>Asking whether the breaker is open is the negation of asking for permission, state included.\<close>

lemma is_open_not_allow:
  "CircuitBreaker_is_open b t = (\<not> fst (CircuitBreaker_allow b t), snd (CircuitBreaker_allow b t))"
  by (simp add: CircuitBreaker_is_open_def CircuitBreaker_allow_def)

end
