(* ===== verification/Udp_Guards.thy ===== *)
theory Udp_Guards
  imports Resilience
begin

text \<open>
  The gateway's per-endpoint UDP trackers: \<open>UdpBindAbuseGuard\<close>
  (\<^verbatim>\<open>gateway/include/gateway/udp_bind_abuse_guard.hpp\<close>), which blocks an endpoint after repeated bind
  failures, and \<open>UdpSequencedMetrics\<close> (\<^verbatim>\<open>udp_sequenced_metrics.hpp\<close>), which classifies packets by
  sequence number. The guard is a second provider of the failure-counting interface; the sequence
  tracker is shown to account for every missing number.
\<close>

section \<open>Bind abuse guard\<close>

record BlockState =
  bs_blocked :: bool
  bs_retry_after_ms :: u64

record BindEntry =
  be_window_started_ms :: u64
  be_failures_in_window :: u32
  be_blocked_until_ms :: u64

definition BindEntry_default :: BindEntry where
  "BindEntry_default = \<lparr>be_window_started_ms = 0, be_failures_in_window = 0, be_blocked_until_ms = 0\<rparr>"

record UdpBindAbuseGuard =
  bg_fail_window_ms :: u32
  bg_fail_limit :: u32
  bg_block_ms :: u32
  bg_entries :: "string \<rightharpoonup> BindEntry"

definition UdpBindAbuseGuard_init :: UdpBindAbuseGuard where
  "UdpBindAbuseGuard_init = \<lparr>bg_fail_window_ms = 10000, bg_fail_limit = 5, bg_block_ms = 60000,
     bg_entries = Map.empty\<rparr>"

definition UdpBindAbuseGuard_configure ::
    "UdpBindAbuseGuard \<Rightarrow> u32 \<Rightarrow> u32 \<Rightarrow> u32 \<Rightarrow> UdpBindAbuseGuard" where
  "UdpBindAbuseGuard_configure g fail_window_ms fail_limit block_ms =
     g\<lparr>bg_fail_window_ms := fail_window_ms, bg_fail_limit := fail_limit, bg_block_ms := block_ms\<rparr>"

definition block_state :: "UdpBindAbuseGuard \<Rightarrow> string \<Rightarrow> u64 \<Rightarrow> BlockState \<times> UdpBindAbuseGuard" where
  "block_state g endpoint_key now_ms =
     (case bg_entries g endpoint_key of
        None \<Rightarrow> (\<lparr>bs_blocked = False, bs_retry_after_ms = 0\<rparr>, g)
      | Some entry \<Rightarrow>
          if be_blocked_until_ms entry \<le> now_ms then
            (\<lparr>bs_blocked = False, bs_retry_after_ms = 0\<rparr>,
             g\<lparr>bg_entries := (bg_entries g)(endpoint_key \<mapsto> entry\<lparr>be_blocked_until_ms := 0\<rparr>)\<rparr>)
          else (\<lparr>bs_blocked = True, bs_retry_after_ms = be_blocked_until_ms entry - now_ms\<rparr>, g))"

text \<open>\<open>entries_[key]\<close> inserts a default entry when there is none.\<close>

definition bind_entry :: "UdpBindAbuseGuard \<Rightarrow> string \<Rightarrow> BindEntry" where
  "bind_entry g key = (case bg_entries g key of None \<Rightarrow> BindEntry_default | Some e \<Rightarrow> e)"

definition bind_record_failure ::
    "UdpBindAbuseGuard \<Rightarrow> string \<Rightarrow> u64 \<Rightarrow> bool \<times> UdpBindAbuseGuard" where
  "bind_record_failure g endpoint_key now_ms =
     (let entry = bind_entry g endpoint_key;
          put = (\<lambda>entry. g\<lparr>bg_entries := (bg_entries g)(endpoint_key \<mapsto> entry)\<rparr>) in
      if be_blocked_until_ms entry > now_ms then (False, put entry)
      else
        let entry = (if be_window_started_ms entry = 0 \<or> now_ms < be_window_started_ms entry
                        \<or> now_ms - be_window_started_ms entry > ucast (bg_fail_window_ms g)
                     then entry\<lparr>be_window_started_ms := now_ms, be_failures_in_window := 0\<rparr>
                     else entry);
            entry = entry\<lparr>be_failures_in_window := be_failures_in_window entry + 1\<rparr> in
        if be_failures_in_window entry < bg_fail_limit g then (False, put entry)
        else (True, put (entry\<lparr>be_failures_in_window := 0, be_window_started_ms := 0,
                              be_blocked_until_ms := now_ms + ucast (bg_block_ms g)\<rparr>)))"

definition bind_record_success :: "UdpBindAbuseGuard \<Rightarrow> string \<Rightarrow> UdpBindAbuseGuard" where
  "bind_record_success g endpoint_key =
     (case bg_entries g endpoint_key of
        None \<Rightarrow> g
      | Some entry \<Rightarrow> g\<lparr>bg_entries := (bg_entries g)(endpoint_key \<mapsto>
          entry\<lparr>be_failures_in_window := 0, be_window_started_ms := 0\<rparr>)\<rparr>)"

section \<open>Sequence tracker\<close>

record UdpUpdateResult =
  ur_accepted :: bool
  ur_duplicate :: bool
  ur_reordered :: bool
  ur_estimated_lost_packets :: u64
  ur_jitter_ms :: u64

definition UdpUpdateResult_default :: UdpUpdateResult where
  "UdpUpdateResult_default = \<lparr>ur_accepted = False, ur_duplicate = False, ur_reordered = False,
     ur_estimated_lost_packets = 0, ur_jitter_ms = 0\<rparr>"

record UdpSequencedMetrics =
  sm_initialized :: bool
  sm_last_seq :: u32
  sm_last_recv_ms :: u64
  sm_last_interarrival_ms :: u64

definition UdpSequencedMetrics_init :: UdpSequencedMetrics where
  "UdpSequencedMetrics_init =
     \<lparr>sm_initialized = False, sm_last_seq = 0, sm_last_recv_ms = 0, sm_last_interarrival_ms = 0\<rparr>"

definition UdpSequencedMetrics_reset :: "UdpSequencedMetrics \<Rightarrow> UdpSequencedMetrics" where
  "UdpSequencedMetrics_reset m = m\<lparr>sm_initialized := False, sm_last_seq := 0, sm_last_recv_ms := 0,
     sm_last_interarrival_ms := 0\<rparr>"

definition on_packet ::
    "UdpSequencedMetrics \<Rightarrow> u32 \<times> u64 \<Rightarrow> UdpUpdateResult \<times> UdpSequencedMetrics" where
  "on_packet m = (\<lambda>(seq, recv_unix_ms).
     let result = UdpUpdateResult_default in
     if \<not> sm_initialized m then
       (result\<lparr>ur_accepted := True\<rparr>,
        m\<lparr>sm_initialized := True, sm_last_seq := seq, sm_last_recv_ms := recv_unix_ms,
          sm_last_interarrival_ms := 0\<rparr>)
     else if seq = sm_last_seq m then (result\<lparr>ur_duplicate := True\<rparr>, m)
     else if seq < sm_last_seq m then (result\<lparr>ur_reordered := True\<rparr>, m)
     else
       let result = result\<lparr>ur_accepted := True\<rparr>;
           result = (if seq > sm_last_seq m + 1
             then result\<lparr>ur_estimated_lost_packets := ucast (seq - sm_last_seq m - 1)\<rparr> else result);
           (result, m) =
             (if sm_last_recv_ms m \<noteq> 0 then
                if sm_last_recv_ms m \<le> recv_unix_ms then
                  let interarrival_ms = recv_unix_ms - sm_last_recv_ms m;
                      result = (if sm_last_interarrival_ms m \<noteq> 0
                        then result\<lparr>ur_jitter_ms :=
                          if sm_last_interarrival_ms m \<le> interarrival_ms
                          then interarrival_ms - sm_last_interarrival_ms m
                          else sm_last_interarrival_ms m - interarrival_ms\<rparr>
                        else result) in
                  (result, m\<lparr>sm_last_interarrival_ms := interarrival_ms\<rparr>)
                else (result, m\<lparr>sm_last_interarrival_ms := 0\<rparr>)
              else (result, m)) in
       (result, m\<lparr>sm_last_seq := seq, sm_last_recv_ms := recv_unix_ms\<rparr>))"

section \<open>The guard counts failures per endpoint\<close>

lemma bind_entry_update [simp]:
  "bind_entry (g\<lparr>bg_entries := (bg_entries g)(k \<mapsto> e)\<rparr>) k' = (if k' = k then e else bind_entry g k')"
  by (simp add: bind_entry_def)

text \<open>A failure of one endpoint does not touch another.\<close>

lemma bind_record_failure_other:
  "k' \<noteq> k \<Longrightarrow> bg_entries (snd (bind_record_failure g k t)) k' = bg_entries g k'"
  by (simp add: bind_record_failure_def Let_def)

text \<open>What a failure does to the entry of its own endpoint.\<close>

lemma bind_failure_entry:
  "bind_entry (snd (bind_record_failure g k t)) k =
     (let e = bind_entry g k in
      if t < be_blocked_until_ms e then e
      else let e1 = (if be_window_started_ms e = 0 \<or> t < be_window_started_ms e
                        \<or> ucast (bg_fail_window_ms g) < t - be_window_started_ms e
                     then e\<lparr>be_window_started_ms := t, be_failures_in_window := 1\<rparr>
                     else e\<lparr>be_failures_in_window := be_failures_in_window e + 1\<rparr>)
        in if be_failures_in_window e1 < bg_fail_limit g then e1
           else e1\<lparr>be_failures_in_window := 0, be_window_started_ms := 0,
                   be_blocked_until_ms := t + ucast (bg_block_ms g)\<rparr>)"
  "bg_entries (snd (bind_record_failure g k t)) k = Some (bind_entry (snd (bind_record_failure g k t)) k)"
  "fst (bind_record_failure g k t) \<Longrightarrow>
     bind_entry (snd (bind_record_failure g k t)) k =
       (bind_entry g k)\<lparr>be_failures_in_window := 0, be_window_started_ms := 0,
                        be_blocked_until_ms := t + ucast (bg_block_ms g)\<rparr>"
  by (auto simp: bind_record_failure_def Let_def bind_entry_def split: if_splits)

definition window_failures :: "string \<Rightarrow> UdpBindAbuseGuard \<Rightarrow> nat" where
  "window_failures k g = (let e = bind_entry g k in
     if be_window_started_ms e = 0 then 0 else unat (be_failures_in_window e))"

definition bind_counts :: "string \<Rightarrow> UdpBindAbuseGuard \<Rightarrow> u64 \<Rightarrow> bool" where
  "bind_counts k g t \<longleftrightarrow> (let e = bind_entry g k in
     t \<noteq> 0 \<and> be_blocked_until_ms e \<le> t \<and> window_failures k g < unat (max 1 (bg_fail_limit g)) \<and>
     (be_window_started_ms e = 0 \<or> be_window_started_ms e \<le> t \<and>
        t - be_window_started_ms e \<le> ucast (bg_fail_window_ms g)))"

lemma max_one_le: "unat (max 1 (x :: u32)) \<le> n + 1 \<longleftrightarrow> unat x \<le> n + 1"
  by (auto simp: max_def word_le_nat_alt)

interpretation bind_trips: trip_counter "\<lambda>g t. bind_record_failure g k t" "window_failures k"
  "\<lambda>g. unat (max 1 (bg_fail_limit g))" "bind_counts k" for k
proof
  fix g t
  assume c: "bind_counts k g t"
  let ?e = "bind_entry g k"
  let ?e1 = "(if be_window_started_ms ?e = 0 then ?e\<lparr>be_window_started_ms := t, be_failures_in_window := 0\<rparr> else ?e)"
  have not_blocked: "\<not> t < be_blocked_until_ms ?e" and t: "t \<noteq> 0"
    using c by (auto simp: bind_counts_def Let_def leD)
  have e1: "(if be_window_started_ms ?e = 0 \<or> t < be_window_started_ms ?e
        \<or> t - be_window_started_ms ?e > ucast (bg_fail_window_ms g)
      then ?e\<lparr>be_window_started_ms := t, be_failures_in_window := 0\<rparr> else ?e) = ?e1"
    using c by (auto simp: bind_counts_def Let_def leD)
  have "unat (be_failures_in_window ?e1 + 1) = window_failures k g + 1"
    using c unat_less_pow [of "max 1 (bg_fail_limit g)"]
    by (auto simp: bind_counts_def window_failures_def Let_def unat_word_ariths)
  then have less: "be_failures_in_window ?e1 + 1 < bg_fail_limit g \<longleftrightarrow>
      \<not> unat (max 1 (bg_fail_limit g)) \<le> window_failures k g + 1"
    unfolding max_one_le by (simp add: word_less_nat_alt not_le)
  show "fst (bind_record_failure g k t) \<longleftrightarrow> unat (max 1 (bg_fail_limit g)) \<le> window_failures k g + 1"
    unfolding bind_record_failure_def Let_def e1 using not_blocked less by simp
  show "window_failures k (snd (bind_record_failure g k t)) = window_failures k g + 1 \<and>
      unat (max 1 (bg_fail_limit (snd (bind_record_failure g k t)))) = unat (max 1 (bg_fail_limit g))"
    if "\<not> fst (bind_record_failure g k t)"
    using that \<open>unat (be_failures_in_window ?e1 + 1) = _\<close> t
    unfolding bind_record_failure_def Let_def e1 using not_blocked less
    by (auto simp: window_failures_def Let_def split: if_splits)
qed


abbreviation bind_failures :: "UdpBindAbuseGuard \<Rightarrow> string \<Rightarrow> u64 list \<Rightarrow> bool list \<times> UdpBindAbuseGuard" where
  "bind_failures g k ts \<equiv> run_calls (\<lambda>g t. bind_record_failure g k t) g ts"

text \<open>Failure times inside one window of the endpoint.\<close>

definition one_window :: "UdpBindAbuseGuard \<Rightarrow> u64 list \<Rightarrow> bool" where
  "one_window g ts \<longleftrightarrow> list_all (\<lambda>t. t \<noteq> 0 \<and> hd ts \<le> t \<and> t - hd ts \<le> ucast (bg_fail_window_ms g)) ts"

lemma bind_failures_config [simp]:
  "bg_fail_window_ms (snd (bind_failures g k ts)) = bg_fail_window_ms g"
  "bg_fail_limit (snd (bind_failures g k ts)) = bg_fail_limit g"
  "bg_block_ms (snd (bind_failures g k ts)) = bg_block_ms g"
  by (induction ts arbitrary: g) (simp_all add: case_prod_beta bind_record_failure_def Let_def)

lemma bind_failures_other:
  "k' \<noteq> k \<Longrightarrow> bg_entries (snd (bind_failures g k ts)) k' = bg_entries g k'"
  by (induction ts arbitrary: g) (simp_all add: case_prod_beta bind_record_failure_other)

lemma bind_after_failures:
  assumes "bg_entries g k = None" and "one_window g (ts @ us)" and "length ts < unat (max 1 (bg_fail_limit g))"
  shows "bind_entry (snd (bind_failures g k ts)) k =
    \<lparr>be_window_started_ms = (if ts = [] then 0 else hd ts),
     be_failures_in_window = of_nat (length ts), be_blocked_until_ms = 0\<rparr>"
  using assms(2,3)
proof (induction ts arbitrary: us rule: rev_induct)
  case Nil
  then show ?case using assms(1) by (simp add: bind_entry_def BindEntry_default_def)
next
  case (snoc t ts)
  let ?g = "snd (bind_failures g k ts)"
  have e: "bind_entry ?g k = \<lparr>be_window_started_ms = (if ts = [] then 0 else hd ts),
      be_failures_in_window = of_nat (length ts), be_blocked_until_ms = 0\<rparr>"
    using snoc.IH [of "t # us"] snoc.prems by simp
  have t: "t \<noteq> 0" "ts \<noteq> [] \<Longrightarrow> hd ts \<noteq> 0 \<and> \<not> t < hd ts \<and> \<not> ucast (bg_fail_window_ms g) < t - hd ts"
    using snoc.prems(1) by (cases ts; simp add: one_window_def leD)+
  have "unat (of_nat (length ts) + 1 :: u32) = length ts + 1"
    using snoc.prems(2) unat_less_pow [of "max 1 (bg_fail_limit g)"]
    by (simp add: unat_word_ariths unat_of_nat)
  moreover have "length ts + 1 < unat (bg_fail_limit g)"
    using snoc.prems(2) by (auto simp: max_def word_le_nat_alt split: if_splits)
  ultimately have "of_nat (length ts) + 1 < bg_fail_limit g"
    by (simp add: word_less_nat_alt)
  with t e show ?case
    by (cases "ts = []")
      (simp_all add: run_calls_append case_prod_beta bind_failure_entry(1) Let_def add.commute)
qed

text \<open>The bind guard blocks an abusive endpoint: from an endpoint it has not seen, the failure that reaches the limit
  inside one failure window reports the block and no earlier one does; during the block time the endpoint
  is reported blocked with the time left, afterwards it is not; no other endpoint is affected.
\<close>

theorem bind_guard_blocks:
  assumes "bg_entries g k = None" and "one_window g ts"
    and "length ts = unat (max 1 (bg_fail_limit g))"
    and "unat (last ts) + unat (bg_block_ms g) < 2 ^ 64"
  defines "g' \<equiv> snd (bind_failures g k ts)"
  shows "fst (bind_failures g k ts) = replicate (length ts - 1) False @ [True] \<and>
    fst (block_state g' k now) =
      (if last ts + ucast (bg_block_ms g) \<le> now then \<lparr>bs_blocked = False, bs_retry_after_ms = 0\<rparr>
       else \<lparr>bs_blocked = True, bs_retry_after_ms = last ts + ucast (bg_block_ms g) - now\<rparr>) \<and>
    (k' = k \<or> bg_entries g' k' = bg_entries g k')"
proof -
  have pos: "0 < unat (max 1 (bg_fail_limit g))"
    using zero_less_max_one [of "bg_fail_limit g"] by (simp add: word_less_nat_alt)
  then obtain us u where ts: "ts = us @ [u]" using assms(3) by (cases ts rule: rev_cases) auto
  have after: "bind_entry (snd (bind_failures g k (take i ts))) k =
      \<lparr>be_window_started_ms = (if i = 0 then 0 else hd ts), be_failures_in_window = of_nat i,
       be_blocked_until_ms = 0\<rparr>" if "i < length ts" for i
    using bind_after_failures [OF assms(1), of "take i ts" "drop i ts"] assms(2,3) that by auto
  have num: "unat (of_nat i :: u32) = i" if "i < length ts" for i
    using that assms(3) unat_less_pow [of "max 1 (bg_fail_limit g)"] by (simp add: unat_of_nat)
  have hd: "hd ts \<noteq> 0" using assms(2) ts by (cases us) (auto simp: one_window_def)
  have win: "ts ! i \<noteq> 0" "hd ts \<le> ts ! i" "ts ! i - hd ts \<le> ucast (bg_fail_window_ms g)"
    if "i < length ts" for i
    using assms(2) that by (auto simp: one_window_def list_all_length)
  have counts: "bind_counts k (snd (bind_failures g k (take i ts))) (ts ! i)" if "i < length ts" for i
    using win [OF that] hd num [OF that] that assms(3)
    by (auto simp: bind_counts_def window_failures_def after Let_def)
  have outs: "fst (bind_failures g k ts) = replicate (length ts - 1) False @ [True]"
  proof (rule bind_trips.trips_at_limit)
    show "length ts = Suc (length ts - 1)" using ts by simp
    then show "window_failures k g + Suc (length ts - 1) = unat (max 1 (bg_fail_limit g))"
      using assms(1,3) by (simp add: window_failures_def bind_entry_def BindEntry_default_def)
    show "bind_counts k (snd (bind_failures g k (take i ts))) (ts ! i)" if "i \<le> length ts - 1" for i
      using counts that ts by simp
  qed
  have "fst (bind_record_failure (snd (bind_failures g k us)) k u)"
    using outs ts by (simp add: run_calls_append case_prod_beta)
  from bind_failure_entry(3) [OF this]
  have "bg_entries g' k = Some \<lparr>be_window_started_ms = 0, be_failures_in_window = 0,
      be_blocked_until_ms = u + ucast (bg_block_ms g)\<rparr>"
    using after [of "length us"] ts
    by (simp add: g'_def run_calls_append case_prod_beta bind_failure_entry(2))
  with outs bind_failures_other [of k' k g ts] ts show ?thesis
    by (auto simp: block_state_def g'_def)
qed

theorem bind_guard_blocks_witness:
  "fst (bind_failures (UdpBindAbuseGuard_configure UdpBindAbuseGuard_init 100 2 50) ''10.0.0.1:9'' [5, 8]) = [False, True]"
  using bind_guard_blocks [of "UdpBindAbuseGuard_configure UdpBindAbuseGuard_init 100 2 50" "''10.0.0.1:9''" "[5, 8]" 0 "[]"]
  by (simp add: UdpBindAbuseGuard_configure_def UdpBindAbuseGuard_init_def one_window_def max_def
      del: run_calls.simps)


section \<open>The sequence tracker accounts for every number\<close>

lemma on_packet_step:
  assumes "sm_initialized m"
  shows "sm_initialized (snd (on_packet m (seq, t)))"
    and "ur_accepted (fst (on_packet m (seq, t))) \<longleftrightarrow> sm_last_seq m < seq"
    and "sm_last_seq (snd (on_packet m (seq, t))) = (if sm_last_seq m < seq then seq else sm_last_seq m)"
    and "unat (ur_estimated_lost_packets (fst (on_packet m (seq, t)))) =
           (if sm_last_seq m < seq then unat seq - unat (sm_last_seq m) - 1 else 0)"
proof -
  show "sm_initialized (snd (on_packet m (seq, t)))"
    "ur_accepted (fst (on_packet m (seq, t))) \<longleftrightarrow> sm_last_seq m < seq"
    "sm_last_seq (snd (on_packet m (seq, t))) = (if sm_last_seq m < seq then seq else sm_last_seq m)"
    using assms by (auto simp: on_packet_def UdpUpdateResult_default_def Let_def)
  have "unat (seq - sm_last_seq m - 1) = unat seq - unat (sm_last_seq m) - 1" if less: "sm_last_seq m < seq"
  proof -
    have "unat (seq - sm_last_seq m) = unat seq - unat (sm_last_seq m)"
      using less by (intro word_diff_unat) simp
    moreover have "1 \<le> seq - sm_last_seq m"
      using less calculation by (simp add: word_le_nat_alt word_less_nat_alt)
    ultimately show ?thesis by (simp add: word_diff_unat)
  qed
  moreover have "\<not> sm_last_seq m + 1 < seq \<Longrightarrow> unat seq - unat (sm_last_seq m) - 1 = 0" if less: "sm_last_seq m < seq"
  proof -
    have "unat (sm_last_seq m + 1) = unat (sm_last_seq m) + 1"
      using less unat_less_pow [of seq] by (simp add: unat_word_ariths word_less_nat_alt)
    then show "\<not> sm_last_seq m + 1 < seq \<Longrightarrow> unat seq - unat (sm_last_seq m) - 1 = 0"
      by (simp add: word_less_nat_alt)
  qed
  ultimately show "unat (ur_estimated_lost_packets (fst (on_packet m (seq, t)))) =
      (if sm_last_seq m < seq then unat seq - unat (sm_last_seq m) - 1 else 0)"
    using assms by (auto simp: on_packet_def UdpUpdateResult_default_def Let_def unat_ucast_up)
qed

abbreviation lost_of :: "UdpUpdateResult \<Rightarrow> nat" where
  "lost_of r \<equiv> unat (ur_estimated_lost_packets r)"

lemma on_packet_account:
  assumes "sm_initialized m"
  shows "sum_list (map lost_of (fst (run_calls on_packet m ps)))
      + length (filter ur_accepted (fst (run_calls on_packet m ps))) + unat (sm_last_seq m)
    = unat (sm_last_seq (snd (run_calls on_packet m ps)))"
  using assms
proof (induction ps arbitrary: m)
  case (Cons p ps)
  obtain seq t where p: "p = (seq, t)" by (cases p)
  note step = on_packet_step [OF Cons.prems, of seq t]
  from Cons.IH [OF step(1)] step(2-4) show ?case
    by (auto simp: p case_prod_beta word_less_nat_alt split: if_splits)
qed simp

text \<open>Every sequence number is accounted for: over any sequence of packets from a fresh tracker, the packets
  accepted and the packets estimated lost add up to the distance from the first to the last accepted number, both included.
\<close>

theorem sequence_accounting:
  "let (rs, m) = run_calls on_packet UdpSequencedMetrics_init ((seq, t) # ps) in
   sum_list (map lost_of rs) + length (filter ur_accepted rs) + unat seq = unat (sm_last_seq m) + 1"
proof -
  have first: "on_packet UdpSequencedMetrics_init (seq, t) =
      (UdpUpdateResult_default\<lparr>ur_accepted := True\<rparr>,
       \<lparr>sm_initialized = True, sm_last_seq = seq, sm_last_recv_ms = t, sm_last_interarrival_ms = 0\<rparr>)"
    by (simp add: on_packet_def UdpSequencedMetrics_init_def Let_def)
  show ?thesis
    using on_packet_account [of "snd (on_packet UdpSequencedMetrics_init (seq, t))" ps]
    by (simp add: first case_prod_beta UdpUpdateResult_default_def)
qed

end
