(* ===== verification/Text.thy ===== *)
theory Text
  imports Prelude "HOL-Library.List_Lexorder" "HOL-Library.Char_ord"
begin

text \<open>
  Printing that several components share: decimal numbers as \<open>std::to_string\<close> writes them and bytes as
  lower-case hexadecimal. Strings are ordered as \<open>std::string\<close> is, lexicographically by byte.
\<close>

section \<open>Decimal numbers\<close>

definition digit_char :: "nat \<Rightarrow> char" where
  "digit_char d = char_of (48 + d)"

fun show_nat :: "nat \<Rightarrow> string" where
  "show_nat n = (if n < 10 then [digit_char n] else show_nat (n div 10) @ [digit_char (n mod 10)])"

declare show_nat.simps [simp del]

lemma of_char_digit_char: "d < 10 \<Longrightarrow> (of_char (digit_char d) :: nat) = 48 + d"
  by (simp add: digit_char_def)

lemma show_nat_chars: "c \<in> set (show_nat n) \<Longrightarrow> \<exists>d < 10. c = digit_char d"
proof (induction n rule: show_nat.induct)
  case (1 n)
  show ?case
  proof (cases "n < 10")
    case True
    with 1 show ?thesis by (auto simp: show_nat.simps)
  next
    case False
    with 1(2) have "c \<in> set (show_nat (n div 10)) \<or> c = digit_char (n mod 10)"
      by (subst (asm) show_nat.simps) auto
    moreover have "n mod 10 < 10" by simp
    ultimately show ?thesis using 1(1) [OF False] by blast
  qed
qed

lemma show_nat_nonempty [simp]: "show_nat n \<noteq> []"
  by (subst show_nat.simps) simp

section \<open>Hexadecimal\<close>

definition kHex :: string where "kHex = ''0123456789abcdef''"

definition hex_byte :: "u8 \<Rightarrow> string" where
  "hex_byte b = [kHex ! unat (drop_bit 4 b AND 0x0F), kHex ! unat (b AND 0x0F)]"

definition hex_encode :: "bytes \<Rightarrow> string" where
  "hex_encode bs = concat (map hex_byte bs)"

lemma nibble_less: "unat (b AND 0x0F) < 16" for b :: u8
proof -
  have m: "(0x0F :: u8) = mask 4" by (simp add: mask_eq_exp_minus_1)
  show ?thesis unfolding m unat_and_low by simp
qed

lemma kHex_inject: "i < 16 \<Longrightarrow> j < 16 \<Longrightarrow> kHex ! i = kHex ! j \<longleftrightarrow> i = j"
proof -
  assume "i < 16" "j < 16"
  moreover have "distinct kHex" "length kHex = 16" by (simp_all add: kHex_def)
  ultimately show ?thesis by (simp add: nth_eq_iff_index_eq)
qed

lemma nibbles_inject:
  "drop_bit 4 a AND 0x0F = drop_bit 4 b AND 0x0F \<Longrightarrow> a AND 0x0F = b AND 0x0F \<Longrightarrow> a = b" for a b :: u8
proof -
  assume hi: "drop_bit 4 a AND 0x0F = drop_bit 4 b AND 0x0F" and lo: "a AND 0x0F = b AND 0x0F"
  have m: "(0x0F :: u8) = mask 4" by (simp add: mask_eq_exp_minus_1)
  have high: "unat (drop_bit 4 c) mod 2 ^ 4 = unat c div 2 ^ 4" for c :: u8
  proof -
    have "unat (drop_bit 4 c) = unat c div 2 ^ 4"
      unfolding drop_bit_eq_div [of 4 c] by (simp add: unat_div)
    moreover have "unat c div 2 ^ 4 < 2 ^ 4"
      using unat_less_pow [of c] by (simp add: less_mult_imp_div_less)
    ultimately show ?thesis by simp
  qed
  have "unat (drop_bit 4 a AND mask 4) = unat (drop_bit 4 b AND mask 4)" "unat (a AND mask 4) = unat (b AND mask 4)"
    using hi lo by (simp_all only: m)
  then have "unat a div 2 ^ 4 = unat b div 2 ^ 4" "unat a mod 2 ^ 4 = unat b mod 2 ^ 4"
    by (simp_all only: unat_and_low high)
  then have "unat a div 2 ^ 4 * 2 ^ 4 + unat a mod 2 ^ 4 = unat b div 2 ^ 4 * 2 ^ 4 + unat b mod 2 ^ 4"
    by (simp only:)
  then show "a = b" by (simp only: div_mult_mod_eq word_unat_eq_iff)
qed

lemma hex_byte_inject: "hex_byte a = hex_byte b \<longleftrightarrow> a = b"
proof
  assume "hex_byte a = hex_byte b"
  then have *: "unat (drop_bit 4 a AND 0x0F) = unat (drop_bit 4 b AND 0x0F)" "unat (a AND 0x0F) = unat (b AND 0x0F)"
    unfolding hex_byte_def list.inject kHex_inject [OF nibble_less nibble_less] by blast+
  show "a = b" by (rule nibbles_inject) (use * in \<open>simp_all only: word_unat_eq_iff\<close>)
qed simp

lemma length_hex_byte: "length (hex_byte b) = 2"
  by (simp add: hex_byte_def)

lemma hex_encode_Cons: "hex_encode (b # bs) = hex_byte b @ hex_encode bs"
  by (simp add: hex_encode_def)

lemma length_hex_encode [simp]: "length (hex_encode bs) = 2 * length bs"
  by (induction bs) (simp_all add: hex_encode_Cons length_hex_byte, simp add: hex_encode_def)

lemma hex_encode_inject: "hex_encode a = hex_encode b \<longleftrightarrow> a = b"
proof
  assume "hex_encode a = hex_encode b"
  moreover have "length a = length b"
    using arg_cong [OF calculation, of length] by simp
  ultimately show "a = b"
  proof (induction a arbitrary: b)
    case (Cons x xs)
    from Cons.prems(2) obtain y ys where b: "b = y # ys" by (cases b) auto
    have "hex_byte x @ hex_encode xs = hex_byte y @ hex_encode ys"
      using Cons.prems(1) unfolding b hex_encode_Cons .
    then have "hex_byte x = hex_byte y \<and> hex_encode xs = hex_encode ys"
      by (subst (asm) append_eq_append_conv) (simp_all only: length_hex_byte simp_thms)
    with Cons.IH [of ys] Cons.prems(2) b show ?case by (simp add: hex_byte_inject)
  qed simp
qed simp

section \<open>Strings as bytes\<close>

text \<open>\<open>std::string\<close> and byte vectors hold the same bytes.\<close>

definition string_bytes :: "string \<Rightarrow> bytes" where
  "string_bytes s = map of_char s"

definition bytes_string :: "bytes \<Rightarrow> string" where
  "bytes_string bs = map (\<lambda>b. char_of (unat b)) bs"

lemma unat_of_char [simp]: "unat (of_char c :: u8) = of_char c"
proof -
  have "(of_char c :: u8) = of_nat (of_char c)" by (simp only: of_nat_of_char)
  moreover have "(of_char c :: nat) < 2 ^ LENGTH(8)" using nat_of_char_less_256 [of c] by simp
  ultimately show ?thesis by (metis of_nat_inverse)
qed

lemma of_char_byte: "of_char (char_of (unat b) :: char) = (b :: u8)"
proof -
  have "(of_char (char_of (unat b) :: char) :: nat) = unat b"
    using unat_less_pow [of b] by (simp add: of_char_of)
  then show ?thesis by (metis unat_of_char unsigned_word_eqI)
qed

lemma bytes_string_bytes [simp]: "bytes_string (string_bytes s) = s"
  by (simp add: bytes_string_def string_bytes_def o_def)

lemma string_bytes_string [simp]: "string_bytes (bytes_string bs) = bs"
  by (simp add: bytes_string_def string_bytes_def o_def of_char_byte)

lemma length_string_bytes [simp]: "length (string_bytes s) = length s" "string_bytes s = [] \<longleftrightarrow> s = []"
  by (simp_all add: string_bytes_def)

lemma length_bytes_string [simp]: "length (bytes_string bs) = length bs" "bytes_string bs = [] \<longleftrightarrow> bs = []"
  by (simp_all add: bytes_string_def)

lemma string_bytes_inject [simp]: "string_bytes s = string_bytes t \<longleftrightarrow> s = t"
  by (metis bytes_string_bytes)

end
