(* ===== verification/Rollout_Policy.thy ===== *)
theory Rollout_Policy
  imports Text
begin

text \<open>
  The RUDP rollout policy of the gateway, \<^verbatim>\<open>gateway/include/gateway/rudp_rollout_policy.hpp\<close>: trimming
  and parsing of opcode tokens, the comma-separated allowlist, the FNV-1a session hash, and the
  canary decision. \<open>std::from_chars\<close> for an unsigned value reads the longest run of digits of the base.
  A \<open>std::string_view\<close> is a \<open>string\<close>; a \<open>char\<close> hashed as \<open>uint8_t\<close> is its code.
\<close>

section \<open>Tokens\<close>

definition is_ascii_space :: "char \<Rightarrow> bool" where
  "is_ascii_space c \<longleftrightarrow> c = CHR '' '' \<or> c = CHR 0x09 \<or> c = CHR 0x0D \<or> c = CHR 0x0A"

text \<open>The two loops of \<open>trim_ascii\<close>: from the front, then from the back.\<close>

fun trim_front :: "string \<Rightarrow> string" where
  "trim_front [] = []"
| "trim_front (c # cs) = (if is_ascii_space c then trim_front cs else c # cs)"

function trim_back :: "string \<Rightarrow> string" where
  "trim_back s = (if s \<noteq> [] \<and> is_ascii_space (last s) then trim_back (butlast s) else s)"
  by pat_completeness auto
termination by (relation "measure length") auto

declare trim_back.simps [simp del]

definition trim_ascii :: "string \<Rightarrow> string" where
  "trim_ascii value = trim_back (trim_front value)"

definition digit_value :: "nat \<Rightarrow> char \<Rightarrow> nat option" where
  "digit_value base c =
     (let n = (of_char c :: nat);
          v = (if 48 \<le> n \<and> n \<le> 57 then n - 48
               else if 97 \<le> n \<and> n \<le> 122 then n - 87
               else if 65 \<le> n \<and> n \<le> 90 then n - 55
               else base)
      in if v < base then Some v else None)"

fun digits_prefix :: "nat \<Rightarrow> string \<Rightarrow> nat list" where
  "digits_prefix base [] = []"
| "digits_prefix base (c # cs) =
     (case digit_value base c of None \<Rightarrow> [] | Some v \<Rightarrow> v # digits_prefix base cs)"

definition digits_value :: "nat \<Rightarrow> nat list \<Rightarrow> nat" where
  "digits_value base ds = foldl (\<lambda>acc d. acc * base + d) 0 ds"

datatype from_chars_result = FcOk nat nat | FcInvalidArgument | FcOutOfRange nat

text \<open>The value and the number of characters read, for a 32-bit \<open>unsigned int\<close>.\<close>

definition from_chars_uint :: "nat \<Rightarrow> string \<Rightarrow> from_chars_result" where
  "from_chars_uint base s =
     (let ds = digits_prefix base s in
      if ds = [] then FcInvalidArgument
      else if digits_value base ds \<le> 0xFFFFFFFF then FcOk (digits_value base ds) (length ds)
      else FcOutOfRange (length ds))"

definition parse_u16_token :: "string \<Rightarrow> u16 option" where
  "parse_u16_token token =
     (let token = trim_ascii token in
      if token = [] then None
      else
        let hex = length token > 2 \<and> token ! 0 = CHR ''0'' \<and> (token ! 1 = CHR ''x'' \<or> token ! 1 = CHR ''X'');
            base = (if hex then 16 else 10);
            token = (if hex then drop 2 token else token) in
        if token = [] then None
        else case from_chars_uint base token of
            FcOk parsed used \<Rightarrow> if used \<noteq> length token \<or> parsed > 0xFFFF then None else Some (of_nat parsed)
          | _ \<Rightarrow> None)"

section \<open>Allowlist\<close>

text \<open>\<open>csv.find(',', begin)\<close>.\<close>

definition find_comma :: "string \<Rightarrow> nat \<Rightarrow> nat option" where
  "find_comma csv begin =
     (if begin \<le> length csv \<and> CHR '','' \<in> set (drop begin csv)
      then Some (begin + length (takeWhile (\<lambda>c. c \<noteq> CHR '','') (drop begin csv))) else None)"

lemma find_comma_bounds: "find_comma csv b = Some e \<Longrightarrow> b \<le> e \<and> e < length csv"
proof -
  assume "find_comma csv b = Some e"
  then have "CHR '','' \<in> set (drop b csv)"
    and e: "e = b + length (takeWhile (\<lambda>c. c \<noteq> CHR '','') (drop b csv))"
    by (auto simp: find_comma_def split: if_splits)
  then have "length (takeWhile (\<lambda>c. c \<noteq> CHR '','') (drop b csv)) < length (drop b csv)"
    by (intro length_takeWhile_stops) auto
  with e show ?thesis by auto
qed

function allowlist_loop :: "string \<Rightarrow> nat \<Rightarrow> u16 set \<Rightarrow> u16 set" where
  "allowlist_loop csv begin out =
     (if begin \<le> length csv then
        let end = (case find_comma csv begin of None \<Rightarrow> length csv | Some e \<Rightarrow> e);
            token = take (end - begin) (drop begin csv);
            out = (case parse_u16_token token of Some opcode \<Rightarrow> insert opcode out | None \<Rightarrow> out) in
        if end = length csv then out else allowlist_loop csv (end + 1) out
      else out)"
  by pat_completeness auto
termination
  by (relation "measure (\<lambda>(csv, b, out). Suc (length csv) - b)")
    (auto split: option.splits dest: find_comma_bounds)

declare allowlist_loop.simps [simp del]

definition parse_rudp_opcode_allowlist :: "string \<Rightarrow> u16 set" where
  "parse_rudp_opcode_allowlist csv = allowlist_loop csv 0 {}"

definition parse_udp_opcode_allowlist :: "string \<Rightarrow> u16 set" where
  "parse_udp_opcode_allowlist csv = parse_rudp_opcode_allowlist csv"

section \<open>Canary decision\<close>

definition kFnvPrime :: u64 where "kFnvPrime = 1099511628211"

definition fnv_byte :: "u64 \<Rightarrow> u8 \<Rightarrow> u64" where
  "fnv_byte hash b = (hash XOR ucast b) * kFnvPrime"

definition fnv1a64 :: "string \<Rightarrow> u64 \<Rightarrow> u64" where
  "fnv1a64 session_id nonce =
     (let hash = foldl (\<lambda>hash c. fnv_byte hash (of_char c)) 1469598103934665603 session_id
      in foldl (\<lambda>hash shift. fnv_byte hash (ucast (drop_bit shift nonce AND 0xFF))) hash
           [0, 8, 16, 24, 32, 40, 48, 56])"

record RudpRolloutPolicy =
  rp_enabled :: bool
  rp_canary_percent :: u32
  rp_opcode_allowlist :: "u16 set"

definition session_selected :: "RudpRolloutPolicy \<Rightarrow> string \<Rightarrow> u64 \<Rightarrow> bool" where
  "session_selected p session_id nonce =
     (if \<not> rp_enabled p \<or> rp_canary_percent p = 0 then False
      else if rp_canary_percent p \<ge> 100 then True
      else (ucast (fnv1a64 session_id nonce mod 100) :: u32) < rp_canary_percent p)"

definition opcode_allowed :: "RudpRolloutPolicy \<Rightarrow> u16 \<Rightarrow> bool" where
  "opcode_allowed p opcode \<longleftrightarrow> rp_opcode_allowlist p \<noteq> {} \<and> opcode \<in> rp_opcode_allowlist p"


section \<open>Trimming\<close>

lemma trim_front_eq: "trim_front s = dropWhile is_ascii_space s"
  by (induction s) auto

lemma trim_back_eq: "trim_back s = rev (dropWhile is_ascii_space (rev s))"
proof (induction s rule: trim_back.induct)
  case (1 s)
  show ?case
  proof (cases s rule: rev_cases)
    case Nil
    then show ?thesis by (simp add: trim_back.simps)
  next
    case (snoc xs c)
    then show ?thesis
      using 1 by (subst trim_back.simps) auto
  qed
qed

lemma trim_ascii_padded:
  assumes "list_all is_ascii_space pre" "list_all is_ascii_space post"
    and "s \<noteq> []" "\<not> is_ascii_space (hd s)" "\<not> is_ascii_space (last s)"
  shows "trim_ascii (pre @ s @ post) = s"
proof -
  have "dropWhile is_ascii_space (pre @ s @ post) = s @ post"
    using assms(1,3,4) by (induction pre) (auto simp: neq_Nil_conv)
  moreover have "dropWhile is_ascii_space (rev post @ rev s) = rev s"
  proof -
    have "dropWhile is_ascii_space (rev post @ rev s) = dropWhile is_ascii_space (rev s)"
      by (rule dropWhile_append2) (use assms(2) in \<open>auto simp: list_all_iff\<close>)
    also have "\<dots> = rev s" using assms(3,5) by (cases s rule: rev_cases) auto
    finally show ?thesis .
  qed
  ultimately show ?thesis
    by (simp add: trim_ascii_def trim_front_eq trim_back_eq)
qed

section \<open>Decimal tokens\<close>

lemma digit_value_digit_char [simp]: "d < 10 \<Longrightarrow> digit_value 10 (digit_char d) = Some d"
  by (simp add: digit_value_def digit_char_def Let_def)

lemma digits_prefix_append:
  "digits_prefix b (xs @ ys) =
     (if length (digits_prefix b xs) = length xs then digits_prefix b xs @ digits_prefix b ys
      else digits_prefix b xs)"
proof (induction xs)
  case (Cons x xs)
  have "length (digits_prefix b xs) \<le> length xs" for xs
    by (induction xs) (auto split: option.splits)
  with Cons show ?case by (auto split: option.splits)
qed simp

lemma show_nat_digits:
  "length (digits_prefix 10 (show_nat n)) = length (show_nat n) \<and>
   digits_value 10 (digits_prefix 10 (show_nat n)) = n \<and> show_nat n \<noteq> []"
proof (induction n rule: show_nat.induct)
  case (1 n)
  then show ?case
    by (subst (1 2 3 4) show_nat.simps) (auto simp: digits_prefix_append digits_value_def)
qed


lemma digit_char_simps:
  assumes "d < 10"
  shows "\<not> is_ascii_space (digit_char d)" "digit_char d \<noteq> CHR ''x''" "digit_char d \<noteq> CHR ''X''"
    "digit_char d \<noteq> CHR '',''"
proof -
  have neq: "(of_char (digit_char d) :: nat) = 48 + d" using assms by (rule of_char_digit_char)
  show "\<not> is_ascii_space (digit_char d)" "digit_char d \<noteq> CHR ''x''" "digit_char d \<noteq> CHR ''X''"
    "digit_char d \<noteq> CHR '',''"
    using neq assms by (auto simp: is_ascii_space_def)
qed

text \<open>Opcode tokens round trip: the decimal form of any 16-bit value, with any white space around it, parses to that value.
\<close>

theorem parse_u16_token_decimal:
  assumes "list_all is_ascii_space pre" and "list_all is_ascii_space post"
  shows "parse_u16_token (pre @ show_nat (unat w) @ post) = Some w"
proof -
  let ?s = "show_nat (unat w)"
  note digits = show_nat_digits [of "unat w"]
  have ne: "?s \<noteq> []" using digits by simp
  have "\<not> is_ascii_space c" if "c \<in> set ?s" for c
    using show_nat_chars [OF that] by (auto simp: digit_char_simps)
  then have trim: "trim_ascii (pre @ ?s @ post) = ?s"
    using assms ne by (intro trim_ascii_padded) simp_all
  have "\<not> (length ?s > 2 \<and> ?s ! 0 = CHR ''0'' \<and> (?s ! 1 = CHR ''x'' \<or> ?s ! 1 = CHR ''X''))"
  proof
    assume hex: "length ?s > 2 \<and> ?s ! 0 = CHR ''0'' \<and> (?s ! 1 = CHR ''x'' \<or> ?s ! 1 = CHR ''X'')"
    then have "?s ! 1 \<in> set ?s" by (intro nth_mem) linarith
    from show_nat_chars [OF this] obtain d where "d < 10" "?s ! 1 = digit_char d" by blast
    with hex digit_char_simps(2,3) [of d] show False by simp
  qed
  moreover have "from_chars_uint 10 ?s = FcOk (unat w) (length ?s)"
    using digits unat_less_pow [of w] by (auto simp: from_chars_uint_def Let_def)
  ultimately show ?thesis
    using ne unat_less_pow [of w] by (auto simp: parse_u16_token_def trim Let_def)
qed

theorem parse_u16_token_decimal_witness: "parse_u16_token ('' '' @ show_nat (unat (513 :: u16)) @ [CHR 0x09]) = Some 513"
  by (rule parse_u16_token_decimal) (simp_all add: is_ascii_space_def)

section \<open>The allowlist is the set of its tokens\<close>

fun split_commas :: "string \<Rightarrow> string list" where
  "split_commas [] = [[]]"
| "split_commas (c # cs) =
     (if c = CHR '','' then [] # split_commas cs
      else case split_commas cs of t # ts \<Rightarrow> (c # t) # ts | [] \<Rightarrow> [[c]])"

lemma split_commas_step:
  "split_commas s =
     (let t = takeWhile (\<lambda>c. c \<noteq> CHR '','') s in
      if CHR '','' \<in> set s then t # split_commas (drop (Suc (length t)) s) else [s])"
  by (induction s) (auto simp: Let_def split: list.splits if_splits)

lemma allowlist_loop_eq:
  "b \<le> length csv \<Longrightarrow>
     allowlist_loop csv b out = out \<union> {w. \<exists>t \<in> set (split_commas (drop b csv)). parse_u16_token t = Some w}"
proof (induction csv b out rule: allowlist_loop.induct)
  case (1 csv b out)
  show ?case
  proof (cases "CHR '','' \<in> set (drop b csv)")
    case False
    then have "find_comma csv b = None" by (simp add: find_comma_def)
    moreover have "split_commas (drop b csv) = [drop b csv]"
      using False split_commas_step [of "drop b csv"] by (simp add: Let_def)
    moreover have "take (length csv - b) (drop b csv) = drop b csv" by simp
    ultimately show ?thesis
      using 1(2) unfolding allowlist_loop.simps [of csv b out] by (auto simp: Let_def split: option.splits)
  next
    case True
    define t where "t = takeWhile (\<lambda>c. c \<noteq> CHR '','') (drop b csv)"
    have comma: "find_comma csv b = Some (b + length t)"
      using True 1(2) by (simp add: find_comma_def t_def)
    then have less: "b + length t < length csv" using find_comma_bounds by blast
    have tok: "take (length t) (drop b csv) = t"
      unfolding t_def by (rule takeWhile_eq_take [symmetric])
    have "drop (Suc (length t)) (drop b csv) = drop (b + length t + 1) csv"
      by (simp add: add.commute)
    then have split: "split_commas (drop b csv) = t # split_commas (drop (b + length t + 1) csv)"
      using True split_commas_step [of "drop b csv"] by (simp add: Let_def t_def)
    let ?out = "case parse_u16_token t of Some opcode \<Rightarrow> insert opcode out | None \<Rightarrow> out"
    have "allowlist_loop csv b out = allowlist_loop csv (b + length t + 1) ?out"
      using 1(2) less unfolding allowlist_loop.simps [of csv b out] by (simp add: comma tok Let_def)
    also have "\<dots> = ?out \<union> {w. \<exists>t \<in> set (split_commas (drop (b + length t + 1) csv)). parse_u16_token t = Some w}"
      using 1(1) [OF 1(2) refl refl refl] less by (simp add: comma tok)
    finally show ?thesis by (auto simp: split split: option.splits)
  qed
qed

text \<open>The index loop over the comma-separated list computes the set of the opcodes its
  tokens parse to: malformed tokens are skipped and none is missed, the last one included.
\<close>

theorem parse_allowlist_tokens:
  "parse_rudp_opcode_allowlist csv = {w. \<exists>t \<in> set (split_commas csv). parse_u16_token t = Some w}"
  using allowlist_loop_eq [of 0 csv "{}"] by (simp add: parse_rudp_opcode_allowlist_def)

text \<open>A rollout only grows: a session selected at one canary percentage is selected at
  every higher one, so raising the percentage never takes a session off the RUDP path.
\<close>

theorem session_selected_mono:
  assumes "session_selected p sid nonce" and "rp_canary_percent p \<le> percent"
  shows "session_selected (p\<lparr>rp_canary_percent := percent\<rparr>) sid nonce"
  using assms unfolding session_selected_def
  by (auto split: if_splits intro: less_le_trans dest: word_le_0_iff [THEN iffD1])


theorem session_selected_mono_witness:
  "session_selected (\<lparr>rp_enabled = True, rp_canary_percent = 100, rp_opcode_allowlist = {}\<rparr>
      \<lparr>rp_canary_percent := 150\<rparr>) ''s1'' 7"
  by (rule session_selected_mono) (simp_all add: session_selected_def)

end
