(* ===== verification/Admin_Auth.thy ===== *)
theory Admin_Auth
  imports Text "HOL-Library.AList"
begin

text \<open>
  Signed administrator commands, \<^verbatim>\<open>core/src/security/admin_command_auth.cpp\<close>: the canonical text
  that is signed, the signature fields, and the verifier with its table of nonces. A
  \<open>std::unordered_map\<close> of fields is an association list with distinct keys, in whatever order
  it is iterated. OpenSSL's HMAC is a parameter \<open>hmac secret data\<close> that may fail; the random
  words of \<open>make_nonce\<close> and the clock are arguments.
\<close>

type_synonym fields = "(string \<times> string) list"

section \<open>Canonical text\<close>

text \<open>The loop that joins the sorted entries with \<open>=\<close> and newlines.\<close>

fun join_entries :: "fields \<Rightarrow> string" where
  "join_entries [] = []"
| "join_entries [(k, v)] = k @ ''='' @ v"
| "join_entries ((k, v) # e # es) = k @ ''='' @ v @ [CHR 0x0A] @ join_entries (e # es)"

definition canonical_signing_data :: "fields \<Rightarrow> string" where
  "canonical_signing_data fields =
     join_entries (sort_key fst (filter (\<lambda>(key, value). key \<noteq> ''signature'') fields))"

definition to_kv_payload :: "fields \<Rightarrow> string" where
  "to_kv_payload fields = join_entries (sort_key fst fields)"

section \<open>Numbers and nonces\<close>

fun parse_u64_loop :: "string \<Rightarrow> u64 \<Rightarrow> u64 option" where
  "parse_u64_loop [] value = Some value"
| "parse_u64_loop (c # cs) value =
     (let n = (of_char c :: nat) in
      if n < 48 \<or> 57 < n then None
      else let digit = of_nat (n - 48) in
        if value > ((- 1) - digit) div 10 then None
        else parse_u64_loop cs (value * 10 + digit))"

definition parse_u64 :: "string \<Rightarrow> u64 option" where
  "parse_u64 txt = (if txt = [] then None else parse_u64_loop txt 0)"

definition word_le_bytes :: "u64 \<Rightarrow> bytes" where
  "word_le_bytes value = map (\<lambda>j. ucast (drop_bit (j * 8) value AND 0xFF)) [0..<8]"

definition make_nonce :: "u64 \<Rightarrow> u64 \<Rightarrow> string" where
  "make_nonce r0 r1 = hex_encode (word_le_bytes r0 @ word_le_bytes r1)"

section \<open>Signing\<close>

definition sign_fields :: "(string \<Rightarrow> string \<Rightarrow> bytes option) \<Rightarrow> fields \<Rightarrow> string \<Rightarrow> string" where
  "sign_fields hmac fields secret =
     (if secret = [] then []
      else let signing_data = canonical_signing_data fields in
        if signing_data = [] then []
        else case hmac secret signing_data of None \<Rightarrow> [] | Some digest \<Rightarrow> hex_encode digest)"

text \<open>The fields with the signature, or \<open>None\<close> for \<open>false\<close>; \<open>fresh\<close> is what \<open>make_nonce\<close> returns.\<close>

definition append_signature_fields ::
    "(string \<Rightarrow> string \<Rightarrow> bytes option) \<Rightarrow> fields \<Rightarrow> string \<Rightarrow> u64 \<Rightarrow> string \<Rightarrow> string \<Rightarrow> fields option" where
  "append_signature_fields hmac fields secret issued_at_ms nonce fresh =
     (if secret = [] then None
      else
        let nonce = (if nonce = [] then fresh else nonce);
            fields = AList.update ''issued_at'' (show_nat (unat issued_at_ms)) fields;
            fields = AList.update ''nonce'' nonce fields;
            fields = AList.delete ''signature'' fields;
            signature = sign_fields hmac fields secret in
        if signature = [] then None else Some (AList.update ''signature'' signature fields))"

section \<open>Verifier\<close>

datatype VerifyResult =
  VrOk | VrMissingField | VrInvalidIssuedAt | VrExpired | VrFuture | VrSignatureMismatch | VrReplay
  | VrSecretNotConfigured

definition VerifyResult_to_string :: "VerifyResult \<Rightarrow> string" where
  "VerifyResult_to_string result = (case result of
     VrOk \<Rightarrow> ''ok'' | VrMissingField \<Rightarrow> ''missing_field'' | VrInvalidIssuedAt \<Rightarrow> ''invalid_issued_at''
   | VrExpired \<Rightarrow> ''expired'' | VrFuture \<Rightarrow> ''future'' | VrSignatureMismatch \<Rightarrow> ''signature_mismatch''
   | VrReplay \<Rightarrow> ''replay'' | VrSecretNotConfigured \<Rightarrow> ''secret_not_configured'')"

record Verifier =
  vf_secret :: string
  vf_ttl_ms :: u64
  vf_future_skew_ms :: u64
  vf_seen_nonces :: "string \<rightharpoonup> u64"

definition Verifier_init :: "string \<Rightarrow> u64 \<Rightarrow> u64 \<Rightarrow> Verifier" where
  "Verifier_init secret ttl_ms future_skew_ms =
     \<lparr>vf_secret = secret, vf_ttl_ms = ttl_ms, vf_future_skew_ms = future_skew_ms,
      vf_seen_nonces = Map.empty\<rparr>"

definition Verifier_enabled :: "Verifier \<Rightarrow> bool" where
  "Verifier_enabled v \<longleftrightarrow> vf_secret v \<noteq> []"

text \<open>The loop that drops the nonces whose time to live is over.\<close>

definition evict_nonces :: "Verifier \<Rightarrow> u64 \<Rightarrow> Verifier" where
  "evict_nonces v now_ms = v\<lparr>vf_seen_nonces := (\<lambda>n. case vf_seen_nonces v n of
     Some issued \<Rightarrow> if issued + vf_ttl_ms v < now_ms then None else Some issued | None \<Rightarrow> None)\<rparr>"

definition Verifier_verify ::
    "(string \<Rightarrow> string \<Rightarrow> bytes option) \<Rightarrow> Verifier \<Rightarrow> fields \<times> u64 \<Rightarrow> VerifyResult \<times> Verifier" where
  "Verifier_verify hmac v = (\<lambda>(fields, now_ms).
     if vf_secret v = [] then (VrSecretNotConfigured, v)
     else case (map_of fields ''issued_at'', map_of fields ''nonce'', map_of fields ''signature'') of
       (Some issued_at, Some nonce, Some signature) \<Rightarrow>
         if issued_at = [] \<or> nonce = [] \<or> signature = [] then (VrMissingField, v)
         else (case parse_u64 issued_at of
             None \<Rightarrow> (VrInvalidIssuedAt, v)
           | Some issued_at_ms \<Rightarrow>
               if issued_at_ms > now_ms + vf_future_skew_ms v then (VrFuture, v)
               else if issued_at_ms + vf_ttl_ms v < now_ms then (VrExpired, v)
               else
                 let expected = sign_fields hmac fields (vf_secret v) in
                 if expected = [] \<or> expected \<noteq> signature then (VrSignatureMismatch, v)
                 else
                   let v = evict_nonces v now_ms in
                   if vf_seen_nonces v nonce \<noteq> None then (VrReplay, v)
                   else (VrOk, v\<lparr>vf_seen_nonces := (vf_seen_nonces v)(nonce \<mapsto> issued_at_ms)\<rparr>))
     | _ \<Rightarrow> (VrMissingField, v))"

section \<open>Decimal parsing detects overflow exactly\<close>

definition decimal_value :: "string \<Rightarrow> nat" where
  "decimal_value s = foldl (\<lambda>acc c. acc * 10 + (of_char c - 48)) 0 s"

definition all_digits :: "string \<Rightarrow> bool" where
  "all_digits s = list_all (\<lambda>c. 48 \<le> (of_char c :: nat) \<and> (of_char c :: nat) \<le> 57) s"

lemma overflow_check:
  fixes v d :: u64
  assumes "unat d < 10"
  shows "v > ((- 1) - d) div 10 \<longleftrightarrow> 2 ^ 64 \<le> unat v * 10 + unat d"
proof -
  have "unat (- 1 - d) = 2 ^ 64 - 1 - unat d"
    using word_diff_unat [of d "- 1"]
    by (simp add: unsigned_minus_1_eq_mask mask_eq_exp_minus_1)
  then have "unat ((- 1 - d) div 10) = (2 ^ 64 - 1 - unat d) div 10"
    by (simp add: unat_div)
  then have "v > ((- 1) - d) div 10 \<longleftrightarrow> (2 ^ 64 - 1 - unat d) div 10 < unat v"
    by (simp add: word_less_nat_alt)
  also have "\<dots> \<longleftrightarrow> 2 ^ 64 - 1 - unat d < unat v * 10"
    by (simp add: div_less_iff_less_mult)
  also have "\<dots> \<longleftrightarrow> 2 ^ 64 \<le> unat v * 10 + unat d"
    using assms by auto
  finally show ?thesis .
qed

lemma foldl_decimal_mono:
  "a \<le> foldl (\<lambda>acc c. acc * 10 + (of_char c - 48)) a s" for a :: nat
proof (induction s arbitrary: a)
  case (Cons c s)
  have "a \<le> a * 10 + (of_char c - 48)" by simp
  also have "\<dots> \<le> foldl (\<lambda>acc c. acc * 10 + (of_char c - 48)) (a * 10 + (of_char c - 48)) s"
    by (rule Cons.IH)
  finally show ?case by simp
qed simp

lemma parse_u64_loop_eq:
  "parse_u64_loop s v =
     (let n = foldl (\<lambda>acc c. acc * 10 + (of_char c - 48)) (unat v) s
      in if all_digits s \<and> n < 2 ^ 64 then Some (of_nat n) else None)"
proof (induction s arbitrary: v)
  case Nil
  then show ?case using unat_less_pow [of v] by (simp add: all_digits_def Let_def)
next
  case (Cons c s)
  let ?n = "of_char c :: nat"
  show ?case
  proof (cases "?n < 48 \<or> 57 < ?n")
    case True
    then show ?thesis by (auto simp: all_digits_def Let_def)
  next
    case False
    let ?d = "of_nat (?n - 48) :: u64"
    have d: "unat ?d = ?n - 48" "unat ?d < 10" using False by (auto simp: unat_of_nat simp del: of_nat_diff)
    show ?thesis
    proof (cases "2 ^ 64 \<le> unat v * 10 + (?n - 48)")
      case True
      then have "2 ^ 64 \<le> foldl (\<lambda>acc c. acc * 10 + (of_char c - 48)) (unat v * 10 + (?n - 48)) s"
        using foldl_decimal_mono le_trans by blast
      then show ?thesis
        using False overflow_check [of ?d v] True d by (auto simp: Let_def)
    next
      case fits: False
      then have "unat (v * 10 + ?d) = unat v * 10 + (?n - 48)"
        using d by (simp add: unat_word_ariths)
      then show ?thesis
        using False overflow_check [of ?d v] fits d Cons.IH [of "v * 10 + ?d"]
        by (simp add: Let_def all_digits_def not_le)
    qed
  qed
qed


text \<open>Timestamps are parsed exactly: \<open>parse_u64\<close> accepts the nonempty strings of decimal digits whose value is
  below \<open>2 ^ 64\<close>, returns that value, and rejects everything else, overflow included.
\<close>

theorem parse_u64_exact:
  "parse_u64 s =
     (if s \<noteq> [] \<and> all_digits s \<and> decimal_value s < 2 ^ 64 then Some (of_nat (decimal_value s)) else None)"
  by (simp add: parse_u64_def parse_u64_loop_eq decimal_value_def Let_def)

lemma show_nat_decimal: "all_digits (show_nat n) \<and> decimal_value (show_nat n) = n"
proof (induction n rule: show_nat.induct)
  case (1 n)
  show ?case
  proof (cases "n < 10")
    case True
    then show ?thesis
      by (simp add: show_nat.simps [of n] all_digits_def decimal_value_def of_char_digit_char)
  next
    case False
    with 1 show ?thesis
      by (simp add: show_nat.simps [of n] all_digits_def decimal_value_def of_char_digit_char)
  qed
qed

lemma parse_u64_show [simp]: "parse_u64 (show_nat (unat w)) = Some w"
  using unat_less_pow [of w] show_nat_decimal [of "unat w"]
  by (simp add: parse_u64_def parse_u64_loop_eq decimal_value_def [symmetric] Let_def)

section \<open>The verifier accepts what was signed\<close>

lemma canonical_signature_irrelevant:
  "canonical_signing_data (AList.update ''signature'' s (AList.delete ''signature'' flds)) =
   canonical_signing_data flds"
proof -
  have "filter (\<lambda>(k, v). k \<noteq> ''signature'') (AList.update ''signature'' s fs) =
      filter (\<lambda>(k, v). k \<noteq> ''signature'') fs" for fs
    by (induction fs) auto
  moreover have "filter (\<lambda>(k, v). k \<noteq> ''signature'') (AList.delete ''signature'' fs) =
      filter (\<lambda>(k, v). k \<noteq> ''signature'') fs" for fs :: fields
    by (induction fs) (auto simp: AList.delete_eq)
  ultimately show ?thesis by (simp add: canonical_signing_data_def)
qed

lemma sign_fields_signature_irrelevant:
  "sign_fields hmac (AList.update ''signature'' s (AList.delete ''signature'' flds)) secret =
   sign_fields hmac flds secret"
  by (simp add: sign_fields_def canonical_signature_irrelevant Let_def)



section \<open>Replay\<close>

definition request_id :: "fields \<Rightarrow> string option \<times> u64 option" where
  "request_id fs = (map_of fs ''nonce'', Option.bind (map_of fs ''issued_at'') parse_u64)"

text \<open>An accepted request is remembered until it has expired.\<close>

definition remembered :: "string \<Rightarrow> u64 \<Rightarrow> u64 \<Rightarrow> Verifier \<Rightarrow> bool" where
  "remembered n i T v \<longleftrightarrow> vf_seen_nonces v n = Some i \<or> i + vf_ttl_ms v < T"

lemma verify_config [simp]:
  "vf_ttl_ms (snd (Verifier_verify hmac v r)) = vf_ttl_ms v"
  "vf_secret (snd (Verifier_verify hmac v r)) = vf_secret v"
  by (auto simp: Verifier_verify_def evict_nonces_def Let_def split: prod.splits option.splits)

lemma verify_ok:
  assumes "fst (Verifier_verify hmac v (fs, now)) = VrOk"
  obtains n i where "request_id fs = (Some n, Some i)" and "\<not> i + vf_ttl_ms v < now"
    and "vf_seen_nonces (evict_nonces v now) n = None"
    and "vf_seen_nonces (snd (Verifier_verify hmac v (fs, now))) = (vf_seen_nonces (evict_nonces v now))(n \<mapsto> i)"
    and "map_of fs ''signature'' = Some (sign_fields hmac fs (vf_secret v))"
    and "sign_fields hmac fs (vf_secret v) \<noteq> []"
  using assms that
  by (auto simp: Verifier_verify_def request_id_def Let_def split: option.splits if_splits)

lemma verify_seen_cases:
  "vf_seen_nonces (snd (Verifier_verify hmac v (fs, now))) = vf_seen_nonces v \<or>
   vf_seen_nonces (snd (Verifier_verify hmac v (fs, now))) = vf_seen_nonces (evict_nonces v now) \<or>
   fst (Verifier_verify hmac v (fs, now)) = VrOk"
  by (auto simp: Verifier_verify_def Let_def split: option.splits)

lemma evict_remembered:
  "remembered n i T v \<Longrightarrow> T \<le> now \<Longrightarrow> remembered n i now (evict_nonces v now)"
  by (auto simp: remembered_def evict_nonces_def split: option.splits)

lemma remembered_step:
  assumes "remembered n i T v" and "T \<le> now"
  shows "remembered n i now (snd (Verifier_verify hmac v (fs, now)))"
    and "fst (Verifier_verify hmac v (fs, now)) = VrOk \<Longrightarrow> request_id fs \<noteq> (Some n, Some i)"
proof -
  note ev = evict_remembered [OF assms]
  have ttl: "vf_ttl_ms (evict_nonces v now) = vf_ttl_ms v" by (simp add: evict_nonces_def)
  show "remembered n i now (snd (Verifier_verify hmac v (fs, now)))"
    using verify_seen_cases [of hmac v fs now]
  proof (elim disjE)
    assume "fst (Verifier_verify hmac v (fs, now)) = VrOk"
    then show ?thesis
    proof (rule verify_ok)
      fix n' i'
      assume "vf_seen_nonces (evict_nonces v now) n' = None"
        and "vf_seen_nonces (snd (Verifier_verify hmac v (fs, now))) = (vf_seen_nonces (evict_nonces v now))(n' \<mapsto> i')"
      with ev show ?thesis by (auto simp: remembered_def ttl)
    qed
  qed (use assms ev in \<open>auto simp: remembered_def ttl intro: less_le_trans\<close>)
  show "request_id fs \<noteq> (Some n, Some i)" if "fst (Verifier_verify hmac v (fs, now)) = VrOk"
    using that
  proof (rule verify_ok)
    fix n' i'
    assume id: "request_id fs = (Some n', Some i')" and "\<not> i' + vf_ttl_ms v < now"
      "vf_seen_nonces (evict_nonces v now) n' = None"
    with ev show ?thesis by (auto simp: remembered_def ttl)
  qed
qed

lemma remembered_run:
  assumes "remembered n i T v" and "sorted (map snd rs)" and "\<And>r. r \<in> set rs \<Longrightarrow> T \<le> snd r"
    and "j < length rs" and "fst (run_calls (Verifier_verify hmac) v rs) ! j = VrOk"
  shows "request_id (fst (rs ! j)) \<noteq> (Some n, Some i)"
  using assms
proof (induction rs arbitrary: v T j)
  case (Cons r rs)
  obtain fs now where r: "r = (fs, now)" by (cases r)
  note step = remembered_step [OF Cons.prems(1), of now hmac fs]
  have T: "T \<le> now" using Cons.prems(3) [of r] r by simp
  show ?case
  proof (cases j)
    case 0
    with Cons.prems(5) step(2) [OF T] show ?thesis by (simp add: r case_prod_beta)
  next
    case (Suc k)
    with Cons.prems show ?thesis
      using Cons.IH [OF step(1) [OF T], of k] by (auto simp: r case_prod_beta)
  qed
qed simp

text \<open>
  C20. No replay: with a clock that does not run backwards, a verifier never accepts the
  same command twice, however many other commands come between and however long after the nonce was dropped.
\<close>

theorem verifier_no_replay:
  assumes "sorted (map snd rs)" and "j < k" and "k < length rs"
    and "fst (run_calls (Verifier_verify hmac) v rs) ! j = VrOk"
    and "fst (run_calls (Verifier_verify hmac) v rs) ! k = VrOk"
  shows "fst (rs ! j) \<noteq> fst (rs ! k)"
  using assms
proof (induction rs arbitrary: v j k)
  case (Cons r rs)
  obtain fs now where r: "r = (fs, now)" by (cases r)
  obtain k' where k: "k = Suc k'" using Cons.prems(2) by (cases k) auto
  show ?case
  proof (cases j)
    case 0
    with Cons.prems(4) have "fst (Verifier_verify hmac v (fs, now)) = VrOk"
      by (simp add: r case_prod_beta)
    then obtain n i where id: "request_id fs = (Some n, Some i)"
      and seen: "vf_seen_nonces (snd (Verifier_verify hmac v (fs, now))) = (vf_seen_nonces (evict_nonces v now))(n \<mapsto> i)"
      by (rule verify_ok)
    have "remembered n i now (snd (Verifier_verify hmac v (fs, now)))"
      by (simp add: remembered_def seen)
    then have "request_id (fst (rs ! k')) \<noteq> (Some n, Some i)"
      by (rule remembered_run) (use Cons.prems in \<open>auto simp: r k case_prod_beta\<close>)
    with id 0 show ?thesis by (auto simp: r k)
  next
    case (Suc j')
    with Cons.prems k show ?thesis
      using Cons.IH [of j' k' "snd (Verifier_verify hmac v r)"] by (auto simp: case_prod_beta)
  qed
qed simp


section \<open>The signed text determines the fields\<close>

definition clean_entry :: "string \<times> string \<Rightarrow> bool" where
  "clean_entry = (\<lambda>(k, v). CHR ''='' \<notin> set k \<and> CHR 0x0A \<notin> set k \<and> CHR 0x0A \<notin> set v)"

lemma join_entries_Cons:
  "join_entries ((k, v) # es) = k @ CHR ''='' # v @ (if es = [] then [] else CHR 0x0A # join_entries es)"
  by (cases es) auto

lemma join_entries_inject:
  assumes "list_all clean_entry es" and "list_all clean_entry fs" and "join_entries es = join_entries fs"
  shows "es = fs"
  using assms
proof (induction es arbitrary: fs)
  case Nil
  then show ?case by (cases fs) (auto simp: join_entries_Cons)
next
  case (Cons e es)
  obtain k v where e: "e = (k, v)" by (cases e)
  from Cons.prems obtain f fs' where fs: "fs = f # fs'" by (cases fs) (auto simp: join_entries_Cons e)
  obtain k' v' where f: "f = (k', v')" by (cases f)
  have clean: "CHR ''='' \<notin> set k" "CHR ''='' \<notin> set k'" "CHR 0x0A \<notin> set v" "CHR 0x0A \<notin> set v'"
    and rest: "list_all clean_entry es" "list_all clean_entry fs'"
    using Cons.prems(1,2) by (auto simp: e f fs clean_entry_def)
  have "k = k' \<and> v @ (if es = [] then [] else CHR 0x0A # join_entries es) =
      v' @ (if fs' = [] then [] else CHR 0x0A # join_entries fs')"
    using Cons.prems(3) unfolding e f fs join_entries_Cons split_at_first_eq [OF clean(1,2)] .
  moreover have "v = v' \<and> es = [] \<and> fs' = [] \<or> v = v' \<and> es \<noteq> [] \<and> fs' \<noteq> [] \<and> join_entries es = join_entries fs'"
    if "v @ (if es = [] then [] else CHR 0x0A # join_entries es) =
      v' @ (if fs' = [] then [] else CHR 0x0A # join_entries fs')"
    using that clean by (auto simp: split_at_first_eq split: if_splits)
  ultimately show ?case
    using Cons.IH [OF rest] by (auto simp: e f fs)
qed

text \<open>The signature covers the fields: for fields without newlines, and with no \<open>=\<close> in the
  names, two field sets with the same signed text have the same entries apart from the
  signature itself, so a signature cannot be moved to other fields.
\<close>

theorem canonical_signing_data_inject:
  assumes "list_all clean_entry es" and "list_all clean_entry fs"
    and "canonical_signing_data es = canonical_signing_data fs"
  shows "{e \<in> set es. fst e \<noteq> ''signature''} = {e \<in> set fs. fst e \<noteq> ''signature''}"
proof -
  let ?keep = "filter (\<lambda>(k, v). k \<noteq> ''signature'')"
  have clean: "list_all clean_entry (sort_key fst (?keep xs))" if "list_all clean_entry xs" for xs
    using that by (auto simp: list_all_iff)
  have "sort_key fst (?keep es) = sort_key fst (?keep fs)"
    using join_entries_inject [OF clean [OF assms(1)] clean [OF assms(2)]] assms(3)
    by (simp add: canonical_signing_data_def)
  then have "set (sort_key fst (?keep es)) = set (sort_key fst (?keep fs))" by simp
  then show ?thesis by (auto simp: case_prod_beta)
qed

theorem canonical_signing_data_inject_witness:
  "{e \<in> set [(''b'', ''2''), (''a'', ''1'')]. fst e \<noteq> ''signature''} =
   {e \<in> set [(''a'', ''1''), (''b'', ''2''), (''signature'', ''f0'')]. fst e \<noteq> ''signature''}"
proof (rule canonical_signing_data_inject)
  show "canonical_signing_data [(''b'', ''2''), (''a'', ''1'')] =
      canonical_signing_data [(''a'', ''1''), (''b'', ''2''), (''signature'', ''f0'')]"
    by code_simp
qed code_simp+

text \<open>With newlines in values the text is ambiguous: a value can spell out another field.\<close>

lemma canonical_ambiguous:
  "canonical_signing_data [(''a'', ''1'' @ [CHR 0x0A] @ ''b=2'')] = canonical_signing_data [(''a'', ''1''), (''b'', ''2'')]"
  by code_simp

section \<open>Concrete commands\<close>

definition demo_hmac :: "string \<Rightarrow> string \<Rightarrow> bytes option" where
  "demo_hmac secret data = Some [of_nat (length data), 0xAB]"

definition demo_verifier :: Verifier where
  "demo_verifier = Verifier_init ''k'' 60000 5000"

definition demo_command :: "string \<Rightarrow> fields" where
  "demo_command n = the (append_signature_fields demo_hmac [(''cmd'', ''stop'')] ''k'' 7 n [])"


theorem verifier_no_replay_witness:
  "fst ([(demo_command ''n1'', 9 :: u64), (demo_command ''n1'', 10), (demo_command ''n2'', 11)] ! 0) \<noteq>
   fst ([(demo_command ''n1'', 9 :: u64), (demo_command ''n1'', 10), (demo_command ''n2'', 11)] ! 2)"
proof (rule verifier_no_replay)
  show "fst (run_calls (Verifier_verify demo_hmac) demo_verifier
      [(demo_command ''n1'', 9), (demo_command ''n1'', 10), (demo_command ''n2'', 11)]) ! 0 = VrOk"
    by code_simp
  show "fst (run_calls (Verifier_verify demo_hmac) demo_verifier
      [(demo_command ''n1'', 9), (demo_command ''n1'', 10), (demo_command ''n2'', 11)]) ! 2 = VrOk"
    by code_simp
qed simp_all

end
