(* ===== verification/Session_Directory.thy ===== *)
theory Session_Directory
  imports Prelude
begin

text \<open>
  Sticky routing of clients to backends, \<^verbatim>\<open>gateway/src/session_directory.cpp\<close>: a local cache in front of
  Redis. The Redis client is a parameter, a record of the four commands used, over an abstract
  server state; \<open>redis_laws\<close> states what those commands are documented to do to the keys. Times of
  the steady clock are integers in nanoseconds, one argument per reading.
\<close>

section \<open>Redis commands\<close>

record 'r redis_ops =
  rops_get :: "'r \<Rightarrow> string \<Rightarrow> string option"
  rops_set_if_not_exists :: "'r \<Rightarrow> string \<Rightarrow> string \<Rightarrow> u32 \<Rightarrow> bool \<times> 'r"
  rops_set_if_equals :: "'r \<Rightarrow> string \<Rightarrow> string \<Rightarrow> string \<Rightarrow> u32 \<Rightarrow> bool \<times> 'r"
  rops_del_if_equals :: "'r \<Rightarrow> string \<Rightarrow> string \<Rightarrow> bool \<times> 'r"

text \<open>\<open>kv\<close> is the live content of the server. Expiry happens between the commands, not in them.\<close>

definition redis_laws :: "'r redis_ops \<Rightarrow> ('r \<Rightarrow> string \<rightharpoonup> string) \<Rightarrow> bool" where
  "redis_laws ops kv \<longleftrightarrow>
     (\<forall>r k. rops_get ops r k = kv r k) \<and>
     (\<forall>r k v ttl. fst (rops_set_if_not_exists ops r k v ttl) = (kv r k = None) \<and>
        kv (snd (rops_set_if_not_exists ops r k v ttl)) = (if kv r k = None then (kv r)(k \<mapsto> v) else kv r)) \<and>
     (\<forall>r k e v ttl. fst (rops_set_if_equals ops r k e v ttl) = (kv r k = Some e) \<and>
        kv (snd (rops_set_if_equals ops r k e v ttl)) = (if kv r k = Some e then (kv r)(k \<mapsto> v) else kv r)) \<and>
     (\<forall>r k e. fst (rops_del_if_equals ops r k e) = (kv r k = Some e) \<and>
        kv (snd (rops_del_if_equals ops r k e)) = (if kv r k = Some e then (kv r)(k := None) else kv r))"

section \<open>Directory\<close>

record CacheEntry =
  ce_backend :: string
  ce_expires :: int

record SessionDirectory =
  sd_has_redis :: bool
  sd_key_prefix :: string
  sd_ttl_sec :: int
  sd_cache :: "string \<rightharpoonup> CacheEntry"

definition SessionDirectory_init :: "bool \<Rightarrow> string \<Rightarrow> int \<Rightarrow> SessionDirectory" where
  "SessionDirectory_init has_redis key_prefix ttl =
     (let key_prefix = (if key_prefix = [] then ''gateway/session/'' else key_prefix);
          key_prefix = (if last key_prefix \<noteq> CHR ''/'' then key_prefix @ ''/'' else key_prefix);
          ttl = (if ttl \<le> 0 then 30 else ttl)
      in \<lparr>sd_has_redis = has_redis, sd_key_prefix = key_prefix, sd_ttl_sec = ttl, sd_cache = Map.empty\<rparr>)"

definition sd_make_key :: "SessionDirectory \<Rightarrow> string \<Rightarrow> string" where
  "sd_make_key d client_id = sd_key_prefix d @ client_id"

definition sd_put :: "SessionDirectory \<Rightarrow> string \<Rightarrow> string \<Rightarrow> int \<Rightarrow> SessionDirectory" where
  "sd_put d client_id backend now =
     d\<lparr>sd_cache := (sd_cache d)(client_id \<mapsto>
       \<lparr>ce_backend = backend, ce_expires = now + sd_ttl_sec d * 1000000000\<rparr>)\<rparr>"

text \<open>\<open>t0\<close> is the reading at the cache lookup, \<open>t1\<close> the one when a Redis value is cached.\<close>

definition find_backend ::
    "'r redis_ops \<Rightarrow> SessionDirectory \<Rightarrow> 'r \<Rightarrow> string \<Rightarrow> int \<Rightarrow> int \<Rightarrow> string option \<times> SessionDirectory" where
  "find_backend ops d r client_id t0 t1 =
     (if client_id = [] then (None, d)
      else
        let redis_path = (\<lambda>d.
              if \<not> sd_has_redis d then (None, d)
              else case rops_get ops r (sd_make_key d client_id) of
                  Some value \<Rightarrow> if value \<noteq> [] then (Some value, sd_put d client_id value t1) else (None, d)
                | None \<Rightarrow> (None, d)) in
        case sd_cache d client_id of
          Some entry \<Rightarrow>
            if ce_expires entry > t0 then (Some (ce_backend entry), d)
            else redis_path (d\<lparr>sd_cache := (sd_cache d)(client_id := None)\<rparr>)
        | None \<Rightarrow> redis_path d)"

text \<open>The result, the directory and the Redis state; \<open>t2\<close> is the last reading of the clock.\<close>

definition ensure_backend ::
    "'r redis_ops \<Rightarrow> SessionDirectory \<Rightarrow> 'r \<Rightarrow> string \<Rightarrow> string \<Rightarrow> int \<Rightarrow> int \<Rightarrow> int \<Rightarrow>
     string option \<times> SessionDirectory \<times> 'r" where
  "ensure_backend ops d r client_id desired_backend t0 t1 t2 =
     (if client_id = [] \<or> desired_backend = [] then (None, d, r)
      else if \<not> sd_has_redis d then (Some desired_backend, sd_put d client_id desired_backend t2, r)
      else case find_backend ops d r client_id t0 t1 of
          (Some existing, d) \<Rightarrow>
            (Some existing, d,
             if existing = desired_backend
             then snd (rops_set_if_equals ops r (sd_make_key d client_id) desired_backend desired_backend
                         (of_int (sd_ttl_sec d)))
             else r)
        | (None, d) \<Rightarrow>
            let key = sd_make_key d client_id in
            (case rops_set_if_not_exists ops r key desired_backend (of_int (sd_ttl_sec d)) of
               (True, r) \<Rightarrow> (Some desired_backend, sd_put d client_id desired_backend t2, r)
             | (False, r) \<Rightarrow>
                 (case rops_get ops r key of
                    Some current \<Rightarrow>
                      if current \<noteq> [] then (Some current, sd_put d client_id current t2, r)
                      else (Some desired_backend, sd_put d client_id desired_backend t2, r)
                  | None \<Rightarrow> (Some desired_backend, sd_put d client_id desired_backend t2, r))))"

definition refresh_backend ::
    "'r redis_ops \<Rightarrow> SessionDirectory \<Rightarrow> 'r \<Rightarrow> string \<Rightarrow> string \<Rightarrow> int \<Rightarrow> SessionDirectory \<times> 'r" where
  "refresh_backend ops d r client_id backend_id t0 =
     (if client_id = [] \<or> backend_id = [] then (d, r)
      else
        let r = (if sd_has_redis d
                 then snd (rops_set_if_equals ops r (sd_make_key d client_id) backend_id backend_id
                             (of_int (sd_ttl_sec d)))
                 else r)
        in (sd_put d client_id backend_id t0, r))"

definition release_backend ::
    "'r redis_ops \<Rightarrow> SessionDirectory \<Rightarrow> 'r \<Rightarrow> string \<Rightarrow> string \<Rightarrow> SessionDirectory \<times> 'r" where
  "release_backend ops d r client_id backend_id =
     (if client_id = [] \<or> backend_id = [] then (d, r)
      else
        let d = (case sd_cache d client_id of
                   Some entry \<Rightarrow> if ce_backend entry = backend_id
                     then d\<lparr>sd_cache := (sd_cache d)(client_id := None)\<rparr> else d
                 | None \<Rightarrow> d);
            r = (if sd_has_redis d then snd (rops_del_if_equals ops r (sd_make_key d client_id) backend_id)
                 else r)
        in (d, r))"

section \<open>Agreement\<close>

text \<open>A cache agrees with the server when every entry is what the server holds; no stored value is empty.\<close>

definition cache_agrees :: "('r \<Rightarrow> string \<rightharpoonup> string) \<Rightarrow> SessionDirectory \<Rightarrow> 'r \<Rightarrow> bool" where
  "cache_agrees kv d r \<longleftrightarrow> sd_has_redis d \<and>
     (\<forall>c e. sd_cache d c = Some e \<longrightarrow> kv r (sd_make_key d c) = Some (ce_backend e))"

definition no_empty_values :: "('r \<Rightarrow> string \<rightharpoonup> string) \<Rightarrow> 'r \<Rightarrow> bool" where
  "no_empty_values kv r \<longleftrightarrow> (\<forall>k. kv r k \<noteq> Some [])"

lemma find_backend_agrees:
  assumes "redis_laws ops kv" "cache_agrees kv d r" "no_empty_values kv r" "c \<noteq> []"
  shows "fst (find_backend ops d r c t0 t1) = kv r (sd_make_key d c)"
    and "cache_agrees kv (snd (find_backend ops d r c t0 t1)) r"
    and "sd_key_prefix (snd (find_backend ops d r c t0 t1)) = sd_key_prefix d"
proof -
  have get: "rops_get ops r k = kv r k" for k using assms(1) by (simp add: redis_laws_def)
  show "fst (find_backend ops d r c t0 t1) = kv r (sd_make_key d c)"
    using assms(2-4) by (auto simp: find_backend_def get cache_agrees_def no_empty_values_def sd_make_key_def
        Let_def split: option.splits)
  show "cache_agrees kv (snd (find_backend ops d r c t0 t1)) r"
    using assms(2-4) by (auto simp: find_backend_def get cache_agrees_def sd_put_def sd_make_key_def
        Let_def split: option.splits)
  show "sd_key_prefix (snd (find_backend ops d r c t0 t1)) = sd_key_prefix d"
    by (auto simp: find_backend_def sd_put_def Let_def split: option.splits)
qed

lemma ensure_backend_agrees:
  fixes t0 t1 t2 :: int
  assumes "redis_laws ops kv" "cache_agrees kv d r" "no_empty_values kv r" "c \<noteq> []" "b \<noteq> []"
  defines "out \<equiv> ensure_backend ops d r c b t0 t1 t2"
  shows "fst out = Some (case kv r (sd_make_key d c) of Some x \<Rightarrow> x | None \<Rightarrow> b)"
    and "kv (snd (snd out)) = (case kv r (sd_make_key d c) of Some x \<Rightarrow> kv r | None \<Rightarrow> (kv r)(sd_make_key d c \<mapsto> b))"
proof -
  note find = find_backend_agrees [OF assms(1-4), of t0 t1]
  obtain res d' where fb: "find_backend ops d r c t0 t1 = (res, d')" by (cases "find_backend ops d r c t0 t1")
  have key: "sd_make_key d' c = sd_make_key d c" using find(3) fb by (simp add: sd_make_key_def)
  have res: "res = kv r (sd_make_key d c)" using find(1) fb by simp
  have redis: "sd_has_redis d" using assms(2) by (simp add: cache_agrees_def)
  let ?nx = "rops_set_if_not_exists ops r (sd_make_key d c) b (of_int (sd_ttl_sec d'))"
  have "fst ?nx = (kv r (sd_make_key d c) = None)"
    "kv (snd ?nx) = (if kv r (sd_make_key d c) = None then (kv r)(sd_make_key d c \<mapsto> b) else kv r)"
    using assms(1) by (simp_all add: redis_laws_def)
  then obtain r' where nx: "?nx = (kv r (sd_make_key d c) = None, r')"
    "kv r' = (if kv r (sd_make_key d c) = None then (kv r)(sd_make_key d c \<mapsto> b) else kv r)"
    by (cases ?nx) auto
  have eq: "kv (snd (rops_set_if_equals ops r k v v ttl)) = kv r" for k v ttl
    using assms(1) by (auto simp: redis_laws_def fun_upd_idem)
  show "fst out = Some (case kv r (sd_make_key d c) of Some x \<Rightarrow> x | None \<Rightarrow> b)"
    and "kv (snd (snd out)) = (case kv r (sd_make_key d c) of Some x \<Rightarrow> kv r | None \<Rightarrow> (kv r)(sd_make_key d c \<mapsto> b))"
    unfolding out_def ensure_backend_def fb Let_def prod.case key
    using assms(4,5) redis res eq nx
    by (cases "kv r (sd_make_key d c)"; simp)+
qed

lemma cache_agrees_other:
  assumes "cache_agrees kv d r" and "kv r' = kv r \<or> kv r k = None \<and> kv r' = (kv r)(k \<mapsto> b)"
  shows "cache_agrees kv d r'"
  using assms by (auto simp: cache_agrees_def)


text \<open>A server of plain keys, without expiry.\<close>

definition plain_redis :: "(string \<rightharpoonup> string) redis_ops" where
  "plain_redis = \<lparr>rops_get = (\<lambda>r k. r k),
     rops_set_if_not_exists = (\<lambda>r k v ttl. if r k = None then (True, r(k \<mapsto> v)) else (False, r)),
     rops_set_if_equals = (\<lambda>r k e v ttl. if r k = Some e then (True, r(k \<mapsto> v)) else (False, r)),
     rops_del_if_equals = (\<lambda>r k e. if r k = Some e then (True, r(k := None)) else (False, r))\<rparr>"

lemma plain_redis_laws: "redis_laws plain_redis (\<lambda>r. r)"
  by (auto simp: redis_laws_def plain_redis_def)


text \<open>Only the owner releases: releasing a client with a backend that is not the stored one leaves the Redis mapping as it was,
  and releasing with the stored one removes exactly that key.
\<close>

theorem release_backend_owner:
  assumes "redis_laws ops kv" and "sd_has_redis d" and "c \<noteq> []" and "b \<noteq> []"
  shows "kv (snd (release_backend ops d r c b)) =
    (if kv r (sd_make_key d c) = Some b then (kv r)(sd_make_key d c := None) else kv r)"
proof -
  have "sd_make_key (d\<lparr>sd_cache := m\<rparr>) c = sd_make_key d c" for m by (simp add: sd_make_key_def)
  then show ?thesis
    using assms by (auto simp: release_backend_def redis_laws_def Let_def split: option.splits)
qed

theorem release_backend_owner_witness:
  "snd (release_backend plain_redis (SessionDirectory_init True [] 0)
     [''gateway/session/c1'' \<mapsto> ''b1''] ''c1'' ''b2'') = [''gateway/session/c1'' \<mapsto> ''b1'']"
  using release_backend_owner [OF plain_redis_laws, of "SessionDirectory_init True [] 0" "''c1''" "''b2''"
      "[''gateway/session/c1'' \<mapsto> ''b1'']"]
  by (simp add: SessionDirectory_init_def sd_make_key_def Let_def)

end
