(* ===== verification/Runtime_Metrics.thy ===== *)
theory Runtime_Metrics
  imports Prelude
begin

text \<open>
  The process-wide runtime counters (\<^verbatim>\<open>core/src/runtime_metrics.cpp\<close>), apart from the RUDP ones, which
  are part of the peer model. The array of atomics is a function from counter names to 64-bit values, and every
  \<open>record_*\<close> operation is one definition with the same updates in the same order. All the updates
  use relaxed atomics on single cells, so that each \<open>fetch_add\<close> is a step of its own; the
  compare-exchange loops that keep a maximum are also modelled step by step, to show that
  under every interleaving the maximum of all the reported values remains.
\<close>

section \<open>Counters\<close>

datatype (plugins only: code) counter =
    C_accept_total | C_session_started_total | C_session_stopped_total
  | C_session_active | C_session_timeout_total | C_session_write_timeout_total
  | C_heartbeat_timeout_total | C_send_queue_drop_total | C_packet_total
  | C_packet_error_total | C_packet_payload_sum_bytes | C_packet_payload_count
  | C_packet_payload_max_bytes | C_dispatch_total | C_dispatch_unknown_total
  | C_dispatch_exception_total | C_dispatch_latency_sum_ns | C_dispatch_latency_count
  | C_dispatch_latency_last_ns | C_dispatch_latency_max_ns | C_exception_recoverable_total
  | C_exception_fatal_total | C_exception_ignored_total | C_job_queue_depth
  | C_job_queue_depth_peak | C_job_queue_capacity | C_job_queue_reject_total
  | C_job_queue_push_wait_sum_ns | C_job_queue_push_wait_count | C_job_queue_push_wait_max_ns
  | C_memory_pool_capacity | C_memory_pool_in_use | C_memory_pool_in_use_peak
  | C_log_async_queue_depth | C_log_async_queue_capacity | C_log_async_queue_drop_total
  | C_log_async_flush_total | C_log_async_flush_latency_sum_ns | C_log_async_flush_latency_max_ns
  | C_log_masked_fields_total | C_http_active_connections | C_http_connection_limit_reject_total
  | C_http_auth_reject_total | C_http_header_timeout_total | C_http_body_timeout_total
  | C_http_header_oversize_total | C_http_body_oversize_total | C_http_bad_request_total
  | C_runtime_setting_reload_attempt_total | C_runtime_setting_reload_success_total | C_runtime_setting_reload_failure_total
  | C_runtime_setting_reload_latency_sum_ns | C_runtime_setting_reload_latency_max_ns | C_db_job_queue_depth
  | C_db_job_queue_depth_peak | C_db_job_queue_capacity | C_db_job_queue_reject_total
  | C_db_job_queue_push_wait_sum_ns | C_db_job_queue_push_wait_count | C_db_job_queue_push_wait_max_ns
  | C_db_job_processed_total | C_db_job_failed_total
  | C_dispatch_latency_bucket_counts nat | C_dispatch_processing_place_calls_total nat
  | C_dispatch_processing_place_reject_total nat | C_dispatch_processing_place_exception_total nat
  | C_opcode_counters u16

type_synonym metrics = "counter \<Rightarrow> u64"

definition metrics_init :: metrics where
  "metrics_init = (\<lambda>_. 0)"

definition fetch_add :: "counter \<Rightarrow> u64 \<Rightarrow> metrics \<Rightarrow> metrics" where
  "fetch_add c n m = m(c := m c + n)"

definition fetch_sub :: "counter \<Rightarrow> u64 \<Rightarrow> metrics \<Rightarrow> metrics" where
  "fetch_sub c n m = m(c := m c - n)"

definition store :: "counter \<Rightarrow> u64 \<Rightarrow> metrics \<Rightarrow> metrics" where
  "store c v m = m(c := v)"

text \<open>The compare-exchange loop that raises a counter to a value, when nothing interferes.\<close>

definition store_max :: "counter \<Rightarrow> u64 \<Rightarrow> metrics \<Rightarrow> metrics" where
  "store_max c v m = (if m c < v then m(c := v) else m)"

text \<open>\<^verbatim>\<open>waited.count() <= 0 ? 0 : waited.count()\<close> as an unsigned value.\<close>

definition nonneg_count :: "int \<Rightarrow> u64" where
  "nonneg_count d = (if d \<le> 0 then 0 else word_of_int d)"

definition kDispatchProcessingPlaceCount :: nat where
  "kDispatchProcessingPlaceCount = 3"

section \<open>Operations\<close>

definition record_accept :: "metrics \<Rightarrow> metrics" where
  "record_accept m = fetch_add C_accept_total 1 m"

definition record_session_start :: "metrics \<Rightarrow> metrics" where
  "record_session_start m = fetch_add C_session_active 1 (fetch_add C_session_started_total 1 m)"

definition record_session_stop :: "metrics \<Rightarrow> metrics" where
  "record_session_stop m = fetch_sub C_session_active 1 (fetch_add C_session_stopped_total 1 m)"

definition record_session_timeout :: "metrics \<Rightarrow> metrics" where
  "record_session_timeout m = fetch_add C_session_timeout_total 1 m"

definition record_session_write_timeout :: "metrics \<Rightarrow> metrics" where
  "record_session_write_timeout m = fetch_add C_session_write_timeout_total 1 m"

definition record_heartbeat_timeout :: "metrics \<Rightarrow> metrics" where
  "record_heartbeat_timeout m = fetch_add C_heartbeat_timeout_total 1 m"

definition record_send_queue_drop :: "metrics \<Rightarrow> metrics" where
  "record_send_queue_drop m = fetch_add C_send_queue_drop_total 1 m"

definition record_packet_ok :: "metrics \<Rightarrow> metrics" where
  "record_packet_ok m = fetch_add C_packet_total 1 m"

definition record_packet_error :: "metrics \<Rightarrow> metrics" where
  "record_packet_error m = fetch_add C_packet_error_total 1 m"

definition record_packet_payload :: "nat \<Rightarrow> metrics \<Rightarrow> metrics" where
  "record_packet_payload sz m =
     store_max C_packet_payload_max_bytes (of_nat sz)
       (fetch_add C_packet_payload_count 1 (fetch_add C_packet_payload_sum_bytes (of_nat sz) m))"

definition record_dispatch_opcode :: "u16 \<Rightarrow> metrics \<Rightarrow> metrics" where
  "record_dispatch_opcode opcode m = fetch_add (C_opcode_counters opcode) 1 m"

definition kDispatchLatencyBucketUpperBoundsNs :: "u64 list" where
  "kDispatchLatencyBucketUpperBoundsNs =
     [100000, 250000, 500000, 1000000, 2500000, 5000000, 10000000, 25000000, 50000000, 100000000,
      250000000, 500000000, 1000000000, 2500000000, 5000000000]"

text \<open>The loop over the bucket bounds from index \<open>i\<close> on: the first bound that is large enough counts.\<close>

fun count_latency_bucket :: "u64 \<Rightarrow> nat \<Rightarrow> u64 list \<Rightarrow> metrics \<Rightarrow> metrics" where
  "count_latency_bucket ns i [] m = m"
| "count_latency_bucket ns i (bound # bounds) m =
     (if ns \<le> bound then fetch_add (C_dispatch_latency_bucket_counts i) 1 m
      else count_latency_bucket ns (i + 1) bounds m)"

definition record_dispatch_attempt :: "bool \<Rightarrow> int \<Rightarrow> metrics \<Rightarrow> metrics" where
  "record_dispatch_attempt handler_found elapsed m =
     (let m1 = fetch_add C_dispatch_total 1 m;
          m2 = (if handler_found then m1 else fetch_add C_dispatch_unknown_total 1 m1);
          ns = word_of_int elapsed;
          m3 = store C_dispatch_latency_last_ns ns
                 (fetch_add C_dispatch_latency_count 1 (fetch_add C_dispatch_latency_sum_ns ns m2));
          m4 = store_max C_dispatch_latency_max_ns ns m3
      in count_latency_bucket ns 0 kDispatchLatencyBucketUpperBoundsNs m4)"

definition record_dispatch_exception :: "metrics \<Rightarrow> metrics" where
  "record_dispatch_exception m = fetch_add C_dispatch_exception_total 1 m"

definition normalize_dispatch_place_index :: "nat \<Rightarrow> nat" where
  "normalize_dispatch_place_index place_index =
     (if place_index < kDispatchProcessingPlaceCount then place_index else kDispatchProcessingPlaceCount - 1)"

definition record_dispatch_processing_place_call :: "nat \<Rightarrow> metrics \<Rightarrow> metrics" where
  "record_dispatch_processing_place_call place_index m =
     fetch_add (C_dispatch_processing_place_calls_total (normalize_dispatch_place_index place_index)) 1 m"

definition record_dispatch_processing_place_reject :: "nat \<Rightarrow> metrics \<Rightarrow> metrics" where
  "record_dispatch_processing_place_reject place_index m =
     fetch_add (C_dispatch_processing_place_reject_total (normalize_dispatch_place_index place_index)) 1 m"

definition record_dispatch_processing_place_exception :: "nat \<Rightarrow> metrics \<Rightarrow> metrics" where
  "record_dispatch_processing_place_exception place_index m =
     fetch_add (C_dispatch_processing_place_exception_total (normalize_dispatch_place_index place_index)) 1 m"

definition record_exception_recoverable :: "metrics \<Rightarrow> metrics" where
  "record_exception_recoverable m = fetch_add C_exception_recoverable_total 1 m"

definition record_exception_fatal :: "metrics \<Rightarrow> metrics" where
  "record_exception_fatal m = fetch_add C_exception_fatal_total 1 m"

definition record_exception_ignored :: "metrics \<Rightarrow> metrics" where
  "record_exception_ignored m = fetch_add C_exception_ignored_total 1 m"

definition record_job_queue_depth :: "nat \<Rightarrow> metrics \<Rightarrow> metrics" where
  "record_job_queue_depth depth m =
     store_max C_job_queue_depth_peak (of_nat depth) (store C_job_queue_depth (of_nat depth) m)"

definition register_job_queue_capacity :: "nat \<Rightarrow> metrics \<Rightarrow> metrics" where
  "register_job_queue_capacity capacity m = store C_job_queue_capacity (of_nat capacity) m"

definition record_job_queue_reject :: "metrics \<Rightarrow> metrics" where
  "record_job_queue_reject m = fetch_add C_job_queue_reject_total 1 m"

definition record_job_queue_push_wait :: "int \<Rightarrow> metrics \<Rightarrow> metrics" where
  "record_job_queue_push_wait waited m =
     (let ns = nonneg_count waited in
      if ns = 0 then m
      else store_max C_job_queue_push_wait_max_ns ns
             (fetch_add C_job_queue_push_wait_count 1 (fetch_add C_job_queue_push_wait_sum_ns ns m)))"

definition record_db_job_queue_depth :: "nat \<Rightarrow> metrics \<Rightarrow> metrics" where
  "record_db_job_queue_depth depth m =
     store_max C_db_job_queue_depth_peak (of_nat depth) (store C_db_job_queue_depth (of_nat depth) m)"

definition register_db_job_queue_capacity :: "nat \<Rightarrow> metrics \<Rightarrow> metrics" where
  "register_db_job_queue_capacity capacity m = store C_db_job_queue_capacity (of_nat capacity) m"

definition record_db_job_queue_reject :: "metrics \<Rightarrow> metrics" where
  "record_db_job_queue_reject m = fetch_add C_db_job_queue_reject_total 1 m"

definition record_db_job_queue_push_wait :: "int \<Rightarrow> metrics \<Rightarrow> metrics" where
  "record_db_job_queue_push_wait waited m =
     (let ns = nonneg_count waited in
      if ns = 0 then m
      else store_max C_db_job_queue_push_wait_max_ns ns
             (fetch_add C_db_job_queue_push_wait_count 1 (fetch_add C_db_job_queue_push_wait_sum_ns ns m)))"

definition record_db_job_processed :: "metrics \<Rightarrow> metrics" where
  "record_db_job_processed m = fetch_add C_db_job_processed_total 1 m"

definition record_db_job_failed :: "metrics \<Rightarrow> metrics" where
  "record_db_job_failed m = fetch_add C_db_job_failed_total 1 m"

definition register_memory_pool_capacity :: "nat \<Rightarrow> metrics \<Rightarrow> metrics" where
  "register_memory_pool_capacity capacity m =
     (let cap = of_nat capacity;
          m1 = store C_memory_pool_capacity cap m;
          m2 = (if cap < m1 C_memory_pool_in_use then store C_memory_pool_in_use cap m1 else m1)
      in if cap < m2 C_memory_pool_in_use_peak then store C_memory_pool_in_use_peak cap m2 else m2)"

definition record_memory_pool_acquire :: "metrics \<Rightarrow> metrics" where
  "record_memory_pool_acquire m =
     (let current = m C_memory_pool_in_use + 1
      in store_max C_memory_pool_in_use_peak current (fetch_add C_memory_pool_in_use 1 m))"

definition record_memory_pool_release :: "metrics \<Rightarrow> metrics" where
  "record_memory_pool_release m = fetch_sub C_memory_pool_in_use 1 m"

definition record_log_async_queue_depth :: "nat \<Rightarrow> metrics \<Rightarrow> metrics" where
  "record_log_async_queue_depth depth m = store C_log_async_queue_depth (of_nat depth) m"

definition register_log_async_queue_capacity :: "nat \<Rightarrow> metrics \<Rightarrow> metrics" where
  "register_log_async_queue_capacity capacity m = store C_log_async_queue_capacity (of_nat capacity) m"

definition record_log_async_queue_drop :: "metrics \<Rightarrow> metrics" where
  "record_log_async_queue_drop m = fetch_add C_log_async_queue_drop_total 1 m"

definition record_log_async_flush_latency :: "int \<Rightarrow> metrics \<Rightarrow> metrics" where
  "record_log_async_flush_latency elapsed m =
     (let ns = nonneg_count elapsed in
      if ns = 0 then m
      else store_max C_log_async_flush_latency_max_ns ns
             (fetch_add C_log_async_flush_latency_sum_ns ns (fetch_add C_log_async_flush_total 1 m)))"

definition record_log_masked_fields :: "u64 \<Rightarrow> metrics \<Rightarrow> metrics" where
  "record_log_masked_fields n m = (if n = 0 then m else fetch_add C_log_masked_fields_total n m)"

definition set_http_active_connections :: "nat \<Rightarrow> metrics \<Rightarrow> metrics" where
  "set_http_active_connections active m = store C_http_active_connections (of_nat active) m"

definition record_http_connection_limit_reject :: "metrics \<Rightarrow> metrics" where
  "record_http_connection_limit_reject m = fetch_add C_http_connection_limit_reject_total 1 m"

definition record_http_auth_reject :: "metrics \<Rightarrow> metrics" where
  "record_http_auth_reject m = fetch_add C_http_auth_reject_total 1 m"

definition record_http_header_timeout :: "metrics \<Rightarrow> metrics" where
  "record_http_header_timeout m = fetch_add C_http_header_timeout_total 1 m"

definition record_http_body_timeout :: "metrics \<Rightarrow> metrics" where
  "record_http_body_timeout m = fetch_add C_http_body_timeout_total 1 m"

definition record_http_header_oversize :: "metrics \<Rightarrow> metrics" where
  "record_http_header_oversize m = fetch_add C_http_header_oversize_total 1 m"

definition record_http_body_oversize :: "metrics \<Rightarrow> metrics" where
  "record_http_body_oversize m = fetch_add C_http_body_oversize_total 1 m"

definition record_http_bad_request :: "metrics \<Rightarrow> metrics" where
  "record_http_bad_request m = fetch_add C_http_bad_request_total 1 m"

definition record_runtime_setting_reload_attempt :: "metrics \<Rightarrow> metrics" where
  "record_runtime_setting_reload_attempt m = fetch_add C_runtime_setting_reload_attempt_total 1 m"

definition record_runtime_setting_reload_success :: "metrics \<Rightarrow> metrics" where
  "record_runtime_setting_reload_success m = fetch_add C_runtime_setting_reload_success_total 1 m"

definition record_runtime_setting_reload_failure :: "metrics \<Rightarrow> metrics" where
  "record_runtime_setting_reload_failure m = fetch_add C_runtime_setting_reload_failure_total 1 m"

definition record_runtime_setting_reload_latency :: "int \<Rightarrow> metrics \<Rightarrow> metrics" where
  "record_runtime_setting_reload_latency elapsed m =
     (let ns = nonneg_count elapsed in
      if ns = 0 then m
      else store_max C_runtime_setting_reload_latency_max_ns ns
             (fetch_add C_runtime_setting_reload_latency_sum_ns ns m))"

lemmas counter_ops = fetch_add_def fetch_sub_def store_def store_max_def

section \<open>Compare-exchange loops under interleaving\<close>

text \<open>
  One thread inside such a loop: it has still to load the counter, or it is in the loop with the value last
  observed, or it has left the loop. A step is one atomic access; \<open>spurious\<close> says that
  \<^verbatim>\<open>compare_exchange_weak\<close> fails although the counter holds the expected value.
\<close>

datatype cas_pc = CasLoad | CasLoop u64 | CasDone

fun cas_thread_step :: "u64 \<Rightarrow> bool \<Rightarrow> cas_pc \<Rightarrow> u64 \<Rightarrow> cas_pc \<times> u64" where
  "cas_thread_step val spurious CasLoad mem = (CasLoop mem, mem)"
| "cas_thread_step val spurious (CasLoop current) mem =
     (if current < val
      then if mem = current \<and> \<not> spurious then (CasDone, val) else (CasLoop mem, mem)
      else (CasDone, mem))"
| "cas_thread_step val spurious CasDone mem = (CasDone, mem)"

text \<open>Thread \<open>i\<close> of several, reporting \<open>vals ! i\<close>, takes the next step.\<close>

fun cas_step :: "u64 list \<Rightarrow> cas_pc list \<times> u64 \<Rightarrow> nat \<times> bool \<Rightarrow> cas_pc list \<times> u64" where
  "cas_step vals (pcs, mem) (i, spurious) =
     (if i < length pcs
      then case cas_thread_step (vals ! i) spurious (pcs ! i) mem of (pc, mem') \<Rightarrow> (pcs[i := pc], mem')
      else (pcs, mem))"

definition cas_pc_inv :: "u64 \<Rightarrow> u64 \<Rightarrow> cas_pc \<Rightarrow> bool" where
  "cas_pc_inv val mem pc \<longleftrightarrow>
     (case pc of CasLoad \<Rightarrow> True | CasLoop current \<Rightarrow> current \<le> mem | CasDone \<Rightarrow> val \<le> mem)"

definition cas_inv :: "u64 list \<Rightarrow> u64 \<Rightarrow> cas_pc list \<times> u64 \<Rightarrow> bool" where
  "cas_inv vals start s \<longleftrightarrow>
     length (fst s) = length vals \<and> start \<le> snd s \<and> snd s \<in> insert start (set vals) \<and>
     (\<forall>i < length vals. cas_pc_inv (vals ! i) (snd s) (fst s ! i))"

lemma cas_thread_step_inv:
  assumes "cas_pc_inv val mem pc" and "cas_thread_step val spurious pc mem = (pc', mem')"
  shows "cas_pc_inv val mem' pc'" and "mem \<le> mem'" and "mem' \<in> {mem, val}"
  using assms by (cases pc; auto simp: cas_pc_inv_def split: if_splits)+

lemma cas_pc_inv_mono: "cas_pc_inv val mem pc \<Longrightarrow> mem \<le> mem' \<Longrightarrow> cas_pc_inv val mem' pc"
  by (auto simp: cas_pc_inv_def split: cas_pc.splits)

lemma cas_step_inv: "cas_inv vals start s \<Longrightarrow> cas_inv vals start (cas_step vals s e)"
proof -
  assume inv: "cas_inv vals start s"
  obtain pcs mem i spurious where s: "s = (pcs, mem)" and e: "e = (i, spurious)" by (cases s, cases e)
  obtain pc mem' where step: "cas_thread_step (vals ! i) spurious (pcs ! i) mem = (pc, mem')" by fastforce
  show ?thesis
  proof (cases "i < length pcs")
    case True
    with inv have "cas_pc_inv (vals ! i) mem (pcs ! i)" and len: "length pcs = length vals"
      by (simp_all add: cas_inv_def s)
    note thread = cas_thread_step_inv [OF this(1) step]
    with inv True len show ?thesis
      by (auto simp: cas_inv_def s e step nth_list_update intro: cas_pc_inv_mono)
  qed (use inv s e in simp)
qed

interpretation cas: invariant_machine "cas_step vals" "cas_inv vals start" for vals start
  by unfold_locales (rule cas_step_inv)

definition cas_begin :: "u64 list \<Rightarrow> u64 \<Rightarrow> cas_pc list \<times> u64" where
  "cas_begin vals start = (replicate (length vals) CasLoad, start)"

lemma cas_begin_inv: "cas_inv vals start (cas_begin vals start)"
  by (simp add: cas_inv_def cas_begin_def cas_pc_inv_def)

text \<open>A thread left alone leaves its loop within three steps, and no step brings a thread back.\<close>

lemma cas_solo_done:
  assumes "i < length (fst s)"
  shows "fst (foldl (cas_step vals) s (replicate 3 (i, False))) ! i = CasDone"
proof -
  obtain pcs mem where s: "s = (pcs, mem)" by (cases s)
  with assms show ?thesis
    by (cases "pcs ! i") (auto simp: numeral_3_eq_3)
qed

lemma cas_length [simp]: "length (fst (foldl (cas_step vals) s es)) = length (fst s)"
proof (induction es arbitrary: s)
  case (Cons e es)
  obtain pcs mem i spurious where "s = (pcs, mem)" and "e = (i, spurious)" by (cases s, cases e)
  with Cons show ?case by (simp add: case_prod_beta)
qed simp

lemma cas_done_stays:
  "i < length (fst s) \<Longrightarrow> fst s ! i = CasDone \<Longrightarrow> fst (foldl (cas_step vals) s es) ! i = CasDone"
proof (induction es arbitrary: s)
  case (Cons e es)
  obtain pcs mem j spurious where s: "s = (pcs, mem)" "e = (j, spurious)" by (cases s, cases e)
  with Cons.prems have "fst (cas_step vals s e) ! i = CasDone" "i < length (fst (cas_step vals s e))"
    by (auto simp: case_prod_beta nth_list_update)
  with Cons.IH show ?case by simp
qed simp

definition cas_finish :: "nat \<Rightarrow> (nat \<times> bool) list" where
  "cas_finish n = concat (map (\<lambda>i. replicate 3 (i, False)) [0..<n])"

lemma cas_finish_done:
  "i < n \<Longrightarrow> n \<le> length (fst s) \<Longrightarrow> fst (foldl (cas_step vals) s (cas_finish n)) ! i = CasDone"
proof (induction n)
  case (Suc n)
  have fin: "cas_finish (Suc n) = cas_finish n @ replicate 3 (n, False)" by (simp add: cas_finish_def)
  show ?case
  proof (cases "i = n")
    case True
    with Suc.prems show ?thesis by (simp add: fin cas_solo_done)
  next
    case False
    with Suc show ?thesis by (simp add: fin cas_done_stays)
  qed
qed simp

lemma foldl_max_ge: "start \<le> foldl max start vs" for start :: u64
proof (induction vs arbitrary: start)
  case (Cons v vs)
  have "max start v \<le> foldl max (max start v) vs" by (rule Cons.IH)
  then show ?case by simp
qed simp

lemma foldl_max_ge_elem: "v \<in> set vs \<Longrightarrow> v \<le> foldl max start vs" for start :: u64
proof (induction vs arbitrary: start)
  case (Cons u vs)
  then show ?case using foldl_max_ge [of "max start u" vs] by auto
qed simp

lemma foldl_max_in: "foldl max start vs \<in> insert start (set vs)" for start :: u64
proof (induction vs arbitrary: start)
  case (Cons v vs)
  then show ?case using Cons.IH [of "max start v"] by (auto simp: max_def)
qed simp

text \<open>
  C23. The counters that keep a maximum are exact under concurrency: whatever the interleaving of the
  compare-exchange loops of any number of threads, spurious failures included, once the threads have been
  let finish all of them have left their loops, and the counter is the maximum of its first value and all the reported ones.
\<close>

theorem counter_max_interleaved:
  "let (pcs, mem) = foldl (cas_step vals) (cas_begin vals start) (sched @ cas_finish (length vals)) in
   pcs = replicate (length vals) CasDone \<and> mem = foldl max start vals"
proof -
  define s where "s = foldl (cas_step vals) (cas_begin vals start) (sched @ cas_finish (length vals))"
  have inv: "cas_inv vals start s"
    unfolding s_def by (rule cas.run_inv [OF cas_begin_inv])
  have len: "length (fst (cas_begin vals start)) = length vals" by (simp add: cas_begin_def)
  have all_done: "fst s ! i = CasDone" if "i < length vals" for i
    using that len by (simp add: s_def cas_finish_done)
  then have "fst s = replicate (length vals) CasDone"
    using inv by (intro nth_equalityI) (simp_all add: cas_inv_def)
  moreover have "v \<le> snd s" if "v \<in> set vals" for v
    using that inv all_done by (auto simp: cas_inv_def cas_pc_inv_def in_set_conv_nth)
  then have "snd s = foldl max start vals"
    using inv foldl_max_ge [of start vals] foldl_max_ge_elem [of "snd s" vals start] foldl_max_in [of start vals]
    by (intro antisym) (auto simp: cas_inv_def)
  ultimately show ?thesis
    unfolding s_def [symmetric] by (simp add: case_prod_beta)
qed

end
