(* ===== verification/Job_Queue.thy ===== *)
theory Job_Queue
  imports Runtime_Metrics
begin

text \<open>
  The blocking job queue, its worker threads and the generic locked queue
  (\<^verbatim>\<open>core/src/concurrent/job_queue.cpp\<close>, \<^verbatim>\<open>core/src/concurrent/thread_manager.cpp\<close>,
  \<^verbatim>\<open>core/include/server/core/concurrent/locked_queue.hpp\<close>).

  What a thread does between taking the mutex and releasing or waiting on it is one atomic
  step. Waiting on the condition variable, being notified, and the notification after the mutex is
  released are separate control points of a thread, so that a schedule is any interleaving of them. The
  schedule also chooses which waiter \<open>notify_one\<close> wakes, and when a spurious wake-up happens.
\<close>

section \<open>Bounded queues\<close>

text \<open>
  What clients of a bounded first-in-first-out queue rely on: an accepted element goes to the end and only when there is
  room, a rejected one changes nothing, the element taken is the first one.
\<close>

locale bounded_fifo =
  fixes content :: "'s \<Rightarrow> 'j list" and capacity :: "'s \<Rightarrow> nat"
    and push :: "'j \<Rightarrow> 's \<Rightarrow> bool \<times> 's" and pop :: "'s \<Rightarrow> 'j option \<times> 's"
  assumes push_capacity: "capacity (snd (push j s)) = capacity s"
    and pop_capacity: "capacity (snd (pop s)) = capacity s"
    and push_content: "content (snd (push j s)) = (if fst (push j s) then content s @ [j] else content s)"
    and push_room: "fst (push j s) \<Longrightarrow> 0 < capacity s \<Longrightarrow> length (content s) < capacity s"
    and pop_content: "content s = (case fst (pop s) of None \<Rightarrow> [] | Some j \<Rightarrow> [j]) @ content (snd (pop s))"
begin

text \<open>A sequence of calls, with the elements accepted and the elements taken so far.\<close>

fun fifo_step :: "'s \<times> 'j list \<times> 'j list \<Rightarrow> 'j option \<Rightarrow> 's \<times> 'j list \<times> 'j list" where
  "fifo_step (s, ins, outs) (Some j) =
     (snd (push j s), (if fst (push j s) then ins @ [j] else ins), outs)"
| "fifo_step (s, ins, outs) None =
     (snd (pop s), ins, outs @ (case fst (pop s) of None \<Rightarrow> [] | Some j \<Rightarrow> [j]))"

lemma fifo_run:
  assumes "ins = outs @ content s" and "0 < capacity s \<longrightarrow> length (content s) \<le> capacity s"
  shows "case foldl fifo_step (s, ins, outs) es of (s', ins', outs') \<Rightarrow>
    ins' = outs' @ content s' \<and> capacity s' = capacity s \<and>
    (0 < capacity s \<longrightarrow> length (content s') \<le> capacity s)"
  using assms
proof (induction es arbitrary: s ins outs)
  case (Cons e es)
  have "length (content s) = length (case fst (pop s) of None \<Rightarrow> [] | Some j \<Rightarrow> [j]) + length (content (snd (pop s)))"
    using pop_content [of s] by (metis length_append)
  then have len: "length (content (snd (pop s))) \<le> length (content s)" by simp
  show ?case
  proof (cases e)
    case None
    from Cons.IH [of "ins" "outs @ (case fst (pop s) of None \<Rightarrow> [] | Some j \<Rightarrow> [j])" "snd (pop s)"]
    show ?thesis
      using Cons.prems len pop_content [of s] by (auto simp: None pop_capacity)
  next
    case (Some j)
    have "length (content (snd (push j s))) \<le> capacity s" if "0 < capacity s"
      using that Cons.prems(2) push_room [of j s] by (simp add: push_content Suc_le_eq)
    with Cons.IH [of "if fst (push j s) then ins @ [j] else ins" outs "snd (push j s)"] Cons.prems(1)
    show ?thesis by (auto simp: Some push_capacity push_content)
  qed
qed simp

end

section \<open>The locked queue\<close>

record 'j LockedQueue =
  lq_queue :: "'j list"
  lq_capacity :: nat

definition LockedQueue_init :: "nat \<Rightarrow> 'j LockedQueue" where
  "LockedQueue_init capacity = \<lparr>lq_queue = [], lq_capacity = capacity\<rparr>"

text \<open>The predicate producers wait for.\<close>

definition lq_has_room :: "'j LockedQueue \<Rightarrow> bool" where
  "lq_has_room q \<longleftrightarrow> lq_capacity q = 0 \<or> length (lq_queue q) < lq_capacity q"

definition lq_try_push :: "'j \<Rightarrow> 'j LockedQueue \<Rightarrow> bool \<times> 'j LockedQueue" where
  "lq_try_push item q =
     (if 0 < lq_capacity q \<and> lq_capacity q \<le> length (lq_queue q) then (False, q)
      else (True, q\<lparr>lq_queue := lq_queue q @ [item]\<rparr>))"

definition lq_try_pop :: "'j LockedQueue \<Rightarrow> 'j option \<times> 'j LockedQueue" where
  "lq_try_pop q =
     (case lq_queue q of [] \<Rightarrow> (None, q) | item # rest \<Rightarrow> (Some item, q\<lparr>lq_queue := rest\<rparr>))"

text \<open>The blocking push: \<open>None\<close> when it has to wait.\<close>

definition lq_push :: "'j \<Rightarrow> 'j LockedQueue \<Rightarrow> 'j LockedQueue option" where
  "lq_push item q = (if lq_has_room q then Some (q\<lparr>lq_queue := lq_queue q @ [item]\<rparr>) else None)"

text \<open>\<open>push_swap\<close> leaves a default element in the caller's variable; \<open>push_reset\<close> resets it again.\<close>

definition lq_push_swap :: "'j \<Rightarrow> 'j \<Rightarrow> 'j LockedQueue \<Rightarrow> ('j \<times> 'j LockedQueue) option" where
  "lq_push_swap dflt item q = map_option (\<lambda>q'. (dflt, q')) (lq_push item q)"

definition lq_push_reset :: "'j \<Rightarrow> 'j \<Rightarrow> 'j LockedQueue \<Rightarrow> ('j \<times> 'j LockedQueue) option" where
  "lq_push_reset dflt item q = map_option (\<lambda>(_, q'). (dflt, q')) (lq_push_swap dflt item q)"

record 'j LockedWaitQueue =
  lw_base :: "'j LockedQueue"
  lw_shutdown :: bool

datatype 'a blocking = Blocks | Returns 'a

definition lw_pop_blocking :: "'j LockedWaitQueue \<Rightarrow> ('j option \<times> 'j LockedWaitQueue) blocking" where
  "lw_pop_blocking q =
     (if lq_queue (lw_base q) = [] \<and> \<not> lw_shutdown q then Blocks
      else case lq_try_pop (lw_base q) of (item, b) \<Rightarrow> Returns (item, q\<lparr>lw_base := b\<rparr>))"

definition lw_push :: "'j \<Rightarrow> 'j LockedWaitQueue \<Rightarrow> 'j LockedWaitQueue blocking" where
  "lw_push item q =
     (if lw_shutdown q then Returns q
      else case lq_push item (lw_base q) of None \<Rightarrow> Blocks | Some b \<Rightarrow> Returns (q\<lparr>lw_base := b\<rparr>))"

definition lw_stop :: "'j LockedWaitQueue \<Rightarrow> 'j LockedWaitQueue" where
  "lw_stop q = q\<lparr>lw_shutdown := True\<rparr>"

definition lw_reset :: "'j LockedWaitQueue \<Rightarrow> 'j LockedWaitQueue" where
  "lw_reset q = q\<lparr>lw_shutdown := False\<rparr>"

interpretation lq: bounded_fifo lq_queue lq_capacity lq_try_push lq_try_pop
  by unfold_locales (auto simp: lq_try_push_def lq_try_pop_def split: list.splits if_splits)

text \<open>The blocking push accepts exactly when the non-blocking one does, with the same result.\<close>

lemma lq_push_try: "lq_push item q = (if fst (lq_try_push item q) then Some (snd (lq_try_push item q)) else None)"
  by (auto simp: lq_push_def lq_try_push_def lq_has_room_def)

section \<open>The job queue\<close>

record 'j JobQueue =
  jq_jobs :: "'j list"
  jq_stopping :: bool
  jq_max_size :: nat

definition JobQueue_init :: "nat \<Rightarrow> metrics \<Rightarrow> 'j JobQueue \<times> metrics" where
  "JobQueue_init max_size m =
     (\<lparr>jq_jobs = [], jq_stopping = False, jq_max_size = max_size\<rparr>, register_job_queue_capacity max_size m)"

definition jq_full :: "'j JobQueue \<Rightarrow> bool" where
  "jq_full q \<longleftrightarrow> 0 < jq_max_size q \<and> jq_max_size q \<le> length (jq_jobs q)"

definition jq_enqueue :: "'j \<Rightarrow> 'j JobQueue \<Rightarrow> metrics \<Rightarrow> 'j JobQueue \<times> metrics" where
  "jq_enqueue job q m =
     (let q' = q\<lparr>jq_jobs := jq_jobs q @ [job]\<rparr> in (q', record_job_queue_depth (length (jq_jobs q')) m))"

text \<open>The result of a critical section of \<open>Push\<close>: it waits, it returns without pushing, or it has pushed.\<close>

datatype push_result = PushWaits | PushRefused | PushAccepted

definition jq_push_enter :: "'j \<Rightarrow> 'j JobQueue \<Rightarrow> metrics \<Rightarrow> push_result \<times> 'j JobQueue \<times> metrics" where
  "jq_push_enter job q m =
     (if jq_stopping q then (PushRefused, q, m)
      else if jq_full q then (PushWaits, q, m)
      else (PushAccepted, jq_enqueue job q m))"

text \<open>The same after a wake-up: the predicate is tested again, and the time waited is recorded.\<close>

definition jq_push_resume :: "int \<Rightarrow> 'j \<Rightarrow> 'j JobQueue \<Rightarrow> metrics \<Rightarrow> push_result \<times> 'j JobQueue \<times> metrics" where
  "jq_push_resume waited job q m =
     (if \<not> jq_stopping q \<and> jq_max_size q \<le> length (jq_jobs q) then (PushWaits, q, m)
      else let m' = record_job_queue_push_wait waited m in
           if jq_stopping q then (PushRefused, q, m') else (PushAccepted, jq_enqueue job q m'))"

definition JobQueue_TryPush :: "'j option \<Rightarrow> 'j JobQueue \<Rightarrow> metrics \<Rightarrow> bool \<times> 'j JobQueue \<times> metrics" where
  "JobQueue_TryPush job q m =
     (case job of
        None \<Rightarrow> (False, q, m)
      | Some j \<Rightarrow>
          if jq_stopping q then (False, q, m)
          else if jq_full q
          then (False, q, record_job_queue_depth (length (jq_jobs q)) (record_job_queue_reject m))
          else (True, jq_enqueue j q m))"

text \<open>\<open>Pop\<close> after its wait, when there is a job or the queue is stopping; the flag says whether a producer is notified.\<close>

definition JobQueue_Pop :: "'j JobQueue \<Rightarrow> metrics \<Rightarrow> ('j option \<times> bool \<times> 'j JobQueue \<times> metrics) blocking" where
  "JobQueue_Pop q m =
     (case jq_jobs q of
        [] \<Rightarrow> if jq_stopping q then Returns (None, False, q, record_job_queue_depth 0 m) else Blocks
      | j # js \<Rightarrow> let q' = q\<lparr>jq_jobs := js\<rparr>
                  in Returns (Some j, 0 < jq_max_size q, q', record_job_queue_depth (length js) m))"

definition JobQueue_Stop :: "'j JobQueue \<Rightarrow> metrics \<Rightarrow> 'j JobQueue \<times> metrics" where
  "JobQueue_Stop q m =
     (let q' = q\<lparr>jq_stopping := True\<rparr> in (q', record_job_queue_depth (length (jq_jobs q)) m))"

text \<open>Without blocking it is a bounded queue: a pop that would block takes nothing.\<close>

definition jq_push_now :: "'j \<Rightarrow> 'j JobQueue \<times> metrics \<Rightarrow> bool \<times> 'j JobQueue \<times> metrics" where
  "jq_push_now j s = JobQueue_TryPush (Some j) (fst s) (snd s)"

definition jq_pop_now :: "'j JobQueue \<times> metrics \<Rightarrow> 'j option \<times> 'j JobQueue \<times> metrics" where
  "jq_pop_now s =
     (case JobQueue_Pop (fst s) (snd s) of Blocks \<Rightarrow> (None, s) | Returns (j, _, s') \<Rightarrow> (j, s'))"

interpretation jq: bounded_fifo "\<lambda>s. jq_jobs (fst s)" "\<lambda>s. jq_max_size (fst s)" jq_push_now jq_pop_now
  by unfold_locales
    (auto simp: jq_push_now_def jq_pop_now_def JobQueue_TryPush_def JobQueue_Pop_def jq_full_def jq_enqueue_def Let_def
      split: list.splits if_splits)

end
