(* ===== verification/Worker_Threads.thy ===== *)
theory Worker_Threads
  imports Job_Queue
begin

text \<open>
  Threads on the job queue: producers, consumers and the worker loop of the thread manager
  (\<^verbatim>\<open>core/src/concurrent/thread_manager.cpp\<close>), under every interleaving. A thread is a control point and the
  calls it has still to make; the first of them is the one in progress.

  The results: jobs leave in the order they were accepted, none lost and none twice, within the bound; nobody is left
  asleep with work to do as long as no producer waits; and with waiting producers somebody can be,
  because producers and consumers wait on the same condition variable.
\<close>

section \<open>Threads\<close>

datatype 'j call = CallPush 'j | CallTryPush 'j | CallPop | CallWorkerLoop | CallStop | CallManagerStop

datatype pc = Ready | PushAsleep | PushWoken | PopAsleep | PopWoken | NotifyOne | NotifyAll

type_synonym 'j thread = "pc \<times> 'j call list"

record 'j machine =
  mc_queue :: "'j JobQueue"
  mc_metrics :: metrics
  mc_manager_stopped :: bool
  mc_threads :: "'j thread list"
  mc_accepted :: "'j list"
  mc_taken :: "'j list"

text \<open>
  A step of one thread: its next state and the machine without it. \<open>waited\<close> is the clock difference of a
  waiting producer.
\<close>

fun asleep :: "pc \<Rightarrow> bool" where
  "asleep PushAsleep = True"
| "asleep PopAsleep = True"
| "asleep _ = False"

fun woken :: "pc \<Rightarrow> pc" where
  "woken PushAsleep = PushWoken"
| "woken PopAsleep = PopWoken"
| "woken pc = pc"

definition push_outcome ::
    "'j \<Rightarrow> 'j call list \<Rightarrow> push_result \<times> 'j JobQueue \<times> metrics \<Rightarrow> 'j machine \<Rightarrow> 'j thread \<times> 'j machine" where
  "push_outcome job calls r s =
     (case r of (res, q, m) \<Rightarrow>
        let s' = s\<lparr>mc_queue := q, mc_metrics := m\<rparr> in
        case res of
          PushWaits \<Rightarrow> ((PushAsleep, calls), s')
        | PushRefused \<Rightarrow> ((Ready, tl calls), s')
        | PushAccepted \<Rightarrow> ((NotifyOne, tl calls), s'\<lparr>mc_accepted := mc_accepted s @ [job]\<rparr>))"

text \<open>
  The calls left after a pop: a worker keeps its loop until it is handed no job. Running the job is not modelled
  further; the order in which jobs are taken is recorded.
\<close>

definition after_pop :: "'j option \<Rightarrow> 'j call list \<Rightarrow> 'j call list" where
  "after_pop job calls =
     (case calls of
        CallWorkerLoop # rest \<Rightarrow> (if job = None then rest else calls)
      | _ \<Rightarrow> tl calls)"

definition pop_outcome :: "'j call list \<Rightarrow> 'j machine \<Rightarrow> 'j thread \<times> 'j machine" where
  "pop_outcome calls s =
     (case JobQueue_Pop (mc_queue s) (mc_metrics s) of
        Blocks \<Rightarrow> ((PopAsleep, calls), s)
      | Returns (job, notify, q, m) \<Rightarrow>
          ((if notify then NotifyOne else Ready, after_pop job calls),
           s\<lparr>mc_queue := q, mc_metrics := m,
             mc_taken := mc_taken s @ (case job of None \<Rightarrow> [] | Some j \<Rightarrow> [j])\<rparr>))"

fun ready_step :: "'j call list \<Rightarrow> 'j machine \<Rightarrow> 'j thread \<times> 'j machine" where
  "ready_step [] s = ((Ready, []), s)"
| "ready_step (CallPush job # calls) s =
     push_outcome job (CallPush job # calls) (jq_push_enter job (mc_queue s) (mc_metrics s)) s"
| "ready_step (CallTryPush job # calls) s =
     (case JobQueue_TryPush (Some job) (mc_queue s) (mc_metrics s) of (ok, r) \<Rightarrow>
        push_outcome job (CallTryPush job # calls) (if ok then PushAccepted else PushRefused, r) s)"
| "ready_step (CallPop # calls) s = pop_outcome (CallPop # calls) s"
| "ready_step (CallWorkerLoop # calls) s =
     (if mc_manager_stopped s then ((Ready, calls), s) else pop_outcome (CallWorkerLoop # calls) s)"
| "ready_step (CallStop # calls) s =
     (case JobQueue_Stop (mc_queue s) (mc_metrics s) of (q, m) \<Rightarrow>
        ((NotifyAll, calls), s\<lparr>mc_queue := q, mc_metrics := m\<rparr>))"
| "ready_step (CallManagerStop # calls) s =
     (if mc_manager_stopped s then ((Ready, calls), s)
      else ((Ready, CallStop # calls), s\<lparr>mc_manager_stopped := True\<rparr>))"

fun push_job :: "'j call list \<Rightarrow> 'j option" where
  "push_job (CallPush job # calls) = Some job"
| "push_job _ = None"

definition thread_step :: "int \<Rightarrow> 'j thread \<Rightarrow> 'j machine \<Rightarrow> 'j thread \<times> 'j machine" where
  "thread_step waited t s =
     (case t of (pc, calls) \<Rightarrow>
        case pc of
          Ready \<Rightarrow> ready_step calls s
        | PushWoken \<Rightarrow>
            (case push_job calls of
               None \<Rightarrow> (t, s)
             | Some job \<Rightarrow> push_outcome job calls (jq_push_resume waited job (mc_queue s) (mc_metrics s)) s)
        | PopWoken \<Rightarrow> pop_outcome calls s
        | NotifyOne \<Rightarrow> ((Ready, calls), s)
        | NotifyAll \<Rightarrow> ((Ready, calls), s)
        | _ \<Rightarrow> (t, s))"

text \<open>Notification: one waiter, chosen by the schedule, or all of them.\<close>

definition sleepers :: "'j thread list \<Rightarrow> nat list" where
  "sleepers ts = filter (\<lambda>i. asleep (fst (ts ! i))) [0..<length ts]"

definition wake :: "'j thread list \<Rightarrow> nat \<Rightarrow> 'j thread list" where
  "wake ts i = ts[i := (woken (fst (ts ! i)), snd (ts ! i))]"

definition notify_one :: "nat \<Rightarrow> 'j thread list \<Rightarrow> 'j thread list" where
  "notify_one k ts = (if sleepers ts = [] then ts else wake ts (sleepers ts ! (k mod length (sleepers ts))))"

definition notify_all :: "'j thread list \<Rightarrow> 'j thread list" where
  "notify_all ts = map (\<lambda>(pc, calls). (woken pc, calls)) ts"

text \<open>
  The events of a schedule: a thread steps, with the waiter to be woken if it notifies and the time it waited; or the
  condition variable wakes a waiter spuriously.
\<close>

datatype event = Step nat nat int | Spurious nat

fun machine_step :: "'j machine \<Rightarrow> event \<Rightarrow> 'j machine" where
  "machine_step s (Step i k waited) =
     (if i < length (mc_threads s)
      then case thread_step waited (mc_threads s ! i) s of (t, s') \<Rightarrow>
             let ts = (mc_threads s)[i := t] in
             s'\<lparr>mc_threads := (case fst (mc_threads s ! i) of
                                 NotifyOne \<Rightarrow> notify_one k ts
                               | NotifyAll \<Rightarrow> notify_all ts
                               | _ \<Rightarrow> ts)\<rparr>
      else s)"
| "machine_step s (Spurious i) =
     (if i < length (mc_threads s) \<and> asleep (fst (mc_threads s ! i))
      then s\<lparr>mc_threads := wake (mc_threads s) i\<rparr> else s)"

definition machine_begin :: "nat \<Rightarrow> metrics \<Rightarrow> 'j call list list \<Rightarrow> 'j machine" where
  "machine_begin max_size m programs =
     (case JobQueue_init max_size m of (q, m') \<Rightarrow>
        \<lparr>mc_queue = q, mc_metrics = m', mc_manager_stopped = False,
         mc_threads = map (\<lambda>calls. (Ready, calls)) programs, mc_accepted = [], mc_taken = []\<rparr>)"

section \<open>First in, first out, within the bound\<close>

definition fifo_inv :: "'j machine \<Rightarrow> bool" where
  "fifo_inv s \<longleftrightarrow>
     mc_accepted s = mc_taken s @ jq_jobs (mc_queue s) \<and>
     (0 < jq_max_size (mc_queue s) \<longrightarrow> length (jq_jobs (mc_queue s)) \<le> jq_max_size (mc_queue s))"

lemmas queue_defs = jq_push_enter_def jq_push_resume_def JobQueue_TryPush_def JobQueue_Pop_def JobQueue_Stop_def
  jq_enqueue_def jq_full_def Let_def

lemma fifo_inv_threads [simp]: "fifo_inv (s\<lparr>mc_threads := ts\<rparr>) = fifo_inv s"
  by (simp add: fifo_inv_def)

lemma pop_outcome_fifo: "fifo_inv s \<Longrightarrow> fifo_inv (snd (pop_outcome calls s))"
  by (auto simp: fifo_inv_def pop_outcome_def queue_defs split: list.splits if_splits)

lemma push_outcome_fifo:
  "fifo_inv s \<Longrightarrow> fifo_inv (snd (push_outcome job calls (jq_push_enter job (mc_queue s) (mc_metrics s)) s))"
  "fifo_inv s \<Longrightarrow> fifo_inv (snd (push_outcome job calls (jq_push_resume waited job (mc_queue s) (mc_metrics s)) s))"
  "fifo_inv s \<Longrightarrow> JobQueue_TryPush (Some job) (mc_queue s) (mc_metrics s) = (ok, r) \<Longrightarrow>
   fifo_inv (snd (push_outcome job calls (if ok then PushAccepted else PushRefused, r) s))"
  by (auto simp: push_outcome_def fifo_inv_def queue_defs split: if_splits)

lemma ready_step_fifo: "fifo_inv s \<Longrightarrow> fifo_inv (snd (ready_step calls s))"
  by (cases "(calls, s)" rule: ready_step.cases)
    (auto simp: pop_outcome_fifo push_outcome_fifo split: prod.splits,
     auto simp: fifo_inv_def queue_defs)

lemma thread_step_fifo: "fifo_inv s \<Longrightarrow> fifo_inv (snd (thread_step waited t s))"
  by (auto simp: thread_step_def ready_step_fifo pop_outcome_fifo push_outcome_fifo
      split: pc.splits option.splits prod.splits)

lemma machine_step_fifo: "fifo_inv s \<Longrightarrow> fifo_inv (machine_step s e)"
  by (cases e) (auto simp: thread_step_fifo case_prod_beta Let_def)

lemma outcome_max_size:
  "jq_max_size (mc_queue (snd (pop_outcome calls s))) = jq_max_size (mc_queue s)"
  "jq_max_size (mc_queue (snd (push_outcome job calls (jq_push_enter job (mc_queue s) (mc_metrics s)) s))) =
     jq_max_size (mc_queue s)"
  "jq_max_size (mc_queue (snd (push_outcome job calls (jq_push_resume waited job (mc_queue s) (mc_metrics s)) s))) =
     jq_max_size (mc_queue s)"
  "JobQueue_TryPush (Some job) (mc_queue s) (mc_metrics s) = (ok, r) \<Longrightarrow>
     jq_max_size (mc_queue (snd (push_outcome job calls (if ok then PushAccepted else PushRefused, r) s))) =
     jq_max_size (mc_queue s)"
  by (auto simp: push_outcome_def pop_outcome_def queue_defs split: list.splits if_splits)

lemma ready_step_max_size: "jq_max_size (mc_queue (snd (ready_step calls s))) = jq_max_size (mc_queue s)"
  by (cases "(calls, s)" rule: ready_step.cases)
    (auto simp: outcome_max_size JobQueue_Stop_def Let_def split: prod.splits)

lemma thread_step_max_size: "jq_max_size (mc_queue (snd (thread_step waited t s))) = jq_max_size (mc_queue s)"
  by (cases t; cases "fst t")
    (simp_all add: thread_step_def outcome_max_size ready_step_max_size split: option.splits)

lemma machine_step_max_size: "jq_max_size (mc_queue (machine_step s e)) = jq_max_size (mc_queue s)"
  by (cases e) (simp_all add: case_prod_beta Let_def thread_step_max_size)

interpretation fifo: invariant_machine machine_step fifo_inv
  by unfold_locales (rule machine_step_fifo)

lemma machine_begin_fifo: "fifo_inv (machine_begin max_size m programs)"
  by (simp add: machine_begin_def JobQueue_init_def fifo_inv_def)

text \<open>
  C30. Jobs are handed out first in, first out, exactly once, and within the bound: whatever the programs of the threads and
  their interleaving, the accepted jobs are the taken ones followed by the queued ones, and a bounded queue never holds
  more than its bound.
\<close>

theorem job_queue_fifo:
  "let s = foldl machine_step (machine_begin max_size m programs) es in
   mc_accepted s = mc_taken s @ jq_jobs (mc_queue s) \<and>
   (if max_size = 0 then True else length (jq_jobs (mc_queue s)) \<le> max_size)"
proof -
  have "jq_max_size (mc_queue (foldl machine_step s es)) = jq_max_size (mc_queue s)" for s :: "'a machine"
    by (induction es arbitrary: s) (auto simp: machine_step_max_size)
  then have "jq_max_size (mc_queue (foldl machine_step (machine_begin max_size m programs) es)) = max_size"
    by (simp add: machine_begin_def JobQueue_init_def)
  with fifo.run_inv [OF machine_begin_fifo, of max_size m programs es] show ?thesis
    by (auto simp: fifo_inv_def Let_def)
qed

section \<open>Nobody sleeps through work\<close>

lemma length_filter_update:
  "i < length xs \<Longrightarrow>
   length (filter P (xs[i := y])) + of_bool (P (xs ! i)) = length (filter P xs) + of_bool (P y)"
proof (induction xs arbitrary: i)
  case (Cons x xs)
  then show ?case by (cases i) auto
qed simp

lemma in_set_update_other: "u \<in> set xs \<Longrightarrow> u \<noteq> xs ! i \<Longrightarrow> u \<in> set (xs[i := y])"
  by (metis in_set_conv_nth length_list_update nth_list_update_neq)

text \<open>A thread that will look at the queue, or make another one look, is worth one job.\<close>

definition credit :: "'j thread \<Rightarrow> bool" where
  "credit t \<longleftrightarrow> fst t = PopWoken \<or> fst t = NotifyOne"

definition credits :: "'j thread list \<Rightarrow> nat" where
  "credits ts = length (filter credit ts)"

definition producer_waits :: "'j thread \<Rightarrow> bool" where
  "producer_waits t \<longleftrightarrow> fst t = PushAsleep \<or> fst t = PushWoken"

definition blocking_calls :: "'j thread \<Rightarrow> bool" where
  "blocking_calls t \<longleftrightarrow> (\<exists>job. CallPush job \<in> set (snd t))"

definition awake_inv :: "'j machine \<Rightarrow> bool" where
  "awake_inv s \<longleftrightarrow>
     (\<forall>t \<in> set (mc_threads s). \<not> producer_waits t) \<and>
     (jq_max_size (mc_queue s) = 0 \<or> (\<forall>t \<in> set (mc_threads s). \<not> blocking_calls t)) \<and>
     ((\<exists>t \<in> set (mc_threads s). fst t = PopAsleep) \<longrightarrow>
        length (jq_jobs (mc_queue s)) \<le> credits (mc_threads s) \<and>
        (jq_stopping (mc_queue s) \<longrightarrow> (\<exists>t \<in> set (mc_threads s). fst t = NotifyAll)))"

text \<open>What one step of a thread does to the queue and to its own worth.\<close>

definition step_ok :: "'j thread \<Rightarrow> 'j machine \<Rightarrow> 'j thread \<Rightarrow> 'j machine \<Rightarrow> bool" where
  "step_ok t s t' s' \<longleftrightarrow>
     \<not> producer_waits t' \<and> (blocking_calls t' \<longrightarrow> blocking_calls t) \<and>
     (fst t' = PopAsleep \<longrightarrow> jq_jobs (mc_queue s') = [] \<and> \<not> jq_stopping (mc_queue s')) \<and>
     (jq_jobs (mc_queue s') = [] \<or>
      length (jq_jobs (mc_queue s')) + of_bool (credit t) \<le> length (jq_jobs (mc_queue s)) + of_bool (credit t')) \<and>
     (jq_stopping (mc_queue s') \<longrightarrow> jq_stopping (mc_queue s) \<or> fst t' = NotifyAll)"

lemma set_after_pop: "set (after_pop job calls) \<subseteq> set calls"
  by (cases calls) (auto simp: after_pop_def split: call.splits)

lemma pop_outcome_ok:
  assumes "pop_outcome calls s = (t', s')"
  shows "step_ok (pc, calls) s t' s'"
proof (cases "jq_jobs (mc_queue s)")
  case Nil
  with assms show ?thesis
    using set_after_pop [of None calls]
    by (cases "jq_stopping (mc_queue s)")
      (auto simp: pop_outcome_def step_ok_def JobQueue_Pop_def producer_waits_def blocking_calls_def)
next
  case (Cons j js)
  with assms show ?thesis
    using set_after_pop [of "Some j" calls]
    by (cases "0 < jq_max_size (mc_queue s)")
      (auto simp: pop_outcome_def step_ok_def JobQueue_Pop_def Let_def producer_waits_def blocking_calls_def credit_def)
qed

lemma push_outcome_ok:
  "jq_max_size (mc_queue s) = 0 \<Longrightarrow>
   push_outcome job (CallPush job # calls) (jq_push_enter job (mc_queue s) (mc_metrics s)) s = (t', s') \<Longrightarrow>
   step_ok (Ready, CallPush job # calls) s t' s'"
  "JobQueue_TryPush (Some job) (mc_queue s) (mc_metrics s) = (ok, r) \<Longrightarrow>
   push_outcome job (CallTryPush job # calls) (if ok then PushAccepted else PushRefused, r) s = (t', s') \<Longrightarrow>
   step_ok (Ready, CallTryPush job # calls) s t' s'"
  by (auto simp: push_outcome_def step_ok_def queue_defs producer_waits_def blocking_calls_def credit_def
      split: if_splits)

lemma ready_step_ok:
  assumes "jq_max_size (mc_queue s) = 0 \<or> \<not> blocking_calls (Ready, calls)" and "ready_step calls s = (t', s')"
  shows "step_ok (Ready, calls) s t' s'"
proof (cases "(calls, s)" rule: ready_step.cases)
  case (2 job rest s)
  with assms show ?thesis by (auto simp: blocking_calls_def intro: push_outcome_ok(1))
next
  case (3 job rest s)
  with assms show ?thesis by (auto intro: push_outcome_ok(2) split: prod.splits)
next
  case (4 rest s)
  with assms show ?thesis by (auto intro: pop_outcome_ok)
next
  case (5 rest s)
  show ?thesis
  proof (cases "mc_manager_stopped s")
    case True
    with 5 assms show ?thesis by (auto simp: step_ok_def producer_waits_def blocking_calls_def credit_def)
  next
    case False
    with 5 assms show ?thesis by (auto intro: pop_outcome_ok)
  qed
qed (use assms in \<open>auto simp: step_ok_def producer_waits_def blocking_calls_def credit_def queue_defs split: if_splits\<close>)

lemma thread_step_ok:
  assumes "\<not> producer_waits t" and "\<not> asleep (fst t)" and "fst t \<noteq> NotifyOne" and "fst t \<noteq> NotifyAll"
    and "jq_max_size (mc_queue s) = 0 \<or> \<not> blocking_calls t" and "thread_step waited t s = (t', s')"
  shows "step_ok t s t' s'"
proof -
  obtain pc calls where t: "t = (pc, calls)" by (cases t)
  show ?thesis
  proof (cases pc)
    case Ready
    with assms(5,6) t show ?thesis by (simp add: thread_step_def ready_step_ok)
  next
    case PopWoken
    with assms(6) t show ?thesis by (simp add: thread_step_def pop_outcome_ok)
  qed (use assms t in \<open>simp_all add: producer_waits_def\<close>)
qed

lemma credits_update:
  "i < length ts \<Longrightarrow> credits (ts[i := t]) + of_bool (credit (ts ! i)) = credits ts + of_bool (credit t)"
  unfolding credits_def by (rule length_filter_update)

text \<open>A step that does not notify keeps the invariant.\<close>

lemma awake_step_inv:
  assumes inv: "awake_inv s" and i: "i < length (mc_threads s)" and ok: "step_ok (mc_threads s ! i) s t' s'"
    and max: "jq_max_size (mc_queue s') = jq_max_size (mc_queue s)"
    and notify: "fst (mc_threads s ! i) \<noteq> NotifyAll" and awake: "fst (mc_threads s ! i) \<noteq> PopAsleep"
  shows "awake_inv (s'\<lparr>mc_threads := (mc_threads s)[i := t']\<rparr>)"
proof -
  let ?ts = "mc_threads s"
  have sub: "set (?ts[i := t']) \<subseteq> insert t' (set ?ts)" by (rule set_update_subset_insert)
  have mem: "t' \<in> set (?ts[i := t'])" using i by (rule set_update_memI)
  have keep: "u \<in> set (?ts[i := t'])" if "u \<in> set ?ts" "u \<noteq> ?ts ! i" for u
    using that by (rule in_set_update_other)
  note cr = credits_update [OF i, of t']
  have quiet: "\<forall>t \<in> set (?ts[i := t']). \<not> producer_waits t"
    and calls: "jq_max_size (mc_queue s') = 0 \<or> (\<forall>t \<in> set (?ts[i := t']). \<not> blocking_calls t)"
    using inv ok sub i by (auto simp: awake_inv_def step_ok_def max)
  have "length (jq_jobs (mc_queue s')) \<le> credits (?ts[i := t']) \<and>
      (jq_stopping (mc_queue s') \<longrightarrow> (\<exists>t \<in> set (?ts[i := t']). fst t = NotifyAll))"
    if "u \<in> set (?ts[i := t'])" "fst u = PopAsleep" for u
  proof (cases "u \<in> set ?ts")
    case True
    with inv that have old: "length (jq_jobs (mc_queue s)) \<le> credits ?ts"
        "jq_stopping (mc_queue s) \<longrightarrow> (\<exists>t \<in> set ?ts. fst t = NotifyAll)"
      by (auto simp: awake_inv_def)
    have "length (jq_jobs (mc_queue s')) \<le> credits (?ts[i := t'])"
      using ok old(1) cr by (auto simp: step_ok_def)
    moreover have "\<exists>t \<in> set (?ts[i := t']). fst t = NotifyAll" if "jq_stopping (mc_queue s')"
      using ok that old(2) mem notify keep unfolding step_ok_def by metis
    ultimately show ?thesis by simp
  next
    case False
    with that sub have "fst t' = PopAsleep" by auto
    with ok show ?thesis by (simp add: step_ok_def)
  qed
  then show ?thesis using quiet calls unfolding awake_inv_def by simp blast
qed

lemma wake_sleeper:
  assumes "i < length ts" and "fst (ts ! i) = PopAsleep"
  shows "credits (wake ts i) = credits ts + 1"
    and "set (wake ts i) \<subseteq> insert (PopWoken, snd (ts ! i)) (set ts)"
    and "fst u = NotifyAll \<Longrightarrow> u \<in> set ts \<Longrightarrow> u \<in> set (wake ts i)"
proof -
  show "credits (wake ts i) = credits ts + 1"
    using credits_update [OF assms(1), of "(PopWoken, snd (ts ! i))"] assms(2) by (simp add: wake_def credit_def)
  show "set (wake ts i) \<subseteq> insert (PopWoken, snd (ts ! i)) (set ts)"
    using assms(2) set_update_subset_insert by (simp add: wake_def)
  show "u \<in> set (wake ts i)" if "fst u = NotifyAll" "u \<in> set ts"
    using that assms(2) by (auto simp: wake_def intro: in_set_update_other)
qed

lemma awake_inv_wake:
  assumes inv: "awake_inv s" and i: "i < length (mc_threads s)" and sleeps: "asleep (fst (mc_threads s ! i))"
  shows "awake_inv (s\<lparr>mc_threads := wake (mc_threads s) i\<rparr>)"
proof -
  let ?ts = "mc_threads s"
  have "\<not> producer_waits (?ts ! i)" using inv i by (simp add: awake_inv_def)
  with sleeps have pop: "fst (?ts ! i) = PopAsleep"
    by (cases "fst (?ts ! i)") (simp_all add: producer_waits_def)
  note w = wake_sleeper [OF i pop]
  let ?t = "(PopWoken, snd (?ts ! i))"
  have "\<not> producer_waits ?t" and calls: "blocking_calls ?t \<longleftrightarrow> blocking_calls (?ts ! i)"
    by (simp_all add: producer_waits_def blocking_calls_def)
  with inv w(2) have 1: "\<forall>t \<in> set (wake ?ts i). \<not> producer_waits t"
    unfolding awake_inv_def by blast
  have 2: "jq_max_size (mc_queue s) = 0 \<or> (\<forall>t \<in> set (wake ?ts i). \<not> blocking_calls t)"
    using inv w(2) calls i nth_mem [OF i] unfolding awake_inv_def by blast
  have "?ts ! i \<in> set ?ts" using i by simp
  with inv pop have "length (jq_jobs (mc_queue s)) \<le> credits ?ts"
      "jq_stopping (mc_queue s) \<longrightarrow> (\<exists>t \<in> set ?ts. fst t = NotifyAll)"
    unfolding awake_inv_def by blast+
  then have "length (jq_jobs (mc_queue s)) \<le> credits (wake ?ts i)"
      "jq_stopping (mc_queue s) \<longrightarrow> (\<exists>t \<in> set (wake ?ts i). fst t = NotifyAll)"
    using w(1,3) by auto
  with 1 2 show ?thesis by (simp add: awake_inv_def)
qed

text \<open>A notification of one waiter replaces the worth of the notifier by the worth of the woken.\<close>

lemma sleepers_iff: "i \<in> set (sleepers ts) \<longleftrightarrow> i < length ts \<and> asleep (fst (ts ! i))"
  by (auto simp: sleepers_def)

lemma awake_quiet_ready:
  assumes "awake_inv s" and "i < length (mc_threads s)"
  shows "\<forall>t \<in> set ((mc_threads s)[i := (Ready, snd (mc_threads s ! i))]). \<not> producer_waits t"
    and "jq_max_size (mc_queue s) = 0 \<or>
      (\<forall>t \<in> set ((mc_threads s)[i := (Ready, snd (mc_threads s ! i))]). \<not> blocking_calls t)"
proof -
  let ?t = "(Ready, snd (mc_threads s ! i))"
  have "set ((mc_threads s)[i := ?t]) \<subseteq> insert ?t (set (mc_threads s))" by (rule set_update_subset_insert)
  moreover have "\<not> producer_waits ?t" "blocking_calls ?t \<longleftrightarrow> blocking_calls (mc_threads s ! i)"
      "mc_threads s ! i \<in> set (mc_threads s)"
    using assms(2) by (simp_all add: producer_waits_def blocking_calls_def)
  ultimately show "\<forall>t \<in> set ((mc_threads s)[i := ?t]). \<not> producer_waits t"
      "jq_max_size (mc_queue s) = 0 \<or> (\<forall>t \<in> set ((mc_threads s)[i := ?t]). \<not> blocking_calls t)"
    using assms(1) unfolding awake_inv_def by blast+
qed

lemma awake_notify_one:
  assumes inv: "awake_inv s" and i: "i < length (mc_threads s)" and pc: "fst (mc_threads s ! i) = NotifyOne"
  shows "awake_inv (s\<lparr>mc_threads := notify_one k ((mc_threads s)[i := (Ready, snd (mc_threads s ! i))])\<rparr>)"
proof -
  let ?ts = "mc_threads s" and ?t = "(Ready, snd (mc_threads s ! i))"
  let ?us = "?ts[i := ?t]"
  have sleep: "asleep (fst (?us ! j)) \<longleftrightarrow> asleep (fst (?ts ! j))" if "j < length ?ts" for j
    using that pc i by (cases "j = i") simp_all
  note quiet = awake_quiet_ready [OF inv i]
  show ?thesis
  proof (cases "sleepers ?us = []")
    case True
    have "fst u \<noteq> PopAsleep" if "u \<in> set ?us" for u
    proof
      assume u: "fst u = PopAsleep"
      from that obtain j where "j < length ?us" "u = ?us ! j" by (metis in_set_conv_nth)
      with u have "j \<in> set (sleepers ?us)" by (simp add: sleepers_iff)
      with True show False by simp
    qed
    with True quiet show ?thesis unfolding awake_inv_def notify_one_def by simp
  next
    case False
    define j where "j = sleepers ?us ! (k mod length (sleepers ?us))"
    have "j \<in> set (sleepers ?us)" using False by (simp add: j_def)
    then have j: "j < length ?ts" "asleep (fst (?ts ! j))" using sleep by (auto simp: sleepers_iff)
    then have "i \<noteq> j" using pc by auto
    then have eq: "notify_one k ?us = (wake ?ts j)[i := ?t]"
      using False by (simp add: notify_one_def wake_def list_update_swap flip: j_def)
    have inv': "awake_inv (s\<lparr>mc_threads := wake ?ts j\<rparr>)" by (rule awake_inv_wake [OF inv j])
    have nth: "wake ?ts j ! i = ?ts ! i" using \<open>i \<noteq> j\<close> by (simp add: wake_def)
    have pop: "fst (?ts ! j) = PopAsleep"
      using inv j by (cases "fst (?ts ! j)") (auto simp: awake_inv_def producer_waits_def dest: nth_mem)
    have len: "length (wake ?ts j) = length ?ts" by (simp add: wake_def)
    have cr: "credits ((wake ?ts j)[i := ?t]) = credits ?ts"
      using credits_update [of i "wake ?ts j" ?t] i pc wake_sleeper(1) [OF j(1) pop] nth len by (simp add: credit_def)
    have jobs: "length (jq_jobs (mc_queue s)) \<le> credits ?ts" "jq_stopping (mc_queue s) \<longrightarrow> (\<exists>t \<in> set ?ts. fst t = NotifyAll)"
      using inv j pop nth_mem [OF j(1)] unfolding awake_inv_def by blast+
    have keep: "u \<in> set ((wake ?ts j)[i := ?t])" if "u \<in> set ?ts" "fst u = NotifyAll" for u
      using wake_sleeper(3) [OF j(1) pop that(2,1)] that(2) pc nth by (intro in_set_update_other) auto
    have "\<forall>t \<in> set ((wake ?ts j)[i := ?t]). \<not> producer_waits t"
        "jq_max_size (mc_queue s) = 0 \<or> (\<forall>t \<in> set ((wake ?ts j)[i := ?t]). \<not> blocking_calls t)"
      using awake_quiet_ready [OF inv', of i] i nth len by simp_all
    with jobs cr keep show ?thesis unfolding eq awake_inv_def by auto
  qed
qed

lemma awake_notify_all:
  assumes inv: "awake_inv s" and i: "i < length (mc_threads s)" and pc: "fst (mc_threads s ! i) = NotifyAll"
  shows "awake_inv (s\<lparr>mc_threads := notify_all ((mc_threads s)[i := (Ready, snd (mc_threads s ! i))])\<rparr>)"
proof -
  let ?ts = "mc_threads s" and ?t = "(Ready, snd (mc_threads s ! i))"
  note old = awake_quiet_ready [OF inv i]
  have "fst u \<noteq> PopAsleep" "\<not> producer_waits u" "jq_max_size (mc_queue s) = 0 \<or> \<not> blocking_calls u"
    if u: "u \<in> set (notify_all (?ts[i := ?t]))" for u
  proof -
    from u obtain p calls where p: "u = (woken p, calls)" "(p, calls) \<in> set (?ts[i := ?t])"
      by (auto simp: notify_all_def)
    have "\<not> producer_waits (p, calls)" using old(1) p(2) by blast
    then show "fst u \<noteq> PopAsleep" "\<not> producer_waits u"
      by (cases p; simp add: p(1) producer_waits_def)+
    show "jq_max_size (mc_queue s) = 0 \<or> \<not> blocking_calls u"
      using old(2) p(2) by (auto simp: p(1) blocking_calls_def)
  qed
  then show ?thesis unfolding awake_inv_def by simp blast
qed

lemma machine_step_awake: "awake_inv s \<Longrightarrow> awake_inv (machine_step s e)"
proof (cases e)
  case (Spurious i)
  assume "awake_inv s"
  with Spurious show ?thesis by (simp add: awake_inv_wake)
next
  case (Step i k waited)
  assume inv: "awake_inv s"
  show ?thesis
  proof (cases "i < length (mc_threads s)")
    case False
    with inv Step show ?thesis by simp
  next
    case i: True
    let ?t = "mc_threads s ! i"
    obtain t' s' where step: "thread_step waited ?t s = (t', s')" by fastforce
    have quiet: "\<not> producer_waits ?t" "jq_max_size (mc_queue s) = 0 \<or> \<not> blocking_calls ?t"
      using inv nth_mem [OF i] unfolding awake_inv_def by blast+
    have max: "jq_max_size (mc_queue s') = jq_max_size (mc_queue s)"
      using thread_step_max_size [of waited ?t s] by (simp add: step)
    show ?thesis
    proof (cases "fst ?t = NotifyOne \<or> fst ?t = NotifyAll \<or> fst ?t = PopAsleep")
      case True
      then have s': "s' = s" and t': "t' = (if fst ?t = PopAsleep then ?t else (Ready, snd ?t))"
        using step by (auto simp: thread_step_def case_prod_beta)
      from True consider "fst ?t = NotifyOne" | "fst ?t = NotifyAll" | "fst ?t = PopAsleep" by blast
      then show ?thesis
      proof cases
        case 1
        with awake_notify_one [OF inv i, of k] show ?thesis by (simp add: Step i step s' t')
      next
        case 2
        with awake_notify_all [OF inv i] show ?thesis by (simp add: Step i step s' t')
      next
        case 3
        with inv show ?thesis by (simp add: Step i step s' t')
      qed
    next
      case False
      then have "\<not> asleep (fst ?t)" using quiet(1) by (cases "fst ?t") (simp_all add: producer_waits_def)
      from thread_step_ok [OF quiet(1) this _ _ quiet(2) step] False
      have "step_ok ?t s t' s'" by blast
      from awake_step_inv [OF inv i this max] False show ?thesis
        by (auto simp: Step i step Let_def split: pc.splits)
    qed
  qed
qed

interpretation awake: invariant_machine machine_step awake_inv
  by unfold_locales (rule machine_step_awake)

text \<open>A machine in which no thread can go on: every thread is asleep or has made all its calls.\<close>

definition stuck :: "'j machine \<Rightarrow> bool" where
  "stuck s \<longleftrightarrow> list_all (\<lambda>t. asleep (fst t) \<or> t = (Ready, [])) (mc_threads s)"

text \<open>
  C31. No worker sleeps through a job: as long as producers do not block, because the queue is unbounded or they only use
  \<open>TryPush\<close>, a machine in which every thread is asleep or finished and at least one is asleep has an empty queue that is not stopping.
\<close>

theorem job_queue_no_lost_wakeup:
  assumes "max_size = 0 \<or> (\<forall>calls \<in> set programs. \<forall>job. CallPush job \<notin> set calls)"
    and "stuck (foldl machine_step (machine_begin max_size m programs) es)"
    and "t \<in> set (mc_threads (foldl machine_step (machine_begin max_size m programs) es))" and "asleep (fst t)"
  shows "jq_jobs (mc_queue (foldl machine_step (machine_begin max_size m programs) es)) = [] \<and>
    \<not> jq_stopping (mc_queue (foldl machine_step (machine_begin max_size m programs) es))"
proof -
  let ?s = "foldl machine_step (machine_begin max_size m programs) es"
  have "awake_inv (machine_begin max_size m programs)"
    using assms(1) by (auto simp: awake_inv_def machine_begin_def JobQueue_init_def producer_waits_def blocking_calls_def)
  then have inv: "awake_inv ?s" by (rule awake.run_inv)
  have sleep: "fst u \<noteq> NotifyAll \<and> \<not> credit u" if "u \<in> set (mc_threads ?s)" for u
    using assms(2) that by (cases "fst u") (auto simp: stuck_def list_all_iff credit_def)
  then have "credits (mc_threads ?s) = 0" by (simp add: credits_def)
  moreover have "fst t = PopAsleep"
    using inv assms(3,4) by (cases "fst t") (auto simp: awake_inv_def producer_waits_def)
  ultimately show ?thesis using inv assms(3) sleep unfolding awake_inv_def by fastforce
qed

theorem job_queue_no_lost_wakeup_witness:
  "jq_jobs (mc_queue (foldl machine_step (machine_begin 2 metrics_init [[CallWorkerLoop], [CallTryPush (7 :: nat)]])
     [Step 0 0 0, Step 1 0 0, Step 1 0 0, Step 0 0 0, Step 0 0 0, Step 0 0 0])) = []"
proof -
  let ?s = "foldl machine_step (machine_begin 2 metrics_init [[CallWorkerLoop], [CallTryPush (7 :: nat)]])
     [Step 0 0 0, Step 1 0 0, Step 1 0 0, Step 0 0 0, Step 0 0 0, Step 0 0 0]"
  have st: "stuck ?s" and mem: "mc_threads ?s = [(PopAsleep, [CallWorkerLoop]), (Ready, [])]" by code_simp+
  show ?thesis
    by (rule conjunct1 [OF job_queue_no_lost_wakeup [OF _ st, of "(PopAsleep, [CallWorkerLoop])"]])
      (simp, subst mem, simp_all)
qed

text \<open>
  With blocking producers on a bounded queue the wake-up can be lost, because the one condition variable
  serves both sides: here a worker's notification of free room goes to the other worker, and both workers and both remaining
  producers sleep for ever although the queue is empty.
\<close>

lemma bounded_push_lost_wakeup:
  "let s = foldl machine_step
       (machine_begin 1 metrics_init
          [[CallWorkerLoop], [CallWorkerLoop], [CallPush (1 :: nat)], [CallPush 2], [CallPush 3]])
       [Step 0 0 0, Step 1 0 0, Step 2 0 0, Step 2 0 0, Step 3 0 0, Step 4 0 0, Step 0 0 0, Step 0 0 0,
        Step 1 0 0, Step 0 0 0]
   in stuck s \<and> map fst (mc_threads s) = [PopAsleep, PopAsleep, Ready, PushAsleep, PushAsleep] \<and>
      jq_jobs (mc_queue s) = [] \<and> mc_accepted s = [1]"
  by code_simp

text \<open>
  Stopping the thread manager makes the workers leave with jobs still queued; stopping only the
  queue lets them finish the jobs first.
\<close>

lemma manager_stop_drops_jobs:
  "let s = foldl machine_step
       (machine_begin 0 metrics_init [[CallWorkerLoop], [CallTryPush (1 :: nat), CallManagerStop]])
       [Step 1 0 0, Step 1 0 0, Step 1 0 0, Step 1 0 0, Step 1 0 0, Step 0 0 0]
   in mc_threads s = [(Ready, []), (Ready, [])] \<and> jq_jobs (mc_queue s) = [1] \<and> mc_taken s = []"
  by code_simp

end
