(* ===== verification/Worker_Shutdown.thy ===== *)
theory Worker_Shutdown
  imports Worker_Threads
begin

text \<open>
  The end of the worker threads: once the job queue is stopping, every fair schedule brings all threads to the end of
  their calls, so that the joins of \<^verbatim>\<open>ThreadManager::Stop\<close> (\<^verbatim>\<open>core/src/concurrent/thread_manager.cpp\<close>) return. A job itself
  counts as one that returns.
\<close>

section \<open>Nobody sleeps on after the notification\<close>

fun pop_call :: "'j call list \<Rightarrow> bool" where
  "pop_call (CallPop # calls) = True"
| "pop_call (CallWorkerLoop # calls) = True"
| "pop_call _ = False"

text \<open>A waiting thread waits in the call that its program has next.\<close>

fun wf_thread :: "'j thread \<Rightarrow> bool" where
  "wf_thread (pc, calls) =
     ((pc \<in> {PushAsleep, PushWoken} \<longrightarrow> push_job calls \<noteq> None) \<and> (pc \<in> {PopAsleep, PopWoken} \<longrightarrow> pop_call calls))"

definition stop_inv :: "'j machine \<Rightarrow> bool" where
  "stop_inv s \<longleftrightarrow>
     (\<forall>t \<in> set (mc_threads s). wf_thread t) \<and>
     (jq_stopping (mc_queue s) \<longrightarrow> (\<exists>t \<in> set (mc_threads s). asleep (fst t)) \<longrightarrow> (\<exists>t \<in> set (mc_threads s). fst t = NotifyAll))"

text \<open>What a step of a thread does to the flag and to its own state.\<close>

definition stop_step :: "'j machine \<Rightarrow> 'j thread \<times> 'j machine \<Rightarrow> bool" where
  "stop_step s r \<longleftrightarrow>
     wf_thread (fst r) \<and> (jq_stopping (mc_queue s) \<longrightarrow> jq_stopping (mc_queue (snd r)) \<and> \<not> asleep (fst (fst r))) \<and>
     (jq_stopping (mc_queue (snd r)) \<longrightarrow> jq_stopping (mc_queue s) \<or> fst (fst r) = NotifyAll) \<and>
     mc_threads (snd r) = mc_threads s"

lemma pop_outcome_stop: "pop_call calls \<Longrightarrow> stop_step s (pop_outcome calls s)"
  by (auto simp: stop_step_def pop_outcome_def JobQueue_Pop_def Let_def split: list.split)

lemma push_outcome_stop:
  "push_job calls \<noteq> None \<Longrightarrow> stop_step s (push_outcome job calls (jq_push_enter job (mc_queue s) (mc_metrics s)) s)"
  "push_job calls \<noteq> None \<Longrightarrow> stop_step s (push_outcome job calls (jq_push_resume waited job (mc_queue s) (mc_metrics s)) s)"
  "JobQueue_TryPush (Some job) (mc_queue s) (mc_metrics s) = (ok, r) \<Longrightarrow>
   stop_step s (push_outcome job calls (if ok then PushAccepted else PushRefused, r) s)"
  by (auto simp: stop_step_def push_outcome_def queue_defs split: if_splits)

lemma ready_step_stop: "stop_step s (ready_step calls s)"
proof (cases "(calls, s)" rule: ready_step.cases)
  case (3 job rest s')
  then show ?thesis by (auto simp: push_outcome_stop split: prod.split)
next
  case (6 rest s')
  then show ?thesis by (simp add: stop_step_def JobQueue_Stop_def Let_def)
qed (auto simp: pop_outcome_stop push_outcome_stop, auto simp: stop_step_def)

lemma thread_step_stop:
  assumes "wf_thread t" "\<not> asleep (fst t)"
  shows "stop_step s (thread_step waited t s)"
  using assms
  by (cases t; cases "fst t")
    (auto simp: thread_step_def ready_step_stop pop_outcome_stop push_outcome_stop, auto simp: stop_step_def)

lemma thread_step_asleep: "asleep (fst t) \<Longrightarrow> thread_step waited t s = (t, s)"
  by (cases t; cases "fst t") (simp_all add: thread_step_def)

section \<open>The work that is left\<close>

text \<open>
  Every step of a thread on a stopping queue leaves less to do: a call counts two, stopping the manager four because it goes on
  to stop the queue, a queued job two because a worker that takes it stays in its loop, a notification or a wait one.
\<close>

fun call_work :: "'j call \<Rightarrow> nat" where
  "call_work CallManagerStop = 4"
| "call_work _ = 2"

fun pc_work :: "pc \<Rightarrow> nat" where
  "pc_work Ready = 0"
| "pc_work PushWoken = 0"
| "pc_work PopWoken = 0"
| "pc_work _ = 1"

definition thread_work :: "'j thread \<Rightarrow> nat" where
  "thread_work t = pc_work (fst t) + sum_list (map call_work (snd t))"

definition work_left :: "'j machine \<Rightarrow> nat" where
  "work_left s = sum_list (map thread_work (mc_threads s)) + 2 * length (jq_jobs (mc_queue s))"

definition less_work :: "'j thread \<Rightarrow> 'j machine \<Rightarrow> 'j thread \<times> 'j machine \<Rightarrow> bool" where
  "less_work t s r \<longleftrightarrow>
     thread_work (fst r) + 2 * length (jq_jobs (mc_queue (snd r))) < thread_work t + 2 * length (jq_jobs (mc_queue s))"

lemma pop_outcome_work:
  assumes "jq_stopping (mc_queue s)" "pop_call calls" "pc \<in> {Ready, PopWoken}"
  shows "less_work (pc, calls) s (pop_outcome calls s)"
  using assms
  by (cases calls rule: pop_call.cases)
    (auto simp: less_work_def thread_work_def pop_outcome_def after_pop_def JobQueue_Pop_def Let_def split: list.split)

lemma push_outcome_work:
  assumes "jq_stopping (mc_queue s)" "pc \<in> {Ready, PushWoken}"
  shows "less_work (pc, c # calls) s (push_outcome job (c # calls) (jq_push_enter job (mc_queue s) (mc_metrics s)) s)"
    "less_work (pc, c # calls) s (push_outcome job (c # calls) (jq_push_resume waited job (mc_queue s) (mc_metrics s)) s)"
    "less_work (pc, c # calls) s (push_outcome job (c # calls) (PushRefused, mc_queue s, mc_metrics s) s)"
  using assms by (cases c; auto simp: less_work_def thread_work_def push_outcome_def queue_defs)+

lemma ready_step_work:
  assumes "jq_stopping (mc_queue s)" "calls \<noteq> []"
  shows "less_work (Ready, calls) s (ready_step calls s)"
proof (cases "(calls, s)" rule: ready_step.cases)
  case (3 job rest s')
  with assms show ?thesis by (simp add: JobQueue_TryPush_def push_outcome_work)
qed (use assms in \<open>auto simp: pop_outcome_work push_outcome_work,
       auto simp: less_work_def thread_work_def JobQueue_Stop_def Let_def\<close>)

lemma thread_step_work:
  assumes "jq_stopping (mc_queue s)" "wf_thread t" "\<not> asleep (fst t)" "t \<noteq> (Ready, [])"
  shows "less_work t s (thread_step waited t s)"
proof -
  obtain pc calls where t: "t = (pc, calls)" by (cases t)
  show ?thesis
  proof (cases pc)
    case PushWoken
    with assms t obtain job rest where "calls = CallPush job # rest" by (cases calls rule: push_job.cases) auto
    with assms t PushWoken show ?thesis by (simp add: thread_step_def push_outcome_work)
  qed (use assms t in \<open>auto simp: thread_step_def ready_step_work pop_outcome_work,
         auto simp: less_work_def thread_work_def\<close>)
qed

section \<open>Steps of the machine\<close>

lemma wf_woken: "wf_thread (pc, calls) \<Longrightarrow> wf_thread (woken pc, calls)"
  by (cases pc) simp_all

lemma woken_not_asleep [simp]: "\<not> asleep (woken pc)"
  by (cases pc) simp_all

lemma woken_NotifyAll [simp]: "woken pc = NotifyAll \<longleftrightarrow> pc = NotifyAll"
  by (cases pc) simp_all

lemma woken_work: "thread_work (woken pc, calls) \<le> thread_work (pc, calls)"
  "asleep pc \<Longrightarrow> thread_work (woken pc, calls) < thread_work (pc, calls)"
  by (cases pc; simp add: thread_work_def)+

lemma sum_work_update:
  "i < length ts \<Longrightarrow> sum_list (map thread_work (ts[i := t])) + thread_work (ts ! i) = sum_list (map thread_work ts) + thread_work t"
  using member_le_sum_list [of "thread_work (ts ! i)" "map thread_work ts"]
  by (simp add: map_update sum_list_update)

lemma wake_work:
  assumes "i < length ts"
  shows "sum_list (map thread_work (wake ts i)) \<le> sum_list (map thread_work ts)"
    and "asleep (fst (ts ! i)) \<Longrightarrow> sum_list (map thread_work (wake ts i)) < sum_list (map thread_work ts)"
  using sum_work_update [OF assms, of "(woken (fst (ts ! i)), snd (ts ! i))"] woken_work [of "fst (ts ! i)" "snd (ts ! i)"]
  by (simp_all add: wake_def)

lemma sleeper_index: "sleepers ts \<noteq> [] \<Longrightarrow> sleepers ts ! (k mod length (sleepers ts)) < length ts"
  using sleepers_iff [of "sleepers ts ! (k mod length (sleepers ts))" ts] by simp

lemma notify_work:
  "sum_list (map thread_work (notify_one k ts)) \<le> sum_list (map thread_work ts)"
  "sum_list (map thread_work (notify_all ts)) \<le> sum_list (map thread_work ts)"
proof -
  show "sum_list (map thread_work (notify_one k ts)) \<le> sum_list (map thread_work ts)"
    by (simp add: notify_one_def wake_work sleeper_index)
  show "sum_list (map thread_work (notify_all ts)) \<le> sum_list (map thread_work ts)"
    unfolding notify_all_def map_map by (rule sum_list_mono) (auto simp: woken_work)
qed

lemma step_work:
  assumes "stop_inv s" "jq_stopping (mc_queue s)" "i < length (mc_threads s)"
    and "\<not> asleep (fst (mc_threads s ! i))" "mc_threads s ! i \<noteq> (Ready, [])"
  shows "work_left (machine_step s (Step i k waited)) < work_left s"
proof -
  let ?t = "mc_threads s ! i"
  obtain t' s' where r: "thread_step waited ?t s = (t', s')" by (cases "thread_step waited ?t s")
  have wf: "wf_thread ?t" using assms(1,3) by (simp add: stop_inv_def)
  have "less_work ?t s (t', s')" using thread_step_work [OF assms(2) wf assms(4,5)] r by metis
  then have less: "thread_work t' + 2 * length (jq_jobs (mc_queue s')) < thread_work ?t + 2 * length (jq_jobs (mc_queue s))"
    by (simp add: less_work_def)
  have "sum_list (map thread_work (mc_threads (machine_step s (Step i k waited))))
      \<le> sum_list (map thread_work ((mc_threads s)[i := t']))"
    using assms(3) r by (simp add: Let_def notify_work split: pc.split)
  moreover have "mc_queue (machine_step s (Step i k waited)) = mc_queue s'" using assms(3) r by (simp add: Let_def)
  ultimately show ?thesis using less sum_work_update [OF assms(3), of t'] by (simp add: work_left_def)
qed

lemma idle_step:
  assumes "asleep (fst (mc_threads s ! i)) \<or> mc_threads s ! i = (Ready, [])"
  shows "machine_step s (Step i k waited) = s"
proof -
  have "thread_step waited (mc_threads s ! i) s = (mc_threads s ! i, s)"
    using assms thread_step_asleep [of "mc_threads s ! i"] by (auto simp: thread_step_def)
  moreover have "fst (mc_threads s ! i) \<noteq> NotifyOne" "fst (mc_threads s ! i) \<noteq> NotifyAll" using assms by auto
  ultimately show ?thesis by (simp add: Let_def split: pc.split)
qed

lemma machine_step_work:
  assumes "stop_inv s" "jq_stopping (mc_queue s)"
  shows "machine_step s e = s \<or> work_left (machine_step s e) < work_left s"
proof (cases e)
  case (Step i k waited)
  show ?thesis
  proof (cases "i < length (mc_threads s) \<and> \<not> asleep (fst (mc_threads s ! i)) \<and> mc_threads s ! i \<noteq> (Ready, [])")
    case True
    with step_work [OF assms] Step show ?thesis by blast
  next
    case False
    with idle_step [of s i k waited] Step show ?thesis by auto
  qed
next
  case (Spurious i)
  then show ?thesis by (simp add: work_left_def wake_work)
qed

section \<open>The invariant\<close>

lemma stop_inv_wake:
  assumes "stop_inv s" "i < length (mc_threads s)" "asleep (fst (mc_threads s ! i))"
  shows "stop_inv (s\<lparr>mc_threads := wake (mc_threads s) i\<rparr>)"
proof -
  let ?ts = "mc_threads s" and ?t = "(woken (fst (mc_threads s ! i)), snd (mc_threads s ! i))"
  have ts: "set (wake ?ts i) \<subseteq> insert ?t (set ?ts)" unfolding wake_def by (rule set_update_subset_insert)
  have wf: "wf_thread ?t" using assms by (intro wf_woken) (simp add: stop_inv_def)
  have "\<forall>t \<in> set (wake ?ts i). wf_thread t"
  proof
    fix t assume "t \<in> set (wake ?ts i)"
    with ts have "t = ?t \<or> t \<in> set ?ts" by blast
    with wf assms(1) show "wf_thread t" by (auto simp: stop_inv_def simp del: wf_thread.simps)
  qed
  moreover have "\<exists>t \<in> set (wake ?ts i). fst t = NotifyAll"
    if stopping: "jq_stopping (mc_queue s)" and u: "u \<in> set (wake ?ts i)" "asleep (fst u)" for u
  proof -
    have "u \<in> set ?ts" using ts u by auto
    with assms(1) stopping u(2) obtain v where v: "v \<in> set ?ts" "fst v = NotifyAll" unfolding stop_inv_def by blast
    have "v \<in> set (wake ?ts i)"
      unfolding wake_def using v assms(3) by (intro in_set_update_other) auto
    with v(2) show ?thesis by blast
  qed
  ultimately show ?thesis unfolding stop_inv_def by simp blast
qed

lemma stop_inv_notify_one:
  assumes "stop_inv (s\<lparr>mc_threads := ts\<rparr>)"
  shows "stop_inv (s\<lparr>mc_threads := notify_one k ts\<rparr>)"
proof (cases "sleepers ts = []")
  case False
  let ?j = "sleepers ts ! (k mod length (sleepers ts))"
  have "?j < length ts" "asleep (fst (ts ! ?j))" using False sleepers_iff [of ?j ts] by simp_all
  with stop_inv_wake [OF assms, of ?j] False show ?thesis by (simp add: notify_one_def)
qed (use assms in \<open>simp add: notify_one_def\<close>)

lemma stop_inv_notify_all:
  assumes "\<forall>t \<in> set ts. wf_thread t"
  shows "stop_inv (s\<lparr>mc_threads := notify_all ts\<rparr>)"
  using assms by (auto simp: stop_inv_def notify_all_def simp del: wf_thread.simps intro: wf_woken)

lemma machine_step_stop: "stop_inv s \<Longrightarrow> stop_inv (machine_step s e)"
proof (cases e)
  case (Step i k waited)
  assume inv: "stop_inv s"
  show ?thesis
  proof (cases "i < length (mc_threads s) \<and> \<not> asleep (fst (mc_threads s ! i))")
    case True
    let ?t = "mc_threads s ! i"
    obtain t' s' where r: "thread_step waited ?t s = (t', s')" by (cases "thread_step waited ?t s")
    have "wf_thread ?t" using inv True by (simp add: stop_inv_def)
    then have st: "stop_step s (t', s')" using thread_step_stop [of ?t s waited] True r by simp
    have ts: "set ((mc_threads s)[i := t']) \<subseteq> insert t' (set (mc_threads s))" by (rule set_update_subset_insert)
    have mem: "t' \<in> set ((mc_threads s)[i := t'])" using True by (simp add: set_update_memI)
    have wf: "\<forall>t \<in> set ((mc_threads s)[i := t']). wf_thread t"
      using st inv ts by (auto simp: stop_step_def stop_inv_def)
    have "stop_inv (s'\<lparr>mc_threads := (mc_threads s)[i := t']\<rparr>)" if "fst ?t \<noteq> NotifyAll"
    proof -
      have "u \<in> set ((mc_threads s)[i := t'])" if "u \<in> set (mc_threads s)" "fst u = NotifyAll" for u
        using that \<open>fst ?t \<noteq> NotifyAll\<close> by (intro in_set_update_other) auto
      with st inv wf mem ts show ?thesis by (simp add: stop_step_def stop_inv_def) blast
    qed
    then show ?thesis
      using True Step r by (simp add: Let_def stop_inv_notify_one stop_inv_notify_all wf split: pc.split)
  next
    case False
    with inv Step idle_step [of s i k waited] show ?thesis by auto
  qed
qed (simp add: stop_inv_wake)

interpretation stop: invariant_machine machine_step stop_inv
  by unfold_locales (rule machine_step_stop)

lemma machine_step_stopping:
  assumes "stop_inv s" "jq_stopping (mc_queue s)"
  shows "jq_stopping (mc_queue (machine_step s e))"
proof (cases e)
  case (Step i k waited)
  show ?thesis
  proof (cases "i < length (mc_threads s) \<and> \<not> asleep (fst (mc_threads s ! i))")
    case True
    with assms thread_step_stop [of "mc_threads s ! i" s waited] Step show ?thesis
      by (simp add: stop_inv_def stop_step_def case_prod_beta Let_def)
  next
    case False
    with assms Step idle_step [of s i k waited] show ?thesis by auto
  qed
qed (simp add: assms)

section \<open>Workers leave an empty queue\<close>

text \<open>Unless the manager is stopped, a worker leaves its loop only when the queue is stopping and empty.\<close>

definition drained :: "'j machine \<Rightarrow> bool" where
  "drained s \<longleftrightarrow> mc_manager_stopped s \<or> (jq_stopping (mc_queue s) \<and> jq_jobs (mc_queue s) = [])"

definition drain_inv :: "'j machine \<Rightarrow> bool" where
  "drain_inv s \<longleftrightarrow> drained s \<or> (\<exists>calls \<in> set (map snd (mc_threads s)). CallWorkerLoop \<in> set calls)"

definition drain_step :: "'j call list \<Rightarrow> 'j machine \<Rightarrow> 'j thread \<times> 'j machine \<Rightarrow> bool" where
  "drain_step calls s r \<longleftrightarrow>
     (drained s \<longrightarrow> drained (snd r)) \<and>
     (CallWorkerLoop \<in> set calls \<longrightarrow> drained (snd r) \<or> CallWorkerLoop \<in> set (snd (fst r)))"

lemma pop_outcome_drain: "drain_step calls s (pop_outcome calls s)"
  by (auto simp: drain_step_def drained_def pop_outcome_def after_pop_def JobQueue_Pop_def Let_def
      split: list.splits call.splits if_splits)

lemma push_outcome_drain:
  "c \<noteq> CallWorkerLoop \<Longrightarrow> drain_step (c # calls) s (push_outcome job (c # calls) (jq_push_enter job (mc_queue s) (mc_metrics s)) s)"
  "c \<noteq> CallWorkerLoop \<Longrightarrow> drain_step (c # calls) s (push_outcome job (c # calls) (jq_push_resume waited job (mc_queue s) (mc_metrics s)) s)"
  "c \<noteq> CallWorkerLoop \<Longrightarrow> JobQueue_TryPush (Some job) (mc_queue s) (mc_metrics s) = (ok, r) \<Longrightarrow>
   drain_step (c # calls) s (push_outcome job (c # calls) (if ok then PushAccepted else PushRefused, r) s)"
  by (auto simp: drain_step_def drained_def push_outcome_def queue_defs split: if_splits)

lemma ready_step_drain: "drain_step calls s (ready_step calls s)"
proof (cases "(calls, s)" rule: ready_step.cases)
  case (3 job rest s')
  then show ?thesis by (auto simp: push_outcome_drain split: prod.split)
qed (auto simp: pop_outcome_drain push_outcome_drain, auto simp: drain_step_def drained_def JobQueue_Stop_def Let_def)

lemma thread_step_drain: "drain_step (snd t) s (thread_step waited t s)"
proof -
  obtain pc calls where t: "t = (pc, calls)" by (cases t)
  show ?thesis
  proof (cases pc)
    case PushWoken
    with t show ?thesis
      by (cases calls rule: push_job.cases) (auto simp: thread_step_def push_outcome_drain, auto simp: drain_step_def)
  qed (auto simp: t thread_step_def ready_step_drain pop_outcome_drain, auto simp: drain_step_def)
qed

lemma notify_calls: "map snd (notify_one k ts) = map snd ts" "map snd (notify_all ts) = map snd ts" "map snd (wake ts i) = map snd ts"
proof -
  show "map snd (wake ts i) = map snd ts" for i
    by (cases "i < length ts") (simp_all add: wake_def map_update list_update_same_conv not_less list_update_beyond)
  then show "map snd (notify_one k ts) = map snd ts" by (simp add: notify_one_def)
qed (simp add: notify_all_def case_prod_beta)

lemma machine_step_drain: "drain_inv s \<Longrightarrow> drain_inv (machine_step s e)"
proof (cases e)
  case (Step i k waited)
  assume inv: "drain_inv s"
  show ?thesis
  proof (cases "i < length (mc_threads s)")
    case True
    obtain t' s' where r: "thread_step waited (mc_threads s ! i) s = (t', s')" by (cases "thread_step waited (mc_threads s ! i) s")
    have st: "drain_step (snd (mc_threads s ! i)) s (t', s')" using thread_step_drain [of "mc_threads s ! i" s waited] r by simp
    have "map snd (mc_threads (machine_step s e)) = (map snd (mc_threads s))[i := snd t']"
      using True Step r by (simp add: Let_def notify_calls map_update split: pc.split)
    moreover have "drained (machine_step s e) = drained s'" using True Step r by (simp add: Let_def drained_def)
    moreover have "calls \<in> set ((map snd (mc_threads s))[i := snd t'])"
      if "calls \<in> set (map snd (mc_threads s))" "calls \<noteq> snd (mc_threads s ! i)" for calls
      using that True by (intro in_set_update_other) simp_all
    moreover have "snd t' \<in> set ((map snd (mc_threads s))[i := snd t'])" using True by (simp add: set_update_memI)
    ultimately show ?thesis using inv st unfolding drain_inv_def drain_step_def by (metis fst_conv snd_conv)
  qed (use inv Step in simp)
next
  case (Spurious i)
  assume "drain_inv s"
  with Spurious show ?thesis by (simp add: drain_inv_def drained_def notify_calls flip: set_map)
qed

interpretation drain: invariant_machine machine_step drain_inv
  by unfold_locales (rule machine_step_drain)

section \<open>Every thread comes to its end\<close>

text \<open>A schedule is fair if every thread gets its turn again and again. Wake-ups may be spurious at any time.\<close>

definition fair :: "nat \<Rightarrow> (nat \<Rightarrow> event) \<Rightarrow> bool" where
  "fair n ev \<longleftrightarrow> (\<forall>i < n. \<forall>m. \<exists>m' \<ge> m. \<exists>k waited. ev m' = Step i k waited)"

definition machine_run :: "(nat \<Rightarrow> event) \<Rightarrow> nat \<Rightarrow> 'j machine \<Rightarrow> 'j machine" where
  "machine_run ev n s = foldl machine_step s (map ev [0..<n])"

definition all_ended :: "'j machine \<Rightarrow> bool" where
  "all_ended s \<longleftrightarrow> list_all (\<lambda>t. t = (Ready, [])) (mc_threads s)"

lemma fair_shift:
  assumes "fair n ev"
  shows "fair n (\<lambda>i. ev (i + m))"
  unfolding fair_def
proof (intro allI impI)
  fix i m0 assume "i < n"
  with assms obtain m' k waited where "m0 + m \<le> m'" "ev m' = Step i k waited" unfolding fair_def by blast
  then show "\<exists>m' \<ge> m0. \<exists>k waited. ev (m' + m) = Step i k waited" by (intro exI [of _ "m' - m"]) simp
qed

lemma machine_run_simps [simp]: "machine_run ev 0 s = s" "machine_run ev (Suc n) s = machine_step (machine_run ev n s) (ev n)"
  by (simp_all add: machine_run_def)

lemma machine_run_add: "machine_run ev (m + n) s = machine_run (\<lambda>i. ev (i + m)) n (machine_run ev m s)"
  by (induction n) (simp_all add: add.commute)

lemma machine_step_threads: "length (mc_threads (machine_step s e)) = length (mc_threads s)"
proof -
  have "length (notify_one k ts) = length ts" "length (notify_all ts) = length ts" "length (wake ts i) = length ts"
    for k i and ts :: "'a thread list"
    using arg_cong [OF notify_calls(1), of length k ts] by (simp_all add: notify_all_def wake_def)
  then show ?thesis by (cases e) (simp_all add: case_prod_beta Let_def split: pc.split)
qed

lemma run_keeps:
  assumes "stop_inv s" "jq_stopping (mc_queue s)"
  shows "stop_inv (machine_run ev n s) \<and> jq_stopping (mc_queue (machine_run ev n s))
    \<and> length (mc_threads (machine_run ev n s)) = length (mc_threads s)
    \<and> (machine_run ev n s = s \<or> work_left (machine_run ev n s) < work_left s)"
proof (induction n)
  case (Suc n)
  then show ?case
    using machine_step_work [of "machine_run ev n s" "ev n"]
    by (auto simp: machine_step_stop machine_step_stopping machine_step_threads)
qed (simp add: assms)

lemma some_thread_goes_on:
  assumes "stop_inv s" "jq_stopping (mc_queue s)" "\<not> all_ended s"
  obtains i where "i < length (mc_threads s)" "\<not> asleep (fst (mc_threads s ! i))" "mc_threads s ! i \<noteq> (Ready, [])"
proof -
  obtain t where t: "t \<in> set (mc_threads s)" "t \<noteq> (Ready, [])" using assms(3) by (auto simp: all_ended_def list_all_iff)
  have "\<exists>u \<in> set (mc_threads s). \<not> asleep (fst u) \<and> u \<noteq> (Ready, [])"
  proof (cases "asleep (fst t)")
    case True
    with assms(1,2) t obtain u where "u \<in> set (mc_threads s)" "fst u = NotifyAll" unfolding stop_inv_def by blast
    then show ?thesis by (intro bexI [of _ u]) auto
  qed (use t in blast)
  then show thesis using that by (metis in_set_conv_nth)
qed

lemma fair_run_ends:
  assumes "stop_inv s" "jq_stopping (mc_queue s)" "fair (length (mc_threads s)) ev"
  shows "\<exists>n. all_ended (machine_run ev n s)"
  using assms
proof (induction "work_left s" arbitrary: s ev rule: less_induct)
  case less
  show ?case
  proof (cases "all_ended s")
    case True
    then show ?thesis by (intro exI [of _ 0]) simp
  next
    case False
    then obtain i where i: "i < length (mc_threads s)" "\<not> asleep (fst (mc_threads s ! i))" "mc_threads s ! i \<noteq> (Ready, [])"
      by (rule some_thread_goes_on [OF less.prems(1,2)])
    from less.prems(3) i(1) obtain m k waited where m: "ev m = Step i k waited" unfolding fair_def by blast
    let ?s = "machine_run ev (Suc m) s"
    have keeps: "stop_inv ?s" "jq_stopping (mc_queue ?s)" "length (mc_threads ?s) = length (mc_threads s)"
      using run_keeps [OF less.prems(1,2), of ev "Suc m"] by simp_all
    have "work_left ?s < work_left s"
      using run_keeps [OF less.prems(1,2), of ev m] machine_step_work [of "machine_run ev m s" "ev m"]
        step_work [OF less.prems(1,2) i, of k waited] m by auto
    from less.hyps [OF this keeps(1,2)] fair_shift [OF less.prems(3), of "Suc m"] keeps(3)
    obtain n where "all_ended (machine_run (\<lambda>i. ev (i + Suc m)) n ?s)" by metis
    then have "all_ended (machine_run ev (Suc m + n) s)" by (simp only: machine_run_add)
    then show ?thesis by blast
  qed
qed

text \<open>
  C9. Stopping ends the threads: whatever happened before the queue was stopped, on every fair schedule every
  thread, worker or producer, asleep or not, comes to the end of its calls, and if there was a worker and the manager was
  not stopped as well, every job that was accepted has been taken by then.
\<close>

theorem workers_end:
  assumes "jq_stopping (mc_queue (foldl machine_step (machine_begin max_size m programs) es))"
    and "fair (length programs) ev"
  shows "\<exists>n. let s = machine_run ev n (foldl machine_step (machine_begin max_size m programs) es) in
     all_ended s \<and>
     (mc_manager_stopped s \<or> CallWorkerLoop \<notin> \<Union> (set ` set programs) \<or> mc_taken s = mc_accepted s)"
proof -
  let ?begun = "foldl machine_step (machine_begin max_size m programs)"
  let ?init = "machine_begin max_size m programs"
  have len: "length (mc_threads (foldl machine_step s es)) = length (mc_threads s)" for s :: "'a machine" and es
    by (induction es arbitrary: s) (simp_all add: machine_step_threads)
  have "stop_inv ?init" by (auto simp: stop_inv_def machine_begin_def JobQueue_init_def)
  then have "stop_inv (?begun es)" by (rule stop.run_inv)
  moreover have "length (mc_threads (?begun es)) = length programs"
    unfolding len by (simp add: machine_begin_def JobQueue_init_def)
  ultimately obtain n where n: "all_ended (machine_run ev n (?begun es))" using fair_run_ends assms by metis
  let ?s = "machine_run ev n (?begun es)"
  have run: "?s = foldl machine_step ?init (es @ map ev [0..<n])" by (simp add: machine_run_def)
  have "mc_taken ?s = mc_accepted ?s" if "\<not> mc_manager_stopped ?s" "CallWorkerLoop \<in> \<Union> (set ` set programs)"
  proof -
    have "drain_inv ?init" using that(2) by (auto simp: drain_inv_def machine_begin_def JobQueue_init_def)
    then have "drain_inv ?s" unfolding run by (rule drain.run_inv)
    moreover have "fifo_inv ?s" unfolding run by (rule fifo.run_inv [OF machine_begin_fifo])
    ultimately show ?thesis using that(1) n by (auto simp: drain_inv_def drained_def all_ended_def list_all_iff fifo_inv_def)
  qed
  with n show ?thesis by (intro exI [of _ n]) (auto simp: Let_def)
qed

theorem workers_end_witness:
  "\<exists>n. let s = machine_run (\<lambda>n. Step (n mod 2) 0 0) n
       (foldl machine_step (machine_begin 2 metrics_init [[CallWorkerLoop], [CallTryPush (7 :: nat), CallStop]])
         [Step 0 0 0, Step 1 0 0, Spurious 0, Step 1 0 0, Step 1 0 0]) in
     all_ended s \<and>
     (mc_manager_stopped s \<or> CallWorkerLoop \<notin> \<Union> (set ` set [[CallWorkerLoop], [CallTryPush (7 :: nat), CallStop]])
      \<or> mc_taken s = mc_accepted s)"
proof (rule workers_end)
  show "jq_stopping (mc_queue (foldl machine_step
      (machine_begin 2 metrics_init [[CallWorkerLoop], [CallTryPush (7 :: nat), CallStop]])
      [Step 0 0 0, Step 1 0 0, Spurious 0, Step 1 0 0, Step 1 0 0]))"
    by code_simp
  have "\<exists>m' \<ge> m. \<exists>k waited. Step (m' mod 2) 0 0 = Step i k waited" if "i < 2" for i m
    using that by (intro exI [of _ "2 * m + i"]) (auto simp: mod_add_eq)
  then show "fair (length [[CallWorkerLoop], [CallTryPush (7 :: nat), CallStop]]) (\<lambda>n. Step (n mod 2) 0 0)"
    by (simp add: fair_def)
qed

end
