(* ===== verification/Memory_Pool.thy ===== *)
theory Memory_Pool
  imports Runtime_Metrics
begin

text \<open>
  The fixed-block memory pool and the buffer manager on top of it
  (\<^verbatim>\<open>core/src/memory/memory_pool.cpp\<close>). A pointer is its byte offset from the start of the chunk, so that
  pointers outside of the chunk are offsets outside of its bounds, and \<open>None\<close> is the null pointer. The free
  stack is a list with its top first. A \<open>PooledBuffer\<close> is a handle in a list: dropping the
  handle runs the deleter, as destroying the \<open>unique_ptr\<close> does.
\<close>

section \<open>The pool\<close>

record MemoryPool =
  mp_block_size :: nat
  mp_block_count :: nat
  mp_chunk_size :: nat
  mp_free_list :: "int list"

definition MemoryPool_init :: "nat \<Rightarrow> nat \<Rightarrow> metrics \<Rightarrow> MemoryPool \<times> metrics" where
  "MemoryPool_init block_size block_count m =
     (if block_size = 0 \<or> block_count = 0
      then (\<lparr>mp_block_size = block_size, mp_block_count = 0, mp_chunk_size = 0, mp_free_list = []\<rparr>,
            register_memory_pool_capacity 0 m)
      else (\<lparr>mp_block_size = block_size, mp_block_count = block_count,
             mp_chunk_size = block_size * block_count,
             mp_free_list = rev (map (\<lambda>i. int (i * block_size)) [0..<block_count])\<rparr>,
            register_memory_pool_capacity block_count m))"

definition pool_acquire :: "MemoryPool \<Rightarrow> metrics \<Rightarrow> int option \<times> MemoryPool \<times> metrics" where
  "pool_acquire p m =
     (case mp_free_list p of
        [] \<Rightarrow> (None, p, m)
      | ptr # rest \<Rightarrow> (Some ptr, p\<lparr>mp_free_list := rest\<rparr>, record_memory_pool_acquire m))"

definition pool_release :: "int option \<Rightarrow> MemoryPool \<Rightarrow> metrics \<Rightarrow> MemoryPool \<times> metrics" where
  "pool_release ptr p m =
     (case ptr of
        None \<Rightarrow> (p, m)
      | Some offset \<Rightarrow>
          if mp_chunk_size p = 0 \<or> mp_block_size p = 0 \<or> mp_block_count p = 0 then (p, m)
          else if offset < 0 \<or> int (mp_chunk_size p) \<le> offset then (p, m)
          else if nat offset mod mp_block_size p \<noteq> 0 then (p, m)
          else if mp_block_count p \<le> length (mp_free_list p) then (p, m)
          else (p\<lparr>mp_free_list := offset # mp_free_list p\<rparr>, record_memory_pool_release m))"

section \<open>The buffer manager\<close>

record BufferManager =
  bm_pool :: MemoryPool
  bm_block_size :: nat

definition BufferManager_init :: "nat \<Rightarrow> nat \<Rightarrow> metrics \<Rightarrow> BufferManager \<times> metrics" where
  "BufferManager_init block_size block_count m =
     (case MemoryPool_init block_size block_count m of
        (p, m') \<Rightarrow> (\<lparr>bm_pool = p, bm_block_size = block_size\<rparr>, m'))"

definition BufferManager_acquire :: "BufferManager \<Rightarrow> metrics \<Rightarrow> int option \<times> BufferManager \<times> metrics" where
  "BufferManager_acquire b m =
     (case pool_acquire (bm_pool b) m of (ptr, p, m') \<Rightarrow> (ptr, b\<lparr>bm_pool := p\<rparr>, m'))"

text \<open>The deleter of a pooled buffer; an empty \<open>unique_ptr\<close> runs none.\<close>

definition BufferManager_drop :: "int option \<Rightarrow> BufferManager \<Rightarrow> metrics \<Rightarrow> BufferManager \<times> metrics" where
  "BufferManager_drop handle b m =
     (case handle of
        None \<Rightarrow> (b, m)
      | Some ptr \<Rightarrow> (case pool_release (Some ptr) (bm_pool b) m of (p, m') \<Rightarrow> (b\<lparr>bm_pool := p\<rparr>, m')))"

section \<open>Ownership of blocks\<close>

text \<open>
  A pool with the handles that its clients hold. The invariant: free blocks and held blocks are
  together all the blocks of the chunk, each once.
\<close>

definition pool_blocks :: "MemoryPool \<Rightarrow> int set" where
  "pool_blocks p = (\<lambda>i. int (i * mp_block_size p)) ` {..<mp_block_count p}"

lemma pool_blocks_update [simp]: "pool_blocks (p\<lparr>mp_free_list := xs\<rparr>) = pool_blocks p"
  by (simp add: pool_blocks_def)

definition pool_inv :: "MemoryPool \<Rightarrow> int list \<Rightarrow> bool" where
  "pool_inv p held \<longleftrightarrow>
     mp_chunk_size p = mp_block_size p * mp_block_count p \<and> (mp_block_size p = 0 \<longrightarrow> mp_block_count p = 0) \<and>
     distinct (mp_free_list p @ held) \<and> set (mp_free_list p @ held) = pool_blocks p"

lemma pool_inv_length: "pool_inv p held \<Longrightarrow> length (mp_free_list p) + length held = mp_block_count p"
proof -
  assume inv: "pool_inv p held"
  have "inj_on (\<lambda>i. int (i * mp_block_size p)) {..<mp_block_count p}"
    using inv by (auto simp: pool_inv_def inj_on_def)
  then have "card (pool_blocks p) = mp_block_count p"
    by (simp add: pool_blocks_def card_image)
  with inv have "length (mp_free_list p @ held) = mp_block_count p"
    unfolding pool_inv_def by (metis distinct_card)
  then show ?thesis by simp
qed

lemma MemoryPool_init_inv: "pool_inv (fst (MemoryPool_init bs n m)) []"
  by (auto simp: MemoryPool_init_def pool_inv_def pool_blocks_def distinct_map inj_on_def lessThan_atLeast0)

lemma pool_acquire_inv:
  "pool_inv p held \<Longrightarrow> pool_acquire p m = (ptr, p', m') \<Longrightarrow>
   pool_inv p' (case ptr of None \<Rightarrow> held | Some b \<Rightarrow> b # held)"
  by (auto simp: pool_acquire_def pool_inv_def split: list.splits)

text \<open>A held block passes all the checks of the release, so that it always comes back.\<close>

lemma pool_release_held:
  assumes "pool_inv p held" and "b \<in> set held"
  shows "pool_release (Some b) p m = (p\<lparr>mp_free_list := b # mp_free_list p\<rparr>, record_memory_pool_release m)"
    and "pool_inv (p\<lparr>mp_free_list := b # mp_free_list p\<rparr>) (remove1 b held)"
proof -
  have "b \<in> pool_blocks p" using assms by (auto simp: pool_inv_def)
  then obtain i where i: "i < mp_block_count p" "b = int (i * mp_block_size p)"
    by (auto simp: pool_blocks_def)
  have pos: "0 < mp_block_size p" "0 < mp_block_count p"
    using i assms(1) by (auto simp: pool_inv_def)
  have "i * mp_block_size p < mp_block_size p * mp_block_count p"
    using i pos by (simp add: mult.commute)
  then have b: "\<not> b < 0" "\<not> int (mp_chunk_size p) \<le> b" "nat b mod mp_block_size p = 0"
    using assms(1) i by (simp_all add: pool_inv_def nat_mult_distrib flip: of_nat_mult)
  have "length (mp_free_list p) < mp_block_count p"
    using pool_inv_length [OF assms(1)] assms(2) by (cases held) auto
  with b pos assms(1) show "pool_release (Some b) p m =
      (p\<lparr>mp_free_list := b # mp_free_list p\<rparr>, record_memory_pool_release m)"
    by (auto simp: pool_release_def pool_inv_def)
  show "pool_inv (p\<lparr>mp_free_list := b # mp_free_list p\<rparr>) (remove1 b held)"
    using assms by (auto simp: pool_inv_def)
qed

text \<open>The clients of a buffer manager: acquire a buffer, or drop the handle at an index.\<close>

datatype pool_op = PoolAcquire | PoolDrop nat

type_synonym pool_state = "BufferManager \<times> int list \<times> metrics"

fun pool_step :: "pool_state \<Rightarrow> pool_op \<Rightarrow> pool_state" where
  "pool_step (b, held, m) PoolAcquire =
     (case BufferManager_acquire b m of (ptr, b', m') \<Rightarrow> (b', (case ptr of None \<Rightarrow> held | Some q \<Rightarrow> q # held), m'))"
| "pool_step (b, held, m) (PoolDrop i) =
     (if i < length held
      then case BufferManager_drop (Some (held ! i)) b m of (b', m') \<Rightarrow> (b', remove1 (held ! i) held, m')
      else (b, held, m))"

fun pool_state_inv :: "pool_state \<Rightarrow> bool" where
  "pool_state_inv (b, held, m) \<longleftrightarrow>
     pool_inv (bm_pool b) held \<and> m C_memory_pool_in_use = of_nat (length held)"

lemma pool_step_inv: "pool_state_inv s \<Longrightarrow> pool_state_inv (pool_step s e)"
proof -
  assume inv: "pool_state_inv s"
  obtain b held m where s: "s = (b, held, m)" by (cases s)
  show ?thesis
  proof (cases e)
    case PoolAcquire
    obtain ptr p' m' where acq: "pool_acquire (bm_pool b) m = (ptr, p', m')" by (cases "pool_acquire (bm_pool b) m")
    from pool_acquire_inv [OF _ acq, of held] inv acq s PoolAcquire show ?thesis
      by (auto simp: BufferManager_acquire_def pool_acquire_def record_memory_pool_acquire_def counter_ops Let_def
          split: list.splits)
  next
    case (PoolDrop i)
    have "i < length held \<Longrightarrow> length (remove1 (held ! i) held) = length held - 1"
      by (simp add: length_remove1)
    moreover have "i < length held \<Longrightarrow> (of_nat (length held - 1) :: u64) = of_nat (length held) - 1"
      by (cases held) simp_all
    moreover have "pool_inv (bm_pool b) held" using inv s by simp
    note pool_release_held [OF this, of "held ! i"]
    ultimately show ?thesis
      using inv s PoolDrop
      by (auto simp: BufferManager_drop_def record_memory_pool_release_def counter_ops)
  qed
qed

interpretation pool: invariant_machine pool_step pool_state_inv
  by unfold_locales (rule pool_step_inv)

definition pool_begin :: "nat \<Rightarrow> nat \<Rightarrow> metrics \<Rightarrow> pool_state" where
  "pool_begin block_size block_count m = (case BufferManager_init block_size block_count m of (b, m') \<Rightarrow> (b, [], m'))"

lemma MemoryPool_init_in_use:
  "m C_memory_pool_in_use = 0 \<Longrightarrow> snd (MemoryPool_init bs n m) C_memory_pool_in_use = 0"
  by (simp add: MemoryPool_init_def register_memory_pool_capacity_def counter_ops Let_def)

lemma pool_acquire_config:
  "pool_acquire p m = (ptr, p', m') \<Longrightarrow> mp_block_size p' = mp_block_size p \<and> mp_block_count p' = mp_block_count p"
  by (auto simp: pool_acquire_def split: list.splits)

lemma pool_release_config:
  "mp_block_size (fst (pool_release h p m)) = mp_block_size p \<and> mp_block_count (fst (pool_release h p m)) = mp_block_count p"
  by (auto simp: pool_release_def split: option.splits)

lemma pool_run_config:
  "mp_block_size (bm_pool (fst (foldl pool_step s es))) = mp_block_size (bm_pool (fst s)) \<and>
   mp_block_count (bm_pool (fst (foldl pool_step s es))) = mp_block_count (bm_pool (fst s))"
proof (induction es arbitrary: s)
  case (Cons e es)
  obtain b held m where s: "s = (b, held, m)" by (cases s)
  obtain ptr p' m' where acq: "pool_acquire (bm_pool b) m = (ptr, p', m')" by (cases "pool_acquire (bm_pool b) m")
  have "mp_block_size (bm_pool (fst (pool_step s e))) = mp_block_size (bm_pool (fst s)) \<and>
      mp_block_count (bm_pool (fst (pool_step s e))) = mp_block_count (bm_pool (fst s))"
    using pool_acquire_config [OF acq] pool_release_config
    by (cases e) (auto simp: s BufferManager_acquire_def BufferManager_drop_def acq case_prod_beta)
  with Cons.IH show ?case by simp
qed simp



text \<open>
  The release itself has no check for a block that is already free while another one is in use: a double release of a raw
  pointer makes two acquisitions return the same block. Only the \<open>unique_ptr\<close> discipline above excludes it.
\<close>

lemma double_release_aliases:
  "let (p0, m0) = MemoryPool_init 16 2 metrics_init;
       (x, p1, m1) = pool_acquire p0 m0; (y, p2, m2) = pool_acquire p1 m1;
       (p3, m3) = pool_release x p2 m2; (p4, m4) = pool_release x p3 m3;
       (u, p5, m5) = pool_acquire p4 m4; (v, p6, m6) = pool_acquire p5 m5
   in u = x \<and> v = x"
  by code_simp

end
