(* ===== verification/Session_Core.thy ===== *)
theory Session_Core
  imports Wire Resilience Memory_Pool Job_Queue
begin

text \<open>
  The state of a TCP session and the operations that its owner, its handlers and other threads call: sending,
  stopping, arming timers (\<^verbatim>\<open>core/src/net/session.cpp\<close>), with the opcode policies of
  \<^verbatim>\<open>core/include/server/core/protocol/opcode_policy.hpp\<close> and \<^verbatim>\<open>system_opcodes.hpp\<close>.

  The strand of the session is a queue of tasks. \<^verbatim>\<open>asio::dispatch\<close> runs its argument at once when the caller is on the
  strand and appends it to the queue otherwise, so that the operations have a parameter \<open>on_strand\<close>. A timer is
  the number of its waits that have not completed: cancelling a timer lets a wait complete with an error, or, when the wait has expired
  already, without one. Log output is not modelled.
\<close>

section \<open>Opcode policies\<close>

datatype SessionStatus = kAny | kAuthenticated | kInRoom | kAdmin

datatype ProcessingPlace = kInline | kWorker | kRoomStrand

datatype TransportMask = kNone | kTcpOnly | kUdpOnly | kBoth

datatype DeliveryClass = kReliableOrdered | kReliable | kUnreliableSequenced

datatype TransportKind = kTcp | kUdp

record OpcodePolicy =
  op_required_state :: SessionStatus
  op_processing_place :: ProcessingPlace
  op_transport :: TransportMask
  op_delivery :: DeliveryClass
  op_channel :: u8

definition default_opcode_policy :: OpcodePolicy where
  "default_opcode_policy =
     \<lparr>op_required_state = kAny, op_processing_place = kInline, op_transport = kTcpOnly,
      op_delivery = kReliableOrdered, op_channel = 0\<rparr>"

definition transport_allows :: "TransportMask \<Rightarrow> TransportKind \<Rightarrow> bool" where
  "transport_allows allowed transport =
     (if allowed = kBoth then True
      else if allowed = kNone then False
      else if transport = kTcp then allowed = kTcpOnly
      else allowed = kUdpOnly)"

definition system_opcode_name :: "u16 \<Rightarrow> string" where
  "system_opcode_name i =
     (if i = 0x0001 then ''MSG_HELLO'' else if i = 0x0002 then ''MSG_PING''
      else if i = 0x0003 then ''MSG_PONG'' else if i = 0x0004 then ''MSG_ERR'' else [])"

definition system_opcode_policy :: "u16 \<Rightarrow> OpcodePolicy" where
  "system_opcode_policy i =
     (if i \<in> {0x0001, 0x0002, 0x0003, 0x0004}
      then \<lparr>op_required_state = kAny, op_processing_place = kInline, op_transport = kTcpOnly,
            op_delivery = kReliableOrdered, op_channel = 0\<rparr>
      else default_opcode_policy)"

abbreviation (input) MSG_HELLO :: u16 where "MSG_HELLO \<equiv> 0x0001"
abbreviation (input) MSG_PING :: u16 where "MSG_PING \<equiv> 0x0002"
abbreviation (input) MSG_ERR :: u16 where "MSG_ERR \<equiv> 0x0004"

abbreviation (input) INTERNAL_ERROR :: u16 where "INTERNAL_ERROR \<equiv> 0x0001"
abbreviation (input) LENGTH_LIMIT_EXCEEDED :: u16 where "LENGTH_LIMIT_EXCEEDED \<equiv> 0x0002"
abbreviation (input) UNKNOWN_MSG_ID :: u16 where "UNKNOWN_MSG_ID \<equiv> 0x0003"
abbreviation (input) SERVER_BUSY :: u16 where "SERVER_BUSY \<equiv> 0x0008"
abbreviation (input) FORBIDDEN :: u16 where "FORBIDDEN \<equiv> 0x0102"

abbreviation (input) CAP_COMPRESS_SUPP :: u16 where "CAP_COMPRESS_SUPP \<equiv> 0x0001"
abbreviation (input) CAP_SENDER_SID :: u16 where "CAP_SENDER_SID \<equiv> 0x0002"

section \<open>State\<close>

record SessionOptions =
  so_recv_max_payload :: nat
  so_send_queue_max :: nat
  so_heartbeat_interval_ms :: u32
  so_read_timeout_ms :: u32
  so_write_timeout_ms :: u32

definition SessionOptions_default :: SessionOptions where
  "SessionOptions_default =
     \<lparr>so_recv_max_payload = 32 * 1024, so_send_queue_max = 256 * 1024, so_heartbeat_interval_ms = 10000,
      so_read_timeout_ms = 15000, so_write_timeout_ms = 15000\<rparr>"

record ConnectionRuntimeState =
  cr_connection_count :: u64
  cr_max_connections :: u64
  cr_next_session_id :: u32

text \<open>The read that is outstanding on the socket, and the tasks a strand can hold.\<close>

datatype read_op = NoRead | HeaderRead | BodyRead

datatype task = TaskSend int bytes | TaskStop | TaskArmRead | TaskArmHeartbeat | TaskInvoke u16 bytes nat

record Session =
  ss_header :: PacketHeader
  ss_read_buf :: "int option"
  ss_send_queue :: "(int \<times> bytes) list"
  ss_queued_bytes :: nat
  ss_stopped :: bool
  ss_socket_open :: bool
  ss_read_waits :: nat
  ss_write_waits :: nat
  ss_heartbeat_waits :: nat
  ss_tx_seq :: u32
  ss_session_id :: u32
  ss_status :: SessionStatus
  ss_read_op :: read_op
  ss_writing :: bool
  ss_has_on_close :: bool

text \<open>
  The session with what surrounds it: buffer pool, counters, connection state, the service registry's job
  queue (\<open>None\<close> when no queue is registered; a job that belongs to somebody else is \<open>None\<close> in it), strand, clock, and what can be
  observed of it from outside: frames accepted for sending, frames written to the socket, calls of the close
  callback, handler invocations. \<open>w_others\<close> are the buffers held by other clients of the pool.
\<close>

record world = Session +
  w_buffers :: BufferManager
  w_metrics :: metrics
  w_state :: "ConnectionRuntimeState option"
  w_jobs :: "task option JobQueue option"
  w_strand :: "task list"
  w_now :: u64
  w_others :: "int list"
  w_accepted :: "bytes list"
  w_sent :: "bytes list"
  w_closed :: nat
  w_invoked :: "(u16 \<times> bytes) list"

text \<open>
  What is fixed during the life of a session: its options, and how the code outside of it behaves, that is, whether the socket
  calls and the close callback throw.
\<close>

record surroundings =
  en_options :: "SessionOptions option"
  en_shutdown_throws :: bool
  en_close_throws :: bool
  en_on_close_throws :: bool

definition count_metric :: "(metrics \<Rightarrow> metrics) \<Rightarrow> world \<Rightarrow> world" where
  "count_metric f w = w\<lparr>w_metrics := f (w_metrics w)\<rparr>"

definition post :: "task \<Rightarrow> world \<Rightarrow> world" where
  "post t w = w\<lparr>w_strand := w_strand w @ [t]\<rparr>"

definition acquire_buffer :: "world \<Rightarrow> int option \<times> world" where
  "acquire_buffer w =
     (case BufferManager_acquire (w_buffers w) (w_metrics w) of (h, b, m) \<Rightarrow> (h, w\<lparr>w_buffers := b, w_metrics := m\<rparr>))"

definition drop_buffer :: "int option \<Rightarrow> world \<Rightarrow> world" where
  "drop_buffer h w =
     (case BufferManager_drop h (w_buffers w) (w_metrics w) of (b, m) \<Rightarrow> w\<lparr>w_buffers := b, w_metrics := m\<rparr>)"

section \<open>Construction\<close>

definition Session_init ::
    "bool \<Rightarrow> BufferManager \<Rightarrow> metrics \<Rightarrow> ConnectionRuntimeState option \<Rightarrow> task option JobQueue option \<Rightarrow> u64 \<Rightarrow> int list \<Rightarrow> world" where
  "Session_init has_on_close b m state jobs now others =
     \<lparr>ss_header = \<lparr>hdr_length = 0, hdr_msg_id = 0, hdr_flags = 0, hdr_seq = 0, hdr_utc_ts_ms32 = 0\<rparr>,
      ss_read_buf = None, ss_send_queue = [], ss_queued_bytes = 0, ss_stopped = False, ss_socket_open = True,
      ss_read_waits = 0, ss_write_waits = 0, ss_heartbeat_waits = 0, ss_tx_seq = 1,
      ss_session_id = (case state of None \<Rightarrow> 0 | Some st \<Rightarrow> cr_next_session_id st),
      ss_status = kAny, ss_read_op = NoRead, ss_writing = False, ss_has_on_close = has_on_close,
      w_buffers = b, w_metrics = record_session_start m,
      w_state = map_option (\<lambda>st. st\<lparr>cr_connection_count := cr_connection_count st + 1,
                                     cr_next_session_id := cr_next_session_id st + 1\<rparr>) state,
      w_jobs = jobs, w_strand = [], w_now = now, w_others = others,
      w_accepted = [], w_sent = [], w_closed = 0, w_invoked = []\<rparr>"

section \<open>Stopping\<close>

definition stop_cleanup :: "surroundings \<Rightarrow> world \<Rightarrow> world" where
  "stop_cleanup en w =
     (let w1 = (if ss_socket_open w
                then let w' = (if en_shutdown_throws en then count_metric record_exception_ignored w else w);
                         w'' = (if en_close_throws en then count_metric record_exception_ignored w' else w')
                     in w''\<lparr>ss_socket_open := False\<rparr>
                else w);
          w2 = w1\<lparr>w_state := map_option
                 (\<lambda>st. st\<lparr>cr_connection_count := cr_connection_count st - 1\<rparr>) (w_state w1)\<rparr>;
          w3 = count_metric record_session_stop w2
      in if ss_has_on_close w3
         then let w4 = w3\<lparr>w_closed := w_closed w3 + 1\<rparr>
              in if en_on_close_throws en then count_metric record_exception_recoverable w4 else w4
         else w3)"

definition Session_stop :: "surroundings \<Rightarrow> bool \<Rightarrow> world \<Rightarrow> world" where
  "Session_stop en on_strand w =
     (if ss_stopped w then w
      else let w' = w\<lparr>ss_stopped := True\<rparr>
           in if on_strand then stop_cleanup en w' else post TaskStop w')"

section \<open>Timers\<close>

definition arm_write_timeout :: "surroundings \<Rightarrow> world \<Rightarrow> world" where
  "arm_write_timeout en w =
     (case en_options en of
        None \<Rightarrow> w
      | Some opts \<Rightarrow>
          if so_write_timeout_ms opts = 0 then w else w\<lparr>ss_write_waits := ss_write_waits w + 1\<rparr>)"

definition arm_read_now :: "world \<Rightarrow> world" where
  "arm_read_now w = w\<lparr>ss_read_waits := ss_read_waits w + 1\<rparr>"

definition arm_read_timeout :: "surroundings \<Rightarrow> bool \<Rightarrow> world \<Rightarrow> world" where
  "arm_read_timeout en on_strand w =
     (case en_options en of
        None \<Rightarrow> w
      | Some opts \<Rightarrow>
          if so_read_timeout_ms opts = 0 then w
          else if on_strand then arm_read_now w else post TaskArmRead w)"

definition arm_heartbeat_now :: "world \<Rightarrow> world" where
  "arm_heartbeat_now w = w\<lparr>ss_heartbeat_waits := ss_heartbeat_waits w + 1\<rparr>"

definition arm_heartbeat :: "surroundings \<Rightarrow> bool \<Rightarrow> world \<Rightarrow> world" where
  "arm_heartbeat en on_strand w =
     (case en_options en of
        None \<Rightarrow> w
      | Some opts \<Rightarrow>
          if so_heartbeat_interval_ms opts = 0 then w
          else if on_strand then arm_heartbeat_now w else post TaskArmHeartbeat w)"

section \<open>Sending\<close>

definition do_write :: "surroundings \<Rightarrow> world \<Rightarrow> world" where
  "do_write en w =
     (if ss_send_queue w = [] then w
      else (arm_write_timeout en w)\<lparr>ss_writing := True\<rparr>)"

text \<open>The part of \<open>async_send\<close> that runs on the strand; the buffer is released unless it is moved into the queue.\<close>

definition enqueue_frame :: "surroundings \<Rightarrow> int \<Rightarrow> bytes \<Rightarrow> world \<Rightarrow> world" where
  "enqueue_frame en h frame w =
     (if ss_stopped w then drop_buffer (Some h) w
      else if (case en_options en of
                 None \<Rightarrow> False
               | Some opts \<Rightarrow> exceeds_queue_budget (so_send_queue_max opts) (ss_queued_bytes w) (length frame))
      then drop_buffer (Some h) (Session_stop en True (count_metric record_send_queue_drop w))
      else let kick_write = ss_send_queue w = [];
               w' = w\<lparr>ss_queued_bytes := ss_queued_bytes w + length frame,
                      ss_send_queue := ss_send_queue w @ [(h, frame)],
                      w_accepted := w_accepted w @ [frame]\<rparr>
           in if kick_write then do_write en w' else w')"

definition async_send_buffer :: "surroundings \<Rightarrow> bool \<Rightarrow> int \<Rightarrow> bytes \<Rightarrow> world \<Rightarrow> world" where
  "async_send_buffer en on_strand h frame w =
     (if on_strand then enqueue_frame en h frame w else post (TaskSend h frame) w)"

definition frame_of :: "u16 \<Rightarrow> u16 \<Rightarrow> bytes \<Rightarrow> u32 \<Rightarrow> u32 \<Rightarrow> bytes" where
  "frame_of msg_id flags payload seq utc =
     memcpy_at
       (encode_header \<lparr>hdr_length = of_nat (length payload), hdr_msg_id = msg_id, hdr_flags = flags,
                       hdr_seq = seq, hdr_utc_ts_ms32 = utc\<rparr>
          (replicate (k_header_bytes + length payload) 0))
       k_header_bytes payload"

definition session_make_packet ::
    "u16 \<Rightarrow> u16 \<Rightarrow> bytes \<Rightarrow> u32 \<Rightarrow> u32 \<Rightarrow> world \<Rightarrow> (int \<times> bytes) option \<times> world" where
  "session_make_packet msg_id flags payload seq utc w =
     (if bm_block_size (w_buffers w) < k_header_bytes + length payload then (None, w)
      else case acquire_buffer w of
             (None, w') \<Rightarrow> (None, w')
           | (Some h, w') \<Rightarrow> (Some (h, frame_of msg_id flags payload seq utc), w'))"

text \<open>The common tail of all the senders: number the packet, build it, hand it on when there was a buffer.\<close>

definition send_packet :: "surroundings \<Rightarrow> bool \<Rightarrow> u16 \<Rightarrow> u16 \<Rightarrow> bytes \<Rightarrow> world \<Rightarrow> world" where
  "send_packet en on_strand msg_id flags payload w =
     (let seq = ss_tx_seq w; w' = w\<lparr>ss_tx_seq := ss_tx_seq w + 1\<rparr>
      in case session_make_packet msg_id flags payload seq (ucast (w_now w)) w' of
           (None, w'') \<Rightarrow> w''
         | (Some (h, frame), w'') \<Rightarrow> async_send_buffer en on_strand h frame w'')"

definition Session_async_send :: "surroundings \<Rightarrow> bool \<Rightarrow> u16 \<Rightarrow> bytes \<Rightarrow> u16 \<Rightarrow> world \<Rightarrow> world" where
  "Session_async_send en on_strand msg_id payload flags w = send_packet en on_strand msg_id flags payload w"

definition hello_payload :: "surroundings \<Rightarrow> u64 \<Rightarrow> bytes" where
  "hello_payload en now =
     (let p = replicate 12 0;
          p = write_be16 kProtocolVersionMajor 0 p;
          p = write_be16 kProtocolVersionMinor 2 p;
          p = write_be16 (CAP_COMPRESS_SUPP OR CAP_SENDER_SID) 4 p;
          hb = (case en_options en of None \<Rightarrow> 0 | Some opts \<Rightarrow> so_heartbeat_interval_ms opts div 10);
          p = write_be16 (ucast hb) 6 p
      in write_be32 (ucast (drop_bit 32 now)) 8 p)"

definition send_hello :: "surroundings \<Rightarrow> bool \<Rightarrow> world \<Rightarrow> world" where
  "send_hello en on_strand w = send_packet en on_strand MSG_HELLO 0 (hello_payload en (w_now w)) w"

definition error_payload :: "u16 \<Rightarrow> string \<Rightarrow> bytes" where
  "error_payload code msg =
     (let len = min (length msg) 400;
          p = replicate (4 + len) 0;
          p = write_be16 code 0 p;
          p = write_be16 (of_nat len) 2 p
      in memcpy_at p 4 (map of_char (take len msg)))"

definition send_error :: "surroundings \<Rightarrow> bool \<Rightarrow> u16 \<Rightarrow> string \<Rightarrow> world \<Rightarrow> world" where
  "send_error en on_strand code msg w = send_packet en on_strand MSG_ERR 0 (error_payload code msg) w"

section \<open>Frames read back\<close>

lemma length_frame_of [simp]: "length (frame_of msg_id flags payload seq utc) = k_header_bytes + length payload"
  by (simp add: frame_of_def length_encode_header)

lemma decode_frame_of:
  "decode_header (frame_of msg_id flags payload seq utc) =
     \<lparr>hdr_length = of_nat (length payload), hdr_msg_id = msg_id, hdr_flags = flags, hdr_seq = seq, hdr_utc_ts_ms32 = utc\<rparr>"
proof -
  let ?h = "\<lparr>hdr_length = of_nat (length payload), hdr_msg_id = msg_id, hdr_flags = flags, hdr_seq = seq, hdr_utc_ts_ms32 = utc\<rparr>"
  have "decode_header (frame_of msg_id flags payload seq utc) =
      decode_header (encode_header ?h (replicate (k_header_bytes + length payload) 0))"
    by (rule header_codec.dec_depends_on_prefix) (simp_all add: frame_of_def memcpy_at_def)
  then show ?thesis by (simp add: decode_encode_header)
qed

lemma frame_of_payload: "drop k_header_bytes (frame_of msg_id flags payload seq utc) = payload"
  by (simp add: frame_of_def memcpy_at_def)

end
