(* ===== verification/Dispatcher.thy ===== *)
theory Dispatcher
  imports Session_Core
begin

text \<open>
  The opcode dispatcher (\<^verbatim>\<open>core/src/net/dispatcher.cpp\<close>): policy checks, and the three places where a handler can run.

  A handler is code of the server: given the message and the state it sees, it makes a sequence of calls of the public
  session interface and returns or throws. The table is fixed once the server runs, so that a deferred
  invocation is the message id whose entry holds the handler. Handlers run on the strand of the session.
\<close>

section \<open>Handlers\<close>

datatype handler_call =
  CallSend u16 bytes u16 | CallError u16 string | CallStop | CallStatus SessionStatus

datatype handler_result = HandlerReturns | HandlerThrows | HandlerThrowsUnknown

record dispatch_entry =
  de_handler :: "bytes \<Rightarrow> world \<Rightarrow> handler_call list \<times> handler_result"
  de_policy :: OpcodePolicy

type_synonym dispatch_table = "u16 \<rightharpoonup> dispatch_entry"

definition register_handler ::
    "u16 \<Rightarrow> (bytes \<Rightarrow> world \<Rightarrow> handler_call list \<times> handler_result) \<Rightarrow> OpcodePolicy \<Rightarrow> dispatch_table \<Rightarrow> dispatch_table" where
  "register_handler msg_id handler policy table = table(msg_id \<mapsto> \<lparr>de_handler = handler, de_policy = policy\<rparr>)"

fun session_call :: "surroundings \<Rightarrow> handler_call \<Rightarrow> world \<Rightarrow> world" where
  "session_call en (CallSend msg_id payload flags) w = Session_async_send en True msg_id payload flags w"
| "session_call en (CallError code msg) w = send_error en True code msg w"
| "session_call en CallStop w = Session_stop en True w"
| "session_call en (CallStatus status) w = w\<lparr>ss_status := status\<rparr>"

section \<open>Policy checks\<close>

definition satisfies_required_state :: "SessionStatus \<Rightarrow> SessionStatus \<Rightarrow> bool" where
  "satisfies_required_state required current =
     (case required of
        kAny \<Rightarrow> True
      | kAuthenticated \<Rightarrow> current = kAuthenticated \<or> current = kInRoom \<or> current = kAdmin
      | kInRoom \<Rightarrow> current = kInRoom \<or> current = kAdmin
      | kAdmin \<Rightarrow> current = kAdmin)"

definition processing_place_index :: "ProcessingPlace \<Rightarrow> nat" where
  "processing_place_index place = (case place of kInline \<Rightarrow> 0 | kWorker \<Rightarrow> 1 | kRoomStrand \<Rightarrow> 2)"

section \<open>Dispatching\<close>

text \<open>
  \<^verbatim>\<open>shared_from_this\<close> fails when the session is not owned by a \<open>shared_ptr\<close> (\<open>shared\<close> is false); a send then throws once its
  buffer has been taken, which releases the buffer.
\<close>

definition send_error_noexcept :: "surroundings \<Rightarrow> bool \<Rightarrow> u16 \<Rightarrow> string \<Rightarrow> world \<Rightarrow> world" where
  "send_error_noexcept en shared code msg w =
     (if shared then send_error en True code msg w
      else case session_make_packet MSG_ERR 0 (error_payload code msg) (ss_tx_seq w) (ucast (w_now w))
                  (w\<lparr>ss_tx_seq := ss_tx_seq w + 1\<rparr>) of
             (None, w') \<Rightarrow> w'
           | (Some (h, frame), w') \<Rightarrow> count_metric record_exception_ignored (drop_buffer (Some h) w'))"

definition run_handler_with_guard ::
    "surroundings \<Rightarrow> dispatch_table \<Rightarrow> bool \<Rightarrow> u16 \<Rightarrow> bytes \<Rightarrow> nat \<Rightarrow> world \<Rightarrow> world" where
  "run_handler_with_guard en table shared msg_id payload place_index w =
     (case table msg_id of
        None \<Rightarrow> w
      | Some entry \<Rightarrow>
          case de_handler entry payload w of (calls, result) \<Rightarrow>
          let w1 = fold (session_call en) calls (w\<lparr>w_invoked := w_invoked w @ [(msg_id, payload)]\<rparr>)
          in case result of
               HandlerReturns \<Rightarrow> w1
             | HandlerThrows \<Rightarrow>
                 send_error_noexcept en shared INTERNAL_ERROR ''internal error''
                   (count_metric record_exception_recoverable
                     (count_metric (record_dispatch_processing_place_exception place_index)
                       (count_metric record_dispatch_exception w1)))
             | HandlerThrowsUnknown \<Rightarrow>
                 send_error_noexcept en shared INTERNAL_ERROR ''internal error''
                   (count_metric record_exception_ignored
                     (count_metric (record_dispatch_processing_place_exception place_index)
                       (count_metric record_dispatch_exception w1))))"

definition Dispatcher_dispatch ::
    "surroundings \<Rightarrow> dispatch_table \<Rightarrow> bool \<Rightarrow> u16 \<Rightarrow> bytes \<Rightarrow> TransportKind \<Rightarrow> world \<Rightarrow> bool \<times> world" where
  "Dispatcher_dispatch en table shared msg_id payload transport w =
     (case table msg_id of
        None \<Rightarrow> (False, w)
      | Some entry \<Rightarrow>
          if \<not> transport_allows (op_transport (de_policy entry)) transport
          then (True, send_error_noexcept en shared FORBIDDEN ''forbidden'' w)
          else if \<not> satisfies_required_state (op_required_state (de_policy entry)) (ss_status w)
          then (True, send_error_noexcept en shared FORBIDDEN ''forbidden'' w)
          else
            let place = op_processing_place (de_policy entry);
                place_index = processing_place_index place;
                w1 = count_metric (record_dispatch_processing_place_call place_index) w
            in if place = kInline
               then (True, run_handler_with_guard en table shared msg_id payload place_index w1)
               else if \<not> shared
               then (True, send_error_noexcept en shared SERVER_BUSY ''dispatch context unavailable''
                       (count_metric (record_dispatch_processing_place_reject place_index)
                         (count_metric record_exception_ignored w1)))
               else if place = kRoomStrand
               then (True, post (TaskInvoke msg_id payload place_index) w1)
               else case w_jobs w1 of
                      None \<Rightarrow>
                        (True, send_error_noexcept en shared SERVER_BUSY ''worker queue unavailable''
                           (count_metric (record_dispatch_processing_place_reject place_index) w1))
                    | Some q \<Rightarrow>
                        case JobQueue_TryPush (Some (Some (TaskInvoke msg_id payload place_index))) q (w_metrics w1) of
                          (queued, q', m) \<Rightarrow>
                            let w2 = w1\<lparr>w_jobs := Some q', w_metrics := m\<rparr>
                            in if queued then (True, w2)
                               else (True, send_error_noexcept en shared SERVER_BUSY ''worker queue full''
                                       (count_metric (record_dispatch_processing_place_reject place_index) w2)))"

end
