(* ===== verification/Session_Run.thy ===== *)
theory Session_Run
  imports Dispatcher
begin

text \<open>
  The read loop, the timers and the strand of a session (\<^verbatim>\<open>core/src/net/session.cpp\<close>), as one step per
  completion: whatever the order in which reads, writes, timers, strand tasks, worker jobs and calls from other threads
  happen, the session is a run of \<open>session_step\<close>. The trace context around a dispatch only selects log output.
\<close>

section \<open>Reading\<close>

definition do_read_header :: "surroundings \<Rightarrow> bool \<Rightarrow> world \<Rightarrow> world" where
  "do_read_header en on_strand w =
     (case acquire_buffer w of (h, w') \<Rightarrow>
        let w1 = (drop_buffer (ss_read_buf w') w')\<lparr>ss_read_buf := h\<rparr>
        in if h = None then Session_stop en on_strand (count_metric record_packet_error w1)
           else w1\<lparr>ss_read_op := HeaderRead\<rparr>)"

text \<open>The message is complete: count it, dispatch it, and read the next header.\<close>

definition dispatch_message :: "surroundings \<Rightarrow> dispatch_table \<Rightarrow> int \<Rightarrow> bytes \<Rightarrow> world \<Rightarrow> world" where
  "dispatch_message en table elapsed payload w =
     (let msg_id = hdr_msg_id (ss_header w);
          w1 = count_metric record_packet_ok (count_metric (record_packet_payload (length payload)) w)
      in case Dispatcher_dispatch en table True msg_id payload kTcp w1 of (handled, w2) \<Rightarrow>
         let w3 = count_metric (record_dispatch_attempt handled elapsed) (count_metric (record_dispatch_opcode msg_id) w2);
             w4 = (if handled then w3 else send_error en True UNKNOWN_MSG_ID ''unknown msg'' w3)
         in do_read_header en True w4)"

definition do_read_body :: "surroundings \<Rightarrow> dispatch_table \<Rightarrow> int \<Rightarrow> nat \<Rightarrow> world \<Rightarrow> world" where
  "do_read_body en table elapsed body_len w =
     (if body_len = 0 then dispatch_message en table elapsed [] w
      else if bm_block_size (w_buffers w) < body_len
      then Session_stop en True (count_metric record_packet_error w)
      else case acquire_buffer w of (h, w') \<Rightarrow>
             let w1 = (drop_buffer (ss_read_buf w') w')\<lparr>ss_read_buf := h\<rparr>
             in if h = None then Session_stop en True (count_metric record_packet_error w1)
                else w1\<lparr>ss_read_op := BodyRead\<rparr>)"

text \<open>Completion of a read: \<open>failed\<close> is the error code, \<open>data\<close> what was read.\<close>

definition on_header_read :: "surroundings \<Rightarrow> dispatch_table \<Rightarrow> bool \<Rightarrow> bytes \<Rightarrow> int \<Rightarrow> world \<Rightarrow> world" where
  "on_header_read en table failed data elapsed w =
     (if failed then Session_stop en True (count_metric record_packet_error w)
      else if length data \<noteq> k_header_bytes then Session_stop en True (count_metric record_packet_error w)
      else let w1 = w\<lparr>ss_header := decode_header data\<rparr>
           in if (case en_options en of
                    None \<Rightarrow> False
                  | Some opts \<Rightarrow> 0 < so_recv_max_payload opts \<and>
                      so_recv_max_payload opts < unat (hdr_length (ss_header w1)))
              then Session_stop en True
                     (send_error en True LENGTH_LIMIT_EXCEEDED ''payload too large'' (count_metric record_packet_error w1))
              else do_read_body en table elapsed (unat (hdr_length (ss_header w1))) (arm_read_timeout en True w1))"

definition on_body_read :: "surroundings \<Rightarrow> dispatch_table \<Rightarrow> bool \<Rightarrow> bytes \<Rightarrow> int \<Rightarrow> world \<Rightarrow> world" where
  "on_body_read en table failed data elapsed w =
     (if failed then Session_stop en True (count_metric record_packet_error w)
      else if length data \<noteq> unat (hdr_length (ss_header w))
      then Session_stop en True (count_metric record_packet_error w)
      else dispatch_message en table elapsed data (arm_read_timeout en True w))"

definition on_read :: "surroundings \<Rightarrow> dispatch_table \<Rightarrow> bool \<Rightarrow> bytes \<Rightarrow> int \<Rightarrow> world \<Rightarrow> world" where
  "on_read en table failed data elapsed w =
     (let w' = w\<lparr>ss_read_op := NoRead\<rparr>
      in case ss_read_op w of
           NoRead \<Rightarrow> w
         | HeaderRead \<Rightarrow> on_header_read en table failed data elapsed w'
         | BodyRead \<Rightarrow> on_body_read en table failed data elapsed w')"

section \<open>Writing\<close>

text \<open>Completion of the write of the front of the queue, which then is released.\<close>

definition on_written :: "surroundings \<Rightarrow> bool \<Rightarrow> world \<Rightarrow> world" where
  "on_written en failed w =
     (if \<not> ss_writing w then w
      else let w' = w\<lparr>ss_writing := False\<rparr> in
           if failed then Session_stop en True w'
           else case ss_send_queue w' of
                  [] \<Rightarrow> w'
                | (h, frame) # rest \<Rightarrow>
                    do_write en
                      (drop_buffer (Some h)
                        (w'\<lparr>ss_queued_bytes := (if length frame \<le> ss_queued_bytes w' then ss_queued_bytes w' - length frame else 0),
                            ss_send_queue := rest, w_sent := w_sent w' @ [frame]\<rparr>)))"

section \<open>Timers\<close>

definition on_read_timer :: "surroundings \<Rightarrow> bool \<Rightarrow> world \<Rightarrow> world" where
  "on_read_timer en cancelled w =
     (if ss_read_waits w = 0 then w
      else let w' = w\<lparr>ss_read_waits := ss_read_waits w - 1\<rparr> in
           if cancelled \<or> ss_stopped w' then w'
           else let w1 = count_metric record_session_timeout w';
                    w2 = (case en_options en of
                            None \<Rightarrow> w1
                          | Some opts \<Rightarrow>
                              if 0 < so_heartbeat_interval_ms opts then count_metric record_heartbeat_timeout w1 else w1)
                in Session_stop en True w2)"

definition on_write_timer :: "surroundings \<Rightarrow> bool \<Rightarrow> world \<Rightarrow> world" where
  "on_write_timer en cancelled w =
     (if ss_write_waits w = 0 then w
      else let w' = w\<lparr>ss_write_waits := ss_write_waits w - 1\<rparr> in
           if cancelled \<or> ss_stopped w' then w'
           else Session_stop en True (count_metric record_session_write_timeout w'))"

definition on_heartbeat_timer :: "surroundings \<Rightarrow> bool \<Rightarrow> world \<Rightarrow> world" where
  "on_heartbeat_timer en cancelled w =
     (if ss_heartbeat_waits w = 0 then w
      else let w' = w\<lparr>ss_heartbeat_waits := ss_heartbeat_waits w - 1\<rparr> in
           if cancelled \<or> ss_stopped w' then w'
           else arm_heartbeat en True (send_packet en True MSG_PING 0 [] w'))"

section \<open>Strand and life cycle\<close>

definition Session_start :: "surroundings \<Rightarrow> world \<Rightarrow> world" where
  "Session_start en w =
     arm_heartbeat en False (arm_read_timeout en False (do_read_header en False (send_hello en False w)))"

fun run_task :: "surroundings \<Rightarrow> dispatch_table \<Rightarrow> task \<Rightarrow> world \<Rightarrow> world" where
  "run_task en table (TaskSend h frame) w = enqueue_frame en h frame w"
| "run_task en table TaskStop w = stop_cleanup en w"
| "run_task en table TaskArmRead w = arm_read_now w"
| "run_task en table TaskArmHeartbeat w = arm_heartbeat_now w"
| "run_task en table (TaskInvoke msg_id payload place_index) w =
     (if ss_stopped w then w else run_handler_with_guard en table True msg_id payload place_index w)"

definition run_strand :: "surroundings \<Rightarrow> dispatch_table \<Rightarrow> world \<Rightarrow> world" where
  "run_strand en table w =
     (case w_strand w of [] \<Rightarrow> w | t # ts \<Rightarrow> run_task en table t (w\<lparr>w_strand := ts\<rparr>))"

text \<open>A worker takes the next job; a job of this session is handed to its strand.\<close>

definition run_job :: "world \<Rightarrow> world" where
  "run_job w =
     (case w_jobs w of
        None \<Rightarrow> w
      | Some q \<Rightarrow>
          case JobQueue_Pop q (w_metrics w) of
            Blocks \<Rightarrow> w
          | Returns (job, _, q', m) \<Rightarrow>
              let w' = w\<lparr>w_jobs := Some q', w_metrics := m\<rparr>
              in case job of Some (Some t) \<Rightarrow> post t w' | _ \<Rightarrow> w')"

datatype session_event =
    EvStart | EvStrand | EvJob
  | EvRead bool bytes int | EvWritten bool
  | EvReadTimer bool | EvWriteTimer bool | EvHeartbeatTimer bool
  | EvSend u16 bytes u16 | EvError u16 string | EvStop
  | EvClock u64 | EvOthersAcquire | EvOthersDrop nat | EvOthersPush

text \<open>
  \<open>EvSend\<close>, \<open>EvError\<close> and \<open>EvStop\<close> are calls from other threads, hence off the strand. The other clients of
  the pool and of the job queue act between the steps.
\<close>

fun session_step :: "surroundings \<Rightarrow> dispatch_table \<Rightarrow> world \<Rightarrow> session_event \<Rightarrow> world" where
  "session_step en table w EvStart = (if ss_read_op w = NoRead \<and> ss_read_buf w = None then Session_start en w else w)"
| "session_step en table w EvStrand = run_strand en table w"
| "session_step en table w EvJob = run_job w"
| "session_step en table w (EvRead failed data elapsed) = on_read en table failed data elapsed w"
| "session_step en table w (EvWritten failed) = on_written en failed w"
| "session_step en table w (EvReadTimer cancelled) = on_read_timer en cancelled w"
| "session_step en table w (EvWriteTimer cancelled) = on_write_timer en cancelled w"
| "session_step en table w (EvHeartbeatTimer cancelled) = on_heartbeat_timer en cancelled w"
| "session_step en table w (EvSend msg_id payload flags) = Session_async_send en False msg_id payload flags w"
| "session_step en table w (EvError code msg) = send_error en False code msg w"
| "session_step en table w EvStop = Session_stop en False w"
| "session_step en table w (EvClock now) = w\<lparr>w_now := now\<rparr>"
| "session_step en table w EvOthersAcquire =
     (case acquire_buffer w of
        (None, w') \<Rightarrow> w'
      | (Some h, w') \<Rightarrow> w'\<lparr>w_others := h # w_others w'\<rparr>)"
| "session_step en table w (EvOthersDrop i) =
     (if i < length (w_others w)
      then (drop_buffer (Some (w_others w ! i)) w)\<lparr>w_others := remove1 (w_others w ! i) (w_others w)\<rparr>
      else w)"
| "session_step en table w EvOthersPush =
     (case w_jobs w of
        None \<Rightarrow> w
      | Some q \<Rightarrow> (case JobQueue_TryPush (Some None) q (w_metrics w) of
                    (_, q', m) \<Rightarrow> w\<lparr>w_jobs := Some q', w_metrics := m\<rparr>))"

end
