(* ===== verification/Session_Invariant.thy ===== *)
theory Session_Invariant
  imports Session_Run "HOL-Library.Multiset"
begin

text \<open>
  The invariant of a session under every order of events, and its consequences: the send queue is counted exactly and
  bounded, one write at a time is outstanding and its buffer stays in the queue, frames leave in the order they were
  accepted, the session is torn down once, and no pool buffer is lost.
\<close>

section \<open>The invariant\<close>

text \<open>The buffers a session holds: for reading, in the send queue, and in sends on their way to the strand.\<close>

fun task_handles :: "task \<Rightarrow> int list" where
  "task_handles (TaskSend h frame) = [h]"
| "task_handles _ = []"

definition option_list :: "'a option \<Rightarrow> 'a list" where
  "option_list x = (case x of None \<Rightarrow> [] | Some y \<Rightarrow> [y])"

lemma option_list_simps [simp]: "option_list None = []" "option_list (Some x) = [x]"
  by (simp_all add: option_list_def)

definition strand_handles :: "task list \<Rightarrow> int list" where
  "strand_handles ts = concat (map task_handles ts)"

definition held_buffers :: "world \<Rightarrow> int list" where
  "held_buffers w =
     option_list (ss_read_buf w) @ map fst (ss_send_queue w) @ strand_handles (w_strand w) @ w_others w"

text \<open>A frame whose header gives the length of what follows it.\<close>

definition frame_ok :: "bytes \<Rightarrow> bool" where
  "frame_ok f \<longleftrightarrow> k_header_bytes \<le> length f \<and> unat (hdr_length (decode_header f)) = length f - k_header_bytes"

fun task_ok :: "task \<Rightarrow> bool" where
  "task_ok (TaskSend h frame) = frame_ok frame"
| "task_ok _ = True"

fun is_invocation :: "task option \<Rightarrow> bool" where
  "is_invocation None = True"
| "is_invocation (Some (TaskInvoke msg_id payload place_index)) = True"
| "is_invocation _ = False"

definition send_limit :: "surroundings \<Rightarrow> nat" where
  "send_limit en = (case en_options en of None \<Rightarrow> 0 | Some opts \<Rightarrow> so_send_queue_max opts)"

text \<open>
  The queue is counted exactly, within the limit, its front is being written unless the session has stopped, and what was accepted is
  what was written and what is queued, in this order.
\<close>

definition queue_ok :: "nat \<Rightarrow> (int \<times> bytes) list \<Rightarrow> nat \<Rightarrow> bool \<Rightarrow> bool \<Rightarrow> bytes list \<Rightarrow> bytes list \<Rightarrow> bool" where
  "queue_ok limit queue queued writing stopped accepted sent \<longleftrightarrow>
     queued = sum_list (map (length \<circ> snd) queue) \<and> (0 < limit \<longrightarrow> queued \<le> limit) \<and>
     (writing \<longrightarrow> queue \<noteq> []) \<and> (queue \<noteq> [] \<longrightarrow> writing \<or> stopped) \<and>
     accepted = sent @ map snd queue"

text \<open>A stopped session has its teardown in the strand or behind it, and the close callback was called by the teardown.\<close>

definition stop_ok :: "task list \<Rightarrow> bool \<Rightarrow> bool \<Rightarrow> nat \<Rightarrow> bool \<Rightarrow> bool" where
  "stop_ok strand stopped socket_open closed has_on_close \<longleftrightarrow>
     count_list strand TaskStop = of_bool (stopped \<and> socket_open) \<and> (socket_open \<or> stopped) \<and>
     closed = of_bool (\<not> socket_open \<and> has_on_close)"

text \<open>The session counts among the connections until its teardown; \<open>base\<close> are the other connections.\<close>

definition conn_ok :: "u64 option \<Rightarrow> ConnectionRuntimeState option \<Rightarrow> bool \<Rightarrow> bool" where
  "conn_ok base state socket_open \<longleftrightarrow>
     map_option cr_connection_count state = map_option (\<lambda>n. n + of_bool socket_open) base"

lemma conn_ok_teardown:
  "conn_ok base st True \<Longrightarrow> conn_ok base (map_option (\<lambda>st. st\<lparr>cr_connection_count := cr_connection_count st - 1\<rparr>) st) False"
  by (cases st; cases base) (auto simp: conn_ok_def)

definition frames_ok :: "nat \<Rightarrow> bytes list \<Rightarrow> task list \<Rightarrow> bool" where
  "frames_ok bs accepted strand \<longleftrightarrow> (bs \<le> 65549 \<longrightarrow> list_all frame_ok accepted \<and> list_all task_ok strand)"

definition jobs_ok :: "task option JobQueue option \<Rightarrow> bool" where
  "jobs_ok jobs \<longleftrightarrow> (case jobs of None \<Rightarrow> True | Some q \<Rightarrow> list_all is_invocation (jq_jobs q))"

text \<open>The invariant, with the buffers that are in the hands of the operation in progress.\<close>

definition session_inv :: "surroundings \<Rightarrow> u64 option \<Rightarrow> nat \<Rightarrow> int list \<Rightarrow> world \<Rightarrow> bool" where
  "session_inv en base bs hs w \<longleftrightarrow>
     pool_inv (bm_pool (w_buffers w)) (hs @ held_buffers w) \<and>
     queue_ok (send_limit en) (ss_send_queue w) (ss_queued_bytes w) (ss_writing w) (ss_stopped w)
       (w_accepted w) (w_sent w) \<and>
     stop_ok (w_strand w) (ss_stopped w) (ss_socket_open w) (w_closed w) (ss_has_on_close w) \<and>
     conn_ok base (w_state w) (ss_socket_open w) \<and>
     bm_block_size (w_buffers w) = bs \<and> frames_ok bs (w_accepted w) (w_strand w) \<and> jobs_ok (w_jobs w)"

lemmas session_inv_defs = session_inv_def held_buffers_def

text \<open>Updates the invariant does not see.\<close>

lemma session_inv_irrelevant [simp]:
  "session_inv en base bs hs (count_metric f w) = session_inv en base bs hs w"
  "session_inv en base bs hs (w\<lparr>w_now := now\<rparr>) = session_inv en base bs hs w"
  "session_inv en base bs hs (w\<lparr>ss_tx_seq := seq\<rparr>) = session_inv en base bs hs w"
  "session_inv en base bs hs (w\<lparr>ss_header := header\<rparr>) = session_inv en base bs hs w"
  "session_inv en base bs hs (w\<lparr>ss_status := st\<rparr>) = session_inv en base bs hs w"
  "session_inv en base bs hs (w\<lparr>ss_read_op := r\<rparr>) = session_inv en base bs hs w"
  "session_inv en base bs hs (w\<lparr>ss_read_waits := n\<rparr>) = session_inv en base bs hs w"
  "session_inv en base bs hs (w\<lparr>ss_write_waits := n\<rparr>) = session_inv en base bs hs w"
  "session_inv en base bs hs (w\<lparr>ss_heartbeat_waits := n\<rparr>) = session_inv en base bs hs w"
  "session_inv en base bs hs (w\<lparr>w_invoked := xs\<rparr>) = session_inv en base bs hs w"
  "session_inv en base bs hs (arm_read_now w) = session_inv en base bs hs w"
  "session_inv en base bs hs (arm_heartbeat_now w) = session_inv en base bs hs w"
  by (simp_all add: session_inv_defs count_metric_def arm_read_now_def arm_heartbeat_now_def)

lemma session_inv_arm [simp]: "session_inv en base bs hs (arm_write_timeout en w) = session_inv en base bs hs w"
  by (cases "en_options en") (simp_all add: arm_write_timeout_def)

section \<open>Buffers\<close>

lemma pool_inv_perm: "mset xs = mset ys \<Longrightarrow> pool_inv p xs \<longleftrightarrow> pool_inv p ys"
  unfolding pool_inv_def by (metis mset_eq_imp_distinct_iff mset_append set_mset_mset)

lemma acquire_buffer_eq:
  "acquire_buffer w = (h, w') \<Longrightarrow>
   \<exists>p m. pool_acquire (bm_pool (w_buffers w)) (w_metrics w) = (h, p, m) \<and>
     w' = w\<lparr>w_buffers := (w_buffers w)\<lparr>bm_pool := p\<rparr>, w_metrics := m\<rparr>"
  by (auto simp: acquire_buffer_def BufferManager_acquire_def split: prod.splits)

lemma acquire_buffer_inv:
  assumes "session_inv en base bs hs w" and "acquire_buffer w = (h, w')"
  shows "session_inv en base bs (option_list h @ hs) w'"
proof -
  from acquire_buffer_eq [OF assms(2)] obtain p m
    where acq: "pool_acquire (bm_pool (w_buffers w)) (w_metrics w) = (h, p, m)"
      and w': "w' = w\<lparr>w_buffers := (w_buffers w)\<lparr>bm_pool := p\<rparr>, w_metrics := m\<rparr>" by blast
  have "pool_inv (bm_pool (w_buffers w)) (hs @ held_buffers w)"
    using assms(1) by (simp add: session_inv_def)
  from pool_acquire_inv [OF this acq] assms(1) show ?thesis
    by (cases h) (simp_all add: w' session_inv_defs)
qed

lemma drop_buffer_inv:
  assumes "session_inv en base bs (h # hs) w"
  shows "session_inv en base bs hs (drop_buffer (Some h) w)"
proof -
  have "pool_inv (bm_pool (w_buffers w)) (h # hs @ held_buffers w)"
    using assms by (simp add: session_inv_def)
  from pool_release_held [OF this, of h] assms show ?thesis
    by (simp add: drop_buffer_def BufferManager_drop_def session_inv_defs)
qed

lemma drop_buffer_None [simp]: "drop_buffer None w = w"
  by (simp add: drop_buffer_def BufferManager_drop_def)

text \<open>Exchanging the read buffer for a new one, or for none.\<close>

lemma exchange_read_buf_inv:
  assumes "session_inv en base bs (option_list h) w"
  shows "session_inv en base bs [] ((drop_buffer (ss_read_buf w) w)\<lparr>ss_read_buf := h\<rparr>)"
proof (cases "ss_read_buf w")
  case None
  with assms show ?thesis by (cases h) (simp_all add: session_inv_defs)
next
  case (Some r)
  let ?hs = "option_list h"
  have "session_inv en base bs (r # ?hs) (w\<lparr>ss_read_buf := None\<rparr>)"
    using assms Some pool_inv_perm [of "r # ?hs @ held_buffers (w\<lparr>ss_read_buf := None\<rparr>)" "?hs @ held_buffers w"]
    by (simp add: session_inv_defs)
  from drop_buffer_inv [OF this] have "session_inv en base bs ?hs (drop_buffer (Some r) (w\<lparr>ss_read_buf := None\<rparr>))" .
  then show ?thesis
    by (cases h) (simp_all add: Some session_inv_defs drop_buffer_def BufferManager_drop_def case_prod_beta)
qed

section \<open>Stopping and sending\<close>

lemma strand_handles_snoc [simp]: "strand_handles (ts @ [t]) = strand_handles ts @ task_handles t"
  by (simp add: strand_handles_def)

lemma stop_cleanup_inv:
  assumes "session_inv en base bs hs (w\<lparr>w_strand := TaskStop # w_strand w\<rparr>)"
  shows "session_inv en base bs hs (stop_cleanup en w)"
proof -
  have "stop_ok (TaskStop # w_strand w) (ss_stopped w) (ss_socket_open w) (w_closed w) (ss_has_on_close w)"
    using assms by (simp add: session_inv_def)
  then have flags: "ss_stopped w" "ss_socket_open w" "w_closed w = 0" "count_list (w_strand w) TaskStop = 0"
    by (auto simp: stop_ok_def of_bool_def split: if_splits)
  with assms show ?thesis
    by (auto simp: stop_cleanup_def Let_def count_metric_def session_inv_defs stop_ok_def conn_ok_teardown frames_ok_def strand_handles_def)
qed

lemma post_inv:
  "session_inv en base bs hs w \<Longrightarrow> task_handles t = [] \<Longrightarrow> t \<noteq> TaskStop \<Longrightarrow> session_inv en base bs hs (post t w)"
  by (cases t) (auto simp: post_def session_inv_defs stop_ok_def frames_ok_def)

lemma post_send_inv:
  assumes "session_inv en base bs (h # hs) w" and "bs \<le> 65549 \<longrightarrow> frame_ok frame"
  shows "session_inv en base bs hs (post (TaskSend h frame) w)"
  using assms pool_inv_perm [of "hs @ held_buffers (post (TaskSend h frame) w)" "(h # hs) @ held_buffers w"]
  by (auto simp: post_def session_inv_defs stop_ok_def frames_ok_def)

lemma Session_stop_inv:
  assumes inv: "session_inv en base bs hs w"
  shows "session_inv en base bs hs (Session_stop en on_strand w)"
proof (cases "ss_stopped w")
  case True
  with inv show ?thesis by (simp add: Session_stop_def)
next
  case False
  with inv have flags: "ss_socket_open w" "count_list (w_strand w) TaskStop = 0" "w_closed w = 0"
    by (auto simp: session_inv_def stop_ok_def)
  have "session_inv en base bs hs (w\<lparr>ss_stopped := True, w_strand := xs\<rparr>)"
    if "xs = TaskStop # w_strand w \<or> xs = w_strand w @ [TaskStop]" for xs
    using inv flags that
    by (auto simp: session_inv_defs stop_ok_def queue_ok_def frames_ok_def strand_handles_def)
  with False stop_cleanup_inv [of en base bs hs "w\<lparr>ss_stopped := True\<rparr>"] show ?thesis
    by (simp add: Session_stop_def post_def Let_def)
qed

lemma arm_inv:
  "session_inv en base bs hs w \<Longrightarrow> session_inv en base bs hs (arm_read_timeout en b w)"
  "session_inv en base bs hs w \<Longrightarrow> session_inv en base bs hs (arm_heartbeat en b w)"
  by (auto simp: arm_read_timeout_def arm_heartbeat_def post_inv split: option.split)

text \<open>\<open>do_write\<close> is called on a queue whose front is not being written.\<close>

lemma do_write_inv:
  assumes "session_inv en base bs hs (w\<lparr>ss_writing := ss_send_queue w \<noteq> []\<rparr>)" and "\<not> ss_writing w"
  shows "session_inv en base bs hs (do_write en w)"
proof (cases "ss_send_queue w = []")
  case True
  with assms show ?thesis by (simp add: do_write_def session_inv_defs)
next
  case False
  have "(arm_write_timeout en w)\<lparr>ss_writing := True\<rparr> = arm_write_timeout en (w\<lparr>ss_writing := True\<rparr>)"
    by (simp add: arm_write_timeout_def split: option.split)
  with False assms(1) show ?thesis by (simp add: do_write_def)
qed

lemma enqueue_frame_inv:
  assumes inv: "session_inv en base bs (h # hs) w" and ok: "bs \<le> 65549 \<longrightarrow> frame_ok frame"
  shows "session_inv en base bs hs (enqueue_frame en h frame w)"
proof (cases "ss_stopped w")
  case True
  with inv show ?thesis by (simp add: enqueue_frame_def drop_buffer_inv)
next
  case False
  let ?full = "exceeds_queue_budget (send_limit en) (ss_queued_bytes w) (length frame)"
  have full: "(case en_options en of
        None \<Rightarrow> False
      | Some opts \<Rightarrow> exceeds_queue_budget (so_send_queue_max opts) (ss_queued_bytes w) (length frame)) \<longleftrightarrow> ?full"
    by (simp add: send_limit_def exceeds_queue_budget_iff split: option.split)
  show ?thesis
  proof (cases ?full)
    case True
    with False inv show ?thesis by (simp add: enqueue_frame_def full drop_buffer_inv Session_stop_inv)
  next
    case fits: False
    let ?w = "w\<lparr>ss_queued_bytes := ss_queued_bytes w + length frame,
      ss_send_queue := ss_send_queue w @ [(h, frame)], w_accepted := w_accepted w @ [frame]\<rparr>"
    have perm: "pool_inv p (hs @ held_buffers ?w) \<longleftrightarrow> pool_inv p ((h # hs) @ held_buffers w)" for p
      by (rule pool_inv_perm) (simp add: held_buffers_def)
    have "session_inv en base bs hs (?w\<lparr>ss_writing := True\<rparr>)"
      using inv ok fits perm [of "bm_pool (w_buffers w)"]
      by (auto simp: session_inv_defs queue_ok_def frames_ok_def exceeds_queue_budget_iff)
    moreover have "ss_writing w \<longleftrightarrow> ss_send_queue w \<noteq> []"
      using inv False by (auto simp: session_inv_def queue_ok_def)
    moreover have "session_inv en base bs hs (?w\<lparr>ss_writing := True\<rparr>) \<longleftrightarrow> session_inv en base bs hs ?w" if "ss_writing w"
      using that by (simp add: session_inv_defs)
    ultimately show ?thesis
      using False do_write_inv [of en base bs hs ?w] by (auto simp: enqueue_frame_def full fits Let_def)
  qed
qed

lemma frame_ok_frame_of: "length payload < 65536 \<Longrightarrow> frame_ok (frame_of msg_id flags payload seq utc)"
  by (simp add: frame_ok_def decode_frame_of unat_of_nat)

lemma send_packet_inv:
  assumes "session_inv en base bs [] w"
  shows "session_inv en base bs [] (send_packet en on_strand msg_id flags payload w)"
proof -
  let ?w = "w\<lparr>ss_tx_seq := ss_tx_seq w + 1\<rparr>" and ?f = "frame_of msg_id flags payload (ss_tx_seq w) (ucast (w_now w))"
  have inv: "session_inv en base bs [] ?w" and block: "bm_block_size (w_buffers w) = bs"
    using assms by (simp, simp add: session_inv_def)
  show ?thesis
  proof (cases "bs < k_header_bytes + length payload")
    case True
    with inv block show ?thesis by (simp add: send_packet_def session_make_packet_def)
  next
    case False
    obtain h w' where acq: "acquire_buffer ?w = (h, w')" by (cases "acquire_buffer ?w")
    have ok: "bs \<le> 65549 \<longrightarrow> frame_ok ?f" using False by (simp add: frame_ok_frame_of)
    from acquire_buffer_inv [OF inv acq] have "session_inv en base bs (option_list h) w'" by simp
    with ok False acq block show ?thesis
      by (cases h)
        (simp_all add: send_packet_def session_make_packet_def async_send_buffer_def Let_def enqueue_frame_inv post_send_inv)
  qed
qed

lemma senders_inv:
  assumes "session_inv en base bs [] w"
  shows "session_inv en base bs [] (Session_async_send en b msg_id payload flags w)"
    and "session_inv en base bs [] (send_hello en b w)"
    and "session_inv en base bs [] (send_error en b code msg w)"
  using assms by (simp_all add: Session_async_send_def send_hello_def send_error_def send_packet_inv)

section \<open>Dispatching and reading\<close>

lemma session_call_inv: "session_inv en base bs [] w \<Longrightarrow> session_inv en base bs [] (session_call en c w)"
  by (cases c) (simp_all add: senders_inv Session_stop_inv)

lemma session_calls_inv: "session_inv en base bs [] w \<Longrightarrow> session_inv en base bs [] (fold (session_call en) cs w)"
  by (induction cs arbitrary: w) (simp_all add: session_call_inv)

lemma send_error_noexcept_inv:
  assumes inv: "session_inv en base bs [] w"
  shows "session_inv en base bs [] (send_error_noexcept en shared code msg w)"
proof (cases shared)
  case True
  with inv show ?thesis by (simp add: send_error_noexcept_def senders_inv)
next
  case False
  let ?w = "w\<lparr>ss_tx_seq := ss_tx_seq w + 1\<rparr>"
  obtain h w' where acq: "acquire_buffer ?w = (h, w')" by (cases "acquire_buffer ?w")
  from inv have "session_inv en base bs [] ?w" by simp
  from acquire_buffer_inv [OF this acq] this False acq show ?thesis
    by (cases h) (auto simp: send_error_noexcept_def session_make_packet_def drop_buffer_inv)
qed

lemma run_handler_inv:
  "session_inv en base bs [] w \<Longrightarrow> session_inv en base bs [] (run_handler_with_guard en table shared msg_id payload i w)"
  by (auto simp: run_handler_with_guard_def Let_def session_calls_inv send_error_noexcept_inv
      split: option.split prod.split handler_result.split)

lemma session_inv_jobs:
  "session_inv en base bs hs w \<Longrightarrow> jobs_ok q \<Longrightarrow> session_inv en base bs hs (w\<lparr>w_jobs := q, w_metrics := m\<rparr>)"
  by (simp add: session_inv_defs)

lemma try_push_jobs:
  "JobQueue_TryPush (Some t) q m = (ok, q', m') \<Longrightarrow> jobs_ok (Some q) \<Longrightarrow> is_invocation t \<Longrightarrow> jobs_ok (Some q')"
  by (auto simp: jobs_ok_def JobQueue_TryPush_def jq_enqueue_def Let_def split: if_splits)

lemma dispatch_inv:
  assumes inv: "session_inv en base bs [] w"
  shows "session_inv en base bs [] (snd (Dispatcher_dispatch en table shared msg_id payload transport w))"
proof -
  have jobs: "jobs_ok (Some q)" if "w_jobs w = Some q" for q
    using inv that by (simp add: session_inv_def)
  have "session_inv en base bs [] (w\<lparr>w_metrics := m\<rparr>)" for m
    using inv by (simp add: session_inv_defs)
  with inv jobs show ?thesis
    by (auto simp: Dispatcher_dispatch_def Let_def run_handler_inv send_error_noexcept_inv post_inv count_metric_def
        split: option.split prod.split intro!: send_error_noexcept_inv session_inv_jobs elim!: try_push_jobs)
qed

lemma do_read_header_inv:
  assumes "session_inv en base bs [] w"
  shows "session_inv en base bs [] (do_read_header en b w)"
proof -
  obtain h w' where acq: "acquire_buffer w = (h, w')" by (cases "acquire_buffer w")
  from acquire_buffer_inv [OF assms acq] have "session_inv en base bs (option_list h) w'" by simp
  from exchange_read_buf_inv [OF this] show ?thesis
    by (auto simp: do_read_header_def acq Let_def intro: Session_stop_inv)
qed

lemma dispatch_message_inv:
  "session_inv en base bs [] w \<Longrightarrow> session_inv en base bs [] (dispatch_message en table elapsed payload w)"
  using dispatch_inv [of en base bs
      "count_metric record_packet_ok (count_metric (record_packet_payload (length payload)) w)" table True
      "hdr_msg_id (ss_header w)" payload kTcp]
  by (auto simp: dispatch_message_def Let_def case_prod_beta intro!: do_read_header_inv senders_inv)

lemma do_read_body_inv:
  assumes "session_inv en base bs [] w"
  shows "session_inv en base bs [] (do_read_body en table elapsed n w)"
proof -
  obtain h w' where acq: "acquire_buffer w = (h, w')" by (cases "acquire_buffer w")
  from acquire_buffer_inv [OF assms acq] have "session_inv en base bs (option_list h) w'" by simp
  from exchange_read_buf_inv [OF this] assms show ?thesis
    by (auto simp: do_read_body_def acq Let_def intro!: Session_stop_inv dispatch_message_inv)
qed

lemma on_read_inv:
  "session_inv en base bs [] w \<Longrightarrow> session_inv en base bs [] (on_read en table failed data elapsed w)"
  by (auto simp: on_read_def on_header_read_def on_body_read_def Let_def
      intro!: Session_stop_inv do_read_body_inv dispatch_message_inv arm_inv senders_inv split: read_op.split)

section \<open>Writes, timers and the strand\<close>

lemma drop_buffer_fields [simp]:
  "(drop_buffer h w)\<lparr>ss_writing := b\<rparr> = drop_buffer h (w\<lparr>ss_writing := b\<rparr>)"
  "ss_writing (drop_buffer h w) = ss_writing w" "ss_send_queue (drop_buffer h w) = ss_send_queue w"
  by (simp_all add: drop_buffer_def case_prod_beta)

lemma stop_fields [simp]:
  "ss_stopped (stop_cleanup en w) = ss_stopped w" "ss_stopped (Session_stop en b w)"
  "Session_stop en b (w\<lparr>ss_writing := x\<rparr>) = (Session_stop en b w)\<lparr>ss_writing := x\<rparr>"
  by (simp_all add: stop_cleanup_def Session_stop_def post_def count_metric_def Let_def)

lemma on_written_inv:
  assumes inv: "session_inv en base bs [] w"
  shows "session_inv en base bs [] (on_written en failed w)"
proof (cases "ss_writing w")
  case False
  with inv show ?thesis by (simp add: on_written_def)
next
  case True
  then obtain h frame rest where q: "ss_send_queue w = (h, frame) # rest"
    using inv by (cases "ss_send_queue w") (auto simp: session_inv_def queue_ok_def)
  show ?thesis
  proof (cases failed)
    case True
    have "ss_stopped (Session_stop en True w)" by simp
    with Session_stop_inv [OF inv, of True] have "session_inv en base bs [] ((Session_stop en True w)\<lparr>ss_writing := False\<rparr>)"
      by (auto simp: session_inv_defs queue_ok_def)
    with True \<open>ss_writing w\<close> show ?thesis by (simp add: on_written_def)
  next
    case ok: False
    let ?w = "w\<lparr>ss_writing := False, ss_queued_bytes := ss_queued_bytes w - length frame, ss_send_queue := rest,
      w_sent := w_sent w @ [frame]\<rparr>"
    have perm: "pool_inv p ((h # []) @ held_buffers ?w) \<longleftrightarrow> pool_inv p ([] @ held_buffers w)" for p
      by (rule pool_inv_perm) (simp add: held_buffers_def q)
    have bytes: "length frame \<le> ss_queued_bytes w"
      using inv q by (simp add: session_inv_def queue_ok_def)
    have "session_inv en base bs [h] (?w\<lparr>ss_writing := rest \<noteq> []\<rparr>)"
      using inv q perm [of "bm_pool (w_buffers w)"]
      by (auto simp: session_inv_defs queue_ok_def frames_ok_def)
    from drop_buffer_inv [OF this] have "session_inv en base bs [] (do_write en (drop_buffer (Some h) ?w))"
      by (intro do_write_inv) simp_all
    with True ok q bytes show ?thesis by (simp add: on_written_def Let_def)
  qed
qed

lemma timers_inv:
  assumes "session_inv en base bs [] w"
  shows "session_inv en base bs [] (on_read_timer en cancelled w)"
    and "session_inv en base bs [] (on_write_timer en cancelled w)"
    and "session_inv en base bs [] (on_heartbeat_timer en cancelled w)"
  using assms
  by (auto simp: on_read_timer_def on_write_timer_def on_heartbeat_timer_def Let_def
      intro!: Session_stop_inv arm_inv send_packet_inv split: option.split)

lemma Session_start_inv: "session_inv en base bs [] w \<Longrightarrow> session_inv en base bs [] (Session_start en w)"
  by (simp add: Session_start_def arm_inv do_read_header_inv senders_inv)

lemma run_strand_inv:
  assumes inv: "session_inv en base bs [] w"
  shows "session_inv en base bs [] (run_strand en table w)"
proof (cases "w_strand w")
  case Nil
  with inv show ?thesis by (simp add: run_strand_def)
next
  case (Cons t ts)
  let ?w = "w\<lparr>w_strand := ts\<rparr>"
  have stop: "session_inv en base bs [] (?w\<lparr>w_strand := t # ts\<rparr>)" using inv Cons by (simp add: session_inv_defs)
  have perm: "pool_inv p (task_handles t @ held_buffers ?w) \<longleftrightarrow> pool_inv p ([] @ held_buffers w)" for p
    by (rule pool_inv_perm) (simp add: held_buffers_def strand_handles_def Cons)
  have other: "session_inv en base bs (task_handles t) ?w" if "t \<noteq> TaskStop"
    using inv Cons that perm [of "bm_pool (w_buffers w)"]
    by (auto simp: session_inv_def stop_ok_def frames_ok_def)
  have frame: "bs \<le> 65549 \<longrightarrow> task_ok t" using inv Cons by (simp add: session_inv_def frames_ok_def)
  show ?thesis
  proof (cases "t = TaskStop")
    case True
    with stop stop_cleanup_inv [of en base bs "[]" ?w] show ?thesis by (simp add: run_strand_def Cons)
  next
    case False
    with other frame show ?thesis
      by (cases t) (auto simp: run_strand_def Cons enqueue_frame_inv run_handler_inv)
  qed
qed

lemma run_job_inv:
  assumes inv: "session_inv en base bs [] w"
  shows "session_inv en base bs [] (run_job w)"
proof (cases "w_jobs w")
  case None
  with inv show ?thesis by (simp add: run_job_def)
next
  case (Some q)
  have jobs: "jobs_ok (Some q)" using inv Some by (simp add: session_inv_def)
  show ?thesis
  proof (cases "jq_jobs q")
    case Nil
    with inv Some jobs show ?thesis
      by (simp add: run_job_def JobQueue_Pop_def session_inv_jobs)
  next
    case (Cons j js)
    with jobs have j: "is_invocation j" and "jobs_ok (Some (q\<lparr>jq_jobs := js\<rparr>))" by (simp_all add: jobs_ok_def)
    with session_inv_jobs [OF inv this(2)] show ?thesis
      by (cases j rule: is_invocation.cases)
        (simp_all add: run_job_def Some JobQueue_Pop_def Cons Let_def post_inv)
  qed
qed

lemma others_inv:
  assumes inv: "session_inv en base bs [] w"
  shows "session_inv en base bs [] (session_step en table w EvOthersAcquire)"
    and "session_inv en base bs [] (session_step en table w (EvOthersDrop i))"
proof -
  obtain h w' where acq: "acquire_buffer w = (h, w')" by (cases "acquire_buffer w")
  from acquire_buffer_inv [OF inv acq] have inv': "session_inv en base bs (option_list h) w'" by simp
  have "pool_inv p ([] @ held_buffers (w'\<lparr>w_others := b # w_others w'\<rparr>)) \<longleftrightarrow> pool_inv p ([b] @ held_buffers w')" for p b
    by (rule pool_inv_perm) (simp add: held_buffers_def)
  with inv' show "session_inv en base bs [] (session_step en table w EvOthersAcquire)"
    by (cases h) (auto simp: acq session_inv_def)
  let ?b = "w_others w ! i" and ?others = "remove1 (w_others w ! i) (w_others w)"
  show "session_inv en base bs [] (session_step en table w (EvOthersDrop i))"
  proof (cases "i < length (w_others w)")
    case True
    have "pool_inv p ([?b] @ held_buffers (w\<lparr>w_others := ?others\<rparr>)) \<longleftrightarrow> pool_inv p ([] @ held_buffers w)" for p
      by (rule pool_inv_perm) (use True in \<open>simp add: held_buffers_def\<close>)
    with inv have "session_inv en base bs [?b] (w\<lparr>w_others := ?others\<rparr>)" by (auto simp: session_inv_def)
    from drop_buffer_inv [OF this] True show ?thesis
      by (simp add: drop_buffer_def case_prod_beta session_inv_defs)
  qed (use inv in simp)
qed

lemma session_step_inv: "session_inv en base bs [] w \<Longrightarrow> session_inv en base bs [] (session_step en table w e)"
proof (cases e)
  case EvOthersPush
  assume inv: "session_inv en base bs [] w"
  have jobs: "jobs_ok (w_jobs w)" using inv by (simp add: session_inv_def)
  with inv EvOthersPush show ?thesis
    by (auto intro!: session_inv_jobs elim!: try_push_jobs split: option.split prod.split)
qed (auto simp: Session_start_inv run_strand_inv run_job_inv on_read_inv on_written_inv timers_inv senders_inv
    Session_stop_inv others_inv simp del: session_step.simps(13,14))

interpretation session: invariant_machine "session_step en table" "session_inv en base bs []" for en table base bs
  by unfold_locales (rule session_step_inv)

section \<open>Consequences\<close>

text \<open>
  A new session on a consistent pool, with other connections and with jobs of others in the queue, and a run of it.
\<close>

definition session_setting :: "BufferManager \<Rightarrow> int list \<Rightarrow> task option JobQueue option \<Rightarrow> bool" where
  "session_setting b others jobs \<longleftrightarrow> pool_inv (bm_pool b) others \<and> jobs_ok jobs"

definition session_run ::
    "surroundings \<Rightarrow> dispatch_table \<Rightarrow> bool \<Rightarrow> BufferManager \<Rightarrow> metrics \<Rightarrow> ConnectionRuntimeState option \<Rightarrow>
     task option JobQueue option \<Rightarrow> u64 \<Rightarrow> int list \<Rightarrow> session_event list \<Rightarrow> world" where
  "session_run en table has_on_close b m state jobs now others es =
     foldl (session_step en table) (Session_init has_on_close b m state jobs now others) es"

lemma session_run_inv:
  assumes "session_setting b others jobs"
  shows "session_inv en (map_option cr_connection_count state) (bm_block_size b) []
    (session_run en table has_on_close b m state jobs now others es)"
proof -
  have "session_inv en (map_option cr_connection_count state) (bm_block_size b) []
      (Session_init has_on_close b m state jobs now others)"
    using assms
    by (cases state) (simp_all add: session_setting_def Session_init_def session_inv_defs queue_ok_def stop_ok_def
        conn_ok_def frames_ok_def strand_handles_def)
  then show ?thesis unfolding session_run_def by (rule session.run_inv)
qed

text \<open>
  C24. The send queue of a session, after any events in any order: the byte counter is the sum of the queued frames and within the
  configured limit, at most the front frame is being written, unless the session has stopped it is, and
  what was accepted is what was written followed by what is queued. With blocks of at most 65549 bytes
  the header of every accepted frame gives the length of its payload.
\<close>

theorem session_send_queue:
  assumes "session_setting b others jobs" and w_def: "w = session_run en table has_on_close b m state jobs now others es"
  shows "ss_queued_bytes w = sum_list (map (length \<circ> snd) (ss_send_queue w)) \<and>
    (send_limit en = 0 \<or> ss_queued_bytes w \<le> send_limit en) \<and>
    (if ss_stopped w then ss_writing w \<longrightarrow> ss_send_queue w \<noteq> [] else ss_writing w \<longleftrightarrow> ss_send_queue w \<noteq> []) \<and>
    w_accepted w = w_sent w @ map snd (ss_send_queue w) \<and>
    (if bm_block_size b \<le> 65549 then list_all frame_ok (w_accepted w) else True)"
  using session_run_inv [OF assms(1), of en state table has_on_close m now es]
  by (auto simp: session_inv_def queue_ok_def frames_ok_def w_def)

text \<open>
  C25. A session is torn down exactly once: the close callback is never called twice; when the session has stopped and its strand holds no teardown any more,
  the socket is closed, the callback was called if there is one, and the connection is no longer counted; until then it is counted.
\<close>

theorem session_closed_once:
  assumes "session_setting b others jobs" and w_def: "w = session_run en table has_on_close b m (Some st) jobs now others es"
  shows "w_closed w \<le> 1 \<and>
    (if ss_stopped w \<and> TaskStop \<notin> set (w_strand w)
     then \<not> ss_socket_open w \<and> w_closed w = of_bool (ss_has_on_close w) \<and>
       map_option cr_connection_count (w_state w) = Some (cr_connection_count st)
     else ss_socket_open w \<and> w_closed w = 0 \<and>
       map_option cr_connection_count (w_state w) = Some (cr_connection_count st + 1))"
proof -
  have "stop_ok (w_strand w) (ss_stopped w) (ss_socket_open w) (w_closed w) (ss_has_on_close w)"
    and "conn_ok (Some (cr_connection_count st)) (w_state w) (ss_socket_open w)"
    using session_run_inv [OF assms(1), of en "Some st" table has_on_close m now es]
    by (simp_all add: session_inv_def w_def)
  moreover have "TaskStop \<in> set (w_strand w) \<longleftrightarrow> count_list (w_strand w) TaskStop \<noteq> 0"
    by (simp add: count_list_0_iff)
  ultimately show ?thesis
    by (cases "ss_stopped w"; cases "ss_socket_open w") (auto simp: stop_ok_def conn_ok_def)
qed

text \<open>
  C26. No pool buffer is leaked or shared: after any events, the buffers held for reading, in the send queue, in posted sends and by
  the other clients are distinct, and together with the free blocks they are all the blocks of the pool.
\<close>

theorem session_buffers_conserved:
  assumes "session_setting b others jobs" and w_def: "w = session_run en table has_on_close b m state jobs now others es"
  shows "distinct (mp_free_list (bm_pool (w_buffers w)) @ held_buffers w) \<and>
    length (mp_free_list (bm_pool (w_buffers w))) + length (held_buffers w) = mp_block_count (bm_pool (w_buffers w))"
proof -
  have inv: "pool_inv (bm_pool (w_buffers w)) (held_buffers w)"
    using session_run_inv [OF assms(1), of en state table has_on_close m now es]
    by (simp add: session_inv_def w_def)
  then show ?thesis using pool_inv_length [OF inv] by (simp add: pool_inv_def)
qed

definition demo_surroundings :: surroundings where
  "demo_surroundings =
     \<lparr>en_options = Some \<lparr>so_recv_max_payload = 8, so_send_queue_max = 100, so_heartbeat_interval_ms = 1000,
        so_read_timeout_ms = 500, so_write_timeout_ms = 0\<rparr>,
      en_shutdown_throws = False, en_close_throws = False, en_on_close_throws = False\<rparr>"

definition demo_buffers :: BufferManager where
  "demo_buffers = fst (BufferManager_init 64 4 metrics_init)"

definition demo_state :: ConnectionRuntimeState where
  "demo_state = \<lparr>cr_connection_count = 3, cr_max_connections = 10, cr_next_session_id = 77\<rparr>"

lemma demo_setting: "session_setting demo_buffers [] None"
proof -
  have "pool_inv (bm_pool demo_buffers) []"
    using MemoryPool_init_inv [of 64 4 metrics_init]
    by (simp add: demo_buffers_def BufferManager_init_def case_prod_beta)
  then show ?thesis by (simp add: session_setting_def jobs_ok_def)
qed

theorem session_send_queue_witness:
  "list_all frame_ok (w_accepted (session_run demo_surroundings Map.empty True demo_buffers metrics_init
     (Some demo_state) None 5 [] [EvStart, EvStrand, EvSend 0x10 [1, 2] 0, EvStrand, EvStrand, EvStrand, EvWritten False]))"
proof -
  let ?w = "session_run demo_surroundings Map.empty True demo_buffers metrics_init (Some demo_state) None 5 []
    [EvStart, EvStrand, EvSend 0x10 [1, 2] 0, EvStrand, EvStrand, EvStrand, EvWritten False]"
  have block: "bm_block_size demo_buffers \<le> 65549"
    by (simp add: demo_buffers_def BufferManager_init_def case_prod_beta)
  have "if bm_block_size demo_buffers \<le> 65549 then list_all frame_ok (w_accepted ?w) else True"
    using session_send_queue [OF demo_setting refl, of demo_surroundings Map.empty True metrics_init "Some demo_state" 5
      "[EvStart, EvStrand, EvSend 0x10 [1, 2] 0, EvStrand, EvStrand, EvStrand, EvWritten False]"] by blast
  with block show ?thesis by (simp only: if_True)
qed

theorem session_closed_once_witness:
  "w_closed (session_run demo_surroundings Map.empty True demo_buffers metrics_init
     (Some demo_state) None 5 [] [EvStart, EvStop, EvStop, EvRead True [] 0]) \<le> 1"
  using session_closed_once [OF demo_setting refl, of demo_surroundings Map.empty True metrics_init demo_state 5
      "[EvStart, EvStop, EvStop, EvRead True [] 0]"]
  by blast

theorem session_buffers_conserved_witness:
  "distinct (held_buffers (session_run demo_surroundings Map.empty True demo_buffers metrics_init
     (Some demo_state) None 5 [] [EvStart, EvStrand, EvStop]))"
  using session_buffers_conserved [OF demo_setting refl, of demo_surroundings Map.empty True metrics_init "Some demo_state" 5
      "[EvStart, EvStrand, EvStop]"]
  unfolding distinct_append by blast

end
