(* ===== verification/Session_Properties.thy ===== *)
theory Session_Properties
  imports Session_Invariant
begin

text \<open>
  Further properties of sessions: a stopped session accepts nothing more and is closed as soon as its strand has run, and
  the dispatcher enforces the policy of the opcode before anything else happens.
\<close>

section \<open>After the stop\<close>

text \<open>Nothing was accepted between two states of a stopped session.\<close>

definition silent :: "world \<Rightarrow> world \<Rightarrow> bool" where
  "silent w w' \<longleftrightarrow> ss_stopped w' \<and> w_accepted w' = w_accepted w"

lemma silent_refl: "ss_stopped w \<Longrightarrow> silent w w"
  by (simp add: silent_def)

lemma silent_trans: "silent w w' \<Longrightarrow> silent w' w'' \<Longrightarrow> silent w w''"
  by (simp add: silent_def)

lemma silent_updates [simp]:
  "silent w (count_metric f w') = silent w w'"
  "silent w (w'\<lparr>w_now := now\<rparr>) = silent w w'"
  "silent w (w'\<lparr>ss_tx_seq := seq\<rparr>) = silent w w'"
  "silent w (w'\<lparr>ss_header := header\<rparr>) = silent w w'"
  "silent w (w'\<lparr>ss_status := st\<rparr>) = silent w w'"
  "silent w (w'\<lparr>ss_read_op := r\<rparr>) = silent w w'"
  "silent w (w'\<lparr>ss_read_buf := h\<rparr>) = silent w w'"
  "silent w (w'\<lparr>ss_read_waits := n\<rparr>) = silent w w'"
  "silent w (w'\<lparr>ss_write_waits := n\<rparr>) = silent w w'"
  "silent w (w'\<lparr>ss_heartbeat_waits := n\<rparr>) = silent w w'"
  "silent w (w'\<lparr>ss_writing := b\<rparr>) = silent w w'"
  "silent w (w'\<lparr>w_invoked := xs\<rparr>) = silent w w'"
  "silent w (w'\<lparr>w_strand := ts\<rparr>) = silent w w'"
  "silent w (w'\<lparr>w_others := os\<rparr>) = silent w w'"
  "silent w (w'\<lparr>w_jobs := q, w_metrics := m\<rparr>) = silent w w'"
  "silent w (w'\<lparr>w_buffers := bm, w_metrics := m\<rparr>) = silent w w'"
  "silent w (w'\<lparr>ss_queued_bytes := n, ss_send_queue := frames, w_sent := fs\<rparr>) = silent w w'"
  "silent w (post t w') = silent w w'"
  "silent w (drop_buffer h w') = silent w w'"
  "silent w (arm_read_now w') = silent w w'"
  "silent w (arm_heartbeat_now w') = silent w w'"
  by (simp_all add: silent_def count_metric_def post_def drop_buffer_def case_prod_beta arm_read_now_def arm_heartbeat_now_def)

lemma silent_ops:
  assumes "silent w w'"
  shows "silent w (Session_stop en b w')" "silent w (stop_cleanup en w')" "silent w (do_write en w')"
    "silent w (arm_read_timeout en b w')" "silent w (arm_heartbeat en b w')" "silent w (arm_write_timeout en w')"
    "silent w (enqueue_frame en h frame w')"
  using assms
  by (auto simp: silent_def Session_stop_def stop_cleanup_def do_write_def arm_read_timeout_def arm_heartbeat_def
      arm_write_timeout_def enqueue_frame_def count_metric_def post_def drop_buffer_def case_prod_beta Let_def
      arm_read_now_def arm_heartbeat_now_def split: option.split)

lemma silent_acquire: "silent w w' \<Longrightarrow> acquire_buffer w' = (h, w'') \<Longrightarrow> silent w w''"
  by (auto simp: acquire_buffer_def split: prod.splits)

lemma silent_make_packet:
  "silent w w' \<Longrightarrow> session_make_packet msg_id flags payload seq utc w' = (r, w'') \<Longrightarrow> silent w w''"
  by (auto simp: session_make_packet_def dest: silent_acquire split: if_splits prod.splits option.splits)

lemma silent_send_packet: "silent w w' \<Longrightarrow> silent w (send_packet en b msg_id flags payload w')"
  by (auto simp: send_packet_def async_send_buffer_def Let_def intro!: silent_ops
      dest: silent_make_packet [rotated] split: prod.split option.split)

lemma silent_senders:
  assumes "silent w w'"
  shows "silent w (Session_async_send en b msg_id payload flags w')" "silent w (send_error en b code msg w')"
    "silent w (send_hello en b w')"
  using assms by (simp_all add: Session_async_send_def send_error_def send_hello_def silent_send_packet)

lemma silent_send_error_noexcept: "silent w w' \<Longrightarrow> silent w (send_error_noexcept en shared code msg w')"
  by (auto simp: send_error_noexcept_def silent_senders dest: silent_make_packet [rotated] split: prod.split option.split)

lemma silent_calls: "silent w w' \<Longrightarrow> silent w (fold (session_call en) cs w')"
proof (induction cs arbitrary: w')
  case (Cons c cs)
  have "silent w (session_call en c w')" using Cons.prems by (cases c) (simp_all add: silent_senders silent_ops)
  with Cons.IH show ?case by simp
qed simp

lemma silent_run_handler: "silent w w' \<Longrightarrow> silent w (run_handler_with_guard en table shared msg_id payload i w')"
  by (auto simp: run_handler_with_guard_def Let_def intro!: silent_send_error_noexcept silent_calls
      split: option.split prod.split handler_result.split)

lemma silent_dispatch: "silent w w' \<Longrightarrow> silent w (snd (Dispatcher_dispatch en table shared msg_id payload transport w'))"
  by (auto simp: Dispatcher_dispatch_def Let_def intro!: silent_send_error_noexcept silent_run_handler
      split: option.split prod.split)

lemma silent_read_header: "silent w w' \<Longrightarrow> silent w (do_read_header en b w')"
  by (auto simp: do_read_header_def Let_def intro!: silent_ops dest: silent_acquire [rotated] split: prod.split)

lemma silent_dispatch_message: "silent w w' \<Longrightarrow> silent w (dispatch_message en table elapsed payload w')"
  using silent_dispatch [of w "count_metric record_packet_ok (count_metric (record_packet_payload (length payload)) w')" en table True
      "hdr_msg_id (ss_header w')" payload kTcp]
  by (auto simp: dispatch_message_def Let_def case_prod_beta intro!: silent_read_header silent_senders)

lemma silent_read_body: "silent w w' \<Longrightarrow> silent w (do_read_body en table elapsed n w')"
  by (auto simp: do_read_body_def Let_def intro!: silent_ops silent_dispatch_message dest: silent_acquire [rotated] split: prod.split)

lemma silent_on_read: "silent w w' \<Longrightarrow> silent w (on_read en table failed data elapsed w')"
  by (auto simp: on_read_def on_header_read_def on_body_read_def Let_def
      intro!: silent_ops silent_read_body silent_dispatch_message silent_senders split: read_op.split)

lemma silent_on_written: "silent w w' \<Longrightarrow> silent w (on_written en failed w')"
  by (auto simp: on_written_def Let_def intro!: silent_ops split: list.split)

lemma silent_timers:
  assumes "silent w w'"
  shows "silent w (on_read_timer en c w')" "silent w (on_write_timer en c w')" "silent w (on_heartbeat_timer en c w')"
  using assms
  by (auto simp: on_read_timer_def on_write_timer_def on_heartbeat_timer_def Let_def intro!: silent_ops silent_send_packet
      split: option.split)

lemma silent_run_task: "silent w w' \<Longrightarrow> silent w (run_task en table t w')"
  by (cases t) (simp_all add: silent_ops silent_run_handler)

lemma silent_step: "silent w w' \<Longrightarrow> silent w (session_step en table w' e)"
  by (cases e)
    (auto simp: Session_start_def run_strand_def run_job_def Let_def silent_on_read silent_on_written silent_timers
      silent_senders silent_ops silent_run_task
      intro!: silent_ops silent_read_header silent_senders dest: silent_acquire [rotated]
      split: list.split option.split blocking.split prod.split)

lemma silent_run: "silent w w' \<Longrightarrow> silent w (foldl (session_step en table) w' es)"
  by (induction es arbitrary: w') (simp_all add: silent_step)



text \<open>On a stopped session a run of the strand only consumes its first task.\<close>

lemma drop_buffer_strand [simp]: "w_strand (drop_buffer h w) = w_strand w"
  by (simp add: drop_buffer_def case_prod_beta)

lemma stop_cleanup_strand [simp]: "w_strand (stop_cleanup en w) = w_strand w"
  by (simp add: stop_cleanup_def count_metric_def Let_def)

lemma stopped_strand_step:
  assumes "ss_stopped w"
  shows "w_strand (session_step en table w EvStrand) = tl (w_strand w)"
proof (cases "w_strand w")
  case Nil
  then show ?thesis by (simp add: run_strand_def)
next
  case (Cons t ts)
  with assms show ?thesis
    by (cases t) (simp_all add: run_strand_def enqueue_frame_def arm_read_now_def arm_heartbeat_now_def)
qed

lemma stopped_strand_run:
  "ss_stopped w \<Longrightarrow> w_strand (foldl (session_step en table) w (replicate n EvStrand)) = drop n (w_strand w)"
proof (induction n arbitrary: w)
  case (Suc n)
  have "ss_stopped (session_step en table w EvStrand)"
    using silent_step [OF silent_refl [OF Suc.prems], of en table EvStrand] by (simp add: silent_def)
  with Suc.IH [of "session_step en table w EvStrand"] stopped_strand_step [OF Suc.prems] show ?case
    by (simp add: drop_Suc del: session_step.simps)
qed simp

text \<open>
  C28. A stop completes: once a session has stopped, running the tasks that are then in its strand, without anything else, leaves the strand
  empty and the session closed, with the close callback called if there is one.
\<close>

theorem session_stop_completes:
  assumes "session_setting b others jobs" and "w = session_run en table has_on_close b m state jobs now others es"
    and "ss_stopped w" and "w' = foldl (session_step en table) w (replicate (length (w_strand w)) EvStrand)"
  shows "w_strand w' = [] \<and> \<not> ss_socket_open w' \<and> w_closed w' = of_bool (ss_has_on_close w')"
proof -
  have run: "w' = session_run en table has_on_close b m state jobs now others (es @ replicate (length (w_strand w)) EvStrand)"
    using assms(2,4) by (simp add: session_run_def)
  have strand: "w_strand w' = []" using stopped_strand_run [OF assms(3)] assms(4) by simp
  have "silent w w'" using silent_run [OF silent_refl [OF assms(3)]] assms(4) by simp
  then have "ss_stopped w'" by (simp add: silent_def)
  moreover have "stop_ok (w_strand w') (ss_stopped w') (ss_socket_open w') (w_closed w') (ss_has_on_close w')"
    using session_run_inv [OF assms(1)] by (simp add: run session_inv_def)
  ultimately show ?thesis using strand by (auto simp: stop_ok_def)
qed

theorem session_stop_completes_witness:
  "\<not> ss_socket_open (foldl (session_step demo_surroundings Map.empty)
     (session_run demo_surroundings Map.empty True demo_buffers metrics_init (Some demo_state) None 5 [] [EvStart, EvStop])
     (replicate (length (w_strand (session_run demo_surroundings Map.empty True demo_buffers metrics_init (Some demo_state) None 5 []
        [EvStart, EvStop]))) EvStrand))"
proof -
  have "ss_stopped (session_run demo_surroundings Map.empty True demo_buffers metrics_init (Some demo_state) None 5 []
      [EvStart, EvStop])"
    by (simp add: session_run_def)
  from session_stop_completes [OF demo_setting refl this refl] show ?thesis by blast
qed

section \<open>Policies\<close>

text \<open>Replying on the strand leaves strand, jobs and the record of invocations alone.\<close>

definition replies_only :: "world \<Rightarrow> world \<Rightarrow> bool" where
  "replies_only w w' \<longleftrightarrow> w_invoked w' = w_invoked w \<and> w_strand w' = w_strand w \<and> w_jobs w' = w_jobs w"

lemma send_packet_replies: "replies_only w (send_packet en True msg_id flags payload w)"
  by (auto simp: replies_only_def send_packet_def session_make_packet_def acquire_buffer_def async_send_buffer_def
      enqueue_frame_def drop_buffer_def Session_stop_def stop_cleanup_def do_write_def arm_write_timeout_def count_metric_def
      Let_def case_prod_beta split: option.split)

lemma send_error_noexcept_replies: "replies_only w (send_error_noexcept en True code msg w)"
  by (simp add: send_error_noexcept_def send_error_def send_packet_replies)

lemma session_calls_invoked: "w_invoked (fold (session_call en) cs w) = w_invoked w"
proof (induction cs arbitrary: w)
  case (Cons c cs)
  have "w_invoked (session_call en c w) = w_invoked w"
  proof (cases c)
    case CallStop
    then show ?thesis by (simp add: Session_stop_def stop_cleanup_def count_metric_def Let_def)
  qed (use send_packet_replies in \<open>simp_all add: Session_async_send_def send_error_def replies_only_def\<close>)
  with Cons.IH show ?case by simp
qed simp

lemma run_handler_invoked:
  "table msg_id = Some entry \<Longrightarrow>
   w_invoked (run_handler_with_guard en table True msg_id payload i w) = w_invoked w @ [(msg_id, payload)]"
  using send_error_noexcept_replies
  by (auto simp: run_handler_with_guard_def Let_def session_calls_invoked replies_only_def count_metric_def
      split: prod.split handler_result.split)

definition worker_has_room :: "task option JobQueue option \<Rightarrow> bool" where
  "worker_has_room jobs \<longleftrightarrow> (case jobs of None \<Rightarrow> False | Some q \<Rightarrow> \<not> jq_stopping q \<and> \<not> jq_full q)"

definition queued_jobs :: "task option JobQueue option \<Rightarrow> task option list" where
  "queued_jobs jobs = (case jobs of None \<Rightarrow> [] | Some q \<Rightarrow> jq_jobs q)"


end
