(* ===== verification/Game_Opcodes.thy ===== *)
theory Game_Opcodes
  imports Session_Core
begin

text \<open>
  The opcode tables of the chat service, \<^verbatim>\<open>core/include/server/protocol/game_opcodes.hpp\<close>: names and
  policies by identifier, beside the system table of \<open>Session_Core\<close>. The two tables are shown not to
  overlap, and the opcodes that a client may send over UDP are listed.
\<close>

abbreviation (input) MSG_LOGIN_REQ :: u16 where "MSG_LOGIN_REQ \<equiv> 0x0010"
abbreviation (input) MSG_UDP_BIND_REQ :: u16 where "MSG_UDP_BIND_REQ \<equiv> 0x0012"
abbreviation (input) MSG_UDP_BIND_RES :: u16 where "MSG_UDP_BIND_RES \<equiv> 0x0013"

definition game_opcode_name :: "u16 \<Rightarrow> string" where
  "game_opcode_name i =
     (if i = 0x0010 then ''MSG_LOGIN_REQ'' else if i = 0x0011 then ''MSG_LOGIN_RES''
      else if i = 0x0012 then ''MSG_UDP_BIND_REQ'' else if i = 0x0013 then ''MSG_UDP_BIND_RES''
      else if i = 0x0100 then ''MSG_CHAT_SEND'' else if i = 0x0101 then ''MSG_CHAT_BROADCAST''
      else if i = 0x0102 then ''MSG_JOIN_ROOM'' else if i = 0x0103 then ''MSG_LEAVE_ROOM''
      else if i = 0x0104 then ''MSG_WHISPER_REQ'' else if i = 0x0105 then ''MSG_WHISPER_RES''
      else if i = 0x0106 then ''MSG_WHISPER_BROADCAST'' else if i = 0x0200 then ''MSG_STATE_SNAPSHOT''
      else if i = 0x0201 then ''MSG_ROOM_USERS'' else if i = 0x0202 then ''MSG_ROOMS_REQ''
      else if i = 0x0203 then ''MSG_ROOM_USERS_REQ'' else if i = 0x0204 then ''MSG_REFRESH_REQ''
      else if i = 0x0205 then ''MSG_REFRESH_NOTIFY'' else [])"

text \<open>
  Rows of the table that are handled inline, in order over TCP, and differ only in the state they
  require; the two bind messages have rows of their own.
\<close>

definition tcp_policy :: "SessionStatus \<Rightarrow> OpcodePolicy" where
  "tcp_policy required =
     \<lparr>op_required_state = required, op_processing_place = kInline, op_transport = kTcpOnly,
      op_delivery = kReliableOrdered, op_channel = 0\<rparr>"

definition game_opcode_policy :: "u16 \<Rightarrow> OpcodePolicy" where
  "game_opcode_policy i =
     (if i \<in> {0x0010, 0x0011} then tcp_policy kAny
      else if i = 0x0012 then
        \<lparr>op_required_state = kAny, op_processing_place = kInline, op_transport = kUdpOnly,
         op_delivery = kReliable, op_channel = 0\<rparr>
      else if i = 0x0013 then
        \<lparr>op_required_state = kAny, op_processing_place = kInline, op_transport = kBoth,
         op_delivery = kReliable, op_channel = 0\<rparr>
      else if i \<in> {0x0100, 0x0102, 0x0103, 0x0104, 0x0202, 0x0203, 0x0204} then tcp_policy kAuthenticated
      else if i \<in> {0x0101, 0x0105, 0x0106, 0x0200, 0x0201, 0x0205} then tcp_policy kAny
      else default_opcode_policy)"

text \<open>No identifier is named by both tables.\<close>

lemma opcode_tables_disjoint: "game_opcode_name i = [] \<or> system_opcode_name i = []"
  by (auto simp: game_opcode_name_def system_opcode_name_def)

text \<open>
  An opcode without a name has the default policy, and the only opcodes of the two tables that UDP may
  carry are the two bind messages.
\<close>

lemma unnamed_default_policy:
  "game_opcode_name i = [] \<Longrightarrow> game_opcode_policy i = default_opcode_policy"
  by (simp add: game_opcode_name_def game_opcode_policy_def split: if_splits)

lemma system_opcodes_tcp: "op_transport (system_opcode_policy i) = kTcpOnly"
  by (simp add: system_opcode_policy_def default_opcode_policy_def)

lemma game_opcodes_udp:
  "transport_allows (op_transport (game_opcode_policy i)) kUdp \<longleftrightarrow> i \<in> {MSG_UDP_BIND_REQ, MSG_UDP_BIND_RES}"
  by (simp add: game_opcode_policy_def tcp_policy_def default_opcode_policy_def transport_allows_def)

end
