(* ===== verification/C_Strings.thy ===== *)
theory C_Strings
  imports Rollout_Policy
begin

text \<open>
  The functions of the C and C++ standard libraries on strings that the components use: classification
  and trimming of white space, prefixes and substrings, words of a stream, and the conversions of
  decimal numbers with their treatment of signs, trailing text and overflow.
\<close>

section \<open>White space and case\<close>

definition c_isspace :: "char \<Rightarrow> bool" where
  "c_isspace c \<longleftrightarrow> (of_char c :: nat) = 32 \<or> (9 \<le> (of_char c :: nat) \<and> (of_char c :: nat) \<le> 13)"

definition c_tolower :: "char \<Rightarrow> char" where
  "c_tolower c = (if 65 \<le> (of_char c :: nat) \<and> (of_char c :: nat) \<le> 90 then char_of ((of_char c :: nat) + 32) else c)"

definition c_lower :: "string \<Rightarrow> string" where
  "c_lower s = map c_tolower s"

text \<open>The two index loops that the source repeats wherever it trims.\<close>

definition c_trim :: "string \<Rightarrow> string" where
  "c_trim s = rev (dropWhile c_isspace (rev (dropWhile c_isspace s)))"

section \<open>Prefixes, substrings, words\<close>

definition starts_with :: "string \<Rightarrow> string \<Rightarrow> bool" where
  "starts_with p s \<longleftrightarrow> take (length p) s = p"

lemma starts_with_append [simp]: "starts_with p (p @ s)"
  by (simp add: starts_with_def)

text \<open>\<open>text.find(key)\<close>.\<close>

fun find_sub :: "string \<Rightarrow> string \<Rightarrow> nat option" where
  "find_sub key [] = (if key = [] then Some 0 else None)"
| "find_sub key (c # cs) = (if starts_with key (c # cs) then Some 0 else map_option Suc (find_sub key cs))"

text \<open>\<open>stream >> word\<close>: the word and the rest of the stream.\<close>

definition read_word :: "string \<Rightarrow> string \<times> string" where
  "read_word s =
     (let t = dropWhile c_isspace s in (takeWhile (\<lambda>c. \<not> c_isspace c) t, dropWhile (\<lambda>c. \<not> c_isspace c) t))"

text \<open>The strings \<open>std::getline\<close> yields one after the other.\<close>

function split_lines :: "string \<Rightarrow> string list" where
  "split_lines s =
     (if s = [] then []
      else takeWhile (\<lambda>c. c \<noteq> CHR 0x0A) s # split_lines (tl (dropWhile (\<lambda>c. c \<noteq> CHR 0x0A) s)))"
  by pat_completeness auto
termination
proof (relation "measure length")
  fix s :: string
  assume "s \<noteq> []"
  moreover have "length (dropWhile (\<lambda>c. c \<noteq> CHR 0x0A) s) \<le> length s" by (rule length_dropWhile_le)
  ultimately have "length (dropWhile (\<lambda>c. c \<noteq> CHR 0x0A) s) - 1 < length s"
    by (metis diff_less le_less_trans length_greater_0_conv less_imp_diff_less linorder_not_less zero_less_one)
  then show "(tl (dropWhile (\<lambda>c. c \<noteq> CHR 0x0A) s), s) \<in> measure length" by simp
qed simp

declare split_lines.simps [simp del]

section \<open>Numbers\<close>

text \<open>
  \<open>std::stoull\<close> with base 10, \<open>None\<close> for the two exceptions: leading white space, a sign, the longest run of
  digits; what follows is ignored, and a minus sign negates modulo \<open>2 ^ 64\<close>. \<open>std::stoul\<close> is the same function
  where \<open>unsigned long\<close> has 64 bits.
\<close>

definition std_stoull :: "string \<Rightarrow> nat option" where
  "std_stoull s =
     (let t = dropWhile c_isspace s;
          neg = (t \<noteq> [] \<and> hd t = CHR ''-'');
          t = (if t \<noteq> [] \<and> (hd t = CHR ''-'' \<or> hd t = CHR ''+'') then tl t else t);
          ds = digits_prefix 10 t;
          v = digits_value 10 ds in
      if ds = [] \<or> 2 ^ 64 \<le> v then None
      else Some (if neg then (2 ^ 64 - v) mod 2 ^ 64 else v))"

text \<open>The number of characters \<open>std::stoull\<close> reports as used.\<close>

definition stoull_used :: "string \<Rightarrow> nat" where
  "stoull_used s =
     (let ws = takeWhile c_isspace s; t = dropWhile c_isspace s;
          sign = (t \<noteq> [] \<and> (hd t = CHR ''-'' \<or> hd t = CHR ''+''));
          t = (if sign then tl t else t) in
      length ws + (if sign then 1 else 0) + length (digits_prefix 10 t))"

text \<open>\<open>strtoul\<close> and \<open>strtoull\<close>: \<open>None\<close> when no digit is read, the largest value on overflow.\<close>

definition c_strtoull :: "string \<Rightarrow> nat option" where
  "c_strtoull s =
     (let t = dropWhile c_isspace s;
          neg = (t \<noteq> [] \<and> hd t = CHR ''-'');
          t = (if t \<noteq> [] \<and> (hd t = CHR ''-'' \<or> hd t = CHR ''+'') then tl t else t);
          ds = digits_prefix 10 t;
          v = digits_value 10 ds in
      if ds = [] then None
      else Some (if 2 ^ 64 \<le> v then 2 ^ 64 - 1 else if neg then (2 ^ 64 - v) mod 2 ^ 64 else v))"

section \<open>Environment variables\<close>

type_synonym environment = "string \<Rightarrow> string option"

text \<open>\<open>getenv\<close> with the test \<open>value && *value\<close>.\<close>

definition env_nonempty :: "environment \<Rightarrow> string \<Rightarrow> string option" where
  "env_nonempty env key = (case env key of None \<Rightarrow> None | Some v \<Rightarrow> if v = [] then None else Some v)"

end
