(* ===== verification/Gateway_Config.thy ===== *)
theory Gateway_Config
  imports C_Strings Rudp_Peer Resilience Game_Opcodes
begin

text \<open>
  The gateway's configuration, \<open>GatewayApp::configure_gateway\<close> of \<^verbatim>\<open>gateway/src/gateway_app.cpp\<close>: every
  setting is read from the environment, a missing, malformed or out-of-range one falls back to its
  default. The environment is a parameter, a function from names to values. Whatever it holds, the
  settings the gateway ends up with are within their documented ranges, and a value printed in decimal
  inside its range is taken over exactly.
\<close>

section \<open>Reading settings\<close>

definition parse_env_bool :: "environment \<Rightarrow> string \<Rightarrow> bool \<Rightarrow> bool" where
  "parse_env_bool env key fallback =
     (case env_nonempty env key of
        None \<Rightarrow> fallback
      | Some v \<Rightarrow>
          if v \<in> {''1'', ''true'', ''TRUE'', ''on'', ''ON''} then True
          else if v \<in> {''0'', ''false'', ''FALSE'', ''off'', ''OFF''} then False
          else fallback)"

definition parse_env_integral_bounded :: "environment \<Rightarrow> string \<Rightarrow> nat \<Rightarrow> nat \<Rightarrow> nat \<Rightarrow> nat" where
  "parse_env_integral_bounded env key fallback min_value max_value =
     (case env_nonempty env key of
        None \<Rightarrow> fallback
      | Some v \<Rightarrow>
          (case std_stoull v of
             None \<Rightarrow> fallback
           | Some parsed \<Rightarrow> if min_value \<le> parsed \<and> parsed \<le> max_value then parsed else fallback))"

definition parse_env_u32_bounded :: "environment \<Rightarrow> string \<Rightarrow> nat \<Rightarrow> nat \<Rightarrow> nat \<Rightarrow> u32" where
  "parse_env_u32_bounded env key fallback min_value max_value =
     of_nat (parse_env_integral_bounded env key fallback min_value max_value)"

definition parse_env_size_bounded :: "environment \<Rightarrow> string \<Rightarrow> nat \<Rightarrow> nat \<Rightarrow> nat \<Rightarrow> nat" where
  "parse_env_size_bounded env key fallback min_value max_value =
     parse_env_integral_bounded env key fallback min_value max_value"

text \<open>The host before the first colon and the port after it; a port is cut to 16 bits.\<close>

definition parse_listen :: "string \<Rightarrow> u16 \<Rightarrow> string \<times> u16" where
  "parse_listen v fallback_port =
     (if v = [] then (''0.0.0.0'', fallback_port)
      else if CHR '':'' \<notin> set v then (v, fallback_port)
      else
        let host = takeWhile (\<lambda>c. c \<noteq> CHR '':'') v;
            port_view = tl (dropWhile (\<lambda>c. c \<noteq> CHR '':'') v) in
        (host,
         if port_view = [] then fallback_port
         else case std_stoull port_view of None \<Rightarrow> fallback_port | Some p \<Rightarrow> of_nat p))"

text \<open>\<open>if (x < least) x = least\<close>, which several sections end with.\<close>

definition raise_to :: "u32 \<Rightarrow> u32 \<Rightarrow> u32" where
  "raise_to least x = (if x < least then least else x)"

section \<open>The settings\<close>

record GatewayConfig =
  gc_listen_host :: string
  gc_listen_port :: u16
  gc_gateway_id :: string
  gc_backend_connect_timeout_ms :: u32
  gc_backend_send_queue_max_bytes :: nat
  gc_circuit_enabled :: bool
  gc_circuit_fail_threshold :: u32
  gc_circuit_open_ms :: u32
  gc_retry_budget_per_min :: u32
  gc_retry_backoff_ms :: u32
  gc_retry_backoff_max_ms :: u32
  gc_ingress_tokens_per_sec :: u32
  gc_ingress_burst_tokens :: u32
  gc_ingress_max_active_sessions :: nat
  gc_udp_listen_host :: string
  gc_udp_listen_port :: u16
  gc_udp_bind_secret :: string
  gc_udp_bind_ttl_ms :: u32
  gc_udp_bind_fail_window_ms :: u32
  gc_udp_bind_fail_limit :: u32
  gc_udp_bind_block_ms :: u32
  gc_udp_bind_retry_backoff_ms :: u32
  gc_udp_bind_retry_backoff_max_ms :: u32
  gc_udp_bind_retry_max_attempts :: u32
  gc_udp_opcode_allowlist :: "u16 set"
  gc_rollout :: RudpRolloutPolicy
  gc_rudp :: RudpConfig
  gc_allow_anonymous :: bool

text \<open>The member initialisers of \<open>GatewayApp\<close>.\<close>

definition GatewayConfig_default :: GatewayConfig where
  "GatewayConfig_default =
     \<lparr>gc_listen_host = [], gc_listen_port = 6000, gc_gateway_id = [], gc_backend_connect_timeout_ms = 5000,
      gc_backend_send_queue_max_bytes = 256 * 1024, gc_circuit_enabled = True, gc_circuit_fail_threshold = 5,
      gc_circuit_open_ms = 10000, gc_retry_budget_per_min = 120, gc_retry_backoff_ms = 200,
      gc_retry_backoff_max_ms = 2000, gc_ingress_tokens_per_sec = 200, gc_ingress_burst_tokens = 400,
      gc_ingress_max_active_sessions = 50000, gc_udp_listen_host = [], gc_udp_listen_port = 0,
      gc_udp_bind_secret = [], gc_udp_bind_ttl_ms = 5000, gc_udp_bind_fail_window_ms = 10000,
      gc_udp_bind_fail_limit = 5, gc_udp_bind_block_ms = 60000, gc_udp_bind_retry_backoff_ms = 200,
      gc_udp_bind_retry_backoff_max_ms = 2000, gc_udp_bind_retry_max_attempts = 6,
      gc_udp_opcode_allowlist = {},
      gc_rollout = \<lparr>rp_enabled = False, rp_canary_percent = 0, rp_opcode_allowlist = {}\<rparr>,
      gc_rudp = RudpConfig_default, gc_allow_anonymous = True\<rparr>"

text \<open>The sections of \<open>configure_gateway\<close>, in its order: listener and identity, backend connections, ingress.\<close>

definition configure_listen :: "environment \<Rightarrow> GatewayConfig \<Rightarrow> GatewayConfig" where
  "configure_listen env c =
     (let (host, port) = parse_listen (case env ''GATEWAY_LISTEN'' of None \<Rightarrow> ''0.0.0.0:6000'' | Some v \<Rightarrow> v)
                           (gc_listen_port c)
      in c\<lparr>gc_listen_host := host, gc_listen_port := port,
           gc_gateway_id := (case env_nonempty env ''GATEWAY_ID'' of None \<Rightarrow> ''gateway-default'' | Some v \<Rightarrow> v)\<rparr>)"

definition configure_backend :: "environment \<Rightarrow> GatewayConfig \<Rightarrow> GatewayConfig" where
  "configure_backend env c =
     (let backoff = parse_env_u32_bounded env ''GATEWAY_BACKEND_CONNECT_RETRY_BACKOFF_MS'' 200 10 60000;
          backoff_max = parse_env_u32_bounded env ''GATEWAY_BACKEND_CONNECT_RETRY_BACKOFF_MAX_MS'' 2000 10 300000
      in c\<lparr>gc_backend_connect_timeout_ms :=
             parse_env_u32_bounded env ''GATEWAY_BACKEND_CONNECT_TIMEOUT_MS'' 5000 100 60000,
           gc_backend_send_queue_max_bytes :=
             parse_env_size_bounded env ''GATEWAY_BACKEND_SEND_QUEUE_MAX_BYTES'' (256 * 1024) 1024 (16 * 1024 * 1024),
           gc_circuit_enabled := parse_env_bool env ''GATEWAY_BACKEND_CIRCUIT_BREAKER_ENABLED'' True,
           gc_circuit_fail_threshold :=
             parse_env_u32_bounded env ''GATEWAY_BACKEND_CIRCUIT_FAIL_THRESHOLD'' 5 1 100,
           gc_circuit_open_ms := parse_env_u32_bounded env ''GATEWAY_BACKEND_CIRCUIT_OPEN_MS'' 10000 100 300000,
           gc_retry_budget_per_min :=
             parse_env_u32_bounded env ''GATEWAY_BACKEND_CONNECT_RETRY_BUDGET_PER_MIN'' 120 0 60000,
           gc_retry_backoff_ms := backoff,
           gc_retry_backoff_max_ms := raise_to backoff backoff_max\<rparr>)"

definition configure_ingress :: "environment \<Rightarrow> GatewayConfig \<Rightarrow> GatewayConfig" where
  "configure_ingress env c =
     (let tokens = parse_env_u32_bounded env ''GATEWAY_INGRESS_TOKENS_PER_SEC'' 200 1 100000;
          burst = parse_env_u32_bounded env ''GATEWAY_INGRESS_BURST_TOKENS'' 400 1 200000
      in c\<lparr>gc_ingress_tokens_per_sec := tokens,
           gc_ingress_burst_tokens := raise_to tokens burst,
           gc_ingress_max_active_sessions :=
             parse_env_size_bounded env ''GATEWAY_INGRESS_MAX_ACTIVE_SESSIONS'' 50000 1 500000\<rparr>)"

text \<open>UDP binding, then RUDP, then the anonymous-login switch.\<close>

definition configure_udp :: "environment \<Rightarrow> GatewayConfig \<Rightarrow> GatewayConfig" where
  "configure_udp env c =
     (let c = (case env_nonempty env ''GATEWAY_UDP_LISTEN'' of None \<Rightarrow> c
               | Some v \<Rightarrow> (let (host, port) = parse_listen v 0
                            in c\<lparr>gc_udp_listen_host := host, gc_udp_listen_port := port\<rparr>));
          c = (case env_nonempty env ''GATEWAY_UDP_BIND_SECRET'' of None \<Rightarrow> c
               | Some v \<Rightarrow> c\<lparr>gc_udp_bind_secret := v\<rparr>);
          backoff = parse_env_u32_bounded env ''GATEWAY_UDP_BIND_RETRY_BACKOFF_MS'' 200 10 60000;
          backoff_max = parse_env_u32_bounded env ''GATEWAY_UDP_BIND_RETRY_BACKOFF_MAX_MS'' 2000 10 300000;
          allowlist = (case env_nonempty env ''GATEWAY_UDP_OPCODE_ALLOWLIST'' of None \<Rightarrow> {}
                       | Some v \<Rightarrow> parse_udp_opcode_allowlist v)
      in c\<lparr>gc_udp_bind_ttl_ms := parse_env_u32_bounded env ''GATEWAY_UDP_BIND_TTL_MS'' 5000 1000 120000,
           gc_udp_bind_fail_window_ms :=
             parse_env_u32_bounded env ''GATEWAY_UDP_BIND_FAIL_WINDOW_MS'' 10000 1000 120000,
           gc_udp_bind_fail_limit := parse_env_u32_bounded env ''GATEWAY_UDP_BIND_FAIL_LIMIT'' 5 2 100,
           gc_udp_bind_block_ms := parse_env_u32_bounded env ''GATEWAY_UDP_BIND_BLOCK_MS'' 60000 1000 300000,
           gc_udp_bind_retry_backoff_ms := backoff,
           gc_udp_bind_retry_backoff_max_ms := raise_to backoff backoff_max,
           gc_udp_bind_retry_max_attempts :=
             parse_env_u32_bounded env ''GATEWAY_UDP_BIND_RETRY_MAX_ATTEMPTS'' 6 1 32,
           gc_udp_opcode_allowlist := (if allowlist = {} then {MSG_UDP_BIND_REQ} else allowlist)\<rparr>)"

definition configure_rudp :: "environment \<Rightarrow> GatewayConfig \<Rightarrow> GatewayConfig" where
  "configure_rudp env c =
     (let enabled = parse_env_bool env ''GATEWAY_RUDP_ENABLE'' False;
          percent = parse_env_u32_bounded env ''GATEWAY_RUDP_CANARY_PERCENT'' 0 0 100;
          allowlist = (case env_nonempty env ''GATEWAY_RUDP_OPCODE_ALLOWLIST'' of None \<Rightarrow> {}
                       | Some v \<Rightarrow> parse_rudp_opcode_allowlist v);
          rto_min = parse_env_u32_bounded env ''GATEWAY_RUDP_RTO_MIN_MS'' 50 1 10000;
          rto_max = parse_env_u32_bounded env ''GATEWAY_RUDP_RTO_MAX_MS'' 2000 1 60000
      in c\<lparr>gc_rollout := \<lparr>rp_enabled = enabled, rp_canary_percent = (if enabled then percent else 0),
                           rp_opcode_allowlist = allowlist\<rparr>,
           gc_rudp :=
             \<lparr>rc_handshake_timeout_ms =
                parse_env_u32_bounded env ''GATEWAY_RUDP_HANDSHAKE_TIMEOUT_MS'' 1500 100 60000,
              rc_idle_timeout_ms = parse_env_u32_bounded env ''GATEWAY_RUDP_IDLE_TIMEOUT_MS'' 10000 1000 300000,
              rc_ack_delay_ms = parse_env_u32_bounded env ''GATEWAY_RUDP_ACK_DELAY_MS'' 10 1 200,
              rc_rto_min_ms = rto_min,
              rc_rto_max_ms = raise_to rto_min rto_max,
              rc_max_inflight_packets =
                parse_env_size_bounded env ''GATEWAY_RUDP_MAX_INFLIGHT_PACKETS'' 256 1 4096,
              rc_max_inflight_bytes =
                parse_env_size_bounded env ''GATEWAY_RUDP_MAX_INFLIGHT_BYTES'' (256 * 1024) 1024 (16 * 1024 * 1024),
              rc_mtu_payload_bytes =
                parse_env_size_bounded env ''GATEWAY_RUDP_MTU_PAYLOAD_BYTES'' 1200 256 1400\<rparr>\<rparr>)"

definition configure_gateway :: "environment \<Rightarrow> GatewayConfig \<Rightarrow> GatewayConfig" where
  "configure_gateway env c =
     (let c = configure_rudp env (configure_udp env (configure_ingress env (configure_backend env (configure_listen env c))))
      in c\<lparr>gc_allow_anonymous :=
             (case env_nonempty env ''ALLOW_ANONYMOUS'' of None \<Rightarrow> True | Some v \<Rightarrow> v \<noteq> ''0'')\<rparr>)"

section \<open>Every setting is in its range\<close>

lemma bounded_range:
  "min_value \<le> fallback \<Longrightarrow> fallback \<le> max_value \<Longrightarrow>
   min_value \<le> parse_env_integral_bounded env key fallback min_value max_value \<and>
   parse_env_integral_bounded env key fallback min_value max_value \<le> max_value"
  by (simp add: parse_env_integral_bounded_def split: option.split)

lemma unat_bounded_range:
  assumes "min_value \<le> fallback" and "fallback \<le> max_value" and "max_value < 2 ^ 32"
  shows "min_value \<le> unat (parse_env_u32_bounded env key fallback min_value max_value)"
    and "unat (parse_env_u32_bounded env key fallback min_value max_value) \<le> max_value"
proof -
  have "parse_env_integral_bounded env key fallback min_value max_value < 2 ^ 32"
    using bounded_range [OF assms(1,2), of env key] assms(3) by linarith
  then have "unat (parse_env_u32_bounded env key fallback min_value max_value)
      = parse_env_integral_bounded env key fallback min_value max_value"
    by (simp add: parse_env_u32_bounded_def of_nat_inverse)
  then show "min_value \<le> unat (parse_env_u32_bounded env key fallback min_value max_value)"
    and "unat (parse_env_u32_bounded env key fallback min_value max_value) \<le> max_value"
    using bounded_range [OF assms(1,2), of env key] by simp_all
qed

definition between :: "nat \<Rightarrow> u32 \<Rightarrow> nat \<Rightarrow> bool" where
  "between lo w hi \<longleftrightarrow> lo \<le> unat w \<and> unat w \<le> hi"

lemma between_bounded:
  "min_value \<le> fallback \<Longrightarrow> fallback \<le> max_value \<Longrightarrow> max_value < 2 ^ 32 \<Longrightarrow>
   between min_value (parse_env_u32_bounded env key fallback min_value max_value) max_value"
  by (simp add: between_def unat_bounded_range)

lemma between_raised:
  "between lo a hi \<Longrightarrow> between lo b hi' \<Longrightarrow> hi \<le> hi' \<Longrightarrow> between lo (raise_to a b) hi'"
  "a \<le> raise_to a b"
  by (auto simp: between_def raise_to_def)

text \<open>The ranges of the backend, ingress, UDP and RUDP settings.\<close>

definition backend_config_ok :: "GatewayConfig \<Rightarrow> bool" where
  "backend_config_ok c \<longleftrightarrow>
     between 100 (gc_backend_connect_timeout_ms c) 60000 \<and>
     1024 \<le> gc_backend_send_queue_max_bytes c \<and> gc_backend_send_queue_max_bytes c \<le> 16 * 1024 * 1024 \<and>
     between 1 (gc_circuit_fail_threshold c) 100 \<and> between 100 (gc_circuit_open_ms c) 300000 \<and>
     between 0 (gc_retry_budget_per_min c) 60000 \<and> between 10 (gc_retry_backoff_ms c) 60000 \<and>
     between 10 (gc_retry_backoff_max_ms c) 300000 \<and> gc_retry_backoff_ms c \<le> gc_retry_backoff_max_ms c"

definition ingress_config_ok :: "GatewayConfig \<Rightarrow> bool" where
  "ingress_config_ok c \<longleftrightarrow>
     between 1 (gc_ingress_tokens_per_sec c) 100000 \<and> between 1 (gc_ingress_burst_tokens c) 200000 \<and>
     gc_ingress_tokens_per_sec c \<le> gc_ingress_burst_tokens c \<and>
     1 \<le> gc_ingress_max_active_sessions c \<and> gc_ingress_max_active_sessions c \<le> 500000"

definition udp_config_ok :: "GatewayConfig \<Rightarrow> bool" where
  "udp_config_ok c \<longleftrightarrow>
     between 1000 (gc_udp_bind_ttl_ms c) 120000 \<and> between 1000 (gc_udp_bind_fail_window_ms c) 120000 \<and>
     between 2 (gc_udp_bind_fail_limit c) 100 \<and> between 1000 (gc_udp_bind_block_ms c) 300000 \<and>
     between 10 (gc_udp_bind_retry_backoff_ms c) 60000 \<and> between 10 (gc_udp_bind_retry_backoff_max_ms c) 300000 \<and>
     gc_udp_bind_retry_backoff_ms c \<le> gc_udp_bind_retry_backoff_max_ms c \<and>
     between 1 (gc_udp_bind_retry_max_attempts c) 32 \<and> gc_udp_opcode_allowlist c \<noteq> {}"

definition rudp_config_ok :: "RudpRolloutPolicy \<Rightarrow> RudpConfig \<Rightarrow> bool" where
  "rudp_config_ok p r \<longleftrightarrow>
     between 0 (rp_canary_percent p) 100 \<and> (rp_enabled p \<or> rp_canary_percent p = 0) \<and>
     between 100 (rc_handshake_timeout_ms r) 60000 \<and> between 1000 (rc_idle_timeout_ms r) 300000 \<and>
     between 1 (rc_ack_delay_ms r) 200 \<and> between 1 (rc_rto_min_ms r) 10000 \<and> between 1 (rc_rto_max_ms r) 60000 \<and>
     rc_rto_min_ms r \<le> rc_rto_max_ms r \<and> 1 \<le> rc_max_inflight_packets r \<and> rc_max_inflight_packets r \<le> 4096 \<and>
     1024 \<le> rc_max_inflight_bytes r \<and> rc_max_inflight_bytes r \<le> 16 * 1024 * 1024 \<and>
     256 \<le> rc_mtu_payload_bytes r \<and> rc_mtu_payload_bytes r \<le> 1400"

lemmas size_bounded_range =
  bounded_range [folded parse_env_size_bounded_def, THEN conjunct1]
  bounded_range [folded parse_env_size_bounded_def, THEN conjunct2]

lemmas in_range = between_raised(1) [OF between_bounded between_bounded] between_raised(2) between_bounded size_bounded_range

lemma configure_backend_ok: "backend_config_ok (configure_backend env c)"
  by (simp add: backend_config_ok_def configure_backend_def Let_def in_range del: One_nat_def)

lemma configure_ingress_ok: "ingress_config_ok (configure_ingress env c)"
  by (simp add: ingress_config_ok_def configure_ingress_def Let_def in_range del: One_nat_def)

lemma configure_udp_ok: "udp_config_ok (configure_udp env c)"
  by (simp add: udp_config_ok_def configure_udp_def Let_def in_range del: One_nat_def split: prod.split)

lemma configure_rudp_ok: "rudp_config_ok (gc_rollout (configure_rudp env c)) (gc_rudp (configure_rudp env c))"
proof -
  have "between 0 (0 :: u32) 100" by (simp add: between_def)
  then show ?thesis by (simp add: rudp_config_ok_def configure_rudp_def Let_def in_range del: One_nat_def)
qed

text \<open>A later section leaves the settings of the earlier ones alone.\<close>

lemma configure_frames:
  "backend_config_ok (configure_ingress env c) = backend_config_ok c"
  "backend_config_ok (configure_udp env c) = backend_config_ok c"
  "backend_config_ok (configure_rudp env c) = backend_config_ok c"
  "ingress_config_ok (configure_udp env c) = ingress_config_ok c"
  "ingress_config_ok (configure_rudp env c) = ingress_config_ok c"
  "udp_config_ok (configure_rudp env c) = udp_config_ok c"
  by (simp_all add: backend_config_ok_def ingress_config_ok_def udp_config_ok_def configure_ingress_def
      configure_udp_def configure_rudp_def Let_def split: option.split prod.split)

text \<open>
  C36. Whatever the environment holds, the configured gateway is well formed: every numeric setting is in its
  documented range, each upper limit is at least its lower one (retry backoff, UDP bind backoff, retransmission
  timeout, burst and rate), the UDP allowlist is not empty and a disabled RUDP rollout selects no session.
\<close>

theorem gateway_config_well_formed:
  "backend_config_ok (configure_gateway env c) \<and> ingress_config_ok (configure_gateway env c) \<and>
   udp_config_ok (configure_gateway env c) \<and>
   rudp_config_ok (gc_rollout (configure_gateway env c)) (gc_rudp (configure_gateway env c))"
proof -
  have anonymous: "backend_config_ok (c\<lparr>gc_allow_anonymous := b\<rparr>) = backend_config_ok c"
    "ingress_config_ok (c\<lparr>gc_allow_anonymous := b\<rparr>) = ingress_config_ok c"
    "udp_config_ok (c\<lparr>gc_allow_anonymous := b\<rparr>) = udp_config_ok c" for c b
    by (simp_all add: backend_config_ok_def ingress_config_ok_def udp_config_ok_def)
  show ?thesis
    by (simp add: configure_gateway_def Let_def anonymous configure_frames configure_backend_ok
        configure_ingress_ok configure_udp_ok configure_rudp_ok)
qed

section \<open>Settings in range are honoured\<close>

lemma digit_char_not_sign:
  assumes "d < 10"
  shows "\<not> c_isspace (digit_char d)" "digit_char d \<noteq> CHR ''-''" "digit_char d \<noteq> CHR ''+''"
proof -
  have neq: "(of_char (digit_char d) :: nat) = 48 + d" using assms by (rule of_char_digit_char)
  show "\<not> c_isspace (digit_char d)" "digit_char d \<noteq> CHR ''-''" "digit_char d \<noteq> CHR ''+''"
    using neq assms by (auto simp: c_isspace_def)
qed

lemma std_stoull_show_nat:
  assumes "n < 2 ^ 64"
  shows "std_stoull (show_nat n) = Some n"
proof -
  obtain c cs where s: "show_nat n = c # cs" by (metis neq_Nil_conv show_nat_nonempty)
  have "c \<in> set (show_nat n)" by (simp add: s)
  from show_nat_chars [OF this] obtain d where d: "d < 10" "c = digit_char d" by blast
  have "digits_prefix 10 (show_nat n) \<noteq> []" using show_nat_digits [of n] by (metis length_0_conv)
  then show ?thesis
    using assms show_nat_digits [of n] digit_char_not_sign [OF d(1)]
    by (simp add: std_stoull_def Let_def s d(2))
qed

text \<open>A setting written in decimal is taken over exactly when it is inside its range, and replaced by the default
  when it is outside: the 32-bit reader returns the number in the first case and the fallback in the second.
\<close>

theorem env_setting_honoured:
  assumes "n < 2 ^ 64" and "hi < 2 ^ 32" and "env key = Some (show_nat n)"
  shows "parse_env_u32_bounded env key fallback lo hi = (if lo \<le> n \<and> n \<le> hi then of_nat n else of_nat fallback)
    \<and> (lo \<le> n \<and> n \<le> hi \<longrightarrow> unat (parse_env_u32_bounded env key fallback lo hi) = n)"
proof -
  have "env_nonempty env key = Some (show_nat n)" using assms(3) by (simp add: env_nonempty_def)
  then have "parse_env_u32_bounded env key fallback lo hi = (if lo \<le> n \<and> n \<le> hi then of_nat n else of_nat fallback)"
    by (simp add: parse_env_u32_bounded_def parse_env_integral_bounded_def std_stoull_show_nat [OF assms(1)])
  moreover have "n \<le> hi \<Longrightarrow> unat (of_nat n :: u32) = n" using assms(2) by (simp add: of_nat_inverse)
  ultimately show ?thesis by simp
qed

theorem env_setting_honoured_witness:
  "unat (parse_env_u32_bounded (\<lambda>_. Some (show_nat 7)) ''GATEWAY_UDP_BIND_FAIL_LIMIT'' 5 2 100) = 7"
  using env_setting_honoured [of 7 100 "\<lambda>_. Some (show_nat 7)" "''GATEWAY_UDP_BIND_FAIL_LIMIT''" 5 2] by simp

text \<open>
  The listen port is not range checked: a number above 65535 is silently cut to 16 bits, so the gateway
  listens on another port than the one configured.
\<close>

lemma parse_listen_port_wraps: "parse_listen ''0.0.0.0:70000'' 6000 = (''0.0.0.0'', 4464)"
  by (simp add: parse_listen_def std_stoull_def c_isspace_def digits_value_def digit_value_def Let_def)

end
