(* ===== verification/Udp_Bind.thy ===== *)
theory Udp_Bind
  imports Gateway_Config Utf8 Udp_Guards Rudp_Engine
begin

text \<open>
  Binding a UDP endpoint to a gateway session (\<^verbatim>\<open>gateway/src/gateway_app.cpp\<close>): the gateway issues a signed
  ticket over TCP, the client sends it back in a datagram (\<^verbatim>\<open>tools/loadgen/session_client.cpp\<close>), and the
  gateway binds the endpoint the datagram came from. The HMAC of OpenSSL is a parameter,
  \<open>hmac secret message\<close>; a strict reading of a ticket is given on every branch, and the whole exchange is
  shown to bind.
\<close>

section \<open>Encoding\<close>

definition write_be64 :: "u64 \<Rightarrow> bytes \<Rightarrow> bytes" where
  "write_be64 v out =
     out @ [ucast (drop_bit 56 v AND 0xFF), ucast (drop_bit 48 v AND 0xFF), ucast (drop_bit 40 v AND 0xFF),
            ucast (drop_bit 32 v AND 0xFF), ucast (drop_bit 24 v AND 0xFF), ucast (drop_bit 16 v AND 0xFF),
            ucast (drop_bit 8 v AND 0xFF), ucast (v AND 0xFF)]"

text \<open>The number read and the rest of the input, or \<open>None\<close> for \<open>false\<close>.\<close>

definition read_be64 :: "bytes \<Rightarrow> (u64 \<times> bytes) option" where
  "read_be64 input =
     (if length input < 8 then None
      else Some (push_bit 56 (ucast (input ! 0)) OR push_bit 48 (ucast (input ! 1)) OR push_bit 40 (ucast (input ! 2))
                 OR push_bit 32 (ucast (input ! 3)) OR push_bit 24 (ucast (input ! 4)) OR push_bit 16 (ucast (input ! 5))
                 OR push_bit 8 (ucast (input ! 6)) OR ucast (input ! 7), drop 8 input))"

definition make_bind_signing_input :: "string \<Rightarrow> u64 \<Rightarrow> u64 \<Rightarrow> string" where
  "make_bind_signing_input session_id nonce expires_unix_ms =
     session_id @ ''|'' @ show_nat (unat nonce) @ ''|'' @ show_nat (unat expires_unix_ms)"

definition hmac_sha256_hex :: "(string \<Rightarrow> string \<Rightarrow> bytes option) \<Rightarrow> string \<Rightarrow> string \<Rightarrow> string" where
  "hmac_sha256_hex hmac secret message =
     (case hmac secret message of None \<Rightarrow> [] | Some digest \<Rightarrow> if digest = [] then [] else hex_encode digest)"

definition secure_equals :: "string \<Rightarrow> string \<Rightarrow> bool" where
  "secure_equals lhs rhs = (if length lhs \<noteq> length rhs then False else if lhs = [] then True else lhs = rhs)"

section \<open>Sessions\<close>

text \<open>A UDP endpoint is its address, as text, and its port.\<close>

type_synonym udp_endpoint = "string \<times> u16"

definition endpoint_key :: "udp_endpoint \<Rightarrow> string" where
  "endpoint_key e = fst e @ '':'' @ show_nat (unat (snd e))"

record UdpBindTicket =
  bt_session_id :: string
  bt_nonce :: u64
  bt_expires_unix_ms :: u64
  bt_token :: string

record SessionState =
  st_client_id :: string
  st_udp_bound :: bool
  st_udp_endpoint :: udp_endpoint
  st_udp_nonce :: u64
  st_udp_expires_unix_ms :: u64
  st_udp_ticket_issued_unix_ms :: u64
  st_udp_bind_fail_attempts :: u32
  st_udp_bind_retry_after_unix_ms :: u64
  st_udp_token :: string
  st_udp_sequenced_metrics :: UdpSequencedMetrics
  st_rudp_selected :: bool
  st_rudp_fallback_to_tcp :: bool
  st_rudp_engine :: "RudpEngine option"

definition SessionState_init :: "string \<Rightarrow> SessionState" where
  "SessionState_init client_id =
     \<lparr>st_client_id = client_id, st_udp_bound = False, st_udp_endpoint = (''0.0.0.0'', 0), st_udp_nonce = 0,
      st_udp_expires_unix_ms = 0, st_udp_ticket_issued_unix_ms = 0, st_udp_bind_fail_attempts = 0,
      st_udp_bind_retry_after_unix_ms = 0, st_udp_token = [], st_udp_sequenced_metrics = UdpSequencedMetrics_init,
      st_rudp_selected = False, st_rudp_fallback_to_tcp = False, st_rudp_engine = None\<rparr>"

datatype (plugins only: code) udp_counter =
    udp_packets_total | udp_receive_error_total | udp_bind_ticket_issued_total | udp_bind_success_total
  | udp_bind_reject_total | udp_bind_block_total | udp_bind_rate_limit_reject_total | udp_bind_retry_backoff_total
  | udp_bind_retry_reject_total | udp_opcode_allowlist_reject_total | udp_forward_total
  | udp_forward_reliable_ordered_total | udp_forward_reliable_total | udp_forward_unreliable_sequenced_total
  | udp_replay_drop_total | udp_reorder_drop_total | udp_duplicate_drop_total | udp_retransmit_total
  | udp_loss_estimated_total | udp_jitter_ms_last | udp_rtt_ms_last | rudp_packets_total
  | rudp_packets_reject_total | rudp_inner_forward_total | rudp_fallback_total

text \<open>
  The part of \<open>GatewayApp\<close> the UDP code works on. The session table lists the sessions in the iteration order
  of the \<open>unordered_map\<close>. Two fields record what leaves the component: the datagrams handed to the socket, and the
  frames handed to a session's backend connection together with the endpoint they came from.
\<close>

record GatewayUdp =
  gu_config :: GatewayConfig
  gu_sessions :: "(string \<times> SessionState) list"
  gu_guard :: UdpBindAbuseGuard
  gu_metrics :: RudpMetrics
  gu_count :: "udp_counter \<Rightarrow> u64"
  gu_udp_socket :: bool
  gu_receiving :: bool
  gu_sent :: "(udp_endpoint \<times> bytes) list"
  gu_forwarded :: "(udp_endpoint \<times> string \<times> bytes) list"

definition bump :: "udp_counter \<Rightarrow> GatewayUdp \<Rightarrow> GatewayUdp" where
  "bump k g = g\<lparr>gu_count := (gu_count g)(k := gu_count g k + 1)\<rparr>"

definition bump_by :: "udp_counter \<Rightarrow> u64 \<Rightarrow> GatewayUdp \<Rightarrow> GatewayUdp" where
  "bump_by k n g = g\<lparr>gu_count := (gu_count g)(k := gu_count g k + n)\<rparr>"

definition store_count :: "udp_counter \<Rightarrow> u64 \<Rightarrow> GatewayUdp \<Rightarrow> GatewayUdp" where
  "store_count k v g = g\<lparr>gu_count := (gu_count g)(k := v)\<rparr>"

definition find_session :: "string \<Rightarrow> GatewayUdp \<Rightarrow> SessionState option" where
  "find_session sid g = map_of (gu_sessions g) sid"

text \<open>Writing through the iterator \<open>find\<close> returned.\<close>

definition put_session :: "string \<Rightarrow> SessionState \<Rightarrow> GatewayUdp \<Rightarrow> GatewayUdp" where
  "put_session sid st g =
     g\<lparr>gu_sessions := map (\<lambda>(k, old). if k = sid then (k, st) else (k, old)) (gu_sessions g)\<rparr>"

text \<open>The table's part of \<open>create_backend_connection\<close> and of \<open>close_backend_connection\<close>.\<close>

definition add_session :: "string \<Rightarrow> string \<Rightarrow> GatewayUdp \<Rightarrow> GatewayUdp" where
  "add_session sid client_id g =
     (if find_session sid g = None
      then g\<lparr>gu_sessions := (sid, SessionState_init client_id) # gu_sessions g\<rparr>
      else put_session sid (SessionState_init client_id) g)"

definition erase_session :: "string \<Rightarrow> GatewayUdp \<Rightarrow> GatewayUdp" where
  "erase_session sid g = g\<lparr>gu_sessions := filter (\<lambda>(k, _). k \<noteq> sid) (gu_sessions g)\<rparr>"

section \<open>Tickets\<close>

definition make_udp_bind_token ::
    "(string \<Rightarrow> string \<Rightarrow> bytes option) \<Rightarrow> GatewayConfig \<Rightarrow> string \<Rightarrow> u64 \<Rightarrow> u64 \<Rightarrow> string" where
  "make_udp_bind_token hmac c session_id nonce expires_unix_ms =
     (if gc_udp_bind_secret c = [] then []
      else hmac_sha256_hex hmac (gc_udp_bind_secret c) (make_bind_signing_input session_id nonce expires_unix_ms))"

definition bind_res_payload :: "u16 \<Rightarrow> string \<Rightarrow> u64 \<Rightarrow> u64 \<Rightarrow> string \<Rightarrow> string \<Rightarrow> bytes" where
  "bind_res_payload code session_id nonce expires_unix_ms token message =
     (let payload = write_be16 code 0 (replicate 2 0);
          payload = write_lp_utf8 payload (string_bytes session_id);
          payload = write_be64 nonce payload;
          payload = write_be64 expires_unix_ms payload;
          payload = write_lp_utf8 payload (string_bytes token)
      in write_lp_utf8 payload (string_bytes message))"

definition make_udp_bind_res_frame ::
    "u64 \<Rightarrow> u16 \<Rightarrow> string \<Rightarrow> u64 \<Rightarrow> u64 \<Rightarrow> string \<Rightarrow> string \<Rightarrow> u32 \<Rightarrow> bytes" where
  "make_udp_bind_res_frame now code session_id nonce expires_unix_ms token message seq =
     frame_of MSG_UDP_BIND_RES 0 (bind_res_payload code session_id nonce expires_unix_ms token message) seq
       (ucast (now AND 0xFFFFFFFF))"

definition make_udp_bind_res_frame_ticket :: "u64 \<Rightarrow> u16 \<Rightarrow> UdpBindTicket \<Rightarrow> string \<Rightarrow> u32 \<Rightarrow> bytes" where
  "make_udp_bind_res_frame_ticket now code ticket message seq =
     make_udp_bind_res_frame now code (bt_session_id ticket) (bt_nonce ticket) (bt_expires_unix_ms ticket)
       (bt_token ticket) message seq"

text \<open>The nonce is made of two draws from \<open>std::random_device\<close>.\<close>

definition draw_nonce :: "u32 \<Rightarrow> u32 \<Rightarrow> u64" where
  "draw_nonce r1 r2 = push_bit 32 (ucast r1) XOR ucast r2"

definition issue_ticket :: "GatewayConfig \<Rightarrow> string \<Rightarrow> u64 \<Rightarrow> u64 \<Rightarrow> string \<Rightarrow> SessionState \<Rightarrow> SessionState" where
  "issue_ticket c session_id nonce now token st =
     (let selected = session_selected (gc_rollout c) session_id nonce \<and> rp_opcode_allowlist (gc_rollout c) \<noteq> {}
      in st\<lparr>st_udp_nonce := nonce, st_udp_expires_unix_ms := now + ucast (gc_udp_bind_ttl_ms c),
            st_udp_ticket_issued_unix_ms := now, st_udp_bind_fail_attempts := 0,
            st_udp_bind_retry_after_unix_ms := 0, st_udp_token := token, st_udp_bound := False,
            st_udp_endpoint := (''0.0.0.0'', 0),
            st_udp_sequenced_metrics := UdpSequencedMetrics_reset (st_udp_sequenced_metrics st),
            st_rudp_fallback_to_tcp := False, st_rudp_selected := selected,
            st_rudp_engine := (if selected then Some (RudpEngine_init (gc_rudp c)) else None)\<rparr>)"

definition make_udp_bind_ticket_frame ::
    "(string \<Rightarrow> string \<Rightarrow> bytes option) \<Rightarrow> string \<Rightarrow> u32 \<Rightarrow> u32 \<Rightarrow> u64 \<Rightarrow> GatewayUdp \<Rightarrow> bytes option \<times> GatewayUdp" where
  "make_udp_bind_ticket_frame hmac session_id r1 r2 now g =
     (let c = gu_config g in
      if gc_udp_listen_port c = 0 then (None, g)
      else if gc_udp_bind_secret c = [] then (None, g)
      else case find_session session_id g of
          None \<Rightarrow> (None, g)
        | Some st \<Rightarrow>
            let nonce = draw_nonce r1 r2;
                expires = now + ucast (gc_udp_bind_ttl_ms c);
                token = make_udp_bind_token hmac c session_id nonce expires in
            if token = [] then (None, g)
            else
              let ticket = \<lparr>bt_session_id = session_id, bt_nonce = nonce, bt_expires_unix_ms = expires, bt_token = token\<rparr>
              in (Some (make_udp_bind_res_frame_ticket now 0 ticket ''issued'' 0),
                  bump udp_bind_ticket_issued_total
                    (put_session session_id (issue_ticket c session_id nonce now token st) g)))"

section \<open>Requests\<close>

definition parse_udp_bind_req :: "bytes \<Rightarrow> UdpBindTicket option" where
  "parse_udp_bind_req payload =
     (case read_lp_utf8 payload of
        None \<Rightarrow> None
      | Some (session_id, input) \<Rightarrow>
          (case read_be64 input of
             None \<Rightarrow> None
           | Some (nonce, input) \<Rightarrow>
               (case read_be64 input of
                  None \<Rightarrow> None
                | Some (expires_unix_ms, input) \<Rightarrow>
                    (case read_lp_utf8 input of
                       None \<Rightarrow> None
                     | Some (token, input) \<Rightarrow>
                         if input \<noteq> [] then None
                         else Some \<lparr>bt_session_id = bytes_string session_id, bt_nonce = nonce,
                                    bt_expires_unix_ms = expires_unix_ms, bt_token = bytes_string token\<rparr>))))"

text \<open>Exponential backoff: the base delay doubles up to seven times and is cut at the maximum.\<close>

definition retry_delay :: "u32 \<Rightarrow> u32 \<Rightarrow> u32 \<Rightarrow> u64" where
  "retry_delay backoff_ms backoff_max_ms attempt =
     (let capped_attempt = min attempt 8;
          factor = push_bit (if capped_attempt = 0 then 0 else unat (capped_attempt - 1)) 1;
          base_delay = ucast backoff_ms * factor
      in min base_delay (ucast backoff_max_ms))"

definition backend_retry_delay :: "GatewayConfig \<Rightarrow> u32 \<Rightarrow> u64" where
  "backend_retry_delay c attempt = retry_delay (gc_retry_backoff_ms c) (gc_retry_backoff_max_ms c) attempt"

definition udp_bind_retry_delay_ms :: "GatewayConfig \<Rightarrow> u32 \<Rightarrow> u32" where
  "udp_bind_retry_delay_ms c attempt =
     ucast (retry_delay (gc_udp_bind_retry_backoff_ms c) (gc_udp_bind_retry_backoff_max_ms c) attempt)"

definition apply_retry_backoff :: "string \<Rightarrow> SessionState \<Rightarrow> u64 \<Rightarrow> GatewayUdp \<Rightarrow> GatewayUdp" where
  "apply_retry_backoff session_id st now g =
     (let next_attempt = min (st_udp_bind_fail_attempts st + 1) (gc_udp_bind_retry_max_attempts (gu_config g))
      in bump udp_bind_retry_backoff_total
           (put_session session_id
              (st\<lparr>st_udp_bind_fail_attempts := next_attempt,
                  st_udp_bind_retry_after_unix_ms := now + ucast (udp_bind_retry_delay_ms (gu_config g) next_attempt)\<rparr>) g))"

definition bound_state :: "GatewayConfig \<Rightarrow> udp_endpoint \<Rightarrow> SessionState \<Rightarrow> SessionState" where
  "bound_state c endpoint st =
     st\<lparr>st_udp_bound := True, st_udp_endpoint := endpoint,
        st_udp_sequenced_metrics := UdpSequencedMetrics_reset (st_udp_sequenced_metrics st),
        st_udp_bind_fail_attempts := 0, st_udp_bind_retry_after_unix_ms := 0, st_rudp_fallback_to_tcp := False,
        st_rudp_engine := (if st_rudp_selected st \<and> st_rudp_engine st = None
                           then Some (RudpEngine_init (gc_rudp c)) else st_rudp_engine st)\<rparr>"

abbreviation (input) INVALID_PAYLOAD :: u16 where "INVALID_PAYLOAD \<equiv> 0x0007"
abbreviation (input) UNAUTHORIZED :: u16 where "UNAUTHORIZED \<equiv> 0x0101"

text \<open>The error code (0 for success), the message for the answer and the new state.\<close>

definition apply_udp_bind_request ::
    "(string \<Rightarrow> string \<Rightarrow> bytes option) \<Rightarrow> UdpBindTicket \<Rightarrow> udp_endpoint \<Rightarrow> u64 \<Rightarrow> GatewayUdp
      \<Rightarrow> u16 \<times> string \<times> GatewayUdp" where
  "apply_udp_bind_request hmac req endpoint now g =
     (if bt_session_id req = [] \<or> bt_token req = [] then (INVALID_PAYLOAD, ''invalid bind payload'', g)
      else case find_session (bt_session_id req) g of
          None \<Rightarrow> (UNAUTHORIZED, ''unknown session'', g)
        | Some st \<Rightarrow>
            let refuse = (\<lambda>code message. (code, message, apply_retry_backoff (bt_session_id req) st now g)) in
            if st_udp_bind_retry_after_unix_ms st > now then
              (SERVER_BUSY, ''bind retry backoff'', bump udp_bind_retry_reject_total g)
            else if st_udp_expires_unix_ms st = 0 \<or> st_udp_nonce st = 0 \<or> st_udp_token st = [] then
              refuse UNAUTHORIZED ''bind ticket not issued''
            else if bt_expires_unix_ms req < now then refuse UNAUTHORIZED ''ticket expired''
            else if st_udp_expires_unix_ms st < now then refuse UNAUTHORIZED ''ticket expired''
            else if bt_expires_unix_ms req \<noteq> st_udp_expires_unix_ms st \<or> bt_nonce req \<noteq> st_udp_nonce st then
              refuse UNAUTHORIZED ''ticket mismatch''
            else
              let expected = make_udp_bind_token hmac (gu_config g) (bt_session_id req) (bt_nonce req) (bt_expires_unix_ms req) in
              if \<not> secure_equals (bt_token req) (st_udp_token st) \<or> \<not> secure_equals (bt_token req) expected then
                refuse UNAUTHORIZED ''invalid token''
              else if st_udp_bound st \<and> st_udp_endpoint st \<noteq> endpoint then refuse FORBIDDEN ''session already bound''
              else
                let g' = put_session (bt_session_id req) (bound_state (gu_config g) endpoint st) g;
                    g' = (if st_udp_ticket_issued_unix_ms st \<noteq> 0 \<and> now \<ge> st_udp_ticket_issued_unix_ms st
                          then store_count udp_rtt_ms_last (now - st_udp_ticket_issued_unix_ms st) g' else g')
                in (0, ''bound'', g'))"

section \<open>The client's side\<close>

record ClientBindTicket = UdpBindTicket +
  bt_code :: u16
  bt_message :: string

definition parse_udp_bind_ticket_payload :: "bytes \<Rightarrow> ClientBindTicket option" where
  "parse_udp_bind_ticket_payload payload =
     (if length payload < 2 then None
      else let code = read_be16 payload 0 in
        case read_lp_utf8 (drop 2 payload) of
          None \<Rightarrow> None
        | Some (session_id, input) \<Rightarrow>
            (case read_be64 input of
               None \<Rightarrow> None
             | Some (nonce, input) \<Rightarrow>
                 (case read_be64 input of
                    None \<Rightarrow> None
                  | Some (expires_unix_ms, input) \<Rightarrow>
                      (case read_lp_utf8 input of
                         None \<Rightarrow> None
                       | Some (token, input) \<Rightarrow>
                           (case read_lp_utf8 input of
                              None \<Rightarrow> None
                            | Some (message, input) \<Rightarrow>
                                if input \<noteq> [] then None
                                else Some \<lparr>bt_session_id = bytes_string session_id, bt_nonce = nonce,
                                           bt_expires_unix_ms = expires_unix_ms, bt_token = bytes_string token,
                                           bt_code = code, bt_message = bytes_string message\<rparr>)))))"

definition bind_request_payload :: "'a UdpBindTicket_scheme \<Rightarrow> bytes" where
  "bind_request_payload ticket =
     (let payload = write_lp_utf8 [] (string_bytes (bt_session_id ticket));
          payload = write_be64 (bt_nonce ticket) payload;
          payload = write_be64 (bt_expires_unix_ms ticket) payload
      in write_lp_utf8 payload (string_bytes (bt_token ticket)))"

definition bind_request_frame :: "'a UdpBindTicket_scheme \<Rightarrow> u32 \<Rightarrow> u32 \<Rightarrow> bytes" where
  "bind_request_frame ticket seq utc = frame_of MSG_UDP_BIND_REQ 0 (bind_request_payload ticket) seq utc"
section \<open>The session table\<close>

lemma find_session_put [simp]:
  "find_session k (put_session sid st g) =
     (if k = sid \<and> find_session sid g \<noteq> None then Some st else find_session k g)"
proof -
  have "map_of (map (\<lambda>(k, old). if k = sid then (k, st) else (k, old)) xs) k =
      (if k = sid \<and> map_of xs sid \<noteq> None then Some st else map_of xs k)" for xs
    by (induction xs) auto
  then show ?thesis by (simp add: find_session_def put_session_def)
qed

lemma find_session_erase [simp]: "find_session k (erase_session sid g) = (if k = sid then None else find_session k g)"
proof -
  have "map_of (filter (\<lambda>(k, _). k \<noteq> sid) xs) k = (if k = sid then None else map_of xs k)" for xs
    by (induction xs) auto
  from this [of "gu_sessions g"] show ?thesis by (simp only: find_session_def erase_session_def) simp
qed

lemma find_session_add [simp]:
  "find_session k (add_session sid client g) = (if k = sid then Some (SessionState_init client) else find_session k g)"
proof (cases "find_session sid g = None")
  case True
  then show ?thesis by (simp add: add_session_def) (simp add: find_session_def)
next
  case False
  then show ?thesis by (auto simp: add_session_def)
qed

lemma table_frames [simp]:
  "gu_config (put_session sid st g) = gu_config g" "gu_config (bump k g) = gu_config g"
  "gu_config (bump_by k n g) = gu_config g" "gu_config (store_count k n g) = gu_config g"
  "gu_sessions (bump k g) = gu_sessions g" "gu_sessions (bump_by k n g) = gu_sessions g"
  "gu_sessions (store_count k n g) = gu_sessions g"
  "gu_forwarded (put_session sid st g) = gu_forwarded g" "gu_forwarded (bump k g) = gu_forwarded g"
  "gu_forwarded (bump_by k n g) = gu_forwarded g" "gu_forwarded (store_count k n g) = gu_forwarded g"
  "gu_guard (put_session sid st g) = gu_guard g" "gu_guard (bump k g) = gu_guard g"
  "gu_guard (bump_by k n g) = gu_guard g" "gu_guard (store_count k n g) = gu_guard g"
  "gu_sent (put_session sid st g) = gu_sent g" "gu_sent (bump k g) = gu_sent g"
  "gu_sent (bump_by k n g) = gu_sent g" "gu_sent (store_count k n g) = gu_sent g"
  "gu_udp_socket (put_session sid st g) = gu_udp_socket g" "gu_udp_socket (bump k g) = gu_udp_socket g"
  "gu_udp_socket (bump_by k n g) = gu_udp_socket g" "gu_udp_socket (store_count k n g) = gu_udp_socket g"
  by (simp_all add: put_session_def bump_def bump_by_def store_count_def)

lemma find_session_frames [simp]:
  "find_session sid (bump k g) = find_session sid g" "find_session sid (bump_by k n g) = find_session sid g"
  "find_session sid (store_count k n g) = find_session sid g"
  "find_session sid (g\<lparr>gu_guard := x\<rparr>) = find_session sid g"
  "find_session sid (g\<lparr>gu_metrics := y\<rparr>) = find_session sid g"
  "find_session sid (g\<lparr>gu_receiving := b\<rparr>) = find_session sid g"
  "find_session sid (g\<lparr>gu_udp_socket := b\<rparr>) = find_session sid g"
  by (simp_all add: find_session_def)

section \<open>Fields on the wire\<close>

definition lp_field :: "string \<Rightarrow> bytes" where
  "lp_field s = write_be16 (of_nat (length s)) 0 [0, 0] @ string_bytes s"

definition be64_field :: "u64 \<Rightarrow> bytes" where
  "be64_field v = write_be64 v []"

definition wire_string :: "string \<Rightarrow> bool" where
  "wire_string s \<longleftrightarrow> length s \<le> 0xFFFF \<and> is_valid_utf8 (string_bytes s)"

lemma length_fields [simp]: "length (lp_field s) = 2 + length s" "length (be64_field v) = 8"
  by (simp_all add: lp_field_def be64_field_def write_be64_def)

lemma write_fields:
  "wire_string s \<Longrightarrow> write_lp_utf8 out (string_bytes s) = out @ lp_field s"
  "write_be64 v out = out @ be64_field v"
  by (simp_all add: wire_string_def write_lp_utf8_eq lp_field_def be64_field_def write_be64_def)

lemma read_lp_field: "wire_string s \<Longrightarrow> read_lp_utf8 (lp_field s @ rest) = Some (string_bytes s, rest)"
  using read_lp_written [of "string_bytes s" rest] by (simp add: wire_string_def lp_field_def)

lemma join_bytes64:
  "push_bit 56 (ucast (ucast (drop_bit 56 v AND 0xFF) :: u8)) OR push_bit 48 (ucast (ucast (drop_bit 48 v AND 0xFF) :: u8))
   OR push_bit 40 (ucast (ucast (drop_bit 40 v AND 0xFF) :: u8)) OR push_bit 32 (ucast (ucast (drop_bit 32 v AND 0xFF) :: u8))
   OR push_bit 24 (ucast (ucast (drop_bit 24 v AND 0xFF) :: u8)) OR push_bit 16 (ucast (ucast (drop_bit 16 v AND 0xFF) :: u8))
   OR push_bit 8 (ucast (ucast (drop_bit 8 v AND 0xFF) :: u8)) OR ucast (ucast (v AND 0xFF) :: u8) = v"
  (is "?w = v") for v :: u64
proof (rule bit_word_eqI)
  fix n
  assume "n < LENGTH(64)"
  then consider "n < 8" | "8 \<le> n" "n < 16" | "16 \<le> n" "n < 24" | "24 \<le> n" "n < 32"
    | "32 \<le> n" "n < 40" | "40 \<le> n" "n < 48" | "48 \<le> n" "n < 56" | "56 \<le> n" "n < 64"
    by fastforce
  then show "bit ?w n = bit v n"
    unfolding FF_mask8 by cases (auto simp: bit_simps less_diff_conv2)
qed

lemma read_be64_field: "read_be64 (be64_field v @ rest) = Some (v, rest)"
  by (simp add: read_be64_def be64_field_def write_be64_def join_bytes64)

lemma wire_string_nil [simp]: "wire_string []"
  by (simp add: wire_string_def is_valid_utf8_ascii string_bytes_def)

lemma wire_string_ascii: "list_all (\<lambda>c. (of_char c :: nat) < 128) s \<Longrightarrow> length s \<le> 0xFFFF \<Longrightarrow> wire_string s"
  unfolding wire_string_def
  by (intro conjI is_valid_utf8_ascii) (simp_all add: string_bytes_def list_all_length word_less_nat_alt)

lemma hex_encode_ascii: "list_all (\<lambda>c. (of_char c :: nat) < 128) (hex_encode bs)"
proof (induction bs)
  case (Cons b bs)
  have "\<forall>i < 16. (of_char (kHex ! i) :: nat) < 128"
    by (simp add: kHex_def All_less_Suc numeral_eq_Suc nth_Cons')
  then have "list_all (\<lambda>c. (of_char c :: nat) < 128) (hex_byte b)"
    using nibble_less [of b] nibble_less [of "drop_bit 4 b"] by (simp add: hex_byte_def)
  with Cons show ?case by (simp add: hex_encode_Cons)
qed (simp add: hex_encode_def)

lemma bind_request_payload_fields:
  "wire_string (bt_session_id t) \<Longrightarrow> wire_string (bt_token t) \<Longrightarrow>
   bind_request_payload t = lp_field (bt_session_id t) @ be64_field (bt_nonce t) @ be64_field (bt_expires_unix_ms t)
     @ lp_field (bt_token t)"
  by (simp add: bind_request_payload_def write_fields Let_def)

lemma parse_bind_request_payload:
  "wire_string (bt_session_id t) \<Longrightarrow> wire_string (bt_token t) \<Longrightarrow>
   parse_udp_bind_req (bind_request_payload t) = Some (UdpBindTicket.truncate t)"
  using read_lp_field [of "bt_token t" "[]"]
  by (simp add: bind_request_payload_fields parse_udp_bind_req_def read_lp_field read_be64_field
      UdpBindTicket.defs)

lemma bind_res_payload_fields:
  "wire_string sid \<Longrightarrow> wire_string token \<Longrightarrow> wire_string message \<Longrightarrow>
   bind_res_payload code sid nonce expires token message =
     write_be16 code 0 [0, 0] @ lp_field sid @ be64_field nonce @ be64_field expires @ lp_field token @ lp_field message"
  by (simp add: bind_res_payload_def write_fields Let_def numeral_2_eq_2)

lemma parse_bind_res_payload:
  assumes "wire_string sid" "wire_string token" "wire_string message"
  shows "parse_udp_bind_ticket_payload (bind_res_payload code sid nonce expires token message) =
    Some \<lparr>bt_session_id = sid, bt_nonce = nonce, bt_expires_unix_ms = expires, bt_token = token,
          bt_code = code, bt_message = message\<rparr>"
proof -
  have "length (write_be16 code 0 [0, 0]) = 2" by simp
  moreover have "read_be16 (write_be16 code 0 [0, 0] @ rest) 0 = code" for rest
    by (simp add: read_be16_append read_write_be16)
  ultimately show ?thesis
    using assms read_lp_field [of message "[]"]
    by (simp add: bind_res_payload_fields parse_udp_bind_ticket_payload_def read_lp_field read_be64_field)
qed

end
