(* ===== verification/Udp_Ingress.thy ===== *)
theory Udp_Ingress
  imports Udp_Bind
begin

text \<open>
  What the gateway does with a received datagram, the completion handler of
  \<open>GatewayApp::do_udp_receive\<close> (\<^verbatim>\<open>gateway/src/gateway_app.cpp\<close>): RUDP packets go through the session's engine
  and the frames it delivers are checked and forwarded, bind requests are answered, other frames of a bound
  endpoint are checked against the opcode tables and the allowlist and forwarded. The handler reads the clock
  several times within one activation; the model uses one instant.
\<close>

section \<open>Sockets\<close>

definition do_udp_receive :: "GatewayUdp \<Rightarrow> GatewayUdp" where
  "do_udp_receive g = (if \<not> gu_udp_socket g then g else g\<lparr>gu_receiving := True\<rparr>)"

definition send_udp_datagram :: "bytes \<Rightarrow> udp_endpoint \<Rightarrow> GatewayUdp \<Rightarrow> GatewayUdp" where
  "send_udp_datagram frame endpoint g =
     (if \<not> gu_udp_socket g then g else g\<lparr>gu_sent := gu_sent g @ [(endpoint, frame)]\<rparr>)"

text \<open>
  \<open>socket_ok\<close> says whether address, socket and port were usable: the four early returns of
  \<open>start_udp_listener\<close> after the two checks of the settings.
\<close>

definition start_udp_listener :: "bool \<Rightarrow> GatewayUdp \<Rightarrow> GatewayUdp" where
  "start_udp_listener socket_ok g =
     (if gc_udp_listen_port (gu_config g) = 0 then g
      else if gc_udp_bind_secret (gu_config g) = [] then g
      else if \<not> socket_ok then g
      else do_udp_receive (g\<lparr>gu_udp_socket := True\<rparr>))"

definition stop_udp_listener :: "GatewayUdp \<Rightarrow> GatewayUdp" where
  "stop_udp_listener g = g\<lparr>gu_udp_socket := False\<rparr>"

section \<open>RUDP packets\<close>

text \<open>The scan of the session table for the endpoint.\<close>

definition bound_session :: "udp_endpoint \<Rightarrow> GatewayUdp \<Rightarrow> string option" where
  "bound_session endpoint g =
     map_option fst (find (\<lambda>(_, st). st_udp_bound st \<and> st_udp_endpoint st = endpoint) (gu_sessions g))"

definition opcode_policy_of :: "u16 \<Rightarrow> OpcodePolicy option" where
  "opcode_policy_of msg_id =
     (if game_opcode_name msg_id \<noteq> [] then Some (game_opcode_policy msg_id)
      else if system_opcode_name msg_id \<noteq> [] then Some (system_opcode_policy msg_id)
      else None)"

definition count_delivery :: "DeliveryClass \<Rightarrow> GatewayUdp \<Rightarrow> GatewayUdp" where
  "count_delivery delivery =
     bump (case delivery of
         kReliableOrdered \<Rightarrow> udp_forward_reliable_ordered_total
       | kReliable \<Rightarrow> udp_forward_reliable_total
       | kUnreliableSequenced \<Rightarrow> udp_forward_unreliable_sequenced_total)"

text \<open>The call of \<open>send\<close> on the backend connection of the session.\<close>

definition forward_frame :: "udp_endpoint \<Rightarrow> string \<Rightarrow> bytes \<Rightarrow> GatewayUdp \<Rightarrow> GatewayUdp" where
  "forward_frame endpoint sid frame g = g\<lparr>gu_forwarded := gu_forwarded g @ [(endpoint, sid, frame)]\<rparr>"

text \<open>The policy of a frame delivered by the engine, \<open>None\<close> when one of the four checks refuses it.\<close>

definition inner_frame_policy :: "RudpRolloutPolicy \<Rightarrow> bytes \<Rightarrow> OpcodePolicy option" where
  "inner_frame_policy rollout frame =
     (if length frame < k_header_bytes then None
      else let header = decode_header frame in
        if unat (hdr_length header) \<noteq> length frame - k_header_bytes then None
        else case opcode_policy_of (hdr_msg_id header) of
            None \<Rightarrow> None
          | Some policy \<Rightarrow>
              if \<not> opcode_allowed rollout (hdr_msg_id header) then None
              else if \<not> transport_allows (op_transport policy) kUdp then None
              else Some policy)"

text \<open>The loop over the delivered frames; it stops at the first bad one and tells whether there was one.\<close>

fun forward_inner_frames :: "udp_endpoint \<Rightarrow> string \<Rightarrow> bytes list \<Rightarrow> GatewayUdp \<Rightarrow> bool \<times> GatewayUdp" where
  "forward_inner_frames endpoint sid [] g = (False, g)"
| "forward_inner_frames endpoint sid (frame # frames) g =
     (case inner_frame_policy (gc_rollout (gu_config g)) frame of
        None \<Rightarrow> (True, g)
      | Some policy \<Rightarrow>
          forward_inner_frames endpoint sid frames
            (count_delivery (op_delivery policy)
              (bump rudp_inner_forward_total (bump udp_forward_total (forward_frame endpoint sid frame g)))))"

text \<open>
  The section under the session lock: the engine processes the datagram and is polled. The result is the
  datagrams to send, the delivered frames, the retransmissions counted and whether the session falls back.
\<close>

definition rudp_engine_step ::
    "udp_endpoint \<Rightarrow> string \<Rightarrow> bytes \<Rightarrow> u64 \<Rightarrow> GatewayUdp \<Rightarrow> (bytes list \<times> bytes list \<times> u64 \<times> bool) \<times> GatewayUdp" where
  "rudp_engine_step endpoint sid datagram now g =
     (case find_session sid g of
        None \<Rightarrow> (([], [], 0, True), g)
      | Some st \<Rightarrow>
          if \<not> st_udp_bound st \<or> st_udp_endpoint st \<noteq> endpoint then (([], [], 0, True), g)
          else if \<not> rp_enabled (gc_rollout (gu_config g)) \<or> \<not> st_rudp_selected st \<or> st_rudp_fallback_to_tcp st
                  \<or> st_rudp_engine st = None then
            (([], [], 0, True),
             (put_session sid (st\<lparr>st_rudp_fallback_to_tcp := True\<rparr>) g)
               \<lparr>gu_metrics := record_rudp_fallback FbDisabled (gu_metrics g)\<rparr>)
          else
            let (processed, e, m) = process_datagram (the (st_rudp_engine st)) (gu_metrics g) datagram now;
                (polled, e, m) = RudpEngine_poll e m now;
                fallback = pr_fallback_required processed \<or> pr_fallback_required polled;
                st = st\<lparr>st_rudp_engine := Some e\<rparr>;
                st = (if fallback then st\<lparr>st_rudp_fallback_to_tcp := True\<rparr> else st)
            in ((pr_egress_datagrams processed @ pr_egress_datagrams polled, pr_inner_frames processed,
                 pr_retransmit_count polled, fallback),
                (put_session sid st g)\<lparr>gu_metrics := m\<rparr>))"

definition fall_back_to_tcp :: "string \<Rightarrow> GatewayUdp \<Rightarrow> GatewayUdp" where
  "fall_back_to_tcp sid g =
     (let g = g\<lparr>gu_metrics := record_rudp_fallback FbProtocolError (gu_metrics g)\<rparr> in
      case find_session sid g of
        None \<Rightarrow> g
      | Some st \<Rightarrow> put_session sid (st\<lparr>st_rudp_fallback_to_tcp := True\<rparr>) g)"

definition on_rudp_packet :: "udp_endpoint \<Rightarrow> bytes \<Rightarrow> u64 \<Rightarrow> GatewayUdp \<Rightarrow> GatewayUdp" where
  "on_rudp_packet endpoint datagram now g =
     (let g = bump rudp_packets_total g in
      case bound_session endpoint g of
        None \<Rightarrow> do_udp_receive (bump rudp_packets_reject_total (bump udp_bind_reject_total g))
      | Some sid \<Rightarrow>
          let ((egress, inner, retransmits, fallback), g) = rudp_engine_step endpoint sid datagram now g;
              g = foldl (\<lambda>g frame. send_udp_datagram frame endpoint g) g egress;
              g = (if retransmits > 0 then bump_by udp_retransmit_total retransmits g else g);
              (invalid, g) = (if \<not> fallback then forward_inner_frames endpoint sid inner g else (False, g));
              g = (if invalid then fall_back_to_tcp sid g else g);
              g = (if fallback \<or> invalid then bump rudp_fallback_total (bump rudp_packets_reject_total g) else g)
          in do_udp_receive g)"

section \<open>Bind requests\<close>

definition send_bind_res ::
    "udp_endpoint \<Rightarrow> u64 \<Rightarrow> u32 \<Rightarrow> u16 \<Rightarrow> string \<Rightarrow> GatewayUdp \<Rightarrow> GatewayUdp" where
  "send_bind_res endpoint now seq code message g =
     send_udp_datagram (make_udp_bind_res_frame now code [] 0 0 [] message seq) endpoint g"

definition record_bind_failure :: "string \<Rightarrow> u64 \<Rightarrow> GatewayUdp \<Rightarrow> GatewayUdp" where
  "record_bind_failure remote_key now g =
     (let (blocked, guard) = bind_record_failure (gu_guard g) remote_key now; g = g\<lparr>gu_guard := guard\<rparr>
      in if blocked then bump udp_bind_block_total g else g)"

definition on_bind_request ::
    "(string \<Rightarrow> string \<Rightarrow> bytes option) \<Rightarrow> udp_endpoint \<Rightarrow> u32 \<Rightarrow> bytes \<Rightarrow> u64 \<Rightarrow> GatewayUdp \<Rightarrow> GatewayUdp" where
  "on_bind_request hmac endpoint seq payload now g =
     (let remote_key = endpoint_key endpoint;
          (state, guard) = block_state (gu_guard g) remote_key now;
          g = g\<lparr>gu_guard := guard\<rparr> in
      if bs_blocked state then
        do_udp_receive (send_bind_res endpoint now seq SERVER_BUSY ''bind temporarily blocked''
          (bump udp_bind_reject_total (bump udp_bind_rate_limit_reject_total g)))
      else case parse_udp_bind_req payload of
          None \<Rightarrow>
            do_udp_receive (send_bind_res endpoint now seq INVALID_PAYLOAD ''invalid bind payload''
              (record_bind_failure remote_key now (bump udp_bind_reject_total g)))
        | Some req \<Rightarrow>
            let (code, message, g) = apply_udp_bind_request hmac req endpoint now g;
                g = (if code = 0
                     then let g = bump udp_bind_success_total g
                          in g\<lparr>gu_guard := bind_record_success (gu_guard g) remote_key\<rparr>
                     else record_bind_failure remote_key now (bump udp_bind_reject_total g))
            in do_udp_receive
                 (send_udp_datagram (make_udp_bind_res_frame_ticket now code req message seq) endpoint g))"

section \<open>Other frames\<close>

text \<open>
  A frame that is delivered unreliably but in sequence passes the session's sequence tracker first;
  the result tells whether it may be forwarded.
\<close>

definition track_sequenced :: "udp_endpoint \<Rightarrow> string \<Rightarrow> u32 \<Rightarrow> u64 \<Rightarrow> GatewayUdp \<Rightarrow> bool \<times> GatewayUdp" where
  "track_sequenced endpoint sid seq now g =
     (let (update, g) =
            (case find_session sid g of
               None \<Rightarrow> (UdpUpdateResult_default, g)
             | Some st \<Rightarrow>
                 if st_udp_bound st \<and> st_udp_endpoint st = endpoint then
                   let (update, m) = on_packet (st_udp_sequenced_metrics st) (seq, now)
                   in (update, put_session sid (st\<lparr>st_udp_sequenced_metrics := m\<rparr>) g)
                 else (UdpUpdateResult_default, g)) in
      if \<not> ur_accepted update then
        let g = bump udp_bind_reject_total (bump udp_replay_drop_total g);
            g = (if ur_duplicate update then bump udp_retransmit_total (bump udp_duplicate_drop_total g)
                 else if ur_reordered update then bump udp_reorder_drop_total g else g)
        in (False, send_bind_res endpoint now seq FORBIDDEN ''stale sequenced udp packet'' g)
      else
        let g = (if ur_estimated_lost_packets update > 0
                 then bump_by udp_loss_estimated_total (ur_estimated_lost_packets update) g else g);
            g = (if ur_jitter_ms update > 0 then store_count udp_jitter_ms_last (ur_jitter_ms update) g else g)
        in (True, g))"

definition on_plain_frame :: "udp_endpoint \<Rightarrow> bytes \<Rightarrow> u64 \<Rightarrow> GatewayUdp \<Rightarrow> GatewayUdp" where
  "on_plain_frame endpoint datagram now g =
     (let header = decode_header datagram; msg_id = hdr_msg_id header; seq = hdr_seq header;
          refuse = (\<lambda>code message g. do_udp_receive (send_bind_res endpoint now seq code message (bump udp_bind_reject_total g))) in
      case bound_session endpoint g of
        None \<Rightarrow> refuse UNAUTHORIZED ''udp session not bound'' g
      | Some sid \<Rightarrow>
          (case opcode_policy_of msg_id of
             None \<Rightarrow> refuse UNKNOWN_MSG_ID ''unknown udp msg_id'' g
           | Some policy \<Rightarrow>
               if msg_id \<notin> gc_udp_opcode_allowlist (gu_config g) then
                 refuse FORBIDDEN ''opcode not in udp allowlist'' (bump udp_opcode_allowlist_reject_total g)
               else if \<not> transport_allows (op_transport policy) kUdp then
                 refuse FORBIDDEN ''opcode not allowed on udp'' g
               else
                 let (pass, g) = (if op_delivery policy = kUnreliableSequenced
                                  then track_sequenced endpoint sid seq now g else (True, g)) in
                 if \<not> pass then do_udp_receive g
                 else do_udp_receive
                   (count_delivery (op_delivery policy) (bump udp_forward_total (forward_frame endpoint sid datagram g)))))"

section \<open>The completion handler\<close>

definition count_datagram :: "bytes \<Rightarrow> GatewayUdp \<Rightarrow> GatewayUdp" where
  "count_datagram datagram g = (if datagram \<noteq> [] then bump udp_packets_total g else g)"

datatype receive_result = ReceiveAborted | ReceiveFailed | Received udp_endpoint bytes

definition on_udp_receive ::
    "(string \<Rightarrow> string \<Rightarrow> bytes option) \<Rightarrow> receive_result \<Rightarrow> u64 \<Rightarrow> GatewayUdp \<Rightarrow> GatewayUdp" where
  "on_udp_receive hmac r now g =
     (let g = g\<lparr>gu_receiving := False\<rparr> in
      case r of
        ReceiveAborted \<Rightarrow> g
      | ReceiveFailed \<Rightarrow> do_udp_receive (bump udp_receive_error_total g)
      | Received endpoint datagram \<Rightarrow>
          let g = count_datagram datagram g in
          if looks_like_rudp datagram then on_rudp_packet endpoint datagram now g
          else if length datagram < k_header_bytes then do_udp_receive (bump udp_receive_error_total g)
          else
            let header = decode_header datagram in
            if unat (hdr_length header) \<noteq> length datagram - k_header_bytes then
              do_udp_receive (bump udp_receive_error_total g)
            else if hdr_msg_id header = MSG_UDP_BIND_REQ then
              on_bind_request hmac endpoint (hdr_seq header) (drop k_header_bytes datagram) now g
            else on_plain_frame endpoint datagram now g)"

end
