(* ===== verification/Udp_Authorisation.thy ===== *)
theory Udp_Authorisation
  imports Udp_Ingress
begin

text \<open>
  The guarantees of the gateway's UDP path over whole histories: sessions come and go, tickets are issued,
  datagrams arrive from anywhere. Nothing reaches a backend unless the endpoint has proved, with a ticket that
  was issued for that very session and had not expired, that it belongs to the session's client; a binding
  cannot be taken over; the listener never stops receiving; and the exchange of an honest client succeeds.
\<close>

section \<open>Histories\<close>

text \<open>
  \<open>Rehashed\<close> is a change of the iteration order of the session table, which \<open>std::unordered_map\<close> may make on any
  insertion.
\<close>

datatype udp_event =
    SessionCreated string string
  | SessionClosed string
  | Rehashed "string list"
  | TicketIssued string u32 u32 u64
  | Datagram udp_endpoint bytes u64
  | ReceiveError u64
  | ReceiveCancelled u64
  | ListenerStarted bool
  | ListenerStopped

definition rehash :: "string list \<Rightarrow> GatewayUdp \<Rightarrow> GatewayUdp" where
  "rehash order g =
     (if distinct order \<and> set order = fst ` set (gu_sessions g)
      then g\<lparr>gu_sessions := map (\<lambda>sid. (sid, the (map_of (gu_sessions g) sid))) order\<rparr> else g)"

fun udp_step :: "(string \<Rightarrow> string \<Rightarrow> bytes option) \<Rightarrow> GatewayUdp \<Rightarrow> udp_event \<Rightarrow> GatewayUdp" where
  "udp_step hmac g (SessionCreated sid client_id) = add_session sid client_id g"
| "udp_step hmac g (SessionClosed sid) = erase_session sid g"
| "udp_step hmac g (Rehashed order) = rehash order g"
| "udp_step hmac g (TicketIssued sid r1 r2 now) = snd (make_udp_bind_ticket_frame hmac sid r1 r2 now g)"
| "udp_step hmac g (Datagram endpoint datagram now) = on_udp_receive hmac (Received endpoint datagram) now g"
| "udp_step hmac g (ReceiveError now) = on_udp_receive hmac ReceiveFailed now g"
| "udp_step hmac g (ReceiveCancelled now) = on_udp_receive hmac ReceiveAborted now g"
| "udp_step hmac g (ListenerStarted socket_ok) = start_udp_listener socket_ok g"
| "udp_step hmac g ListenerStopped = stop_udp_listener g"

definition GatewayUdp_init :: "GatewayConfig \<Rightarrow> RudpMetrics \<Rightarrow> GatewayUdp" where
  "GatewayUdp_init c m =
     \<lparr>gu_config = c, gu_sessions = [],
      gu_guard = UdpBindAbuseGuard_configure UdpBindAbuseGuard_init (gc_udp_bind_fail_window_ms c)
        (gc_udp_bind_fail_limit c) (gc_udp_bind_block_ms c),
      gu_metrics = m, gu_count = (\<lambda>_. 0), gu_udp_socket = False, gu_receiving = False, gu_sent = [], gu_forwarded = []\<rparr>"

definition udp_run :: "(string \<Rightarrow> string \<Rightarrow> bytes option) \<Rightarrow> GatewayConfig \<Rightarrow> RudpMetrics \<Rightarrow> udp_event list \<Rightarrow> GatewayUdp" where
  "udp_run hmac c m es = foldl (udp_step hmac) (GatewayUdp_init c m) es"

section \<open>Proofs of ownership\<close>

text \<open>The bind request a datagram carries.\<close>

definition bind_request_of :: "bytes \<Rightarrow> UdpBindTicket option" where
  "bind_request_of datagram =
     (if \<not> looks_like_rudp datagram \<and> k_header_bytes \<le> length datagram \<and>
         unat (hdr_length (decode_header datagram)) = length datagram - k_header_bytes \<and>
         hdr_msg_id (decode_header datagram) = MSG_UDP_BIND_REQ
      then parse_udp_bind_req (drop k_header_bytes datagram) else None)"

text \<open>In the history a ticket with these contents was issued for the session.\<close>

definition issued ::
    "(string \<Rightarrow> string \<Rightarrow> bytes option) \<Rightarrow> GatewayConfig \<Rightarrow> udp_event list \<Rightarrow> string \<Rightarrow> u64 \<Rightarrow> u64 \<Rightarrow> string \<Rightarrow> bool" where
  "issued hmac c es sid nonce expires token \<longleftrightarrow>
     (\<exists>r1 r2 t. TicketIssued sid r1 r2 t \<in> set es \<and> nonce = draw_nonce r1 r2 \<and>
        expires = t + ucast (gc_udp_bind_ttl_ms c) \<and> token = make_udp_bind_token hmac c sid nonce expires \<and> token \<noteq> [])"

text \<open>The endpoint sent back, in time, a ticket that had been issued for the session before.\<close>

definition proved :: "(string \<Rightarrow> string \<Rightarrow> bytes option) \<Rightarrow> GatewayConfig \<Rightarrow> udp_event list \<Rightarrow> udp_endpoint \<Rightarrow> string \<Rightarrow> bool" where
  "proved hmac c es endpoint sid \<longleftrightarrow>
     (\<exists>before datagram now after req. es = before @ Datagram endpoint datagram now # after \<and>
        bind_request_of datagram = Some req \<and> bt_session_id req = sid \<and> now \<le> bt_expires_unix_ms req \<and>
        issued hmac c before sid (bt_nonce req) (bt_expires_unix_ms req) (bt_token req))"

lemma issued_more: "issued hmac c es sid n x k \<Longrightarrow> issued hmac c (es @ es') sid n x k"
  by (auto simp: issued_def)

lemma proved_more: "proved hmac c es ep sid \<Longrightarrow> proved hmac c (es @ es') ep sid"
  unfolding proved_def by (metis append.assoc append_Cons)

text \<open>What the history vouches for: the ticket a session holds and the endpoint it is bound to.\<close>

definition session_ok :: "(string \<Rightarrow> string \<Rightarrow> bytes option) \<Rightarrow> GatewayConfig \<Rightarrow> udp_event list \<Rightarrow> string \<Rightarrow> SessionState \<Rightarrow> bool" where
  "session_ok hmac c es sid st \<longleftrightarrow>
     (st_udp_token st \<noteq> [] \<longrightarrow> issued hmac c es sid (st_udp_nonce st) (st_udp_expires_unix_ms st) (st_udp_token st)) \<and>
     (st_udp_bound st \<longrightarrow> proved hmac c es (st_udp_endpoint st) sid)"

text \<open>A frame UDP may carry: well formed, of a known opcode that one of the two allowlists names and whose policy admits UDP.\<close>

definition frame_admitted :: "GatewayConfig \<Rightarrow> bytes \<Rightarrow> bool" where
  "frame_admitted c frame \<longleftrightarrow>
     k_header_bytes \<le> length frame \<and> unat (hdr_length (decode_header frame)) = length frame - k_header_bytes \<and>
     hdr_msg_id (decode_header frame) \<in> gc_udp_opcode_allowlist c \<union> rp_opcode_allowlist (gc_rollout c) \<and>
     (\<exists>policy. opcode_policy_of (hdr_msg_id (decode_header frame)) = Some policy \<and>
        transport_allows (op_transport policy) kUdp)"

definition table_ok :: "(string \<Rightarrow> string \<Rightarrow> bytes option) \<Rightarrow> GatewayConfig \<Rightarrow> udp_event list \<Rightarrow> (string \<times> SessionState) list \<Rightarrow> bool" where
  "table_ok hmac c es table \<longleftrightarrow> (\<forall>(sid, st) \<in> set table. session_ok hmac c es sid st)"

definition forwards_ok ::
    "(string \<Rightarrow> string \<Rightarrow> bytes option) \<Rightarrow> GatewayConfig \<Rightarrow> udp_event list \<Rightarrow> (udp_endpoint \<times> string \<times> bytes) list \<Rightarrow> bool" where
  "forwards_ok hmac c es fs \<longleftrightarrow>
     (\<forall>(endpoint, sid, frame) \<in> set fs. proved hmac c es endpoint sid \<and> frame_admitted c frame)"

definition udp_ok :: "(string \<Rightarrow> string \<Rightarrow> bytes option) \<Rightarrow> GatewayConfig \<Rightarrow> udp_event list \<Rightarrow> GatewayUdp \<Rightarrow> bool" where
  "udp_ok hmac c es g \<longleftrightarrow>
     gu_config g = c \<and> table_ok hmac c es (gu_sessions g) \<and> forwards_ok hmac c es (gu_forwarded g)"

lemma udp_ok_more:
  assumes "udp_ok hmac c es g"
  shows "udp_ok hmac c (es @ es') g"
proof -
  have "session_ok hmac c es sid st \<Longrightarrow> session_ok hmac c (es @ es') sid st" for sid st
    by (auto simp: session_ok_def intro: issued_more proved_more)
  then show ?thesis
    using assms by (fastforce simp: udp_ok_def table_ok_def forwards_ok_def intro: proved_more)
qed

section \<open>Steps that leave table and forwards alone\<close>

lemma udp_ok_cong:
  "gu_config g' = gu_config g \<Longrightarrow> gu_sessions g' = gu_sessions g \<Longrightarrow> gu_forwarded g' = gu_forwarded g \<Longrightarrow>
   udp_ok hmac c es g \<Longrightarrow> udp_ok hmac c es g'"
  by (simp add: udp_ok_def)

lemma quiet_fields [simp]:
  "gu_config (do_udp_receive g) = gu_config g" "gu_sessions (do_udp_receive g) = gu_sessions g"
  "gu_forwarded (do_udp_receive g) = gu_forwarded g"
  "gu_config (send_udp_datagram f ep g) = gu_config g" "gu_sessions (send_udp_datagram f ep g) = gu_sessions g"
  "gu_forwarded (send_udp_datagram f ep g) = gu_forwarded g"
  by (simp_all add: do_udp_receive_def send_udp_datagram_def)

lemma find_session_quiet [simp]:
  "find_session sid (do_udp_receive g) = find_session sid g"
  "find_session sid (send_udp_datagram f ep g) = find_session sid g"
  by (simp_all add: find_session_def)

lemma udp_ok_quiet [simp]:
  "udp_ok hmac c es (bump k g) = udp_ok hmac c es g"
  "udp_ok hmac c es (bump_by k n g) = udp_ok hmac c es g"
  "udp_ok hmac c es (store_count k n g) = udp_ok hmac c es g"
  "udp_ok hmac c es (do_udp_receive g) = udp_ok hmac c es g"
  "udp_ok hmac c es (send_udp_datagram f ep g) = udp_ok hmac c es g"
  "udp_ok hmac c es (send_bind_res ep now seq code msg g) = udp_ok hmac c es g"
  "udp_ok hmac c es (count_delivery d g) = udp_ok hmac c es g"
  "udp_ok hmac c es (record_bind_failure key now g) = udp_ok hmac c es g"
  "udp_ok hmac c es (count_datagram datagram g) = udp_ok hmac c es g"
  "udp_ok hmac c es (g\<lparr>gu_guard := x\<rparr>) = udp_ok hmac c es g"
  "udp_ok hmac c es (g\<lparr>gu_metrics := m\<rparr>) = udp_ok hmac c es g"
  "udp_ok hmac c es (g\<lparr>gu_receiving := b\<rparr>) = udp_ok hmac c es g"
  "udp_ok hmac c es (g\<lparr>gu_udp_socket := b\<rparr>) = udp_ok hmac c es g"
  by (simp_all add: udp_ok_def send_bind_res_def count_delivery_def record_bind_failure_def count_datagram_def
      Let_def split: prod.split)

lemma foldl_sends [simp]:
  "udp_ok hmac c es (foldl (\<lambda>g frame. send_udp_datagram frame ep g) g fs) = udp_ok hmac c es g"
  by (induction fs arbitrary: g) simp_all

section \<open>Steps that write a session\<close>

lemma udp_ok_find: "udp_ok hmac c es g \<Longrightarrow> find_session sid g = Some st \<Longrightarrow> session_ok hmac c es sid st"
  by (auto simp: udp_ok_def table_ok_def find_session_def dest!: map_of_SomeD)

lemma udp_ok_put: "udp_ok hmac c es g \<Longrightarrow> session_ok hmac c es sid st \<Longrightarrow> udp_ok hmac c es (put_session sid st g)"
  by (auto simp: udp_ok_def table_ok_def put_session_def split: if_splits)

lemma bound_session_proved:
  "udp_ok hmac c es g \<Longrightarrow> bound_session ep g = Some sid \<Longrightarrow> proved hmac c es ep sid"
  by (force simp: bound_session_def udp_ok_def table_ok_def session_ok_def find_Some_iff in_set_conv_nth)

lemma apply_retry_backoff_ok:
  "udp_ok hmac c es g \<Longrightarrow> find_session sid g = Some st \<Longrightarrow> udp_ok hmac c es (apply_retry_backoff sid st now g)"
  using udp_ok_find [of hmac c es g sid st]
  by (auto simp: apply_retry_backoff_def Let_def session_ok_def intro!: udp_ok_put)

lemma secure_equals_iff [simp]: "secure_equals l r \<longleftrightarrow> l = r"
  by (auto simp: secure_equals_def)

text \<open>When a bind request is accepted.\<close>

lemma apply_accepts:
  assumes "apply_udp_bind_request hmac req ep now g = (0, message, g')"
  obtains st where "find_session (bt_session_id req) g = Some st" and "st_udp_token st = bt_token req"
    and "st_udp_nonce st = bt_nonce req" and "st_udp_expires_unix_ms st = bt_expires_unix_ms req"
    and "now \<le> bt_expires_unix_ms req" and "bt_token req \<noteq> []"
    and "st_udp_bound st \<longrightarrow> st_udp_endpoint st = ep"
    and "gu_sessions g' = gu_sessions (put_session (bt_session_id req) (bound_state (gu_config g) ep st) g)"
    and "gu_config g' = gu_config g" and "gu_forwarded g' = gu_forwarded g"
  using assms
  by (auto simp: apply_udp_bind_request_def Let_def not_less split: if_splits option.splits)

lemma apply_refuses:
  assumes "apply_udp_bind_request hmac req ep now g = (code, message, g')" and "code \<noteq> 0"
  shows "g' = g \<or> g' = bump udp_bind_retry_reject_total g \<or>
    (\<exists>st. find_session (bt_session_id req) g = Some st \<and> g' = apply_retry_backoff (bt_session_id req) st now g)"
  using assms by (auto simp: apply_udp_bind_request_def Let_def split: if_splits option.splits)

lemma apply_udp_bind_request_ok:
  assumes ok: "udp_ok hmac c es g" and req: "bind_request_of d = Some req"
    and result: "apply_udp_bind_request hmac req ep now g = (code, message, g')"
  shows "udp_ok hmac c (es @ [Datagram ep d now]) g'"
proof (cases "code = 0")
  case False
  from apply_refuses [OF result False] show ?thesis
    using ok by (auto intro!: udp_ok_more apply_retry_backoff_ok)
next
  case True
  let ?sid = "bt_session_id req"
  from result [unfolded True] obtain st where st: "find_session ?sid g = Some st" "st_udp_token st = bt_token req"
    "st_udp_nonce st = bt_nonce req" "st_udp_expires_unix_ms st = bt_expires_unix_ms req"
    "now \<le> bt_expires_unix_ms req" "bt_token req \<noteq> []"
    and g': "gu_sessions g' = gu_sessions (put_session ?sid (bound_state (gu_config g) ep st) g)"
      "gu_config g' = gu_config g" "gu_forwarded g' = gu_forwarded g"
    by (rule apply_accepts)
  have issued: "issued hmac c es ?sid (bt_nonce req) (bt_expires_unix_ms req) (bt_token req)"
    using udp_ok_find [OF ok st(1)] st by (simp add: session_ok_def)
  then have "proved hmac c (es @ [Datagram ep d now]) ep ?sid"
    unfolding proved_def using req st(5) by blast
  then have "session_ok hmac c (es @ [Datagram ep d now]) ?sid (bound_state (gu_config g) ep st)"
    using issued_more [OF issued] st by (simp add: session_ok_def bound_state_def)
  from udp_ok_put [OF udp_ok_more [OF ok] this] show ?thesis
    by (rule udp_ok_cong [rotated 3]) (simp_all add: g')
qed

lemma on_bind_request_ok:
  assumes "udp_ok hmac c es g" and "\<And>req. parse_udp_bind_req payload = Some req \<Longrightarrow> bind_request_of d = Some req"
  shows "udp_ok hmac c (es @ [Datagram ep d now]) (on_bind_request hmac ep seq payload now g)"
proof -
  let ?g = "g\<lparr>gu_guard := snd (block_state (gu_guard g) (endpoint_key ep) now)\<rparr>"
  have ok: "udp_ok hmac c es ?g" using assms(1) by simp
  have "udp_ok hmac c (es @ [Datagram ep d now]) g'"
    if "parse_udp_bind_req payload = Some req" "apply_udp_bind_request hmac req ep now ?g = (code, message, g')"
    for req code message g'
    using apply_udp_bind_request_ok [OF ok assms(2) [OF that(1)] that(2)] .
  then show ?thesis
    using udp_ok_more [OF assms(1), of "[Datagram ep d now]"]
    by (simp add: on_bind_request_def Let_def split_beta split: option.split)
      (metis prod.collapse)
qed

section \<open>Steps that forward\<close>

lemma udp_ok_forward:
  "udp_ok hmac c es g \<Longrightarrow> proved hmac c es ep sid \<Longrightarrow> frame_admitted c frame \<Longrightarrow>
   udp_ok hmac c es (forward_frame ep sid frame g)"
  by (auto simp: udp_ok_def forwards_ok_def forward_frame_def)

lemma inner_frame_admitted:
  "inner_frame_policy (gc_rollout c) frame = Some policy \<Longrightarrow> frame_admitted c frame"
  by (auto simp: inner_frame_policy_def frame_admitted_def opcode_allowed_def Let_def split: if_splits option.splits)

lemma forward_inner_frames_ok:
  "udp_ok hmac c es g \<Longrightarrow> proved hmac c es ep sid \<Longrightarrow> udp_ok hmac c es (snd (forward_inner_frames ep sid frames g))"
proof (induction frames arbitrary: g)
  case (Cons frame frames)
  have c: "gu_config g = c" using Cons.prems(1) by (simp add: udp_ok_def)
  show ?case
  proof (cases "inner_frame_policy (gc_rollout c) frame")
    case (Some policy)
    with Cons.prems c show ?thesis
      by (simp add: Cons.IH udp_ok_forward inner_frame_admitted)
  qed (use Cons.prems c in simp)
qed simp

lemma rudp_engine_step_ok:
  assumes "udp_ok hmac c es g"
  shows "udp_ok hmac c es (snd (rudp_engine_step ep sid datagram now g))"
proof (cases "find_session sid g")
  case (Some st)
  have "session_ok hmac c es sid st" using udp_ok_find [OF assms Some] .
  then show ?thesis
    using assms Some
    by (auto simp: rudp_engine_step_def Let_def session_ok_def split_beta intro!: udp_ok_put)
qed (simp add: rudp_engine_step_def assms)

lemma fall_back_to_tcp_ok: "udp_ok hmac c es g \<Longrightarrow> udp_ok hmac c es (fall_back_to_tcp sid g)"
  using udp_ok_find [of hmac c es g sid]
  by (auto simp: fall_back_to_tcp_def Let_def session_ok_def split: option.split intro!: udp_ok_put)

lemma on_rudp_packet_ok:
  assumes "udp_ok hmac c es g"
  shows "udp_ok hmac c es (on_rudp_packet ep datagram now g)"
proof (cases "bound_session ep (bump rudp_packets_total g)")
  case (Some sid)
  let ?g = "bump rudp_packets_total g"
  have ok: "udp_ok hmac c es ?g" using assms by simp
  have proved: "proved hmac c es ep sid" using bound_session_proved [OF ok Some] .
  show ?thesis
    using rudp_engine_step_ok [OF ok, of ep sid datagram now] proved
    by (auto simp: on_rudp_packet_def Let_def Some split_beta
        intro!: fall_back_to_tcp_ok forward_inner_frames_ok)
qed (simp add: on_rudp_packet_def assms)

lemma track_sequenced_ok:
  assumes "udp_ok hmac c es g"
  shows "udp_ok hmac c es (snd (track_sequenced ep sid seq now g))"
proof (cases "find_session sid g")
  case (Some st)
  have "session_ok hmac c es sid st" using udp_ok_find [OF assms Some] .
  then show ?thesis
    using assms Some
    by (auto simp: track_sequenced_def Let_def session_ok_def split_beta intro!: udp_ok_put)
qed (simp add: track_sequenced_def assms UdpUpdateResult_default_def Let_def)

lemma on_plain_frame_ok:
  assumes "udp_ok hmac c es g" and "k_header_bytes \<le> length datagram"
    and "unat (hdr_length (decode_header datagram)) = length datagram - k_header_bytes"
  shows "udp_ok hmac c es (on_plain_frame ep datagram now g)"
proof -
  have c: "gu_config g = c" using assms(1) by (simp add: udp_ok_def)
  have admitted: "frame_admitted c datagram"
    if "opcode_policy_of (hdr_msg_id (decode_header datagram)) = Some policy"
      "hdr_msg_id (decode_header datagram) \<in> gc_udp_opcode_allowlist c" "transport_allows (op_transport policy) kUdp" for policy
    using that assms(2,3) by (simp add: frame_admitted_def)
  show ?thesis
    using assms(1) track_sequenced_ok [OF assms(1), of ep] bound_session_proved [OF assms(1), of ep] admitted
    by (auto simp: on_plain_frame_def Let_def c split_beta split: option.split intro!: udp_ok_forward)
qed

section \<open>Every forwarded frame is authorised\<close>

lemma udp_ok_received:
  assumes "udp_ok hmac c es g"
  shows "udp_ok hmac c (es @ [Datagram ep d now]) (on_udp_receive hmac (Received ep d) now g)"
proof -
  let ?g = "count_datagram d (g\<lparr>gu_receiving := False\<rparr>)"
  have ok: "udp_ok hmac c es ?g" using assms by simp
  have more: "udp_ok hmac c (es @ [Datagram ep d now]) ?g" using udp_ok_more [OF ok] .
  have bind: "udp_ok hmac c (es @ [Datagram ep d now])
      (on_bind_request hmac ep (hdr_seq (decode_header d)) (drop k_header_bytes d) now ?g)"
    if "\<not> looks_like_rudp d" "\<not> length d < k_header_bytes" "unat (hdr_length (decode_header d)) = length d - k_header_bytes"
      "hdr_msg_id (decode_header d) = MSG_UDP_BIND_REQ"
    by (rule on_bind_request_ok [OF ok]) (use that in \<open>simp add: bind_request_of_def not_less\<close>)
  show ?thesis
    using more on_rudp_packet_ok [OF more, of ep d now] bind on_plain_frame_ok [OF more, of d ep now]
    by (simp add: on_udp_receive_def Let_def not_less)
qed

lemma issue_ticket_ok:
  assumes "udp_ok hmac c es g"
  shows "udp_ok hmac c (es @ [TicketIssued sid r1 r2 now]) (snd (make_udp_bind_ticket_frame hmac sid r1 r2 now g))"
proof -
  have c: "gu_config g = c" using assms by (simp add: udp_ok_def)
  have "session_ok hmac c (es @ [TicketIssued sid r1 r2 now]) sid
      (issue_ticket c sid (draw_nonce r1 r2) now
        (make_udp_bind_token hmac c sid (draw_nonce r1 r2) (now + ucast (gc_udp_bind_ttl_ms c))) st)" for st
    by (auto simp: session_ok_def issue_ticket_def Let_def issued_def)
  then show ?thesis
    using udp_ok_more [OF assms, of "[TicketIssued sid r1 r2 now]"]
    by (auto simp: make_udp_bind_ticket_frame_def Let_def c split: option.split intro!: udp_ok_put)
qed

lemma udp_step_ok: "udp_ok hmac c es g \<Longrightarrow> udp_ok hmac c (es @ [e]) (udp_step hmac g e)"
proof (cases e)
  case (SessionCreated sid client)
  assume ok: "udp_ok hmac c es g"
  have fresh: "session_ok hmac c (es @ [e]) sid (SessionState_init client)"
    by (simp add: session_ok_def SessionState_init_def)
  show ?thesis
    using udp_ok_more [OF ok, of "[e]"] fresh udp_ok_put [OF udp_ok_more [OF ok] fresh]
    by (simp add: SessionCreated add_session_def) (simp add: udp_ok_def table_ok_def)
next
  case (SessionClosed sid)
  assume "udp_ok hmac c es g"
  from udp_ok_more [OF this, of "[e]"] show ?thesis
    by (auto simp: SessionClosed erase_session_def udp_ok_def table_ok_def)
next
  case (Rehashed order)
  assume "udp_ok hmac c es g"
  from udp_ok_more [OF this, of "[e]"] show ?thesis
    by (auto simp: Rehashed rehash_def udp_ok_def table_ok_def dest!: map_of_SomeD split: option.split)
      (metis (no_types, lifting) case_prodD fst_conv image_eqI map_of_SomeD map_of_eq_None_iff not_None_eq option.sel)
next
  case (Datagram ep d now)
  assume "udp_ok hmac c es g"
  then show ?thesis by (simp only: Datagram udp_step.simps udp_ok_received)
qed (auto simp: issue_ticket_ok on_udp_receive_def start_udp_listener_def stop_udp_listener_def Let_def
       intro: udp_ok_more)

lemma udp_run_ok: "udp_ok hmac c es (udp_run hmac c m es)"
proof (induction es rule: rev_induct)
  case Nil
  show ?case by (simp add: udp_run_def GatewayUdp_init_def udp_ok_def table_ok_def forwards_ok_def)
next
  case (snoc e es)
  from udp_step_ok [OF this, of e] show ?case by (simp add: udp_run_def)
qed

text \<open>
  C33. Whatever happens, a frame is handed to a session's backend over UDP only if the endpoint it came from had sent
  back, before it expired, a ticket that the gateway had issued for that session (signed with its secret), and only
  if the frame is well formed, its opcode is on an allowlist and its policy admits UDP.
\<close>

theorem udp_forward_authorised:
  assumes "(endpoint, sid, frame) \<in> set (gu_forwarded (udp_run hmac c m es))"
  shows "proved hmac c es endpoint sid \<and> frame_admitted c frame"
  using assms udp_run_ok [of hmac c es m] by (auto simp: udp_ok_def forwards_ok_def)

text \<open>With the present opcode tables that leaves the two bind messages: UDP carries no chat message.\<close>

lemma admitted_opcodes:
  assumes "frame_admitted c frame"
  shows "hdr_msg_id (decode_header frame) \<in> {MSG_UDP_BIND_REQ, MSG_UDP_BIND_RES}"
proof -
  from assms obtain policy where p: "opcode_policy_of (hdr_msg_id (decode_header frame)) = Some policy"
    "transport_allows (op_transport policy) kUdp"
    by (auto simp: frame_admitted_def)
  show ?thesis
  proof (cases "game_opcode_name (hdr_msg_id (decode_header frame)) = []")
    case True
    with p(1) have "policy = system_opcode_policy (hdr_msg_id (decode_header frame))"
      by (auto simp: opcode_policy_of_def split: if_splits)
    with p(2) show ?thesis by (simp add: system_opcodes_tcp transport_allows_def)
  next
    case False
    with p have "transport_allows (op_transport (game_opcode_policy (hdr_msg_id (decode_header frame)))) kUdp"
      by (simp add: opcode_policy_of_def)
    then show ?thesis by (simp only: game_opcodes_udp)
  qed
qed

section \<open>A binding cannot be taken over\<close>

text \<open>The session keeps its endpoint from one state to the other.\<close>

definition keeps_binding :: "string \<Rightarrow> udp_endpoint \<Rightarrow> GatewayUdp \<Rightarrow> bool" where
  "keeps_binding sid ep g \<longleftrightarrow> (\<exists>st. find_session sid g = Some st \<and> st_udp_bound st \<and> st_udp_endpoint st = ep)"

lemma keeps_binding_put:
  "keeps_binding sid ep g \<Longrightarrow> (k = sid \<Longrightarrow> st_udp_bound st \<and> st_udp_endpoint st = ep) \<Longrightarrow> keeps_binding sid ep (put_session k st g)"
  by (auto simp: keeps_binding_def)

lemma keeps_binding_cong: "gu_sessions g' = gu_sessions g \<Longrightarrow> keeps_binding sid ep g' = keeps_binding sid ep g"
  by (simp add: keeps_binding_def find_session_def)

lemma keeps_binding_quiet [simp]:
  "keeps_binding sid ep (bump k g) = keeps_binding sid ep g"
  "keeps_binding sid ep (bump_by k n g) = keeps_binding sid ep g"
  "keeps_binding sid ep (store_count k n g) = keeps_binding sid ep g"
  "keeps_binding sid ep (do_udp_receive g) = keeps_binding sid ep g"
  "keeps_binding sid ep (send_udp_datagram f ep' g) = keeps_binding sid ep g"
  "keeps_binding sid ep (send_bind_res ep' now seq code msg g) = keeps_binding sid ep g"
  "keeps_binding sid ep (count_delivery d g) = keeps_binding sid ep g"
  "keeps_binding sid ep (record_bind_failure key now g) = keeps_binding sid ep g"
  "keeps_binding sid ep (forward_frame ep' k' frame g) = keeps_binding sid ep g"
  "keeps_binding sid ep (count_datagram datagram g) = keeps_binding sid ep g"
  "keeps_binding sid ep (g\<lparr>gu_guard := x\<rparr>) = keeps_binding sid ep g"
  "keeps_binding sid ep (g\<lparr>gu_metrics := m\<rparr>) = keeps_binding sid ep g"
  "keeps_binding sid ep (g\<lparr>gu_receiving := b\<rparr>) = keeps_binding sid ep g"
  "keeps_binding sid ep (g\<lparr>gu_udp_socket := b\<rparr>) = keeps_binding sid ep g"
  by (simp_all add: keeps_binding_def find_session_def send_bind_res_def count_delivery_def record_bind_failure_def
      forward_frame_def count_datagram_def Let_def split: prod.split)

lemma keeps_binding_sends [simp]:
  "keeps_binding sid ep (foldl (\<lambda>g frame. send_udp_datagram frame ep' g) g fs) = keeps_binding sid ep g"
  by (induction fs arbitrary: g) simp_all

lemma keeps_binding_inner [simp]:
  "keeps_binding sid ep (snd (forward_inner_frames ep' k frames g)) = keeps_binding sid ep g"
  by (induction frames arbitrary: g) (simp_all split: option.split)

lemma keeps_binding_rudp:
  assumes "keeps_binding sid ep g"
  shows "keeps_binding sid ep (on_rudp_packet ep' datagram now g)"
proof -
  have engine: "keeps_binding sid ep (snd (rudp_engine_step ep' k datagram now g))" if "keeps_binding sid ep g" for g k
    using that
    by (auto simp: rudp_engine_step_def Let_def split_beta split: option.split intro!: keeps_binding_put)
      (auto simp: keeps_binding_def)
  have fall: "keeps_binding sid ep (fall_back_to_tcp k g)" if "keeps_binding sid ep g" for g k
    using that
    by (auto simp: fall_back_to_tcp_def Let_def split: option.split intro!: keeps_binding_put)
      (auto simp: keeps_binding_def)
  show ?thesis
    using assms by (auto simp: on_rudp_packet_def Let_def split_beta engine split: option.split intro!: fall)
qed

lemma keeps_binding_apply:
  assumes "keeps_binding sid ep g" and result: "apply_udp_bind_request hmac req ep' now g = (code, message, g')"
  shows "keeps_binding sid ep g'"
proof (cases "code = 0")
  case False
  from apply_refuses [OF result False] show ?thesis
    using assms(1)
    by (auto simp: apply_retry_backoff_def Let_def intro!: keeps_binding_put) (auto simp: keeps_binding_def)
next
  case True
  from result [unfolded True] obtain st where "find_session (bt_session_id req) g = Some st"
    "st_udp_bound st \<longrightarrow> st_udp_endpoint st = ep'"
    and g': "gu_sessions g' = gu_sessions (put_session (bt_session_id req) (bound_state (gu_config g) ep' st) g)"
    by (rule apply_accepts)
  then have "keeps_binding sid ep (put_session (bt_session_id req) (bound_state (gu_config g) ep' st) g)"
    using assms(1) by (auto simp: bound_state_def keeps_binding_def)
  then show ?thesis by (simp only: keeps_binding_cong [OF g'])
qed

lemma keeps_binding_bind:
  assumes "keeps_binding sid ep g"
  shows "keeps_binding sid ep (on_bind_request hmac ep' seq payload now g)"
proof -
  let ?g = "g\<lparr>gu_guard := snd (block_state (gu_guard g) (endpoint_key ep') now)\<rparr>"
  have "keeps_binding sid ep (snd (snd (apply_udp_bind_request hmac req ep' now ?g)))" for req
    using keeps_binding_apply [of sid ep ?g hmac req ep' now] assms
    by (cases "apply_udp_bind_request hmac req ep' now ?g") simp
  then show ?thesis
    using assms by (auto simp: on_bind_request_def Let_def split_beta split: option.split)
qed

lemma keeps_binding_plain:
  assumes "keeps_binding sid ep g"
  shows "keeps_binding sid ep (on_plain_frame ep' datagram now g)"
proof -
  have track: "keeps_binding sid ep (snd (track_sequenced ep' k seq now g))" for k seq
    using assms
    by (auto simp: track_sequenced_def Let_def split_beta split: option.split intro!: keeps_binding_put)
      (auto simp: keeps_binding_def)
  show ?thesis
    using assms by (auto simp: on_plain_frame_def Let_def split_beta track split: option.split)
qed

definition disturbs :: "string \<Rightarrow> udp_event \<Rightarrow> bool" where
  "disturbs sid e \<longleftrightarrow> (case e of
       SessionCreated k _ \<Rightarrow> k = sid | SessionClosed k \<Rightarrow> k = sid | TicketIssued k _ _ _ \<Rightarrow> k = sid | _ \<Rightarrow> False)"

lemma keeps_binding_step:
  assumes "keeps_binding sid ep g" and "\<not> disturbs sid e"
  shows "keeps_binding sid ep (udp_step hmac g e)"
proof (cases e)
  case (Rehashed order)
  have "map_of (map (\<lambda>k. (k, the (map_of xs k))) order) sid = Some (the (map_of xs sid))" if "sid \<in> set order" for xs
    using that by (simp add: map_of_map_restrict)
  moreover have "sid \<in> fst ` set (gu_sessions g)"
    using assms(1) by (force simp: keeps_binding_def find_session_def dest: map_of_SomeD)
  ultimately have "set order = fst ` set (gu_sessions g) \<Longrightarrow>
      map_of (map (\<lambda>k. (k, the (map_of (gu_sessions g) k))) order) sid = map_of (gu_sessions g) sid"
    by (metis map_of_eq_None_iff option.collapse)
  then show ?thesis
    using assms(1) by (simp add: Rehashed rehash_def keeps_binding_def find_session_def)
next
  case (Datagram ep' d now)
  then show ?thesis
    using assms(1)
    by (simp add: on_udp_receive_def Let_def keeps_binding_rudp keeps_binding_bind keeps_binding_plain)
qed (use assms in \<open>auto simp: disturbs_def on_udp_receive_def start_udp_listener_def stop_udp_listener_def
       make_udp_bind_ticket_frame_def Let_def keeps_binding_def split: option.split\<close>)

text \<open>
  C34. Once an endpoint is bound to a session, no sequence of datagrams from any endpoint, valid tickets included, can move
  the binding: it lasts until the session is closed or recreated or a new ticket is issued to its client.
\<close>

theorem udp_binding_exclusive:
  assumes "find_session sid g = Some st" and "st_udp_bound st"
    and "\<forall>e \<in> set es. \<not> disturbs sid e"
  shows "\<exists>st'. find_session sid (foldl (udp_step hmac) g es) = Some st' \<and> st_udp_bound st' \<and>
    st_udp_endpoint st' = st_udp_endpoint st"
proof -
  have "keeps_binding sid (st_udp_endpoint st) g" using assms(1,2) by (simp add: keeps_binding_def)
  then have "keeps_binding sid (st_udp_endpoint st) (foldl (udp_step hmac) g es)"
    using assms(3) by (induction es arbitrary: g) (simp_all add: keeps_binding_step)
  then show ?thesis by (simp add: keeps_binding_def)
qed

section \<open>The listener keeps receiving\<close>

lemma socket_kept [simp]:
  "gu_udp_socket (do_udp_receive g) = gu_udp_socket g"
  "gu_udp_socket (send_udp_datagram f ep g) = gu_udp_socket g"
  "gu_udp_socket (send_bind_res ep now seq code msg g) = gu_udp_socket g"
  "gu_udp_socket (count_delivery d g) = gu_udp_socket g"
  "gu_udp_socket (count_datagram datagram g) = gu_udp_socket g"
  "gu_udp_socket (record_bind_failure key now g) = gu_udp_socket g"
  "gu_udp_socket (forward_frame ep k frame g) = gu_udp_socket g"
  by (simp_all add: do_udp_receive_def send_udp_datagram_def send_bind_res_def count_delivery_def count_datagram_def
      record_bind_failure_def forward_frame_def Let_def split: prod.split)

lemma socket_kept_sends [simp]:
  "gu_udp_socket (foldl (\<lambda>g frame. send_udp_datagram frame ep g) g fs) = gu_udp_socket g"
  by (induction fs arbitrary: g) simp_all

lemma socket_kept_inner [simp]: "gu_udp_socket (snd (forward_inner_frames ep k frames g)) = gu_udp_socket g"
  by (induction frames arbitrary: g) (simp_all split: option.split)

lemma socket_kept_session [simp]:
  "gu_udp_socket (snd (rudp_engine_step ep k datagram now g)) = gu_udp_socket g"
  "gu_udp_socket (fall_back_to_tcp k g) = gu_udp_socket g"
  "gu_udp_socket (snd (track_sequenced ep k seq now g)) = gu_udp_socket g"
  "gu_udp_socket (snd (snd (apply_udp_bind_request hmac req ep now g))) = gu_udp_socket g"
  "gu_udp_socket (snd (make_udp_bind_ticket_frame hmac k r1 r2 now g)) = gu_udp_socket g"
  by (simp_all add: rudp_engine_step_def fall_back_to_tcp_def track_sequenced_def apply_udp_bind_request_def
      apply_retry_backoff_def make_udp_bind_ticket_frame_def Let_def split_beta split: option.split)

lemma receiving_rearmed [simp]: "gu_receiving (do_udp_receive g) = (gu_udp_socket g \<or> gu_receiving g)"
  by (simp add: do_udp_receive_def)

lemma socket_kept_handlers [simp]:
  "gu_udp_socket (on_rudp_packet ep d now g) = gu_udp_socket g"
  "gu_udp_socket (on_bind_request hmac ep seq payload now g) = gu_udp_socket g"
  "gu_udp_socket (on_plain_frame ep d now g) = gu_udp_socket g"
  by (simp_all add: on_rudp_packet_def on_bind_request_def on_plain_frame_def Let_def split_beta split: option.split)

lemma handlers_rearm:
  assumes "gu_udp_socket g"
  shows "gu_receiving (on_rudp_packet ep d now g)" "gu_receiving (on_bind_request hmac ep seq payload now g)"
    "gu_receiving (on_plain_frame ep d now g)"
  using assms
  by (simp_all add: on_rudp_packet_def on_bind_request_def on_plain_frame_def Let_def split_beta split: option.split)

lemma receive_rearms:
  "gu_udp_socket (on_udp_receive hmac r now g) = gu_udp_socket g"
  "gu_udp_socket g \<Longrightarrow> r \<noteq> ReceiveAborted \<Longrightarrow> gu_receiving (on_udp_receive hmac r now g)"
  by (simp_all add: on_udp_receive_def Let_def handlers_rearm split: receive_result.split)

text \<open>No datagram and no receive error stops the UDP listener: as long as the receive operation is not cancelled, in every
  reachable state with an open socket the next receive is outstanding.
\<close>

theorem udp_always_receiving:
  assumes "\<forall>e \<in> set es. \<forall>now. e \<noteq> ReceiveCancelled now" and "gu_udp_socket (udp_run hmac c m es)"
  shows "gu_receiving (udp_run hmac c m es)"
proof -
  have step: "gu_udp_socket (udp_step hmac g e) \<longrightarrow> gu_receiving (udp_step hmac g e)"
    if "gu_udp_socket g \<longrightarrow> gu_receiving g" "\<forall>now. e \<noteq> ReceiveCancelled now" for g e
  proof (cases e)
    case (TicketIssued sid r1 r2 now)
    have "gu_receiving (snd (make_udp_bind_ticket_frame hmac sid r1 r2 now g)) = gu_receiving g"
      by (simp add: make_udp_bind_ticket_frame_def Let_def put_session_def bump_def split: option.split)
    with that TicketIssued show ?thesis by simp
  qed (use that in \<open>auto simp: receive_rearms add_session_def put_session_def erase_session_def rehash_def
         start_udp_listener_def stop_udp_listener_def\<close>)
  have "gu_udp_socket (foldl (udp_step hmac) g es) \<longrightarrow> gu_receiving (foldl (udp_step hmac) g es)"
    if "gu_udp_socket g \<longrightarrow> gu_receiving g" for g
    using that assms(1) by (induction es arbitrary: g) (simp_all add: step)
  from this [of "GatewayUdp_init c m"] show ?thesis
    using assms(2) by (simp add: udp_run_def GatewayUdp_init_def)
qed

section \<open>The exchange of an honest client\<close>

text \<open>A frame is taken for an RUDP packet only when its payload has as many bytes as the magic number says.\<close>

lemma frame_not_rudp:
  assumes "(of_nat (length payload) :: u16) \<noteq> kRudpMagic"
  shows "\<not> looks_like_rudp (frame_of msg_id flags payload seq utc)"
proof -
  have "read_be16 d 0 = hdr_length (decode_header d)" for d by (simp add: decode_header_def Let_def)
  then show ?thesis using assms by (simp add: looks_like_rudp_def decode_frame_of)
qed

lemma bind_request_frame_recognised:
  assumes "wire_string (bt_session_id t)" and "wire_string (bt_token t)"
    and "length (bt_session_id t) + length (bt_token t) < 20000"
    and d_def: "d = bind_request_frame t seq utc"
  shows "\<not> looks_like_rudp d" and "k_header_bytes \<le> length d"
    and "unat (hdr_length (decode_header d)) = length d - k_header_bytes"
    and "hdr_msg_id (decode_header d) = MSG_UDP_BIND_REQ" and "hdr_seq (decode_header d) = seq"
    and "parse_udp_bind_req (drop k_header_bytes d) = Some (UdpBindTicket.truncate t)"
proof -
  let ?p = "bind_request_payload t"
  have len: "length ?p < 21000" using assms(3) by (simp add: bind_request_payload_fields assms(1,2))
  then have word: "unat (of_nat (length ?p) :: u16) = length ?p" by (simp add: unat_of_nat)
  have "(of_nat (length ?p) :: u16) \<noteq> kRudpMagic" using len word by (auto simp: kRudpMagic_def)
  then show "\<not> looks_like_rudp d" by (simp add: d_def bind_request_frame_def frame_not_rudp)
  show "k_header_bytes \<le> length d" "unat (hdr_length (decode_header d)) = length d - k_header_bytes"
    "hdr_msg_id (decode_header d) = MSG_UDP_BIND_REQ" "hdr_seq (decode_header d) = seq"
    using word by (simp_all add: d_def bind_request_frame_def decode_frame_of)
  show "parse_udp_bind_req (drop k_header_bytes d) = Some (UdpBindTicket.truncate t)"
    by (simp add: d_def bind_request_frame_def frame_of_payload parse_bind_request_payload assms(1,2))
qed

text \<open>The state a fresh ticket leaves a session in accepts that ticket.\<close>

lemma issued_ticket_accepted:
  assumes "find_session sid g = Some (issue_ticket c sid nonce t token st)" and "gu_config g = c"
    and "token = make_udp_bind_token hmac c sid nonce expires" and "token \<noteq> []" and "sid \<noteq> []"
    and "nonce \<noteq> 0" and "expires = t + ucast (gc_udp_bind_ttl_ms c)" and "expires \<noteq> 0" and "now \<le> expires"
  shows "\<exists>g'. apply_udp_bind_request hmac \<lparr>bt_session_id = sid, bt_nonce = nonce, bt_expires_unix_ms = expires, bt_token = token\<rparr>
      ep now g = (0, ''bound'', g') \<and>
    gu_sessions g' = gu_sessions (put_session sid (bound_state c ep (issue_ticket c sid nonce t token st)) g) \<and>
    gu_sent g' = gu_sent g \<and> gu_udp_socket g' = gu_udp_socket g"
proof -
  have st: "st_udp_bind_retry_after_unix_ms (issue_ticket c sid nonce t token st) = 0"
    "st_udp_expires_unix_ms (issue_ticket c sid nonce t token st) = expires"
    "st_udp_nonce (issue_ticket c sid nonce t token st) = nonce" "st_udp_token (issue_ticket c sid nonce t token st) = token"
    "\<not> st_udp_bound (issue_ticket c sid nonce t token st)"
    by (simp_all add: issue_ticket_def Let_def assms(7))
  have "\<not> expires < now" using assms(9) by simp
  then show ?thesis
    using assms(1-6,8) st by (auto simp: apply_udp_bind_request_def Let_def)
qed

lemma bind_request_answered:
  assumes "gu_udp_socket g" and "\<not> bs_blocked (fst (block_state (gu_guard g) (endpoint_key ep) now))"
    and "parse_udp_bind_req payload = Some req"
    and "apply_udp_bind_request hmac req ep now (g\<lparr>gu_guard := snd (block_state (gu_guard g) (endpoint_key ep) now)\<rparr>)
      = (0, message, g')" and "gu_sent g' = gu_sent g" and "gu_udp_socket g' = gu_udp_socket g"
  shows "gu_sent (on_bind_request hmac ep seq payload now g) =
      gu_sent g @ [(ep, make_udp_bind_res_frame_ticket now 0 req message seq)]"
    and "gu_sessions (on_bind_request hmac ep seq payload now g) = gu_sessions g'"
  using assms by (simp_all add: on_bind_request_def Let_def split_beta) (simp_all add: send_udp_datagram_def do_udp_receive_def)

lemma bind_request_forwards_nothing [simp]:
  "gu_forwarded (on_bind_request hmac ep seq payload now g) = gu_forwarded g"
  "gu_forwarded (count_datagram datagram g) = gu_forwarded g"
proof -
  have "gu_forwarded (snd (snd (apply_udp_bind_request hmac req ep now g))) = gu_forwarded g" for req g
    by (simp add: apply_udp_bind_request_def apply_retry_backoff_def Let_def split: option.split)
  moreover have "gu_forwarded (record_bind_failure key now g) = gu_forwarded g" for key g
    by (simp add: record_bind_failure_def Let_def split: prod.split)
  ultimately show "gu_forwarded (on_bind_request hmac ep seq payload now g) = gu_forwarded g"
    by (simp add: on_bind_request_def send_bind_res_def Let_def split_beta split: option.split)
  show "gu_forwarded (count_datagram datagram g) = gu_forwarded g" by (simp add: count_datagram_def)
qed

lemma read_bind_res_frame:
  assumes "wire_string (bt_session_id req)" and "wire_string (bt_token req)" and "wire_string message"
  shows "parse_udp_bind_ticket_payload (drop k_header_bytes (make_udp_bind_res_frame_ticket now code req message seq)) =
    Some (UdpBindTicket.extend req \<lparr>bt_code = code, bt_message = message\<rparr>)"
  using assms
  by (simp add: make_udp_bind_res_frame_ticket_def make_udp_bind_res_frame_def frame_of_payload parse_bind_res_payload
      UdpBindTicket.defs ClientBindTicket.defs)

text \<open>The honest client's request, arriving in time from an endpoint that is not blocked.\<close>

lemma ticket_returned:
  assumes session: "find_session sid g = Some (issue_ticket c sid nonce t token st)" "gu_config g = c" "gu_udp_socket g"
    and req: "req = \<lparr>bt_session_id = sid, bt_nonce = nonce, bt_expires_unix_ms = expires, bt_token = token\<rparr>"
    and ticket: "UdpBindTicket.truncate ticket = req"
    and token: "token = make_udp_bind_token hmac c sid nonce expires" "token \<noteq> []" "wire_string token"
    and sid: "sid \<noteq> []" "wire_string sid" "length sid + length token < 20000"
    and times: "nonce \<noteq> 0" "expires = t + ucast (gc_udp_bind_ttl_ms c)" "expires \<noteq> 0" "now \<le> expires"
    and free: "\<not> bs_blocked (fst (block_state (gu_guard g) (endpoint_key ep) now))"
    and g2: "g2 = on_udp_receive hmac (Received ep (bind_request_frame ticket seq utc)) now g"
  shows "gu_sent g2 = gu_sent g @ [(ep, make_udp_bind_res_frame_ticket now 0 req ''bound'' seq)]"
    and "gu_sessions g2 = gu_sessions (put_session sid (bound_state c ep (issue_ticket c sid nonce t token st)) g)"
    and "gu_forwarded g2 = gu_forwarded g"
proof -
  let ?d = "bind_request_frame ticket seq utc" and ?g = "count_datagram (bind_request_frame ticket seq utc) (g\<lparr>gu_receiving := False\<rparr>)"
  let ?g' = "?g\<lparr>gu_guard := snd (block_state (gu_guard ?g) (endpoint_key ep) now)\<rparr>"
  have fields: "bt_session_id ticket = sid" "bt_token ticket = token"
    using arg_cong [OF ticket, of bt_session_id] arg_cong [OF ticket, of bt_token]
    by (simp_all add: UdpBindTicket.defs req)
  note frame = bind_request_frame_recognised [OF _ _ _ refl, of ticket seq utc, unfolded ticket fields, OF sid(2) token(3) sid(3)]
  have handle: "g2 = on_bind_request hmac ep seq (drop k_header_bytes ?d) now ?g"
    using frame(1-5) by (simp add: g2 on_udp_receive_def Let_def)
  have g: "find_session sid ?g' = Some (issue_ticket c sid nonce t token st)" "gu_config ?g' = c" "gu_guard ?g = gu_guard g"
    "gu_sent ?g' = gu_sent g" "gu_sent ?g = gu_sent g" "gu_udp_socket ?g" "gu_udp_socket ?g'"
    using session by (simp_all add: count_datagram_def)
  from issued_ticket_accepted [OF g(1,2) token(1,2) sid(1) times(1-4), of ep]
  obtain g3 where g3: "apply_udp_bind_request hmac req ep now ?g' = (0, ''bound'', g3)"
    "gu_sessions g3 = gu_sessions (put_session sid (bound_state c ep (issue_ticket c sid nonce t token st)) ?g')"
    "gu_sent g3 = gu_sent ?g" "gu_udp_socket g3 = gu_udp_socket ?g"
    unfolding req using g(4-7) by auto
  have free': "\<not> bs_blocked (fst (block_state (gu_guard ?g) (endpoint_key ep) now))" using free g(3) by simp
  note answered = bind_request_answered [OF g(6) free' frame(6) g3(1) g3(3,4), where seq = seq]
  show "gu_sent g2 = gu_sent g @ [(ep, make_udp_bind_res_frame_ticket now 0 req ''bound'' seq)]"
    using answered(1) by (simp only: handle g(5))
  show "gu_sessions g2 = gu_sessions (put_session sid (bound_state c ep (issue_ticket c sid nonce t token st)) g)"
    using answered(2) g3(2) by (simp add: handle put_session_def count_datagram_def)
  show "gu_forwarded g2 = gu_forwarded g" by (simp add: handle)
qed


text \<open>
  Nothing keeps one endpoint from being bound to two sessions: a request with a valid ticket of a second session is
  accepted from an endpoint that a first session is bound to, and from then on the iteration order of the session
  table decides which of the two gets the endpoint's frames.
\<close>

lemma endpoint_bound_twice:
  assumes "keeps_binding first ep g" and "first \<noteq> sid"
    and session: "find_session sid g = Some (issue_ticket c sid nonce t token st)" "gu_config g = c" "gu_udp_socket g"
    and req: "req = \<lparr>bt_session_id = sid, bt_nonce = nonce, bt_expires_unix_ms = expires, bt_token = token\<rparr>"
    and token: "token = make_udp_bind_token hmac c sid nonce expires" "token \<noteq> []" "wire_string token"
    and sid: "sid \<noteq> []" "wire_string sid" "length sid + length token < 20000"
    and times: "nonce \<noteq> 0" "expires = t + ucast (gc_udp_bind_ttl_ms c)" "expires \<noteq> 0" "now \<le> expires"
    and free: "\<not> bs_blocked (fst (block_state (gu_guard g) (endpoint_key ep) now))"
    and g2: "g2 = on_udp_receive hmac (Received ep (bind_request_frame req seq utc)) now g"
  shows "keeps_binding first ep g2 \<and> keeps_binding sid ep g2"
proof -
  have cut: "UdpBindTicket.truncate req = req" by (simp add: req UdpBindTicket.defs)
  have "gu_sessions g2 = gu_sessions (put_session sid (bound_state c ep (issue_ticket c sid nonce t token st)) g)"
    by (rule ticket_returned(2) [OF session req cut token sid times free g2])
  then have "keeps_binding k ep g2 = keeps_binding k ep (put_session sid (bound_state c ep (issue_ticket c sid nonce t token st)) g)" for k
    by (rule keeps_binding_cong)
  then show ?thesis
    using assms(1,2) session(1) by (auto simp: keeps_binding_def bound_state_def)
qed

section \<open>A history\<close>

definition demo_udp_hmac :: "string \<Rightarrow> string \<Rightarrow> bytes option" where
  "demo_udp_hmac secret message = Some [of_nat (length secret), of_nat (length message)]"

definition demo_udp_config :: GatewayConfig where
  "demo_udp_config = GatewayConfig_default\<lparr>gc_udp_listen_port := 7000, gc_udp_bind_secret := ''k'',
     gc_udp_opcode_allowlist := {MSG_UDP_BIND_RES}\<rparr>"

definition demo_udp_ticket :: "string \<Rightarrow> UdpBindTicket" where
  "demo_udp_ticket sid = \<lparr>bt_session_id = sid, bt_nonce = draw_nonce 1 2, bt_expires_unix_ms = 6000,
     bt_token = make_udp_bind_token demo_udp_hmac demo_udp_config sid (draw_nonce 1 2) 6000\<rparr>"

definition demo_udp_client :: udp_endpoint where "demo_udp_client = (''10.0.0.9'', 4000)"

definition demo_udp_frame :: bytes where "demo_udp_frame = frame_of MSG_UDP_BIND_RES 0 [7] 1 0"

definition demo_udp_history :: "udp_event list" where
  "demo_udp_history =
     [ListenerStarted True, SessionCreated ''a'' ''ann'', TicketIssued ''a'' 1 2 1000,
      Datagram demo_udp_client (bind_request_frame (demo_udp_ticket ''a'') 0 0) 1500]"

definition demo_udp_issued :: "string \<Rightarrow> SessionState" where
  "demo_udp_issued sid = issue_ticket demo_udp_config sid (draw_nonce 1 2) 1000 (bt_token (demo_udp_ticket sid)) (SessionState_init ''ann'')"

lemma demo_token:
  "bt_token (demo_udp_ticket sid) = make_udp_bind_token demo_udp_hmac demo_udp_config sid (draw_nonce 1 2) 6000"
  "bt_token (demo_udp_ticket sid) \<noteq> []" "wire_string (bt_token (demo_udp_ticket sid))" "length (bt_token (demo_udp_ticket sid)) = 4"
proof -
  show token: "bt_token (demo_udp_ticket sid) = make_udp_bind_token demo_udp_hmac demo_udp_config sid (draw_nonce 1 2) 6000"
    by (simp add: demo_udp_ticket_def)
  have hex: "bt_token (demo_udp_ticket sid) = hex_encode [1, of_nat (length (make_bind_signing_input sid (draw_nonce 1 2) 6000))]"
    by (simp add: token make_udp_bind_token_def hmac_sha256_hex_def demo_udp_hmac_def demo_udp_config_def)
  show "length (bt_token (demo_udp_ticket sid)) = 4" by (simp add: hex)
  then show "bt_token (demo_udp_ticket sid) \<noteq> []" by auto
  show "wire_string (bt_token (demo_udp_ticket sid))" unfolding hex by (intro wire_string_ascii hex_encode_ascii) simp
qed

lemma demo_session_issued:
  assumes g_def: "g = udp_run demo_udp_hmac demo_udp_config RudpMetrics_default
    [ListenerStarted True, SessionCreated ''a'' ''ann'', TicketIssued ''a'' 1 2 1000]"
  shows "gu_sessions g = [(''a'', demo_udp_issued ''a'')]" "gu_config g = demo_udp_config" "gu_udp_socket g"
    "gu_forwarded g = []" "\<not> bs_blocked (fst (block_state (gu_guard g) (endpoint_key ep) now))"
proof -
  have c: "gc_udp_listen_port demo_udp_config = 7000" "gc_udp_bind_secret demo_udp_config = ''k''"
    "gc_udp_bind_ttl_ms demo_udp_config = 5000"
    by (simp_all add: demo_udp_config_def GatewayConfig_default_def)
  note defs = g_def udp_run_def GatewayUdp_init_def start_udp_listener_def do_udp_receive_def add_session_def find_session_def
    make_udp_bind_ticket_frame_def Let_def put_session_def bump_def c demo_token(1) [of "''a''", symmetric] demo_token(2)
  show "gu_sessions g = [(''a'', demo_udp_issued ''a'')]" by (simp add: defs demo_udp_issued_def)
  show "gu_config g = demo_udp_config" "gu_udp_socket g" "gu_forwarded g = []" by (simp_all add: defs)
  show "\<not> bs_blocked (fst (block_state (gu_guard g) (endpoint_key ep) now))"
    by (simp add: defs block_state_def UdpBindAbuseGuard_configure_def UdpBindAbuseGuard_init_def)
qed

lemma demo_session_bound:
  assumes g_def: "g = udp_run demo_udp_hmac demo_udp_config RudpMetrics_default demo_udp_history"
  shows "gu_sessions g = [(''a'', bound_state demo_udp_config demo_udp_client (demo_udp_issued ''a''))]"
    "gu_config g = demo_udp_config" "gu_forwarded g = []"
proof -
  define g3 where "g3 = udp_run demo_udp_hmac demo_udp_config RudpMetrics_default
    [ListenerStarted True, SessionCreated ''a'' ''ann'', TicketIssued ''a'' 1 2 1000]"
  note g3 = demo_session_issued [OF g3_def]
  have g: "g = on_udp_receive demo_udp_hmac (Received demo_udp_client (bind_request_frame (demo_udp_ticket ''a'') 0 0)) 1500 g3"
    by (simp add: g_def g3_def udp_run_def demo_udp_history_def)
  have config: "6000 = 1000 + (ucast (gc_udp_bind_ttl_ms demo_udp_config) :: u64)" "draw_nonce 1 2 \<noteq> 0"
    by (simp_all add: demo_udp_config_def GatewayConfig_default_def draw_nonce_def)
  have find: "find_session ''a'' g3 = Some (issue_ticket demo_udp_config ''a'' (draw_nonce 1 2) 1000
      (bt_token (demo_udp_ticket ''a'')) (SessionState_init ''ann''))"
    using g3(1) by (simp add: find_session_def demo_udp_issued_def)
  have req: "demo_udp_ticket ''a'' = \<lparr>bt_session_id = ''a'', bt_nonce = draw_nonce 1 2, bt_expires_unix_ms = 6000,
      bt_token = bt_token (demo_udp_ticket ''a'')\<rparr>"
    by (simp add: demo_udp_ticket_def)
  have cut: "UdpBindTicket.truncate (demo_udp_ticket ''a'') = demo_udp_ticket ''a''"
    by (simp add: demo_udp_ticket_def UdpBindTicket.defs)
  have small: "''a'' \<noteq> []" "wire_string ''a''" "length ''a'' + length (bt_token (demo_udp_ticket ''a'')) < 20000"
    "(6000 :: u64) \<noteq> 0" "(1500 :: u64) \<le> 6000"
    by (simp_all add: demo_token(4) wire_string_ascii)
  note returned = ticket_returned [OF find g3(2,3) req cut demo_token(1,2,3) small(1,2,3) config(2,1) small(4,5) g3(5) g]
  show "gu_sessions g = [(''a'', bound_state demo_udp_config demo_udp_client (demo_udp_issued ''a''))]"
    using returned(2) by (simp add: g3(1) put_session_def demo_udp_issued_def)
  show "gu_config g = demo_udp_config" using udp_run_ok by (simp add: g_def udp_ok_def)
  show "gu_forwarded g = []" using returned(3) g3(4) by simp
qed

lemma demo_frame_forwarded:
  "gu_forwarded (udp_run demo_udp_hmac demo_udp_config RudpMetrics_default
     (demo_udp_history @ [Datagram demo_udp_client demo_udp_frame 1600])) = [(demo_udp_client, ''a'', demo_udp_frame)]"
proof -
  define g where "g = udp_run demo_udp_hmac demo_udp_config RudpMetrics_default demo_udp_history"
  note g = demo_session_bound [OF g_def]
  have frame: "decode_header demo_udp_frame = \<lparr>hdr_length = 1, hdr_msg_id = MSG_UDP_BIND_RES, hdr_flags = 0, hdr_seq = 1, hdr_utc_ts_ms32 = 0\<rparr>"
    "length demo_udp_frame = 15" "demo_udp_frame \<noteq> []" "\<not> looks_like_rudp demo_udp_frame"
    using length_frame_of [of MSG_UDP_BIND_RES 0 "[7]" 1 0]
    by (auto simp: demo_udp_frame_def decode_frame_of frame_not_rudp kRudpMagic_def simp del: length_frame_of)
  let ?g = "count_datagram demo_udp_frame (g\<lparr>gu_receiving := False\<rparr>)"
  have bound: "bound_session demo_udp_client ?g = Some ''a''" "gu_config ?g = demo_udp_config" "gu_forwarded ?g = []"
    using g by (simp_all add: bound_session_def count_datagram_def bound_state_def)
  have policy: "opcode_policy_of MSG_UDP_BIND_RES = Some (game_opcode_policy MSG_UDP_BIND_RES)"
    "transport_allows (op_transport (game_opcode_policy MSG_UDP_BIND_RES)) kUdp"
    "op_delivery (game_opcode_policy MSG_UDP_BIND_RES) = kReliable"
    "MSG_UDP_BIND_RES \<in> gc_udp_opcode_allowlist demo_udp_config"
    by (simp_all add: opcode_policy_of_def game_opcode_name_def transport_allows_def game_opcode_policy_def demo_udp_config_def)
  have "gu_forwarded (on_plain_frame demo_udp_client demo_udp_frame 1600 ?g) = [(demo_udp_client, ''a'', demo_udp_frame)]"
    using bound policy by (simp add: on_plain_frame_def Let_def frame(1) count_delivery_def forward_frame_def)
  then show ?thesis
    using frame by (simp add: udp_run_def flip: g_def [unfolded udp_run_def]) (simp add: on_udp_receive_def Let_def)
qed

theorem udp_forward_authorised_witness:
  "proved demo_udp_hmac demo_udp_config (demo_udp_history @ [Datagram demo_udp_client demo_udp_frame 1600]) demo_udp_client ''a''"
  using udp_forward_authorised [of demo_udp_client "''a''" demo_udp_frame demo_udp_hmac demo_udp_config RudpMetrics_default
      "demo_udp_history @ [Datagram demo_udp_client demo_udp_frame 1600]"]
  by (simp add: demo_frame_forwarded)

theorem udp_binding_exclusive_witness:
  "\<exists>st'. find_session ''a'' (foldl (udp_step demo_udp_hmac) (udp_run demo_udp_hmac demo_udp_config RudpMetrics_default demo_udp_history)
      [Datagram (''10.0.0.66'', 5) (bind_request_frame (demo_udp_ticket ''a'') 0 0) 1700]) = Some st' \<and>
    st_udp_bound st' \<and> st_udp_endpoint st' = demo_udp_client"
  using udp_binding_exclusive [of "''a''" "udp_run demo_udp_hmac demo_udp_config RudpMetrics_default demo_udp_history"
      "bound_state demo_udp_config demo_udp_client (demo_udp_issued ''a'')"
      "[Datagram (''10.0.0.66'', 5) (bind_request_frame (demo_udp_ticket ''a'') 0 0) 1700]" demo_udp_hmac]
  by (simp only: demo_session_bound(1) [OF refl] find_session_def map_of.simps) (simp add: disturbs_def bound_state_def)

theorem udp_always_receiving_witness:
  "gu_receiving (udp_run demo_udp_hmac demo_udp_config RudpMetrics_default
     [ListenerStarted True, SessionCreated ''a'' ''ann'', TicketIssued ''a'' 1 2 1000])"
  by (rule udp_always_receiving) (simp, rule demo_session_issued(3) [OF refl])

definition demo_udp_gateway :: GatewayUdp where
  "demo_udp_gateway = udp_run demo_udp_hmac demo_udp_config RudpMetrics_default
     [ListenerStarted True, SessionCreated ''a'' ''ann'', TicketIssued ''a'' 1 2 1000]"


end
