(* ===== verification/Connection.thy ===== *)
theory Connection
  imports Prelude "HOL-Library.Sublist"
begin

text \<open>
  \<open>Connection\<close>, the base class of stream transports (\<^verbatim>\<open>core/src/net/connection.cpp\<close>): a read loop, a bounded write
  queue with at most one write under way, and a two-step stop. Work for the strand is a list of tasks; completions
  of reads and writes are events. The virtual functions of a derived class are a record of hooks over the
  connection, extended by the derived class, and the state of the application around it. \<open>on_write\<close> and \<open>on_error\<close>
  change no state in any class of the program and are left out.

  The locale states what a derived class has to respect; every run of a connection with such hooks keeps the queue
  accounts, writes the accepted payloads in order and disconnects exactly once.
\<close>

section \<open>State\<close>

datatype cn_task = CnStart | CnFinalize | CnSend bytes

record Connection =
  cn_stopped :: bool
  cn_socket_open :: bool
  cn_write_queue :: "bytes list"
  cn_queued_bytes :: nat
  cn_send_queue_max_bytes :: nat
  cn_strand :: "cn_task list"
  cn_reads :: nat
  cn_writes :: "bytes list"
  cn_accepted :: "bytes list"
  cn_written :: "bytes list"
  cn_disconnects :: nat

record ('c, 'a) hooks =
  hk_on_connect :: "'c \<times> 'a \<Rightarrow> 'c \<times> 'a"
  hk_on_disconnect :: "'c \<times> 'a \<Rightarrow> 'c \<times> 'a"
  hk_on_read :: "bytes \<Rightarrow> 'c \<times> 'a \<Rightarrow> 'c \<times> 'a"

section \<open>Operations\<close>

definition cn_finalize :: "'x Connection_scheme \<Rightarrow> 'x Connection_scheme" where
  "cn_finalize c = c\<lparr>cn_socket_open := False, cn_write_queue := [], cn_queued_bytes := 0, cn_disconnects := cn_disconnects c + 1\<rparr>"

definition finalize_stop ::
    "('x Connection_scheme \<times> 'a \<Rightarrow> 'x Connection_scheme \<times> 'a) \<Rightarrow> 'x Connection_scheme \<times> 'a \<Rightarrow> 'x Connection_scheme \<times> 'a" where
  "finalize_stop on_disconnect s = on_disconnect (cn_finalize (fst s), snd s)"

text \<open>\<open>dispatch\<close> runs its function at once when the caller is on the strand and queues it otherwise.\<close>

definition Connection_stop ::
    "('x Connection_scheme \<times> 'a \<Rightarrow> 'x Connection_scheme \<times> 'a) \<Rightarrow> bool \<Rightarrow> 'x Connection_scheme \<times> 'a \<Rightarrow> 'x Connection_scheme \<times> 'a" where
  "Connection_stop on_disconnect on_strand s =
     (if cn_stopped (fst s) then s
      else let c = (fst s)\<lparr>cn_stopped := True\<rparr> in
        if on_strand then finalize_stop on_disconnect (c, snd s)
        else (c\<lparr>cn_strand := cn_strand c @ [CnFinalize]\<rparr>, snd s))"

definition Connection_start :: "'x Connection_scheme \<Rightarrow> 'x Connection_scheme" where
  "Connection_start c = (if cn_stopped c then c else c\<lparr>cn_strand := cn_strand c @ [CnStart]\<rparr>)"

definition Connection_async_send :: "bytes \<Rightarrow> 'x Connection_scheme \<Rightarrow> 'x Connection_scheme" where
  "Connection_async_send data c = (if cn_stopped c then c else c\<lparr>cn_strand := cn_strand c @ [CnSend data]\<rparr>)"

definition read_loop :: "'x Connection_scheme \<Rightarrow> 'x Connection_scheme" where
  "read_loop c = c\<lparr>cn_reads := cn_reads c + 1\<rparr>"

text \<open>No null buffer is ever queued, so the branch for one is not reached.\<close>

definition cn_do_write :: "'x Connection_scheme \<Rightarrow> 'x Connection_scheme" where
  "cn_do_write c = (case cn_write_queue c of [] \<Rightarrow> c | buffer # _ \<Rightarrow> c\<lparr>cn_writes := cn_writes c @ [buffer]\<rparr>)"

definition cn_over_limit :: "nat \<Rightarrow> nat \<Rightarrow> nat \<Rightarrow> bool" where
  "cn_over_limit limit queued payload_size \<longleftrightarrow> 0 < limit \<and> limit - min limit queued < payload_size"

definition send_task :: "('x Connection_scheme, 'a) hooks \<Rightarrow> bytes \<Rightarrow> 'x Connection_scheme \<times> 'a \<Rightarrow> 'x Connection_scheme \<times> 'a" where
  "send_task hooks payload s =
     (let c = fst s in
      if cn_stopped c then s
      else if cn_over_limit (cn_send_queue_max_bytes c) (cn_queued_bytes c) (length payload) then
        Connection_stop (hk_on_disconnect hooks) True s
      else
        let idle = (cn_write_queue c = []);
            c = c\<lparr>cn_queued_bytes := cn_queued_bytes c + length payload, cn_write_queue := cn_write_queue c @ [payload],
                  cn_accepted := cn_accepted c @ [payload]\<rparr>
        in (if idle then cn_do_write c else c, snd s))"

definition start_task :: "('x Connection_scheme, 'a) hooks \<Rightarrow> 'x Connection_scheme \<times> 'a \<Rightarrow> 'x Connection_scheme \<times> 'a" where
  "start_task hooks s =
     (if cn_stopped (fst s) then s
      else let s = hk_on_connect hooks s in (read_loop (fst s), snd s))"

text \<open>Completions; \<open>None\<close> stands for an error code.\<close>

definition handle_read ::
    "('x Connection_scheme, 'a) hooks \<Rightarrow> bytes option \<Rightarrow> 'x Connection_scheme \<times> 'a \<Rightarrow> 'x Connection_scheme \<times> 'a" where
  "handle_read hooks result s =
     (case result of
        None \<Rightarrow> Connection_stop (hk_on_disconnect hooks) True s
      | Some data \<Rightarrow>
          let s = (if data \<noteq> [] then hk_on_read hooks data s else s)
          in if \<not> cn_stopped (fst s) then (read_loop (fst s), snd s) else s)"

definition handle_write ::
    "('x Connection_scheme, 'a) hooks \<Rightarrow> bool \<Rightarrow> nat \<Rightarrow> 'x Connection_scheme \<times> 'a \<Rightarrow> 'x Connection_scheme \<times> 'a" where
  "handle_write hooks ok packet_size s =
     (if \<not> ok then Connection_stop (hk_on_disconnect hooks) True s
      else
        let c = fst s;
            c = c\<lparr>cn_queued_bytes := (if packet_size \<le> cn_queued_bytes c then cn_queued_bytes c - packet_size else 0),
                  cn_write_queue := tl (cn_write_queue c)\<rparr>
        in (if cn_write_queue c \<noteq> [] then cn_do_write c else c, snd s))"

definition Connection_init :: "nat \<Rightarrow> Connection" where
  "Connection_init send_queue_max =
     \<lparr>cn_stopped = False, cn_socket_open = True, cn_write_queue = [], cn_queued_bytes = 0,
      cn_send_queue_max_bytes = send_queue_max, cn_strand = [], cn_reads = 0, cn_writes = [],
      cn_accepted = [], cn_written = [], cn_disconnects = 0\<rparr>"

section \<open>Events\<close>

datatype cn_event = CnEvStart | CnEvTask | CnEvRead "bytes option" | CnEvWritten bool | CnEvSend bytes | CnEvStop

fun run_cn_task :: "('x Connection_scheme, 'a) hooks \<Rightarrow> cn_task \<Rightarrow> 'x Connection_scheme \<times> 'a \<Rightarrow> 'x Connection_scheme \<times> 'a" where
  "run_cn_task hooks CnStart s = start_task hooks s"
| "run_cn_task hooks CnFinalize s = finalize_stop (hk_on_disconnect hooks) s"
| "run_cn_task hooks (CnSend payload) s = send_task hooks payload s"

text \<open>
  A read completes only if one is outstanding, a write only if one is under way; a completed write is recorded
  together with its buffer.
\<close>

fun cn_step :: "('x Connection_scheme, 'a) hooks \<Rightarrow> 'x Connection_scheme \<times> 'a \<Rightarrow> cn_event \<Rightarrow> 'x Connection_scheme \<times> 'a" where
  "cn_step hooks s CnEvStart = (Connection_start (fst s), snd s)"
| "cn_step hooks s CnEvTask =
     (case cn_strand (fst s) of [] \<Rightarrow> s | t # ts \<Rightarrow> run_cn_task hooks t ((fst s)\<lparr>cn_strand := ts\<rparr>, snd s))"
| "cn_step hooks s (CnEvRead result) =
     (if cn_reads (fst s) = 0 then s
      else handle_read hooks result ((fst s)\<lparr>cn_reads := cn_reads (fst s) - 1\<rparr>, snd s))"
| "cn_step hooks s (CnEvWritten ok) =
     (case cn_writes (fst s) of [] \<Rightarrow> s
      | buffer # rest \<Rightarrow>
          handle_write hooks ok (length buffer)
            ((fst s)\<lparr>cn_writes := rest, cn_written := (if ok then cn_written (fst s) @ [buffer] else cn_written (fst s))\<rparr>, snd s))"
| "cn_step hooks s (CnEvSend data) = (Connection_async_send data (fst s), snd s)"
| "cn_step hooks s CnEvStop = Connection_stop (hk_on_disconnect hooks) False s"

section \<open>Invariant\<close>

text \<open>
  While the socket is open the queue is what is accepted but not yet written, and its head is being written
  (nothing is, after a failed write whose stop is still to be carried out); once it is closed the queue is gone and
  what was being written may still complete.
\<close>

definition cn_queue_ok :: "bool \<Rightarrow> bool \<Rightarrow> bytes list \<Rightarrow> nat \<Rightarrow> nat \<Rightarrow> bytes list \<Rightarrow> bytes list \<Rightarrow> bytes list \<Rightarrow> bool" where
  "cn_queue_ok stopped open queue queued limit writes accepted written \<longleftrightarrow>
     queued = sum_list (map length queue) \<and> (0 < limit \<longrightarrow> queued \<le> limit) \<and>
     (if open then accepted = written @ queue \<and> (writes = take 1 queue \<or> stopped \<and> writes = [])
      else queue = [] \<and> length writes \<le> 1 \<and> prefix (written @ writes) accepted)"

definition cn_stop_ok :: "bool \<Rightarrow> bool \<Rightarrow> cn_task list \<Rightarrow> nat \<Rightarrow> bool" where
  "cn_stop_ok stopped open strand disconnects \<longleftrightarrow>
     disconnects = of_bool (\<not> open) \<and> count_list strand CnFinalize + disconnects = of_bool stopped"

definition conn_inv :: "nat \<Rightarrow> 'x Connection_scheme \<Rightarrow> bool" where
  "conn_inv limit c \<longleftrightarrow>
     cn_send_queue_max_bytes c = limit \<and>
     cn_queue_ok (cn_stopped c) (cn_socket_open c) (cn_write_queue c) (cn_queued_bytes c) limit (cn_writes c)
       (cn_accepted c) (cn_written c) \<and>
     cn_stop_ok (cn_stopped c) (cn_socket_open c) (cn_strand c) (cn_disconnects c)"

lemma cn_stop_ok_other:
  "t \<noteq> CnFinalize \<Longrightarrow> cn_stop_ok stopped open (strand @ [t]) d = cn_stop_ok stopped open strand d"
  "t \<noteq> CnFinalize \<Longrightarrow> cn_stop_ok stopped open (t # strand) d = cn_stop_ok stopped open strand d"
  by (simp_all add: cn_stop_ok_def)

lemma cn_stop_ok_finalize:
  "cn_stop_ok stopped open (CnFinalize # strand) d \<Longrightarrow> cn_stop_ok stopped False strand (d + 1)"
  by (cases "open"; cases stopped) (auto simp: cn_stop_ok_def)

lemma cn_over_limit_iff: "0 < limit \<Longrightarrow> \<not> cn_over_limit limit queued n \<Longrightarrow> queued \<le> limit \<Longrightarrow> queued + n \<le> limit"
  by (auto simp: cn_over_limit_def)

lemma cn_queue_close:
  "cn_queue_ok stopped True queue queued limit writes accepted written \<Longrightarrow> cn_queue_ok stopped' False [] 0 limit writes accepted written"
  by (cases queue) (auto simp: cn_queue_ok_def prefix_def)

lemma cn_queue_closed:
  "cn_queue_ok stopped False queue queued limit writes accepted written \<Longrightarrow> cn_queue_ok stopped' False [] 0 limit writes accepted written"
  by (auto simp: cn_queue_ok_def)

lemma finalize_inv:
  assumes "cn_queue_ok stopped open queue queued limit writes accepted written"
  shows "cn_queue_ok stopped' False [] 0 limit writes accepted written"
  using assms by (cases "open") (auto intro: cn_queue_close cn_queue_closed)

lemma Connection_stop_inv:
  assumes "\<And>s. conn_inv limit (fst s) \<Longrightarrow> conn_inv limit (fst (on_disconnect s))" and "conn_inv limit (fst s)"
  shows "conn_inv limit (fst (Connection_stop on_disconnect on_strand s))"
proof (cases "cn_stopped (fst s)")
  case False
  let ?c = "(fst s)\<lparr>cn_stopped := True\<rparr>"
  have inv: "cn_queue_ok False (cn_socket_open ?c) (cn_write_queue ?c) (cn_queued_bytes ?c) limit
      (cn_writes ?c) (cn_accepted ?c) (cn_written ?c)" "cn_send_queue_max_bytes ?c = limit" "cn_disconnects ?c = 0" "count_list (cn_strand ?c) CnFinalize = 0"
    "cn_socket_open ?c"
    using assms(2) False by (auto simp: conn_inv_def cn_stop_ok_def)
  then have "conn_inv limit (cn_finalize ?c)"
    using finalize_inv [OF inv(1), of True] by (simp add: conn_inv_def cn_finalize_def cn_stop_ok_def)
  moreover have "conn_inv limit (?c\<lparr>cn_strand := cn_strand ?c @ [CnFinalize]\<rparr>)"
    using inv by (auto simp: conn_inv_def cn_stop_ok_def cn_queue_ok_def)
  ultimately show ?thesis
    using assms(1) False by (simp add: Connection_stop_def finalize_stop_def Let_def)
qed (use assms(2) in \<open>simp add: Connection_stop_def\<close>)

text \<open>On the strand it is enough that the accounts are in order for a stopped connection.\<close>

lemma Connection_stop_strand_inv:
  assumes "\<And>s. conn_inv limit (fst s) \<Longrightarrow> conn_inv limit (fst (on_disconnect s))"
    and "cn_queue_ok True (cn_socket_open c) (cn_write_queue c) (cn_queued_bytes c) limit
      (cn_writes c) (cn_accepted c) (cn_written c)" and "cn_send_queue_max_bytes c = limit"
    and "cn_stop_ok (cn_stopped c) (cn_socket_open c) (cn_strand c) (cn_disconnects c)"
  shows "conn_inv limit (fst (Connection_stop on_disconnect True (c, a)))"
proof (cases "cn_stopped c")
  case True
  then show ?thesis using assms(2-4) by (simp add: Connection_stop_def conn_inv_def)
next
  case False
  then have "conn_inv limit (cn_finalize (c\<lparr>cn_stopped := True\<rparr>))"
    using assms(3,4) finalize_inv [OF assms(2), of True] by (auto simp: conn_inv_def cn_finalize_def cn_stop_ok_def)
  then show ?thesis using assms(1) False by (simp add: Connection_stop_def finalize_stop_def Let_def)
qed

lemma Connection_async_send_inv: "conn_inv limit c \<Longrightarrow> conn_inv limit (Connection_async_send data c)"
  by (auto simp: Connection_async_send_def conn_inv_def cn_stop_ok_other)

lemma Connection_start_inv: "conn_inv limit c \<Longrightarrow> conn_inv limit (Connection_start c)"
  by (auto simp: Connection_start_def conn_inv_def cn_stop_ok_other)

lemma conn_inv_reads: "conn_inv limit (c\<lparr>cn_reads := n\<rparr>) = conn_inv limit c"
  by (simp add: conn_inv_def)

section \<open>Derived classes\<close>

text \<open>A derived class may call the operations of the base class in its hooks, but has to leave the accounts in order.\<close>

locale connection_hooks =
  fixes hooks :: "('x Connection_scheme, 'a) hooks"
  assumes connect_inv: "conn_inv limit (fst s) \<Longrightarrow> conn_inv limit (fst (hk_on_connect hooks s))"
    and disconnect_inv: "conn_inv limit (fst s) \<Longrightarrow> conn_inv limit (fst (hk_on_disconnect hooks s))"
    and read_inv: "conn_inv limit (fst s) \<Longrightarrow> conn_inv limit (fst (hk_on_read hooks data s))"
begin

lemma stop_inv: "conn_inv limit (fst s) \<Longrightarrow> conn_inv limit (fst (Connection_stop (hk_on_disconnect hooks) on_strand s))"
  by (rule Connection_stop_inv) (rule disconnect_inv)

lemma send_task_inv:
  assumes "conn_inv limit (fst s)"
  shows "conn_inv limit (fst (send_task hooks payload s))"
proof -
  let ?c = "fst s"
  let ?q = "?c\<lparr>cn_queued_bytes := cn_queued_bytes ?c + length payload, cn_write_queue := cn_write_queue ?c @ [payload],
    cn_accepted := cn_accepted ?c @ [payload]\<rparr>"
  have "conn_inv limit (if cn_write_queue ?c = [] then cn_do_write ?q else ?q)"
    if "\<not> cn_stopped ?c" "\<not> cn_over_limit (cn_send_queue_max_bytes ?c) (cn_queued_bytes ?c) (length payload)"
  proof -
    have "cn_socket_open ?c" "cn_writes ?c = take 1 (cn_write_queue ?c)"
      using assms that(1) by (auto simp: conn_inv_def cn_stop_ok_def cn_queue_ok_def split: if_splits)
    then show ?thesis
      using assms that cn_over_limit_iff [OF _ that(2)]
      by (cases "cn_write_queue ?c") (auto simp: conn_inv_def cn_stop_ok_def cn_queue_ok_def cn_do_write_def)
  qed
  then show ?thesis
    using assms stop_inv [OF assms, of True] by (simp add: send_task_def Let_def)
qed

lemma handle_write_inv:
  assumes "conn_inv limit (fst s)" and "cn_writes (fst s) = buffer # rest"
  shows "conn_inv limit (fst (handle_write hooks ok (length buffer)
    ((fst s)\<lparr>cn_writes := rest, cn_written := (if ok then cn_written (fst s) @ [buffer] else cn_written (fst s))\<rparr>, snd s)))"
proof (cases ok)
  case True
  let ?c = "fst s"
  show ?thesis
  proof (cases "cn_socket_open ?c")
    case is_open: True
    then obtain queue where "cn_write_queue ?c = buffer # queue" "rest = []"
      using assms by (cases "cn_write_queue ?c") (auto simp: conn_inv_def cn_queue_ok_def)
    then show ?thesis
      using assms True is_open by (cases queue) (auto simp: conn_inv_def cn_stop_ok_def cn_queue_ok_def handle_write_def cn_do_write_def Let_def)
  next
    case False
    then show ?thesis
      using assms True by (auto simp: conn_inv_def cn_stop_ok_def cn_queue_ok_def handle_write_def Let_def)
  qed
next
  case False
  have "cn_queue_ok True (cn_socket_open (fst s)) (cn_write_queue (fst s)) (cn_queued_bytes (fst s))
      limit rest (cn_accepted (fst s)) (cn_written (fst s))"
    using assms by (cases "cn_write_queue (fst s)") (auto simp: conn_inv_def cn_queue_ok_def dest: append_prefixD split: if_splits)
  then show ?thesis
    using assms(1) False
    by (simp add: handle_write_def) (rule Connection_stop_strand_inv [OF disconnect_inv]; simp add: conn_inv_def)
qed

lemma step_inv: "conn_inv limit (fst s) \<Longrightarrow> conn_inv limit (fst (cn_step hooks s e))"
proof (cases e)
  case CnEvTask
  assume inv: "conn_inv limit (fst s)"
  show ?thesis
  proof (cases "cn_strand (fst s)")
    case (Cons t ts)
    let ?s = "((fst s)\<lparr>cn_strand := ts\<rparr>, snd s)"
    show ?thesis
    proof (cases t)
      case CnFinalize
      have "conn_inv limit (cn_finalize (fst ?s))"
        using inv by (auto simp: conn_inv_def cn_finalize_def Cons CnFinalize dest!: cn_stop_ok_finalize intro: finalize_inv)
      then show ?thesis by (simp add: CnEvTask Cons CnFinalize finalize_stop_def disconnect_inv)
    next
      case CnStart
      then have "conn_inv limit (fst ?s)" using inv by (simp add: conn_inv_def cn_stop_ok_other Cons)
      then show ?thesis
        by (simp add: CnEvTask Cons CnStart start_task_def Let_def read_loop_def conn_inv_reads connect_inv)
    next
      case (CnSend payload)
      then have "conn_inv limit (fst ?s)" using inv by (simp add: conn_inv_def cn_stop_ok_other Cons)
      then show ?thesis using send_task_inv [of limit ?s payload] by (simp add: CnEvTask Cons CnSend)
    qed
  qed (use inv in \<open>simp add: CnEvTask\<close>)
next
  case (CnEvRead result)
  assume "conn_inv limit (fst s)"
  then have "conn_inv limit (fst ((fst s)\<lparr>cn_reads := cn_reads (fst s) - 1\<rparr>, snd s))" by (simp add: conn_inv_reads)
  with \<open>conn_inv limit (fst s)\<close> show ?thesis
    by (auto simp: CnEvRead handle_read_def Let_def read_loop_def conn_inv_reads stop_inv read_inv split: option.split)
next
  case (CnEvWritten ok)
  assume "conn_inv limit (fst s)"
  then show ?thesis
    using handle_write_inv [of limit s] by (simp add: CnEvWritten split: list.split)
qed (simp_all add: Connection_start_inv Connection_async_send_inv stop_inv)

end

sublocale connection_hooks \<subseteq> machine: invariant_machine "cn_step hooks" "\<lambda>s. conn_inv limit (fst s)"
  by unfold_locales (rule step_inv)

lemma Connection_init_inv: "conn_inv limit (Connection_init limit)"
  by (simp add: conn_inv_def Connection_init_def cn_queue_ok_def cn_stop_ok_def)

text \<open>The class itself: all its virtual functions are empty.\<close>

definition plain_hooks :: "(Connection, unit) hooks" where
  "plain_hooks = \<lparr>hk_on_connect = (\<lambda>s. s), hk_on_disconnect = (\<lambda>s. s), hk_on_read = (\<lambda>_ s. s)\<rparr>"

interpretation plain: connection_hooks plain_hooks
  by unfold_locales (simp_all add: plain_hooks_def)

end
