(* ===== verification/Gateway_Connection.thy ===== *)
theory Gateway_Connection
  imports Connection Utf8 Game_Opcodes Text
begin

text \<open>
  \<open>GatewayConnection\<close> (\<^verbatim>\<open>gateway/src/gateway_connection.cpp\<close>), the client's side of the gateway: it collects the
  first bytes of a client until they hold a complete login frame, answering PINGs on the way, authenticates the login,
  opens a backend connection and from then on hands the client's bytes to the backend untouched. The record
  extends \<open>Connection\<close>, and the virtual functions are hooks of it. What the class calls in \<open>GatewayApp\<close> and in the
  pluggable authenticator is a record of operations over the application state; \<open>last_auth_result_\<close> is only logged.
\<close>

section \<open>Data\<close>

record AuthRequest =
  ar_client_id :: string
  ar_token :: string
  ar_remote_address :: string

record AuthResult =
  au_success :: bool
  au_subject :: string
  au_failure_reason :: string

datatype IngressAdmission = kAccept | kRejectNotReady | kRejectRateLimited | kRejectSessionLimit | kRejectCircuitOpen

datatype Phase = kWaitingForLogin | kBridging

record GatewayConnection = Connection +
  gw_session_id :: string
  gw_client_id :: string
  gw_remote_ip :: string
  gw_backend :: "string option"
  gw_closing :: bool
  gw_phase :: Phase
  gw_deadline :: bool
  gw_prebuffer :: bytes

text \<open>
  The operations of the application, over its state. \<open>go_send\<close> hands bytes to the backend connection of a session and
  tells whether its queue overflowed, in which case that connection calls \<open>handle_backend_close\<close> before it returns.
\<close>

record 'app gateway_ops =
  go_admit :: "'app \<Rightarrow> IngressAdmission \<times> 'app"
  go_record_accept :: "'app \<Rightarrow> 'app"
  go_remote_ip :: "string option"
  go_authenticate :: "(AuthRequest \<Rightarrow> AuthResult) option"
  go_allow_anonymous :: bool
  go_create_backend :: "string \<Rightarrow> 'app \<Rightarrow> string option \<times> 'app"
  go_close_backend :: "string \<Rightarrow> 'app \<Rightarrow> 'app"
  go_ticket :: "string \<Rightarrow> 'app \<Rightarrow> bytes option \<times> 'app"
  go_send :: "string \<Rightarrow> bytes \<Rightarrow> 'app \<Rightarrow> bool \<times> 'app"

type_synonym 'app gateway_state = "GatewayConnection \<times> 'app"

abbreviation (input) MSG_PONG :: u16 where "MSG_PONG \<equiv> 0x0003"

definition make_control_frame :: "PacketHeader \<Rightarrow> u16 \<Rightarrow> bytes \<Rightarrow> bytes" where
  "make_control_frame header msg_id payload =
     frame_of msg_id (hdr_flags header) payload (hdr_seq header) (hdr_utc_ts_ms32 header)"

section \<open>Closing\<close>

definition gw_on_disconnect :: "'app gateway_ops \<Rightarrow> 'app gateway_state \<Rightarrow> 'app gateway_state" where
  "gw_on_disconnect ops s =
     (let c = (fst s)\<lparr>gw_closing := True, gw_deadline := False\<rparr>;
          a = (if gw_session_id c \<noteq> [] then go_close_backend ops (gw_session_id c) (snd s) else snd s)
      in (c\<lparr>gw_backend := None\<rparr>, a))"

abbreviation gw_stop :: "'app gateway_ops \<Rightarrow> bool \<Rightarrow> 'app gateway_state \<Rightarrow> 'app gateway_state" where
  "gw_stop ops on_strand s \<equiv> Connection_stop (gw_on_disconnect ops) on_strand s"

definition handle_backend_close :: "'app gateway_ops \<Rightarrow> bool \<Rightarrow> 'app gateway_state \<Rightarrow> 'app gateway_state" where
  "handle_backend_close ops on_strand s =
     (if gw_closing (fst s) then s else gw_stop ops on_strand ((fst s)\<lparr>gw_closing := True\<rparr>, snd s))"

definition handle_backend_payload :: "bytes \<Rightarrow> GatewayConnection \<Rightarrow> GatewayConnection" where
  "handle_backend_payload payload c =
     (if payload = [] \<or> gw_closing c then c else Connection_async_send payload c)"

section \<open>Handshake\<close>

definition start_handshake_deadline :: "GatewayConnection \<Rightarrow> GatewayConnection" where
  "start_handshake_deadline c = c\<lparr>gw_deadline := True\<rparr>"

definition gw_on_connect :: "'app gateway_ops \<Rightarrow> 'app gateway_state \<Rightarrow> 'app gateway_state" where
  "gw_on_connect ops s =
     (case go_admit ops (snd s) of (admission, a) \<Rightarrow>
        if admission \<noteq> kAccept then gw_stop ops True (fst s, a)
        else
          (start_handshake_deadline
             ((fst s)\<lparr>gw_remote_ip := (case go_remote_ip ops of None \<Rightarrow> [] | Some ip \<Rightarrow> ip),
                      gw_phase := kWaitingForLogin, gw_prebuffer := []\<rparr>),
           go_record_accept ops a))"

text \<open>The timer's handler runs outside the strand.\<close>

definition on_handshake_deadline :: "'app gateway_ops \<Rightarrow> 'app gateway_state \<Rightarrow> 'app gateway_state" where
  "on_handshake_deadline ops s =
     (let c = fst s in
      if \<not> gw_deadline c then s
      else
        let s = (c\<lparr>gw_deadline := False\<rparr>, snd s) in
        if gw_closing c \<or> cn_stopped c then s
        else if gw_phase c = kWaitingForLogin then gw_stop ops False s
        else s)"

definition send_to_backend :: "'app gateway_ops \<Rightarrow> bytes \<Rightarrow> 'app gateway_state \<Rightarrow> 'app gateway_state" where
  "send_to_backend ops payload s =
     (case gw_backend (fst s) of
        None \<Rightarrow> s
      | Some sid \<Rightarrow>
          (case go_send ops sid payload (snd s) of (overflow, a) \<Rightarrow>
             if overflow then handle_backend_close ops True (fst s, a) else (fst s, a)))"

definition open_backend_connection :: "'app gateway_ops \<Rightarrow> 'app gateway_state \<Rightarrow> 'app gateway_state" where
  "open_backend_connection ops s =
     (if gw_backend (fst s) \<noteq> None then s
      else
        let c = (if gw_client_id (fst s) = [] then (fst s)\<lparr>gw_client_id := ''anonymous''\<rparr> else fst s) in
        case go_create_backend ops (gw_client_id c) (snd s) of
          (None, a) \<Rightarrow> gw_stop ops True (c, a)
        | (Some sid, a) \<Rightarrow> (c\<lparr>gw_backend := Some sid, gw_session_id := sid\<rparr>, a))"

definition authenticate :: "'app gateway_ops \<Rightarrow> AuthRequest \<Rightarrow> AuthResult" where
  "authenticate ops request =
     (case go_authenticate ops of
        Some auth \<Rightarrow> auth request
      | None \<Rightarrow> \<lparr>au_success = True,
                 au_subject = (if ar_client_id request = [] then ''anonymous'' else ar_client_id request),
                 au_failure_reason = []\<rparr>)"

definition login_routing_key :: "AuthRequest \<Rightarrow> AuthResult \<Rightarrow> string" where
  "login_routing_key request result =
     (let key = (if ar_client_id request \<noteq> [] then ar_client_id request else au_subject result)
      in if key = [] \<or> key = ''guest'' then ''anonymous'' else key)"

definition queue_ticket :: "bytes option \<Rightarrow> GatewayConnection \<Rightarrow> GatewayConnection" where
  "queue_ticket ticket c = (case ticket of None \<Rightarrow> c | Some frame \<Rightarrow> Connection_async_send frame c)"

text \<open>A login frame of which the payload is given; \<open>prebuffer\<close> is handed to the backend whole.\<close>

definition accept_login :: "'app gateway_ops \<Rightarrow> string \<Rightarrow> 'app gateway_state \<Rightarrow> 'app gateway_state" where
  "accept_login ops routing_key s =
     (let s = open_backend_connection ops ((fst s)\<lparr>gw_client_id := routing_key\<rparr>, snd s) in
      if gw_backend (fst s) = None then gw_stop ops True s
      else
        let (ticket, a) = go_ticket ops (gw_session_id (fst s)) (snd s);
            c = (queue_ticket ticket (fst s))\<lparr>gw_deadline := False\<rparr>;
            s = send_to_backend ops (gw_prebuffer c) (c\<lparr>gw_prebuffer := []\<rparr>, a)
        in ((fst s)\<lparr>gw_phase := kBridging\<rparr>, snd s))"

definition finish_login :: "'app gateway_ops \<Rightarrow> bytes \<Rightarrow> 'app gateway_state \<Rightarrow> 'app gateway_state" where
  "finish_login ops payload s =
     (case read_lp_utf8 payload of
        None \<Rightarrow> gw_stop ops True s
      | Some (user, rest) \<Rightarrow>
          (case read_lp_utf8 rest of
             None \<Rightarrow> gw_stop ops True s
           | Some (token, _) \<Rightarrow>
               let request = \<lparr>ar_client_id = bytes_string user, ar_token = bytes_string token,
                              ar_remote_address = gw_remote_ip (fst s)\<rparr>;
                   result = authenticate ops request;
                   routing_key = login_routing_key request result in
               if \<not> au_success result then gw_stop ops True s
               else if \<not> go_allow_anonymous ops \<and> (ar_token request = [] \<or> routing_key = ''anonymous'') then gw_stop ops True s
               else accept_login ops routing_key s))"

lemma async_send_gateway [simp]:
  "gw_prebuffer (Connection_async_send d c) = gw_prebuffer c" "gw_phase (Connection_async_send d c) = gw_phase c"
  "gw_session_id (Connection_async_send d c) = gw_session_id c" "gw_backend (Connection_async_send d c) = gw_backend c"
  "gw_closing (Connection_async_send d c) = gw_closing c" "cn_stopped (Connection_async_send d c) = cn_stopped c"
  "gw_remote_ip (Connection_async_send d c) = gw_remote_ip c"
  by (simp_all add: Connection_async_send_def)

lemma queue_ticket_gateway [simp]:
  "gw_prebuffer (queue_ticket t c) = gw_prebuffer c" "gw_session_id (queue_ticket t c) = gw_session_id c"
  "gw_backend (queue_ticket t c) = gw_backend c"
  by (simp_all add: queue_ticket_def split: option.split)

abbreviation (input) kMaxLoginPayloadBytes :: nat where "kMaxLoginPayloadBytes \<equiv> 32 * 1024"
abbreviation (input) kMaxHandshakeBytes :: nat where "kMaxHandshakeBytes \<equiv> 64 * 1024"

function try_finish_handshake :: "'app gateway_ops \<Rightarrow> 'app gateway_state \<Rightarrow> 'app gateway_state" where
  "try_finish_handshake ops s =
     (let c = fst s; p = gw_prebuffer c in
      if gw_phase c \<noteq> kWaitingForLogin then s
      else if length p < k_header_bytes then s
      else
        let header = decode_header p; n = unat (hdr_length header); frame_bytes = k_header_bytes + n in
        if kMaxLoginPayloadBytes < n then gw_stop ops True s
        else if length p < frame_bytes then s
        else if classify_segment_type (hdr_msg_id header) \<noteq> SegApplicationPayload then
          if hdr_msg_id header = MSG_PING then
            try_finish_handshake ops
              ((Connection_async_send (make_control_frame header MSG_PONG (take n (drop k_header_bytes p))) c)
                 \<lparr>gw_prebuffer := drop frame_bytes p\<rparr>, snd s)
          else if hdr_msg_id header = MSG_PONG then
            try_finish_handshake ops (c\<lparr>gw_prebuffer := drop frame_bytes p\<rparr>, snd s)
          else gw_stop ops True s
        else if hdr_msg_id header \<noteq> MSG_LOGIN_REQ then gw_stop ops True s
        else finish_login ops (take n (drop k_header_bytes p)) s)"
  by pat_completeness auto
termination by (relation "measure (\<lambda>(ops, s). length (gw_prebuffer (fst s)))") auto

declare try_finish_handshake.simps [simp del]

section \<open>Reading\<close>

definition gw_on_read :: "'app gateway_ops \<Rightarrow> bytes \<Rightarrow> 'app gateway_state \<Rightarrow> 'app gateway_state" where
  "gw_on_read ops data s =
     (let c = fst s in
      if data = [] then s
      else if gw_phase c = kWaitingForLogin then
        if kMaxHandshakeBytes < length (gw_prebuffer c) + length data then gw_stop ops True s
        else try_finish_handshake ops (c\<lparr>gw_prebuffer := gw_prebuffer c @ data\<rparr>, snd s)
      else if gw_backend c = None then s
      else send_to_backend ops data s)"

definition gateway_hooks :: "'app gateway_ops \<Rightarrow> (GatewayConnection, 'app) hooks" where
  "gateway_hooks ops =
     \<lparr>hk_on_connect = gw_on_connect ops, hk_on_disconnect = gw_on_disconnect ops, hk_on_read = gw_on_read ops\<rparr>"

definition GatewayConnection_init :: GatewayConnection where
  "GatewayConnection_init =
     \<lparr>cn_stopped = False, cn_socket_open = True, cn_write_queue = [], cn_queued_bytes = 0,
      cn_send_queue_max_bytes = 256 * 1024, cn_strand = [], cn_reads = 0, cn_writes = [],
      cn_accepted = [], cn_written = [], cn_disconnects = 0, gw_session_id = [], gw_client_id = [], gw_remote_ip = [],
      gw_backend = None, gw_closing = False, gw_phase = kWaitingForLogin, gw_deadline = False, gw_prebuffer = []\<rparr>"

datatype gw_event = GwTransport cn_event | GwBackendPayload bytes | GwBackendClosed | GwDeadline

fun gw_step :: "'app gateway_ops \<Rightarrow> 'app gateway_state \<Rightarrow> gw_event \<Rightarrow> 'app gateway_state" where
  "gw_step ops s (GwTransport e) = cn_step (gateway_hooks ops) s e"
| "gw_step ops s (GwBackendPayload payload) = (handle_backend_payload payload (fst s), snd s)"
| "gw_step ops s GwBackendClosed = handle_backend_close ops False s"
| "gw_step ops s GwDeadline = on_handshake_deadline ops s"

section \<open>The accounts of the client's side\<close>

lemma conn_inv_gateway [simp]:
  "conn_inv limit (c\<lparr>gw_session_id := x\<rparr>) = conn_inv limit c" "conn_inv limit (c\<lparr>gw_client_id := x\<rparr>) = conn_inv limit c"
  "conn_inv limit (c\<lparr>gw_remote_ip := x\<rparr>) = conn_inv limit c" "conn_inv limit (c\<lparr>gw_backend := b\<rparr>) = conn_inv limit c"
  "conn_inv limit (c\<lparr>gw_closing := f\<rparr>) = conn_inv limit c" "conn_inv limit (c\<lparr>gw_phase := p\<rparr>) = conn_inv limit c"
  "conn_inv limit (c\<lparr>gw_deadline := f\<rparr>) = conn_inv limit c" "conn_inv limit (c\<lparr>gw_prebuffer := q\<rparr>) = conn_inv limit c"
  by (simp_all add: conn_inv_def)

lemma gw_on_disconnect_inv: "conn_inv limit (fst s) \<Longrightarrow> conn_inv limit (fst (gw_on_disconnect ops s))"
  by (simp add: gw_on_disconnect_def Let_def)

lemmas gw_stop_inv = Connection_stop_inv [OF gw_on_disconnect_inv]

lemma handle_backend_close_inv: "conn_inv limit (fst s) \<Longrightarrow> conn_inv limit (fst (handle_backend_close ops on_strand s))"
  by (simp add: handle_backend_close_def gw_stop_inv)

lemma send_to_backend_inv: "conn_inv limit (fst s) \<Longrightarrow> conn_inv limit (fst (send_to_backend ops payload s))"
  by (simp add: send_to_backend_def handle_backend_close_inv split: option.split prod.split)

lemma open_backend_connection_inv: "conn_inv limit (fst s) \<Longrightarrow> conn_inv limit (fst (open_backend_connection ops s))"
  by (simp add: open_backend_connection_def Let_def gw_stop_inv split: option.split prod.split)

lemma queue_ticket_inv: "conn_inv limit c \<Longrightarrow> conn_inv limit (queue_ticket ticket c)"
  by (simp add: queue_ticket_def Connection_async_send_inv split: option.split)

lemma accept_login_inv: "conn_inv limit (fst s) \<Longrightarrow> conn_inv limit (fst (accept_login ops key s))"
  by (simp add: accept_login_def Let_def split_beta gw_stop_inv send_to_backend_inv open_backend_connection_inv
      queue_ticket_inv)

lemma finish_login_inv: "conn_inv limit (fst s) \<Longrightarrow> conn_inv limit (fst (finish_login ops payload s))"
  by (simp add: finish_login_def Let_def gw_stop_inv accept_login_inv split: option.split prod.split)

lemma try_finish_handshake_inv: "conn_inv limit (fst s) \<Longrightarrow> conn_inv limit (fst (try_finish_handshake ops s))"
proof (induction ops s rule: try_finish_handshake.induct)
  case (1 ops s)
  then show ?case
    by (subst try_finish_handshake.simps)
      (simp add: Let_def gw_stop_inv finish_login_inv Connection_async_send_inv)
qed

interpretation gateway: connection_hooks "gateway_hooks ops" for ops :: "'app gateway_ops"
proof unfold_locales
  fix s :: "'app gateway_state" and data limit
  assume inv: "conn_inv limit (fst s)"
  show "conn_inv limit (fst (hk_on_connect (gateway_hooks ops) s))"
    using inv by (simp add: gateway_hooks_def gw_on_connect_def start_handshake_deadline_def gw_stop_inv split: prod.split)
  show "conn_inv limit (fst (hk_on_disconnect (gateway_hooks ops) s))"
    using inv by (simp add: gateway_hooks_def gw_on_disconnect_inv)
  show "conn_inv limit (fst (hk_on_read (gateway_hooks ops) data s))"
    using inv
    by (simp add: gateway_hooks_def gw_on_read_def Let_def gw_stop_inv try_finish_handshake_inv send_to_backend_inv)
qed

interpretation gateway_machine: invariant_machine "gw_step ops" "\<lambda>s. conn_inv limit (fst s)" for ops :: "'app gateway_ops" and limit
proof unfold_locales
  fix s :: "'app gateway_state" and e
  assume inv: "conn_inv limit (fst s)"
  show "conn_inv limit (fst (gw_step ops s e))"
  proof (cases e)
    case (GwTransport t)
    then show ?thesis using gateway.step_inv [OF inv] by simp
  qed (use inv in \<open>simp_all add: handle_backend_payload_def Connection_async_send_inv handle_backend_close_inv
        on_handshake_deadline_def Let_def gw_stop_inv\<close>)
qed

text \<open>
  C37. The gateway's client side keeps its accounts over every run, whatever the application does: the bytes written to the
  client are the accepted payloads in order, at most one write is under way, the byte counter is the sum of the queued
  payloads and never exceeds 256 KiB, and the disconnect hook runs exactly when the socket is closed, once.
\<close>

theorem gateway_client_stream:
  "let c = fst (foldl (gw_step ops) (GatewayConnection_init, a) es) in
   prefix (cn_written c) (cn_accepted c) \<and> length (cn_writes c) \<le> 1 \<and>
   cn_queued_bytes c = sum_list (map length (cn_write_queue c)) \<and> cn_queued_bytes c \<le> 256 * 1024 \<and>
   cn_disconnects c = of_bool (\<not> cn_socket_open c)"
proof -
  have "conn_inv (256 * 1024) (fst (GatewayConnection_init, a))"
    by (simp add: GatewayConnection_init_def conn_inv_def cn_queue_ok_def cn_stop_ok_def)
  from gateway_machine.run_inv [OF this, of ops es] show ?thesis
    by (auto simp: conn_inv_def cn_queue_ok_def cn_stop_ok_def Let_def dest: append_prefixD split: if_splits)
qed

end
