(* ===== verification/Gateway_Bridge.thy ===== *)
theory Gateway_Bridge
  imports Gateway_Connection
begin

text \<open>
  The gateway as a transparent proxy. What a client sends arrives in pieces of any size; the login handshake has to
  come to the same result however the bytes are cut, and everything after it has to reach the backend unchanged. The
  locale states what the connection needs of the application: that sending appends to the stream of a backend session,
  unless the session's queue overflows or it has been shut for good, and that a new session starts with an empty
  stream. Under it, in every reachable state, the bytes handed to the backend are the beginning of the bytes received so
  far without the complete PING and PONG frames they began with, all of them while both sides are up, and they
  start with a login that was accepted.
\<close>

section \<open>The specification\<close>

text \<open>The bytes without the complete PING and PONG frames at their front.\<close>

function strip_control :: "bytes \<Rightarrow> bytes" where
  "strip_control p =
     (let header = decode_header p; n = unat (hdr_length header) in
      if length p < k_header_bytes + n \<or> length p < k_header_bytes \<or> kMaxLoginPayloadBytes < n then p
      else if hdr_msg_id header = MSG_PING \<or> hdr_msg_id header = MSG_PONG then strip_control (drop (k_header_bytes + n) p)
      else p)"
  by pat_completeness auto
termination by (relation "measure length") auto

declare strip_control.simps [simp del]

text \<open>The bytes begin with a login frame that the authenticator and the anonymity rule accept.\<close>

definition login_accepted :: "'app gateway_ops \<Rightarrow> bytes \<Rightarrow> bool" where
  "login_accepted ops p \<longleftrightarrow>
     (let header = decode_header p; n = unat (hdr_length header) in
      k_header_bytes + n \<le> length p \<and> n \<le> kMaxLoginPayloadBytes \<and> hdr_msg_id header = MSG_LOGIN_REQ \<and>
      (\<exists>user rest token rest' ip request.
         read_lp_utf8 (take n (drop k_header_bytes p)) = Some (user, rest) \<and> read_lp_utf8 rest = Some (token, rest') \<and>
         request = \<lparr>ar_client_id = bytes_string user, ar_token = bytes_string token, ar_remote_address = ip\<rparr> \<and>
         au_success (authenticate ops request) \<and>
         (go_allow_anonymous ops \<or>
            token \<noteq> [] \<and> login_routing_key request (authenticate ops request) \<noteq> ''anonymous'')))"

text \<open>
  Reachable states, with the bytes received so far. The listener starts the connection once. Between the steps of
  this connection others may change the application, but not the stream of its session.
\<close>

definition gw_received :: "'app gateway_state \<Rightarrow> gw_event \<Rightarrow> bytes" where
  "gw_received s e =
     (case e of GwTransport (CnEvRead (Some data)) \<Rightarrow> if cn_reads (fst s) = 0 then [] else data | _ \<Rightarrow> [])"

inductive gw_reach ::
    "'app gateway_ops \<Rightarrow> (string \<Rightarrow> 'app \<Rightarrow> bytes) \<Rightarrow> (string \<Rightarrow> 'app \<Rightarrow> bool) \<Rightarrow> bytes \<Rightarrow> 'app gateway_state \<Rightarrow> bool"
  for ops stream shut where
  gw_start: "gw_reach ops stream shut [] (Connection_start GatewayConnection_init, a)"
| gw_event: "gw_reach ops stream shut received s \<Longrightarrow> e \<noteq> GwTransport CnEvStart \<Longrightarrow>
    gw_reach ops stream shut (received @ gw_received s e) (gw_step ops s e)"
| gw_other: "gw_reach ops stream shut received (c, a) \<Longrightarrow> stream (gw_session_id c) a' = stream (gw_session_id c) a \<Longrightarrow>
    (shut (gw_session_id c) a \<Longrightarrow> shut (gw_session_id c) a') \<Longrightarrow> gw_reach ops stream shut received (c, a')"

section \<open>Framing\<close>

lemma decode_header_more: "k_header_bytes \<le> length p \<Longrightarrow> decode_header (p @ q) = decode_header p"
  by (rule header_codec.dec_depends_on_prefix) simp_all

lemma strip_control_append: "strip_control (p @ q) = strip_control (strip_control p @ q)"
proof (induction p rule: strip_control.induct)
  case (1 p)
  let ?h = "decode_header p"
  let ?n = "unat (hdr_length ?h)"
  show ?case
  proof (cases "length p < k_header_bytes + ?n \<or> length p < k_header_bytes \<or> kMaxLoginPayloadBytes < ?n \<or>
      \<not> (hdr_msg_id ?h = MSG_PING \<or> hdr_msg_id ?h = MSG_PONG)")
    case True
    then have "strip_control p = p" by (subst strip_control.simps) (auto simp: Let_def)
    then show ?thesis by simp
  next
    case False
    then have "strip_control (p @ q) = strip_control (drop (k_header_bytes + ?n) p @ q)"
      and "strip_control p = strip_control (drop (k_header_bytes + ?n) p)"
      by (subst strip_control.simps, simp add: Let_def decode_header_more)+
    with 1 [of ?h ?n] False show ?thesis by simp
  qed
qed

lemma login_accepted_more:
  assumes "login_accepted ops p"
  shows "login_accepted ops (p @ q)" and "strip_control (p @ q) = p @ q"
proof -
  have h: "decode_header (p @ q) = decode_header p"
    using assms by (intro decode_header_more) (auto simp: login_accepted_def Let_def)
  then show "strip_control (p @ q) = p @ q"
    using assms by (subst strip_control.simps) (auto simp: login_accepted_def Let_def)
  have "take (unat (hdr_length (decode_header p))) (drop k_header_bytes (p @ q)) =
      take (unat (hdr_length (decode_header p))) (drop k_header_bytes p)"
    using assms by (auto simp: login_accepted_def Let_def)
  with h assms show "login_accepted ops (p @ q)"
    by (simp add: login_accepted_def Let_def)
qed

section \<open>The state and the bytes received\<close>

text \<open>No session yet, or a session whose stream the received bytes account for.\<close>

definition stream_ok :: "'app gateway_ops \<Rightarrow> (string \<Rightarrow> 'app \<Rightarrow> bytes) \<Rightarrow> bytes \<Rightarrow> string \<Rightarrow> 'app \<Rightarrow> bool" where
  "stream_ok ops stream received sid a \<longleftrightarrow>
     sid = [] \<or> prefix (stream sid a) (strip_control received) \<and> login_accepted ops (strip_control received)"

text \<open>While reads are to come the handshake buffer, or the stream of a backend that is up, is up to date.\<close>

definition alive_ok :: "(string \<Rightarrow> 'app \<Rightarrow> bytes) \<Rightarrow> (string \<Rightarrow> 'app \<Rightarrow> bool) \<Rightarrow> bytes \<Rightarrow> 'app gateway_state \<Rightarrow> bool" where
  "alive_ok stream shut received s \<longleftrightarrow>
     (if gw_phase (fst s) = kWaitingForLogin then
        gw_session_id (fst s) = [] \<and> gw_backend (fst s) = None \<and> gw_prebuffer (fst s) = strip_control received
      else
        gw_session_id (fst s) \<noteq> [] \<and>
        (gw_backend (fst s) = None \<or>
         gw_backend (fst s) = Some (gw_session_id (fst s)) \<and>
           (shut (gw_session_id (fst s)) (snd s) \<or> stream (gw_session_id (fst s)) (snd s) = strip_control received)))"

text \<open>The connection closes, and finalises, only once it is stopped.\<close>

definition stop_ok :: "GatewayConnection \<Rightarrow> bool" where
  "stop_ok c \<longleftrightarrow> (gw_closing c \<or> CnFinalize \<in> set (cn_strand c) \<longrightarrow> cn_stopped c)"

text \<open>Outstanding reads and pending starts: one read loop, and before it starts nothing has been received.\<close>

definition cn_loops :: "'x Connection_scheme \<Rightarrow> nat \<times> nat" where
  "cn_loops c = (cn_reads c, count_list (cn_strand c) CnStart)"

definition reads_ok :: "bytes \<Rightarrow> GatewayConnection \<Rightarrow> bool" where
  "reads_ok received c \<longleftrightarrow>
     fst (cn_loops c) + snd (cn_loops c) \<le> 1 \<and>
     (0 < snd (cn_loops c) \<longrightarrow>
        received = [] \<and> gw_phase c = kWaitingForLogin \<and> gw_session_id c = [] \<and> gw_backend c = None \<and> gw_prebuffer c = [])"

definition bridge_ok ::
    "'app gateway_ops \<Rightarrow> (string \<Rightarrow> 'app \<Rightarrow> bytes) \<Rightarrow> (string \<Rightarrow> 'app \<Rightarrow> bool) \<Rightarrow> bytes \<Rightarrow> 'app gateway_state \<Rightarrow> bool" where
  "bridge_ok ops stream shut received s \<longleftrightarrow>
     reads_ok received (fst s) \<and> stream_ok ops stream received (gw_session_id (fst s)) (snd s) \<and>
     (0 < cn_reads (fst s) \<longrightarrow> alive_ok stream shut received s)"

text \<open>A step that reads nothing, sends nothing and at most closes the backend.\<close>

definition calm ::
    "(string \<Rightarrow> 'app \<Rightarrow> bytes) \<Rightarrow> (string \<Rightarrow> 'app \<Rightarrow> bool) \<Rightarrow> 'app gateway_state \<Rightarrow> 'app gateway_state \<Rightarrow> bool" where
  "calm stream shut s s' \<longleftrightarrow>
     cn_loops (fst s') = cn_loops (fst s) \<and> gw_session_id (fst s') = gw_session_id (fst s) \<and>
     gw_phase (fst s') = gw_phase (fst s) \<and> gw_prebuffer (fst s') = gw_prebuffer (fst s) \<and>
     gw_backend (fst s') \<in> {None, gw_backend (fst s)} \<and>
     stream (gw_session_id (fst s)) (snd s') = stream (gw_session_id (fst s)) (snd s) \<and>
     (shut (gw_session_id (fst s)) (snd s) \<longrightarrow> shut (gw_session_id (fst s)) (snd s'))"

lemma bridge_ok_calm:
  assumes "bridge_ok ops stream shut received s" and "calm stream shut s s'"
  shows "bridge_ok ops stream shut received s'"
proof -
  have "reads_ok received (fst s')" using assms by (auto simp: bridge_ok_def reads_ok_def calm_def)
  moreover have "stream_ok ops stream received (gw_session_id (fst s')) (snd s')"
    using assms by (simp add: bridge_ok_def stream_ok_def calm_def)
  moreover have "alive_ok stream shut received s'" if "alive_ok stream shut received s"
    using that assms(2) by (cases "gw_phase (fst s)") (auto simp: alive_ok_def calm_def Let_def)
  moreover have "cn_reads (fst s') = cn_reads (fst s)" using assms(2) by (simp add: calm_def cn_loops_def)
  ultimately show ?thesis using assms(1) by (simp add: bridge_ok_def)
qed

lemma calm_same [intro]:
  "cn_loops (fst s') = cn_loops (fst s) \<Longrightarrow>
   gw_session_id (fst s') = gw_session_id (fst s) \<Longrightarrow> gw_phase (fst s') = gw_phase (fst s) \<Longrightarrow>
   gw_prebuffer (fst s') = gw_prebuffer (fst s) \<Longrightarrow> gw_backend (fst s') = gw_backend (fst s) \<Longrightarrow> snd s' = snd s \<Longrightarrow>
   calm stream shut s s'"
  by (simp add: calm_def)

text \<open>The hooks leave the read loop alone.\<close>

lemma cn_loops_update [simp]:
  "cn_loops (c\<lparr>gw_session_id := x\<rparr>) = cn_loops c" "cn_loops (c\<lparr>gw_client_id := x\<rparr>) = cn_loops c"
  "cn_loops (c\<lparr>gw_remote_ip := x\<rparr>) = cn_loops c" "cn_loops (c\<lparr>gw_backend := b\<rparr>) = cn_loops c"
  "cn_loops (c\<lparr>gw_closing := f\<rparr>) = cn_loops c" "cn_loops (c\<lparr>gw_phase := ph\<rparr>) = cn_loops c"
  "cn_loops (c\<lparr>gw_deadline := f\<rparr>) = cn_loops c" "cn_loops (c\<lparr>gw_prebuffer := q\<rparr>) = cn_loops c"
  by (simp_all add: cn_loops_def)

lemma cn_loops_send [simp]: "cn_loops (Connection_async_send d c) = cn_loops c"
  by (simp add: cn_loops_def Connection_async_send_def)

lemma cn_loops_disconnect [simp]: "cn_loops (fst (gw_on_disconnect ops s)) = cn_loops (fst s)"
  by (simp add: gw_on_disconnect_def Let_def)

lemma cn_loops_finalize [simp]: "cn_loops (cn_finalize c) = cn_loops c"
  by (simp add: cn_loops_def cn_finalize_def)

lemma cn_loops_stop [simp]: "cn_loops (fst (gw_stop ops b s)) = cn_loops (fst s)"
  by (simp add: Connection_stop_def finalize_stop_def Let_def) (simp add: cn_loops_def cn_finalize_def)

lemma cn_loops_close [simp]: "cn_loops (fst (handle_backend_close ops b s)) = cn_loops (fst s)"
  by (simp add: handle_backend_close_def)

lemma cn_loops_to_backend [simp]: "cn_loops (fst (send_to_backend ops data s)) = cn_loops (fst s)"
  by (simp add: send_to_backend_def split: option.split prod.split)

lemma cn_loops_open [simp]: "cn_loops (fst (open_backend_connection ops s)) = cn_loops (fst s)"
  by (simp add: open_backend_connection_def Let_def split: option.split prod.split)

lemma cn_loops_ticket [simp]: "cn_loops (queue_ticket ticket c) = cn_loops c"
  by (simp add: queue_ticket_def split: option.split)

lemma cn_loops_accept [simp]: "cn_loops (fst (accept_login ops key s)) = cn_loops (fst s)"
  by (simp add: accept_login_def Let_def split_beta)

lemma cn_loops_finish [simp]: "cn_loops (fst (finish_login ops payload s)) = cn_loops (fst s)"
  by (simp add: finish_login_def Let_def split: option.split prod.split)

lemma cn_loops_handshake [simp]: "cn_loops (fst (try_finish_handshake ops s)) = cn_loops (fst s)"
proof (induction ops s rule: try_finish_handshake.induct)
  case (1 ops s)
  then show ?case by (subst try_finish_handshake.simps) (simp add: Let_def)
qed

lemma cn_loops_on_read [simp]: "cn_loops (fst (gw_on_read ops data s)) = cn_loops (fst s)"
  by (simp add: gw_on_read_def Let_def)

lemma cn_loops_on_connect [simp]: "cn_loops (fst (gw_on_connect ops s)) = cn_loops (fst s)"
  by (simp add: gw_on_connect_def start_handshake_deadline_def split: prod.split)

text \<open>Closing goes with stopping, whatever the application does.\<close>

lemma stop_ok_stopped [intro]: "cn_stopped c \<Longrightarrow> stop_ok c"
  by (simp add: stop_ok_def)

lemma stop_ok_update [simp]:
  "stop_ok (c\<lparr>gw_session_id := x\<rparr>) = stop_ok c" "stop_ok (c\<lparr>gw_client_id := x\<rparr>) = stop_ok c"
  "stop_ok (c\<lparr>gw_remote_ip := x\<rparr>) = stop_ok c" "stop_ok (c\<lparr>gw_backend := b\<rparr>) = stop_ok c"
  "stop_ok (c\<lparr>gw_phase := ph\<rparr>) = stop_ok c" "stop_ok (c\<lparr>gw_deadline := f\<rparr>) = stop_ok c"
  "stop_ok (c\<lparr>gw_prebuffer := q\<rparr>) = stop_ok c" "stop_ok (c\<lparr>cn_reads := k\<rparr>) = stop_ok c"
  "stop_ok (c\<lparr>cn_writes := ws\<rparr>) = stop_ok c" "stop_ok (c\<lparr>cn_written := ws\<rparr>) = stop_ok c"
  "stop_ok (c\<lparr>cn_write_queue := ws\<rparr>) = stop_ok c" "stop_ok (c\<lparr>cn_queued_bytes := k\<rparr>) = stop_ok c"
  "stop_ok (c\<lparr>cn_accepted := ws\<rparr>) = stop_ok c"
  by (simp_all add: stop_ok_def)

lemma disconnect_stopped [simp]: "cn_stopped (fst (gw_on_disconnect ops s)) = cn_stopped (fst s)"
  by (simp add: gw_on_disconnect_def Let_def)

lemma finalize_stopped [simp]: "cn_stopped (fst (finalize_stop (gw_on_disconnect ops) s)) = cn_stopped (fst s)"
  by (simp add: finalize_stop_def cn_finalize_def)

lemma stop_stopped [simp]: "cn_stopped (fst (gw_stop ops b s))"
  by (simp add: Connection_stop_def Let_def)

lemma stop_ok_stop [simp]: "stop_ok (fst (gw_stop ops b s))"
  by (intro stop_ok_stopped) simp

lemma close_stopped: "stop_ok (fst s) \<Longrightarrow> cn_stopped (fst (handle_backend_close ops b s))"
  by (auto simp: handle_backend_close_def stop_ok_def)

lemma stop_ok_send [simp]: "stop_ok (Connection_async_send d c) = stop_ok c"
  by (auto simp: Connection_async_send_def stop_ok_def)

lemma stop_ok_start: "stop_ok c \<Longrightarrow> stop_ok (Connection_start c)"
  by (auto simp: Connection_start_def stop_ok_def)

lemma stop_ok_to_backend: "stop_ok (fst s) \<Longrightarrow> stop_ok (fst (send_to_backend ops data s))"
  by (auto simp: send_to_backend_def close_stopped split: option.split prod.split)

lemma stop_ok_ticket [simp]: "stop_ok (queue_ticket ticket c) = stop_ok c"
  by (simp add: queue_ticket_def split: option.split)

lemma stop_ok_open: "stop_ok (fst s) \<Longrightarrow> stop_ok (fst (open_backend_connection ops s))"
  by (simp add: open_backend_connection_def Let_def split: option.split prod.split)

lemma stop_ok_accept: "stop_ok (fst s) \<Longrightarrow> stop_ok (fst (accept_login ops key s))"
  by (simp add: accept_login_def Let_def split_beta stop_ok_to_backend stop_ok_open)

lemma stop_ok_finish: "stop_ok (fst s) \<Longrightarrow> stop_ok (fst (finish_login ops payload s))"
  by (simp add: finish_login_def Let_def stop_ok_accept split: option.split prod.split)

lemma stop_ok_handshake: "stop_ok (fst s) \<Longrightarrow> stop_ok (fst (try_finish_handshake ops s))"
proof (induction ops s rule: try_finish_handshake.induct)
  case (1 ops s)
  then show ?case by (subst try_finish_handshake.simps) (simp add: Let_def stop_ok_finish)
qed

lemma stop_ok_read: "stop_ok (fst s) \<Longrightarrow> stop_ok (fst (gw_on_read ops data s))"
  by (simp add: gw_on_read_def Let_def stop_ok_handshake stop_ok_to_backend)

lemma stop_ok_connect: "stop_ok (fst s) \<Longrightarrow> stop_ok (fst (gw_on_connect ops s))"
  by (simp add: gw_on_connect_def start_handshake_deadline_def split: prod.split)

lemma stop_ok_tail: "stop_ok c \<Longrightarrow> cn_strand c = t # ts \<Longrightarrow> stop_ok (c\<lparr>cn_strand := ts\<rparr>)"
  by (simp add: stop_ok_def)

lemma stop_ok_transport:
  assumes "stop_ok (fst s)"
  shows "stop_ok (fst (cn_step (gateway_hooks ops) s e))"
proof (cases e)
  case CnEvTask
  show ?thesis
  proof (cases "cn_strand (fst s)")
    case (Cons task ts)
    note tail = stop_ok_tail [OF assms Cons]
    show ?thesis
    proof (cases task)
      case CnFinalize
      then have "cn_stopped (fst s)" using assms Cons by (simp add: stop_ok_def)
      then show ?thesis using CnEvTask Cons CnFinalize by (auto simp: gateway_hooks_def)
    qed (use CnEvTask Cons tail in \<open>simp_all add: gateway_hooks_def start_task_def send_task_def Let_def read_loop_def stop_ok_connect
          cn_do_write_def split: list.split\<close>)
  qed (use assms CnEvTask in simp)
qed (use assms in \<open>simp_all add: gateway_hooks_def handle_read_def handle_write_def Let_def read_loop_def stop_ok_read cn_do_write_def
      stop_ok_start split: option.split list.split\<close>)

lemma stop_ok_step: "stop_ok (fst s) \<Longrightarrow> stop_ok (fst (gw_step ops s e))"
  by (cases e) (auto simp: stop_ok_transport handle_backend_payload_def close_stopped on_handshake_deadline_def Let_def)

lemma stop_ok_reachable: "gw_reach ops stream shut received s \<Longrightarrow> stop_ok (fst s)"
  by (induction rule: gw_reach.induct)
    (auto simp: stop_ok_step Connection_start_def GatewayConnection_init_def, simp_all add: stop_ok_def)

section \<open>What a connection needs of the application\<close>

locale backend_streams =
  fixes ops :: "'app gateway_ops" and stream :: "string \<Rightarrow> 'app \<Rightarrow> bytes" and shut :: "string \<Rightarrow> 'app \<Rightarrow> bool"
  assumes send_effect: "go_send ops sid data a = (overflow, a') \<Longrightarrow>
      \<not> overflow \<and> stream sid a' = stream sid a @ data \<or> (overflow \<or> shut sid a') \<and> stream sid a' = stream sid a"
    and send_shut: "shut sid a \<Longrightarrow> shut sid (snd (go_send ops sid data a)) \<and> stream sid (snd (go_send ops sid data a)) = stream sid a"
    and create_fresh: "go_create_backend ops client a = (Some sid, a') \<Longrightarrow> sid \<noteq> [] \<and> stream sid a' = []"
    and ticket_keeps: "stream sid (snd (go_ticket ops sid' a)) = stream sid a"
    and close_keeps: "stream sid (go_close_backend ops sid' a) = stream sid a"
    and close_shut: "shut sid a \<Longrightarrow> shut sid (go_close_backend ops sid' a)"
begin

lemma on_disconnect_session [simp]:
  "gw_session_id (fst (gw_on_disconnect ops s)) = gw_session_id (fst s)"
  "stream sid (snd (gw_on_disconnect ops s)) = stream sid (snd s)"
  "gw_phase (fst (gw_on_disconnect ops s)) = gw_phase (fst s)"
  "gw_prebuffer (fst (gw_on_disconnect ops s)) = gw_prebuffer (fst s)"
  "gw_backend (fst (gw_on_disconnect ops s)) = None"
  "shut sid (snd s) \<Longrightarrow> shut sid (snd (gw_on_disconnect ops s))"
  by (simp_all add: gw_on_disconnect_def Let_def close_keeps close_shut)

lemma stop_session [simp]:
  "gw_session_id (fst (gw_stop ops b s)) = gw_session_id (fst s)"
  "stream sid (snd (gw_stop ops b s)) = stream sid (snd s)"
  "gw_phase (fst (gw_stop ops b s)) = gw_phase (fst s)"
  "gw_prebuffer (fst (gw_stop ops b s)) = gw_prebuffer (fst s)"
  "shut sid (snd s) \<Longrightarrow> shut sid (snd (gw_stop ops b s))"
  by (simp_all add: Connection_stop_def finalize_stop_def cn_finalize_def Let_def)

lemma stop_backend: "gw_backend (fst (gw_stop ops b s)) \<in> {None, gw_backend (fst s)}"
  by (simp add: Connection_stop_def finalize_stop_def Let_def)

lemma close_session [simp]:
  "gw_session_id (fst (handle_backend_close ops b s)) = gw_session_id (fst s)"
  "stream sid (snd (handle_backend_close ops b s)) = stream sid (snd s)"
  "gw_phase (fst (handle_backend_close ops b s)) = gw_phase (fst s)"
  "gw_prebuffer (fst (handle_backend_close ops b s)) = gw_prebuffer (fst s)"
  "shut sid (snd s) \<Longrightarrow> shut sid (snd (handle_backend_close ops b s))"
  by (simp_all add: handle_backend_close_def)

lemma close_backend: "gw_backend (fst (handle_backend_close ops b s)) \<in> {None, gw_backend (fst s)}"
  using stop_backend [of b "((fst s)\<lparr>gw_closing := True\<rparr>, snd s)"] by (simp add: handle_backend_close_def)

text \<open>Data handed to the backend arrives, or the connection is stopped, or the backend is shut.\<close>

lemma send_session:
  assumes "gw_backend (fst s) = Some sid" and "stop_ok (fst s)" and t_def: "t = send_to_backend ops data s"
  shows "stream sid (snd t) = stream sid (snd s) @ data \<or>
      stream sid (snd t) = stream sid (snd s) \<and> (cn_stopped (fst t) \<or> shut sid (snd t))"
    and "gw_session_id (fst t) = gw_session_id (fst s)"
    and "gw_phase (fst t) = gw_phase (fst s)"
    and "gw_backend (fst t) \<in> {None, Some sid}"
    and "shut sid (snd s) \<Longrightarrow> shut sid (snd t) \<and> stream sid (snd t) = stream sid (snd s)"
proof -
  obtain overflow a where send: "go_send ops sid data (snd s) = (overflow, a)" by (cases "go_send ops sid data (snd s)")
  have t: "t = (if overflow then handle_backend_close ops True (fst s, a) else (fst s, a))"
    using assms(1) send by (simp add: t_def send_to_backend_def)
  show "stream sid (snd t) = stream sid (snd s) @ data \<or>
      stream sid (snd t) = stream sid (snd s) \<and> (cn_stopped (fst t) \<or> shut sid (snd t))"
    using send_effect [OF send] close_stopped [of "(fst s, a)" ops True] assms(2) by (auto simp: t)
  show "gw_session_id (fst t) = gw_session_id (fst s)" "gw_phase (fst t) = gw_phase (fst s)" by (simp_all add: t)
  show "gw_backend (fst t) \<in> {None, Some sid}" using close_backend [of True "(fst s, a)"] assms(1) by (auto simp: t)
  show "shut sid (snd s) \<Longrightarrow> shut sid (snd t) \<and> stream sid (snd t) = stream sid (snd s)" using send_shut [of sid "snd s" data] send by (simp add: t)
qed

lemma accept_login_result:
  assumes "gw_session_id (fst s) = []" and "gw_backend (fst s) = None" and "stop_ok (fst s)"
    and s'_def: "s' = accept_login ops key s"
  shows "cn_stopped (fst s') \<and> gw_session_id (fst s') = [] \<or>
    gw_phase (fst s') = kBridging \<and> gw_session_id (fst s') \<noteq> [] \<and>
    gw_backend (fst s') \<in> {None, Some (gw_session_id (fst s'))} \<and>
    (stream (gw_session_id (fst s')) (snd s') = gw_prebuffer (fst s) \<or>
     stream (gw_session_id (fst s')) (snd s') = [] \<and> (cn_stopped (fst s') \<or> shut (gw_session_id (fst s')) (snd s')))"
proof -
  let ?c = "(fst s)\<lparr>gw_client_id := if key = [] then ''anonymous'' else key\<rparr>"
  obtain r a where create: "go_create_backend ops (gw_client_id ?c) (snd s) = (r, a)" by (cases "go_create_backend ops (gw_client_id ?c) (snd s)")
  show ?thesis
  proof (cases r)
    case None
    have "open_backend_connection ops ((fst s)\<lparr>gw_client_id := key\<rparr>, snd s) = gw_stop ops True (?c, a)"
      using create None assms(2) by (cases "key = []") (simp_all add: open_backend_connection_def)
    moreover have "gw_backend (fst (gw_stop ops True (?c, a))) = None"
      using stop_backend [of True "(?c, a)"] assms(2) by simp
    ultimately have "s' = gw_stop ops True (gw_stop ops True (?c, a))" by (simp add: s'_def accept_login_def Let_def)
    then show ?thesis using assms(1) by simp
  next
    case (Some sid)
    have opened: "open_backend_connection ops ((fst s)\<lparr>gw_client_id := key\<rparr>, snd s) =
        (?c\<lparr>gw_backend := Some sid, gw_session_id := sid\<rparr>, a)"
      using create Some assms(2) by (cases "key = []") (simp_all add: open_backend_connection_def)
    have fresh: "sid \<noteq> []" "stream sid a = []" using create_fresh create Some by auto
    let ?c' = "?c\<lparr>gw_backend := Some sid, gw_session_id := sid\<rparr>"
    define c where "c = (queue_ticket (fst (go_ticket ops sid a)) ?c')\<lparr>gw_deadline := False, gw_prebuffer := []\<rparr>"
    have c: "gw_backend c = Some sid" "gw_session_id c = sid" "stop_ok c" using assms(3) by (simp_all add: c_def)
    define t where "t = send_to_backend ops (gw_prebuffer (fst s)) (c, snd (go_ticket ops sid a))"
    have "s' = ((fst t)\<lparr>gw_phase := kBridging\<rparr>, snd t)"
      unfolding s'_def accept_login_def opened by (simp add: Let_def split_beta c_def t_def)
    then show ?thesis
      using send_session [OF _ _ t_def, of sid] c fresh by (auto simp: ticket_keeps)
  qed
qed

text \<open>The three ways the handshake can stand after some bytes.\<close>

definition handshake_outcome :: "bytes \<Rightarrow> 'app gateway_state \<Rightarrow> bool" where
  "handshake_outcome p s \<longleftrightarrow>
     cn_stopped (fst s) \<and> gw_session_id (fst s) = [] \<or>
     gw_phase (fst s) = kWaitingForLogin \<and> gw_session_id (fst s) = [] \<and> gw_backend (fst s) = None \<and>
       gw_prebuffer (fst s) = strip_control p \<or>
     gw_phase (fst s) = kBridging \<and> gw_session_id (fst s) \<noteq> [] \<and>
       gw_backend (fst s) \<in> {None, Some (gw_session_id (fst s))} \<and> login_accepted ops (strip_control p) \<and>
       (stream (gw_session_id (fst s)) (snd s) = strip_control p \<or>
        stream (gw_session_id (fst s)) (snd s) = [] \<and> (cn_stopped (fst s) \<or> shut (gw_session_id (fst s)) (snd s)))"

lemma finish_login_outcome:
  assumes "gw_session_id (fst s) = []" and "gw_backend (fst s) = None" and "stop_ok (fst s)" and p: "gw_prebuffer (fst s) = p"
    and h: "hdr_msg_id (decode_header p) = MSG_LOGIN_REQ" and n: "n = unat (hdr_length (decode_header p))"
    and len: "k_header_bytes + n \<le> length p" "n \<le> kMaxLoginPayloadBytes"
  shows "handshake_outcome p (finish_login ops (take n (drop k_header_bytes p)) s)"
proof -
  have strip: "strip_control p = p" using h n len by (subst strip_control.simps) (simp add: Let_def)
  have rejected: "handshake_outcome p (gw_stop ops True s)" using assms(1) by (simp add: handshake_outcome_def)
  have accepted: "handshake_outcome p (accept_login ops key s)" if "login_accepted ops p" for key
    using accept_login_result [OF assms(1-3) refl, of key] that p by (auto simp: handshake_outcome_def strip)
  show ?thesis
  proof (cases "read_lp_utf8 (take n (drop k_header_bytes p))")
    case (Some ur)
    obtain user rest where ur: "ur = (user, rest)" by (cases ur)
    show ?thesis
    proof (cases "read_lp_utf8 rest")
      case (Some tr)
      obtain token rest' where tr: "tr = (token, rest')" by (cases tr)
      let ?request = "\<lparr>ar_client_id = bytes_string user, ar_token = bytes_string token, ar_remote_address = gw_remote_ip (fst s)\<rparr>"
      have "login_accepted ops p" if "au_success (authenticate ops ?request)"
        "go_allow_anonymous ops \<or> token \<noteq> [] \<and> login_routing_key ?request (authenticate ops ?request) \<noteq> ''anonymous''"
        unfolding login_accepted_def Let_def
        using that h len \<open>read_lp_utf8 (take n (drop k_header_bytes p)) = Some ur\<close> Some ur tr n by blast
      then show ?thesis
        using accepted rejected \<open>read_lp_utf8 (take n (drop k_header_bytes p)) = Some ur\<close> Some ur tr
        by (simp add: finish_login_def Let_def)
    qed (use rejected \<open>read_lp_utf8 (take n (drop k_header_bytes p)) = Some ur\<close> ur in \<open>simp add: finish_login_def\<close>)
  qed (use rejected in \<open>simp add: finish_login_def\<close>)
qed

lemma try_finish_handshake_outcome:
  assumes "gw_phase (fst s) = kWaitingForLogin" and "gw_session_id (fst s) = []" and "gw_backend (fst s) = None"
    and "stop_ok (fst s)"
  shows "handshake_outcome (gw_prebuffer (fst s)) (try_finish_handshake ops s)"
  using assms
proof (induction "length (gw_prebuffer (fst s))" arbitrary: s rule: less_induct)
  case less
  let ?c = "fst s"
  let ?p = "gw_prebuffer ?c"
  let ?h = "decode_header ?p"
  let ?n = "unat (hdr_length ?h)"
  note unfold = try_finish_handshake.simps [of ops s, unfolded Let_def]
  have rejected: "handshake_outcome ?p (gw_stop ops True s)" using less.prems by (simp add: handshake_outcome_def)
  have again: "handshake_outcome ?p (try_finish_handshake ops (c\<lparr>gw_prebuffer := drop (k_header_bytes + ?n) ?p\<rparr>, snd s))"
    if "gw_phase c = kWaitingForLogin" "gw_session_id c = []" "gw_backend c = None" "stop_ok c" "k_header_bytes + ?n \<le> length ?p"
      "?n \<le> kMaxLoginPayloadBytes" "hdr_msg_id ?h = MSG_PING \<or> hdr_msg_id ?h = MSG_PONG" for c
  proof -
    have "strip_control ?p = strip_control (drop (k_header_bytes + ?n) ?p)"
      using that by (subst strip_control.simps) (auto simp: Let_def)
    then show ?thesis
      using less.hyps [of "(c\<lparr>gw_prebuffer := drop (k_header_bytes + ?n) ?p\<rparr>, snd s)"] that
      by (simp add: handshake_outcome_def)
  qed
  consider "length ?p < k_header_bytes" | "k_header_bytes \<le> length ?p" "kMaxLoginPayloadBytes < ?n"
    | "k_header_bytes \<le> length ?p" "?n \<le> kMaxLoginPayloadBytes" "length ?p < k_header_bytes + ?n"
    | "k_header_bytes + ?n \<le> length ?p" "?n \<le> kMaxLoginPayloadBytes"
    by linarith
  then show ?case
  proof cases
    case 1
    moreover have "strip_control ?p = ?p" using 1 by (subst strip_control.simps) (simp add: Let_def)
    ultimately show ?thesis using less.prems by (simp add: unfold handshake_outcome_def)
  next
    case 2
    then show ?thesis using less.prems rejected by (simp add: unfold)
  next
    case 3
    moreover have "strip_control ?p = ?p" using 3 by (subst strip_control.simps) (simp add: Let_def)
    ultimately show ?thesis using less.prems by (simp add: unfold handshake_outcome_def)
  next
    case 4
    then show ?thesis
      using less.prems rejected again finish_login_outcome [OF less.prems(2-4) refl _ refl 4]
      by (simp add: unfold classify_segment_type_def is_system_msg_id_def)
  qed
qed

text \<open>Steps that read nothing.\<close>

lemma calm_stop: "calm stream shut s (gw_stop ops b s)"
  using stop_backend [of b s] by (simp add: calm_def)

lemma calm_stop_after: "calm stream shut s s' \<Longrightarrow> calm stream shut s (gw_stop ops b s')"
  using stop_backend [of b s'] by (auto simp: calm_def)

lemma calm_close: "calm stream shut s (handle_backend_close ops b s)"
  using close_backend [of b s] by (simp add: calm_def)

lemma calm_finalize: "calm stream shut s (finalize_stop (gw_on_disconnect ops) s)"
  by (simp add: calm_def finalize_stop_def cn_finalize_def [THEN arg_cong [of _ _ gw_session_id]]
      cn_finalize_def [THEN arg_cong [of _ _ gw_phase]] cn_finalize_def [THEN arg_cong [of _ _ gw_prebuffer]])

lemma calm_deadline: "calm stream shut s (on_handshake_deadline ops s)"
proof -
  have "calm stream shut s ((fst s)\<lparr>gw_deadline := False\<rparr>, snd s)" by auto
  then show ?thesis using calm_stop_after by (auto simp: on_handshake_deadline_def Let_def)
qed

lemma calm_payload: "calm stream shut s (handle_backend_payload payload (fst s), snd s)"
  by (auto simp: handle_backend_payload_def)

lemma calm_write_done: "calm stream shut s (handle_write (gateway_hooks ops) ok n s)"
  using calm_stop [of s True]
  by (auto simp: handle_write_def gateway_hooks_def Let_def cn_do_write_def cn_loops_def split: list.split)

lemma calm_send_task: "calm stream shut s (send_task (gateway_hooks ops) payload s)"
  using calm_stop [of s True]
  by (auto simp: send_task_def gateway_hooks_def Let_def cn_do_write_def cn_loops_def split: list.split)

text \<open>The first task opens the read loop.\<close>

lemma bridge_ok_start:
  assumes "reads_ok received (fst s)" and "cn_strand (fst s) = CnStart # ts"
  shows "bridge_ok ops stream shut received (start_task (gateway_hooks ops) ((fst s)\<lparr>cn_strand := ts\<rparr>, snd s))"
proof -
  let ?s = "((fst s)\<lparr>cn_strand := ts\<rparr>, snd s)"
  let ?t = "gw_on_connect ops ?s"
  have c: "cn_loops (fst ?s) = (0, 0)" "received = []" "gw_phase (fst ?s) = kWaitingForLogin"
    "gw_session_id (fst ?s) = []" "gw_backend (fst ?s) = None" "gw_prebuffer (fst ?s) = []"
    using assms by (auto simp: reads_ok_def cn_loops_def)
  have strip: "strip_control [] = []" by (subst strip_control.simps) (simp add: Let_def)
  have t: "cn_loops (fst ?t) = (0, 0)" using c(1) by simp
  have "gw_phase (fst ?t) = kWaitingForLogin" "gw_session_id (fst ?t) = []" "gw_backend (fst ?t) = None" "gw_prebuffer (fst ?t) = []"
    using c stop_backend [of True "(fst ?s, snd (go_admit ops (snd s)))"]
    by (auto simp: gw_on_connect_def start_handshake_deadline_def split: prod.split)
  with t c show ?thesis
    by (auto simp: start_task_def gateway_hooks_def Let_def read_loop_def bridge_ok_def reads_ok_def stream_ok_def
        alive_ok_def cn_loops_def strip)
qed

text \<open>One read, in the three situations a connection with a read loop can be in.\<close>

lemma stream_ok_more:
  assumes "stream_ok ops stream received sid a" and "sid \<noteq> []"
  shows "strip_control (received @ data) = strip_control received @ data" and "stream_ok ops stream (received @ data) sid a"
proof -
  have "login_accepted ops (strip_control received)" using assms by (simp add: stream_ok_def)
  from login_accepted_more [OF this, of data] show strip: "strip_control (received @ data) = strip_control received @ data"
    by (simp add: strip_control_append [of received])
  show "stream_ok ops stream (received @ data) sid a"
    using assms login_accepted_more [of ops "strip_control received"] by (auto simp: stream_ok_def strip)
qed

lemma on_read_ok:
  assumes ok: "stream_ok ops stream received (gw_session_id (fst s)) (snd s)" "alive_ok stream shut received s" and "stop_ok (fst s)" and "data \<noteq> []"
    and t_def: "t = gw_on_read ops data s"
  shows "stream_ok ops stream (received @ data) (gw_session_id (fst t)) (snd t) \<and>
    (cn_stopped (fst t) \<or> alive_ok stream shut (received @ data) t)"
proof (cases "gw_phase (fst s)")
  case kWaitingForLogin
  let ?s = "((fst s)\<lparr>gw_prebuffer := gw_prebuffer (fst s) @ data\<rparr>, snd s)"
  have start: "gw_session_id (fst s) = []" "gw_backend (fst s) = None" "gw_prebuffer (fst s) = strip_control received"
    using ok(2) kWaitingForLogin by (simp_all add: alive_ok_def)
  show ?thesis
  proof (cases "kMaxHandshakeBytes < length (gw_prebuffer (fst s)) + length data")
    case True
    then have "t = gw_stop ops True s" using kWaitingForLogin \<open>data \<noteq> []\<close> by (simp add: t_def gw_on_read_def)
    then show ?thesis using start by (simp add: stream_ok_def)
  next
    case False
    then have t: "t = try_finish_handshake ops ?s"
      using kWaitingForLogin \<open>data \<noteq> []\<close> by (simp add: t_def gw_on_read_def Let_def)
    have "strip_control (gw_prebuffer (fst ?s)) = strip_control (received @ data)"
      using start by (simp add: strip_control_append [of received])
    then show ?thesis
      using try_finish_handshake_outcome [of ?s] start kWaitingForLogin \<open>stop_ok (fst s)\<close>
      by (auto simp: t handshake_outcome_def stream_ok_def alive_ok_def)
  qed
next
  case kBridging
  let ?sid = "gw_session_id (fst s)"
  have sid: "?sid \<noteq> []" using ok(2) kBridging by (simp add: alive_ok_def)
  note more = stream_ok_more [OF ok(1) this, of data]
  show ?thesis
  proof (cases "gw_backend (fst s)")
    case None
    then have "t = s" using kBridging \<open>data \<noteq> []\<close> by (simp add: t_def gw_on_read_def)
    then show ?thesis using more(2) kBridging None sid by (simp add: alive_ok_def)
  next
    case (Some sid)
    have sid': "sid = ?sid" "shut ?sid (snd s) \<or> stream ?sid (snd s) = strip_control received"
      and t: "t = send_to_backend ops data s"
      using ok(2) kBridging \<open>data \<noteq> []\<close> Some by (auto simp: alive_ok_def t_def gw_on_read_def)
    note sent = send_session [OF Some \<open>stop_ok (fst s)\<close> t]
    have pre: "prefix (stream ?sid (snd s)) (strip_control received @ data)" "login_accepted ops (strip_control (received @ data))"
      using more \<open>?sid \<noteq> []\<close> by (simp_all add: stream_ok_def)
    show ?thesis
    proof (cases "shut ?sid (snd s)")
      case True
      then show ?thesis
        using sent sid' pre more(1) kBridging \<open>?sid \<noteq> []\<close> by (auto simp: stream_ok_def alive_ok_def)
    next
      case False
      then show ?thesis
        using sent sid' pre more(1) kBridging \<open>?sid \<noteq> []\<close> by (auto simp: stream_ok_def alive_ok_def)
    qed
  qed
qed

lemma bridge_ok_read:
  assumes "bridge_ok ops stream shut received s" and "stop_ok (fst s)" and "0 < cn_reads (fst s)"
    and s'_def: "s' = ((fst s)\<lparr>cn_reads := cn_reads (fst s) - 1\<rparr>, snd s)"
  shows "bridge_ok ops stream shut (received @ data) (handle_read (gateway_hooks ops) (Some data) s')"
proof -
  define t where "t = (if data \<noteq> [] then gw_on_read ops data s' else s')"
  have s': "cn_loops (fst s') = (0, 0)" "stream_ok ops stream received (gw_session_id (fst s')) (snd s')" "alive_ok stream shut received s'"
    using assms by (auto simp: bridge_ok_def reads_ok_def cn_loops_def alive_ok_def)
  then have t: "cn_loops (fst t) = (0, 0)" "stream_ok ops stream (received @ data) (gw_session_id (fst t)) (snd t) \<and>
      (cn_stopped (fst t) \<or> alive_ok stream shut (received @ data) t)"
    using on_read_ok [of received s' data] \<open>stop_ok (fst s)\<close> by (auto simp: t_def s'_def)
  have "handle_read (gateway_hooks ops) (Some data) s' = (if cn_stopped (fst t) then t else (read_loop (fst t), snd t))"
    by (simp add: handle_read_def gateway_hooks_def Let_def t_def)
  moreover have "alive_ok stream shut (received @ data) (read_loop (fst t), snd t) = alive_ok stream shut (received @ data) t"
    by (simp add: alive_ok_def read_loop_def)
  moreover have "cn_loops (read_loop (fst t)) = (1, 0)" "gw_session_id (read_loop (fst t)) = gw_session_id (fst t)"
    using t(1) by (simp_all add: cn_loops_def read_loop_def)
  moreover have "cn_reads (fst t) = 0" using t(1) by (simp add: cn_loops_def)
  ultimately show ?thesis
    using t by (cases "cn_stopped (fst t)") (simp_all add: bridge_ok_def reads_ok_def)
qed

lemma bridge_ok_calm_read:
  assumes "bridge_ok ops stream shut received s"
  shows "bridge_ok ops stream shut received ((fst s)\<lparr>cn_reads := cn_reads (fst s) - 1\<rparr>, snd s)"
  using assms by (auto simp: bridge_ok_def reads_ok_def cn_loops_def alive_ok_def)

lemma bridge_ok_task:
  assumes "bridge_ok ops stream shut received s"
  shows "bridge_ok ops stream shut received (cn_step (gateway_hooks ops) s CnEvTask)"
proof (cases "cn_strand (fst s)")
  case (Cons task ts)
  let ?s = "((fst s)\<lparr>cn_strand := ts\<rparr>, snd s)"
  have popped: "bridge_ok ops stream shut received ?s" if "task \<noteq> CnStart"
    by (rule bridge_ok_calm [OF assms]) (use Cons that in \<open>auto simp: cn_loops_def\<close>)
  show ?thesis
  proof (cases task)
    case CnStart
    then show ?thesis using bridge_ok_start [of received s ts] assms Cons by (simp add: bridge_ok_def)
  next
    case CnFinalize
    then show ?thesis
      using bridge_ok_calm [OF popped calm_finalize] Cons by (simp add: gateway_hooks_def)
  next
    case (CnSend payload)
    then show ?thesis using bridge_ok_calm [OF popped calm_send_task] Cons by simp
  qed
qed (use assms in simp)

lemma bridge_ok_step:
  assumes ok: "bridge_ok ops stream shut received s" and stop: "stop_ok (fst s)" and "e \<noteq> GwTransport CnEvStart"
  shows "bridge_ok ops stream shut (received @ gw_received s e) (gw_step ops s e)"
proof (cases e)
  case (GwTransport t)
  show ?thesis
  proof (cases t)
    case CnEvTask
    then show ?thesis using bridge_ok_task [OF ok] GwTransport by (simp add: gw_received_def)
  next
    case (CnEvRead r)
    show ?thesis
    proof (cases "cn_reads (fst s) = 0")
      case True
      then show ?thesis using ok GwTransport CnEvRead by (simp add: gw_received_def split: option.split)
    next
      case False
      then show ?thesis
        using bridge_ok_read [OF ok stop _ refl] bridge_ok_calm [OF bridge_ok_calm_read [OF ok] calm_stop [of _ True]] GwTransport CnEvRead
        by (cases r) (simp_all add: gw_received_def handle_read_def gateway_hooks_def)
    qed
  next
    case (CnEvWritten w)
    have written: "bridge_ok ops stream shut received ((fst s)\<lparr>cn_writes := ws, cn_written := ds\<rparr>, snd s)" for ws ds
      by (rule bridge_ok_calm [OF ok]) (auto simp: cn_loops_def)
    show ?thesis
      using bridge_ok_calm [OF written calm_write_done] ok GwTransport CnEvWritten
      by (simp add: gw_received_def split: list.split)
  next
    case (CnEvSend data)
    then show ?thesis using bridge_ok_calm [OF ok calm_same, of "(Connection_async_send data (fst s), snd s)"] GwTransport
      by (simp add: gw_received_def)
  next
    case CnEvStop
    then show ?thesis using bridge_ok_calm [OF ok calm_stop [of _ False]] GwTransport by (simp add: gw_received_def gateway_hooks_def)
  qed (use assms GwTransport in simp)
qed (use bridge_ok_calm [OF ok calm_payload] bridge_ok_calm [OF ok calm_close [of _ False]]
    bridge_ok_calm [OF ok calm_deadline] in \<open>simp_all add: gw_received_def\<close>)

lemma bridge_reachable: "gw_reach ops stream shut received s \<Longrightarrow> bridge_ok ops stream shut received s"
proof (induction rule: gw_reach.induct)
  case (gw_start a)
  then show ?case
    by (simp add: bridge_ok_def reads_ok_def cn_loops_def stream_ok_def Connection_start_def GatewayConnection_init_def)
next
  case (gw_event received s e)
  then show ?case using stop_ok_reachable [OF gw_event.hyps(1)] by (intro bridge_ok_step)
next
  case (gw_other received c a a')
  then show ?case by (auto simp: bridge_ok_def stream_ok_def alive_ok_def split: if_splits)
qed

text \<open>What the backend of a reachable connection has been given.\<close>

lemma bridge_transparent:
  assumes "gw_reach ops stream shut received (c, a)" and "gw_session_id c \<noteq> []"
  shows "prefix (stream (gw_session_id c) a) (strip_control received)" and "login_accepted ops (strip_control received)"
    and "cn_reads c \<noteq> 0 \<Longrightarrow> gw_backend c \<noteq> None \<Longrightarrow> \<not> shut (gw_session_id c) a \<Longrightarrow> stream (gw_session_id c) a = strip_control received"
  using bridge_reachable [OF assms(1)] assms(2)
  by (auto simp: bridge_ok_def stream_ok_def alive_ok_def split: if_splits)

end

end
