(* ===== verification/Backend_Connection.thy ===== *)
theory Backend_Connection
  imports Resilience Session_Directory Gateway_Config Udp_Bind "HOL-Library.Sublist"
begin

text \<open>
  \<open>GatewayApp::BackendConnection\<close> (\<^verbatim>\<open>gateway/src/gateway_app.cpp\<close>), the gateway's connection to a chat server: resolve,
  connect under a timeout, retry with backoff while the shared retry budget lasts, then a bounded write queue and a read
  loop. All handlers run on the one thread of the gateway's \<open>io_context\<close>, so an asynchronous operation is an entry of
  a list of pending operations that completes with some result, and completed operations wait in a queue until
  their handler runs. Cancelling turns pending operations into completions with \<open>operation_aborted\<close>; operations
  that have already completed are not affected.
\<close>

section \<open>Data\<close>

datatype bk_op = OpResolve | OpConnect | OpConnectTimer | OpRetryTimer | OpWrite bytes | OpRead

datatype bk_result = BkOk bytes | BkError | BkAborted

datatype bk_notice = NoticeClosed | NoticePayload bytes

text \<open>
  \<open>bk_client\<close> tells whether the weak pointer to the client's connection can be locked. The last fields record the history:
  payloads accepted, payloads taken off the queue, payloads written to the present socket, calls to the client.
\<close>

record BackendConnection =
  bk_session_id :: string
  bk_client_id :: string
  bk_backend_instance_id :: string
  bk_sticky_hit :: bool
  bk_client :: bool
  bk_closed :: bool
  bk_socket_open :: bool
  bk_connect_host :: string
  bk_connect_port :: u16
  bk_retry_attempt :: u32
  bk_retry_delay :: u64
  bk_write_queue :: "bytes list"
  bk_queued_bytes :: nat
  bk_send_queue_max_bytes :: nat
  bk_connected :: bool
  bk_write_in_progress :: bool
  bk_pending :: "bk_op list"
  bk_ready :: "(bk_op \<times> bk_result) list"
  bk_accepted :: "bytes list"
  bk_popped :: "bytes list"
  bk_wire :: "bytes list"
  bk_notices :: "bk_notice list"

abbreviation (input) kDefaultBackendSendQueueMaxBytes :: nat where "kDefaultBackendSendQueueMaxBytes \<equiv> 256 * 1024"

definition BackendConnection_init :: "string \<Rightarrow> string \<Rightarrow> string \<Rightarrow> bool \<Rightarrow> nat \<Rightarrow> BackendConnection" where
  "BackendConnection_init session_id client_id backend_instance_id sticky_hit send_queue_max_bytes =
     \<lparr>bk_session_id = session_id, bk_client_id = client_id, bk_backend_instance_id = backend_instance_id,
      bk_sticky_hit = sticky_hit, bk_client = True, bk_closed = False, bk_socket_open = False, bk_connect_host = [],
      bk_connect_port = 0, bk_retry_attempt = 0, bk_retry_delay = 0, bk_write_queue = [], bk_queued_bytes = 0,
      bk_send_queue_max_bytes = (if 0 < send_queue_max_bytes then send_queue_max_bytes else kDefaultBackendSendQueueMaxBytes),
      bk_connected = False, bk_write_in_progress = False, bk_pending = [], bk_ready = [], bk_accepted = [],
      bk_popped = [], bk_wire = [], bk_notices = []\<rparr>"

text \<open>What all backend connections share in the application, with the counters of their failures.\<close>

record 'r BackendShared =
  bs_config :: GatewayConfig
  bs_retry_budget :: RetryBudget
  bs_circuit_breaker :: CircuitBreaker
  bs_directory :: "SessionDirectory option"
  bs_redis :: 'r
  bs_resolve_fail_total :: u64
  bs_connect_fail_total :: u64
  bs_connect_timeout_total :: u64
  bs_write_error_total :: u64
  bs_send_queue_overflow_total :: u64
  bs_circuit_open_total :: u64
  bs_circuit_reject_total :: u64
  bs_connect_retry_total :: u64
  bs_retry_budget_exhausted_total :: u64

type_synonym 'r bk_state = "BackendConnection \<times> 'r BackendShared"

section \<open>Shared state\<close>

definition backend_circuit_allows_connect :: "u64 \<Rightarrow> 'r BackendShared \<Rightarrow> bool \<times> 'r BackendShared" where
  "backend_circuit_allows_connect now b =
     (case CircuitBreaker_allow (bs_circuit_breaker b) now of
        (True, cb) \<Rightarrow> (True, b\<lparr>bs_circuit_breaker := cb\<rparr>)
      | (False, cb) \<Rightarrow> (False, b\<lparr>bs_circuit_breaker := cb, bs_circuit_reject_total := bs_circuit_reject_total b + 1\<rparr>))"

definition record_backend_connect_success_event :: "'r BackendShared \<Rightarrow> 'r BackendShared" where
  "record_backend_connect_success_event b =
     b\<lparr>bs_circuit_breaker := CircuitBreaker_record_success (bs_circuit_breaker b)\<rparr>"

definition record_backend_connect_failure_event :: "u64 \<Rightarrow> 'r BackendShared \<Rightarrow> 'r BackendShared" where
  "record_backend_connect_failure_event now b =
     (case CircuitBreaker_record_failure (bs_circuit_breaker b) now of
        (opened, cb) \<Rightarrow> b\<lparr>bs_circuit_breaker := cb,
          bs_circuit_open_total := (if opened then bs_circuit_open_total b + 1 else bs_circuit_open_total b)\<rparr>)"

definition consume_backend_retry_budget :: "u64 \<Rightarrow> 'r BackendShared \<Rightarrow> bool \<times> 'r BackendShared" where
  "consume_backend_retry_budget now b =
     (case RetryBudget_consume (bs_retry_budget b) now of (granted, rb) \<Rightarrow> (granted, b\<lparr>bs_retry_budget := rb\<rparr>))"

text \<open>The clock readings of the directory are \<open>t\<close>, the Redis client \<open>rops\<close>.\<close>

definition on_backend_connected :: "'r redis_ops \<Rightarrow> int \<Rightarrow> string \<Rightarrow> string \<Rightarrow> 'r BackendShared \<Rightarrow> 'r BackendShared" where
  "on_backend_connected rops t client_id backend_instance_id b =
     (case bs_directory b of
        None \<Rightarrow> b
      | Some d \<Rightarrow>
          if client_id = [] \<or> client_id = ''anonymous'' \<or> backend_instance_id = [] then b
          else case ensure_backend rops d (bs_redis b) client_id backend_instance_id t t t of
                 (_, d, r) \<Rightarrow> b\<lparr>bs_directory := Some d, bs_redis := r\<rparr>)"

section \<open>Sockets and timers\<close>

fun on_socket :: "bk_op \<Rightarrow> bool" where
  "on_socket OpConnect = True" | "on_socket (OpWrite _) = True" | "on_socket OpRead = True" | "on_socket _ = False"

definition bk_cancel :: "(bk_op \<Rightarrow> bool) \<Rightarrow> BackendConnection \<Rightarrow> BackendConnection" where
  "bk_cancel p c =
     c\<lparr>bk_pending := filter (\<lambda>op. \<not> p op) (bk_pending c),
       bk_ready := bk_ready c @ map (\<lambda>op. (op, BkAborted)) (filter p (bk_pending c))\<rparr>"

text \<open>An operation on a closed socket fails, which its handler is told later.\<close>

definition bk_begin :: "bk_op \<Rightarrow> BackendConnection \<Rightarrow> BackendConnection" where
  "bk_begin op c =
     (if on_socket op \<and> \<not> bk_socket_open c then c\<lparr>bk_ready := bk_ready c @ [(op, BkError)]\<rparr>
      else c\<lparr>bk_pending := bk_pending c @ [op]\<rparr>)"

text \<open>\<open>expires_after\<close> cancels the waits of the timer; then a new one begins.\<close>

definition bk_arm :: "bk_op \<Rightarrow> BackendConnection \<Rightarrow> BackendConnection" where
  "bk_arm timer c = bk_begin timer (bk_cancel (\<lambda>op. op = timer) c)"

definition bk_shut :: "BackendConnection \<Rightarrow> BackendConnection" where
  "bk_shut c = (if bk_socket_open c then (bk_cancel on_socket c)\<lparr>bk_socket_open := False\<rparr> else c)"

definition close_socket_for_retry :: "BackendConnection \<Rightarrow> BackendConnection" where
  "close_socket_for_retry c = (bk_shut c)\<lparr>bk_connected := False, bk_write_in_progress := False\<rparr>"

definition bk_close :: "BackendConnection \<Rightarrow> BackendConnection" where
  "bk_close c =
     (if bk_closed c then c
      else
        let c = bk_cancel (\<lambda>op. op = OpRetryTimer) (bk_cancel (\<lambda>op. op = OpConnectTimer) (c\<lparr>bk_closed := True\<rparr>));
            c = c\<lparr>bk_write_queue := [], bk_queued_bytes := 0, bk_connected := False, bk_write_in_progress := False\<rparr>
        in bk_shut c)"

text \<open>Telling the client's connection, or closing when there is none left.\<close>

definition bk_give_up :: "BackendConnection \<Rightarrow> BackendConnection" where
  "bk_give_up c = (if bk_client c then c\<lparr>bk_notices := bk_notices c @ [NoticeClosed]\<rparr> else bk_close c)"

section \<open>Connecting\<close>

definition do_connect :: "BackendConnection \<Rightarrow> BackendConnection" where
  "do_connect c = bk_begin OpResolve (close_socket_for_retry c)"

definition bk_connect :: "string \<Rightarrow> u16 \<Rightarrow> BackendConnection \<Rightarrow> BackendConnection" where
  "bk_connect host port c =
     (if bk_closed c then c
      else do_connect (c\<lparr>bk_connect_host := host, bk_connect_port := port, bk_retry_attempt := 0\<rparr>))"

definition schedule_connect_retry :: "u64 \<Rightarrow> 'r bk_state \<Rightarrow> bool \<times> 'r bk_state" where
  "schedule_connect_retry now s =
     (case consume_backend_retry_budget now (snd s) of
        (False, b) \<Rightarrow> (False, fst s, b\<lparr>bs_retry_budget_exhausted_total := bs_retry_budget_exhausted_total b + 1\<rparr>)
      | (True, b) \<Rightarrow>
          let c = (fst s)\<lparr>bk_retry_attempt := bk_retry_attempt (fst s) + 1\<rparr>;
              delay = backend_retry_delay (bs_config b) (bk_retry_attempt c)
          in (True, bk_arm OpRetryTimer ((close_socket_for_retry c)\<lparr>bk_retry_delay := delay\<rparr>),
              b\<lparr>bs_connect_retry_total := bs_connect_retry_total b + 1\<rparr>))"

text \<open>A failed attempt: counted, then retried or given up.\<close>

definition bk_attempt_failed :: "u64 \<Rightarrow> 'r bk_state \<Rightarrow> 'r bk_state" where
  "bk_attempt_failed now s =
     (case schedule_connect_retry now (fst s, record_backend_connect_failure_event now (snd s)) of
        (True, s) \<Rightarrow> s
      | (False, s) \<Rightarrow> (bk_give_up (fst s), snd s))"

definition on_connect_timeout :: "u64 \<Rightarrow> 'r bk_state \<Rightarrow> 'r bk_state" where
  "on_connect_timeout now s =
     (if bk_closed (fst s) then s
      else bk_attempt_failed now (fst s, (snd s)\<lparr>bs_connect_timeout_total := bs_connect_timeout_total (snd s) + 1\<rparr>))"

text \<open>\<open>async_connect\<close> opens the socket anew; what was written to the old one is of no more use.\<close>

definition on_resolved :: "u64 \<Rightarrow> bool \<Rightarrow> 'r bk_state \<Rightarrow> 'r bk_state" where
  "on_resolved now ok s =
     (if bk_closed (fst s) then s
      else if \<not> ok then
        bk_attempt_failed now (fst s, (snd s)\<lparr>bs_resolve_fail_total := bs_resolve_fail_total (snd s) + 1\<rparr>)
      else
        (bk_begin OpConnect ((bk_shut (bk_arm OpConnectTimer (fst s)))\<lparr>bk_socket_open := True, bk_wire := []\<rparr>), snd s))"

section \<open>Sending and receiving\<close>

text \<open>No null buffer is ever queued, so the branch for one is not reached.\<close>

definition bk_do_write :: "BackendConnection \<Rightarrow> BackendConnection" where
  "bk_do_write c =
     (case bk_write_queue c of
        [] \<Rightarrow> c\<lparr>bk_write_in_progress := False\<rparr>
      | msg # _ \<Rightarrow> bk_begin (OpWrite msg) (c\<lparr>bk_write_in_progress := True\<rparr>))"

definition on_connected :: "'r redis_ops \<Rightarrow> int \<Rightarrow> u64 \<Rightarrow> bool \<Rightarrow> 'r bk_state \<Rightarrow> 'r bk_state" where
  "on_connected rops t now ok s =
     (let c = bk_cancel (\<lambda>op. op = OpConnectTimer) (fst s) in
      if bk_closed c then (c, snd s)
      else if \<not> ok then
        bk_attempt_failed now (c, (snd s)\<lparr>bs_connect_fail_total := bs_connect_fail_total (snd s) + 1\<rparr>)
      else
        let c = c\<lparr>bk_connected := True, bk_retry_attempt := 0\<rparr>;
            c = (if bk_write_queue c \<noteq> [] then bk_do_write c else c);
            c = bk_cancel (\<lambda>op. op = OpRetryTimer) c;
            b = on_backend_connected rops t (bk_client_id c) (bk_backend_instance_id c)
                  (record_backend_connect_success_event (snd s))
        in (bk_begin OpRead c, b))"

text \<open>Both overloads of \<open>send\<close>; the first component tells that the client's connection has to be told of an overflow.\<close>

definition bk_send :: "bytes \<Rightarrow> 'r bk_state \<Rightarrow> bool \<times> 'r bk_state" where
  "bk_send payload s =
     (let c = fst s; b = snd s in
      if payload = [] \<or> bk_closed c then (False, s)
      else if exceeds_queue_budget (bk_send_queue_max_bytes c) (bk_queued_bytes c) (length payload) then
        let b = b\<lparr>bs_send_queue_overflow_total := bs_send_queue_overflow_total b + 1\<rparr>
        in if bk_client c then (True, c, b) else (False, bk_close c, b)
      else
        let c = c\<lparr>bk_queued_bytes := bk_queued_bytes c + length payload, bk_write_queue := bk_write_queue c @ [payload],
                  bk_accepted := bk_accepted c @ [payload]\<rparr>
        in (False, if bk_connected c \<and> \<not> bk_write_in_progress c then bk_do_write c else c, b))"

definition on_written :: "bytes \<Rightarrow> bk_result \<Rightarrow> 'r bk_state \<Rightarrow> 'r bk_state" where
  "on_written msg result s =
     (let c = fst s in
      if result = BkAborted \<or> bk_closed c then s
      else if result = BkError then
        (bk_give_up c, (snd s)\<lparr>bs_write_error_total := bs_write_error_total (snd s) + 1\<rparr>)
      else
        let c = (case bk_write_queue c of
                   [] \<Rightarrow> c
                 | m # rest \<Rightarrow>
                     c\<lparr>bk_queued_bytes := (if length msg \<le> bk_queued_bytes c then bk_queued_bytes c - length msg else 0),
                       bk_write_queue := rest, bk_popped := bk_popped c @ [m]\<rparr>);
            c = c\<lparr>bk_wire := bk_wire c @ [msg]\<rparr>
        in (if bk_write_queue c \<noteq> [] then bk_do_write c else c\<lparr>bk_write_in_progress := False\<rparr>, snd s))"

definition bk_on_read :: "bk_result \<Rightarrow> BackendConnection \<Rightarrow> BackendConnection" where
  "bk_on_read result c =
     (case result of
        BkAborted \<Rightarrow> c
      | BkError \<Rightarrow> bk_close (if bk_client c then c\<lparr>bk_notices := bk_notices c @ [NoticeClosed]\<rparr> else c)
      | BkOk data \<Rightarrow>
          if data = [] then c
          else bk_begin OpRead (if bk_client c then c\<lparr>bk_notices := bk_notices c @ [NoticePayload data]\<rparr> else c))"

section \<open>Events\<close>

text \<open>Running the handler of a completed operation.\<close>

fun bk_handle :: "'r redis_ops \<Rightarrow> int \<Rightarrow> u64 \<Rightarrow> bk_op \<times> bk_result \<Rightarrow> 'r bk_state \<Rightarrow> 'r bk_state" where
  "bk_handle rops t now (OpResolve, r) s = on_resolved now (r \<noteq> BkError \<and> r \<noteq> BkAborted) s"
| "bk_handle rops t now (OpConnect, r) s = on_connected rops t now (r \<noteq> BkError \<and> r \<noteq> BkAborted) s"
| "bk_handle rops t now (OpConnectTimer, r) s = (if r = BkAborted then s else on_connect_timeout now s)"
| "bk_handle rops t now (OpRetryTimer, r) s =
     (if r = BkAborted \<or> bk_closed (fst s) then s else (do_connect (fst s), snd s))"
| "bk_handle rops t now (OpWrite msg, r) s = on_written msg r s"
| "bk_handle rops t now (OpRead, r) s = (bk_on_read r (fst s), snd s)"

text \<open>
  An operation completes, the next handler runs, the gateway sends or closes, or the client's connection goes away. A read
  that succeeds brings at least one byte.
\<close>

datatype bk_event = BkComplete nat bk_result | BkRun int u64 | BkSend bytes | BkClose | BkClientGone

fun bk_step :: "'r redis_ops \<Rightarrow> 'r bk_state \<Rightarrow> bk_event \<Rightarrow> 'r bk_state" where
  "bk_step rops s (BkComplete i r) =
     (let c = fst s in
      if i < length (bk_pending c) \<and> \<not> (bk_pending c ! i = OpRead \<and> r = BkOk []) \<and> r \<noteq> BkAborted
      then (c\<lparr>bk_pending := take i (bk_pending c) @ drop (Suc i) (bk_pending c), bk_ready := bk_ready c @ [(bk_pending c ! i, r)]\<rparr>, snd s)
      else s)"
| "bk_step rops s (BkRun t now) =
     (case bk_ready (fst s) of
        [] \<Rightarrow> s
      | e # rest \<Rightarrow> bk_handle rops t now e ((fst s)\<lparr>bk_ready := rest\<rparr>, snd s))"
| "bk_step rops s (BkSend payload) = snd (bk_send payload s)"
| "bk_step rops s BkClose = (bk_close (fst s), snd s)"
| "bk_step rops s BkClientGone = ((fst s)\<lparr>bk_client := False\<rparr>, snd s)"

end
