(* ===== verification/Backend_Properties.thy ===== *)
theory Backend_Properties
  imports Backend_Connection "HOL-Library.Multiset" "HOL-Library.Code_Target_Nat"
begin

text \<open>
  What the backend connection guarantees over all orders of completions: it never comes to a standstill without having told
  the client, it takes payloads off its queue in the order they were accepted and within its byte limit, and, as long
  as no connect attempt times out, what it has written to the backend is what it took off the queue. The last
  section shows what a timeout that fires next to a completed connect does.
\<close>

section \<open>Progress\<close>

text \<open>Operations whose handler carries the connection on; a cancelled one does so only in the case of \<open>async_connect\<close>.\<close>

fun drives :: "bk_op \<Rightarrow> bool" where
  "drives OpResolve = True" | "drives OpConnect = True" | "drives OpRetryTimer = True" | "drives OpRead = True"
| "drives _ = False"

definition drives_ready :: "bk_op \<times> bk_result \<Rightarrow> bool" where
  "drives_ready e \<longleftrightarrow> drives (fst e) \<and> (fst e = OpConnect \<or> snd e \<noteq> BkAborted) \<and> e \<noteq> (OpRead, BkOk [])"

definition bk_driven :: "BackendConnection \<Rightarrow> bool" where
  "bk_driven c \<longleftrightarrow> list_ex drives (bk_pending c) \<or> list_ex drives_ready (bk_ready c)"

definition bk_alive :: "BackendConnection \<Rightarrow> bool" where
  "bk_alive c \<longleftrightarrow> bk_closed c \<or> NoticeClosed \<in> set (bk_notices c) \<or> bk_driven c"

lemma driven_begin: "drives op \<Longrightarrow> bk_driven (bk_begin op c)"
  by (auto simp: bk_begin_def bk_driven_def drives_ready_def)

lemma alive_begin: "drives op \<Longrightarrow> bk_alive (bk_begin op c)"
  by (simp add: bk_alive_def driven_begin)

lemma alive_begin_keeps: "bk_alive c \<Longrightarrow> bk_alive (bk_begin op c)"
  by (auto simp: bk_alive_def bk_begin_def bk_driven_def)

lemma closed_close [simp]: "bk_closed (bk_close c)"
  by (simp add: bk_close_def bk_shut_def bk_cancel_def Let_def)

lemma alive_give_up: "bk_alive (bk_give_up c)"
  by (simp add: bk_give_up_def bk_alive_def)

lemma alive_attempt_failed: "bk_alive (fst (bk_attempt_failed now s))"
  by (simp add: bk_attempt_failed_def schedule_connect_retry_def Let_def bk_arm_def alive_give_up alive_begin
      split: prod.split bool.split)

lemma alive_do_write: "bk_alive c \<Longrightarrow> bk_alive (bk_do_write c)"
  by (auto simp: bk_do_write_def bk_alive_def bk_begin_def bk_driven_def split: list.split)

lemma alive_handled:
  assumes "drives_ready e"
  shows "bk_alive (fst (bk_handle rops t now e s))"
proof (cases e)
  case (Pair op r)
  show ?thesis
    using assms Pair
    by (cases op)
      (auto simp: drives_ready_def on_resolved_def on_connected_def Let_def do_connect_def bk_on_read_def bk_alive_def bk_cancel_def
        driven_begin alive_attempt_failed [unfolded bk_alive_def] split: bk_result.split)
qed

lemma alive_written: "bk_alive (fst s) \<Longrightarrow> bk_alive (fst (on_written msg r s))"
  unfolding on_written_def Let_def
  by (auto simp: alive_give_up split: list.split intro!: alive_do_write) (auto simp: bk_alive_def bk_driven_def)

lemma alive_kept:
  assumes "\<not> drives_ready e" and "bk_alive (fst s)"
  shows "bk_alive (fst (bk_handle rops t now e s))"
proof (cases e)
  case (Pair op r)
  show ?thesis
    using assms Pair
    by (cases op)
      (auto simp: drives_ready_def on_resolved_def on_connect_timeout_def bk_on_read_def alive_attempt_failed alive_written
        split: bk_result.splits)
qed

lemma alive_close [simp]: "bk_alive (bk_close c)"
  by (simp add: bk_alive_def)

lemma alive_send: "bk_alive (fst s) \<Longrightarrow> bk_alive (fst (snd (bk_send payload s)))"
  unfolding bk_send_def Let_def
  by (auto intro!: alive_do_write) (auto simp: bk_alive_def bk_driven_def)

lemma drives_complete:
  assumes "i < length p" and "\<not> (p ! i = OpRead \<and> r = BkOk [])" and "r \<noteq> BkAborted" and "list_ex drives p"
  shows "list_ex drives (take i p @ drop (Suc i) p) \<or> drives_ready (p ! i, r)"
proof -
  have "list_ex drives (take i p @ p ! i # drop (Suc i) p)" using assms(1,4) by (simp add: id_take_nth_drop [symmetric])
  then show ?thesis using assms(2,3) by (auto simp: drives_ready_def)
qed

interpretation backend_progress: invariant_machine "bk_step rops" "\<lambda>s. bk_alive (fst s)" for rops :: "'r redis_ops"
proof unfold_locales
  fix s :: "'r bk_state" and e
  assume alive: "bk_alive (fst s)"
  show "bk_alive (fst (bk_step rops s e))"
  proof (cases e)
    case (BkComplete i r)
    then show ?thesis
      using alive drives_complete [of i "bk_pending (fst s)" r] by (auto simp: bk_alive_def bk_driven_def Let_def)
  next
    case (BkRun t now)
    show ?thesis
    proof (cases "bk_ready (fst s)")
      case (Cons x rest)
      have "bk_alive ((fst s)\<lparr>bk_ready := rest\<rparr>)" if "\<not> drives_ready x"
        using alive Cons that by (simp add: bk_alive_def bk_driven_def)
      then show ?thesis
        using BkRun Cons by (cases "drives_ready x") (auto intro: alive_handled alive_kept)
    qed (use alive BkRun in simp)
  next
    case (BkSend payload)
    then show ?thesis using alive by (simp add: alive_send)
  qed (use alive in \<open>simp_all add: bk_alive_def bk_driven_def\<close>)
qed

section \<open>The queue\<close>

text \<open>The accounts, as a predicate of the fields they concern.\<close>

definition bk_accounts_ok :: "bool \<Rightarrow> bytes list \<Rightarrow> bytes list \<Rightarrow> bytes list \<Rightarrow> nat \<Rightarrow> nat \<Rightarrow> bool" where
  "bk_accounts_ok closed accepted popped queue queued limit \<longleftrightarrow>
     (if closed then prefix popped accepted \<and> queue = [] else accepted = popped @ queue) \<and> 0 < limit \<and> queued \<le> limit"

definition bk_accounts :: "BackendConnection \<Rightarrow> bool" where
  "bk_accounts c =
     bk_accounts_ok (bk_closed c) (bk_accepted c) (bk_popped c) (bk_write_queue c) (bk_queued_bytes c) (bk_send_queue_max_bytes c)"

lemma accounts_update [simp]:
  "bk_accounts (c\<lparr>bk_pending := x\<rparr>) = bk_accounts c" "bk_accounts (c\<lparr>bk_ready := y\<rparr>) = bk_accounts c"
  "bk_accounts (c\<lparr>bk_socket_open := f\<rparr>) = bk_accounts c" "bk_accounts (c\<lparr>bk_connected := f\<rparr>) = bk_accounts c"
  "bk_accounts (c\<lparr>bk_write_in_progress := f\<rparr>) = bk_accounts c" "bk_accounts (c\<lparr>bk_notices := ns\<rparr>) = bk_accounts c"
  "bk_accounts (c\<lparr>bk_retry_attempt := a\<rparr>) = bk_accounts c" "bk_accounts (c\<lparr>bk_retry_delay := d\<rparr>) = bk_accounts c"
  "bk_accounts (c\<lparr>bk_wire := w\<rparr>) = bk_accounts c" "bk_accounts (c\<lparr>bk_client := f\<rparr>) = bk_accounts c"
  by (simp_all add: bk_accounts_def)

lemma accounts_quiet [simp]:
  "bk_accounts (bk_cancel p c) = bk_accounts c" "bk_accounts (bk_begin op c) = bk_accounts c"
  "bk_accounts (bk_arm op c) = bk_accounts c" "bk_accounts (bk_shut c) = bk_accounts c"
  "bk_accounts (close_socket_for_retry c) = bk_accounts c" "bk_accounts (do_connect c) = bk_accounts c"
  "bk_accounts (bk_do_write c) = bk_accounts c"
  by (simp_all add: bk_cancel_def bk_begin_def bk_arm_def bk_shut_def close_socket_for_retry_def do_connect_def bk_do_write_def
      split: list.split)

lemma accounts_close: "bk_accounts c \<Longrightarrow> bk_accounts (bk_close c)"
  by (simp add: bk_close_def Let_def) (auto simp: bk_accounts_def bk_accounts_ok_def bk_cancel_def)

lemma accounts_give_up: "bk_accounts c \<Longrightarrow> bk_accounts (bk_give_up c)"
  by (simp add: bk_give_up_def accounts_close)

lemma accounts_attempt_failed: "bk_accounts (fst s) \<Longrightarrow> bk_accounts (fst (bk_attempt_failed now s))"
  by (simp add: bk_attempt_failed_def schedule_connect_retry_def Let_def accounts_give_up split: prod.split bool.split)

lemma accounts_written: "bk_accounts (fst s) \<Longrightarrow> bk_accounts (fst (on_written msg r s))"
  by (simp add: on_written_def Let_def accounts_give_up split: list.split)
    (auto simp: bk_accounts_def bk_accounts_ok_def)

lemma accounts_handled: "bk_accounts (fst s) \<Longrightarrow> bk_accounts (fst (bk_handle rops t now e s))"
  by (cases e; cases "fst e")
    (auto simp: on_resolved_def on_connected_def on_connect_timeout_def bk_on_read_def Let_def accounts_attempt_failed
      accounts_written accounts_close split: bk_result.split)

lemma accounts_send: "bk_accounts (fst s) \<Longrightarrow> bk_accounts (fst (snd (bk_send payload s)))"
  by (simp add: bk_send_def Let_def accounts_close exceeds_queue_budget_iff) (auto simp: bk_accounts_def bk_accounts_ok_def)

interpretation backend_queue: invariant_machine "bk_step rops" "\<lambda>s. bk_accounts (fst s)" for rops :: "'r redis_ops"
proof unfold_locales
  fix s :: "'r bk_state" and e
  assume "bk_accounts (fst s)"
  then show "bk_accounts (fst (bk_step rops s e))"
    by (cases e) (auto simp: Let_def accounts_handled accounts_send accounts_close split: list.split)
qed

section \<open>The socket\<close>

text \<open>
  Operations under way, the connect timer apart. While no attempt times out only timers are ever cancelled, and before
  the connection is established there is at most one operation.
\<close>

definition bk_flight :: "BackendConnection \<Rightarrow> bk_op multiset" where
  "bk_flight c = filter_mset (\<lambda>op. op \<noteq> OpConnectTimer) (mset (bk_pending c) + mset (map fst (bk_ready c)))"

definition bk_orderly :: "BackendConnection \<Rightarrow> bool" where
  "bk_orderly c \<longleftrightarrow> list_all (\<lambda>e. (fst e = OpConnectTimer) = (snd e = BkAborted)) (bk_ready c)"

definition dialling :: "bk_op multiset set" where
  "dialling = {{#}, {#OpResolve#}, {#OpConnect#}, {#OpRetryTimer#}}"

definition talking :: "bool \<Rightarrow> bytes list \<Rightarrow> bk_op multiset set" where
  "talking writing queue =
     {{#}, {#OpRead#}} \<union>
     (if writing \<and> queue \<noteq> [] then {{#OpWrite (hd queue)#}, {#OpRead, OpWrite (hd queue)#}} else {})"

definition bk_phase_ok :: "BackendConnection \<Rightarrow> bool" where
  "bk_phase_ok c \<longleftrightarrow> bk_orderly c \<and> bk_queued_bytes c = sum_list (map length (bk_write_queue c)) \<and>
     (if bk_connected c then bk_flight c \<in> talking (bk_write_in_progress c) (bk_write_queue c)
      else bk_popped c = [] \<and> bk_flight c \<in> dialling \<and> \<not> bk_write_in_progress c)"

definition bk_sequential :: "BackendConnection \<Rightarrow> bool" where
  "bk_sequential c \<longleftrightarrow> bk_wire c = bk_popped c \<and> (bk_closed c \<or> bk_phase_ok c)"

text \<open>An attempt times out.\<close>

fun timer_fires :: "BackendConnection \<Rightarrow> bk_event \<Rightarrow> bool" where
  "timer_fires c (BkComplete i r) = (i < length (bk_pending c) \<and> bk_pending c ! i = OpConnectTimer)"
| "timer_fires c _ = False"

inductive bk_reach :: "'r redis_ops \<Rightarrow> 'r bk_state \<Rightarrow> 'r bk_state \<Rightarrow> bool" for rops s0 where
  bk_start: "bk_reach rops s0 s0"
| bk_next: "bk_reach rops s0 s \<Longrightarrow> \<not> timer_fires (fst s) e \<Longrightarrow> bk_reach rops s0 (bk_step rops s e)"

lemma flight_begin [simp]: "op \<noteq> OpConnectTimer \<Longrightarrow> bk_flight (bk_begin op c) = add_mset op (bk_flight c)"
  by (simp add: bk_flight_def bk_begin_def)

lemma orderly_begin [simp]: "op \<noteq> OpConnectTimer \<Longrightarrow> bk_orderly (bk_begin op c) = bk_orderly c"
  by (simp add: bk_orderly_def bk_begin_def)

lemma begin_fields [simp]:
  "bk_connected (bk_begin op c) = bk_connected c" "bk_write_in_progress (bk_begin op c) = bk_write_in_progress c"
  "bk_write_queue (bk_begin op c) = bk_write_queue c" "bk_popped (bk_begin op c) = bk_popped c"
  "bk_wire (bk_begin op c) = bk_wire c" "bk_closed (bk_begin op c) = bk_closed c" "bk_queued_bytes (bk_begin op c) = bk_queued_bytes c"
  by (simp_all add: bk_begin_def)

lemma cancel_fields [simp]:
  "bk_connected (bk_cancel p c) = bk_connected c" "bk_write_in_progress (bk_cancel p c) = bk_write_in_progress c"
  "bk_write_queue (bk_cancel p c) = bk_write_queue c" "bk_popped (bk_cancel p c) = bk_popped c"
  "bk_wire (bk_cancel p c) = bk_wire c" "bk_closed (bk_cancel p c) = bk_closed c" "bk_queued_bytes (bk_cancel p c) = bk_queued_bytes c"
  by (simp_all add: bk_cancel_def)

lemma flight_cancel [simp]: "bk_flight (bk_cancel p c) = bk_flight c"
proof -
  have "mset (filter (\<lambda>op. \<not> p op) xs) + mset (filter p xs) = mset xs" for xs :: "bk_op list"
    by (induction xs) auto
  then have "mset (bk_pending (bk_cancel p c)) + mset (map fst (bk_ready (bk_cancel p c))) =
      mset (bk_pending c) + mset (map fst (bk_ready c))"
    by (simp add: bk_cancel_def comp_def ac_simps flip: mset_map)
  then show ?thesis by (simp add: bk_flight_def)
qed

lemma orderly_cancel: "(\<And>op. op \<in> set (bk_pending c) \<Longrightarrow> p op \<Longrightarrow> op = OpConnectTimer) \<Longrightarrow> bk_orderly (bk_cancel p c) = bk_orderly c"
  by (auto simp: bk_orderly_def bk_cancel_def list_all_iff)

lemma flight_pending: "op \<in> set (bk_pending c) \<Longrightarrow> op \<noteq> OpConnectTimer \<Longrightarrow> op \<in># bk_flight c"
  by (simp add: bk_flight_def)

lemma flight_update [simp]:
  "bk_flight (c\<lparr>bk_connected := f\<rparr>) = bk_flight c" "bk_flight (c\<lparr>bk_write_in_progress := f\<rparr>) = bk_flight c"
  "bk_flight (c\<lparr>bk_write_queue := q\<rparr>) = bk_flight c" "bk_flight (c\<lparr>bk_queued_bytes := n\<rparr>) = bk_flight c"
  "bk_flight (c\<lparr>bk_popped := q\<rparr>) = bk_flight c" "bk_flight (c\<lparr>bk_wire := q\<rparr>) = bk_flight c"
  "bk_flight (c\<lparr>bk_notices := ns\<rparr>) = bk_flight c" "bk_flight (c\<lparr>bk_retry_attempt := a\<rparr>) = bk_flight c"
  "bk_flight (c\<lparr>bk_retry_delay := d\<rparr>) = bk_flight c" "bk_flight (c\<lparr>bk_socket_open := f\<rparr>) = bk_flight c"
  "bk_flight (c\<lparr>bk_closed := f\<rparr>) = bk_flight c" "bk_flight (c\<lparr>bk_accepted := q\<rparr>) = bk_flight c"
  "bk_flight (c\<lparr>bk_client := f\<rparr>) = bk_flight c"
  by (simp_all add: bk_flight_def)

lemma orderly_update [simp]:
  "bk_orderly (c\<lparr>bk_connected := f\<rparr>) = bk_orderly c" "bk_orderly (c\<lparr>bk_write_in_progress := f\<rparr>) = bk_orderly c"
  "bk_orderly (c\<lparr>bk_write_queue := q\<rparr>) = bk_orderly c" "bk_orderly (c\<lparr>bk_queued_bytes := n\<rparr>) = bk_orderly c"
  "bk_orderly (c\<lparr>bk_popped := q\<rparr>) = bk_orderly c" "bk_orderly (c\<lparr>bk_wire := q\<rparr>) = bk_orderly c"
  "bk_orderly (c\<lparr>bk_notices := ns\<rparr>) = bk_orderly c" "bk_orderly (c\<lparr>bk_retry_attempt := a\<rparr>) = bk_orderly c"
  "bk_orderly (c\<lparr>bk_retry_delay := d\<rparr>) = bk_orderly c" "bk_orderly (c\<lparr>bk_socket_open := f\<rparr>) = bk_orderly c"
  "bk_orderly (c\<lparr>bk_closed := f\<rparr>) = bk_orderly c" "bk_orderly (c\<lparr>bk_accepted := q\<rparr>) = bk_orderly c"
  "bk_orderly (c\<lparr>bk_client := f\<rparr>) = bk_orderly c"
  by (simp_all add: bk_orderly_def)

lemma shut_fields [simp]:
  "bk_connected (bk_shut c) = bk_connected c" "bk_write_in_progress (bk_shut c) = bk_write_in_progress c"
  "bk_write_queue (bk_shut c) = bk_write_queue c" "bk_popped (bk_shut c) = bk_popped c"
  "bk_wire (bk_shut c) = bk_wire c" "bk_closed (bk_shut c) = bk_closed c" "bk_queued_bytes (bk_shut c) = bk_queued_bytes c" "bk_flight (bk_shut c) = bk_flight c"
  by (simp_all add: bk_shut_def)

lemma orderly_shut:
  assumes "bk_flight c = {#}"
  shows "bk_orderly (bk_shut c) = bk_orderly c"
proof -
  have "bk_orderly (bk_cancel on_socket c) = bk_orderly c"
    by (rule orderly_cancel) (use assms flight_pending [of _ c] in auto)
  then show ?thesis by (simp add: bk_shut_def)
qed

lemma arm_fields [simp]:
  "bk_connected (bk_arm t c) = bk_connected c" "bk_write_in_progress (bk_arm t c) = bk_write_in_progress c"
  "bk_write_queue (bk_arm t c) = bk_write_queue c" "bk_popped (bk_arm t c) = bk_popped c"
  "bk_wire (bk_arm t c) = bk_wire c" "bk_closed (bk_arm t c) = bk_closed c" "bk_queued_bytes (bk_arm t c) = bk_queued_bytes c"
  by (simp_all add: bk_arm_def)

lemma arm_connect_timer [simp]:
  "bk_flight (bk_arm OpConnectTimer c) = bk_flight c" "bk_orderly (bk_arm OpConnectTimer c) = bk_orderly c"
proof -
  show "bk_flight (bk_arm OpConnectTimer c) = bk_flight c"
    unfolding bk_arm_def by (subst flight_cancel [symmetric, of _ "\<lambda>op. op = OpConnectTimer"]) (simp add: bk_flight_def bk_begin_def)
  show "bk_orderly (bk_arm OpConnectTimer c) = bk_orderly c"
    by (auto simp: bk_arm_def bk_begin_def bk_orderly_def bk_cancel_def list_all_iff)
qed

lemma arm_retry_timer:
  assumes "bk_flight c = {#}"
  shows "bk_flight (bk_arm OpRetryTimer c) = {#OpRetryTimer#}" and "bk_orderly (bk_arm OpRetryTimer c) = bk_orderly c"
  using assms flight_pending [of OpRetryTimer c] by (auto simp: bk_arm_def intro!: orderly_cancel)

lemma close_fields [simp]: "bk_wire (bk_close c) = bk_wire c" "bk_popped (bk_close c) = bk_popped c"
  by (simp_all add: bk_close_def Let_def)

lemma sequential_close: "bk_wire c = bk_popped c \<Longrightarrow> bk_sequential (bk_close c)"
  by (simp add: bk_sequential_def)

text \<open>An attempt without operations under way: the handler of its last one is running.\<close>

definition bk_dialling :: "BackendConnection \<Rightarrow> bool" where
  "bk_dialling c \<longleftrightarrow> bk_flight c = {#} \<and> bk_orderly c \<and> \<not> bk_connected c \<and> bk_popped c = [] \<and> bk_wire c = [] \<and>
     \<not> bk_write_in_progress c \<and> bk_queued_bytes c = sum_list (map length (bk_write_queue c))"

lemma sequential_attempt_failed:
  assumes "bk_dialling (fst s)"
  shows "bk_sequential (fst (bk_attempt_failed now s))"
proof -
  have give_up: "bk_sequential (bk_give_up (fst s))"
    using assms by (auto simp: bk_give_up_def bk_sequential_def bk_phase_ok_def bk_dialling_def dialling_def)
  have retry: "bk_sequential (bk_arm OpRetryTimer ((close_socket_for_retry ((fst s)\<lparr>bk_retry_attempt := a\<rparr>))\<lparr>bk_retry_delay := d\<rparr>))" for a d
    using assms by (simp add: bk_sequential_def bk_phase_ok_def bk_dialling_def close_socket_for_retry_def arm_retry_timer
        orderly_shut dialling_def)
  show ?thesis
    by (simp add: bk_attempt_failed_def schedule_connect_retry_def Let_def give_up retry split: prod.split bool.split)
qed

lemma sequential_resolved: "bk_dialling (fst s) \<Longrightarrow> bk_sequential (fst (on_resolved now ok s))"
  by (auto simp: on_resolved_def sequential_attempt_failed)
    (simp_all add: bk_sequential_def bk_phase_ok_def bk_dialling_def orderly_shut dialling_def)

lemma sequential_connected: "bk_dialling (fst s) \<Longrightarrow> bk_sequential (fst (on_connected rops t now ok s))"
proof -
  assume d: "bk_dialling (fst s)"
  let ?c = "bk_cancel (\<lambda>op. op = OpConnectTimer) (fst s)"
  have c: "bk_dialling ?c" using d by (simp add: bk_dialling_def orderly_cancel)
  have begun: "bk_orderly (bk_cancel (\<lambda>op. op = OpRetryTimer) c') = bk_orderly c'" if "OpRetryTimer \<notin># bk_flight c'" for c'
    using that flight_pending [of OpRetryTimer c'] by (auto intro!: orderly_cancel)
  show ?thesis
  proof (cases "ok \<and> \<not> bk_closed (fst s)")
    case True
    then show ?thesis
      using c by (cases "bk_write_queue (fst s)")
        (simp_all add: on_connected_def Let_def bk_sequential_def bk_phase_ok_def bk_dialling_def begun bk_do_write_def talking_def)
  next
    case False
    have "bk_sequential ?c" using c by (simp add: bk_sequential_def bk_phase_ok_def bk_dialling_def dialling_def)
    then show ?thesis
      using False sequential_attempt_failed [of "(?c, x)" now for x] c by (auto simp: on_connected_def Let_def)
  qed
qed

text \<open>A connection that is established.\<close>

lemma sequential_do_write:
  assumes "bk_connected c" and "bk_orderly c" and "bk_wire c = bk_popped c" and "bk_flight c \<in> {{#}, {#OpRead#}}"
    and "bk_write_queue c \<noteq> []" and "bk_queued_bytes c = sum_list (map length (bk_write_queue c))"
  shows "bk_sequential (bk_do_write c)"
  using assms by (cases "bk_write_queue c") (auto simp: bk_do_write_def bk_sequential_def bk_phase_ok_def talking_def)

lemma sequential_written:
  assumes "bk_connected (fst s)" and "bk_orderly (fst s)" and "bk_wire (fst s) = bk_popped (fst s)"
    and "bk_flight (fst s) \<in> {{#}, {#OpRead#}}" and "bk_write_queue (fst s) = msg # rest"
    and "bk_queued_bytes (fst s) = sum_list (map length (bk_write_queue (fst s)))"
  shows "bk_sequential (fst (on_written msg r s))"
proof -
  define c where "c = (fst s)\<lparr>bk_queued_bytes := sum_list (map length rest), bk_write_queue := rest,
      bk_popped := bk_popped (fst s) @ [msg], bk_wire := bk_wire (fst s) @ [msg]\<rparr>"
  have "bk_sequential (bk_do_write c)" if "rest \<noteq> []"
    by (rule sequential_do_write) (use assms that in \<open>simp_all add: c_def\<close>)
  moreover have "bk_sequential (c\<lparr>bk_write_in_progress := False\<rparr>)"
    using assms unfolding c_def by (auto simp: bk_sequential_def bk_phase_ok_def talking_def)
  moreover have "bk_sequential (fst s)" "bk_sequential (bk_give_up (fst s))"
    using assms by (auto simp: bk_sequential_def bk_phase_ok_def talking_def bk_give_up_def)
  ultimately show ?thesis using assms by (cases rest) (simp_all add: on_written_def Let_def c_def)
qed

lemma sequential_read:
  assumes "bk_connected c" and "bk_phase_ok c" and "bk_wire c = bk_popped c" and "OpRead \<notin># bk_flight c"
  shows "bk_sequential (bk_on_read r c)"
proof (cases r)
  case (BkOk data)
  then show ?thesis
    using assms by (auto simp: bk_on_read_def bk_sequential_def bk_phase_ok_def talking_def add_mset_commute split: if_splits)
qed (use assms in \<open>auto simp: bk_on_read_def bk_sequential_def bk_phase_ok_def intro!: sequential_close [unfolded bk_sequential_def]\<close>)

text \<open>The handler of any completed operation.\<close>

lemma flight_run:
  "bk_ready c = (op, r) # rest \<Longrightarrow> op \<noteq> OpConnectTimer \<Longrightarrow> bk_flight c = add_mset op (bk_flight (c\<lparr>bk_ready := rest\<rparr>))"
  by (simp add: bk_flight_def)

lemma sequential_closed_handled:
  assumes "bk_closed (fst s)" and "bk_wire (fst s) = bk_popped (fst s)"
  shows "bk_sequential (fst (bk_handle rops t now e s))"
  using assms
  by (cases e; cases "fst e")
    (auto simp: bk_sequential_def on_resolved_def on_connected_def Let_def on_connect_timeout_def on_written_def bk_on_read_def
      split: bk_result.split)

lemma sequential_run:
  assumes seq: "bk_sequential (fst s)" and ready: "bk_ready (fst s) = (op, r) # rest"
  shows "bk_sequential (fst (bk_handle rops t now (op, r) ((fst s)\<lparr>bk_ready := rest\<rparr>, snd s)))" (is "bk_sequential (fst (bk_handle _ _ _ _ ?s))")
proof (cases "bk_closed (fst s)")
  case True
  then show ?thesis using seq by (intro sequential_closed_handled) (simp_all add: bk_sequential_def)
next
  case False
  let ?c = "fst s" and ?c' = "(fst s)\<lparr>bk_ready := rest\<rparr>"
  have wire: "bk_wire ?c' = bk_popped ?c'" and ord: "bk_orderly ?c'" "(op = OpConnectTimer) = (r = BkAborted)" and ph: "bk_phase_ok ?c"
    using seq ready False by (simp_all add: bk_sequential_def bk_phase_ok_def bk_orderly_def)
  show ?thesis
  proof (cases "op = OpConnectTimer")
    case True
    then have "bk_flight ?c' = bk_flight ?c" using ready by (simp add: bk_flight_def)
    then show ?thesis using True ord wire ph by (simp add: bk_sequential_def bk_phase_ok_def split: if_splits)
  next
    case op: False
    note flight = flight_run [OF ready op]
    show ?thesis
    proof (cases "bk_connected ?c")
      case False
      then have d: "bk_dialling (fst ?s)" "op \<in> {OpResolve, OpConnect, OpRetryTimer}"
        using ph flight wire ord by (auto simp: bk_phase_ok_def bk_dialling_def dialling_def)
      then have "bk_sequential (do_connect ?c')"
        by (simp add: bk_sequential_def bk_phase_ok_def bk_dialling_def do_connect_def close_socket_for_retry_def orderly_shut dialling_def)
      then show ?thesis
        using d sequential_resolved [OF d(1)] sequential_connected [OF d(1)] \<open>\<not> bk_closed ?c\<close> ord(2) op by auto
    next
      case True
      have pair: "add_mset x M = {#y, z#} \<longleftrightarrow> x = y \<and> M = {#z#} \<or> x = z \<and> M = {#y#}" for x y z :: bk_op and M
        by (auto simp: add_eq_conv_diff)
      from True have "op = OpRead \<and> OpRead \<notin># bk_flight ?c' \<and> bk_phase_ok ?c' \<or>
          bk_flight ?c' \<in> {{#}, {#OpRead#}} \<and> (\<exists>msg rest. op = OpWrite msg \<and> bk_write_queue ?c' = msg # rest)"
        using ph flight ord(1)
        by (cases "bk_write_queue ?c") (auto simp: bk_phase_ok_def talking_def pair split: if_splits)
      then show ?thesis
        using sequential_read [of ?c' r] sequential_written [of ?s] True wire ord(1) ph by (auto simp: bk_phase_ok_def)
    qed
  qed
qed

lemma sequential_send:
  assumes "bk_sequential (fst s)"
  shows "bk_sequential (fst (snd (bk_send payload s)))"
proof (cases "bk_closed (fst s)")
  case True
  then show ?thesis using assms by (simp add: bk_send_def Let_def)
next
  case open_: False
  define c where "c = (fst s)\<lparr>bk_queued_bytes := bk_queued_bytes (fst s) + length payload,
    bk_write_queue := bk_write_queue (fst s) @ [payload], bk_accepted := bk_accepted (fst s) @ [payload]\<rparr>"
  have c: "bk_wire c = bk_popped c" "bk_phase_ok c"
    using assms open_ by (auto simp: c_def bk_sequential_def bk_phase_ok_def talking_def split: if_splits)
  then have "bk_sequential (bk_do_write c)" if "bk_connected c" "\<not> bk_write_in_progress c"
    using that by (intro sequential_do_write) (auto simp: bk_phase_ok_def talking_def c_def)
  moreover have "bk_sequential c" using c by (simp add: bk_sequential_def)
  moreover have "bk_sequential (bk_close (fst s))" using assms by (simp add: sequential_close bk_sequential_def)
  ultimately show ?thesis using assms by (simp add: bk_send_def Let_def flip: c_def)
qed

lemma sequential_reachable:
  assumes "bk_reach rops s0 s" and "bk_sequential (fst s0)"
  shows "bk_sequential (fst s)"
  using assms
proof (induction rule: bk_reach.induct)
  case (bk_next s e)
  then have seq: "bk_sequential (fst s)" by simp
  show ?case
  proof (cases e)
    case (BkComplete i r)
    let ?p = "bk_pending (fst s)"
    define c where "c = (fst s)\<lparr>bk_pending := take i ?p @ drop (Suc i) ?p, bk_ready := bk_ready (fst s) @ [(?p ! i, r)]\<rparr>"
    have "bk_sequential c" if "i < length ?p" "r \<noteq> BkAborted"
    proof -
      have "mset (bk_pending c) + mset (map fst (bk_ready c)) = mset ?p + mset (map fst (bk_ready (fst s)))"
        using arg_cong [OF id_take_nth_drop [OF that(1)], of mset] by (simp add: c_def)
      then have "bk_flight c = bk_flight (fst s)" by (simp add: bk_flight_def)
      moreover have "bk_orderly c = bk_orderly (fst s)"
        using that bk_next.hyps(2) BkComplete by (simp add: bk_orderly_def c_def)
      moreover have "bk_connected c = bk_connected (fst s)" "bk_wire c = bk_wire (fst s)" "bk_popped c = bk_popped (fst s)"
        "bk_closed c = bk_closed (fst s)" "bk_write_queue c = bk_write_queue (fst s)" "bk_queued_bytes c = bk_queued_bytes (fst s)"
        "bk_write_in_progress c = bk_write_in_progress (fst s)"
        by (simp_all add: c_def)
      ultimately show ?thesis using seq by (simp add: bk_sequential_def bk_phase_ok_def split: if_splits)
    qed
    then show ?thesis using seq BkComplete by (simp add: Let_def c_def)
  next
    case (BkRun t now)
    then show ?thesis using seq sequential_run [of s] by (auto split: list.split)
  next
    case (BkSend payload)
    then show ?thesis using seq by (simp add: sequential_send)
  next
    case BkClose
    then show ?thesis using seq by (simp add: sequential_close bk_sequential_def)
  next
    case BkClientGone
    then show ?thesis using seq by (simp add: bk_sequential_def bk_phase_ok_def split: if_splits)
  qed
qed simp

lemma accounts_reachable: "bk_reach rops s0 s \<Longrightarrow> bk_accounts (fst s0) \<Longrightarrow> bk_accounts (fst s)"
  by (induction rule: bk_reach.induct) (auto intro: backend_queue.step_inv)

section \<open>Theorems\<close>

definition bk_new :: "string \<Rightarrow> u16 \<Rightarrow> string \<Rightarrow> string \<Rightarrow> string \<Rightarrow> bool \<Rightarrow> nat \<Rightarrow> BackendConnection" where
  "bk_new host port session_id client_id instance_id sticky_hit send_queue_max_bytes =
     bk_connect host port (BackendConnection_init session_id client_id instance_id sticky_hit send_queue_max_bytes)"

lemma new_alive: "bk_alive (bk_new host port sid client inst sticky n)"
  by (simp add: bk_new_def bk_connect_def BackendConnection_init_def do_connect_def alive_begin)

lemma new_accounts: "bk_accounts (bk_new host port sid client inst sticky n)"
  by (simp add: bk_new_def bk_connect_def BackendConnection_init_def) (simp add: bk_accounts_def bk_accounts_ok_def)

lemma new_sequential: "bk_sequential (bk_new host port sid client inst sticky n)"
  by (simp add: bk_new_def bk_connect_def BackendConnection_init_def do_connect_def close_socket_for_retry_def bk_shut_def bk_begin_def
      bk_sequential_def bk_phase_ok_def bk_orderly_def bk_flight_def dialling_def)


text \<open>
  C40. As long as no connect attempt times out, however often attempts fail and are retried, what has been written to the
  backend's socket is the beginning of what was accepted, whole payloads in order, and until the connection closes the
  queue is exactly the rest and the byte counter its length.
\<close>

theorem backend_stream_in_order:
  assumes "bk_reach rops (bk_new host port sid client inst sticky n, b) (c, b')"
  shows "prefix (bk_wire c) (bk_accepted c) \<and>
    (\<not> bk_closed c \<longrightarrow>
       bk_accepted c = bk_wire c @ bk_write_queue c \<and> bk_queued_bytes c = sum_list (map length (bk_write_queue c)))"
proof -
  have "bk_sequential c" using sequential_reachable [OF assms] by (simp add: new_sequential)
  moreover have "bk_accounts c" using accounts_reachable [OF assms] by (simp add: new_accounts)
  ultimately show ?thesis
    by (auto simp: bk_sequential_def bk_phase_ok_def bk_accounts_def bk_accounts_ok_def split: if_splits)
qed

text \<open>A run with a failed attempt, a retry and two payloads.\<close>

definition demo_shared :: "(string \<rightharpoonup> string) BackendShared" where
  "demo_shared =
     \<lparr>bs_config = GatewayConfig_default, bs_retry_budget = RetryBudget_configure RetryBudget_init 3 60000,
      bs_circuit_breaker = CircuitBreaker_init, bs_directory = None, bs_redis = Map.empty, bs_resolve_fail_total = 0,
      bs_connect_fail_total = 0, bs_connect_timeout_total = 0, bs_write_error_total = 0, bs_send_queue_overflow_total = 0,
      bs_circuit_open_total = 0, bs_circuit_reject_total = 0, bs_connect_retry_total = 0, bs_retry_budget_exhausted_total = 0\<rparr>"

definition demo_backend :: "bk_event list \<Rightarrow> (string \<rightharpoonup> string) bk_state" where
  "demo_backend = foldl (bk_step plain_redis) (bk_new ''h'' 7000 ''s1'' ''c1'' ''b1'' False 1024, demo_shared)"

theorem backend_stream_in_order_witness:
  "let c = fst (demo_backend [BkComplete 0 (BkOk []), BkRun 0 1, BkSend [7], BkComplete 1 (BkOk []), BkRun 0 2, BkComplete 0 (BkOk []), BkRun 0 3,
     BkRun 0 4, BkSend [8]]) in
   prefix (bk_wire c) (bk_accepted c) \<and> bk_accepted c = bk_wire c @ bk_write_queue c \<and> bk_wire c = [[7]] \<and> bk_write_queue c = [[8]]"
proof -
  define s where "s = demo_backend [BkComplete 0 (BkOk []), BkRun 0 1, BkSend [7], BkComplete 1 (BkOk []), BkRun 0 2,
    BkComplete 0 (BkOk []), BkRun 0 3,
     BkRun 0 4, BkSend [8]]"
  have "bk_reach plain_redis (bk_new ''h'' 7000 ''s1'' ''c1'' ''b1'' False 1024, demo_shared) (fst s, snd s)"
    unfolding s_def demo_backend_def foldl.simps prod.collapse
    by (intro bk_next bk_start) code_simp+
  from backend_stream_in_order [OF this]
  have "prefix (bk_wire (fst s)) (bk_accepted (fst s)) \<and> (\<not> bk_closed (fst s) \<longrightarrow> bk_accepted (fst s) = bk_wire (fst s) @ bk_write_queue (fst s))"
    by simp
  moreover have "\<not> bk_closed (fst s) \<and> bk_wire (fst s) = [[7]] \<and> bk_write_queue (fst s) = [[8]]"
    unfolding s_def by code_simp
  ultimately show ?thesis unfolding s_def [symmetric] Let_def by simp
qed

text \<open>
  The timer of an attempt may have expired just when the attempt succeeds. Its handler then tears the established
  connection down and dials again, and the new connection is given the payloads after the ones already written to the
  old: the second payload arrives at the chat server without the first.
\<close>

lemma late_timeout_splits_stream:
  "let c = fst (demo_backend
      [BkComplete 0 (BkOk []), BkRun 0 1, BkSend [1], BkComplete 1 (BkOk []), BkComplete 0 (BkOk []), BkRun 0 2,
       BkComplete 0 (BkOk []), BkRun 0 3, BkRun 0 4, BkRun 0 5, BkComplete 0 (BkOk []), BkRun 0 6,
       BkComplete 0 (BkOk []), BkRun 0 7, BkComplete 1 (BkOk []), BkRun 0 8, BkSend [2], BkComplete 1 (BkOk []), BkRun 0 9,
       BkRun 0 10])
   in bk_accepted c = [[1], [2]] \<and> bk_wire c = [[2]] \<and> \<not> bk_closed c"
  by code_simp

text \<open>
  An attempt that times out counts twice: once for the timer and once for the connect it cancels. Two retries are taken from
  the budget for the one that is carried out.
\<close>

lemma timeout_counts_twice:
  "let s = demo_backend [BkComplete 0 (BkOk []), BkRun 0 1, BkComplete 0 (BkOk []), BkRun 0 2, BkRun 0 3] in
   bk_retry_attempt (fst s) = 2 \<and> bs_connect_retry_total (snd s) = 2 \<and>
   bs_connect_timeout_total (snd s) = 1 \<and> bs_connect_fail_total (snd s) = 1 \<and> bk_pending (fst s) = [OpRetryTimer]"
  by code_simp

end
