(* ===== verification/Gateway_Routing.thy ===== *)
theory Gateway_Routing
  imports Backend_Connection
begin

text \<open>
  Choosing a chat server for a client (\<open>GatewayApp::select_best_server\<close>): the sticky backend of the session directory if
  it is still ready, otherwise the ready instance with the fewest sessions. The registry is outside the program; its
  answer, the list of instances, is an argument.
\<close>

record InstanceRecord =
  ir_instance_id :: string
  ir_host :: string
  ir_port :: u16
  ir_role :: string
  ir_game_mode :: string
  ir_region :: string
  ir_shard :: string
  ir_tags :: "string list"
  ir_capacity :: u32
  ir_active_sessions :: u32
  ir_ready :: bool
  ir_last_heartbeat_ms :: u64

type_synonym SelectedBackend = "InstanceRecord \<times> bool"

text \<open>The conditions of the loop, and the loop.\<close>

definition ir_usable :: "InstanceRecord \<Rightarrow> bool" where
  "ir_usable rec \<longleftrightarrow> ir_ready rec \<and> ir_instance_id rec \<noteq> [] \<and> ir_host rec \<noteq> [] \<and> ir_port rec \<noteq> 0"

fun least_loaded :: "InstanceRecord list \<Rightarrow> InstanceRecord option \<Rightarrow> InstanceRecord option" where
  "least_loaded [] selected = selected"
| "least_loaded (rec # rest) selected =
     least_loaded rest
       (if \<not> ir_usable rec then selected
        else case selected of
               None \<Rightarrow> Some rec
             | Some best \<Rightarrow> if ir_active_sessions rec < ir_active_sessions best then Some rec else selected)"

definition select_new :: "InstanceRecord list \<Rightarrow> SelectedBackend option" where
  "select_new instances = map_option (\<lambda>rec. (rec, False)) (least_loaded instances None)"

text \<open>\<open>None\<close> for the instances stands for a gateway without a registry.\<close>

definition select_best_server ::
    "'r redis_ops \<Rightarrow> int \<Rightarrow> InstanceRecord list option \<Rightarrow> string \<Rightarrow> 'r BackendShared \<Rightarrow> SelectedBackend option \<times> 'r BackendShared" where
  "select_best_server rops t registry client_id b =
     (case registry of
        None \<Rightarrow> (None, b)
      | Some [] \<Rightarrow> (None, b)
      | Some instances \<Rightarrow>
          (case bs_directory b of
             None \<Rightarrow> (select_new instances, b)
           | Some d \<Rightarrow>
               if client_id = [] \<or> client_id = ''anonymous'' then (select_new instances, b)
               else
                 (case find_backend rops d (bs_redis b) client_id t t of
                    (None, d) \<Rightarrow> (select_new instances, b\<lparr>bs_directory := Some d\<rparr>)
                  | (Some backend_id, d) \<Rightarrow>
                      (case find (\<lambda>rec. ir_instance_id rec = backend_id \<and> ir_ready rec) instances of
                         Some rec \<Rightarrow> (Some (rec, True), b\<lparr>bs_directory := Some d\<rparr>)
                       | None \<Rightarrow>
                           (case release_backend rops d (bs_redis b) client_id backend_id of
                              (d, r) \<Rightarrow> (select_new instances, b\<lparr>bs_directory := Some d, bs_redis := r\<rparr>))))))"

section \<open>What is chosen\<close>

lemma least_loaded_spec:
  "case least_loaded instances selected of
     None \<Rightarrow> selected = None \<and> (\<forall>rec \<in> set instances. \<not> ir_usable rec)
   | Some best \<Rightarrow>
       (best \<in> set instances \<and> ir_usable best \<or> selected = Some best) \<and>
       (\<forall>rec \<in> set instances. ir_usable rec \<longrightarrow> ir_active_sessions best \<le> ir_active_sessions rec) \<and>
       (\<forall>first. selected = Some first \<longrightarrow> ir_active_sessions best \<le> ir_active_sessions first)"
proof (induction instances arbitrary: selected)
  case (Cons rec rest)
  show ?case
  proof (cases "ir_usable rec")
    case False
    then show ?thesis using Cons.IH [of selected] by (auto split: option.splits)
  next
    case True
    show ?thesis
    proof (cases selected)
      case None
      then show ?thesis using True Cons.IH [of "Some rec"] by (auto split: option.splits)
    next
      case (Some first)
      then show ?thesis
        using True Cons.IH [of "Some rec"] Cons.IH [of "Some first"]
        by (cases "ir_active_sessions rec < ir_active_sessions first") (fastforce split: option.splits)+
    qed
  qed
qed (simp split: option.split)

definition choice_ok ::
    "'r redis_ops \<Rightarrow> int \<Rightarrow> InstanceRecord list \<Rightarrow> string \<Rightarrow> 'r BackendShared \<Rightarrow> SelectedBackend option \<Rightarrow> bool" where
  "choice_ok rops t instances client_id b choice \<longleftrightarrow>
     (case choice of
        None \<Rightarrow> \<forall>rec \<in> set instances. \<not> ir_usable rec
      | Some (best, sticky) \<Rightarrow>
          best \<in> set instances \<and>
          (if sticky then
             ir_ready best \<and> client_id \<notin> {[], ''anonymous''} \<and>
             (\<exists>d. bs_directory b = Some d \<and> fst (find_backend rops d (bs_redis b) client_id t t) = Some (ir_instance_id best))
           else ir_usable best \<and> (\<forall>rec \<in> set instances. ir_usable rec \<longrightarrow> ir_active_sessions best \<le> ir_active_sessions rec)))"

lemma choice_new: "choice_ok rops t instances client_id b (select_new instances)"
  using least_loaded_spec [where instances = instances and selected = None]
  by (auto simp: choice_ok_def select_new_def split: option.splits)

text \<open>A backend is refused only when the registry lists no usable one. A new choice is a usable instance and no usable instance
  has fewer sessions; a sticky choice is a ready instance with the identifier the directory has for the client.
\<close>

theorem select_best_server_sound:
  "choice_ok rops t instances client_id b (fst (select_best_server rops t (Some instances) client_id b))"
proof (cases "instances = [] \<or> bs_directory b = None \<or> client_id = [] \<or> client_id = ''anonymous''")
  case True
  have "choice_ok rops t [] client_id b None" by (simp add: choice_ok_def)
  with True show ?thesis using choice_new by (cases instances) (auto simp: select_best_server_def split: option.split)
next
  case False
  then obtain first rest d where d: "instances = first # rest" "bs_directory b = Some d" by (cases instances) auto
  obtain r d' where found: "find_backend rops d (bs_redis b) client_id t t = (r, d')"
    by (cases "find_backend rops d (bs_redis b) client_id t t")
  show ?thesis
  proof (cases r)
    case None
    then show ?thesis using False d found choice_new [of rops t instances] by (simp add: select_best_server_def)
  next
    case (Some backend_id)
    let ?P = "\<lambda>rec. ir_instance_id rec = backend_id \<and> ir_ready rec"
    show ?thesis
    proof (cases "find ?P instances")
      case None
      then show ?thesis
        using False d found Some choice_new [of rops t instances] by (simp add: select_best_server_def split: prod.split)
    next
      case rec: (Some rec)
      then have "rec \<in> set instances \<and> ?P rec" by (auto simp: find_Some_iff)
      then have "choice_ok rops t instances client_id b (Some (rec, True))"
        using False d found Some by (simp add: choice_ok_def)
      then show ?thesis using False d found Some rec by (simp add: select_best_server_def)
    qed
  qed
qed

text \<open>A client whose sticky backend is listed and ready is sent there, however loaded it is.\<close>

lemma select_sticky:
  assumes "bs_directory b = Some d" and "client_id \<notin> {[], ''anonymous''}"
    and "find_backend rops d (bs_redis b) client_id t t = (Some backend_id, d')"
    and "rec \<in> set instances" "ir_instance_id rec = backend_id" "ir_ready rec"
  shows "\<exists>best. fst (select_best_server rops t (Some instances) client_id b) = Some (best, True) \<and> ir_instance_id best = backend_id"
proof -
  let ?P = "\<lambda>rec. ir_instance_id rec = backend_id \<and> ir_ready rec"
  have "find ?P instances \<noteq> None" using assms(4-6) by (auto simp: find_None_iff)
  then obtain best where best: "find ?P instances = Some best" by auto
  then have "?P best" by (auto simp: find_Some_iff)
  moreover obtain first rest where "instances = first # rest" using assms(4) by (cases instances) auto
  ultimately show ?thesis using assms(1-3) best by (auto simp: select_best_server_def)
qed

end
