(* ===== verification/Token_Bucket.thy ===== *)
theory Token_Bucket
  imports Prelude Complex_Main
begin

text \<open>
  \<open>TokenBucket\<close> (\<^verbatim>\<open>core/include/server/core/net/resilience_controls.hpp\<close>), the gateway's admission rate limit. It computes
  with \<open>double\<close>: every operation is the exact one followed by rounding to the nearest double, here a function
  \<open>rnd\<close> on the rationals. What is used of IEEE 754 is stated once: rounding is monotone, leaves doubles and zero as they
  are, and one less than a double between 1 and \<open>2 ^ 53\<close> is a double.
\<close>

section \<open>Bucket\<close>

record TokenBucket =
  tb_refill_per_sec :: rat
  tb_burst_tokens :: rat
  tb_tokens :: rat
  tb_last_refill_ms :: u64

definition TokenBucket_init :: TokenBucket where
  "TokenBucket_init = \<lparr>tb_refill_per_sec = 0, tb_burst_tokens = 0, tb_tokens = 0, tb_last_refill_ms = 0\<rparr>"

definition TokenBucket_configure :: "rat \<Rightarrow> rat \<Rightarrow> TokenBucket \<Rightarrow> TokenBucket" where
  "TokenBucket_configure tokens_per_sec burst_tokens b =
     b\<lparr>tb_refill_per_sec := max 0 tokens_per_sec, tb_burst_tokens := max 0 burst_tokens, tb_tokens := max 0 burst_tokens,
       tb_last_refill_ms := 0\<rparr>"

definition refill_locked :: "(rat \<Rightarrow> rat) \<Rightarrow> u64 \<Rightarrow> TokenBucket \<Rightarrow> TokenBucket" where
  "refill_locked rnd now_ms b =
     (if tb_last_refill_ms b = 0 then b\<lparr>tb_last_refill_ms := now_ms\<rparr>
      else if now_ms \<le> tb_last_refill_ms b then b
      else
        let elapsed_ms = now_ms - tb_last_refill_ms b;
            refill = rnd (tb_refill_per_sec b * rnd (rnd (of_nat (unat elapsed_ms)) / 1000))
        in b\<lparr>tb_tokens := min (tb_burst_tokens b) (rnd (tb_tokens b + refill)), tb_last_refill_ms := now_ms\<rparr>)"

definition TokenBucket_consume :: "(rat \<Rightarrow> rat) \<Rightarrow> u64 \<Rightarrow> rat \<Rightarrow> TokenBucket \<Rightarrow> bool \<times> TokenBucket" where
  "TokenBucket_consume rnd now_ms amount b =
     (let b = refill_locked rnd now_ms b; required = max 0 amount in
      if tb_tokens b < required then (False, b)
      else (True, b\<lparr>tb_tokens := rnd (tb_tokens b - required)\<rparr>))"

definition TokenBucket_available :: "(rat \<Rightarrow> rat) \<Rightarrow> u64 \<Rightarrow> TokenBucket \<Rightarrow> rat \<times> TokenBucket" where
  "TokenBucket_available rnd now_ms b = (let b = refill_locked rnd now_ms b in (tb_tokens b, b))"

section \<open>Bounds\<close>

definition double_rounding :: "(rat \<Rightarrow> rat) \<Rightarrow> bool" where
  "double_rounding rnd \<longleftrightarrow>
     (\<forall>x y. x \<le> y \<longrightarrow> rnd x \<le> rnd y) \<and> (\<forall>x. rnd (rnd x) = rnd x) \<and> rnd 0 = 0 \<and>
     (\<forall>x. rnd x = x \<and> 1 \<le> x \<and> x \<le> 2 ^ 53 \<longrightarrow> rnd (x - 1) = x - 1)"

text \<open>The level is a double between zero and the burst, which is a double too.\<close>

definition bucket_ok :: "(rat \<Rightarrow> rat) \<Rightarrow> TokenBucket \<Rightarrow> bool" where
  "bucket_ok rnd b \<longleftrightarrow>
     0 \<le> tb_refill_per_sec b \<and> 0 \<le> tb_tokens b \<and> tb_tokens b \<le> tb_burst_tokens b \<and> tb_burst_tokens b \<le> 2 ^ 53 \<and>
     rnd (tb_tokens b) = tb_tokens b \<and> rnd (tb_burst_tokens b) = tb_burst_tokens b"

lemma rnd_nonneg: "double_rounding rnd \<Longrightarrow> 0 \<le> x \<Longrightarrow> 0 \<le> rnd x"
  unfolding double_rounding_def by metis

lemma rnd_min: "double_rounding rnd \<Longrightarrow> rnd x = x \<Longrightarrow> rnd (min x (rnd y)) = min x (rnd y)"
  by (simp add: double_rounding_def min_def)

lemma refill_ok:
  assumes d: "double_rounding rnd" and ok: "bucket_ok rnd b"
  shows "bucket_ok rnd (refill_locked rnd now b)"
proof -
  define refill where "refill = rnd (tb_refill_per_sec b * rnd (rnd (of_nat (unat (now - tb_last_refill_ms b))) / 1000))"
  have "0 \<le> refill"
    unfolding refill_def using ok by (intro rnd_nonneg [OF d] mult_nonneg_nonneg divide_nonneg_nonneg of_nat_0_le_iff) (simp_all add: bucket_ok_def)
  then have "0 \<le> rnd (tb_tokens b + refill)" using ok by (intro rnd_nonneg [OF d]) (simp add: bucket_ok_def)
  then show ?thesis
    using ok rnd_min [OF d] by (simp add: refill_locked_def bucket_ok_def Let_def del: of_nat_unat flip: refill_def)
qed

lemma refill_fields [simp]:
  "tb_burst_tokens (refill_locked rnd now b) = tb_burst_tokens b"
  "tb_refill_per_sec (refill_locked rnd now b) = tb_refill_per_sec b"
  by (simp_all add: refill_locked_def Let_def)

lemma consume_one_ok:
  assumes d: "double_rounding rnd" and ok: "bucket_ok rnd b"
  shows "bucket_ok rnd (snd (TokenBucket_consume rnd now 1 b))"
proof -
  let ?b = "refill_locked rnd now b"
  have b: "bucket_ok rnd ?b" using refill_ok [OF d ok] .
  show ?thesis
  proof (cases "1 \<le> tb_tokens ?b")
    case True
    moreover have "rnd (tb_tokens ?b - 1) = tb_tokens ?b - 1"
      using d b True by (auto simp: double_rounding_def bucket_ok_def)
    ultimately show ?thesis using b by (simp add: TokenBucket_consume_def Let_def bucket_ok_def)
  qed (use b in \<open>simp add: TokenBucket_consume_def Let_def\<close>)
qed

text \<open>Permits granted by a series of calls, and the bucket after it.\<close>

fun consume_all :: "(rat \<Rightarrow> rat) \<Rightarrow> u64 list \<Rightarrow> TokenBucket \<Rightarrow> nat \<times> TokenBucket" where
  "consume_all rnd [] b = (0, b)"
| "consume_all rnd (now # nows) b =
     (case TokenBucket_consume rnd now 1 b of (granted, b) \<Rightarrow>
        case consume_all rnd nows b of (n, b) \<Rightarrow> (of_bool granted + n, b))"

lemma consume_all_ok: "double_rounding rnd \<Longrightarrow> bucket_ok rnd b \<Longrightarrow> bucket_ok rnd (snd (consume_all rnd nows b))"
  by (induction nows arbitrary: b) (auto simp: split_beta consume_one_ok)

text \<open>Calls with one reading of the clock: each permit takes a whole token and nothing is refilled.\<close>

lemma consume_tokens:
  assumes "double_rounding rnd" and "bucket_ok rnd b"
  shows "tb_tokens (snd (TokenBucket_consume rnd now 1 b)) =
    tb_tokens (refill_locked rnd now b) - of_bool (fst (TokenBucket_consume rnd now 1 b))"
  using assms(1) refill_ok [OF assms, of now] by (auto simp: TokenBucket_consume_def Let_def double_rounding_def bucket_ok_def)

lemma consume_last: "tb_last_refill_ms (snd (TokenBucket_consume rnd now 1 b)) = tb_last_refill_ms (refill_locked rnd now b)"
  by (simp add: TokenBucket_consume_def Let_def)

lemma consume_again:
  assumes "double_rounding rnd" and "bucket_ok rnd b" and "tb_last_refill_ms b \<noteq> 0" and "now \<le> tb_last_refill_ms b"
  shows "of_nat (fst (consume_all rnd (replicate k now) b)) \<le> tb_tokens b"
  using assms(2-)
proof (induction k arbitrary: b)
  case 0
  then show ?case by (simp add: bucket_ok_def)
next
  case (Suc k)
  have same: "refill_locked rnd now b = b" using Suc.prems by (simp add: refill_locked_def)
  let ?b' = "snd (TokenBucket_consume rnd now 1 b)"
  have "of_nat (fst (consume_all rnd (replicate k now) ?b')) \<le> tb_tokens ?b'"
    using Suc.prems by (intro Suc.IH consume_one_ok [OF assms(1)]) (simp_all add: consume_last same)
  then show ?case using consume_tokens [OF assms(1) Suc.prems(1), of now] by (simp add: split_beta same)
qed

text \<open>
  However long the gateway has been running, no more connections than the burst are admitted at one reading of the clock.
\<close>

theorem token_bucket_burst:
  assumes d: "double_rounding rnd" and "rnd burst = burst" and "0 \<le> burst" and "burst \<le> 2 ^ 53" and "now \<noteq> 0"
  shows "let b = snd (consume_all rnd before (TokenBucket_configure rate burst TokenBucket_init)) in
    of_nat (fst (consume_all rnd (replicate k now) b)) \<le> burst \<and> 0 \<le> tb_tokens b \<and> tb_tokens b \<le> burst"
proof -
  define b where "b = snd (consume_all rnd before (TokenBucket_configure rate burst TokenBucket_init))"
  have start: "bucket_ok rnd (TokenBucket_configure rate burst TokenBucket_init)"
    using assms by (simp add: TokenBucket_configure_def TokenBucket_init_def bucket_ok_def)
  then have ok: "bucket_ok rnd b" unfolding b_def by (rule consume_all_ok [OF d])
  have burst: "tb_burst_tokens (snd (consume_all rnd nows c)) = tb_burst_tokens c" for nows c
    by (induction nows arbitrary: c) (auto simp: split_beta TokenBucket_consume_def Let_def)
  have b: "tb_burst_tokens b = burst" using \<open>0 \<le> burst\<close> unfolding b_def burst by (simp add: TokenBucket_configure_def)
  have "of_nat (fst (consume_all rnd (replicate k now) b)) \<le> burst"
  proof (cases k)
    case (Suc j)
    let ?b' = "snd (TokenBucket_consume rnd now 1 b)"
    have "tb_last_refill_ms ?b' \<noteq> 0 \<and> now \<le> tb_last_refill_ms ?b'"
      using \<open>now \<noteq> 0\<close> by (auto simp: consume_last refill_locked_def Let_def)
    then have "of_nat (fst (consume_all rnd (replicate j now) ?b')) \<le> tb_tokens ?b'"
      using consume_one_ok [OF d ok] by (intro consume_again [OF d]) simp_all
    then show ?thesis
      using consume_tokens [OF d ok, of now] refill_ok [OF d ok, of now] b Suc by (simp add: split_beta bucket_ok_def)
  qed (use ok b in \<open>simp add: bucket_ok_def\<close>)
  then show ?thesis using ok b by (simp add: bucket_ok_def flip: b_def)
qed

theorem token_bucket_burst_witness:
  "let b = snd (consume_all id [5, 6] (TokenBucket_configure 200 2 TokenBucket_init)) in
   of_nat (fst (consume_all id (replicate 9 7) b)) \<le> (2 :: rat)"
  using token_bucket_burst [of id 2 7 "[5, 6]" 200 9] by (simp add: double_rounding_def Let_def)

end
