(* ===== verification/Gateway_App.thy ===== *)
theory Gateway_App
  imports Gateway_Bridge Backend_Properties Gateway_Routing Token_Bucket Udp_Ingress
begin

text \<open>
  The gateway put together (\<^verbatim>\<open>gateway/src/gateway_app.cpp\<close>): admission, creating and closing backend connections, and
  the operations a client's connection calls. The state holds the session table and the UDP side (\<open>ga_udp\<close>), what the
  backend connections share (\<open>ga_shared\<close>) and the backend connections themselves, as a store from session identifiers
  to objects: an object outlives its entry in the session table as long as the client's connection holds it. What the
  environment supplies at a call (clocks, the registry's answer, random numbers) is the field \<open>ga_env\<close>, which
  may change between any two steps.
\<close>

section \<open>State\<close>

record gateway_env =
  ge_steady_ms :: u64
  ge_unix_ms :: u64
  ge_directory_clock :: int
  ge_registry :: "InstanceRecord list option"
  ge_random :: "u32 \<times> u32"
  ge_ready :: bool
  ge_healthy :: bool
  ge_stop_requested :: bool

record 'r GatewayApp =
  ga_env :: gateway_env
  ga_boot_id :: string
  ga_counter :: u64
  ga_udp :: GatewayUdp
  ga_shared :: "'r BackendShared"
  ga_backends :: "string \<rightharpoonup> BackendConnection"
  ga_ingress_bucket :: TokenBucket
  ga_connections_total :: u64
  ga_reject_not_ready_total :: u64
  ga_reject_rate_limit_total :: u64
  ga_reject_session_limit_total :: u64
  ga_reject_circuit_open_total :: u64

section \<open>Admission\<close>

definition admit_ingress_connection :: "(rat \<Rightarrow> rat) \<Rightarrow> 'r GatewayApp \<Rightarrow> IngressAdmission \<times> 'r GatewayApp" where
  "admit_ingress_connection rnd a =
     (let env = ga_env a; max_active = gc_ingress_max_active_sessions (bs_config (ga_shared a)) in
      if \<not> ge_ready env \<or> \<not> ge_healthy env \<or> ge_stop_requested env then
        (kRejectNotReady, a\<lparr>ga_reject_not_ready_total := ga_reject_not_ready_total a + 1\<rparr>)
      else
        case CircuitBreaker_is_open (bs_circuit_breaker (ga_shared a)) (ge_steady_ms env) of (is_open, cb) \<Rightarrow>
          let a = a\<lparr>ga_shared := (ga_shared a)\<lparr>bs_circuit_breaker := cb\<rparr>\<rparr> in
          if is_open then (kRejectCircuitOpen, a\<lparr>ga_reject_circuit_open_total := ga_reject_circuit_open_total a + 1\<rparr>)
          else if 0 < max_active \<and> max_active \<le> length (gu_sessions (ga_udp a)) then
            (kRejectSessionLimit, a\<lparr>ga_reject_session_limit_total := ga_reject_session_limit_total a + 1\<rparr>)
          else
            case TokenBucket_consume rnd (ge_steady_ms env) 1 (ga_ingress_bucket a) of (granted, bucket) \<Rightarrow>
              let a = a\<lparr>ga_ingress_bucket := bucket\<rparr> in
              if \<not> granted then (kRejectRateLimited, a\<lparr>ga_reject_rate_limit_total := ga_reject_rate_limit_total a + 1\<rparr>)
              else (kAccept, a))"

fun ingress_admission_name :: "IngressAdmission \<Rightarrow> string" where
  "ingress_admission_name kAccept = ''accept''"
| "ingress_admission_name kRejectNotReady = ''not_ready''"
| "ingress_admission_name kRejectRateLimited = ''rate_limited''"
| "ingress_admission_name kRejectSessionLimit = ''session_limit''"
| "ingress_admission_name kRejectCircuitOpen = ''circuit_open''"

definition record_connection_accept :: "'r GatewayApp \<Rightarrow> 'r GatewayApp" where
  "record_connection_accept a = a\<lparr>ga_connections_total := ga_connections_total a + 1\<rparr>"

section \<open>Backend connections\<close>

definition session_id_of :: "'r GatewayApp \<Rightarrow> u64 \<Rightarrow> string" where
  "session_id_of a n = gc_gateway_id (bs_config (ga_shared a)) @ ''-'' @ ga_boot_id a @ ''-'' @ show_nat (unat n)"

definition create_backend_connection :: "'r redis_ops \<Rightarrow> string \<Rightarrow> 'r GatewayApp \<Rightarrow> string option \<times> 'r GatewayApp" where
  "create_backend_connection rops client_id a =
     (case backend_circuit_allows_connect (ge_steady_ms (ga_env a)) (ga_shared a) of
        (False, b) \<Rightarrow> (None, a\<lparr>ga_shared := b\<rparr>)
      | (True, b) \<Rightarrow>
          (case select_best_server rops (ge_directory_clock (ga_env a)) (ge_registry (ga_env a)) client_id b of
             (None, b) \<Rightarrow> (None, a\<lparr>ga_shared := b\<rparr>)
           | (Some (rec, sticky), b) \<Rightarrow>
               let a = a\<lparr>ga_shared := b, ga_counter := ga_counter a + 1\<rparr>;
                   session_id = session_id_of a (ga_counter a);
                   session = bk_new (ir_host rec) (ir_port rec) session_id client_id (ir_instance_id rec) sticky
                               (gc_backend_send_queue_max_bytes (bs_config b))
               in (Some session_id,
                   a\<lparr>ga_backends := (ga_backends a)(session_id \<mapsto> session), ga_udp := add_session session_id client_id (ga_udp a)\<rparr>)))"

definition close_backend_connection :: "string \<Rightarrow> 'r GatewayApp \<Rightarrow> 'r GatewayApp" where
  "close_backend_connection session_id a =
     (if find_session session_id (ga_udp a) = None then a
      else
        a\<lparr>ga_udp := erase_session session_id (ga_udp a),
          ga_backends := (ga_backends a)(session_id := map_option bk_close (ga_backends a session_id))\<rparr>)"

text \<open>Sending to the object of a session, and running one of its events.\<close>

definition send_backend :: "string \<Rightarrow> bytes \<Rightarrow> 'r GatewayApp \<Rightarrow> bool \<times> 'r GatewayApp" where
  "send_backend session_id data a =
     (case ga_backends a session_id of
        None \<Rightarrow> (False, a)
      | Some c \<Rightarrow>
          (case bk_send data (c, ga_shared a) of
             (overflow, c, b) \<Rightarrow> (overflow, a\<lparr>ga_shared := b, ga_backends := (ga_backends a)(session_id \<mapsto> c)\<rparr>)))"

definition backend_event :: "'r redis_ops \<Rightarrow> string \<Rightarrow> bk_event \<Rightarrow> 'r GatewayApp \<Rightarrow> 'r GatewayApp" where
  "backend_event rops session_id e a =
     (case ga_backends a session_id of
        None \<Rightarrow> a
      | Some c \<Rightarrow>
          (case bk_step rops (c, ga_shared a) e of
             (c, b) \<Rightarrow> a\<lparr>ga_shared := b, ga_backends := (ga_backends a)(session_id \<mapsto> c)\<rparr>))"

definition ticket_of :: "(string \<Rightarrow> string \<Rightarrow> bytes option) \<Rightarrow> string \<Rightarrow> 'r GatewayApp \<Rightarrow> bytes option \<times> 'r GatewayApp" where
  "ticket_of hmac session_id a =
     (case make_udp_bind_ticket_frame hmac session_id (fst (ge_random (ga_env a))) (snd (ge_random (ga_env a)))
             (ge_unix_ms (ga_env a)) (ga_udp a) of
        (frame, g) \<Rightarrow> (frame, a\<lparr>ga_udp := g\<rparr>))"

text \<open>Frames that came over UDP go to the backend connections of their sessions.\<close>

definition send_forwarded :: "(udp_endpoint \<times> string \<times> bytes) list \<Rightarrow> 'r GatewayApp \<Rightarrow> 'r GatewayApp" where
  "send_forwarded frames a = foldl (\<lambda>a (_, session_id, frame). snd (send_backend session_id frame a)) a frames"

definition receive_udp :: "(string \<Rightarrow> string \<Rightarrow> bytes option) \<Rightarrow> receive_result \<Rightarrow> 'r GatewayApp \<Rightarrow> 'r GatewayApp" where
  "receive_udp hmac r a =
     (let g = on_udp_receive hmac r (ge_unix_ms (ga_env a)) (ga_udp a)
      in send_forwarded (drop (length (gu_forwarded (ga_udp a))) (gu_forwarded g)) (a\<lparr>ga_udp := g\<rparr>))"

text \<open>\<open>GatewayApp::stop\<close>, as far as sessions are concerned.\<close>

definition stop_sessions :: "'r GatewayApp \<Rightarrow> 'r GatewayApp" where
  "stop_sessions a =
     (let ids = map fst (gu_sessions (ga_udp a)); g = stop_udp_listener (ga_udp a) in
      a\<lparr>ga_env := (ga_env a)\<lparr>ge_ready := False, ge_stop_requested := True\<rparr>,
        ga_backends := (\<lambda>sid. if sid \<in> set ids then map_option bk_close (ga_backends a sid) else ga_backends a sid),
        ga_udp := g\<lparr>gu_sessions := []\<rparr>\<rparr>)"

section \<open>The application as a client's connection sees it\<close>

definition gateway_app_ops ::
    "(rat \<Rightarrow> rat) \<Rightarrow> 'r redis_ops \<Rightarrow> (string \<Rightarrow> string \<Rightarrow> bytes option) \<Rightarrow> (AuthRequest \<Rightarrow> AuthResult) option \<Rightarrow> string option \<Rightarrow> bool \<Rightarrow>
     'r GatewayApp gateway_ops" where
  "gateway_app_ops rnd rops hmac auth remote_ip allow_anonymous =
     \<lparr>go_admit = admit_ingress_connection rnd, go_record_accept = record_connection_accept, go_remote_ip = remote_ip,
      go_authenticate = auth, go_allow_anonymous = allow_anonymous, go_create_backend = create_backend_connection rops,
      go_close_backend = close_backend_connection, go_ticket = ticket_of hmac, go_send = send_backend\<rparr>"

definition app_stream :: "string \<Rightarrow> 'r GatewayApp \<Rightarrow> bytes" where
  "app_stream sid a = (case ga_backends a sid of None \<Rightarrow> [] | Some c \<Rightarrow> concat (bk_accepted c))"

definition app_shut :: "string \<Rightarrow> 'r GatewayApp \<Rightarrow> bool" where
  "app_shut sid a \<longleftrightarrow> (case ga_backends a sid of None \<Rightarrow> True | Some c \<Rightarrow> bk_closed c)"

lemma accepted_close [simp]: "bk_accepted (bk_close c) = bk_accepted c"
  by (simp add: bk_close_def bk_shut_def bk_cancel_def Let_def)

lemma app_close_stream [simp]: "app_stream sid (close_backend_connection sid' a) = app_stream sid a"
  by (simp add: app_stream_def close_backend_connection_def split: option.split)

lemma app_close_shut [simp]: "app_shut sid a \<Longrightarrow> app_shut sid (close_backend_connection sid' a)"
  by (auto simp: app_shut_def close_backend_connection_def split: option.splits)

lemma app_ticket_stream [simp]:
  "app_stream sid (snd (ticket_of hmac sid' a)) = app_stream sid a" "app_shut sid (snd (ticket_of hmac sid' a)) = app_shut sid a"
  by (simp_all add: ticket_of_def app_stream_def app_shut_def split: prod.split)

lemma bk_send_cases:
  assumes "bk_send data s = (overflow, t)"
  shows "(bk_accepted (fst t) = bk_accepted (fst s) @ [data] \<and> data \<noteq> [] \<and> \<not> overflow \<and> bk_closed (fst t) = bk_closed (fst s)) \<or>
    (bk_accepted (fst t) = bk_accepted (fst s) \<and> (data = [] \<and> \<not> overflow \<or> overflow \<or> bk_closed (fst t)))"
    and "bk_closed (fst s) \<Longrightarrow> bk_closed (fst t) \<and> bk_accepted (fst t) = bk_accepted (fst s)"
proof -
  have w: "bk_accepted (bk_do_write c) = bk_accepted c" "bk_closed (bk_do_write c) = bk_closed c" for c
    by (simp_all add: bk_do_write_def bk_begin_def split: list.split)
  show "(bk_accepted (fst t) = bk_accepted (fst s) @ [data] \<and> data \<noteq> [] \<and> \<not> overflow \<and> bk_closed (fst t) = bk_closed (fst s)) \<or>
    (bk_accepted (fst t) = bk_accepted (fst s) \<and> (data = [] \<and> \<not> overflow \<or> overflow \<or> bk_closed (fst t)))"
    using assms by (auto simp: bk_send_def Let_def w split: if_splits)
  show "bk_closed (fst s) \<Longrightarrow> bk_closed (fst t) \<and> bk_accepted (fst t) = bk_accepted (fst s)"
    using assms by (auto simp: bk_send_def Let_def split: if_splits)
qed

interpretation gateway_streams: backend_streams "gateway_app_ops rnd rops hmac auth remote_ip allow_anonymous" app_stream app_shut
  for rnd rops hmac auth remote_ip allow_anonymous
proof unfold_locales
  fix sid data overflow and a a' :: "'a GatewayApp"
  assume "go_send (gateway_app_ops rnd rops hmac auth remote_ip allow_anonymous) sid data a = (overflow, a')"
  then show "\<not> overflow \<and> app_stream sid a' = app_stream sid a @ data \<or> (overflow \<or> app_shut sid a') \<and> app_stream sid a' = app_stream sid a"
    using bk_send_cases(1) [of data "(the (ga_backends a sid), ga_shared a)"]
    by (auto simp: gateway_app_ops_def send_backend_def app_stream_def app_shut_def split: option.splits prod.splits)
next
  fix sid data and a :: "'a GatewayApp"
  assume "app_shut sid a"
  then show "app_shut sid (snd (go_send (gateway_app_ops rnd rops hmac auth remote_ip allow_anonymous) sid data a)) \<and>
      app_stream sid (snd (go_send (gateway_app_ops rnd rops hmac auth remote_ip allow_anonymous) sid data a)) = app_stream sid a"
    using bk_send_cases(2) [of data "(the (ga_backends a sid), ga_shared a)"]
    by (auto simp: gateway_app_ops_def send_backend_def app_stream_def app_shut_def split: option.splits prod.splits)
next
  fix client sid and a a' :: "'a GatewayApp"
  assume "go_create_backend (gateway_app_ops rnd rops hmac auth remote_ip allow_anonymous) client a = (Some sid, a')"
  then show "sid \<noteq> [] \<and> app_stream sid a' = []"
    by (auto simp: gateway_app_ops_def create_backend_connection_def session_id_of_def app_stream_def Let_def bk_new_def bk_connect_def
        BackendConnection_init_def do_connect_def close_socket_for_retry_def bk_shut_def bk_begin_def
        split: prod.splits bool.splits option.splits)
qed (simp_all add: gateway_app_ops_def)

section \<open>The rest of the application\<close>

text \<open>
  What else happens in the gateway between two events of a connection: the environment moves on, operations of backend
  connections complete and their handlers run, datagrams arrive, other clients are admitted, log in, send and leave.
\<close>

datatype app_event =
    AeEnv gateway_env | AeBackend string bk_event | AeUdp receive_result | AeAdmit | AeCreate string | AeClose string
  | AeTicket string | AeSend string bytes | AeStop

fun app_step ::
    "(rat \<Rightarrow> rat) \<Rightarrow> 'r redis_ops \<Rightarrow> (string \<Rightarrow> string \<Rightarrow> bytes option) \<Rightarrow> 'r GatewayApp \<Rightarrow> app_event \<Rightarrow> 'r GatewayApp" where
  "app_step rnd rops hmac a (AeEnv env) = a\<lparr>ga_env := env\<rparr>"
| "app_step rnd rops hmac a (AeBackend sid e) = backend_event rops sid e a"
| "app_step rnd rops hmac a (AeUdp r) = receive_udp hmac r a"
| "app_step rnd rops hmac a AeAdmit = snd (admit_ingress_connection rnd a)"
| "app_step rnd rops hmac a (AeCreate client) = snd (create_backend_connection rops client a)"
| "app_step rnd rops hmac a (AeClose sid) = close_backend_connection sid a"
| "app_step rnd rops hmac a (AeTicket sid) = snd (ticket_of hmac sid a)"
| "app_step rnd rops hmac a (AeSend sid data) = snd (send_backend sid data a)"
| "app_step rnd rops hmac a AeStop = stop_sessions a"

text \<open>Events that put bytes into the stream of a session: a send, a datagram forwarded to it, or a new session with its identifier.\<close>

fun touches :: "(string \<Rightarrow> string \<Rightarrow> bytes option) \<Rightarrow> string \<Rightarrow> 'r GatewayApp \<Rightarrow> app_event \<Rightarrow> bool" where
  "touches hmac sid a (AeBackend sid' (BkSend data)) = (sid' = sid)"
| "touches hmac sid a (AeUdp r) =
     (sid \<in> set (map (\<lambda>(_, sid', _). sid') (drop (length (gu_forwarded (ga_udp a)))
        (gu_forwarded (on_udp_receive hmac r (ge_unix_ms (ga_env a)) (ga_udp a))))))"
| "touches hmac sid a (AeCreate client) = (sid = session_id_of a (ga_counter a + 1))"
| "touches hmac sid a (AeSend sid' data) = (sid' = sid)"
| "touches hmac sid a _ = False"

lemma show_nat_inject: "show_nat m = show_nat n \<longleftrightarrow> m = n"
  by (metis show_nat_digits)

lemma session_id_of_inject: "session_id_of a m = session_id_of a n \<longleftrightarrow> m = n"
  by (simp add: session_id_of_def show_nat_inject word_unat_eq_iff)

definition same_stream :: "string \<Rightarrow> 'r GatewayApp \<Rightarrow> 'r GatewayApp \<Rightarrow> bool" where
  "same_stream sid a a' \<longleftrightarrow> app_stream sid a' = app_stream sid a \<and> (app_shut sid a \<longrightarrow> app_shut sid a')"

lemma same_stream_backends: "ga_backends a' sid = ga_backends a sid \<Longrightarrow> same_stream sid a a'"
  by (simp add: same_stream_def app_stream_def app_shut_def)

lemma send_other: "sid' \<noteq> sid \<Longrightarrow> ga_backends (snd (send_backend sid' data a)) sid = ga_backends a sid"
  by (simp add: send_backend_def split: option.split prod.split)

lemma send_forwarded_other:
  "sid \<notin> set (map (\<lambda>(_, sid', _). sid') frames) \<Longrightarrow> ga_backends (send_forwarded frames a) sid = ga_backends a sid"
  unfolding send_forwarded_def by (induction frames arbitrary: a) (auto simp: send_other)

lemma circuit_config: "bs_config (snd (backend_circuit_allows_connect now b)) = bs_config b"
  by (simp add: backend_circuit_allows_connect_def split: prod.split bool.split)

lemma select_config: "bs_config (snd (select_best_server rops t registry client b)) = bs_config b"
  by (simp add: select_best_server_def split: option.split list.split prod.split)

lemma create_other:
  assumes "sid \<noteq> session_id_of a (ga_counter a + 1)"
  shows "ga_backends (snd (create_backend_connection rops client a)) sid = ga_backends a sid"
proof -
  obtain ok b where b: "backend_circuit_allows_connect (ge_steady_ms (ga_env a)) (ga_shared a) = (ok, b)"
    by (cases "backend_circuit_allows_connect (ge_steady_ms (ga_env a)) (ga_shared a)")
  obtain r b' where b': "select_best_server rops (ge_directory_clock (ga_env a)) (ge_registry (ga_env a)) client b = (r, b')"
    by (cases "select_best_server rops (ge_directory_clock (ga_env a)) (ge_registry (ga_env a)) client b")
  have "bs_config b' = bs_config (ga_shared a)"
    using circuit_config [of "ge_steady_ms (ga_env a)" "ga_shared a"] b
      select_config [of rops "ge_directory_clock (ga_env a)" "ge_registry (ga_env a)" client b] b' by simp
  then show ?thesis
    using assms b b' by (auto simp: create_backend_connection_def session_id_of_def Let_def split: option.split bool.split)
qed

text \<open>Handlers of a backend connection accept nothing and never open it again.\<close>

definition bk_kept :: "BackendConnection \<Rightarrow> BackendConnection \<Rightarrow> bool" where
  "bk_kept c c' \<longleftrightarrow> bk_accepted c' = bk_accepted c \<and> (bk_closed c \<longrightarrow> bk_closed c')"

lemma kept_refl [simp]: "bk_kept c c"
  by (simp add: bk_kept_def)

lemma kept_basic [simp]:
  "bk_accepted (bk_begin op c) = bk_accepted c" "bk_accepted (bk_cancel p c) = bk_accepted c"
  "bk_accepted (bk_shut c) = bk_accepted c" "bk_accepted (bk_arm op c) = bk_accepted c"
  "bk_accepted (close_socket_for_retry c) = bk_accepted c" "bk_closed (close_socket_for_retry c) = bk_closed c"
  "bk_accepted (do_connect c) = bk_accepted c" "bk_closed (do_connect c) = bk_closed c"
  "bk_accepted (bk_do_write c) = bk_accepted c" "bk_closed (bk_do_write c) = bk_closed c"
  by (simp_all add: bk_begin_def bk_cancel_def bk_shut_def bk_arm_def close_socket_for_retry_def do_connect_def bk_do_write_def
      split: list.split)

lemma kept_close: "bk_kept c (bk_close c)"
  by (simp add: bk_kept_def)

lemma kept_give_up: "bk_kept c (bk_give_up c)"
  by (simp add: bk_give_up_def kept_close) (simp add: bk_kept_def)

lemma kept_attempt_failed: "bk_kept (fst s) (fst (bk_attempt_failed now s))"
  using kept_give_up [of "fst s"]
  by (auto simp: bk_attempt_failed_def schedule_connect_retry_def Let_def bk_kept_def split: prod.split bool.split)

lemma kept_handled: "bk_kept (fst s) (fst (bk_handle rops t now e s))"
  using kept_attempt_failed [of s now]
  by (cases e; cases "fst e")
    (auto simp: on_resolved_def on_connected_def on_connect_timeout_def on_written_def bk_on_read_def Let_def bk_kept_def
      bk_give_up_def kept_attempt_failed [unfolded bk_kept_def] split: bk_result.split list.split)

lemma kept_step: "(\<And>data. e \<noteq> BkSend data) \<Longrightarrow> bk_kept (fst s) (fst (bk_step rops s e))"
  using kept_handled [of "((fst s)\<lparr>bk_ready := rest\<rparr>, snd s)" for rest]
  by (cases e) (auto simp: Let_def kept_close bk_kept_def split: list.split)

lemma backend_event_other:
  assumes "\<And>data. sid' = sid \<Longrightarrow> e \<noteq> BkSend data"
  shows "same_stream sid a (backend_event rops sid' e a)"
proof (cases "sid' = sid")
  case True
  then show ?thesis
    using kept_step [of e "(the (ga_backends a sid), ga_shared a)" rops] assms
    by (auto simp: same_stream_def app_stream_def app_shut_def backend_event_def bk_kept_def split: option.splits prod.splits)
next
  case False
  then show ?thesis by (intro same_stream_backends) (simp add: backend_event_def split: option.split prod.split)
qed

lemma app_step_other:
  assumes "\<not> touches hmac sid a e"
  shows "same_stream sid a (app_step rnd rops hmac a e)"
proof (cases e)
  case (AeBackend sid' e')
  then have "same_stream sid a (backend_event rops sid' e' a)"
    using assms by (intro backend_event_other) (cases e'; auto)
  then show ?thesis using AeBackend by simp
next
  case (AeUdp r)
  then show ?thesis
    using assms by (intro same_stream_backends) (simp add: receive_udp_def Let_def send_forwarded_other)
next
  case AeAdmit
  then show ?thesis
    by (intro same_stream_backends) (simp add: admit_ingress_connection_def Let_def split: prod.split)
next
  case (AeCreate client)
  then show ?thesis using assms by (intro same_stream_backends) (simp add: create_other)
next
  case (AeSend sid' data)
  then show ?thesis using assms by (intro same_stream_backends) (simp add: send_other)
next
  case AeStop
  then show ?thesis
    by (auto simp: same_stream_def stop_sessions_def app_stream_def app_shut_def Let_def split: option.splits)
qed (simp_all add: same_stream_def, simp_all add: app_stream_def app_shut_def)

section \<open>The gateway as a proxy\<close>

text \<open>
  One client's connection inside the gateway, with the bytes received from the client so far. Any number of other things
  happen in between, except that nothing else writes to this client's session.
\<close>

inductive gateway_system ::
    "(rat \<Rightarrow> rat) \<Rightarrow> 'r redis_ops \<Rightarrow> (string \<Rightarrow> string \<Rightarrow> bytes option) \<Rightarrow> 'r GatewayApp gateway_ops \<Rightarrow>
     bytes \<Rightarrow> GatewayConnection \<Rightarrow> 'r GatewayApp \<Rightarrow> bool"
  for rnd rops hmac ops where
  system_start: "gateway_system rnd rops hmac ops [] (Connection_start GatewayConnection_init) a"
| system_client: "gateway_system rnd rops hmac ops received c a \<Longrightarrow> e \<noteq> GwTransport CnEvStart \<Longrightarrow> gw_step ops (c, a) e = (c', a') \<Longrightarrow>
    gateway_system rnd rops hmac ops (received @ gw_received (c, a) e) c' a'"
| system_app: "gateway_system rnd rops hmac ops received c a \<Longrightarrow> \<not> touches hmac (gw_session_id c) a e \<Longrightarrow>
    gateway_system rnd rops hmac ops received c (app_step rnd rops hmac a e)"

lemma gateway_system_reach:
  "gateway_system rnd rops hmac ops received c a \<Longrightarrow> gw_reach ops app_stream app_shut received (c, a)"
proof (induction rule: gateway_system.induct)
  case (system_start a)
  show ?case by (rule gw_start)
next
  case (system_client received c a e c' a')
  then show ?case using gw_event [OF system_client.IH, of e] by simp
next
  case (system_app received c a e)
  from app_step_other [OF system_app.hyps(2)] show ?case
    by (intro gw_other [OF system_app.IH]) (auto simp: same_stream_def)
qed


section \<open>A login that succeeds\<close>

definition login_frame :: "string \<Rightarrow> string \<Rightarrow> u32 \<Rightarrow> u32 \<Rightarrow> bytes" where
  "login_frame user token seq utc =
     frame_of MSG_LOGIN_REQ 0 (write_lp_utf8 (write_lp_utf8 [] (string_bytes user)) (string_bytes token)) seq utc"

text \<open>The last bytes of a well-formed login arrive, the authenticator accepts, a backend is found and takes the frame.\<close>

lemma login_completes:
  assumes c: "gw_phase c = kWaitingForLogin" "gw_backend c = None" "gw_prebuffer c @ data = login_frame user token seq utc" "data \<noteq> []"
    and wire: "wire_string user" "wire_string token" "length user + length token \<le> 32000"
    and auth: "request = \<lparr>ar_client_id = user, ar_token = token, ar_remote_address = gw_remote_ip c\<rparr>"
      "au_success (authenticate ops request)" "go_allow_anonymous ops" "key = login_routing_key request (authenticate ops request)"
    and create: "go_create_backend ops key a = (Some sid, a1)" "go_ticket ops sid a1 = (ticket, a2)"
      "go_send ops sid (login_frame user token seq utc) a2 = (False, a3)"
  shows "gw_on_read ops data (c, a) =
    ((queue_ticket ticket (c\<lparr>gw_prebuffer := login_frame user token seq utc, gw_client_id := key, gw_backend := Some sid, gw_session_id := sid\<rparr>))
       \<lparr>gw_deadline := False, gw_prebuffer := [], gw_phase := kBridging\<rparr>, a3)"
proof -
  define payload where "payload = lp_field user @ lp_field token"
  let ?frame = "login_frame user token seq utc"
  have frame: "?frame = frame_of MSG_LOGIN_REQ 0 payload seq utc" by (simp add: login_frame_def write_fields wire payload_def)
  have small: "length payload \<le> 32004" using wire(3) by (simp add: payload_def)
  then have len: "unat (of_nat (length payload) :: u16) = length payload" by (simp add: unat_of_nat)
  have size: "length (gw_prebuffer c) + length data = length ?frame" using arg_cong [OF c(3), of length] by simp
  have read: "read_lp_utf8 payload = Some (string_bytes user, lp_field token)" "read_lp_utf8 (lp_field token) = Some (string_bytes token, [])"
    using read_lp_field [OF wire(1)] read_lp_field [OF wire(2), of "[]"] by (simp_all add: payload_def)
  have key: "key \<noteq> []" by (simp add: auth login_routing_key_def Let_def)
  let ?c = "c\<lparr>gw_prebuffer := ?frame\<rparr>"
  have "gw_on_read ops data (c, a) = try_finish_handshake ops (?c, a)"
    using c size small by (simp add: gw_on_read_def Let_def frame)
  also have "\<dots> = finish_login ops payload (?c, a)"
    using c(1) len small
    by (subst try_finish_handshake.simps)
      (simp add: Let_def frame decode_frame_of frame_of_payload classify_segment_type_def is_system_msg_id_def)
  also have "\<dots> = accept_login ops key (?c, a)"
    using auth by (simp add: finish_login_def read Let_def)
  also have "\<dots> = ((queue_ticket ticket (?c\<lparr>gw_client_id := key, gw_backend := Some sid, gw_session_id := sid\<rparr>))
       \<lparr>gw_deadline := False, gw_prebuffer := [], gw_phase := kBridging\<rparr>, a3)"
    using c(2) key create by (simp add: accept_login_def open_backend_connection_def Let_def send_to_backend_def)
  finally show ?thesis .
qed

text \<open>A gateway with one chat server, and a client that logs in.\<close>

definition demo_env :: gateway_env where
  "demo_env =
     \<lparr>ge_steady_ms = 1, ge_unix_ms = 1, ge_directory_clock = 0,
      ge_registry = Some [\<lparr>ir_instance_id = ''b1'', ir_host = ''h'', ir_port = 5000, ir_role = [], ir_game_mode = [], ir_region = [],
        ir_shard = [], ir_tags = [], ir_capacity = 9, ir_active_sessions = 0, ir_ready = True, ir_last_heartbeat_ms = 0\<rparr>],
      ge_random = (1, 2), ge_ready = True, ge_healthy = True, ge_stop_requested = False\<rparr>"

definition demo_gateway :: "(string \<rightharpoonup> string) GatewayApp" where
  "demo_gateway =
     \<lparr>ga_env = demo_env, ga_boot_id = ''t'', ga_counter = 0,
      ga_udp = \<lparr>gu_config = GatewayConfig_default, gu_sessions = [], gu_guard = UdpBindAbuseGuard_init, gu_metrics = RudpMetrics_default,
        gu_count = (\<lambda>_. 0), gu_udp_socket = False, gu_receiving = False, gu_sent = [], gu_forwarded = []\<rparr>,
      ga_shared = demo_shared, ga_backends = Map.empty,
      ga_ingress_bucket = TokenBucket_configure 10 10 TokenBucket_init, ga_connections_total = 0,
      ga_reject_not_ready_total = 0, ga_reject_rate_limit_total = 0, ga_reject_session_limit_total = 0,
      ga_reject_circuit_open_total = 0\<rparr>"

abbreviation demo_ops :: "(string \<rightharpoonup> string) GatewayApp gateway_ops" where
  "demo_ops \<equiv> gateway_app_ops id plain_redis (\<lambda>_ _. None) None None True"

definition demo_started :: "(string \<rightharpoonup> string) GatewayApp gateway_state" where
  "demo_started = gw_step demo_ops (Connection_start GatewayConnection_init, demo_gateway) (GwTransport CnEvTask)"

definition demo_session :: "(string \<rightharpoonup> string) GatewayApp gateway_state" where
  "demo_session = gw_step demo_ops demo_started (GwTransport (CnEvRead (Some (login_frame ''ann'' [] 1 0))))"

lemma demo_started_facts:
  "gw_phase (fst demo_started) = kWaitingForLogin \<and> gw_backend (fst demo_started) = None \<and> gw_prebuffer (fst demo_started) = [] \<and>
   cn_reads (fst demo_started) = 1 \<and> \<not> cn_stopped (fst demo_started) \<and> gw_remote_ip (fst demo_started) = []"
  by code_simp

lemma demo_created:
  "(case create_backend_connection plain_redis ''ann'' (snd demo_started) of (sid, a) \<Rightarrow>
      sid = Some ''-t-1'' \<and> gc_udp_listen_port (gu_config (ga_udp a)) = 0 \<and>
      map_option (\<lambda>c. (bk_closed c, bk_queued_bytes c, bk_send_queue_max_bytes c)) (ga_backends a ''-t-1'') = Some (False, 0, 262144))"
  by code_simp

lemma demo_login_read:
  assumes "gw_phase c = kWaitingForLogin" "gw_backend c = None" "gw_prebuffer c = []"
  obtains a where "gw_on_read demo_ops (login_frame ''ann'' [] 1 0) (c, snd demo_started) =
      (c\<lparr>gw_client_id := ''ann'', gw_backend := Some ''-t-1'', gw_session_id := ''-t-1'', gw_deadline := False, gw_prebuffer := [],
         gw_phase := kBridging\<rparr>, a)"
    and "\<not> app_shut ''-t-1'' a" and "login_frame ''ann'' [] 1 0 \<noteq> []"
proof -
  let ?frame = "login_frame ''ann'' [] 1 0"
  have ascii: "wire_string ''ann''" by (rule wire_string_ascii) simp_all
  have len: "length ?frame = 21" by (simp add: login_frame_def write_fields ascii)
  obtain a1 b where create: "create_backend_connection plain_redis ''ann'' (snd demo_started) = (Some ''-t-1'', a1)"
    and a1: "gc_udp_listen_port (gu_config (ga_udp a1)) = 0" "ga_backends a1 ''-t-1'' = Some b"
      "\<not> bk_closed b" "bk_queued_bytes b = 0" "bk_send_queue_max_bytes b = 262144"
    using demo_created by (auto split: prod.splits)
  define a2 where "a2 = snd (send_backend ''-t-1'' ?frame a1)"
  have send: "send_backend ''-t-1'' ?frame a1 = (False, a2)" and up: "\<not> app_shut ''-t-1'' a2"
    using a1(2-5) len by (auto simp: a2_def send_backend_def bk_send_def exceeds_queue_budget_def app_shut_def Let_def)
  have "gw_on_read demo_ops ?frame (c, snd demo_started) =
    ((queue_ticket None (c\<lparr>gw_prebuffer := ?frame, gw_client_id := ''ann'', gw_backend := Some ''-t-1'', gw_session_id := ''-t-1''\<rparr>))
       \<lparr>gw_deadline := False, gw_prebuffer := [], gw_phase := kBridging\<rparr>, a2)"
    by (rule login_completes [OF assms(1,2) _ _ ascii _ _ refl])
      (use assms(3) len create send a1(1) in \<open>auto simp: gateway_app_ops_def authenticate_def login_routing_key_def ticket_of_def
        make_udp_bind_ticket_frame_def\<close>)
  moreover have "?frame \<noteq> []" using len by auto
  ultimately show ?thesis using that up by (simp add: queue_ticket_def)
qed

lemma demo_session_facts:
  "gw_session_id (fst demo_session) = ''-t-1'' \<and> gw_backend (fst demo_session) = Some ''-t-1'' \<and> cn_reads (fst demo_session) = 1 \<and>
   \<not> app_shut ''-t-1'' (snd demo_session)"
proof -
  let ?frame = "login_frame ''ann'' [] 1 0"
  define c where "c = (fst demo_started)\<lparr>cn_reads := 0\<rparr>"
  have c: "gw_phase c = kWaitingForLogin" "gw_backend c = None" "gw_prebuffer c = []" "\<not> cn_stopped c" "cn_reads c = 0"
    using demo_started_facts by (simp_all add: c_def)
  obtain a where read: "gw_on_read demo_ops ?frame (c, snd demo_started) =
      (c\<lparr>gw_client_id := ''ann'', gw_backend := Some ''-t-1'', gw_session_id := ''-t-1'', gw_deadline := False, gw_prebuffer := [],
         gw_phase := kBridging\<rparr>, a)" "\<not> app_shut ''-t-1'' a" "?frame \<noteq> []"
    using demo_login_read [OF c(1-3)] .
  have "demo_session = handle_read (gateway_hooks demo_ops) (Some ?frame) (c, snd demo_started)"
    using demo_started_facts by (simp add: demo_session_def c_def)
  then have session: "demo_session = (c\<lparr>gw_client_id := ''ann'', gw_backend := Some ''-t-1'', gw_session_id := ''-t-1'',
      gw_deadline := False, gw_prebuffer := [], gw_phase := kBridging, cn_reads := 1\<rparr>, a)"
    using read c(4,5) by (simp add: handle_read_def gateway_hooks_def read_loop_def)
  show ?thesis unfolding session using read(2) by simp
qed

text \<open>
  A login that is read while the connection is already closed, its deadline having passed, still opens a backend session. The
  disconnect hook has run before and does not run again, so that nothing closes the session.
\<close>

lemma late_login_leaks_session:
  "let s = foldl (gw_step demo_ops) demo_started [GwDeadline, GwTransport CnEvTask, GwTransport (CnEvRead (Some (login_frame ''ann'' [] 1 0)))] in
   cn_stopped (fst s) \<and> cn_disconnects (fst s) = 1 \<and> cn_strand (fst s) = [] \<and> cn_reads (fst s) = 0 \<and> \<not> app_shut ''-t-1'' (snd s)"
proof -
  let ?frame = "login_frame ''ann'' [] 1 0"
  define s where "s = foldl (gw_step demo_ops) demo_started [GwDeadline, GwTransport CnEvTask]"
  have facts: "gw_phase (fst s) = kWaitingForLogin \<and> gw_backend (fst s) = None \<and> gw_prebuffer (fst s) = [] \<and> cn_stopped (fst s) \<and>
      cn_disconnects (fst s) = 1 \<and> cn_strand (fst s) = [] \<and> cn_reads (fst s) = 1"
    unfolding s_def by code_simp
  let ?d = "gw_step demo_ops demo_started GwDeadline"
  have "cn_strand (fst ?d) = [CnFinalize] \<and> gw_session_id (fst ?d) = []" by code_simp
  moreover have "snd ?d = snd demo_started" by (simp add: on_handshake_deadline_def Let_def Connection_stop_def)
  ultimately have app: "snd s = snd demo_started"
    by (simp add: s_def gateway_hooks_def finalize_stop_def cn_finalize_def gw_on_disconnect_def Let_def del: gw_step.simps(2-))
  define c where "c = (fst s)\<lparr>cn_reads := 0\<rparr>"
  have c: "gw_phase c = kWaitingForLogin" "gw_backend c = None" "gw_prebuffer c = []" using facts by (simp_all add: c_def)
  obtain a where read: "gw_on_read demo_ops ?frame (c, snd demo_started) =
      (c\<lparr>gw_client_id := ''ann'', gw_backend := Some ''-t-1'', gw_session_id := ''-t-1'', gw_deadline := False, gw_prebuffer := [],
         gw_phase := kBridging\<rparr>, a)" "\<not> app_shut ''-t-1'' a" "?frame \<noteq> []"
    using demo_login_read [OF c] .
  have "gw_step demo_ops s (GwTransport (CnEvRead (Some ?frame))) = handle_read (gateway_hooks demo_ops) (Some ?frame) (c, snd demo_started)"
    using facts by (simp add: c_def app)
  then have "gw_step demo_ops s (GwTransport (CnEvRead (Some ?frame))) = (c\<lparr>gw_client_id := ''ann'', gw_backend := Some ''-t-1'', gw_session_id := ''-t-1'',
      gw_deadline := False, gw_prebuffer := [], gw_phase := kBridging\<rparr>, a)"
    using read facts by (simp add: handle_read_def gateway_hooks_def c_def)
  moreover have "foldl (gw_step demo_ops) demo_started [GwDeadline, GwTransport CnEvTask, e] = gw_step demo_ops s e" for e
    by (simp add: s_def del: gw_step.simps)
  ultimately show ?thesis using facts read(2) by (simp add: c_def del: gw_step.simps foldl.simps)
qed

lemma system_begin:
  "gateway_system rnd rops hmac ops [] (fst (Connection_start GatewayConnection_init, a)) (snd (Connection_start GatewayConnection_init, a))"
  by (simp add: system_start)

lemma system_next:
  "gateway_system rnd rops hmac ops received (fst s) (snd s) \<Longrightarrow> e \<noteq> GwTransport CnEvStart \<Longrightarrow> received' = received @ gw_received s e \<Longrightarrow>
   gateway_system rnd rops hmac ops received' (fst (gw_step ops s e)) (snd (gw_step ops s e))"
  using system_client [of rnd rops hmac ops received "fst s" "snd s" e] by simp


end
