(* ===== verification/Worker_Job.thy ===== *)
theory Worker_Job
  imports Prelude
begin

text \<open>
  Jobs of the worker threads. A job is a sequence of atomic actions on the shared state: a section
  under one mutex, one call of an external service, one message handed to a session. Between two
  actions other threads may act, so a job is a resumption: either its result, or an action that
  yields the rest of the job. A pool runs any number of jobs in any interleaving of their actions.
\<close>

named_theorems keeps_intros "rules that split the proof that a job keeps an invariant"

section \<open>Jobs\<close>

datatype ('s, 'a) job =
    Return 'a
  | Act "'s \<Rightarrow> ('s, 'a) job \<times> 's"

text \<open>One atomic action followed by the rest of the job.\<close>

definition act :: "('s \<Rightarrow> 'a \<times> 's) \<Rightarrow> ('a \<Rightarrow> ('s, 'b) job) \<Rightarrow> ('s, 'b) job" where
  "act f k = Act (\<lambda>s. map_prod k id (f s))"

text \<open>An action that may throw: \<open>None\<close> continues with the handler.\<close>

definition attempt :: "('s \<Rightarrow> 'a option \<times> 's) \<Rightarrow> ('a \<Rightarrow> ('s, 'b) job) \<Rightarrow> ('s, 'b) job \<Rightarrow> ('s, 'b) job" where
  "attempt f k h = act f (\<lambda>r. case r of None \<Rightarrow> h | Some x \<Rightarrow> k x)"

primrec job_bind :: "('s, 'a) job \<Rightarrow> ('a \<Rightarrow> ('s, 'b) job) \<Rightarrow> ('s, 'b) job" where
  "job_bind (Return x) k = k x"
| "job_bind (Act f) k = Act (\<lambda>s. map_prod (\<lambda>j. job_bind j k) id (f s))"

abbreviation job_seq :: "('s, 'a) job \<Rightarrow> ('s, 'b) job \<Rightarrow> ('s, 'b) job" where
  "job_seq j k \<equiv> job_bind j (\<lambda>_. k)"

abbreviation job_skip :: "('s, unit) job" where
  "job_skip \<equiv> Return ()"

definition job_when :: "bool \<Rightarrow> ('s, unit) job \<Rightarrow> ('s, unit) job" where
  "job_when b j = (if b then j else job_skip)"

definition job_each :: "('a \<Rightarrow> ('s, unit) job) \<Rightarrow> 'a list \<Rightarrow> ('s, unit) job" where
  "job_each f xs = foldr (\<lambda>x k. job_seq (f x) k) xs job_skip"

text \<open>The job run alone to its end.\<close>

primrec run_job :: "('s, 'a) job \<Rightarrow> 's \<Rightarrow> 'a \<times> 's" where
  "run_job (Return x) = (\<lambda>s. (x, s))"
| "run_job (Act f) = (\<lambda>s. case map_prod run_job id (f s) of (r, s') \<Rightarrow> r s')"

lemma run_act [simp]: "run_job (act f k) s = run_job (k (fst (f s))) (snd (f s))"
  by (simp add: act_def map_prod_def case_prod_beta)

lemma run_attempt [simp]:
  "run_job (attempt f k h) s = (case fst (f s) of None \<Rightarrow> run_job h (snd (f s)) | Some x \<Rightarrow> run_job (k x) (snd (f s)))"
  by (simp add: attempt_def split: option.splits)

lemma run_bind [simp]: "run_job (job_bind j k) s = run_job (k (fst (run_job j s))) (snd (run_job j s))"
  by (induction j arbitrary: s) (simp_all add: map_prod_def case_prod_beta prod_set_defs)

lemma run_when [simp]: "run_job (job_when b j) s = (if b then run_job j s else ((), s))"
  by (simp add: job_when_def)

lemma run_each [simp]: "snd (run_job (job_each f xs) s) = foldl (\<lambda>s x. snd (run_job (f x) s)) s xs"
  by (induction xs arbitrary: s) (simp_all add: job_each_def)

lemma job_bind_assoc: "job_bind (job_bind j k) l = job_bind j (\<lambda>x. job_bind (k x) l)"
proof (induction j)
  case (Act f)
  then have "job_bind (job_bind (fst (f s)) k) l = job_bind (fst (f s)) (\<lambda>x. job_bind (k x) l)" for s
    by (metis fsts.intros range_eqI)
  then show ?case by (simp add: map_prod_def case_prod_beta)
qed simp

section \<open>Jobs that keep an invariant\<close>

text \<open>
  Every action of the job keeps \<open>P\<close>, whatever the other threads did in between: the rest of the job
  is only known to come from a state with \<open>P\<close>.
\<close>

inductive job_keeps :: "('s \<Rightarrow> bool) \<Rightarrow> ('s, 'a) job \<Rightarrow> bool" for P where
  keeps_Return: "job_keeps P (Return x)"
| keeps_Act: "(\<And>s. P s \<Longrightarrow> P (snd (f s)) \<and> job_keeps P (fst (f s))) \<Longrightarrow> job_keeps P (Act f)"

inductive_simps job_keeps_Act_iff: "job_keeps P (Act f)"

declare keeps_Return [keeps_intros]

lemma keeps_act [keeps_intros]:
  assumes "\<And>s. P s \<Longrightarrow> P (snd (f s))" "\<And>s. P s \<Longrightarrow> job_keeps P (k (fst (f s)))"
  shows "job_keeps P (act f k)"
  unfolding act_def by (rule keeps_Act) (simp add: assms)

lemma keeps_attempt [keeps_intros]:
  assumes "\<And>s. P s \<Longrightarrow> P (snd (f s))" "\<And>x. job_keeps P (k x)" "job_keeps P h"
  shows "job_keeps P (attempt f k h)"
  unfolding attempt_def by (rule keeps_act) (auto simp: assms split: option.splits)

lemma keeps_bind [keeps_intros]:
  assumes "job_keeps P j" "\<And>x. job_keeps P (k x)"
  shows "job_keeps P (job_bind j k)"
  using assms(1) by induction (auto simp: assms(2) intro: keeps_Act)

lemma keeps_when [keeps_intros]: "(b \<Longrightarrow> job_keeps P j) \<Longrightarrow> job_keeps P (job_when b j)"
  by (simp add: job_when_def keeps_Return)

lemma keeps_each [keeps_intros]: "(\<And>x. x \<in> set xs \<Longrightarrow> job_keeps P (f x)) \<Longrightarrow> job_keeps P (job_each f xs)"
  by (induction xs) (simp_all add: job_each_def keeps_Return keeps_bind)

lemma keeps_if [keeps_intros]: "(b \<Longrightarrow> job_keeps P j) \<Longrightarrow> (\<not> b \<Longrightarrow> job_keeps P k) \<Longrightarrow> job_keeps P (if b then j else k)"
  by simp

lemma keeps_option [keeps_intros]:
  "(x = None \<Longrightarrow> job_keeps P j) \<Longrightarrow> (\<And>y. x = Some y \<Longrightarrow> job_keeps P (k y)) \<Longrightarrow>
   job_keeps P (case x of None \<Rightarrow> j | Some y \<Rightarrow> k y)"
  by (cases x) auto

lemma keeps_prod [keeps_intros]:
  "(\<And>a b. x = (a, b) \<Longrightarrow> job_keeps P (k a b)) \<Longrightarrow> job_keeps P (case x of (a, b) \<Rightarrow> k a b)"
  by (cases x) auto

lemma keeps_let [keeps_intros]: "(\<And>y. y = x \<Longrightarrow> job_keeps P (k y)) \<Longrightarrow> job_keeps P (Let x k)"
  by simp

lemma run_job_keeps: "job_keeps P j \<Longrightarrow> P s \<Longrightarrow> P (snd (run_job j s))"
proof (induction arbitrary: s rule: job_keeps.induct)
  case (keeps_Return x)
  then show ?case by simp
next
  case (keeps_Act f)
  from keeps_Act(1) [OF keeps_Act(2)] show ?case
    by (simp add: map_prod_def case_prod_beta)
qed

section \<open>A pool of threads\<close>

text \<open>
  \<open>js\<close> are the jobs in progress. A step is one action of one of them, the end of a finished one, or an
  event of the environment, which may change the state and start jobs: a frame arrives, a worker takes
  a task from the queue, a session object goes away.
\<close>

inductive pool_step ::
  "('s \<Rightarrow> 's \<Rightarrow> ('s, unit) job list \<Rightarrow> bool) \<Rightarrow> ('s, unit) job list \<times> 's \<Rightarrow> ('s, unit) job list \<times> 's \<Rightarrow> bool"
  for env where
  pool_act: "i < length js \<Longrightarrow> js ! i = Act f \<Longrightarrow> f s = (j, s') \<Longrightarrow> pool_step env (js, s) (js[i := j], s')"
| pool_done: "i < length js \<Longrightarrow> js ! i = Return () \<Longrightarrow> pool_step env (js, s) (take i js @ drop (Suc i) js, s)"
| pool_env: "env s s' new \<Longrightarrow> pool_step env (js, s) (js @ new, s')"

inductive pool_reach ::
  "('s \<Rightarrow> 's \<Rightarrow> ('s, unit) job list \<Rightarrow> bool) \<Rightarrow> 's \<Rightarrow> ('s, unit) job list \<times> 's \<Rightarrow> bool"
  for env s0 where
  pool_init: "pool_reach env s0 ([], s0)"
| pool_more: "pool_reach env s0 c \<Longrightarrow> pool_step env c c' \<Longrightarrow> pool_reach env s0 c'"

text \<open>
  The contract of a service run by such a pool: events of the environment keep the invariant and start
  only jobs whose every action keeps it.
\<close>

locale worker_pool =
  fixes env :: "'s \<Rightarrow> 's \<Rightarrow> ('s, unit) job list \<Rightarrow> bool" and inv :: "'s \<Rightarrow> bool"
  assumes env_keeps: "env s s' new \<Longrightarrow> inv s \<Longrightarrow> inv s'"
    and env_starts: "env s s' new \<Longrightarrow> inv s \<Longrightarrow> j \<in> set new \<Longrightarrow> job_keeps inv j"
begin

definition pool_ok :: "('s, unit) job list \<times> 's \<Rightarrow> bool" where
  "pool_ok c \<longleftrightarrow> inv (snd c) \<and> (\<forall>j \<in> set (fst c). job_keeps inv j)"

lemma pool_step_ok: "pool_step env c c' \<Longrightarrow> pool_ok c \<Longrightarrow> pool_ok c'"
proof (induction rule: pool_step.induct)
  case (pool_act i js f s j s')
  then have "job_keeps inv (Act f)" by (metis nth_mem pool_ok_def fst_conv)
  with pool_act have "inv s'" "job_keeps inv j"
    by (auto simp: pool_ok_def job_keeps_Act_iff)
  with pool_act show ?case by (auto simp: pool_ok_def dest!: set_mp [OF set_update_subset_insert])
next
  case (pool_done i js s)
  then show ?case by (auto simp: pool_ok_def dest: in_set_takeD in_set_dropD)
next
  case (pool_env s s' new js)
  then show ?case by (auto simp: pool_ok_def intro: env_keeps env_starts)
qed

lemma pool_reach_ok: "pool_reach env s0 c \<Longrightarrow> inv s0 \<Longrightarrow> pool_ok c"
proof (induction rule: pool_reach.induct)
  case pool_init
  then show ?case by (simp add: pool_ok_def)
next
  case (pool_more c c')
  then show ?case by (blast intro: pool_step_ok)
qed

lemma pool_reach_inv: "pool_reach env s0 c \<Longrightarrow> inv s0 \<Longrightarrow> inv (snd c)"
  using pool_reach_ok by (simp add: pool_ok_def)

end

end
