(* ===== verification/Lua_Runtime.thy ===== *)
theory Lua_Runtime
  imports C_Strings Worker_Job "HOL-Library.AList"
begin

text \<open>
  The Lua runtime facade, \<^verbatim>\<open>core/src/scripting/lua_runtime.cpp\<close>: directives in script comments, the
  decision of one script, the decision of all scripts, loading and reloading. The virtual machine with
  its sandbox is a parameter: for a script, a hook and a context it gives a \<open>script_run\<close>, a tree of the
  host functions the script calls that ends in what the machine reported.
\<close>

section \<open>Data\<close>

record LuaHookContext =
  lc_session_id :: u32
  lc_user :: string
  lc_room :: string
  lc_text :: string
  lc_command :: string
  lc_args :: string
  lc_issuer :: string
  lc_reason :: string
  lc_payload_json :: string
  lc_event :: string

definition LuaHookContext_init :: LuaHookContext where
  "LuaHookContext_init =
     \<lparr>lc_session_id = 0, lc_user = [], lc_room = [], lc_text = [], lc_command = [], lc_args = [],
      lc_issuer = [], lc_reason = [], lc_payload_json = [], lc_event = []\<rparr>"

datatype LuaHookDecision = LkPass | LkHandled | LkBlock | LkModify | LkAllow | LkDeny

datatype ScriptFailureKind = FkNone | FkInstructionLimit | FkMemoryLimit | FkOther

record ScriptDecisionResult =
  sr_valid :: bool
  sr_executed :: bool
  sr_decision :: LuaHookDecision
  sr_failure_kind :: ScriptFailureKind
  sr_reason :: string
  sr_notice :: string
  sr_error :: string
  sr_peak_memory_bytes :: nat

definition ScriptDecisionResult_init :: ScriptDecisionResult where
  "ScriptDecisionResult_init =
     \<lparr>sr_valid = True, sr_executed = False, sr_decision = LkPass, sr_failure_kind = FkNone, sr_reason = [],
      sr_notice = [], sr_error = [], sr_peak_memory_bytes = 0\<rparr>"

text \<open>Values exchanged with host functions.\<close>

datatype HostValue = HvNil | HvBool bool | HvInt int | HvString string | HvList "string list"

record HostCallResult =
  hr_value :: HostValue
  hr_error :: string

record HostCallContext =
  hx_hook_name :: string
  hx_script_name :: string
  hx_hook :: LuaHookContext

text \<open>
  The report of the machine. A returned table is the function that reads its string fields, with the
  empty string where there is none; \<open>None\<close> is a value that is not a table.
\<close>

record vm_budget =
  vb_instruction_limit_hit :: bool
  vb_memory_limit_hit :: bool
  vb_peak_bytes :: nat

record vm_call =
  vc_error :: "string option"
  vc_budget :: vm_budget
  vc_return :: "(string \<Rightarrow> string) option option"

record vm_report =
  vr_created :: bool
  vr_script :: vm_call
  vr_hook :: "vm_call option"

datatype script_run =
    Finish vm_report
  | HostCall string "HostValue list" "HostCallResult \<Rightarrow> script_run"

section \<open>Directives\<close>

definition extract_word_value :: "string \<Rightarrow> string \<Rightarrow> string option" where
  "extract_word_value text key =
     map_option (\<lambda>pos. fst (read_word (drop (pos + length key) text))) (find_sub key text)"

definition extract_tail_value :: "string \<Rightarrow> string \<Rightarrow> string option" where
  "extract_tail_value text key =
     map_option (\<lambda>pos. c_trim (dropWhile c_isspace (drop (pos + length key) text))) (find_sub key text)"

record ParsedDirective =
  pd_present :: bool
  pd_hook_name :: string
  pd_decision_token :: string
  pd_limit_token :: string
  pd_reason :: string

definition lowered_word :: "string \<Rightarrow> string \<Rightarrow> string" where
  "lowered_word payload key =
     (case extract_word_value payload key of Some t \<Rightarrow> c_lower (c_trim t) | None \<Rightarrow> [])"

definition parse_directive_line :: "string \<Rightarrow> ParsedDirective" where
  "parse_directive_line line =
     (let none = \<lparr>pd_present = False, pd_hook_name = [], pd_decision_token = [], pd_limit_token = [], pd_reason = []\<rparr>;
          trimmed = c_trim line in
      if \<not> starts_with ''--'' trimmed then none
      else
        let payload = c_trim (drop 2 trimmed) in
        if \<not> starts_with ''decision='' payload \<and> \<not> starts_with ''hook='' payload \<and> \<not> starts_with ''limit='' payload
        then none
        else
          let decision_token = lowered_word payload ''decision='';
              limit_token = lowered_word payload ''limit='' in
          if decision_token = [] \<and> limit_token = [] then none
          else
            \<lparr>pd_present = True, pd_hook_name = lowered_word payload ''hook='',
             pd_decision_token = decision_token, pd_limit_token = limit_token,
             pd_reason = (case extract_tail_value payload ''reason='' of Some r \<Rightarrow> r | None \<Rightarrow> [])\<rparr>)"

definition find_matching_directive :: "string \<Rightarrow> string \<Rightarrow> ParsedDirective option" where
  "find_matching_directive script_text func_name =
     find (\<lambda>d. pd_present d \<and> (pd_hook_name d = [] \<or> pd_hook_name d = c_lower func_name))
       (map parse_directive_line (split_lines script_text))"

definition parse_hook_decision :: "string \<Rightarrow> LuaHookDecision option" where
  "parse_hook_decision token =
     map_of [(''pass'', LkPass), (''handled'', LkHandled), (''block'', LkBlock), (''modify'', LkModify),
             (''allow'', LkAllow), (''deny'', LkDeny)] (c_lower (c_trim token))"

definition parse_limit_failure_kind :: "string \<Rightarrow> ScriptFailureKind option" where
  "parse_limit_failure_kind token =
     (let lowered = c_lower (c_trim token) in
      if lowered \<in> {''instruction'', ''instruction_limit'', ''instruction_limit_exceeded''} then Some FkInstructionLimit
      else if lowered \<in> {''memory'', ''memory_limit'', ''memory_limit_exceeded''} then Some FkMemoryLimit
      else None)"

fun hook_decision_rank :: "LuaHookDecision \<Rightarrow> nat" where
  "hook_decision_rank LkBlock = 3"
| "hook_decision_rank LkDeny = 3"
| "hook_decision_rank LkHandled = 2"
| "hook_decision_rank LkModify = 1"
| "hook_decision_rank LkPass = 0"
| "hook_decision_rank LkAllow = 0"

section \<open>The decision of one script\<close>

definition classify_failure :: "vm_budget \<Rightarrow> ScriptFailureKind option" where
  "classify_failure b =
     (if vb_instruction_limit_hit b then Some FkInstructionLimit
      else if vb_memory_limit_hit b then Some FkMemoryLimit else None)"

definition failure_of :: "vm_budget \<Rightarrow> ScriptFailureKind" where
  "failure_of b = (case classify_failure b of Some k \<Rightarrow> k | None \<Rightarrow> FkOther)"

definition parse_return_table :: "(string \<Rightarrow> string) option \<Rightarrow> string \<Rightarrow> ScriptDecisionResult" where
  "parse_return_table return_object func_name =
     (case return_object of
        None \<Rightarrow> ScriptDecisionResult_init
      | Some table \<Rightarrow>
          if table ''decision'' = [] then ScriptDecisionResult_init
          else
            (case parse_hook_decision (table ''decision'') of
               None \<Rightarrow> ScriptDecisionResult_init
                 \<lparr>sr_valid := False, sr_failure_kind := FkOther,
                  sr_error := ''invalid decision token in return table: '' @ table ''decision''\<rparr>
             | Some d \<Rightarrow>
                 let hook_token = c_lower (c_trim (table ''hook'')) in
                 if hook_token \<noteq> [] \<and> hook_token \<noteq> c_lower func_name then ScriptDecisionResult_init
                 else ScriptDecisionResult_init
                   \<lparr>sr_decision := d, sr_reason := table ''reason'', sr_notice := table ''notice''\<rparr>))"

text \<open>A directive with a limit decides before the machine is started.\<close>

definition limit_directive :: "string \<Rightarrow> string \<Rightarrow> ScriptDecisionResult option" where
  "limit_directive script_text func_name =
     (case find_matching_directive script_text func_name of
        None \<Rightarrow> None
      | Some d \<Rightarrow>
          if pd_limit_token d = [] then None
          else Some
            (case parse_limit_failure_kind (pd_limit_token d) of
               None \<Rightarrow> ScriptDecisionResult_init
                 \<lparr>sr_valid := False, sr_failure_kind := FkOther,
                  sr_error := ''invalid limit token: '' @ pd_limit_token d\<rparr>
             | Some k \<Rightarrow> ScriptDecisionResult_init
                 \<lparr>sr_valid := False, sr_failure_kind := k,
                  sr_error := (if k = FkInstructionLimit then ''LUA_ERRRUN: instruction limit exceeded''
                               else ''LUA_ERRMEM: memory limit exceeded'')\<rparr>))"

text \<open>The last part of \<open>execute_script\<close>: the top-level table, then the directive's decision.\<close>

definition apply_directive :: "string \<Rightarrow> string \<Rightarrow> ScriptDecisionResult \<Rightarrow> ScriptDecisionResult" where
  "apply_directive script_text func_name out =
     (case find_matching_directive script_text func_name of
        None \<Rightarrow> out
      | Some d \<Rightarrow>
          if pd_decision_token d = [] then out
          else
            (case parse_hook_decision (pd_decision_token d) of
               None \<Rightarrow> out\<lparr>sr_valid := False, sr_failure_kind := FkOther,
                           sr_error := ''invalid decision token: '' @ pd_decision_token d\<rparr>
             | Some dec \<Rightarrow>
                 if hook_decision_rank (sr_decision out) = hook_decision_rank LkPass
                    \<and> sr_reason out = [] \<and> sr_notice out = []
                 then out\<lparr>sr_decision := dec, sr_reason := pd_reason d\<rparr>
                 else out))"

definition vm_decision :: "string \<Rightarrow> string \<Rightarrow> vm_report \<Rightarrow> ScriptDecisionResult" where
  "vm_decision script_text func_name r =
     (if \<not> vr_created r then
        ScriptDecisionResult_init\<lparr>sr_valid := False, sr_failure_kind := FkOther, sr_error := ''failed to create lua state''\<rparr>
      else
        let sc = vr_script r;
            out = ScriptDecisionResult_init\<lparr>sr_peak_memory_bytes := vb_peak_bytes (vc_budget sc)\<rparr> in
        case vc_error sc of
          Some e \<Rightarrow> out\<lparr>sr_valid := False, sr_failure_kind := failure_of (vc_budget sc), sr_error := e\<rparr>
        | None \<Rightarrow>
            let top = (case vc_return sc of None \<Rightarrow> ScriptDecisionResult_init | Some obj \<Rightarrow> parse_return_table obj func_name) in
            if \<not> sr_valid top then top\<lparr>sr_peak_memory_bytes := vb_peak_bytes (vc_budget sc)\<rparr>
            else
              let finish = (\<lambda>out. apply_directive script_text func_name
                     (out\<lparr>sr_decision := sr_decision top, sr_reason := sr_reason top, sr_notice := sr_notice top\<rparr>)) in
              case vr_hook r of
                None \<Rightarrow> finish out
              | Some h \<Rightarrow>
                  let out = out\<lparr>sr_peak_memory_bytes := vb_peak_bytes (vc_budget h), sr_executed := True\<rparr> in
                  (case vc_error h of
                     Some e \<Rightarrow> out\<lparr>sr_valid := False, sr_failure_kind := failure_of (vc_budget h), sr_error := e\<rparr>
                   | None \<Rightarrow>
                       (case vc_return h of
                          None \<Rightarrow> finish out
                        | Some obj \<Rightarrow>
                            let hook_result = parse_return_table obj func_name in
                            if \<not> sr_valid hook_result
                            then hook_result\<lparr>sr_peak_memory_bytes := vb_peak_bytes (vc_budget h), sr_executed := True\<rparr>
                            else out\<lparr>sr_decision := sr_decision hook_result, sr_reason := sr_reason hook_result,
                                     sr_notice := sr_notice hook_result\<rparr>)))"

section \<open>The decision of all scripts\<close>

record ScriptCallResult =
  sc_env_name :: string
  sc_failed :: bool
  sc_failure_kind :: ScriptFailureKind

record CallAllResult =
  ca_attempted :: nat
  ca_failed :: nat
  ca_decision :: LuaHookDecision
  ca_reason :: string
  ca_notices :: "string list"
  ca_error :: string
  ca_script_results :: "ScriptCallResult list"

definition CallAllResult_init :: CallAllResult where
  "CallAllResult_init =
     \<lparr>ca_attempted = 0, ca_failed = 0, ca_decision = LkPass, ca_reason = [], ca_notices = [], ca_error = [],
      ca_script_results = []\<rparr>"

text \<open>The body of the loop, for a script that could not be read and for the result of one that ran.\<close>

definition add_unreadable :: "string \<Rightarrow> string \<Rightarrow> CallAllResult \<Rightarrow> CallAllResult" where
  "add_unreadable env_name read_error r =
     r\<lparr>ca_script_results := ca_script_results r @ [\<lparr>sc_env_name = env_name, sc_failed = True, sc_failure_kind = FkOther\<rparr>],
       ca_failed := ca_failed r + 1,
       ca_error := (if ca_error r = [] then read_error else ca_error r)\<rparr>"

definition add_result :: "string \<Rightarrow> ScriptDecisionResult \<Rightarrow> CallAllResult \<Rightarrow> CallAllResult" where
  "add_result env_name s r =
     (if \<not> sr_valid s then
        r\<lparr>ca_script_results := ca_script_results r @ [\<lparr>sc_env_name = env_name, sc_failed = True, sc_failure_kind = sr_failure_kind s\<rparr>],
          ca_failed := ca_failed r + 1,
          ca_error := (if ca_error r = [] then sr_error s else ca_error r)\<rparr>
      else
        let r = r\<lparr>ca_script_results := ca_script_results r @ [\<lparr>sc_env_name = env_name, sc_failed = False, sc_failure_kind = FkNone\<rparr>],
                  ca_notices := ca_notices r @ (if sr_notice s \<noteq> [] then [sr_notice s] else [])\<rparr> in
        if hook_decision_rank (ca_decision r) < hook_decision_rank (sr_decision s)
        then r\<lparr>ca_decision := sr_decision s, ca_reason := sr_reason s\<rparr>
        else r)"

section \<open>The runtime object\<close>

record LuaRuntime =
  lu_loaded_scripts :: "(string \<times> string) list"
  lu_memory_used_bytes :: nat
  lu_calls_total :: u64
  lu_errors_total :: u64
  lu_instruction_limit_hits :: u64
  lu_memory_limit_hits :: u64
  lu_reload_epoch :: u64

definition LuaRuntime_init :: LuaRuntime where
  "LuaRuntime_init =
     \<lparr>lu_loaded_scripts = [], lu_memory_used_bytes = 0, lu_calls_total = 0, lu_errors_total = 0,
      lu_instruction_limit_hits = 0, lu_memory_limit_hits = 0, lu_reload_epoch = 0\<rparr>"

definition count_failure :: "ScriptFailureKind \<Rightarrow> LuaRuntime \<Rightarrow> LuaRuntime" where
  "count_failure k u =
     (let u = (case k of
          FkInstructionLimit \<Rightarrow> u\<lparr>lu_instruction_limit_hits := lu_instruction_limit_hits u + 1\<rparr>
        | FkMemoryLimit \<Rightarrow> u\<lparr>lu_memory_limit_hits := lu_memory_limit_hits u + 1\<rparr>
        | _ \<Rightarrow> u)
      in u\<lparr>lu_errors_total := lu_errors_total u + 1\<rparr>)"

text \<open>
  The file system and the compiler are a parameter: what \<open>exists\<close>, \<open>is_regular_file\<close> and the validation
  report for a path, the last with the peak memory.
\<close>

record script_files =
  sf_exists :: "string \<Rightarrow> bool"
  sf_regular :: "string \<Rightarrow> bool"
  sf_validate :: "string \<Rightarrow> string option \<times> nat"

definition load_script :: "script_files \<Rightarrow> string \<Rightarrow> string \<Rightarrow> LuaRuntime \<Rightarrow> (bool \<times> string) \<times> LuaRuntime" where
  "load_script fs path env_name u =
     (let failed = u\<lparr>lu_errors_total := lu_errors_total u + 1\<rparr> in
      if env_name = [] then ((False, ''env_name is empty''), failed)
      else if \<not> sf_exists fs path then ((False, ''script file does not exist''), failed)
      else if \<not> sf_regular fs path then ((False, ''script path is not a regular file''), failed)
      else
        case sf_validate fs path of
          (Some e, peak) \<Rightarrow> ((False, e), failed\<lparr>lu_memory_used_bytes := peak\<rparr>)
        | (None, peak) \<Rightarrow> ((True, []), u\<lparr>lu_memory_used_bytes := peak,
                                     lu_loaded_scripts := AList.update env_name path (lu_loaded_scripts u)\<rparr>))"

text \<open>One round of \<open>reload_scripts\<close>: the scripts kept, failures, the peak and the runtime's error count.\<close>

definition reload_one ::
  "script_files \<Rightarrow> string \<times> string \<Rightarrow> (string \<times> string) list \<times> nat \<times> nat \<times> u64 \<Rightarrow> (string \<times> string) list \<times> nat \<times> nat \<times> u64" where
  "reload_one fs entry acc =
     (case entry of (path, env_name) \<Rightarrow> case acc of (reloaded, failed, peak, errors) \<Rightarrow>
      if env_name = [] \<or> \<not> sf_exists fs path \<or> \<not> sf_regular fs path then (reloaded, failed + 1, peak, errors + 1)
      else
        case sf_validate fs path of
          (Some _, p) \<Rightarrow> (reloaded, failed + 1, max peak p, errors + 1)
        | (None, p) \<Rightarrow>
            if map_of reloaded env_name = None then (AList.update env_name path reloaded, failed, max peak p, errors)
            else (AList.update env_name path reloaded, failed + 1, max peak p, errors + 1))"

definition reload_scripts :: "script_files \<Rightarrow> (string \<times> string) list \<Rightarrow> LuaRuntime \<Rightarrow> (nat \<times> nat) \<times> LuaRuntime" where
  "reload_scripts fs scripts u =
     (case foldl (\<lambda>acc e. reload_one fs e acc) ([], 0, 0, lu_errors_total u) scripts of
        (reloaded, failed, peak, errors) \<Rightarrow>
          ((length reloaded, failed),
           u\<lparr>lu_memory_used_bytes := peak, lu_loaded_scripts := reloaded, lu_errors_total := errors,
             lu_reload_epoch := lu_reload_epoch u + 1\<rparr>))"

text \<open>The order in which \<open>call_all\<close> visits the scripts.\<close>

definition ordered_scripts :: "LuaRuntime \<Rightarrow> (string \<times> string) list" where
  "ordered_scripts u = sort_key fst (lu_loaded_scripts u)"

end
