(* ===== verification/Chat_Types.thy ===== *)
theory Chat_Types
  imports Lua_Runtime Job_Queue Game_Opcodes Utf8
begin

text \<open>
  Data of the chat service: the messages of \<^verbatim>\<open>proto/wire.proto\<close>, the state structures of
  \<^verbatim>\<open>server/include/server/chat/chat_service.hpp\<close> and the interfaces the service calls
  (\<^verbatim>\<open>core/include/server/core/storage/redis/client.hpp\<close>, \<^verbatim>\<open>server/include/server/storage/repositories.hpp\<close>).

  A \<open>Session*\<close> is its address, a \<open>nat\<close>; sessions are created by \<open>make_shared\<close>, so an address is not
  reused while a weak pointer to it exists, and a set of weak pointers is the sorted list of their
  addresses. A weak pointer is expired when no session object lives at its address. Redis, the
  database, the clocks, the random generator and the hash functions are operations on an abstract
  world \<open>'w\<close>. The Redis client catches every exception of its library; a repository call that throws
  returns \<open>None\<close>. Serialised protobuf messages stay structured, except where the code mixes them with text.
\<close>

section \<open>Wire messages\<close>

record LoginRes =
  lr_effective_user :: string
  lr_session_id :: u32
  lr_message :: string
  lr_is_admin :: bool

record ChatBroadcast =
  cb_room :: string
  cb_sender :: string
  cb_text :: string
  cb_sender_sid :: u32
  cb_ts_ms :: u64

record RoomInfo =
  ri_name :: string
  ri_members :: u32
  ri_locked :: bool

record SnapshotMessage =
  sm_id :: u64
  sm_sender :: string
  sm_text :: string
  sm_ts_ms :: u64

record StateSnapshot =
  ss_current_room :: string
  ss_rooms :: "RoomInfo list"
  ss_users :: "string list"
  ss_messages :: "SnapshotMessage list"
  ss_last_seen_id :: u64
  ss_your_name :: string

record RoomUsers =
  ru_room :: string
  ru_users :: "string list"

record WhisperNotice =
  wn_sender :: string
  wn_recipient :: string
  wn_text :: string
  wn_outgoing :: bool
  wn_ts_ms :: u64

record WhisperResult =
  wr_ok :: bool
  wr_reason :: string

datatype wire_body =
    LoginBody LoginRes
  | ChatBody ChatBroadcast
  | SnapshotBody StateSnapshot
  | UsersBody RoomUsers
  | WhisperBody WhisperNotice
  | WhisperResultBody WhisperResult
  | RawBody bytes

text \<open>What the service does to a session object: send a frame, send an error frame, stop it, set its status.\<close>

datatype chat_out =
    OutSend nat u16 wire_body u16
  | OutError nat u16 string
  | OutStop nat
  | OutStatus nat SessionStatus

abbreviation (input) MSG_LOGIN_RES :: u16 where "MSG_LOGIN_RES \<equiv> 0x0011"
abbreviation (input) MSG_CHAT_SEND :: u16 where "MSG_CHAT_SEND \<equiv> 0x0100"
abbreviation (input) MSG_CHAT_BROADCAST :: u16 where "MSG_CHAT_BROADCAST \<equiv> 0x0101"
abbreviation (input) MSG_WHISPER_RES :: u16 where "MSG_WHISPER_RES \<equiv> 0x0105"
abbreviation (input) MSG_WHISPER_BROADCAST :: u16 where "MSG_WHISPER_BROADCAST \<equiv> 0x0106"
abbreviation (input) MSG_STATE_SNAPSHOT :: u16 where "MSG_STATE_SNAPSHOT \<equiv> 0x0200"
abbreviation (input) MSG_ROOM_USERS :: u16 where "MSG_ROOM_USERS \<equiv> 0x0201"
abbreviation (input) MSG_REFRESH_NOTIFY :: u16 where "MSG_REFRESH_NOTIFY \<equiv> 0x0205"
abbreviation (input) FLAG_SELF :: u16 where "FLAG_SELF \<equiv> 0x0100"

abbreviation (input) ERR_INTERNAL_ERROR :: u16 where "ERR_INTERNAL_ERROR \<equiv> 0x0001"
abbreviation (input) ERR_INVALID_PAYLOAD :: u16 where "ERR_INVALID_PAYLOAD \<equiv> 0x0007"
abbreviation (input) ERR_SERVER_BUSY :: u16 where "ERR_SERVER_BUSY \<equiv> 0x0008"
abbreviation (input) ERR_UNSUPPORTED_VERSION :: u16 where "ERR_UNSUPPORTED_VERSION \<equiv> 0x0009"
abbreviation (input) ERR_NAME_TAKEN :: u16 where "ERR_NAME_TAKEN \<equiv> 0x0100"
abbreviation (input) ERR_UNAUTHORIZED :: u16 where "ERR_UNAUTHORIZED \<equiv> 0x0101"
abbreviation (input) ERR_FORBIDDEN :: u16 where "ERR_FORBIDDEN \<equiv> 0x0102"
abbreviation (input) ERR_NO_ROOM :: u16 where "ERR_NO_ROOM \<equiv> 0x0104"
abbreviation (input) ERR_ROOM_MISMATCH :: u16 where "ERR_ROOM_MISMATCH \<equiv> 0x0106"

section \<open>State under the service mutex\<close>

type_synonym RoomSet = "nat list"

record TimedPenalty =
  tp_expires_at :: int
  tp_reason :: string

text \<open>
  \<open>rooms\<close> is iterated over, so it is an association list; its order stands for the unspecified order
  of the hash table. Times of the steady clock are integers in nanoseconds.
\<close>

record ChatState =
  st_rooms :: "(string \<times> RoomSet) list"
  st_room_ids :: "string \<rightharpoonup> string"
  st_room_passwords :: "string \<rightharpoonup> string"
  st_room_owners :: "string \<rightharpoonup> string"
  st_room_invites :: "string \<rightharpoonup> string set"
  st_user :: "nat \<rightharpoonup> string"
  st_user_uuid :: "nat \<rightharpoonup> string"
  st_session_uuid :: "nat \<rightharpoonup> string"
  st_cur_room :: "nat \<rightharpoonup> string"
  st_session_ip :: "nat \<rightharpoonup> string"
  st_session_hwid_hash :: "nat \<rightharpoonup> string"
  st_user_last_ip :: "string \<rightharpoonup> string"
  st_user_last_hwid_hash :: "string \<rightharpoonup> string"
  st_authed :: "nat set"
  st_guest :: "nat set"
  st_by_user :: "string \<rightharpoonup> RoomSet"
  st_by_session_id :: "u32 \<rightharpoonup> nat"
  st_muted_users :: "string \<rightharpoonup> TimedPenalty"
  st_banned_users :: "string \<rightharpoonup> TimedPenalty"
  st_banned_ips :: "string \<rightharpoonup> int"
  st_banned_hwid_hashes :: "string \<rightharpoonup> int"
  st_spam_events :: "string \<rightharpoonup> int list"
  st_spam_violations :: "string \<rightharpoonup> u32"
  st_user_blacklists :: "string \<rightharpoonup> string set"

definition ChatState_init :: ChatState where
  "ChatState_init =
     \<lparr>st_rooms = [], st_room_ids = Map.empty, st_room_passwords = Map.empty, st_room_owners = Map.empty,
      st_room_invites = Map.empty, st_user = Map.empty, st_user_uuid = Map.empty,
      st_session_uuid = Map.empty, st_cur_room = Map.empty, st_session_ip = Map.empty,
      st_session_hwid_hash = Map.empty, st_user_last_ip = Map.empty, st_user_last_hwid_hash = Map.empty,
      st_authed = {}, st_guest = {}, st_by_user = Map.empty, st_by_session_id = Map.empty,
      st_muted_users = Map.empty, st_banned_users = Map.empty, st_banned_ips = Map.empty,
      st_banned_hwid_hashes = Map.empty, st_spam_events = Map.empty, st_spam_violations = Map.empty,
      st_user_blacklists = Map.empty\<rparr>"

section \<open>Tasks of the job queue\<close>

text \<open>
  What the closures given to the job queue capture. The queue holds these; the job a task stands for is
  defined with its handler.
\<close>

datatype chat_task =
    TaskLogin nat string string
  | TaskJoin nat string string
  | TaskLeave nat string
  | TaskChatSend nat string string
  | TaskWhisper nat string string
  | TaskRooms nat
  | TaskRoomUsers nat string
  | TaskRefresh nat
  | TaskClose nat
  | TaskDisconnect "string list" string
  | TaskNotice string
  | TaskSetting string string int
  | TaskModeration string "string list" u32 string
  | TaskPollReload

section \<open>Plugins\<close>

datatype HookDecisionV2 = HkPass | HkHandled | HkModify | HkBlock | HkAllow | HkDeny | HkUnknown u32

text \<open>A string buffer after the call: the content of its array and the size the plugin stored.\<close>

record HookStrBuf =
  hb_data :: string
  hb_size :: u32

text \<open>What a plugin function did: whether it threw, its decision and its output buffers.\<close>

record hook_reply =
  hp_threw :: bool
  hp_decision :: HookDecisionV2
  hp_notice :: HookStrBuf
  hp_replacement_text :: HookStrBuf
  hp_deny_reason :: HookStrBuf
  hp_response_json :: HookStrBuf

datatype SessionEventKindV2 = EvOpen | EvClose

text \<open>The function table of a plugin; \<open>None\<close> is a null pointer.\<close>

record 'w ChatHookApi =
  ha_name :: string
  ha_on_chat_send :: "(u32 \<Rightarrow> string \<Rightarrow> string \<Rightarrow> string \<Rightarrow> 'w \<Rightarrow> hook_reply \<times> 'w) option"
  ha_on_login :: "(u32 \<Rightarrow> string \<Rightarrow> 'w \<Rightarrow> hook_reply \<times> 'w) option"
  ha_on_join :: "(u32 \<Rightarrow> string \<Rightarrow> string \<Rightarrow> 'w \<Rightarrow> hook_reply \<times> 'w) option"
  ha_on_leave :: "(u32 \<Rightarrow> string \<Rightarrow> string \<Rightarrow> 'w \<Rightarrow> hook_reply \<times> 'w) option"
  ha_on_session_event :: "(u32 \<Rightarrow> SessionEventKindV2 \<Rightarrow> string \<Rightarrow> string \<Rightarrow> 'w \<Rightarrow> hook_reply \<times> 'w) option"
  ha_on_admin_command :: "(string \<Rightarrow> string \<Rightarrow> string \<Rightarrow> 'w \<Rightarrow> hook_reply \<times> 'w) option"

text \<open>One host of the chain: its file and the module it has loaded.\<close>

record 'w chat_plugin =
  pl_filename :: string
  pl_path :: string
  pl_api :: "'w ChatHookApi option"

section \<open>The service object\<close>

record WriteBehindConfig =
  wb_enabled :: bool
  wb_stream_key :: string
  wb_maxlen :: "nat option"
  wb_approximate :: bool

record PresenceConfig =
  pc_ttl :: u32
  pc_prefix :: string

record HistoryConfig =
  hc_recent_limit :: nat
  hc_max_list_len :: nat
  hc_fetch_factor :: nat
  hc_cache_ttl_sec :: u32

text \<open>The counters and switches kept about Lua hooks, under a mutex of their own.\<close>

record LuaHookState =
  lh_consecutive_failures :: "string \<rightharpoonup> u64"
  lh_auto_disable_total :: "string \<rightharpoonup> u64"
  lh_calls_total :: "string \<rightharpoonup> u64"
  lh_errors_total :: "string \<rightharpoonup> u64"
  lh_instruction_limit_hits :: "string \<rightharpoonup> u64"
  lh_memory_limit_hits :: "string \<rightharpoonup> u64"
  lh_script_calls_total :: "string \<rightharpoonup> string \<rightharpoonup> u64"
  lh_script_errors_total :: "string \<rightharpoonup> string \<rightharpoonup> u64"
  lh_disabled :: "string set"
  lh_reload_epoch :: u64

record HookCounters =
  hk_calls_total :: u64
  hk_errors_total :: u64
  hk_duration_count :: u64
  hk_duration_sum_ns :: u64
  hk_duration_bucket_counts :: "u64 list"

text \<open>The parts of a network session that the service reads.\<close>

record ChatSession =
  cn_session_id :: u32
  cn_remote_ip :: string

text \<open>
  \<open>cs_sessions\<close> holds the session objects that exist, \<open>cs_out\<close> what was done to them, newest last, and
  \<open>cs_world\<close> the world outside the process. \<open>cs_deadlocked\<close> is set when a thread waits for the service
  mutex while it holds it.
\<close>

record 'w ChatService =
  cs_state :: ChatState
  cs_gateway_id :: string
  cs_redis_pubsub_enabled :: bool
  cs_admin_users :: "string set"
  cs_spam_message_threshold :: nat
  cs_spam_window_sec :: u32
  cs_spam_mute_sec :: u32
  cs_spam_ban_sec :: u32
  cs_spam_ban_violation_threshold :: u32
  cs_lua_auto_disable_threshold :: u64
  cs_write_behind :: WriteBehindConfig
  cs_presence :: PresenceConfig
  cs_history :: HistoryConfig
  cs_lua_runtime :: "LuaRuntime option"
  cs_lua_hooks :: LuaHookState
  cs_hook_plugin :: "'w chat_plugin list option"
  cs_plugin_hook_metrics :: "string \<rightharpoonup> string \<rightharpoonup> HookCounters"
  cs_queue :: "chat_task JobQueue"
  cs_metrics :: metrics
  cs_deadlocked :: bool
  cs_sessions :: "nat \<rightharpoonup> ChatSession"
  cs_out :: "chat_out list"
  cs_world :: 'w

section \<open>Interfaces\<close>

record 'w redis_client =
  rc_get :: "string \<Rightarrow> 'w \<Rightarrow> string option \<times> 'w"
  rc_mget :: "string list \<Rightarrow> 'w \<Rightarrow> string option list option \<times> 'w"
  rc_setex :: "string \<Rightarrow> string \<Rightarrow> u32 \<Rightarrow> 'w \<Rightarrow> bool \<times> 'w"
  rc_del :: "string \<Rightarrow> 'w \<Rightarrow> bool \<times> 'w"
  rc_sadd :: "string \<Rightarrow> string \<Rightarrow> 'w \<Rightarrow> bool \<times> 'w"
  rc_srem :: "string \<Rightarrow> string \<Rightarrow> 'w \<Rightarrow> bool \<times> 'w"
  rc_smembers :: "string \<Rightarrow> 'w \<Rightarrow> (bool \<times> string list) \<times> 'w"
  rc_scard :: "string \<Rightarrow> 'w \<Rightarrow> nat option \<times> 'w"
  rc_scard_many :: "string list \<Rightarrow> 'w \<Rightarrow> nat list option \<times> 'w"
  rc_publish :: "string \<Rightarrow> string \<Rightarrow> 'w \<Rightarrow> bool \<times> 'w"
  rc_xadd :: "string \<Rightarrow> (string \<times> string) list \<Rightarrow> nat option \<Rightarrow> bool \<Rightarrow> 'w \<Rightarrow> bool \<times> 'w"
  rc_lpush_trim :: "string \<Rightarrow> string \<Rightarrow> nat \<Rightarrow> 'w \<Rightarrow> bool \<times> 'w"
  rc_lrange :: "string \<Rightarrow> int \<Rightarrow> int \<Rightarrow> 'w \<Rightarrow> string list option \<times> 'w"

record User =
  us_id :: string
  us_name :: string

record Room =
  rm_id :: string
  rm_name :: string

record Message =
  me_id :: u64
  me_user_name :: "string option"
  me_content :: string
  me_created_at_ms :: u64

text \<open>A unit of work is named by a handle; each call on it may throw.\<close>

record 'w repositories =
  db_make_uow :: "'w \<Rightarrow> nat option \<times> 'w"
  db_commit :: "nat \<Rightarrow> 'w \<Rightarrow> unit option \<times> 'w"
  db_find_by_name_ci :: "nat \<Rightarrow> string \<Rightarrow> nat \<Rightarrow> 'w \<Rightarrow> User list option \<times> 'w"
  db_create_guest :: "nat \<Rightarrow> string \<Rightarrow> 'w \<Rightarrow> User option \<times> 'w"
  db_update_last_login :: "nat \<Rightarrow> string \<Rightarrow> string \<Rightarrow> 'w \<Rightarrow> unit option \<times> 'w"
  db_find_room :: "nat \<Rightarrow> string \<Rightarrow> 'w \<Rightarrow> Room option option \<times> 'w"
  db_create_room :: "nat \<Rightarrow> string \<Rightarrow> bool \<Rightarrow> 'w \<Rightarrow> Room option \<times> 'w"
  db_close_room :: "nat \<Rightarrow> string \<Rightarrow> 'w \<Rightarrow> unit option \<times> 'w"
  db_fetch_recent :: "nat \<Rightarrow> string \<Rightarrow> u64 \<Rightarrow> nat \<Rightarrow> 'w \<Rightarrow> Message list option \<times> 'w"
  db_create_message :: "nat \<Rightarrow> string \<Rightarrow> string \<Rightarrow> string option \<Rightarrow> string \<Rightarrow> 'w \<Rightarrow> Message option \<times> 'w"
  db_get_last_id :: "nat \<Rightarrow> string \<Rightarrow> 'w \<Rightarrow> u64 option \<times> 'w"
  db_upsert_join :: "nat \<Rightarrow> string \<Rightarrow> string \<Rightarrow> string \<Rightarrow> 'w \<Rightarrow> unit option \<times> 'w"
  db_update_last_seen :: "nat \<Rightarrow> string \<Rightarrow> string \<Rightarrow> u64 \<Rightarrow> 'w \<Rightarrow> unit option \<times> 'w"
  db_get_last_seen :: "nat \<Rightarrow> string \<Rightarrow> string \<Rightarrow> 'w \<Rightarrow> u64 option option \<times> 'w"

section \<open>Atomic actions\<close>

type_synonym ('w, 'a) chat_job = "('w ChatService, 'a) job"

definition live :: "'w ChatService \<Rightarrow> nat \<Rightarrow> bool" where
  "live c s \<longleftrightarrow> s \<in> dom (cs_sessions c)"

text \<open>A section under \<open>state_.mu\<close>; it sees which weak pointers can be locked.\<close>

definition locked :: "((nat \<Rightarrow> bool) \<Rightarrow> ChatState \<Rightarrow> 'a \<times> ChatState) \<Rightarrow> 'w ChatService \<Rightarrow> 'a \<times> 'w ChatService" where
  "locked f c = map_prod id (\<lambda>st. c\<lparr>cs_state := st\<rparr>) (f (live c) (cs_state c))"

text \<open>A section that only reads.\<close>

definition reading :: "(ChatState \<Rightarrow> 'a) \<Rightarrow> 'w ChatService \<Rightarrow> 'a \<times> 'w ChatService" where
  "reading f c = (f (cs_state c), c)"

text \<open>A read of the members of the service that no mutex protects.\<close>

definition asking :: "('w ChatService \<Rightarrow> 'a) \<Rightarrow> 'w ChatService \<Rightarrow> 'a \<times> 'w ChatService" where
  "asking f c = (f c, c)"

definition outside :: "('w \<Rightarrow> 'a \<times> 'w) \<Rightarrow> 'w ChatService \<Rightarrow> 'a \<times> 'w ChatService" where
  "outside f c = map_prod id (\<lambda>w. c\<lparr>cs_world := w\<rparr>) (f (cs_world c))"

definition emit :: "chat_out \<Rightarrow> 'w ChatService \<Rightarrow> unit \<times> 'w ChatService" where
  "emit e c = ((), c\<lparr>cs_out := cs_out c @ [e]\<rparr>)"

definition send_frame :: "nat \<Rightarrow> u16 \<Rightarrow> wire_body \<Rightarrow> u16 \<Rightarrow> ('w, unit) chat_job" where
  "send_frame s msg_id body flags = act (emit (OutSend s msg_id body flags)) Return"

definition send_error :: "nat \<Rightarrow> u16 \<Rightarrow> string \<Rightarrow> ('w, unit) chat_job" where
  "send_error s code msg = act (emit (OutError s code msg)) Return"

definition stop_session :: "nat \<Rightarrow> ('w, unit) chat_job" where
  "stop_session s = act (emit (OutStop s)) Return"

text \<open>An external call whose result is ignored.\<close>

definition quietly :: "('w \<Rightarrow> 'a \<times> 'w) \<Rightarrow> ('w, unit) chat_job" where
  "quietly f = act (outside f) (\<lambda>_. job_skip)"

section \<open>Sets of weak pointers\<close>

definition rs_insert :: "nat \<Rightarrow> RoomSet \<Rightarrow> RoomSet" where
  "rs_insert s xs = (if s \<in> set xs then xs else insort s xs)"

definition rs_erase :: "nat \<Rightarrow> RoomSet \<Rightarrow> RoomSet" where
  "rs_erase s xs = filter (\<lambda>x. x \<noteq> s) xs"

text \<open>\<open>collect_room_sessions\<close>: the sessions that can be locked, and the set without the expired pointers.\<close>

definition collect_room_sessions :: "(nat \<Rightarrow> bool) \<Rightarrow> RoomSet \<Rightarrow> nat list \<times> RoomSet" where
  "collect_room_sessions alive xs = (filter alive xs, filter alive xs)"

lemma set_rs_insert [simp]: "set (rs_insert s xs) = insert s (set xs)"
  by (auto simp: rs_insert_def set_insort_key)

lemma set_rs_erase [simp]: "set (rs_erase s xs) = set xs - {s}"
  by (auto simp: rs_erase_def)

definition rs_ok :: "RoomSet \<Rightarrow> bool" where
  "rs_ok xs \<longleftrightarrow> sorted xs \<and> distinct xs"

lemma rs_ok_ops [simp]:
  "rs_ok []" "rs_ok xs \<Longrightarrow> rs_ok (rs_insert s xs)" "rs_ok xs \<Longrightarrow> rs_ok (rs_erase s xs)" "rs_ok xs \<Longrightarrow> rs_ok (filter P xs)"
  by (simp_all add: rs_ok_def rs_insert_def rs_erase_def sorted_insort distinct_insort
        sorted_wrt_filter)

end
