(* ===== verification/Chat_Core.thy ===== *)
theory Chat_Core
  imports Chat_Types
begin

text \<open>
  Helpers of the chat service that its handlers share, from \<^verbatim>\<open>server/src/chat/chat_service_core.cpp\<close>:
  identifiers, names, notices, room broadcasts, refresh notifications, presence, write-behind events,
  room passwords, room identifiers. A function that takes the service mutex once is an atomic action; a
  longer one is a job.
\<close>

section \<open>Parameters of the service\<close>

text \<open>
  What the process gets from outside: the Redis client and the database if configured, the hash
  functions, protobuf, clocks, randomness, the trace context, the plugin loader, script files and the
  Lua machine.
\<close>

record 'w chat_env =
  ce_redis :: "'w redis_client option"
  ce_db :: "'w repositories option"
  ce_sha256 :: "string \<Rightarrow> bytes option"
  ce_std_hash :: "string \<Rightarrow> u64"
  ce_serialize :: "wire_body \<Rightarrow> string"
  ce_parse_chat :: "bytes \<Rightarrow> ChatBroadcast option"
  ce_parse_whisper :: "bytes \<Rightarrow> WhisperNotice option"
  ce_serialize_message :: "SnapshotMessage \<Rightarrow> string option"
  ce_parse_message :: "string \<Rightarrow> SnapshotMessage option"
  ce_steady_now :: "'w \<Rightarrow> int \<times> 'w"
  ce_system_now_ms :: "'w \<Rightarrow> u64 \<times> 'w"
  ce_random :: "'w \<Rightarrow> u64 \<times> 'w"
  ce_trace :: "'w \<Rightarrow> (string \<times> string) \<times> 'w"
  ce_poll_chain :: "'w chat_plugin list \<Rightarrow> 'w \<Rightarrow> 'w chat_plugin list \<times> 'w"
  ce_read_script :: "string \<Rightarrow> 'w \<Rightarrow> (string + string) \<times> 'w"
  ce_vm :: "string \<Rightarrow> string \<Rightarrow> string \<Rightarrow> string \<Rightarrow> LuaHookContext \<Rightarrow> 'w \<Rightarrow> script_run \<times> 'w"

definition clock_ms :: "'w chat_env \<Rightarrow> (u64 \<Rightarrow> ('w, 'a) chat_job) \<Rightarrow> ('w, 'a) chat_job" where
  "clock_ms E k = act (outside (ce_system_now_ms E)) k"

text \<open>A Redis command when Redis is configured.\<close>

definition redis_do :: "'w chat_env \<Rightarrow> ('w redis_client \<Rightarrow> 'w \<Rightarrow> 'a \<times> 'w) \<Rightarrow> ('w, unit) chat_job" where
  "redis_do E f = (case ce_redis E of None \<Rightarrow> job_skip | Some r \<Rightarrow> quietly (f r))"

section \<open>Identifiers and names\<close>

definition le_bytes64 :: "u64 \<Rightarrow> bytes" where
  "le_bytes64 v = map (\<lambda>j. ucast (drop_bit (8 * j) v AND 0xFF)) [0 ..< 8]"

definition uuid_text :: "bytes \<Rightarrow> string" where
  "uuid_text b = concat (map (\<lambda>i. hex_byte (b ! i) @ (if i \<in> {3, 5, 7, 9} then ''-'' else [])) [0 ..< 16])"

definition generate_uuid_v4 :: "'w chat_env \<Rightarrow> 'w \<Rightarrow> string \<times> 'w" where
  "generate_uuid_v4 E w =
     (let (v0, w) = ce_random E w; (v1, w) = ce_random E w;
          b = le_bytes64 v0 @ le_bytes64 v1;
          b = b[6 := ((b ! 6) AND 0x0F) OR 0x40];
          b = b[8 := ((b ! 8) AND 0x3F) OR 0x80]
      in (uuid_text b, w))"

definition get_or_create_session_uuid :: "'w chat_env \<Rightarrow> nat \<Rightarrow> 'w ChatService \<Rightarrow> string \<times> 'w ChatService" where
  "get_or_create_session_uuid E s c =
     (let st = cs_state c;
          make = (let (i, w) = generate_uuid_v4 E (cs_world c)
                  in (i, c\<lparr>cs_world := w, cs_state := st\<lparr>st_session_uuid := (st_session_uuid st)(s \<mapsto> i)\<rparr>\<rparr>)) in
      case st_session_uuid st s of
        Some i \<Rightarrow> if i \<noteq> [] then (i, c) else make
      | None \<Rightarrow> make)"

definition gen_temp_name_uuid8 :: "'w chat_env \<Rightarrow> 'w \<Rightarrow> string \<times> 'w" where
  "gen_temp_name_uuid8 E w =
     (let (v, w) = ce_random E w in
      (hex_encode (map (\<lambda>j. ucast (drop_bit (8 * (3 - j)) v AND 0xFF)) [0 ..< 4]), w))"

fun pick_temp_name :: "'w chat_env \<Rightarrow> ChatState \<Rightarrow> nat \<Rightarrow> 'w \<Rightarrow> string \<times> 'w" where
  "pick_temp_name E st 0 w = gen_temp_name_uuid8 E w"
| "pick_temp_name E st (Suc n) w =
     (let (cand, w) = gen_temp_name_uuid8 E w in
      case st_by_user st cand of
        None \<Rightarrow> (cand, w)
      | Some xs \<Rightarrow> if xs = [] then (cand, w) else pick_temp_name E st n w)"

text \<open>The loop stops at the first session it can lock and has erased the expired pointers before it.\<close>

definition ensure_unique_or_error :: "'w chat_env \<Rightarrow> nat \<Rightarrow> string \<Rightarrow> 'w ChatService \<Rightarrow> string \<times> 'w ChatService" where
  "ensure_unique_or_error E s desired c =
     (let st = cs_state c in
      if desired \<noteq> [] \<and> desired \<noteq> ''guest'' then
        (case st_by_user st desired of
           None \<Rightarrow> (desired, c)
         | Some xs \<Rightarrow>
             let c = c\<lparr>cs_state := st\<lparr>st_by_user := (st_by_user st)(desired \<mapsto> dropWhile (\<lambda>p. \<not> live c p) xs)\<rparr>\<rparr> in
             if \<exists>p \<in> set xs. live c p
             then ([], snd (emit (OutError s ERR_NAME_TAKEN ''name taken'') c))
             else (desired, c))
      else
        let (cand, w) = pick_temp_name E st 4 (cs_world c) in (cand, c\<lparr>cs_world := w\<rparr>))"

definition user_or_guest :: "ChatState \<Rightarrow> nat \<Rightarrow> string" where
  "user_or_guest st s = (case st_user st s of Some u \<Rightarrow> u | None \<Rightarrow> ''guest'')"

definition str_or_empty :: "string option \<Rightarrow> string" where
  "str_or_empty x = (case x of Some u \<Rightarrow> u | None \<Rightarrow> [])"

text \<open>\<open>std::optional\<close> set from a string when it is not empty.\<close>

definition nonempty :: "string \<Rightarrow> string option" where
  "nonempty s = (if s = [] then None else Some s)"

section \<open>Rooms and recipients\<close>

definition room_set :: "ChatState \<Rightarrow> string \<Rightarrow> RoomSet" where
  "room_set st r = (case map_of (st_rooms st) r of Some xs \<Rightarrow> xs | None \<Rightarrow> [])"

definition put_room :: "string \<Rightarrow> RoomSet \<Rightarrow> ChatState \<Rightarrow> ChatState" where
  "put_room r xs st = st\<lparr>st_rooms := AList.update r xs (st_rooms st)\<rparr>"

text \<open>\<open>rooms[r].insert(s)\<close>.\<close>

definition room_insert :: "string \<Rightarrow> nat \<Rightarrow> ChatState \<Rightarrow> ChatState" where
  "room_insert r s st = put_room r (rs_insert s (room_set st r)) st"

text \<open>An emptied room is forgotten with its password, owner and invitations.\<close>

definition forget_room :: "string \<Rightarrow> ChatState \<Rightarrow> ChatState" where
  "forget_room r st =
     st\<lparr>st_rooms := AList.delete r (st_rooms st), st_room_passwords := (st_room_passwords st)(r := None),
        st_room_owners := (st_room_owners st)(r := None), st_room_invites := (st_room_invites st)(r := None)\<rparr>"

text \<open>The search for a new owner: the first named member that is not a guest, else the last guest.\<close>

fun next_owner :: "(nat \<Rightarrow> bool) \<Rightarrow> (nat \<rightharpoonup> string) \<Rightarrow> RoomSet \<Rightarrow> string \<Rightarrow> string" where
  "next_owner alive user [] new_owner = new_owner"
| "next_owner alive user (s # ss) new_owner =
     (if alive s then
        (case user s of
           None \<Rightarrow> next_owner alive user ss new_owner
         | Some u \<Rightarrow> if u \<noteq> ''guest'' then u else next_owner alive user ss u)
      else next_owner alive user ss new_owner)"

definition hand_over :: "(nat \<Rightarrow> bool) \<Rightarrow> string \<Rightarrow> ChatState \<Rightarrow> ChatState" where
  "hand_over alive r st =
     (let new_owner = next_owner alive (st_user st) (room_set st r) [] in
      if new_owner \<noteq> [] then st\<lparr>st_room_owners := (st_room_owners st)(r \<mapsto> new_owner)\<rparr> else st)"

text \<open>The members of a room that can be locked; expired pointers are erased.\<close>

definition room_targets :: "string \<Rightarrow> (nat \<Rightarrow> bool) \<Rightarrow> ChatState \<Rightarrow> nat list \<times> ChatState" where
  "room_targets r alive st =
     (case map_of (st_rooms st) r of
        None \<Rightarrow> ([], st)
      | Some xs \<Rightarrow> (case collect_room_sessions alive xs of (ts, xs') \<Rightarrow> (ts, put_room r xs' st)))"

definition blocks :: "ChatState \<Rightarrow> string \<Rightarrow> string \<Rightarrow> bool" where
  "blocks st receiver sender \<longleftrightarrow>
     (case st_user_blacklists st receiver of None \<Rightarrow> False | Some blocked \<Rightarrow> sender \<in> blocked)"

definition unblocked_targets :: "ChatState \<Rightarrow> string \<Rightarrow> nat list \<Rightarrow> nat list" where
  "unblocked_targets st sender targets =
     filter (\<lambda>t. case st_user st t of None \<Rightarrow> False | Some receiver \<Rightarrow> \<not> blocks st receiver sender) targets"

text \<open>Collecting the recipients of what \<open>sender\<close> says or does in a room.\<close>

definition recipients :: "string \<Rightarrow> string \<Rightarrow> (nat \<Rightarrow> bool) \<Rightarrow> ChatState \<Rightarrow> nat list \<times> ChatState" where
  "recipients r sender alive st =
     (case room_targets r alive st of (ts, st') \<Rightarrow> (unblocked_targets st' sender ts, st'))"

section \<open>Notices and broadcasts\<close>

definition system_message :: "string \<Rightarrow> string \<Rightarrow> u64 \<Rightarrow> wire_body" where
  "system_message room text ts =
     ChatBody \<lparr>cb_room = room, cb_sender = ''(system)'', cb_text = text, cb_sender_sid = 0, cb_ts_ms = ts\<rparr>"

definition entered_text :: string where
  "entered_text = bytes_string [0x20, 0xEB, 0x8B, 0x98, 0xEC, 0x9D, 0xB4, 0x20, 0xEC, 0x9E, 0x85, 0xEC, 0x9E, 0xA5, 0xED,
     0x96, 0x88, 0xEC, 0x8A, 0xB5, 0xEB, 0x8B, 0x88, 0xEB, 0x8B, 0xA4]"

definition left_text :: string where
  "left_text = bytes_string [0x20, 0xEB, 0x8B, 0x98, 0xEC, 0x9D, 0xB4, 0x20, 0xEB, 0x96, 0xA0, 0xEB, 0x82, 0xAC, 0xEC,
     0x8A, 0xB5, 0xEB, 0x8B, 0x88, 0xEB, 0x8B, 0xA4]"

definition closed_text :: string where
  "closed_text = bytes_string [0x20, 0xEB, 0x8B, 0x98, 0xEC, 0x9D, 0xB4, 0x20, 0xEC, 0x97, 0xB0, 0xEA, 0xB2, 0xB0, 0xEC,
     0x9D, 0x84, 0x20, 0xEC, 0xA2, 0x85, 0xEB, 0xA3, 0x8C, 0xED, 0x96, 0x88, 0xEC, 0x8A, 0xB5, 0xEB, 0x8B, 0x88, 0xEB,
     0x8B, 0xA4]"

definition send_system_notice :: "'w chat_env \<Rightarrow> nat \<Rightarrow> string \<Rightarrow> ('w, unit) chat_job" where
  "send_system_notice E s text =
     clock_ms E (\<lambda>ts. send_frame s MSG_CHAT_BROADCAST (system_message ''(system)'' text ts) 0)"

definition send_all :: "nat list \<Rightarrow> u16 \<Rightarrow> wire_body \<Rightarrow> ('w, unit) chat_job" where
  "send_all targets msg_id body = job_each (\<lambda>t. send_frame t msg_id body 0) targets"

definition send_whisper_result :: "nat \<Rightarrow> bool \<Rightarrow> string \<Rightarrow> ('w, unit) chat_job" where
  "send_whisper_result s ok reason =
     send_frame s MSG_WHISPER_RES (WhisperResultBody \<lparr>wr_ok = ok, wr_reason = reason\<rparr>) 0"

definition body_sender :: "'w chat_env \<Rightarrow> wire_body \<Rightarrow> string" where
  "body_sender E body =
     (case body of
        ChatBody pb \<Rightarrow> cb_sender pb
      | RawBody b \<Rightarrow> (case ce_parse_chat E b of Some pb \<Rightarrow> cb_sender pb | None \<Rightarrow> [])
      | _ \<Rightarrow> [])"

definition broadcast_room :: "'w chat_env \<Rightarrow> string \<Rightarrow> wire_body \<Rightarrow> ('w, unit) chat_job" where
  "broadcast_room E room body =
     (let sender = body_sender E body in
      act (locked (\<lambda>alive st. if sender \<noteq> [] then recipients room sender alive st else room_targets room alive st))
        (\<lambda>targets. send_all targets MSG_CHAT_BROADCAST body))"

definition broadcast_refresh_local :: "string \<Rightarrow> ('w, unit) chat_job" where
  "broadcast_refresh_local room =
     act (locked (room_targets room)) (\<lambda>targets. send_all targets MSG_REFRESH_NOTIFY (RawBody []))"

definition broadcast_refresh :: "'w chat_env \<Rightarrow> string \<Rightarrow> ('w, unit) chat_job" where
  "broadcast_refresh E room =
     job_seq (broadcast_refresh_local room)
       (case ce_redis E of
          None \<Rightarrow> job_skip
        | Some r \<Rightarrow>
            act (asking (\<lambda>c. (cs_redis_pubsub_enabled c, pc_prefix (cs_presence c), cs_gateway_id c)))
              (\<lambda>(pubsub, pre, gw). job_when pubsub (quietly (rc_publish r (pre @ ''fanout:refresh:'' @ room) (''gw='' @ gw)))))"

section \<open>Presence and write-behind events\<close>

definition make_presence_key :: "PresenceConfig \<Rightarrow> string \<Rightarrow> string \<Rightarrow> string" where
  "make_presence_key p category i = pc_prefix p @ category @ i"

definition touch_user_presence :: "'w chat_env \<Rightarrow> string \<Rightarrow> ('w, unit) chat_job" where
  "touch_user_presence E uid =
     (case ce_redis E of
        None \<Rightarrow> job_skip
      | Some r \<Rightarrow>
          job_when (uid \<noteq> [])
            (act (asking cs_presence) (\<lambda>p. quietly (rc_setex r (make_presence_key p ''presence:user:'' uid) ''1'' (pc_ttl p)))))"

text \<open>The fields of an event: fixed ones first, optional ones when not empty, then the caller's.\<close>

definition write_behind_fields ::
  "string \<Rightarrow> u64 \<Rightarrow> string \<Rightarrow> string option \<Rightarrow> string option \<Rightarrow> string \<Rightarrow> string \<Rightarrow> string \<Rightarrow> (string \<times> string) list \<Rightarrow> (string \<times> string) list" where
  "write_behind_fields ty now_ms session_id user_id room_id gateway_id trace_id correlation_id extra_fields =
     (let opt = (\<lambda>key v. if v = [] then [] else [(key, v)]) in
      [(''type'', ty), (''ts_ms'', show_nat (unat now_ms)), (''session_id'', session_id)]
      @ opt ''user_id'' (str_or_empty user_id)
      @ opt ''room_id'' (str_or_empty room_id)
      @ opt ''gateway_id'' gateway_id
      @ opt ''trace_id'' trace_id
      @ opt ''correlation_id'' correlation_id
      @ filter (\<lambda>(k, v). k \<noteq> [] \<and> v \<noteq> []) extra_fields)"

definition emit_write_behind_event ::
  "'w chat_env \<Rightarrow> string \<Rightarrow> string \<Rightarrow> string option \<Rightarrow> string option \<Rightarrow> (string \<times> string) list \<Rightarrow> ('w, unit) chat_job" where
  "emit_write_behind_event E ty session_id user_id room_id extra_fields =
     (case ce_redis E of
        None \<Rightarrow> job_skip
      | Some r \<Rightarrow>
          act (asking (\<lambda>c. (cs_write_behind c, cs_gateway_id c))) (\<lambda>(wb, gw).
          job_when (wb_enabled wb \<and> ty \<noteq> [] \<and> session_id \<noteq> [])
            (clock_ms E (\<lambda>now_ms.
             act (outside (ce_trace E)) (\<lambda>(trace_id, correlation_id).
             quietly (rc_xadd r (wb_stream_key wb)
               (write_behind_fields ty now_ms session_id user_id room_id gw trace_id correlation_id extra_fields)
               (wb_maxlen wb) (wb_approximate wb)))))))"

section \<open>Room passwords and device hashes\<close>

fun show_hex :: "nat \<Rightarrow> string" where
  "show_hex n = (if n < 16 then [kHex ! n] else show_hex (n div 16) @ [kHex ! (n mod 16)])"

declare show_hex.simps [simp del]

definition kRoomPasswordHashPrefix :: string where "kRoomPasswordHashPrefix = ''sha256:''"

definition legacy_hash_room_password :: "'w chat_env \<Rightarrow> string \<Rightarrow> string" where
  "legacy_hash_room_password E password = show_hex (unat (ce_std_hash E password))"

definition sha256_hex :: "'w chat_env \<Rightarrow> string \<Rightarrow> string" where
  "sha256_hex E input = (case ce_sha256 E input of None \<Rightarrow> [] | Some digest \<Rightarrow> hex_encode digest)"

definition hash_room_password :: "'w chat_env \<Rightarrow> string \<Rightarrow> string" where
  "hash_room_password E password =
     (let digest = sha256_hex E password in if digest = [] then [] else kRoomPasswordHashPrefix @ digest)"

definition hash_hwid_token :: "'w chat_env \<Rightarrow> string \<Rightarrow> string" where
  "hash_hwid_token E token =
     (if token = [] then []
      else let digest = sha256_hex E token in if digest = [] then [] else ''hwid:'' @ digest)"

definition is_modern_room_password_hash :: "string \<Rightarrow> bool" where
  "is_modern_room_password_hash stored = starts_with kRoomPasswordHashPrefix stored"

definition verify_room_password :: "'w chat_env \<Rightarrow> string \<Rightarrow> string \<Rightarrow> bool" where
  "verify_room_password E password stored =
     (if stored = [] then False
      else if is_modern_room_password_hash stored then hash_room_password E password = stored
      else legacy_hash_room_password E password = stored)"

section \<open>Room identifiers\<close>

text \<open>
  The cache is looked up under the mutex, the database asked without it, and the answer cached with
  \<open>emplace\<close>, which keeps an entry that appeared meanwhile.
\<close>

definition cache_room_id :: "string \<Rightarrow> string \<Rightarrow> (nat \<Rightarrow> bool) \<Rightarrow> ChatState \<Rightarrow> unit \<times> ChatState" where
  "cache_room_id room_name i alive st =
     ((), if st_room_ids st room_name = None then st\<lparr>st_room_ids := (st_room_ids st)(room_name \<mapsto> i)\<rparr> else st)"

definition ensure_room_id_ci :: "'w chat_env \<Rightarrow> string \<Rightarrow> ('w, string) chat_job" where
  "ensure_room_id_ci E room_name =
     (case ce_db E of
        None \<Rightarrow> Return []
      | Some db \<Rightarrow>
          act (reading (\<lambda>st. st_room_ids st room_name)) (\<lambda>cached.
          case cached of
            Some i \<Rightarrow> Return i
          | None \<Rightarrow>
              (let failed = Return [];
                   finish = (\<lambda>u i. attempt (outside (db_commit db u))
                       (\<lambda>_. act (locked (cache_room_id room_name i)) (\<lambda>_. Return i)) failed) in
               attempt (outside (db_make_uow db)) (\<lambda>u.
               attempt (outside (db_find_room db u room_name)) (\<lambda>found.
                 case found of
                   Some r \<Rightarrow> finish u (rm_id r)
                 | None \<Rightarrow> attempt (outside (db_create_room db u room_name True)) (\<lambda>r. finish u (rm_id r)) failed)
               failed) failed)))"

text \<open>The recorded user identifier of a session, empty when there is none.\<close>

definition user_uuid_of :: "nat \<Rightarrow> (string \<Rightarrow> ('w, 'a) chat_job) \<Rightarrow> ('w, 'a) chat_job" where
  "user_uuid_of s k = act (reading (\<lambda>st. str_or_empty (st_user_uuid st s))) k"

end
