(* ===== verification/Chat_Moderation.thy ===== *)
theory Chat_Moderation
  imports Chat_Core
begin

text \<open>
  Moderation and administration of the chat service and the host functions offered to Lua scripts, from
  \<^verbatim>\<open>server/src/chat/chat_service_core.cpp\<close>, \<^verbatim>\<open>server/src/scripting/chat_lua_bindings.cpp\<close> and
  \<^verbatim>\<open>core/include/server/core/config/runtime_settings.hpp\<close>.
\<close>

section \<open>The job queue\<close>

definition try_push :: "chat_task \<Rightarrow> 'w ChatService \<Rightarrow> bool \<times> 'w ChatService" where
  "try_push t c =
     (case JobQueue_TryPush (Some t) (cs_queue c) (cs_metrics c) of (ok, q, m) \<Rightarrow> (ok, c\<lparr>cs_queue := q, cs_metrics := m\<rparr>))"

definition metric :: "(metrics \<Rightarrow> metrics) \<Rightarrow> 'w ChatService \<Rightarrow> unit \<times> 'w ChatService" where
  "metric f c = ((), c\<lparr>cs_metrics := f (cs_metrics c)\<rparr>)"

section \<open>Penalties\<close>

definition seconds :: "u32 \<Rightarrow> int" where
  "seconds n = uint n * 1000000000"

text \<open>A ban of a user with the address and the device last seen.\<close>

definition ban_user :: "int \<Rightarrow> string \<Rightarrow> string \<Rightarrow> ChatState \<Rightarrow> ChatState" where
  "ban_user expires_at reason user st =
     st\<lparr>st_banned_users := (st_banned_users st)(user \<mapsto> \<lparr>tp_expires_at = expires_at, tp_reason = reason\<rparr>),
        st_banned_ips := (case st_user_last_ip st user of
            Some ip \<Rightarrow> if ip \<noteq> [] then (st_banned_ips st)(ip \<mapsto> expires_at) else st_banned_ips st
          | None \<Rightarrow> st_banned_ips st),
        st_banned_hwid_hashes := (case st_user_last_hwid_hash st user of
            Some h \<Rightarrow> if h \<noteq> [] then (st_banned_hwid_hashes st)(h \<mapsto> expires_at) else st_banned_hwid_hashes st
          | None \<Rightarrow> st_banned_hwid_hashes st)\<rparr>"

definition unban_user :: "string \<Rightarrow> ChatState \<Rightarrow> ChatState" where
  "unban_user user st =
     st\<lparr>st_banned_users := (st_banned_users st)(user := None),
        st_banned_ips := (case st_user_last_ip st user of
            Some ip \<Rightarrow> if ip \<noteq> [] then (st_banned_ips st)(ip := None) else st_banned_ips st
          | None \<Rightarrow> st_banned_ips st),
        st_banned_hwid_hashes := (case st_user_last_hwid_hash st user of
            Some h \<Rightarrow> if h \<noteq> [] then (st_banned_hwid_hashes st)(h := None) else st_banned_hwid_hashes st
          | None \<Rightarrow> st_banned_hwid_hashes st)\<rparr>"

definition mute_user :: "int \<Rightarrow> string \<Rightarrow> string \<Rightarrow> ChatState \<Rightarrow> ChatState" where
  "mute_user expires_at reason user st =
     st\<lparr>st_muted_users := (st_muted_users st)(user \<mapsto> \<lparr>tp_expires_at = expires_at, tp_reason = reason\<rparr>)\<rparr>"

text \<open>The sessions of a user that can be locked; expired pointers are erased.\<close>

definition user_sessions :: "string \<Rightarrow> (nat \<Rightarrow> bool) \<Rightarrow> ChatState \<Rightarrow> nat list \<times> ChatState" where
  "user_sessions user alive st =
     (case st_by_user st user of
        None \<Rightarrow> ([], st)
      | Some xs \<Rightarrow> (filter alive xs, st\<lparr>st_by_user := (st_by_user st)(user \<mapsto> filter alive xs)\<rparr>))"

text \<open>The body of the moderation loop for one user.\<close>

definition moderate_one ::
  "string \<Rightarrow> int \<Rightarrow> u32 \<Rightarrow> string \<Rightarrow> u32 \<times> u32 \<Rightarrow> (nat \<Rightarrow> bool) \<Rightarrow> string \<Rightarrow> nat list \<times> ChatState \<Rightarrow> nat list \<times> ChatState" where
  "moderate_one op now duration_sec reason defaults alive user acc =
     (case acc of (affected, st) \<Rightarrow> case defaults of (mute_sec, ban_sec) \<Rightarrow>
      let add_user_sessions = (\<lambda>st. case user_sessions user alive st of
            (ss, st) \<Rightarrow> (affected @ filter (\<lambda>s. s \<notin> set affected) ss, st)) in
      if op = ''mute'' then
        (affected, mute_user (now + seconds (if 0 < duration_sec then duration_sec else mute_sec))
           (if reason = [] then ''muted by administrator'' else reason) user st)
      else if op = ''unmute'' then (affected, st\<lparr>st_muted_users := (st_muted_users st)(user := None)\<rparr>)
      else if op = ''ban'' then
        add_user_sessions (ban_user (now + seconds (if 0 < duration_sec then duration_sec else ban_sec))
           (if reason = [] then ''banned by administrator'' else reason) user st)
      else if op = ''unban'' then (affected, unban_user user st)
      else if op = ''kick'' then add_user_sessions st
      else (affected, st))"

definition moderate_all ::
  "string \<Rightarrow> int \<Rightarrow> u32 \<Rightarrow> string \<Rightarrow> u32 \<times> u32 \<Rightarrow> string list \<Rightarrow> (nat \<Rightarrow> bool) \<Rightarrow> ChatState \<Rightarrow> nat list \<times> ChatState" where
  "moderate_all op now duration_sec reason defaults users alive st =
     foldl (\<lambda>acc user. moderate_one op now duration_sec reason defaults alive user acc) ([], st) users"

definition disconnect_session :: "'w chat_env \<Rightarrow> string \<Rightarrow> nat \<Rightarrow> ('w, unit) chat_job" where
  "disconnect_session E notice s = job_seq (send_system_notice E s notice) (stop_session s)"

definition moderation_job :: "'w chat_env \<Rightarrow> string \<Rightarrow> string list \<Rightarrow> u32 \<Rightarrow> string \<Rightarrow> ('w, unit) chat_job" where
  "moderation_job E op users duration_sec reason =
     act (outside (ce_steady_now E)) (\<lambda>now.
     act (asking (\<lambda>c. (cs_spam_mute_sec c, cs_spam_ban_sec c))) (\<lambda>defaults.
     act (locked (moderate_all op now duration_sec reason defaults users)) (\<lambda>affected.
     job_when (op = ''ban'' \<or> op = ''kick'')
       (job_each (disconnect_session E
          (if reason = [] then (if op = ''ban'' then ''temporarily banned'' else ''disconnected by administrator'') else reason)) affected))))"

text \<open>The arguments of a moderation request are trimmed, its operation lowered, before it is queued.\<close>

definition moderation_task :: "string \<Rightarrow> string list \<Rightarrow> u32 \<Rightarrow> string \<Rightarrow> chat_task option" where
  "moderation_task op users duration_sec reason =
     (let targets = filter (\<lambda>u. u \<noteq> []) (map c_trim users) in
      if op = [] \<or> users = [] \<or> targets = [] then None
      else Some (TaskModeration (c_lower (c_trim op)) targets duration_sec (c_trim reason)))"

definition apply_user_moderation_without_hook :: "string \<Rightarrow> string list \<Rightarrow> u32 \<Rightarrow> string \<Rightarrow> ('w, bool) chat_job" where
  "apply_user_moderation_without_hook op users duration_sec reason =
     (case moderation_task op users duration_sec reason of
        None \<Rightarrow> Return False
      | Some t \<Rightarrow> act (try_push t) Return)"

section \<open>Disconnecting users and notices to all\<close>

definition logged_in :: "ChatState \<Rightarrow> nat \<Rightarrow> bool" where
  "logged_in st s \<longleftrightarrow> s \<in> st_authed st \<and> s \<notin> st_guest st"

definition disconnect_targets :: "string list \<Rightarrow> (nat \<Rightarrow> bool) \<Rightarrow> ChatState \<Rightarrow> nat list \<times> ChatState" where
  "disconnect_targets users alive st =
     foldl (\<lambda>(sessions, st) user. case user_sessions user alive st of
         (ss, st) \<Rightarrow> (sessions @ filter (\<lambda>s. logged_in st s \<and> s \<notin> set sessions) ss, st)) ([], st) users"

definition disconnect_job :: "'w chat_env \<Rightarrow> string list \<Rightarrow> string \<Rightarrow> ('w, unit) chat_job" where
  "disconnect_job E users notice =
     act (locked (disconnect_targets users)) (\<lambda>sessions.
     job_each (\<lambda>s. job_seq (job_when (notice \<noteq> []) (send_system_notice E s notice)) (stop_session s)) sessions)"

definition everyone :: "(nat \<Rightarrow> bool) \<Rightarrow> ChatState \<Rightarrow> nat list \<times> ChatState" where
  "everyone alive st =
     (let pruned = map (\<lambda>(n, xs). (n, filter alive xs)) (st_rooms st) in
      (foldl (\<lambda>sessions (n, xs). sessions @ filter (\<lambda>s. logged_in st s \<and> s \<notin> set sessions) xs) [] pruned,
       st\<lparr>st_rooms := pruned\<rparr>))"

definition notice_job :: "'w chat_env \<Rightarrow> string \<Rightarrow> ('w, unit) chat_job" where
  "notice_job E notice =
     act (locked everyone) (\<lambda>sessions. job_each (\<lambda>s. send_system_notice E s notice) sessions)"

definition broadcast_notice_to_all_sessions :: "string \<Rightarrow> ('w, bool) chat_job" where
  "broadcast_notice_to_all_sessions notice =
     (if notice = [] then Return False else act (try_push (TaskNotice notice)) Return)"

section \<open>Runtime settings\<close>

datatype RuntimeSettingKey =
    kPresenceTtlSec | kRecentHistoryLimit | kRoomRecentMaxlen | kChatSpamThreshold | kChatSpamWindowSec
  | kChatSpamMuteSec | kChatSpamBanSec | kChatSpamBanViolations

record RuntimeSettingRule =
  rr_key_id :: RuntimeSettingKey
  rr_key_name :: string
  rr_min_value :: u32
  rr_max_value :: u32

definition setting_rule :: "RuntimeSettingKey \<Rightarrow> string \<Rightarrow> u32 \<Rightarrow> u32 \<Rightarrow> RuntimeSettingRule" where
  "setting_rule i name lo hi = \<lparr>rr_key_id = i, rr_key_name = name, rr_min_value = lo, rr_max_value = hi\<rparr>"

definition kRuntimeSettingRules :: "RuntimeSettingRule list" where
  "kRuntimeSettingRules =
     [setting_rule kPresenceTtlSec ''presence_ttl_sec'' 5 3600,
      setting_rule kRecentHistoryLimit ''recent_history_limit'' 5 2000,
      setting_rule kRoomRecentMaxlen ''room_recent_maxlen'' 5 5000,
      setting_rule kChatSpamThreshold ''chat_spam_threshold'' 3 100,
      setting_rule kChatSpamWindowSec ''chat_spam_window_sec'' 1 120,
      setting_rule kChatSpamMuteSec ''chat_spam_mute_sec'' 5 86400,
      setting_rule kChatSpamBanSec ''chat_spam_ban_sec'' 10 604800,
      setting_rule kChatSpamBanViolations ''chat_spam_ban_violations'' 1 20]"

definition find_runtime_setting_rule :: "string \<Rightarrow> RuntimeSettingRule option" where
  "find_runtime_setting_rule key = find (\<lambda>r. rr_key_name r = key) kRuntimeSettingRules"

text \<open>The whole string must be a number of 32 bits; the flag says whether an exception was swallowed.\<close>

definition parse_setting_value :: "string \<Rightarrow> u32 option \<times> bool" where
  "parse_setting_value raw =
     (if raw = [] then (None, False)
      else case std_stoull raw of
          None \<Rightarrow> (None, True)
        | Some v \<Rightarrow> if stoull_used raw = length raw \<and> v \<le> 0xFFFFFFFF then (Some (of_nat v), False) else (None, False))"

text \<open>
  A request runs on a worker without the service mutex: the check reads the members it needs, the store
  follows later, and the limit of the list is raised in a step of its own.
\<close>

definition store_setting :: "RuntimeSettingKey \<Rightarrow> u32 \<Rightarrow> 'w ChatService \<Rightarrow> unit \<times> 'w ChatService" where
  "store_setting key v c =
     ((), case key of
        kPresenceTtlSec \<Rightarrow> c\<lparr>cs_presence := (cs_presence c)\<lparr>pc_ttl := v\<rparr>\<rparr>
      | kRecentHistoryLimit \<Rightarrow> c\<lparr>cs_history := (cs_history c)\<lparr>hc_recent_limit := unat v\<rparr>\<rparr>
      | kRoomRecentMaxlen \<Rightarrow> c\<lparr>cs_history := (cs_history c)\<lparr>hc_max_list_len := unat v\<rparr>\<rparr>
      | kChatSpamThreshold \<Rightarrow> c\<lparr>cs_spam_message_threshold := unat v\<rparr>
      | kChatSpamWindowSec \<Rightarrow> c\<lparr>cs_spam_window_sec := v\<rparr>
      | kChatSpamMuteSec \<Rightarrow> c\<lparr>cs_spam_mute_sec := v\<rparr>
      | kChatSpamBanSec \<Rightarrow> c\<lparr>cs_spam_ban_sec := v\<rparr>
      | kChatSpamBanViolations \<Rightarrow> c\<lparr>cs_spam_ban_violation_threshold := v\<rparr>)"

definition raise_list_len :: "'w ChatService \<Rightarrow> unit \<times> 'w ChatService" where
  "raise_list_len c =
     (let h = cs_history c in
      ((), if hc_max_list_len h < hc_recent_limit h
           then c\<lparr>cs_history := h\<lparr>hc_max_list_len := hc_recent_limit h\<rparr>\<rparr> else c))"

definition check_setting :: "string \<Rightarrow> string \<Rightarrow> 'w ChatService \<Rightarrow> (RuntimeSettingKey \<times> u32) option \<times> 'w ChatService" where
  "check_setting key v c =
     (case parse_setting_value (c_trim v) of
        (None, threw) \<Rightarrow> (None, if threw then snd (metric record_exception_ignored c) else c)
      | (Some parsed, threw) \<Rightarrow>
          (case find_runtime_setting_rule (c_lower (c_trim key)) of
             None \<Rightarrow> (None, c)
           | Some rule \<Rightarrow>
               let min_allowed = (if rr_key_id rule = kRoomRecentMaxlen
                     then max (rr_min_value rule) (of_nat (hc_recent_limit (cs_history c))) else rr_min_value rule) in
               if parsed < min_allowed \<or> rr_max_value rule < parsed then (None, c)
               else (Some (rr_key_id rule, parsed), c)))"

definition setting_done :: "'w chat_env \<Rightarrow> bool \<Rightarrow> int \<Rightarrow> ('w, unit) chat_job" where
  "setting_done E ok request_started_at =
     act (metric (if ok then record_runtime_setting_reload_success else record_runtime_setting_reload_failure)) (\<lambda>_.
     act (outside (ce_steady_now E)) (\<lambda>now.
     act (metric (record_runtime_setting_reload_latency (now - request_started_at))) (\<lambda>_. job_skip)))"

definition setting_job :: "'w chat_env \<Rightarrow> string \<Rightarrow> string \<Rightarrow> int \<Rightarrow> ('w, unit) chat_job" where
  "setting_job E key v request_started_at =
     act (check_setting key v) (\<lambda>checked.
     case checked of
       None \<Rightarrow> setting_done E False request_started_at
     | Some (i, parsed) \<Rightarrow>
         act (store_setting i parsed) (\<lambda>_.
         job_seq (job_when (i = kRecentHistoryLimit) (act raise_list_len (\<lambda>_. job_skip)))
           (setting_done E True request_started_at)))"

section \<open>Host functions for Lua scripts\<close>

definition find_session_by_id_locked :: "u32 \<Rightarrow> (nat \<Rightarrow> bool) \<Rightarrow> ChatState \<Rightarrow> nat option \<times> ChatState" where
  "find_session_by_id_locked session_id alive st =
     (if session_id = 0 then (None, st)
      else case st_by_session_id st session_id of
          None \<Rightarrow> (None, st)
        | Some s \<Rightarrow>
            if alive s then (Some s, st)
            else (None, st\<lparr>st_by_session_id := (st_by_session_id st)(session_id := None)\<rparr>))"

definition lua_get_user_name :: "u32 \<Rightarrow> (nat \<Rightarrow> bool) \<Rightarrow> ChatState \<Rightarrow> string option \<times> ChatState" where
  "lua_get_user_name session_id alive st =
     (case find_session_by_id_locked session_id alive st of
        (None, st) \<Rightarrow> (None, st)
      | (Some s, st) \<Rightarrow> (st_user st s, st))"

definition lua_get_user_room :: "u32 \<Rightarrow> (nat \<Rightarrow> bool) \<Rightarrow> ChatState \<Rightarrow> string option \<times> ChatState" where
  "lua_get_user_room session_id alive st =
     (case find_session_by_id_locked session_id alive st of
        (None, st) \<Rightarrow> (None, st)
      | (Some s, st) \<Rightarrow> (st_cur_room st s, st))"

definition lua_get_room_users :: "string \<Rightarrow> (nat \<Rightarrow> bool) \<Rightarrow> ChatState \<Rightarrow> string list \<times> ChatState" where
  "lua_get_room_users room_name alive st =
     (if room_name = [] then ([], st)
      else case room_targets room_name alive st of
          (ts, st') \<Rightarrow> (remdups_adj (sort (List.map_filter (st_user st') (filter (logged_in st') ts))), st'))"

definition lua_get_room_list :: "ChatState \<Rightarrow> string list" where
  "lua_get_room_list st = sort (map fst (st_rooms st))"

definition lua_get_room_owner :: "string \<Rightarrow> ChatState \<Rightarrow> string option" where
  "lua_get_room_owner room_name st = (if room_name = [] then None else st_room_owners st room_name)"

definition lua_is_user_muted :: "int \<Rightarrow> string \<Rightarrow> (nat \<Rightarrow> bool) \<Rightarrow> ChatState \<Rightarrow> bool \<times> ChatState" where
  "lua_is_user_muted now nickname alive st =
     (if nickname = [] then (False, st)
      else case st_muted_users st nickname of
          None \<Rightarrow> (False, st)
        | Some p \<Rightarrow>
            if tp_expires_at p \<le> now then (False, st\<lparr>st_muted_users := (st_muted_users st)(nickname := None)\<rparr>)
            else (True, st))"

definition lua_is_user_banned :: "int \<Rightarrow> string \<Rightarrow> (nat \<Rightarrow> bool) \<Rightarrow> ChatState \<Rightarrow> bool \<times> ChatState" where
  "lua_is_user_banned now nickname alive st =
     (if nickname = [] then (False, st)
      else case st_banned_users st nickname of
          None \<Rightarrow> (False, st)
        | Some p \<Rightarrow>
            if tp_expires_at p \<le> now then (False, st\<lparr>st_banned_users := (st_banned_users st)(nickname := None)\<rparr>)
            else (True, st))"

text \<open>The number of different names of the sessions that are logged in.\<close>

definition lua_get_online_count :: "ChatState \<Rightarrow> nat" where
  "lua_get_online_count st =
     card ((\<lambda>s. str_or_empty (st_user st s)) ` {s \<in> st_authed st. s \<notin> st_guest st \<and> str_or_empty (st_user st s) \<noteq> []})"

definition lua_get_room_count :: "ChatState \<Rightarrow> nat" where
  "lua_get_room_count st = length (st_rooms st)"

definition lua_send_notice :: "'w chat_env \<Rightarrow> u32 \<Rightarrow> string \<Rightarrow> ('w, bool) chat_job" where
  "lua_send_notice E session_id text =
     (if session_id = 0 \<or> text = [] then Return False
      else act (locked (find_session_by_id_locked session_id)) (\<lambda>found.
        case found of
          None \<Rightarrow> Return False
        | Some s \<Rightarrow> job_seq (send_system_notice E s text) (Return True)))"

definition lua_broadcast_room :: "'w chat_env \<Rightarrow> string \<Rightarrow> string \<Rightarrow> ('w, bool) chat_job" where
  "lua_broadcast_room E room_name text =
     (if room_name = [] \<or> text = [] then Return False
      else act (reading (\<lambda>st. map_of (st_rooms st) room_name \<noteq> None)) (\<lambda>known.
        if \<not> known then Return False
        else clock_ms E (\<lambda>ts. job_seq (broadcast_room E room_name (system_message room_name text ts)) (Return True))))"

definition lua_broadcast_all :: "string \<Rightarrow> ('w, bool) chat_job" where
  "lua_broadcast_all text = (if text = [] then Return False else broadcast_notice_to_all_sessions text)"

definition lua_kick_user :: "'w chat_env \<Rightarrow> u32 \<Rightarrow> string \<Rightarrow> ('w, bool) chat_job" where
  "lua_kick_user E session_id reason =
     (if session_id = 0 then Return False
      else act (locked (find_session_by_id_locked session_id)) (\<lambda>found.
        case found of
          None \<Rightarrow> Return False
        | Some s \<Rightarrow> job_seq (job_when (reason \<noteq> []) (send_system_notice E s reason))
                      (job_seq (stop_session s) (Return True))))"

definition lua_mute_user :: "string \<Rightarrow> u32 \<Rightarrow> string \<Rightarrow> ('w, bool) chat_job" where
  "lua_mute_user nickname duration_sec reason =
     (if nickname = [] then Return False else apply_user_moderation_without_hook ''mute'' [nickname] duration_sec reason)"

definition lua_ban_user :: "string \<Rightarrow> u32 \<Rightarrow> string \<Rightarrow> ('w, bool) chat_job" where
  "lua_ban_user nickname duration_sec reason =
     (if nickname = [] then Return False else apply_user_moderation_without_hook ''ban'' [nickname] duration_sec reason)"

section \<open>Bindings\<close>

definition make_error :: "string \<Rightarrow> HostCallResult" where
  "make_error message = \<lparr>hr_value = HvNil, hr_error = message\<rparr>"

definition make_success :: "HostValue \<Rightarrow> HostCallResult" where
  "make_success v = \<lparr>hr_value = v, hr_error = []\<rparr>"

definition get_u32_arg ::
  "HostValue list \<Rightarrow> nat \<Rightarrow> string \<Rightarrow> (u32 \<Rightarrow> ('w, HostCallResult) chat_job) \<Rightarrow> ('w, HostCallResult) chat_job" where
  "get_u32_arg args i name k =
     (if length args \<le> i then Return (make_error (name @ '' argument is missing''))
      else case args ! i of
          HvInt v \<Rightarrow>
            if v < 0 \<or> 0xFFFFFFFF < v then Return (make_error (name @ '' argument must be a non-negative integer''))
            else k (of_int v)
        | _ \<Rightarrow> Return (make_error (name @ '' argument must be a non-negative integer'')))"

definition get_string_arg ::
  "HostValue list \<Rightarrow> nat \<Rightarrow> string \<Rightarrow> (string \<Rightarrow> ('w, HostCallResult) chat_job) \<Rightarrow> ('w, HostCallResult) chat_job" where
  "get_string_arg args i name k =
     (if length args \<le> i then Return (make_error (name @ '' argument is missing''))
      else case args ! i of HvString v \<Rightarrow> k v | _ \<Rightarrow> Return (make_error (name @ '' argument must be a string'')))"

text \<open>The answer to a query by session: what the service knows, else what the hook's context says.\<close>

definition or_context :: "string option \<Rightarrow> bool \<Rightarrow> string \<Rightarrow> HostCallResult" where
  "or_context found same fallback =
     (case found of
        Some v \<Rightarrow> make_success (HvString v)
      | None \<Rightarrow> if same \<and> fallback \<noteq> [] then make_success (HvString fallback) else make_success HvNil)"

definition done_or_error :: "string \<Rightarrow> bool \<Rightarrow> ('w, HostCallResult) chat_job" where
  "done_or_error what ok = Return (if ok then make_success HvNil else make_error (''failed to queue '' @ what))"

text \<open>A function that is not bound is an error of the script.\<close>

definition chat_lua_host :: "'w chat_env \<Rightarrow> HostCallContext \<Rightarrow> string \<Rightarrow> HostValue list \<Rightarrow> ('w, HostCallResult) chat_job" where
  "chat_lua_host E ctx name args =
     (if name = ''server.get_user_name'' then
        get_u32_arg args 0 ''session_id'' (\<lambda>i. act (locked (lua_get_user_name i)) (\<lambda>found.
          Return (or_context found (lc_session_id (hx_hook ctx) = i) (lc_user (hx_hook ctx)))))
      else if name = ''server.get_user_room'' then
        get_u32_arg args 0 ''session_id'' (\<lambda>i. act (locked (lua_get_user_room i)) (\<lambda>found.
          Return (or_context found (lc_session_id (hx_hook ctx) = i) (lc_room (hx_hook ctx)))))
      else if name = ''server.get_room_users'' then
        get_string_arg args 0 ''room_name'' (\<lambda>r. act (locked (lua_get_room_users r)) (\<lambda>us. Return (make_success (HvList us))))
      else if name = ''server.get_room_list'' then
        act (reading lua_get_room_list) (\<lambda>rs. Return (make_success (HvList rs)))
      else if name = ''server.get_room_owner'' then
        get_string_arg args 0 ''room_name'' (\<lambda>r. act (reading (lua_get_room_owner r)) (\<lambda>owner.
          Return (make_success (case owner of Some u \<Rightarrow> HvString u | None \<Rightarrow> HvNil))))
      else if name = ''server.is_user_muted'' then
        get_string_arg args 0 ''nickname'' (\<lambda>u. act (outside (ce_steady_now E)) (\<lambda>now.
          act (locked (lua_is_user_muted now u)) (\<lambda>b. Return (make_success (HvBool b)))))
      else if name = ''server.is_user_banned'' then
        get_string_arg args 0 ''nickname'' (\<lambda>u. act (outside (ce_steady_now E)) (\<lambda>now.
          act (locked (lua_is_user_banned now u)) (\<lambda>b. Return (make_success (HvBool b)))))
      else if name = ''server.get_online_count'' then
        act (reading lua_get_online_count) (\<lambda>n. Return (make_success (HvInt (int n))))
      else if name = ''server.get_room_count'' then
        act (reading lua_get_room_count) (\<lambda>n. Return (make_success (HvInt (int n))))
      else if name = ''server.send_notice'' then
        get_u32_arg args 0 ''session_id'' (\<lambda>i. get_string_arg args 1 ''text'' (\<lambda>t.
          job_bind (lua_send_notice E i t) (done_or_error ''send_notice'')))
      else if name = ''server.broadcast_room'' then
        get_string_arg args 0 ''room_name'' (\<lambda>r. get_string_arg args 1 ''text'' (\<lambda>t.
          job_bind (lua_broadcast_room E r t) (done_or_error ''broadcast_room'')))
      else if name = ''server.broadcast_all'' then
        get_string_arg args 0 ''text'' (\<lambda>t. job_bind (lua_broadcast_all t) (done_or_error ''broadcast_all''))
      else if name = ''server.kick_user'' then
        get_u32_arg args 0 ''session_id'' (\<lambda>i. get_string_arg args 1 ''reason'' (\<lambda>t.
          job_bind (lua_kick_user E i t) (done_or_error ''kick_user'')))
      else if name = ''server.mute_user'' then
        get_string_arg args 0 ''nickname'' (\<lambda>u. get_u32_arg args 1 ''duration_sec'' (\<lambda>d. get_string_arg args 2 ''reason'' (\<lambda>t.
          job_bind (lua_mute_user u d t) (done_or_error ''mute_user''))))
      else if name = ''server.ban_user'' then
        get_string_arg args 0 ''nickname'' (\<lambda>u. get_u32_arg args 1 ''duration_sec'' (\<lambda>d. get_string_arg args 2 ''reason'' (\<lambda>t.
          job_bind (lua_ban_user u d t) (done_or_error ''ban_user''))))
      else if name = ''server.log_info'' \<or> name = ''server.log_warn'' \<or> name = ''server.log_debug'' then
        get_string_arg args 0 ''message'' (\<lambda>_. Return (make_success HvNil))
      else if name = ''server.hook_name'' then Return (make_success (HvString (hx_hook_name ctx)))
      else if name = ''server.script_name'' then Return (make_success (HvString (hx_script_name ctx)))
      else Return (make_error (''attempt to call a nil value'')))"

text \<open>Whether a host function called with these arguments takes the service mutex before it returns.\<close>

definition has_u32_arg :: "HostValue list \<Rightarrow> nat \<Rightarrow> bool" where
  "has_u32_arg args i \<longleftrightarrow> i < length args \<and> (case args ! i of HvInt v \<Rightarrow> 0 \<le> v \<and> v \<le> 0xFFFFFFFF | _ \<Rightarrow> False)"

definition has_text_arg :: "HostValue list \<Rightarrow> nat \<Rightarrow> bool" where
  "has_text_arg args i \<longleftrightarrow> i < length args \<and> (case args ! i of HvString v \<Rightarrow> v \<noteq> [] | _ \<Rightarrow> False)"

definition has_string_arg :: "HostValue list \<Rightarrow> nat \<Rightarrow> bool" where
  "has_string_arg args i \<longleftrightarrow> i < length args \<and> (case args ! i of HvString v \<Rightarrow> True | _ \<Rightarrow> False)"

definition host_takes_mutex :: "string \<Rightarrow> HostValue list \<Rightarrow> bool" where
  "host_takes_mutex name args \<longleftrightarrow>
     (if name \<in> set [''server.get_user_name'', ''server.get_user_room''] then has_u32_arg args 0
      else if name \<in> set [''server.get_room_users'', ''server.get_room_owner'', ''server.is_user_muted'', ''server.is_user_banned'']
      then has_text_arg args 0
      else if name \<in> set [''server.get_room_list'', ''server.get_online_count'', ''server.get_room_count''] then True
      else if name = ''server.send_notice'' then has_u32_arg args 0 \<and> args ! 0 \<noteq> HvInt 0 \<and> has_text_arg args 1
      else if name = ''server.broadcast_room'' then has_text_arg args 0 \<and> has_text_arg args 1
      else if name = ''server.kick_user'' then has_u32_arg args 0 \<and> args ! 0 \<noteq> HvInt 0 \<and> has_string_arg args 1
      else False)"

end
