(* ===== verification/Chat_Hooks.thy ===== *)
theory Chat_Hooks
  imports Chat_Moderation
begin

text \<open>
  The extension points of the chat service: the chain of native plugins, \<^verbatim>\<open>server/src/chat/chat_hook_plugin_chain.cpp\<close>,
  the Lua hooks with their automatic switch-off, \<open>LuaRuntime::call_all\<close> of \<^verbatim>\<open>core/src/scripting/lua_runtime.cpp\<close>, and
  the functions of \<^verbatim>\<open>server/src/chat/chat_service_core.cpp\<close> that ask them. A hook that runs while the service mutex is
  held deadlocks when its script calls a host function that takes the mutex; this is the result \<open>None\<close>.
\<close>

section \<open>Native plugins\<close>

text \<open>The fields common to the results of the calls, and those of the three kinds of call.\<close>

record HookCallResult =
  hc_decision :: HookDecisionV2
  hc_notice :: string
  hc_plugin_name :: string
  hc_had_error :: bool
  hc_executed :: bool

record ChainCallResult = HookCallResult +
  hc_replacement_text :: string

record GateCallResult = HookCallResult +
  hc_deny_reason :: string

record AdminCallResult = HookCallResult +
  hc_response_json :: string
  hc_admin_deny_reason :: string

definition clamp_and_assign :: "nat \<Rightarrow> HookStrBuf \<Rightarrow> string" where
  "clamp_and_assign capacity b =
     (if capacity = 0 then []
      else take (if capacity \<le> unat (hb_size b) then capacity - 1 else unat (hb_size b)) (hb_data b))"

definition decision_of :: "hook_reply \<Rightarrow> HookDecisionV2" where
  "decision_of r = (if hp_threw r then HkPass else hp_decision r)"

definition no_gate_call :: GateCallResult where
  "no_gate_call = \<lparr>hc_decision = HkPass, hc_notice = [], hc_plugin_name = [], hc_had_error = False, hc_executed = False, hc_deny_reason = []\<rparr>"

definition call_on_chat_send ::
  "u32 \<Rightarrow> string \<Rightarrow> string \<Rightarrow> string \<Rightarrow> 'w chat_plugin \<Rightarrow> 'w \<Rightarrow> ChainCallResult \<times> 'w" where
  "call_on_chat_send session_id room user text p w =
     (let none = \<lparr>hc_decision = HkPass, hc_notice = [], hc_plugin_name = [], hc_had_error = False, hc_executed = False,
                  hc_replacement_text = []\<rparr> in
      case pl_api p of
        None \<Rightarrow> (none, w)
      | Some api \<Rightarrow>
          (case ha_on_chat_send api of
             None \<Rightarrow> (none, w)
           | Some f \<Rightarrow>
               let (r, w') = f session_id room user text w in
               (\<lparr>hc_decision = decision_of r, hc_notice = clamp_and_assign 512 (hp_notice r), hc_plugin_name = ha_name api,
                 hc_had_error = hp_threw r, hc_executed = True,
                 hc_replacement_text = clamp_and_assign 1024 (hp_replacement_text r)\<rparr>, w')))"

text \<open>A gate call; \<open>buffers\<close> says whether the hook has output buffers.\<close>

definition gate_call ::
  "bool \<Rightarrow> ('w ChatHookApi \<Rightarrow> ('w \<Rightarrow> hook_reply \<times> 'w) option) \<Rightarrow> 'w chat_plugin \<Rightarrow> 'w \<Rightarrow> GateCallResult \<times> 'w" where
  "gate_call buffers sel p w =
     (case pl_api p of
        None \<Rightarrow> (no_gate_call, w)
      | Some api \<Rightarrow>
          (case sel api of
             None \<Rightarrow> (no_gate_call, w)
           | Some f \<Rightarrow>
               let (r, w') = f w in
               (\<lparr>hc_decision = decision_of r, hc_notice = (if buffers then clamp_and_assign 512 (hp_notice r) else []),
                 hc_plugin_name = ha_name api, hc_had_error = hp_threw r, hc_executed = True,
                 hc_deny_reason = (if buffers then clamp_and_assign 512 (hp_deny_reason r) else [])\<rparr>, w')))"

definition call_on_login :: "u32 \<Rightarrow> string \<Rightarrow> 'w chat_plugin \<Rightarrow> 'w \<Rightarrow> GateCallResult \<times> 'w" where
  "call_on_login session_id user = gate_call True (\<lambda>api. map_option (\<lambda>f. f session_id user) (ha_on_login api))"

definition call_on_join :: "u32 \<Rightarrow> string \<Rightarrow> string \<Rightarrow> 'w chat_plugin \<Rightarrow> 'w \<Rightarrow> GateCallResult \<times> 'w" where
  "call_on_join session_id user room = gate_call True (\<lambda>api. map_option (\<lambda>f. f session_id user room) (ha_on_join api))"

definition call_on_leave :: "u32 \<Rightarrow> string \<Rightarrow> string \<Rightarrow> 'w chat_plugin \<Rightarrow> 'w \<Rightarrow> GateCallResult \<times> 'w" where
  "call_on_leave session_id user room = gate_call False (\<lambda>api. map_option (\<lambda>f. f session_id user room) (ha_on_leave api))"

definition call_on_session_event ::
  "u32 \<Rightarrow> SessionEventKindV2 \<Rightarrow> string \<Rightarrow> string \<Rightarrow> 'w chat_plugin \<Rightarrow> 'w \<Rightarrow> GateCallResult \<times> 'w" where
  "call_on_session_event session_id kind user reason =
     gate_call False (\<lambda>api. map_option (\<lambda>f. f session_id kind user reason) (ha_on_session_event api))"

definition call_on_admin_command :: "string \<Rightarrow> string \<Rightarrow> string \<Rightarrow> 'w chat_plugin \<Rightarrow> 'w \<Rightarrow> AdminCallResult \<times> 'w" where
  "call_on_admin_command command issuer payload_json p w =
     (let none = \<lparr>hc_decision = HkPass, hc_notice = [], hc_plugin_name = [], hc_had_error = False, hc_executed = False,
                  hc_response_json = [], hc_admin_deny_reason = []\<rparr> in
      case pl_api p of
        None \<Rightarrow> (none, w)
      | Some api \<Rightarrow>
          (case ha_on_admin_command api of
             None \<Rightarrow> (none, w)
           | Some f \<Rightarrow>
               let (r, w') = f command issuer payload_json w in
               (\<lparr>hc_decision = decision_of r, hc_notice = clamp_and_assign 512 (hp_notice r), hc_plugin_name = ha_name api,
                 hc_had_error = hp_threw r, hc_executed = True,
                 hc_response_json = clamp_and_assign 2048 (hp_response_json r),
                 hc_admin_deny_reason = clamp_and_assign 512 (hp_deny_reason r)\<rparr>, w')))"

section \<open>Metrics of plugin calls\<close>

definition kHookDurationBucketUpperBoundsNs :: "u64 list" where
  "kHookDurationBucketUpperBoundsNs =
     [1000, 2000, 5000, 10000, 25000, 50000, 100000, 250000, 500000, 1000000, 2500000, 5000000]"

definition duration_bucket_index :: "u64 \<Rightarrow> nat" where
  "duration_bucket_index elapsed_ns = length (takeWhile (\<lambda>b. b < elapsed_ns) kHookDurationBucketUpperBoundsNs)"

definition normalize_plugin_metric_name :: "string \<Rightarrow> 'w chat_plugin \<Rightarrow> string" where
  "normalize_plugin_metric_name api_name p =
     (if api_name \<noteq> [] then api_name else if pl_filename p \<noteq> [] then pl_filename p else pl_path p)"

definition HookCounters_init :: HookCounters where
  "HookCounters_init =
     \<lparr>hk_calls_total = 0, hk_errors_total = 0, hk_duration_count = 0, hk_duration_sum_ns = 0,
      hk_duration_bucket_counts = replicate 12 0\<rparr>"

definition count_hook_call :: "bool \<Rightarrow> u64 \<Rightarrow> HookCounters \<Rightarrow> HookCounters" where
  "count_hook_call had_error elapsed_ns k =
     (let bucket = duration_bucket_index elapsed_ns; counts = hk_duration_bucket_counts k in
      \<lparr>hk_calls_total = hk_calls_total k + 1,
       hk_errors_total = (if had_error then hk_errors_total k + 1 else hk_errors_total k),
       hk_duration_count = hk_duration_count k + 1,
       hk_duration_sum_ns = (if -1 - hk_duration_sum_ns k < elapsed_ns then -1 else hk_duration_sum_ns k + elapsed_ns),
       hk_duration_bucket_counts = (if bucket < length counts then counts[bucket := counts ! bucket + 1] else counts)\<rparr>)"

definition record_plugin_hook_metric :: "string \<Rightarrow> string \<Rightarrow> bool \<Rightarrow> u64 \<Rightarrow> 'w ChatService \<Rightarrow> unit \<times> 'w ChatService" where
  "record_plugin_hook_metric plugin_name hook_name had_error elapsed_ns c =
     ((), if plugin_name = [] \<or> hook_name = [] then c
          else
            let hooks = (case cs_plugin_hook_metrics c plugin_name of Some m \<Rightarrow> m | None \<Rightarrow> Map.empty);
                k = (case hooks hook_name of Some k \<Rightarrow> k | None \<Rightarrow> HookCounters_init) in
            c\<lparr>cs_plugin_hook_metrics := (cs_plugin_hook_metrics c)(plugin_name \<mapsto> hooks(hook_name \<mapsto> count_hook_call had_error elapsed_ns k))\<rparr>)"

text \<open>A call of one plugin, timed and counted.\<close>

definition timed_call ::
  "'w chat_env \<Rightarrow> string \<Rightarrow> 'w chat_plugin \<Rightarrow> ('w \<Rightarrow> 'r HookCallResult_scheme \<times> 'w) \<Rightarrow>
   ('r HookCallResult_scheme \<Rightarrow> ('w, 'a) chat_job) \<Rightarrow> ('w, 'a) chat_job" where
  "timed_call E hook_name p call k =
     act (outside (ce_steady_now E)) (\<lambda>started_at.
     act (outside call) (\<lambda>r.
     act (outside (ce_steady_now E)) (\<lambda>finished_at.
     job_seq
       (job_when (hc_executed r)
          (act (record_plugin_hook_metric (normalize_plugin_metric_name (hc_plugin_name r) p) hook_name (hc_had_error r)
                  (of_int (finished_at - started_at))) (\<lambda>_. job_skip)))
       (k r))))"

section \<open>The chain\<close>

record GateOutcome =
  go_stop_default :: bool
  go_notices :: "string list"
  go_deny_reason :: string

definition GateOutcome_init :: GateOutcome where
  "GateOutcome_init = \<lparr>go_stop_default = False, go_notices = [], go_deny_reason = []\<rparr>"

text \<open>The loop of \<open>on_login\<close>, \<open>on_join\<close>, \<open>on_leave\<close> and \<open>on_session_event\<close>.\<close>

fun gate_chain ::
  "'w chat_env \<Rightarrow> string \<Rightarrow> ('w chat_plugin \<Rightarrow> 'w \<Rightarrow> GateCallResult \<times> 'w) \<Rightarrow> GateOutcome \<Rightarrow> 'w chat_plugin list \<Rightarrow>
   ('w, GateOutcome) chat_job" where
  "gate_chain E hook_name call out [] = Return out"
| "gate_chain E hook_name call out (p # ps) =
     timed_call E hook_name p (call p) (\<lambda>r.
     (let out = out\<lparr>go_notices := go_notices out @ (if hc_notice r \<noteq> [] then [hc_notice r] else [])\<rparr> in
      case hc_decision r of
        HkHandled \<Rightarrow> Return (out\<lparr>go_stop_default := True\<rparr>)
      | HkBlock \<Rightarrow> Return (out\<lparr>go_stop_default := True, go_deny_reason := hc_deny_reason r\<rparr>)
      | HkDeny \<Rightarrow> Return (out\<lparr>go_stop_default := True, go_deny_reason := hc_deny_reason r\<rparr>)
      | _ \<Rightarrow> gate_chain E hook_name call out ps))"

definition chain_on_login :: "'w chat_env \<Rightarrow> u32 \<Rightarrow> string \<Rightarrow> 'w chat_plugin list \<Rightarrow> ('w, GateOutcome) chat_job" where
  "chain_on_login E i user ps = gate_chain E ''on_login'' (call_on_login i user) GateOutcome_init ps"

definition chain_on_join :: "'w chat_env \<Rightarrow> u32 \<Rightarrow> string \<Rightarrow> string \<Rightarrow> 'w chat_plugin list \<Rightarrow> ('w, GateOutcome) chat_job" where
  "chain_on_join E i user room ps = gate_chain E ''on_join'' (call_on_join i user room) GateOutcome_init ps"

definition chain_on_leave :: "'w chat_env \<Rightarrow> u32 \<Rightarrow> string \<Rightarrow> string \<Rightarrow> 'w chat_plugin list \<Rightarrow> ('w, GateOutcome) chat_job" where
  "chain_on_leave E i user room ps = gate_chain E ''on_leave'' (call_on_leave i user room) GateOutcome_init ps"

definition chain_on_session_event ::
  "'w chat_env \<Rightarrow> u32 \<Rightarrow> SessionEventKindV2 \<Rightarrow> string \<Rightarrow> string \<Rightarrow> 'w chat_plugin list \<Rightarrow> ('w, GateOutcome) chat_job" where
  "chain_on_session_event E i kind user reason ps =
     gate_chain E ''on_session_event'' (call_on_session_event i kind user reason) GateOutcome_init ps"

text \<open>The loop of \<open>on_chat_send\<close>: whether to stop, the notices, and the text, which a plugin may replace.\<close>

fun chat_send_chain ::
  "'w chat_env \<Rightarrow> u32 \<Rightarrow> string \<Rightarrow> string \<Rightarrow> string list \<Rightarrow> string \<Rightarrow> 'w chat_plugin list \<Rightarrow>
   ('w, bool \<times> string list \<times> string) chat_job" where
  "chat_send_chain E session_id room user notices text [] = Return (False, notices, text)"
| "chat_send_chain E session_id room user notices text (p # ps) =
     timed_call E ''on_chat_send'' p (call_on_chat_send session_id room user text p) (\<lambda>r.
     (let notices = notices @ (if hc_notice r \<noteq> [] then [hc_notice r] else []) in
      case hc_decision r of
        HkHandled \<Rightarrow> Return (True, notices, text)
      | HkBlock \<Rightarrow> Return (True, notices, text)
      | HkDeny \<Rightarrow> Return (True, notices, text)
      | HkModify \<Rightarrow>
          chat_send_chain E session_id room user notices
            (if hc_replacement_text r \<noteq> [] then hc_replacement_text r else text) ps
      | _ \<Rightarrow> chat_send_chain E session_id room user notices text ps))"

text \<open>The loop of \<open>on_admin_command\<close>; the response goes to the log only.\<close>

fun admin_chain ::
  "'w chat_env \<Rightarrow> string \<Rightarrow> string \<Rightarrow> string \<Rightarrow> GateOutcome \<Rightarrow> 'w chat_plugin list \<Rightarrow> ('w, GateOutcome) chat_job" where
  "admin_chain E command issuer payload_json out [] = Return out"
| "admin_chain E command issuer payload_json out (p # ps) =
     timed_call E ''on_admin_command'' p (call_on_admin_command command issuer payload_json p) (\<lambda>r.
     (let out = out\<lparr>go_notices := go_notices out @ (if hc_notice r \<noteq> [] then [hc_notice r] else [])\<rparr> in
      case hc_decision r of
        HkHandled \<Rightarrow> Return (out\<lparr>go_stop_default := True\<rparr>)
      | HkBlock \<Rightarrow> Return (out\<lparr>go_stop_default := True, go_deny_reason := hc_admin_deny_reason r\<rparr>)
      | HkDeny \<Rightarrow> Return (out\<lparr>go_stop_default := True, go_deny_reason := hc_admin_deny_reason r\<rparr>)
      | _ \<Rightarrow> admin_chain E command issuer payload_json out ps))"

section \<open>Running Lua scripts\<close>

text \<open>A script runs by making its host calls one after the other.\<close>

primrec script_job :: "'w chat_env \<Rightarrow> HostCallContext \<Rightarrow> script_run \<Rightarrow> ('w, vm_report) chat_job" where
  "script_job E ctx (Finish r) = Return r"
| "script_job E ctx (HostCall name args k) = job_bind (chat_lua_host E ctx name args) (\<lambda>res. script_job E ctx (k res))"

text \<open>The same while this thread holds the service mutex.\<close>

primrec script_under_mutex ::
  "'w chat_env \<Rightarrow> HostCallContext \<Rightarrow> script_run \<Rightarrow> 'w ChatService \<Rightarrow> vm_report option \<times> 'w ChatService" where
  "script_under_mutex E ctx (Finish r) = (\<lambda>c. (Some r, c))"
| "script_under_mutex E ctx (HostCall name args k) = (\<lambda>c.
     if host_takes_mutex name args then (None, c\<lparr>cs_deadlocked := True\<rparr>)
     else case run_job (chat_lua_host E ctx name args) c of (res, c') \<Rightarrow> script_under_mutex E ctx (k res) c')"

type_synonym 'w script_runner = "HostCallContext \<Rightarrow> script_run \<Rightarrow> ('w, vm_report option) chat_job"

definition run_freely :: "'w chat_env \<Rightarrow> 'w script_runner" where
  "run_freely E ctx run = job_bind (script_job E ctx run) (\<lambda>r. Return (Some r))"

definition run_locked :: "'w chat_env \<Rightarrow> 'w script_runner" where
  "run_locked E ctx run = act (script_under_mutex E ctx run) Return"

definition execute_script ::
  "'w chat_env \<Rightarrow> 'w script_runner \<Rightarrow> string \<Rightarrow> string \<Rightarrow> string \<Rightarrow> string \<Rightarrow> LuaHookContext \<Rightarrow>
   ('w, ScriptDecisionResult option) chat_job" where
  "execute_script E runner script_text path env_name func_name ctx =
     (case limit_directive script_text func_name of
        Some r \<Rightarrow> Return (Some r)
      | None \<Rightarrow>
          act (outside (ce_vm E script_text path env_name func_name ctx)) (\<lambda>run.
          job_bind (runner \<lparr>hx_hook_name = func_name, hx_script_name = env_name, hx_hook = ctx\<rparr> run) (\<lambda>rep.
          Return (map_option (vm_decision script_text func_name) rep))))"

definition lua_update :: "(LuaRuntime \<Rightarrow> LuaRuntime) \<Rightarrow> 'w ChatService \<Rightarrow> unit \<times> 'w ChatService" where
  "lua_update f c = ((), c\<lparr>cs_lua_runtime := map_option f (cs_lua_runtime c)\<rparr>)"

text \<open>The loop over the scripts, with the peak memory seen so far.\<close>

fun call_scripts ::
  "'w chat_env \<Rightarrow> 'w script_runner \<Rightarrow> string \<Rightarrow> LuaHookContext \<Rightarrow> CallAllResult \<Rightarrow> nat \<Rightarrow> (string \<times> string) list \<Rightarrow>
   ('w, (CallAllResult \<times> nat) option) chat_job" where
  "call_scripts E runner func_name ctx acc peak [] = Return (Some (acc, peak))"
| "call_scripts E runner func_name ctx acc peak ((env_name, path) # scripts) =
     act (outside (ce_read_script E path)) (\<lambda>text.
     case text of
       Inl err \<Rightarrow>
         act (lua_update (\<lambda>u. u\<lparr>lu_errors_total := lu_errors_total u + 1\<rparr>)) (\<lambda>_.
         call_scripts E runner func_name ctx (add_unreadable env_name err acc) peak scripts)
     | Inr script_text \<Rightarrow>
         job_bind (execute_script E runner script_text path env_name func_name ctx) (\<lambda>res.
         case res of
           None \<Rightarrow> Return None
         | Some r \<Rightarrow>
             job_seq (job_when (\<not> sr_valid r) (act (lua_update (count_failure (sr_failure_kind r))) (\<lambda>_. job_skip)))
               (call_scripts E runner func_name ctx (add_result env_name r acc) (max peak (sr_peak_memory_bytes r)) scripts)))"

definition call_all :: "'w chat_env \<Rightarrow> 'w script_runner \<Rightarrow> string \<Rightarrow> LuaHookContext \<Rightarrow> ('w, CallAllResult option) chat_job" where
  "call_all E runner func_name ctx =
     (if func_name = [] then
        act (lua_update (\<lambda>u. u\<lparr>lu_errors_total := lu_errors_total u + 1\<rparr>))
          (\<lambda>_. Return (Some (CallAllResult_init\<lparr>ca_error := ''func_name is empty''\<rparr>)))
      else
        act (asking (\<lambda>c. case cs_lua_runtime c of Some u \<Rightarrow> ordered_scripts u | None \<Rightarrow> [])) (\<lambda>scripts.
        job_bind (call_scripts E runner func_name ctx (CallAllResult_init\<lparr>ca_attempted := length scripts\<rparr>) 0 scripts) (\<lambda>res.
        case res of
          None \<Rightarrow> Return None
        | Some (r, peak) \<Rightarrow>
            act (lua_update (\<lambda>u. u\<lparr>lu_memory_used_bytes := peak, lu_calls_total := lu_calls_total u + of_nat (length scripts)\<rparr>))
              (\<lambda>_. Return (Some r)))))"

section \<open>Lua hooks of the service\<close>

record LuaColdHookOutcome =
  lo_stop_default :: bool
  lo_deny_reason :: string
  lo_notices :: "string list"

definition LuaColdHookOutcome_init :: LuaColdHookOutcome where
  "LuaColdHookOutcome_init = \<lparr>lo_stop_default = False, lo_deny_reason = [], lo_notices = []\<rparr>"

text \<open>\<open>map[key] += n\<close>.\<close>

definition bump :: "'k \<Rightarrow> u64 \<Rightarrow> ('k \<rightharpoonup> u64) \<Rightarrow> ('k \<rightharpoonup> u64)" where
  "bump k n m = m(k \<mapsto> (case m k of Some v \<Rightarrow> v | None \<Rightarrow> 0) + n)"

text \<open>The first section under the mutex of the counters: a new epoch switches every hook on again.\<close>

definition lua_hook_gate :: "u64 \<Rightarrow> string \<Rightarrow> LuaHookState \<Rightarrow> bool \<times> LuaHookState" where
  "lua_hook_gate epoch hook_name h =
     (let h = (if epoch \<noteq> lh_reload_epoch h
               then h\<lparr>lh_reload_epoch := epoch, lh_consecutive_failures := Map.empty, lh_disabled := {}\<rparr> else h)
      in (hook_name \<in> lh_disabled h, h))"

definition count_script :: "string \<Rightarrow> ScriptCallResult \<Rightarrow> LuaHookState \<Rightarrow> LuaHookState" where
  "count_script hook sc h =
     (let name = (if sc_env_name sc = [] then ''(unknown)'' else sc_env_name sc);
          calls = (case lh_script_calls_total h hook of Some m \<Rightarrow> m | None \<Rightarrow> Map.empty);
          errors = (case lh_script_errors_total h hook of Some m \<Rightarrow> m | None \<Rightarrow> Map.empty);
          h = h\<lparr>lh_script_calls_total := (lh_script_calls_total h)(hook \<mapsto> bump name 1 calls),
                lh_script_errors_total := (lh_script_errors_total h)(hook \<mapsto> (if sc_failed sc then bump name 1 errors else errors))\<rparr> in
      case sc_failure_kind sc of
        FkInstructionLimit \<Rightarrow> h\<lparr>lh_instruction_limit_hits := bump hook 1 (lh_instruction_limit_hits h)\<rparr>
      | FkMemoryLimit \<Rightarrow> h\<lparr>lh_memory_limit_hits := bump hook 1 (lh_memory_limit_hits h)\<rparr>
      | _ \<Rightarrow> h)"

definition call_failed :: "CallAllResult \<Rightarrow> bool" where
  "call_failed r \<longleftrightarrow> ca_error r \<noteq> [] \<or> ca_failed r \<noteq> 0"

text \<open>The second section: totals, then the consecutive failures and the switch-off.\<close>

definition note_failure :: "u64 \<Rightarrow> string \<Rightarrow> bool \<Rightarrow> LuaHookState \<Rightarrow> LuaHookState" where
  "note_failure threshold hook failed h =
     (if failed then
        let h = h\<lparr>lh_consecutive_failures := bump hook 1 (lh_consecutive_failures h)\<rparr>;
            consecutive = (case lh_consecutive_failures h hook of Some v \<Rightarrow> v | None \<Rightarrow> 0) in
        if 0 < threshold \<and> threshold \<le> consecutive \<and> hook \<notin> lh_disabled h
        then h\<lparr>lh_disabled := insert hook (lh_disabled h), lh_auto_disable_total := bump hook 1 (lh_auto_disable_total h)\<rparr>
        else h
      else h\<lparr>lh_consecutive_failures := (lh_consecutive_failures h)(hook \<mapsto> 0)\<rparr>)"

definition record_lua_call :: "u64 \<Rightarrow> string \<Rightarrow> CallAllResult \<Rightarrow> LuaHookState \<Rightarrow> LuaHookState" where
  "record_lua_call threshold hook r h =
     (let h = h\<lparr>lh_calls_total := bump hook (of_nat (ca_attempted r)) (lh_calls_total h),
                lh_errors_total := bump hook (of_nat (ca_failed r) + (if ca_failed r = 0 \<and> ca_error r \<noteq> [] then 1 else 0)) (lh_errors_total h)\<rparr>;
          h = foldl (\<lambda>h sc. count_script hook sc h) h (ca_script_results r)
      in note_failure threshold hook (call_failed r) h)"

definition hooks_section :: "(LuaHookState \<Rightarrow> 'a \<times> LuaHookState) \<Rightarrow> 'w ChatService \<Rightarrow> 'a \<times> 'w ChatService" where
  "hooks_section f c = map_prod id (\<lambda>h. c\<lparr>cs_lua_hooks := h\<rparr>) (f (cs_lua_hooks c))"

definition hook_outcome :: "CallAllResult \<Rightarrow> LuaColdHookOutcome" where
  "hook_outcome r =
     (let stop = (ca_decision r = LkBlock \<or> ca_decision r = LkDeny) in
      \<lparr>lo_stop_default = stop, lo_deny_reason = (if stop then ca_reason r else []), lo_notices = ca_notices r\<rparr>)"

definition invoke_lua_cold_hook ::
  "'w chat_env \<Rightarrow> 'w script_runner \<Rightarrow> string \<Rightarrow> LuaHookContext \<Rightarrow> ('w, LuaColdHookOutcome option) chat_job" where
  "invoke_lua_cold_hook E runner hook_name ctx =
     act (asking (\<lambda>c. map_option lu_reload_epoch (cs_lua_runtime c))) (\<lambda>epoch.
     case epoch of
       None \<Rightarrow> Return (Some LuaColdHookOutcome_init)
     | Some epoch \<Rightarrow>
         act (hooks_section (lua_hook_gate epoch hook_name)) (\<lambda>disabled.
         if disabled then Return (Some LuaColdHookOutcome_init)
         else
           job_bind (call_all E runner hook_name ctx) (\<lambda>res.
           case res of
             None \<Rightarrow> Return None
           | Some r \<Rightarrow>
               act (asking cs_lua_auto_disable_threshold) (\<lambda>threshold.
               act (hooks_section (\<lambda>h. ((), record_lua_call threshold hook_name r h))) (\<lambda>_.
               Return (Some (hook_outcome r)))))))"

section \<open>Asking the hooks\<close>

definition send_notices :: "'w chat_env \<Rightarrow> nat \<Rightarrow> string list \<Rightarrow> ('w, unit) chat_job" where
  "send_notices E s notices = job_each (\<lambda>n. job_when (n \<noteq> []) (send_system_notice E s n)) notices"

text \<open>
  The common body of the login, join and leave hooks: \<open>Some True\<close> when the default path must not be
  taken. The session's identifier is part of the session object.
\<close>

definition lua_stage ::
  "'w chat_env \<Rightarrow> 'w script_runner \<Rightarrow> nat \<Rightarrow> string \<Rightarrow> LuaHookContext \<Rightarrow> string \<Rightarrow> ('w, bool option) chat_job" where
  "lua_stage E runner s hook_name ctx denied =
     job_bind (invoke_lua_cold_hook E runner hook_name ctx) (\<lambda>res.
     case res of
       None \<Rightarrow> Return None
     | Some out \<Rightarrow>
         job_seq (send_notices E s (lo_notices out))
           (if \<not> lo_stop_default out then Return (Some False)
            else job_seq (send_error s ERR_FORBIDDEN (if lo_deny_reason out = [] then denied else lo_deny_reason out)) (Return (Some True))))"

definition chat_session_id :: "'w ChatService \<Rightarrow> nat \<Rightarrow> u32" where
  "chat_session_id c s = (case cs_sessions c s of Some n \<Rightarrow> cn_session_id n | None \<Rightarrow> 0)"

definition gate_hook ::
  "'w chat_env \<Rightarrow> 'w script_runner \<Rightarrow> nat \<Rightarrow> string \<Rightarrow> (u32 \<Rightarrow> LuaHookContext) \<Rightarrow>
   (u32 \<Rightarrow> 'w chat_plugin list \<Rightarrow> ('w, GateOutcome) chat_job) \<Rightarrow> string \<Rightarrow> ('w, bool option) chat_job" where
  "gate_hook E runner s hook_name ctx chain what =
     act (asking (\<lambda>c. (chat_session_id c s, cs_hook_plugin c))) (\<lambda>(i, plugins).
     (let lua = lua_stage E runner s hook_name (ctx i) (what @ '' denied by lua script'') in
      case plugins of
        None \<Rightarrow> lua
      | Some ps \<Rightarrow>
          job_bind (chain i ps) (\<lambda>out.
          job_seq (send_notices E s (go_notices out))
            (if \<not> go_stop_default out then lua
             else job_seq (send_error s ERR_FORBIDDEN (if go_deny_reason out = [] then what @ '' denied by plugin'' else go_deny_reason out))
                    (Return (Some True))))))"

definition maybe_handle_login_hook :: "'w chat_env \<Rightarrow> nat \<Rightarrow> string \<Rightarrow> ('w, bool option) chat_job" where
  "maybe_handle_login_hook E s user =
     gate_hook E (run_freely E) s ''on_login'' (\<lambda>i. LuaHookContext_init\<lparr>lc_session_id := i, lc_user := user\<rparr>)
       (\<lambda>i. chain_on_login E i user) ''login''"

text \<open>Join and leave ask their hooks with the service mutex held.\<close>

definition maybe_handle_join_hook :: "'w chat_env \<Rightarrow> nat \<Rightarrow> string \<Rightarrow> string \<Rightarrow> ('w, bool option) chat_job" where
  "maybe_handle_join_hook E s user room =
     gate_hook E (run_locked E) s ''on_join'' (\<lambda>i. LuaHookContext_init\<lparr>lc_session_id := i, lc_user := user, lc_room := room\<rparr>)
       (\<lambda>i. chain_on_join E i user room) ''join''"

definition maybe_handle_leave_hook :: "'w chat_env \<Rightarrow> nat \<Rightarrow> string \<Rightarrow> string \<Rightarrow> ('w, bool option) chat_job" where
  "maybe_handle_leave_hook E s user room =
     gate_hook E (run_locked E) s ''on_leave'' (\<lambda>i. LuaHookContext_init\<lparr>lc_session_id := i, lc_user := user, lc_room := room\<rparr>)
       (\<lambda>i. chain_on_leave E i user room) ''leave''"

text \<open>Whether to stop, and the text to go on with.\<close>

definition maybe_handle_chat_hook_plugin ::
  "'w chat_env \<Rightarrow> nat \<Rightarrow> string \<Rightarrow> string \<Rightarrow> string \<Rightarrow> ('w, bool \<times> string) chat_job" where
  "maybe_handle_chat_hook_plugin E s room sender text =
     act (asking (\<lambda>c. (chat_session_id c s, cs_hook_plugin c))) (\<lambda>(i, plugins).
     case plugins of
       None \<Rightarrow> Return (False, text)
     | Some ps \<Rightarrow>
         job_bind (chat_send_chain E i room sender [] text ps) (\<lambda>(stop, notices, text).
         job_seq (send_notices E s notices) (Return (stop, text))))"

definition lua_session_event_name :: "SessionEventKindV2 \<Rightarrow> string" where
  "lua_session_event_name kind = (case kind of EvOpen \<Rightarrow> ''open'' | EvClose \<Rightarrow> ''close'')"

definition notify_session_event_hook :: "'w chat_env \<Rightarrow> u32 \<Rightarrow> SessionEventKindV2 \<Rightarrow> string \<Rightarrow> string \<Rightarrow> ('w, unit) chat_job" where
  "notify_session_event_hook E i kind user reason =
     (let lua = job_bind (invoke_lua_cold_hook E (run_freely E) ''on_session_event''
            (LuaHookContext_init\<lparr>lc_session_id := i, lc_user := user, lc_reason := reason, lc_event := lua_session_event_name kind\<rparr>))
            (\<lambda>_. job_skip) in
      act (asking cs_hook_plugin) (\<lambda>plugins.
      case plugins of
        None \<Rightarrow> lua
      | Some ps \<Rightarrow>
          job_bind (chain_on_session_event E i kind user reason ps) (\<lambda>out.
          if go_stop_default out then job_skip else lua)))"

text \<open>Whether an administrator's command is denied; the reason goes to the log.\<close>

definition maybe_handle_admin_command_hook ::
  "'w chat_env \<Rightarrow> string \<Rightarrow> string \<Rightarrow> string \<Rightarrow> string \<Rightarrow> ('w, bool) chat_job" where
  "maybe_handle_admin_command_hook E command issuer payload_json args =
     (let lua = job_bind (invoke_lua_cold_hook E (run_freely E) ''on_admin_command''
            (LuaHookContext_init\<lparr>lc_command := command, lc_issuer := issuer, lc_payload_json := payload_json, lc_args := args\<rparr>))
            (\<lambda>res. Return (case res of Some out \<Rightarrow> lo_stop_default out | None \<Rightarrow> False)) in
      act (asking cs_hook_plugin) (\<lambda>plugins.
      case plugins of
        None \<Rightarrow> lua
      | Some ps \<Rightarrow>
          job_bind (admin_chain E command issuer payload_json GateOutcome_init ps) (\<lambda>out.
          if go_stop_default out then Return True else lua)))"

end
