(* ===== verification/Chat_Snapshot.thy ===== *)
theory Chat_Snapshot
  imports Chat_Core
begin

text \<open>
  What the chat service shows to its clients: the list of rooms, the users of a room, and the snapshot of
  a room with its recent messages, from \<^verbatim>\<open>server/src/chat/chat_service_core.cpp\<close>. Recent messages are cached
  in Redis, newest first, and completed from the database.
\<close>

section \<open>Cache of recent messages\<close>

definition make_recent_list_key :: "string \<Rightarrow> string" where
  "make_recent_list_key room_id = ''room:'' @ room_id @ '':recent''"

definition make_recent_message_key :: "u64 \<Rightarrow> string" where
  "make_recent_message_key message_id = ''msg:'' @ show_nat (unat message_id)"

definition cache_recent_message :: "'w chat_env \<Rightarrow> string \<Rightarrow> SnapshotMessage \<Rightarrow> ('w, bool) chat_job" where
  "cache_recent_message E room_id message =
     (case ce_redis E of
        None \<Rightarrow> Return False
      | Some r \<Rightarrow>
          if room_id = [] \<or> sm_id message = 0 then Return False
          else
            (case ce_serialize_message E message of
               None \<Rightarrow> Return False
             | Some payload \<Rightarrow>
                 act (asking cs_history) (\<lambda>h.
                 act (outside (rc_setex r (make_recent_message_key (sm_id message)) payload (hc_cache_ttl_sec h))) (\<lambda>ok.
                 if ok
                 then act (outside (rc_lpush_trim r (make_recent_list_key room_id) (show_nat (unat (sm_id message))) (hc_max_list_len h))) Return
                 else Return False))))"

text \<open>The identifiers in a cached list; entries that are no positive number are skipped.\<close>

definition recent_ids :: "string list \<Rightarrow> u64 list" where
  "recent_ids entries =
     map of_nat (filter (\<lambda>v. (of_nat v :: u64) \<noteq> 0) (List.map_filter c_strtoull entries))"

definition parse_payloads :: "'w chat_env \<Rightarrow> string option list \<Rightarrow> SnapshotMessage list" where
  "parse_payloads E payloads =
     List.map_filter (\<lambda>p. case p of None \<Rightarrow> None | Some t \<Rightarrow> ce_parse_message E t) payloads"

text \<open>One \<open>GET\<close> per identifier, the fallback when \<open>MGET\<close> failed.\<close>

fun load_each :: "'w redis_client \<Rightarrow> u64 list \<Rightarrow> ('w, string option list) chat_job" where
  "load_each r [] = Return []"
| "load_each r (i # is) =
     act (outside (rc_get r (make_recent_message_key i))) (\<lambda>p. job_bind (load_each r is) (\<lambda>ps. Return (p # ps)))"

definition load_recent_messages_from_cache :: "'w chat_env \<Rightarrow> string \<Rightarrow> ('w, SnapshotMessage list option) chat_job" where
  "load_recent_messages_from_cache E room_id =
     (case ce_redis E of
        None \<Rightarrow> Return None
      | Some r \<Rightarrow>
          act (asking cs_history) (\<lambda>h.
          if room_id = [] \<or> hc_recent_limit h = 0 then Return None
          else
            act (outside (rc_lrange r (make_recent_list_key room_id) 0 (int (hc_recent_limit h) - 1))) (\<lambda>ids.
            case ids of
              None \<Rightarrow> Return None
            | Some entries \<Rightarrow>
                let valid_ids = recent_ids entries;
                    finish = (\<lambda>payloads. let parsed = parse_payloads E payloads in
                               Return (if parsed = [] then None else Some (rev parsed))) in
                if valid_ids = [] then Return None
                else
                  act (outside (rc_mget r (map make_recent_message_key valid_ids))) (\<lambda>batch.
                  case batch of
                    Some payloads \<Rightarrow>
                      if length payloads = length valid_ids then finish payloads
                      else job_bind (load_each r valid_ids) finish
                  | None \<Rightarrow> job_bind (load_each r valid_ids) finish))))"

section \<open>Room lists\<close>

definition count_users :: "'w redis_client \<Rightarrow> string \<Rightarrow> (nat \<Rightarrow> ('w, 'a) chat_job) \<Rightarrow> ('w, 'a) chat_job" where
  "count_users r key k =
     act (outside (rc_scard r key)) (\<lambda>n.
     case n of
       Some users_count \<Rightarrow> k users_count
     | None \<Rightarrow> act (outside (rc_smembers r key)) (\<lambda>(ok, users). k (length users)))"

text \<open>
  Name, number of users and lock of each active room, in the order Redis lists them. The two batches are
  used when they were loaded whole.
\<close>

fun room_infos ::
  "'w redis_client \<Rightarrow> string option list option \<Rightarrow> nat list option \<Rightarrow> nat \<Rightarrow> string list \<Rightarrow>
   ('w, (string \<times> nat \<times> bool) list) chat_job" where
  "room_infos r passwords counts i [] = Return []"
| "room_infos r passwords counts i (name # names) =
     (let with_count = (\<lambda>k. case counts of
            Some ns \<Rightarrow> k (ns ! i)
          | None \<Rightarrow> count_users r (''room:users:'' @ name) k);
          with_lock = (\<lambda>k. case passwords of
            Some ps \<Rightarrow> k (ps ! i \<noteq> None)
          | None \<Rightarrow> act (outside (rc_get r (''room:password:'' @ name))) (\<lambda>pw. k (pw \<noteq> None))) in
      with_count (\<lambda>users_count. with_lock (\<lambda>is_locked.
      job_bind (room_infos r passwords counts (Suc i) names) (\<lambda>infos. Return ((name, users_count, is_locked) # infos)))))"

definition redis_batch :: "string list \<Rightarrow> (string list \<Rightarrow> 'w \<Rightarrow> 'a list option \<times> 'w) \<Rightarrow> ('a list option \<Rightarrow> ('w, 'b) chat_job) \<Rightarrow> ('w, 'b) chat_job" where
  "redis_batch keys f k =
     (if keys = [] then k None
      else act (outside (f keys)) (\<lambda>r. k (case r of Some xs \<Rightarrow> if length xs = length keys then Some xs else None | None \<Rightarrow> None)))"

definition load_redis_rooms :: "'w chat_env \<Rightarrow> ('w, (string \<times> nat \<times> bool) list option) chat_job" where
  "load_redis_rooms E =
     (case ce_redis E of
        None \<Rightarrow> Return None
      | Some r \<Rightarrow>
          act (outside (rc_smembers r ''rooms:active'')) (\<lambda>(ok, active).
          redis_batch (map (\<lambda>n. ''room:password:'' @ n) active) (rc_mget r) (\<lambda>passwords.
          redis_batch (map (\<lambda>n. ''room:users:'' @ n) active) (rc_scard_many r) (\<lambda>counts.
          job_bind (room_infos r passwords counts 0 active) (\<lambda>infos.
          if ''lobby'' \<in> set active then Return (Some infos)
          else count_users r ''room:users:lobby'' (\<lambda>n. Return (Some (infos @ [(''lobby'', n, False)]))))))))"

text \<open>Expired pointers are erased everywhere, and rooms left empty are erased with their passwords.\<close>

definition prune_rooms :: "(nat \<Rightarrow> bool) \<Rightarrow> ChatState \<Rightarrow> ChatState" where
  "prune_rooms alive st =
     (let pruned = map (\<lambda>(n, xs). (n, filter alive xs)) (st_rooms st);
          gone = map fst (filter (\<lambda>(n, xs). xs = [] \<and> n \<noteq> ''lobby'') pruned) in
      st\<lparr>st_rooms := filter (\<lambda>(n, xs). \<not> (xs = [] \<and> n \<noteq> ''lobby'')) pruned,
         st_room_passwords := (\<lambda>n. if n \<in> set gone then None else st_room_passwords st n)\<rparr>)"

definition shown_rooms :: "(string \<times> nat \<times> bool) list option \<Rightarrow> ChatState \<Rightarrow> (string \<times> nat \<times> bool) list" where
  "shown_rooms infos st =
     (case infos of
        Some is \<Rightarrow> map (\<lambda>(name, n, is_locked). (name, n, is_locked \<or> st_room_passwords st name \<noteq> None)) is
      | None \<Rightarrow> map (\<lambda>(name, xs). (name, length xs, st_room_passwords st name \<noteq> None)) (st_rooms st))"

definition list_rooms ::
  "(string \<times> nat \<times> bool) list option \<Rightarrow> (nat \<Rightarrow> bool) \<Rightarrow> ChatState \<Rightarrow> (string \<times> nat \<times> bool) list \<times> ChatState" where
  "list_rooms infos alive st = (let st = prune_rooms alive st in (shown_rooms infos st, st))"

definition lock_mark :: string where
  "lock_mark = bytes_string [0xF0, 0x9F, 0x94, 0x92]"

definition rooms_text :: "(string \<times> nat \<times> bool) list \<Rightarrow> string" where
  "rooms_text rooms =
     ''rooms:'' @ concat (map (\<lambda>(name, n, is_locked).
        '' '' @ (if is_locked then lock_mark @ name else name) @ ''('' @ show_nat n @ '')'') rooms)"

definition send_rooms_list :: "'w chat_env \<Rightarrow> nat \<Rightarrow> ('w, unit) chat_job" where
  "send_rooms_list E s =
     job_bind (load_redis_rooms E) (\<lambda>infos.
     act (locked (list_rooms infos)) (\<lambda>rooms.
     clock_ms E (\<lambda>ts. send_frame s MSG_CHAT_BROADCAST (system_message ''(system)'' (rooms_text rooms) ts) 0)))"

section \<open>Users of a room\<close>

definition blocked_by :: "ChatState \<Rightarrow> string \<Rightarrow> string set" where
  "blocked_by st viewer = (case st_user_blacklists st viewer of Some b \<Rightarrow> b | None \<Rightarrow> {})"

text \<open>The names of the members that can be locked, in the order of the set.\<close>

definition local_users :: "string \<Rightarrow> (nat \<Rightarrow> bool) \<Rightarrow> ChatState \<Rightarrow> string list \<times> ChatState" where
  "local_users room alive st =
     (case room_targets room alive st of (ts, st') \<Rightarrow> (map (user_or_guest st') ts, st'))"

text \<open>
  Whether the session may see the users of the room, and its name. The search for the session itself
  stops when it is found; expired pointers before it are erased.
\<close>

definition may_view :: "nat \<Rightarrow> string \<Rightarrow> (nat \<Rightarrow> bool) \<Rightarrow> ChatState \<Rightarrow> (bool \<times> string) \<times> ChatState" where
  "may_view s room alive st =
     (let is_locked = (st_room_passwords st room \<noteq> None);
          found = (case map_of (st_rooms st) room of Some xs \<Rightarrow> s \<in> set xs \<and> alive s | None \<Rightarrow> False);
          st' = (case map_of (st_rooms st) room of
              None \<Rightarrow> st
            | Some xs \<Rightarrow>
                let before = takeWhile (\<lambda>x. \<not> (x = s \<and> alive s)) xs; after = dropWhile (\<lambda>x. \<not> (x = s \<and> alive s)) xs in
                put_room room (filter alive before @ after) st) in
      ((\<not> (is_locked \<and> \<not> found), str_or_empty (st_user st s)), st'))"

definition send_room_users :: "'w chat_env \<Rightarrow> nat \<Rightarrow> string \<Rightarrow> ('w, unit) chat_job" where
  "send_room_users E s room =
     act (locked (may_view s room)) (\<lambda>(allow, viewer).
     if \<not> allow then send_system_notice E s ''room is locked''
     else
       (let finish = (\<lambda>names. act (reading (\<lambda>st. blocked_by st viewer)) (\<lambda>blocked.
              send_frame s MSG_ROOM_USERS (UsersBody \<lparr>ru_room = room, ru_users = filter (\<lambda>n. n \<notin> blocked) names\<rparr>) 0));
            local = act (locked (local_users room)) finish in
        case ce_redis E of
          None \<Rightarrow> local
        | Some r \<Rightarrow>
            act (outside (rc_smembers r (''room:users:'' @ room))) (\<lambda>(ok, users).
            if ok \<and> users \<noteq> [] then finish users else local)))"

section \<open>Snapshots\<close>

text \<open>The first message to ask the database for.\<close>

definition since_id :: "u64 \<Rightarrow> u64 \<Rightarrow> u64 \<Rightarrow> u64 \<Rightarrow> u64" where
  "since_id limit fetch_factor last_seen last_id =
     (if last_id = 0 then 0
      else if last_seen = 0 \<or> last_id \<le> last_seen then (if limit < last_id then last_id - limit else 0)
      else
        let context = limit * fetch_factor in
        if context < last_id then (let cut = last_id - context in if cut < last_seen then last_seen else cut)
        else last_seen)"

definition last_n :: "nat \<Rightarrow> 'a list \<Rightarrow> 'a list" where
  "last_n n xs = drop (length xs - n) xs"

text \<open>The messages taken from the database, after \<open>cached\<close> messages came from Redis.\<close>

definition db_messages :: "nat \<Rightarrow> nat \<Rightarrow> u64 list \<Rightarrow> Message list \<Rightarrow> Message list" where
  "db_messages limit cached added msgs =
     (let msgs = last_n limit (filter (\<lambda>m. me_id m \<notin> set added) msgs);
          budget = (if limit \<le> cached then 0 else limit - cached) in
      if budget = 0 then [] else last_n budget msgs)"

definition snapshot_of_message :: "Message \<Rightarrow> SnapshotMessage" where
  "snapshot_of_message m =
     \<lparr>sm_id = me_id m,
      sm_sender = (case me_user_name m of Some u \<Rightarrow> if u \<noteq> [] then u else ''(system)'' | None \<Rightarrow> ''(system)''),
      sm_text = me_content m, sm_ts_ms = me_created_at_ms m\<rparr>"

text \<open>Cached messages with an identifier seen before are left out.\<close>

fun dedup_ids :: "u64 list \<Rightarrow> SnapshotMessage list \<Rightarrow> SnapshotMessage list" where
  "dedup_ids seen [] = []"
| "dedup_ids seen (m # ms) =
     (if sm_id m \<in> set seen then dedup_ids seen ms else m # dedup_ids (sm_id m # seen) ms)"

text \<open>
  The part on the database: the last message seen and the messages beyond the cached ones. An exception
  leaves what was known before it.
\<close>

definition load_history ::
  "'w chat_env \<Rightarrow> nat \<Rightarrow> string \<Rightarrow> bool \<Rightarrow> nat \<Rightarrow> SnapshotMessage list \<Rightarrow> ('w, u64 \<times> SnapshotMessage list) chat_job" where
  "load_history E s rid hit cached shown =
     (case ce_db E of
        None \<Rightarrow> Return (0, [])
      | Some db \<Rightarrow>
          if rid = [] then Return (0, [])
          else
            user_uuid_of s (\<lambda>uid.
            attempt (outside (db_make_uow db)) (\<lambda>u.
            (let more = (\<lambda>last_seen. act (asking cs_history) (\<lambda>h.
                 let limit = hc_recent_limit h; failed = Return (last_seen, []) in
                 if hit \<and> limit \<le> cached then Return (last_seen, [])
                 else
                   attempt (outside (db_get_last_id db u rid)) (\<lambda>last_id.
                   attempt (outside (db_fetch_recent db u rid
                       (since_id (of_nat limit) (of_nat (hc_fetch_factor h)) last_seen last_id)
                       (min (hc_max_list_len h) (max limit (limit * hc_fetch_factor h))))) (\<lambda>msgs.
                   let found = map snapshot_of_message (db_messages limit cached (map sm_id shown) msgs) in
                   job_seq (job_each (\<lambda>m. job_bind (cache_recent_message E rid m) (\<lambda>_. job_skip)) found)
                     (Return (last_seen, found))) failed) failed)) in
             if uid \<noteq> []
             then attempt (outside (db_get_last_seen db u uid rid)) (\<lambda>seen. more (case seen of Some v \<Rightarrow> v | None \<Rightarrow> 0)) (Return (0, []))
             else more 0)) (Return (0, []))))"

definition snapshot_users :: "'w chat_env \<Rightarrow> string \<Rightarrow> string set \<Rightarrow> ('w, string list) chat_job" where
  "snapshot_users E current blocked =
     (let local = act (locked (local_users current)) (\<lambda>names. Return (filter (\<lambda>n. n \<notin> blocked) names)) in
      case ce_redis E of
        None \<Rightarrow> local
      | Some r \<Rightarrow>
          act (outside (rc_smembers r (''room:users:'' @ current))) (\<lambda>(ok, users).
          if ok then Return (filter (\<lambda>n. n \<notin> blocked) users) else local))"

definition snapshot_room_id :: "'w chat_env \<Rightarrow> string \<Rightarrow> ('w, string) chat_job" where
  "snapshot_room_id E current =
     act (reading (\<lambda>st. str_or_empty (st_room_ids st current))) (\<lambda>rid.
     if rid = [] then ensure_room_id_ci E current else Return rid)"

definition viewer_blocked :: "nat \<Rightarrow> ChatState \<Rightarrow> string set" where
  "viewer_blocked s st = (case st_user st s of Some viewer \<Rightarrow> blocked_by st viewer | None \<Rightarrow> {})"

definition send_snapshot :: "'w chat_env \<Rightarrow> nat \<Rightarrow> string \<Rightarrow> ('w, unit) chat_job" where
  "send_snapshot E s current =
     job_bind (load_redis_rooms E) (\<lambda>infos.
     act (locked (list_rooms infos)) (\<lambda>rooms.
     act (reading (viewer_blocked s)) (\<lambda>blocked.
     job_bind (snapshot_users E current blocked) (\<lambda>users.
     job_bind (snapshot_room_id E current) (\<lambda>rid.
     job_bind (load_recent_messages_from_cache E rid) (\<lambda>loaded.
     (let cached = (case loaded of Some ms \<Rightarrow> ms | None \<Rightarrow> []); shown = dedup_ids [] cached in
      job_bind (load_history E s rid (loaded \<noteq> None) (length cached) shown) (\<lambda>(last_seen, found).
      act (reading (\<lambda>st. str_or_empty (st_user st s))) (\<lambda>my_name.
      send_frame s MSG_STATE_SNAPSHOT
        (SnapshotBody
           \<lparr>ss_current_room = current,
            ss_rooms = map (\<lambda>(name, n, is_locked). \<lparr>ri_name = name, ri_members = of_nat n, ri_locked = is_locked\<rparr>) rooms,
            ss_users = users, ss_messages = shown @ found, ss_last_seen_id = last_seen, ss_your_name = my_name\<rparr>) 0)))))))))"

definition handle_refresh :: "'w chat_env \<Rightarrow> nat \<Rightarrow> ('w, unit) chat_job" where
  "handle_refresh E s =
     act (reading (\<lambda>st. case st_cur_room st s of Some r \<Rightarrow> r | None \<Rightarrow> ''lobby'')) (\<lambda>current.
     job_seq (send_snapshot E s current)
       (case ce_db E of
          None \<Rightarrow> job_skip
        | Some db \<Rightarrow>
            user_uuid_of s (\<lambda>uid.
            if uid = [] then job_skip
            else
              job_bind (ensure_room_id_ci E current) (\<lambda>rid.
              if rid = [] then job_skip
              else
                attempt (outside (db_make_uow db)) (\<lambda>u.
                attempt (outside (db_get_last_id db u rid)) (\<lambda>last_id.
                if 0 < last_id
                then attempt (outside (db_update_last_seen db u uid rid last_id))
                       (\<lambda>_. attempt (outside (db_commit db u)) (\<lambda>_. job_skip) job_skip) job_skip
                else job_skip) job_skip) job_skip))))"

end
