(* ===== verification/Chat_Login.thy ===== *)
theory Chat_Login
  imports Chat_Hooks Chat_Snapshot
begin

text \<open>
  Logging in, \<^verbatim>\<open>server/src/chat/handlers_login.cpp\<close>, and the end of a session, \<^verbatim>\<open>server/src/chat/session_events.cpp\<close>:
  the jobs that the handlers queue.
\<close>

section \<open>Login\<close>

definition register_session :: "nat \<Rightarrow> 'w ChatService \<Rightarrow> unit \<times> 'w ChatService" where
  "register_session s c =
     (let st = cs_state c in
      ((), c\<lparr>cs_state := st\<lparr>st_by_session_id := (st_by_session_id st)(chat_session_id c s \<mapsto> s)\<rparr>\<rparr>))"

text \<open>
  The bans of the name, the address and the device, in this order, each looked at only when the ones
  before did not deny; an expired ban is erased. The result is the reason, empty when login may go on.
\<close>

definition check_user_ban :: "int \<Rightarrow> string \<Rightarrow> ChatState \<Rightarrow> string \<times> ChatState" where
  "check_user_ban now user st =
     (case st_banned_users st user of
        None \<Rightarrow> ([], st)
      | Some p \<Rightarrow>
          if tp_expires_at p \<le> now then ([], st\<lparr>st_banned_users := (st_banned_users st)(user := None)\<rparr>)
          else (if tp_reason p = [] then ''temporarily banned'' else tp_reason p, st))"

definition check_ip_ban :: "int \<Rightarrow> string \<Rightarrow> ChatState \<Rightarrow> string \<times> ChatState" where
  "check_ip_ban now ip st =
     (if ip = [] then ([], st)
      else case st_banned_ips st ip of
          None \<Rightarrow> ([], st)
        | Some t \<Rightarrow>
            if t \<le> now then ([], st\<lparr>st_banned_ips := (st_banned_ips st)(ip := None)\<rparr>)
            else (''temporarily banned (ip)'', st))"

definition check_device_ban :: "int \<Rightarrow> string \<Rightarrow> ChatState \<Rightarrow> string \<times> ChatState" where
  "check_device_ban now h st =
     (if h = [] then ([], st)
      else case st_banned_hwid_hashes st h of
          None \<Rightarrow> ([], st)
        | Some t \<Rightarrow>
            if t \<le> now then ([], st\<lparr>st_banned_hwid_hashes := (st_banned_hwid_hashes st)(h := None)\<rparr>)
            else (''temporarily banned (device)'', st))"

definition check_bans :: "int \<Rightarrow> string \<Rightarrow> string \<Rightarrow> string \<Rightarrow> (nat \<Rightarrow> bool) \<Rightarrow> ChatState \<Rightarrow> string \<times> ChatState" where
  "check_bans now user ip hwid_hash alive st =
     (case check_user_ban now user st of (deny, st) \<Rightarrow>
      if deny \<noteq> [] then (deny, st)
      else case check_ip_ban now ip st of (deny, st) \<Rightarrow>
      if deny \<noteq> [] then (deny, st)
      else check_device_ban now hwid_hash st)"

text \<open>The section that makes the session a logged-in member of the lobby.\<close>

definition register_login :: "nat \<Rightarrow> string \<Rightarrow> bool \<Rightarrow> string \<Rightarrow> string \<Rightarrow> (nat \<Rightarrow> bool) \<Rightarrow> ChatState \<Rightarrow> unit \<times> ChatState" where
  "register_login s new_user guest_mode ip hwid_hash alive st =
     (let by_user = (case st_user st s of
            None \<Rightarrow> st_by_user st
          | Some old \<Rightarrow> (case st_by_user st old of
                Some xs \<Rightarrow> (st_by_user st)(old \<mapsto> rs_erase s xs)
              | None \<Rightarrow> st_by_user st)) in
      ((), room_insert ''lobby'' s
         (st\<lparr>st_user := (st_user st)(s \<mapsto> new_user),
             st_by_user := by_user(new_user \<mapsto> rs_insert s (case by_user new_user of Some xs \<Rightarrow> xs | None \<Rightarrow> [])),
             st_authed := insert s (st_authed st),
             st_guest := (if guest_mode then insert s (st_guest st) else st_guest st - {s}),
             st_session_ip := (st_session_ip st)(s \<mapsto> ip),
             st_session_hwid_hash := (st_session_hwid_hash st)(s \<mapsto> hwid_hash),
             st_user_last_ip := (if ip \<noteq> [] then (st_user_last_ip st)(new_user \<mapsto> ip) else st_user_last_ip st),
             st_user_last_hwid_hash := (if hwid_hash \<noteq> [] then (st_user_last_hwid_hash st)(new_user \<mapsto> hwid_hash)
                                        else st_user_last_hwid_hash st),
             st_cur_room := (st_cur_room st)(s \<mapsto> ''lobby'')\<rparr>)))"

definition first_id :: "User list \<Rightarrow> string \<Rightarrow> string" where
  "first_id existing uid = (case existing of u # _ \<Rightarrow> us_id u | [] \<Rightarrow> uid)"

text \<open>
  The user's identifier: found by name, or created. When creating fails somebody else may have created
  it, so it is looked up again; an identifier whose commit failed is kept when nothing is found.
\<close>

definition get_or_create_user :: "'w repositories \<Rightarrow> string \<Rightarrow> ('w, string) chat_job" where
  "get_or_create_user db name =
     (let retry = (\<lambda>uid. attempt (outside (db_make_uow db)) (\<lambda>u.
            attempt (outside (db_find_by_name_ci db u name 1)) (\<lambda>existing. Return (first_id existing uid)) (Return uid)) (Return uid)) in
      attempt (outside (db_make_uow db)) (\<lambda>u.
      attempt (outside (db_find_by_name_ci db u name 1)) (\<lambda>existing.
      if first_id existing [] \<noteq> [] then Return (first_id existing [])
      else
        attempt (outside (db_make_uow db)) (\<lambda>u.
        attempt (outside (db_create_guest db u name)) (\<lambda>created.
          attempt (outside (db_commit db u)) (\<lambda>_. Return (us_id created)) (retry (us_id created)))
        (retry [])) (Return []))
      (Return [])) (Return []))"

definition set_user_uuid :: "nat \<Rightarrow> string \<Rightarrow> (nat \<Rightarrow> bool) \<Rightarrow> ChatState \<Rightarrow> unit \<times> ChatState" where
  "set_user_uuid s uid alive st = ((), st\<lparr>st_user_uuid := (st_user_uuid st)(s \<mapsto> uid)\<rparr>)"

text \<open>The records in the database; the identifiers of the user and of the lobby are used in the event.\<close>

definition login_persist :: "'w chat_env \<Rightarrow> nat \<Rightarrow> string \<Rightarrow> string \<Rightarrow> ('w, string \<times> string) chat_job" where
  "login_persist E s new_user ip =
     (case ce_db E of
        None \<Rightarrow> Return ([], [])
      | Some db \<Rightarrow>
          user_uuid_of s (\<lambda>known.
          job_bind
            (if known \<noteq> [] then Return known
             else job_bind (get_or_create_user db new_user) (\<lambda>uid.
               job_seq (job_when (uid \<noteq> []) (act (locked (set_user_uuid s uid)) (\<lambda>_. job_skip))) (Return uid)))
            (\<lambda>uid.
             (let failed = Return (uid, []) in
              attempt (outside (db_make_uow db)) (\<lambda>u3.
              attempt (outside (db_update_last_login db u3 uid ip)) (\<lambda>_.
              attempt (outside (db_commit db u3)) (\<lambda>_.
              job_bind (ensure_room_id_ci E ''lobby'') (\<lambda>rid.
              if rid = [] then Return (uid, [])
              else
                (let done = Return (uid, rid) in
                 attempt (outside (db_make_uow db)) (\<lambda>u2.
                 attempt (outside (db_create_message db u2 rid ''lobby'' None (''(login ip='' @ ip @ '')''))) (\<lambda>_.
                 attempt (outside (db_commit db u2)) (\<lambda>_. done) done) done) done)))
              failed) failed) failed))))"

definition login_announce :: "'w chat_env \<Rightarrow> nat \<Rightarrow> string \<Rightarrow> ('w, unit) chat_job" where
  "login_announce E s new_user =
     (case ce_redis E of
        None \<Rightarrow> job_skip
      | Some r \<Rightarrow>
          user_uuid_of s (\<lambda>uid.
          job_seq (touch_user_presence E uid)
            (job_seq (quietly (rc_sadd r ''room:users:lobby'' new_user)) (broadcast_refresh E ''lobby''))))"

text \<open>The login is answered, the session's status raised, and the event published.\<close>

definition login_finish :: "'w chat_env \<Rightarrow> nat \<Rightarrow> string \<Rightarrow> string \<Rightarrow> string \<Rightarrow> ('w, unit) chat_job" where
  "login_finish E s session_id_str new_user ip =
     job_bind (login_persist E s new_user ip) (\<lambda>(uid, lobby_id).
     act (asking (\<lambda>c. (chat_session_id c s, new_user \<in> cs_admin_users c))) (\<lambda>(i, is_admin).
     act (emit (OutStatus s kAuthenticated)) (\<lambda>_.
     job_seq (send_frame s MSG_LOGIN_RES
       (LoginBody \<lparr>lr_effective_user = new_user, lr_session_id = i, lr_message = ''ok'', lr_is_admin = is_admin\<rparr>) 0)
     (job_seq (login_announce E s new_user)
     (emit_write_behind_event E ''session_login'' session_id_str (nonempty uid) (nonempty lobby_id)
        ([(''room'', ''lobby''), (''user_name'', new_user)] @ (if ip \<noteq> [] then [(''ip'', ip)] else [])))))))"

definition login_job :: "'w chat_env \<Rightarrow> nat \<Rightarrow> string \<Rightarrow> string \<Rightarrow> ('w, unit) chat_job" where
  "login_job E s user token =
     act (get_or_create_session_uuid E s) (\<lambda>session_id_str.
     act (asking (\<lambda>c. case cs_sessions c s of Some n \<Rightarrow> cn_remote_ip n | None \<Rightarrow> [])) (\<lambda>ip.
     act (register_session s) (\<lambda>_.
     act (ensure_unique_or_error E s user) (\<lambda>new_user.
     if new_user = [] then job_skip
     else
       (let hwid_hash = hash_hwid_token E token; guest_mode = (user = [] \<or> user = ''guest'') in
        job_bind (maybe_handle_login_hook E s new_user) (\<lambda>handled.
        if handled \<noteq> Some False then job_skip
        else
          act (outside (ce_steady_now E)) (\<lambda>now.
          act (locked (check_bans now new_user ip hwid_hash)) (\<lambda>deny.
          if deny \<noteq> [] then send_error s ERR_FORBIDDEN deny
          else
            act (locked (register_login s new_user guest_mode ip hwid_hash)) (\<lambda>_.
            login_finish E s session_id_str new_user ip)))))))))"

section \<open>End of a session\<close>

text \<open>A member is taken out of its room; an emptied room is forgotten, an owner replaced.\<close>

definition leave_room :: "(nat \<Rightarrow> bool) \<Rightarrow> nat \<Rightarrow> string \<Rightarrow> string \<Rightarrow> RoomSet \<Rightarrow> ChatState \<Rightarrow> nat list \<times> ChatState" where
  "leave_room alive s name room xs st =
     (let was_owner = (room \<noteq> ''lobby'' \<and> st_room_owners st room = Some name);
          (targets, xs') = collect_room_sessions alive (rs_erase s xs);
          st = put_room room xs' st;
          st = (if xs' = [] \<and> room \<noteq> ''lobby'' then forget_room room st
                else if was_owner then hand_over alive room st else st)
      in (unblocked_targets st name targets, st))"

text \<open>The result: name, user identifier, room left (empty when none), and whom to tell.\<close>

definition close_section :: "nat \<Rightarrow> u32 \<Rightarrow> (nat \<Rightarrow> bool) \<Rightarrow> ChatState \<Rightarrow> (string \<times> string \<times> string \<times> nat list) \<times> ChatState" where
  "close_section s i alive st =
     (let name = user_or_guest st s;
          st' = st\<lparr>st_by_session_id := (st_by_session_id st)(i := None),
                   st_authed := st_authed st - {s}, st_guest := st_guest st - {s},
                   st_by_user := (if name = [] then st_by_user st else case st_by_user st name of
                       Some xs \<Rightarrow> (st_by_user st)(name \<mapsto> rs_erase s xs) | None \<Rightarrow> st_by_user st),
                   st_user := (st_user st)(s := None), st_session_uuid := (st_session_uuid st)(s := None),
                   st_session_ip := (st_session_ip st)(s := None),
                   st_session_hwid_hash := (st_session_hwid_hash st)(s := None)\<rparr> in
      case st_cur_room st s of
        None \<Rightarrow> ((name, str_or_empty (st_user_uuid st s), [], []), st')
      | Some room \<Rightarrow>
          (case (case map_of (st_rooms st') room of
                   None \<Rightarrow> ([], st')
                 | Some xs \<Rightarrow> leave_room alive s name room xs st') of
             (targets, st2) \<Rightarrow>
               ((name, str_or_empty (st_user_uuid st s), room, targets), st2\<lparr>st_cur_room := (st_cur_room st2)(s := None)\<rparr>)))"

text \<open>Redis after the end of a session: the identifier of the room left is the result.\<close>

definition close_redis :: "'w chat_env \<Rightarrow> nat \<Rightarrow> string \<Rightarrow> string \<Rightarrow> ('w, string) chat_job" where
  "close_redis E s name room_left =
     (case ce_redis E of
        None \<Rightarrow> Return []
      | Some r \<Rightarrow>
          if room_left = [] then Return []
          else
            user_uuid_of s (\<lambda>uid.
            job_bind (if uid = [] then Return [] else ensure_room_id_ci E room_left) (\<lambda>rid.
            job_seq (job_when (rid \<noteq> [])
                (act (asking cs_presence) (\<lambda>p. quietly (rc_srem r (make_presence_key p ''presence:room:'' rid) uid))))
            (job_seq (quietly (rc_srem r (''room:users:'' @ room_left) name))
            (job_seq (job_when (room_left \<noteq> ''lobby'')
                (job_seq (quietly (rc_sadd r ''room:users:lobby'' name))
                  (act (outside (rc_scard r (''room:users:'' @ room_left))) (\<lambda>n.
                   job_when (n = Some 0) (quietly (rc_srem r ''rooms:active'' room_left))))))
              (Return rid))))))"

definition close_job :: "'w chat_env \<Rightarrow> nat \<Rightarrow> ('w, unit) chat_job" where
  "close_job E s =
     act (get_or_create_session_uuid E s) (\<lambda>session_id_str.
     act (reading (\<lambda>st. str_or_empty (st_user st s))) (\<lambda>user_for_hook.
     act (asking (\<lambda>c. chat_session_id c s)) (\<lambda>i.
     job_seq (notify_session_event_hook E i EvClose user_for_hook ''connection_closed'')
     (act (locked (close_section s i)) (\<lambda>(name, user_uuid, room_left, targets).
     clock_ms E (\<lambda>ts.
     job_seq (send_all targets MSG_CHAT_BROADCAST (system_message room_left (name @ closed_text) ts))
     (job_bind (close_redis E s name room_left) (\<lambda>room_uuid.
     job_when (room_left \<noteq> [])
       (job_seq (emit_write_behind_event E ''session_close'' session_id_str (nonempty user_uuid) (nonempty room_uuid)
                   [(''room'', room_left), (''user_name'', name)])
                (broadcast_refresh E room_left))))))))))"

end
