(* ===== verification/Chat_Rooms.thy ===== *)
theory Chat_Rooms
  imports Chat_Login
begin

text \<open>
  Joining and leaving rooms: the jobs queued by \<^verbatim>\<open>server/src/chat/handlers_join.cpp\<close> and
  \<^verbatim>\<open>server/src/chat/handlers_leave.cpp\<close>.
\<close>

section \<open>Who may join\<close>

definition is_room_owner :: "ChatState \<Rightarrow> string \<Rightarrow> string \<Rightarrow> bool" where
  "is_room_owner st room user \<longleftrightarrow> room \<noteq> ''lobby'' \<and> st_room_owners st room = Some user"

definition has_room_invite :: "ChatState \<Rightarrow> string \<Rightarrow> string \<Rightarrow> bool" where
  "has_room_invite st room user \<longleftrightarrow>
     room \<noteq> ''lobby'' \<and> (case st_room_invites st room of Some us \<Rightarrow> user \<in> us | None \<Rightarrow> False)"

text \<open>The password Redis knows replaces the one cached here; the cached one is used otherwise.\<close>

definition cache_password :: "string option \<Rightarrow> string \<Rightarrow> ChatState \<Rightarrow> ChatState" where
  "cache_password redis_password room st =
     (case redis_password of
        Some v \<Rightarrow> st\<lparr>st_room_passwords := (st_room_passwords st)(room \<mapsto> v)\<rparr>
      | None \<Rightarrow> st)"

definition expected_password :: "string \<Rightarrow> ChatState \<Rightarrow> string" where
  "expected_password room st = str_or_empty (st_room_passwords st room)"

definition password_ok :: "'w chat_env \<Rightarrow> string \<Rightarrow> string \<Rightarrow> bool" where
  "password_ok E provided expected \<longleftrightarrow> expected \<noteq> [] \<and> provided \<noteq> [] \<and> verify_room_password E provided expected"

definition room_exists :: "ChatState \<Rightarrow> string \<Rightarrow> bool" where
  "room_exists st room \<longleftrightarrow>
     map_of (st_rooms st) room \<noteq> None \<or> st_room_owners st room \<noteq> None \<or> st_room_passwords st room \<noteq> None
     \<or> expected_password room st \<noteq> []"

definition join_allowed :: "'w chat_env \<Rightarrow> string set \<Rightarrow> string \<Rightarrow> string \<Rightarrow> string \<Rightarrow> ChatState \<Rightarrow> bool" where
  "join_allowed E admins sender room provided st \<longleftrightarrow>
     room = ''lobby'' \<or> \<not> room_exists st room \<or> sender \<in> admins \<or> is_room_owner st room sender
     \<or> has_room_invite st room sender \<or> password_ok E provided (expected_password room st)"

text \<open>
  The password to store on joining: an old hash that was verified is renewed, and a password given for
  a room without one becomes its password. \<open>Inl\<close> is the failure of the hash function.
\<close>

definition renewed_password :: "'w chat_env \<Rightarrow> string \<Rightarrow> string \<Rightarrow> string \<Rightarrow> unit + string option" where
  "renewed_password E room provided expected =
     (if expected \<noteq> [] \<and> password_ok E provided expected then
        (if is_modern_room_password_hash expected then Inr None
         else Inr (nonempty (hash_room_password E provided)))
      else if expected = [] \<and> provided \<noteq> [] \<and> room \<noteq> ''lobby'' then
        (if hash_room_password E provided = [] then Inl () else Inr (Some (hash_room_password E provided)))
      else Inr None)"

section \<open>Entering a room\<close>

text \<open>The room the session was in is left first.\<close>

definition leave_previous :: "(nat \<Rightarrow> bool) \<Rightarrow> nat \<Rightarrow> string \<Rightarrow> string \<Rightarrow> ChatState \<Rightarrow> ChatState" where
  "leave_previous alive s sender room st =
     (case st_cur_room st s of
        None \<Rightarrow> st
      | Some old \<Rightarrow>
          if old = room then st
          else case map_of (st_rooms st) old of
              None \<Rightarrow> st
            | Some xs \<Rightarrow>
                let xs' = filter alive (rs_erase s xs); st = put_room old xs' st in
                if xs' = [] \<and> old \<noteq> ''lobby'' then forget_room old st
                else if xs' \<noteq> [] \<and> old \<noteq> ''lobby'' \<and> st_room_owners st old = Some sender then hand_over alive old st
                else st)"

definition use_invite :: "string \<Rightarrow> string \<Rightarrow> ChatState \<Rightarrow> ChatState" where
  "use_invite room sender st =
     (case st_room_invites st room of
        None \<Rightarrow> st
      | Some us \<Rightarrow>
          let us = us - {sender} in
          st\<lparr>st_room_invites := (st_room_invites st)(room := (if us = {} then None else Some us))\<rparr>)"

definition enter_room :: "nat \<Rightarrow> string \<Rightarrow> string \<Rightarrow> bool \<Rightarrow> ChatState \<Rightarrow> ChatState" where
  "enter_room s sender room invited st =
     (let st = room_insert room s (st\<lparr>st_cur_room := (st_cur_room st)(s \<mapsto> room)\<rparr>) in
      if room = ''lobby'' then st
      else
        let st = (if st_room_owners st room = None \<and> sender \<noteq> ''guest''
                  then st\<lparr>st_room_owners := (st_room_owners st)(room \<mapsto> sender)\<rparr> else st)
        in if invited then use_invite room sender st else st)"

record joined =
  jn_sender :: string
  jn_previous_room :: string
  jn_user_uuid :: string
  jn_targets :: "nat list"
  jn_new_password :: "string option"

text \<open>The section under the mutex, after the hook: an error to send, or what the rest of the job needs.\<close>

definition join_section ::
  "'w chat_env \<Rightarrow> string set \<Rightarrow> nat \<Rightarrow> string \<Rightarrow> string \<Rightarrow> string \<Rightarrow> string option \<Rightarrow> (nat \<Rightarrow> bool) \<Rightarrow> ChatState \<Rightarrow>
   ((u16 \<times> string) + joined) \<times> ChatState" where
  "join_section E admins s sender room provided redis_password alive st =
     (let invited = has_room_invite st room sender;
          st = cache_password redis_password room st;
          expected = expected_password room st in
      if \<not> join_allowed E admins sender room provided st
      then (Inl (ERR_FORBIDDEN, if expected \<noteq> [] then ''room locked'' else ''invite required''), st)
      else
        case renewed_password E room provided expected of
          Inl _ \<Rightarrow> (Inl (ERR_INTERNAL_ERROR, ''password hash failed''), st)
        | Inr new_password \<Rightarrow>
            let st = (case new_password of
                  Some h \<Rightarrow> st\<lparr>st_room_passwords := (st_room_passwords st)(room \<mapsto> h)\<rparr> | None \<Rightarrow> st);
                previous_room = str_or_empty (st_cur_room st s);
                st = leave_previous alive s sender room st;
                st = enter_room s sender room invited st;
                user_uuid = str_or_empty (st_user_uuid st s) in
            case recipients room sender alive st of (targets, st) \<Rightarrow>
              (Inr \<lparr>jn_sender = sender, jn_previous_room = previous_room, jn_user_uuid = user_uuid,
                    jn_targets = targets, jn_new_password = new_password\<rparr>, st))"

text \<open>
  The whole critical section of the join: the session must be logged in, the hook is asked, the section
  follows. \<open>None\<close> ends the job.
\<close>

definition join_locked :: "'w chat_env \<Rightarrow> nat \<Rightarrow> string \<Rightarrow> string \<Rightarrow> string option \<Rightarrow> 'w ChatService \<Rightarrow> joined option \<times> 'w ChatService" where
  "join_locked E s room provided redis_password c =
     (if s \<notin> st_authed (cs_state c) then (None, snd (emit (OutError s ERR_UNAUTHORIZED ''unauthorized'') c))
      else
        let sender = user_or_guest (cs_state c) s in
        case run_job (maybe_handle_join_hook E s sender room) c of (handled, c) \<Rightarrow>
        if handled \<noteq> Some False then (None, c)
        else
          case locked (join_section E (cs_admin_users c) s sender room provided redis_password) c of
            (Inl (code, msg), c) \<Rightarrow> (None, snd (emit (OutError s code msg) c))
          | (Inr j, c) \<Rightarrow> (Some j, c))"

section \<open>After the join\<close>

definition join_persist :: "'w chat_env \<Rightarrow> nat \<Rightarrow> string \<Rightarrow> ('w, string) chat_job" where
  "join_persist E s room =
     (case ce_db E of
        None \<Rightarrow> Return []
      | Some db \<Rightarrow>
          user_uuid_of s (\<lambda>uid.
          if uid = [] then Return []
          else
            job_bind (ensure_room_id_ci E room) (\<lambda>rid.
            (let done = Return rid; commit = (\<lambda>u. attempt (outside (db_commit db u)) (\<lambda>_. done) done) in
             if rid = [] then done
             else
               attempt (outside (db_make_uow db)) (\<lambda>u.
               attempt (outside (db_upsert_join db u uid rid ''member'')) (\<lambda>_.
               attempt (outside (db_get_last_id db u rid)) (\<lambda>last_id.
               if 0 < last_id
               then attempt (outside (db_update_last_seen db u uid rid last_id)) (\<lambda>_. commit u) done
               else commit u) done) done) done))))"

text \<open>A closed room loses its identifier, owner and invitations here too.\<close>

definition forget_room_records :: "string \<Rightarrow> (nat \<Rightarrow> bool) \<Rightarrow> ChatState \<Rightarrow> unit \<times> ChatState" where
  "forget_room_records room alive st =
     ((), st\<lparr>st_room_ids := (st_room_ids st)(room := None), st_room_owners := (st_room_owners st)(room := None),
             st_room_invites := (st_room_invites st)(room := None)\<rparr>)"

text \<open>The room left, in Redis: its user list, and its closing when nobody is left.\<close>

definition leave_redis_room :: "'w chat_env \<Rightarrow> 'w redis_client \<Rightarrow> string \<Rightarrow> string \<Rightarrow> ('w, unit) chat_job" where
  "leave_redis_room E r room sender =
     job_seq (quietly (rc_srem r (''room:users:'' @ room) sender))
       (job_when (room \<noteq> ''lobby'')
          (act (outside (rc_scard r (''room:users:'' @ room))) (\<lambda>n.
           job_when (n = Some 0)
             (job_seq (quietly (rc_srem r ''rooms:active'' room))
             (job_seq (quietly (rc_del r (''room:password:'' @ room)))
             (case ce_db E of
                None \<Rightarrow> job_skip
              | Some db \<Rightarrow>
                  (let forget = act (locked (forget_room_records room)) (\<lambda>_. job_skip) in
                   attempt (outside (db_make_uow db)) (\<lambda>u.
                   attempt (outside (db_find_room db u room)) (\<lambda>found.
                     case found of
                       None \<Rightarrow> forget
                     | Some rm \<Rightarrow>
                         attempt (outside (db_close_room db u (rm_id rm)))
                           (\<lambda>_. attempt (outside (db_commit db u)) (\<lambda>_. forget) job_skip) job_skip)
                   job_skip) job_skip)))))))"

definition join_redis :: "'w chat_env \<Rightarrow> joined \<Rightarrow> string \<Rightarrow> string \<Rightarrow> ('w, unit) chat_job" where
  "join_redis E j room room_id =
     (case ce_redis E of
        None \<Rightarrow> job_skip
      | Some r \<Rightarrow>
          job_seq (job_when (jn_previous_room j \<noteq> [] \<and> jn_previous_room j \<noteq> room)
                     (leave_redis_room E r (jn_previous_room j) (jn_sender j)))
          (job_seq (quietly (rc_sadd r (''room:users:'' @ room) (jn_sender j)))
          (job_seq (job_when (room \<noteq> ''lobby'') (quietly (rc_sadd r ''rooms:active'' room)))
          (job_when (jn_user_uuid j \<noteq> [] \<and> room_id \<noteq> [])
             (act (asking cs_presence) (\<lambda>p. quietly (rc_sadd r (make_presence_key p ''presence:room:'' room_id) (jn_user_uuid j))))))))"

definition join_finish :: "'w chat_env \<Rightarrow> nat \<Rightarrow> string \<Rightarrow> string \<Rightarrow> joined \<Rightarrow> ('w, unit) chat_job" where
  "join_finish E s session_id_str room j =
     (let previous = jn_previous_room j; moved = (previous \<noteq> [] \<and> previous \<noteq> room) in
      clock_ms E (\<lambda>ts.
      job_seq (case jn_new_password j of
                 None \<Rightarrow> job_skip
               | Some h \<Rightarrow> redis_do E (\<lambda>r. rc_setex r (''room:password:'' @ room) h 86400))
      (job_seq (send_all (jn_targets j) MSG_CHAT_BROADCAST (system_message room (jn_sender j @ entered_text) ts))
      (job_bind (join_persist E s room) (\<lambda>room_id.
      job_seq (join_redis E j room room_id)
      (job_seq (emit_write_behind_event E ''room_join'' session_id_str (nonempty (jn_user_uuid j)) (nonempty room_id)
          ([(''room'', room), (''user_name'', jn_sender j)] @ (if moved then [(''prev_room'', previous)] else [])))
      (job_seq (send_snapshot E s room)
      (job_seq (broadcast_refresh E ''lobby'')
      (job_seq (job_when (room \<noteq> ''lobby'') (broadcast_refresh E room))
      (job_when (moved \<and> previous \<noteq> ''lobby'') (broadcast_refresh E previous)))))))))))"

definition join_job :: "'w chat_env \<Rightarrow> nat \<Rightarrow> string \<Rightarrow> string \<Rightarrow> ('w, unit) chat_job" where
  "join_job E s room password =
     (let room_to_join = (if room = [] then ''lobby'' else room);
          body = (\<lambda>session_id_str redis_password.
            act (join_locked E s room_to_join password redis_password) (\<lambda>res.
            case res of None \<Rightarrow> job_skip | Some j \<Rightarrow> join_finish E s session_id_str room_to_join j)) in
      act (get_or_create_session_uuid E s) (\<lambda>session_id_str.
      case ce_redis E of
        None \<Rightarrow> body session_id_str None
      | Some r \<Rightarrow> act (outside (rc_get r (''room:password:'' @ room_to_join))) (body session_id_str)))"

section \<open>Leaving\<close>

record departed =
  dp_sender :: string
  dp_user_uuid :: string
  dp_room :: string
  dp_targets :: "nat list"

definition to_lobby :: "nat \<Rightarrow> ChatState \<Rightarrow> ChatState" where
  "to_lobby s st = room_insert ''lobby'' s (st\<lparr>st_cur_room := (st_cur_room st)(s \<mapsto> ''lobby'')\<rparr>)"

text \<open>
  The critical section: the checks, the hook when the room is known, the departure, the lobby. A room
  that is not in the table is left without a name.
\<close>

definition leave_locked :: "'w chat_env \<Rightarrow> nat \<Rightarrow> string \<Rightarrow> 'w ChatService \<Rightarrow> departed option \<times> 'w ChatService" where
  "leave_locked E s room c =
     (let st = cs_state c; refuse = (\<lambda>code msg. (None, snd (emit (OutError s code msg) c))) in
      if s \<notin> st_authed st then refuse ERR_UNAUTHORIZED ''unauthorized''
      else case st_cur_room st s of
          None \<Rightarrow> refuse ERR_NO_ROOM ''no current room''
        | Some current \<Rightarrow>
            if room \<noteq> [] \<and> current \<noteq> room then refuse ERR_ROOM_MISMATCH ''room mismatch''
            else case map_of (st_rooms st) current of
                None \<Rightarrow>
                  (Some \<lparr>dp_sender = [], dp_user_uuid = [], dp_room = current, dp_targets = []\<rparr>,
                   c\<lparr>cs_state := to_lobby s st\<rparr>)
              | Some xs \<Rightarrow>
                  let sender = user_or_guest st s; user_uuid = str_or_empty (st_user_uuid st s) in
                  case run_job (maybe_handle_leave_hook E s sender current) c of (handled, c) \<Rightarrow>
                  if handled \<noteq> Some False then (None, c)
                  else
                    case leave_room (live c) s sender current xs (cs_state c) of (targets, st) \<Rightarrow>
                      (Some \<lparr>dp_sender = sender, dp_user_uuid = user_uuid, dp_room = current, dp_targets = targets\<rparr>,
                       c\<lparr>cs_state := to_lobby s st\<rparr>))"

text \<open>Redis after leaving: the identifier of the room left is the result.\<close>

definition leave_redis :: "'w chat_env \<Rightarrow> nat \<Rightarrow> departed \<Rightarrow> ('w, string) chat_job" where
  "leave_redis E s d =
     (case ce_redis E of
        None \<Rightarrow> Return []
      | Some r \<Rightarrow>
          if dp_room d = [] then Return []
          else
            (let room = dp_room d; users = ''room:users:'' @ room in
             user_uuid_of s (\<lambda>uid.
             job_bind (ensure_room_id_ci E room) (\<lambda>rid.
             job_seq
               (if uid \<noteq> [] then
                  job_when (rid \<noteq> [])
                    (job_seq (act (asking cs_presence) (\<lambda>p. quietly (rc_srem r (make_presence_key p ''presence:room:'' rid) uid)))
                      (quietly (rc_srem r users (dp_sender d))))
                else quietly (rc_srem r users (dp_sender d)))
             (job_seq
               (job_when (room \<noteq> ''lobby'')
                  (act (outside (rc_scard r users)) (\<lambda>n.
                   job_when (n = Some 0)
                     (job_seq (quietly (rc_srem r ''rooms:active'' room))
                     (job_seq (quietly (rc_del r (''room:password:'' @ room)))
                     (case ce_db E of
                        None \<Rightarrow> job_skip
                      | Some db \<Rightarrow>
                          job_when (rid \<noteq> [])
                            (attempt (outside (db_make_uow db)) (\<lambda>u.
                             attempt (outside (db_close_room db u rid)) (\<lambda>_.
                             attempt (outside (db_commit db u))
                               (\<lambda>_. act (locked (forget_room_records room)) (\<lambda>_. job_skip)) job_skip) job_skip) job_skip)))))))
             (job_seq (quietly (rc_sadd r ''room:users:lobby'' (dp_sender d))) (Return rid)))))))"

definition leave_finish :: "'w chat_env \<Rightarrow> nat \<Rightarrow> string \<Rightarrow> departed \<Rightarrow> ('w, unit) chat_job" where
  "leave_finish E s session_id_str d =
     (let room = dp_room d; sender = dp_sender d in
      clock_ms E (\<lambda>ts.
      job_seq (job_when (room \<noteq> [])
         (job_each (\<lambda>t. send_frame t MSG_CHAT_BROADCAST (system_message room (sender @ left_text) ts)
                          (if t = s then FLAG_SELF else 0)) (dp_targets d)))
      (job_bind (leave_redis E s d) (\<lambda>room_uuid.
      act (locked (recipients ''lobby'' sender)) (\<lambda>t2.
      clock_ms E (\<lambda>ts2.
      job_seq (send_all t2 MSG_CHAT_BROADCAST (system_message ''lobby'' (sender @ entered_text) ts2))
      (job_seq (broadcast_refresh E ''lobby'')
      (job_seq (job_when (room \<noteq> [] \<and> room \<noteq> ''lobby'') (broadcast_refresh E room))
      (job_seq (job_when (room \<noteq> [])
         (job_bind (if room_uuid \<noteq> [] then Return room_uuid else ensure_room_id_ci E room) (\<lambda>rid.
          emit_write_behind_event E ''room_leave'' session_id_str (nonempty (dp_user_uuid d)) (nonempty rid)
            [(''room'', room), (''user_name'', sender), (''next_room'', ''lobby'')])))
      (send_snapshot E s ''lobby''))))))))))"

definition leave_job :: "'w chat_env \<Rightarrow> nat \<Rightarrow> string \<Rightarrow> ('w, unit) chat_job" where
  "leave_job E s room =
     act (get_or_create_session_uuid E s) (\<lambda>session_id_str.
     act (leave_locked E s room) (\<lambda>res.
     case res of None \<Rightarrow> job_skip | Some d \<Rightarrow> leave_finish E s session_id_str d))"

end
