(* ===== verification/Chat_Messages.thy ===== *)
theory Chat_Messages
  imports Chat_Rooms
begin

text \<open>
  Whispers, slash commands and chat messages: the jobs queued by \<^verbatim>\<open>server/src/chat/handlers_chat.cpp\<close> and
  \<open>dispatch_whisper\<close>, \<open>deliver_remote_whisper\<close> of \<^verbatim>\<open>server/src/chat/chat_service_core.cpp\<close>.
\<close>

section \<open>Whispers\<close>

text \<open>
  The recipients of a whisper and whether somebody of that name may not receive it: a block in either
  direction, or a session that is not logged in.
\<close>

definition whisper_section ::
  "nat \<Rightarrow> string \<Rightarrow> string \<Rightarrow> (nat \<Rightarrow> bool) \<Rightarrow> ChatState \<Rightarrow> (nat list \<times> bool \<times> bool) \<times> ChatState" where
  "whisper_section s sender target alive st =
     (let by_sender = blocks st sender target; by_target = blocks st target sender in
      case user_sessions target alive st of (ss, st) \<Rightarrow>
        (let others = filter (\<lambda>p. p \<noteq> s) ss; blocked = (by_sender \<or> by_target) in
         ((filter (\<lambda>p. logged_in st p \<and> \<not> blocked) others,
           blocked \<or> (\<exists>p \<in> set others. \<not> logged_in st p), by_sender), st)))"

definition whisper_notice :: "string \<Rightarrow> string \<Rightarrow> string \<Rightarrow> u64 \<Rightarrow> bool \<Rightarrow> wire_body" where
  "whisper_notice sender recipient text ts outgoing =
     WhisperBody \<lparr>wn_sender = sender, wn_recipient = recipient, wn_text = text, wn_outgoing = outgoing, wn_ts_ms = ts\<rparr>"

definition refuse_whisper :: "'w chat_env \<Rightarrow> nat \<Rightarrow> string \<Rightarrow> string \<Rightarrow> ('w, unit) chat_job" where
  "refuse_whisper E s notice reason = job_seq (send_system_notice E s notice) (send_whisper_result s False reason)"

text \<open>A recipient that is not here may be at another server: the whisper is published.\<close>

definition route_whisper :: "'w chat_env \<Rightarrow> nat \<Rightarrow> string \<Rightarrow> string \<Rightarrow> string \<Rightarrow> u64 \<Rightarrow> ('w, unit) chat_job" where
  "route_whisper E s sender target text ts =
     (let finish = (\<lambda>routed.
          if \<not> routed then refuse_whisper E s (''user not found: '' @ target) ''user not found''
          else job_seq (send_frame s MSG_WHISPER_BROADCAST (whisper_notice sender target text ts True) 0)
                 (send_whisper_result s True [])) in
      case ce_redis E of
        None \<Rightarrow> finish False
      | Some r \<Rightarrow>
          act (asking (\<lambda>c. (cs_redis_pubsub_enabled c, pc_prefix (cs_presence c), cs_gateway_id c))) (\<lambda>(pubsub, pre, gw).
          if \<not> pubsub then finish False
          else act (outside (rc_publish r (pre @ ''fanout:whisper'')
                 (''gw='' @ gw @ [CHR 0x0A] @ ce_serialize E (whisper_notice sender target text ts False)))) finish))"

definition dispatch_whisper :: "'w chat_env \<Rightarrow> nat \<Rightarrow> string \<Rightarrow> string \<Rightarrow> ('w, unit) chat_job" where
  "dispatch_whisper E s target text =
     (if target = [] \<or> text = [] then refuse_whisper E s ''usage: /whisper <user> <message>'' ''invalid payload''
      else
        act (reading (\<lambda>st. s \<in> st_authed st)) (\<lambda>authed.
        if \<not> authed then send_error s ERR_UNAUTHORIZED ''unauthorized''
        else
          act (reading (\<lambda>st. (user_or_guest st s, s \<in> st_guest st))) (\<lambda>(sender, is_guest).
          if sender = ''guest'' \<or> is_guest then
            job_seq (refuse_whisper E s ''login required for whisper'' ''login required'')
              (send_error s ERR_UNAUTHORIZED ''guest cannot whisper'')
          else if target = sender then refuse_whisper E s ''cannot whisper to yourself'' ''cannot whisper to yourself''
          else
            act (locked (whisper_section s sender target)) (\<lambda>(targets, ineligible, by_sender).
            if targets = [] \<and> ineligible then
              (if by_sender then refuse_whisper E s ''whisper denied: unblock target first'' ''recipient blocked by sender''
               else refuse_whisper E s (''user cannot receive whispers (login required): '' @ target) ''recipient not eligible'')
            else
              clock_ms E (\<lambda>ts.
              if targets = [] then route_whisper E s sender target text ts
              else
                job_seq (send_all targets MSG_WHISPER_BROADCAST (whisper_notice sender target text ts False))
                (job_seq (send_frame s MSG_WHISPER_BROADCAST (whisper_notice sender target text ts True) 0)
                (send_whisper_result s True [])))))))"

text \<open>A whisper that another server published.\<close>

definition remote_whisper_section :: "string \<Rightarrow> string \<Rightarrow> (nat \<Rightarrow> bool) \<Rightarrow> ChatState \<Rightarrow> nat list \<times> ChatState" where
  "remote_whisper_section sender recipient alive st =
     (if blocks st recipient sender then ([], st)
      else case user_sessions recipient alive st of (ss, st) \<Rightarrow> (filter (logged_in st) ss, st))"

definition deliver_remote_whisper :: "'w chat_env \<Rightarrow> bytes \<Rightarrow> ('w, unit) chat_job" where
  "deliver_remote_whisper E body =
     (if body = [] then job_skip
      else case ce_parse_whisper E body of
          None \<Rightarrow> job_skip
        | Some notice \<Rightarrow>
            if wn_sender notice = [] \<or> wn_recipient notice = [] \<or> wn_text notice = [] then job_skip
            else
              act (locked (remote_whisper_section (wn_sender notice) (wn_recipient notice))) (\<lambda>targets.
              send_all targets MSG_WHISPER_BROADCAST (WhisperBody (notice\<lparr>wn_outgoing := False\<rparr>))))"

section \<open>Parsing of commands\<close>

text \<open>Spaces at the front are removed unless there is nothing else.\<close>

definition skip_spaces :: "string \<Rightarrow> string" where
  "skip_spaces s = (if \<forall>c \<in> set s. c = CHR '' '' then s else dropWhile (\<lambda>c. c = CHR '' '') s)"

definition trim_spaces :: "string \<Rightarrow> string" where
  "trim_spaces s = rev (dropWhile (\<lambda>c. c = CHR '' '') (rev (dropWhile (\<lambda>c. c = CHR '' '') s)))"

text \<open>The recipient and the text of a whisper command.\<close>

definition parse_whisper_args :: "string \<Rightarrow> (string \<times> string) option" where
  "parse_whisper_args args =
     (let args = skip_spaces args in
      if CHR '' '' \<notin> set args then None
      else
        let target = takeWhile (\<lambda>c. c \<noteq> CHR '' '') args;
            text = skip_spaces (tl (dropWhile (\<lambda>c. c \<noteq> CHR '' '') args)) in
        if target = [] \<or> text = [] then None else Some (target, text))"

definition two_words :: "string \<Rightarrow> string \<times> string" where
  "two_words s = (case read_word s of (w1, rest) \<Rightarrow> (w1, fst (read_word rest)))"

definition parse_duration_sec :: "string \<Rightarrow> u32 \<Rightarrow> nat \<Rightarrow> nat \<Rightarrow> u32" where
  "parse_duration_sec raw fallback min_value max_value =
     (if raw = [] then fallback
      else case std_stoull raw of
          None \<Rightarrow> fallback
        | Some parsed \<Rightarrow> if parsed < min_value \<or> max_value < parsed then fallback else of_nat parsed)"

text \<open>The operation and the user of the three forms of the blacklist command.\<close>

definition parse_blacklist :: "string \<Rightarrow> string \<times> string" where
  "parse_blacklist text =
     (if starts_with ''/block '' text then (''add'', trim_spaces (drop 7 text))
      else if starts_with ''/unblock '' text then (''remove'', trim_spaces (drop 9 text))
      else
        let args = trim_spaces (drop 10 text) in
        if args = [] \<or> args = ''list'' then (''list'', [])
        else case read_word args of (op, rest) \<Rightarrow> (c_lower op, trim_spaces (takeWhile (\<lambda>c. c \<noteq> CHR 0x0A) rest)))"

section \<open>Commands on rooms\<close>

text \<open>Administrators and the owner of a room may invite, remove members and remove the room.\<close>

definition may_manage :: "string set \<Rightarrow> string \<Rightarrow> string \<Rightarrow> ChatState \<Rightarrow> bool" where
  "may_manage admins actor room st \<longleftrightarrow>
     actor \<noteq> ''guest'' \<and> (actor \<in> admins \<or> st_room_owners st room = Some actor)"

definition invite_section :: "string set \<Rightarrow> nat \<Rightarrow> string \<Rightarrow> string \<Rightarrow> (nat \<Rightarrow> bool) \<Rightarrow> ChatState \<Rightarrow> bool \<times> ChatState" where
  "invite_section admins s user room alive st =
     (if may_manage admins (user_or_guest st s) room st
      then (True, st\<lparr>st_room_invites := (st_room_invites st)(room \<mapsto>
              insert user (case st_room_invites st room of Some us \<Rightarrow> us | None \<Rightarrow> {}))\<rparr>)
      else (False, st))"

definition with_admins :: "(string set \<Rightarrow> ('w, 'a) chat_job) \<Rightarrow> ('w, 'a) chat_job" where
  "with_admins k = act (asking cs_admin_users) k"

definition invite_command :: "'w chat_env \<Rightarrow> nat \<Rightarrow> string \<Rightarrow> string \<Rightarrow> ('w, unit) chat_job" where
  "invite_command E s current args =
     (let (user, room) = two_words args; room = (if room = [] then current else room) in
      if user = [] \<or> room = [] \<or> room = ''lobby'' then send_system_notice E s ''usage: /invite <user> [room]''
      else
        with_admins (\<lambda>admins.
        act (locked (invite_section admins s user room)) (\<lambda>allowed.
        if \<not> allowed then send_system_notice E s ''invite denied: owner/admin only''
        else send_system_notice E s (''invited user: '' @ user @ '' room='' @ room))))"

text \<open>The sessions of the user that are in the room move to the lobby.\<close>

definition kick_one :: "string \<Rightarrow> nat \<Rightarrow> nat list \<times> ChatState \<Rightarrow> nat list \<times> ChatState" where
  "kick_one room p acc =
     (case acc of (kicked, st) \<Rightarrow>
      if st_cur_room st p = Some room then
        (kicked @ [p],
         to_lobby p (case map_of (st_rooms st) room of None \<Rightarrow> st | Some xs \<Rightarrow> put_room room (rs_erase p xs) st))
      else (kicked, st))"

definition kick_section :: "string set \<Rightarrow> nat \<Rightarrow> string \<Rightarrow> string \<Rightarrow> (nat \<Rightarrow> bool) \<Rightarrow> ChatState \<Rightarrow> (bool \<times> nat list) \<times> ChatState" where
  "kick_section admins s user room alive st =
     (if \<not> may_manage admins (user_or_guest st s) room st then ((False, []), st)
      else case st_by_user st user of
          None \<Rightarrow> ((True, []), st)
        | Some _ \<Rightarrow>
            (case user_sessions user alive st of (ss, st) \<Rightarrow>
             let known = (map_of (st_rooms st) room \<noteq> None);
                 (kicked, st) = foldl (\<lambda>acc p. kick_one room p acc) ([], st) ss;
                 st = (if \<not> known then st
                       else if room_set st room = [] then forget_room room st
                       else if st_room_owners st room = Some user then hand_over alive room st else st)
             in ((True, kicked), st)))"

definition kick_command :: "'w chat_env \<Rightarrow> nat \<Rightarrow> string \<Rightarrow> string \<Rightarrow> ('w, unit) chat_job" where
  "kick_command E s current args =
     (let (user, room) = two_words args; room = (if room = [] then current else room) in
      if user = [] \<or> room = [] \<or> room = ''lobby'' then send_system_notice E s ''usage: /kick <user> [room]''
      else
        with_admins (\<lambda>admins.
        act (locked (kick_section admins s user room)) (\<lambda>(allowed, kicked).
        if \<not> allowed then send_system_notice E s ''kick denied: owner/admin only''
        else
          job_seq (job_each (\<lambda>p. job_seq (send_system_notice E p (''kicked from room: '' @ room)) (send_snapshot E p ''lobby'')) kicked)
          (job_seq (job_when (kicked \<noteq> []) (job_seq (broadcast_refresh E room) (broadcast_refresh E ''lobby'')))
          (send_system_notice E s (if kicked = [] then ''kick target not found in room'' else ''kick applied''))))))"

definition remove_room_section :: "string set \<Rightarrow> nat \<Rightarrow> string \<Rightarrow> (nat \<Rightarrow> bool) \<Rightarrow> ChatState \<Rightarrow> (bool \<times> nat list) \<times> ChatState" where
  "remove_room_section admins s room alive st =
     (if \<not> may_manage admins (user_or_guest st s) room st then ((False, []), st)
      else
        let moved = filter alive (room_set st room) in
        ((True, moved), forget_room room (foldl (\<lambda>st p. to_lobby p st) st moved)))"

definition remove_room_command :: "'w chat_env \<Rightarrow> nat \<Rightarrow> string \<Rightarrow> string \<Rightarrow> ('w, unit) chat_job" where
  "remove_room_command E s current args =
     (let room = fst (read_word args); room = (if room = [] then current else room) in
      if room = [] \<or> room = ''lobby'' then send_system_notice E s ''usage: /room remove [room]''
      else
        with_admins (\<lambda>admins.
        act (locked (remove_room_section admins s room)) (\<lambda>(allowed, moved).
        if \<not> allowed then send_system_notice E s ''room remove denied: owner/admin only''
        else
          job_seq (job_each (\<lambda>p. job_seq (send_system_notice E p (''room removed: '' @ room)) (send_snapshot E p ''lobby'')) moved)
          (job_seq (redis_do E (\<lambda>r. rc_srem r ''rooms:active'' room))
          (job_seq (redis_do E (\<lambda>r. rc_del r (''room:password:'' @ room)))
          (job_seq (redis_do E (\<lambda>r. rc_del r (''room:users:'' @ room)))
          (job_seq (broadcast_refresh E room)
          (job_seq (broadcast_refresh E ''lobby'')
          (send_system_notice E s (''room removed: '' @ room))))))))))"

section \<open>Commands of administrators\<close>

definition mute_command :: "'w chat_env \<Rightarrow> nat \<Rightarrow> string \<Rightarrow> ('w, unit) chat_job" where
  "mute_command E s args =
     (let (user, raw) = two_words args in
      if user = [] then send_system_notice E s ''usage: /mute <user> [seconds]''
      else
        act (asking (\<lambda>c. (cs_admin_users c, cs_spam_mute_sec c))) (\<lambda>(admins, fallback).
        act (outside (ce_steady_now E)) (\<lambda>now.
        (let duration = parse_duration_sec raw fallback 5 86400 in
         act (locked (\<lambda>alive st. if user_or_guest st s \<in> admins
               then (True, mute_user (now + seconds duration) ''muted by admin'' user st) else (False, st))) (\<lambda>allowed.
         if \<not> allowed then send_system_notice E s ''mute denied: admin only''
         else send_system_notice E s (''mute applied: user='' @ user @ '' duration='' @ show_nat (unat duration) @ ''s''))))))"

definition unmute_command :: "'w chat_env \<Rightarrow> nat \<Rightarrow> string \<Rightarrow> ('w, unit) chat_job" where
  "unmute_command E s args =
     (let user = fst (read_word args) in
      if user = [] then send_system_notice E s ''usage: /unmute <user>''
      else
        with_admins (\<lambda>admins.
        act (locked (\<lambda>alive st. if user_or_guest st s \<in> admins
              then ((True, st_muted_users st user \<noteq> None), st\<lparr>st_muted_users := (st_muted_users st)(user := None)\<rparr>)
              else ((False, False), st))) (\<lambda>(allowed, changed).
        if \<not> allowed then send_system_notice E s ''unmute denied: admin only''
        else send_system_notice E s (if changed then ''unmute applied: user='' @ user else ''unmute no-op: user not muted''))))"

definition ban_command :: "'w chat_env \<Rightarrow> nat \<Rightarrow> string \<Rightarrow> ('w, unit) chat_job" where
  "ban_command E s args =
     (let (user, raw) = two_words args in
      if user = [] then send_system_notice E s ''usage: /ban <user> [seconds]''
      else
        act (asking (\<lambda>c. (cs_admin_users c, cs_spam_ban_sec c))) (\<lambda>(admins, fallback).
        act (outside (ce_steady_now E)) (\<lambda>now.
        (let duration = parse_duration_sec raw fallback 10 604800 in
         act (locked (\<lambda>alive st. if user_or_guest st s \<in> admins
               then map_prod Some id (user_sessions user alive (ban_user (now + seconds duration) ''banned by admin'' user st))
               else (None, st))) (\<lambda>banned.
         case banned of
           None \<Rightarrow> send_system_notice E s ''ban denied: admin only''
         | Some ss \<Rightarrow>
             job_seq (job_each (disconnect_session E ''temporarily banned'') ss)
               (send_system_notice E s (''ban applied: user='' @ user @ '' duration='' @ show_nat (unat duration) @ ''s'')))))))"

definition unban_changes :: "string \<Rightarrow> ChatState \<Rightarrow> bool" where
  "unban_changes user st \<longleftrightarrow>
     st_banned_users st user \<noteq> None
     \<or> (\<exists>ip. st_user_last_ip st user = Some ip \<and> ip \<noteq> [] \<and> st_banned_ips st ip \<noteq> None)
     \<or> (\<exists>h. st_user_last_hwid_hash st user = Some h \<and> h \<noteq> [] \<and> st_banned_hwid_hashes st h \<noteq> None)"

definition unban_command :: "'w chat_env \<Rightarrow> nat \<Rightarrow> string \<Rightarrow> ('w, unit) chat_job" where
  "unban_command E s args =
     (let user = fst (read_word args) in
      if user = [] then send_system_notice E s ''usage: /unban <user>''
      else
        with_admins (\<lambda>admins.
        act (locked (\<lambda>alive st. if user_or_guest st s \<in> admins
              then ((True, unban_changes user st), unban_user user st) else ((False, False), st))) (\<lambda>(allowed, changed).
        if \<not> allowed then send_system_notice E s ''unban denied: admin only''
        else send_system_notice E s (if changed then ''unban applied: user='' @ user else ''unban no-op: user not banned''))))"

definition gkick_command :: "'w chat_env \<Rightarrow> nat \<Rightarrow> string \<Rightarrow> ('w, unit) chat_job" where
  "gkick_command E s args =
     (let user = fst (read_word args) in
      if user = [] then send_system_notice E s ''usage: /gkick <user>''
      else
        with_admins (\<lambda>admins.
        act (locked (\<lambda>alive st. if user_or_guest st s \<in> admins
              then map_prod Some id (user_sessions user alive st) else (None, st))) (\<lambda>kicked.
        case kicked of
          None \<Rightarrow> send_system_notice E s ''global kick denied: admin only''
        | Some ss \<Rightarrow>
            job_seq (job_each (disconnect_session E ''disconnected by administrator'') ss)
              (send_system_notice E s (if ss = [] then ''global kick target not found'' else ''global kick applied'')))))"

section \<open>Blacklists\<close>

definition block_user :: "string \<Rightarrow> string \<Rightarrow> (nat \<Rightarrow> bool) \<Rightarrow> ChatState \<Rightarrow> bool \<times> ChatState" where
  "block_user actor user alive st =
     (let blocked = blocked_by st actor in
      (user \<notin> blocked, st\<lparr>st_user_blacklists := (st_user_blacklists st)(actor \<mapsto> insert user blocked)\<rparr>))"

definition unblock_user :: "string \<Rightarrow> string \<Rightarrow> (nat \<Rightarrow> bool) \<Rightarrow> ChatState \<Rightarrow> bool \<times> ChatState" where
  "unblock_user actor user alive st =
     (case st_user_blacklists st actor of
        None \<Rightarrow> (False, st)
      | Some blocked \<Rightarrow>
          let left = blocked - {user} in
          (user \<in> blocked, st\<lparr>st_user_blacklists := (st_user_blacklists st)(actor := (if left = {} then None else Some left))\<rparr>))"

definition join_names :: "string list \<Rightarrow> string" where
  "join_names names = (case names of [] \<Rightarrow> [] | n # ns \<Rightarrow> n @ concat (map (\<lambda>m. '', '' @ m) ns))"

definition blacklist_command :: "'w chat_env \<Rightarrow> nat \<Rightarrow> string \<Rightarrow> ('w, unit) chat_job" where
  "blacklist_command E s text =
     act (reading (\<lambda>st. user_or_guest st s)) (\<lambda>actor.
     if actor = [] \<or> actor = ''guest'' then send_system_notice E s ''blacklist denied: login required''
     else
       (let (op, user) = parse_blacklist text in
        if op = ''list'' then
          act (reading (\<lambda>st. sorted_list_of_set (blocked_by st actor))) (\<lambda>names.
          send_system_notice E s (if names = [] then ''blacklist: (empty)'' else ''blacklist: '' @ join_names names))
        else if user = [] then send_system_notice E s ''usage: /blacklist <add|remove|list> [user]''
        else if user = actor then send_system_notice E s ''blacklist denied: cannot target yourself''
        else if op = ''add'' then
          act (locked (block_user actor user)) (\<lambda>changed.
          send_system_notice E s (if changed then ''blacklist add: '' @ user else ''blacklist add no-op''))
        else if op = ''remove'' then
          act (locked (unblock_user actor user)) (\<lambda>changed.
          send_system_notice E s (if changed then ''blacklist remove: '' @ user else ''blacklist remove no-op''))
        else send_system_notice E s ''usage: /blacklist <add|remove|list> [user]''))"

section \<open>All commands\<close>

definition whisper_command :: "'w chat_env \<Rightarrow> nat \<Rightarrow> string \<Rightarrow> ('w, unit) chat_job" where
  "whisper_command E s args =
     (case parse_whisper_args args of
        None \<Rightarrow> refuse_whisper E s ''usage: /whisper <user> <message>'' ''invalid payload''
      | Some (target, text) \<Rightarrow> dispatch_whisper E s target text)"

definition who_room :: "string \<Rightarrow> string \<Rightarrow> string" where
  "who_room current text =
     (let rest = dropWhile (\<lambda>c. c = CHR '' '') (drop 4 text) in if rest = [] then current else rest)"

text \<open>The job of a slash command; a text that is none is a message.\<close>

definition slash_command :: "'w chat_env \<Rightarrow> nat \<Rightarrow> string \<Rightarrow> string \<Rightarrow> ('w, unit) chat_job option" where
  "slash_command E s current text =
     (if text = [] \<or> hd text \<noteq> CHR ''/'' then None
      else if text = ''/rooms'' then Some (send_rooms_list E s)
      else if starts_with ''/who'' text then Some (send_room_users E s (who_room current text))
      else if starts_with ''/whisper '' text then Some (whisper_command E s (drop 9 text))
      else if starts_with ''/w '' text then Some (whisper_command E s (drop 3 text))
      else if starts_with ''/invite '' text then Some (invite_command E s current (drop 8 text))
      else if starts_with ''/kick '' text then Some (kick_command E s current (drop 6 text))
      else if starts_with ''/room remove'' text then Some (remove_room_command E s current (drop 12 text))
      else if starts_with ''/mute '' text then Some (mute_command E s (drop 6 text))
      else if starts_with ''/unmute '' text then Some (unmute_command E s (drop 8 text))
      else if starts_with ''/ban '' text then Some (ban_command E s (drop 5 text))
      else if starts_with ''/unban '' text then Some (unban_command E s (drop 7 text))
      else if starts_with ''/gkick '' text then Some (gkick_command E s (drop 7 text))
      else if starts_with ''/block '' text \<or> starts_with ''/unblock '' text \<or> starts_with ''/blacklist'' text
      then Some (blacklist_command E s text)
      else None)"

section \<open>Moderation of messages\<close>

record spam_config =
  sp_threshold :: nat
  sp_window_sec :: u32
  sp_mute_sec :: u32
  sp_ban_sec :: u32
  sp_violations :: u32

definition spam_config_of :: "'w ChatService \<Rightarrow> spam_config" where
  "spam_config_of c =
     \<lparr>sp_threshold = cs_spam_message_threshold c, sp_window_sec = cs_spam_window_sec c, sp_mute_sec = cs_spam_mute_sec c,
      sp_ban_sec = cs_spam_ban_sec c, sp_violations = cs_spam_ban_violation_threshold c\<rparr>"

datatype chat_verdict =
    VerdictGuest
  | VerdictBanned string
  | VerdictMuted string
  | VerdictSpamMuted string
  | VerdictSpamBanned string "nat list"
  | VerdictOk string

text \<open>A penalty that is still in force gives its reason; one that is over is erased.\<close>

definition active_penalty :: "int \<Rightarrow> string \<Rightarrow> string \<Rightarrow> (string \<rightharpoonup> TimedPenalty) \<Rightarrow> string option \<times> (string \<rightharpoonup> TimedPenalty)" where
  "active_penalty now fallback user m =
     (case m user of
        None \<Rightarrow> (None, m)
      | Some p \<Rightarrow>
          if tp_expires_at p \<le> now then (None, m(user := None))
          else (Some (if tp_reason p = [] then fallback else tp_reason p), m))"

text \<open>
  The sliding window of the sender's messages. Too many of them are a violation: the sender is muted, and
  banned with the address and device when the violations add up.
\<close>

definition spam_check :: "spam_config \<Rightarrow> int \<Rightarrow> string \<Rightarrow> (nat \<Rightarrow> bool) \<Rightarrow> ChatState \<Rightarrow> chat_verdict \<times> ChatState" where
  "spam_check cfg now sender alive st =
     (let events = (case st_spam_events st sender of Some es \<Rightarrow> es | None \<Rightarrow> []);
          events = dropWhile (\<lambda>t. t < now - seconds (sp_window_sec cfg)) events @ [now] in
      if length events \<le> sp_threshold cfg
      then (VerdictOk sender, st\<lparr>st_spam_events := (st_spam_events st)(sender \<mapsto> events)\<rparr>)
      else
        let violations = (case st_spam_violations st sender of Some n \<Rightarrow> n | None \<Rightarrow> 0) + 1;
            st = st\<lparr>st_spam_events := (st_spam_events st)(sender \<mapsto> []),
                    st_spam_violations := (st_spam_violations st)(sender \<mapsto> violations)\<rparr> in
        if sp_violations cfg \<le> violations then
          let reason = ''temporarily banned for repeated spam'' in
          case user_sessions sender alive (ban_user (now + seconds (sp_ban_sec cfg)) reason sender st) of
            (ss, st) \<Rightarrow> (VerdictSpamBanned reason ss, st)
        else
          let reason = ''temporarily muted for spam'' in
          (VerdictSpamMuted reason, mute_user (now + seconds (sp_mute_sec cfg)) reason sender st))"

definition moderate_message :: "spam_config \<Rightarrow> int \<Rightarrow> nat \<Rightarrow> (nat \<Rightarrow> bool) \<Rightarrow> ChatState \<Rightarrow> chat_verdict \<times> ChatState" where
  "moderate_message cfg now s alive st =
     (let sender = user_or_guest st s in
      if sender = ''guest'' then (VerdictGuest, st)
      else
        case active_penalty now ''temporarily muted'' sender (st_muted_users st) of (muted, m) \<Rightarrow>
        case active_penalty now ''temporarily banned'' sender (st_banned_users st) of (banned, b) \<Rightarrow>
        let st = st\<lparr>st_muted_users := m, st_banned_users := b\<rparr> in
        case banned of
          Some reason \<Rightarrow> (VerdictBanned reason, st)
        | None \<Rightarrow> (case muted of Some reason \<Rightarrow> (VerdictMuted reason, st) | None \<Rightarrow> spam_check cfg now sender alive st))"

section \<open>Messages\<close>

definition persist_message :: "'w chat_env \<Rightarrow> nat \<Rightarrow> string \<Rightarrow> string \<Rightarrow> ('w, string \<times> u64) chat_job" where
  "persist_message E s room text =
     (case ce_db E of
        None \<Rightarrow> Return ([], 0)
      | Some db \<Rightarrow>
          job_bind (ensure_room_id_ci E room) (\<lambda>rid.
          if rid = [] then Return ([], 0)
          else
            act (reading (\<lambda>st. st_user_uuid st s)) (\<lambda>uid.
            attempt (outside (db_make_uow db)) (\<lambda>u.
            attempt (outside (db_create_message db u rid room uid text)) (\<lambda>m.
            attempt (outside (db_commit db u)) (\<lambda>_. Return (rid, me_id m)) (Return (rid, me_id m)))
            (Return (rid, 0))) (Return (rid, 0)))))"

definition mark_seen :: "'w chat_env \<Rightarrow> nat \<Rightarrow> string \<Rightarrow> u64 \<Rightarrow> ('w, unit) chat_job" where
  "mark_seen E s rid msg_id =
     (case ce_db E of
        None \<Rightarrow> job_skip
      | Some db \<Rightarrow>
          job_when (0 < msg_id \<and> rid \<noteq> [])
            (user_uuid_of s (\<lambda>uid.
             job_when (uid \<noteq> [])
               (attempt (outside (db_make_uow db)) (\<lambda>u.
                attempt (outside (db_update_last_seen db u uid rid msg_id)) (\<lambda>_.
                attempt (outside (db_commit db u)) (\<lambda>_. job_skip) job_skip) job_skip) job_skip))))"

definition publish_message :: "'w chat_env \<Rightarrow> string \<Rightarrow> wire_body \<Rightarrow> ('w, unit) chat_job" where
  "publish_message E room body =
     (case ce_redis E of
        None \<Rightarrow> job_skip
      | Some r \<Rightarrow>
          act (asking (\<lambda>c. (cs_redis_pubsub_enabled c, pc_prefix (cs_presence c), cs_gateway_id c))) (\<lambda>(pubsub, pre, gw).
          job_when pubsub (quietly (rc_publish r (pre @ ''fanout:room:'' @ room) (''gw='' @ gw @ [CHR 0x0A] @ ce_serialize E body)))))"

text \<open>The recipients get the message, the sender's copy is marked; a sender without recipients gets an echo.\<close>

definition send_message :: "nat \<Rightarrow> nat list \<Rightarrow> wire_body \<Rightarrow> ('w, unit) chat_job" where
  "send_message s targets body =
     (if targets = [] then send_frame s MSG_CHAT_BROADCAST body FLAG_SELF
      else job_each (\<lambda>t. send_frame t MSG_CHAT_BROADCAST body (if t = s then FLAG_SELF else 0)) targets)"

definition broadcast_message :: "'w chat_env \<Rightarrow> nat \<Rightarrow> string \<Rightarrow> string \<Rightarrow> string \<Rightarrow> ('w, unit) chat_job" where
  "broadcast_message E s room sender text =
     act (locked (recipients room sender)) (\<lambda>targets.
     act (asking (\<lambda>c. chat_session_id c s)) (\<lambda>i.
     clock_ms E (\<lambda>ts.
     (let body = ChatBody \<lparr>cb_room = room, cb_sender = sender, cb_text = text, cb_sender_sid = i, cb_ts_ms = ts\<rparr> in
      job_bind (persist_message E s room text) (\<lambda>(rid, msg_id).
      job_seq
        (job_when (rid \<noteq> [] \<and> msg_id \<noteq> 0)
           (job_bind (cache_recent_message E rid \<lparr>sm_id = msg_id, sm_sender = sender, sm_text = text, sm_ts_ms = ts\<rparr>) (\<lambda>_. job_skip)))
      (job_seq (send_message s targets body)
      (job_seq (case ce_redis E of None \<Rightarrow> job_skip | Some _ \<Rightarrow> user_uuid_of s (touch_user_presence E))
      (job_seq (publish_message E room body) (mark_seen E s rid msg_id)))))))))"

definition penalise :: "'w chat_env \<Rightarrow> nat \<Rightarrow> string \<Rightarrow> ('w, unit) chat_job" where
  "penalise E s reason = job_seq (send_system_notice E s reason) (send_error s ERR_FORBIDDEN reason)"

definition plain_message :: "'w chat_env \<Rightarrow> nat \<Rightarrow> string \<Rightarrow> string \<Rightarrow> ('w, unit) chat_job" where
  "plain_message E s room text =
     act (outside (ce_steady_now E)) (\<lambda>now.
     act (asking spam_config_of) (\<lambda>cfg.
     act (locked (moderate_message cfg now s)) (\<lambda>verdict.
     case verdict of
       VerdictGuest \<Rightarrow> send_error s ERR_UNAUTHORIZED ''guest cannot chat''
     | VerdictBanned reason \<Rightarrow> job_seq (penalise E s reason) (stop_session s)
     | VerdictMuted reason \<Rightarrow> penalise E s reason
     | VerdictSpamMuted reason \<Rightarrow> penalise E s reason
     | VerdictSpamBanned reason ss \<Rightarrow> job_seq (penalise E s reason) (job_each (disconnect_session E reason) ss)
     | VerdictOk sender \<Rightarrow>
         job_bind (maybe_handle_chat_hook_plugin E s room sender text) (\<lambda>(stop, text).
         if stop then job_skip else broadcast_message E s room sender text))))"

text \<open>The room the sender is in; a message for another room is refused.\<close>

definition authoritative_room :: "nat \<Rightarrow> string \<Rightarrow> ChatState \<Rightarrow> (u16 \<times> string) + string" where
  "authoritative_room s room st =
     (if s \<notin> st_authed st then Inl (ERR_UNAUTHORIZED, ''unauthorized'')
      else case st_cur_room st s of
          None \<Rightarrow> Inl (ERR_NO_ROOM, ''no current room'')
        | Some current \<Rightarrow>
            if room \<noteq> [] \<and> room \<noteq> current then Inl (ERR_ROOM_MISMATCH, ''room mismatch'') else Inr current)"

definition chat_send_job :: "'w chat_env \<Rightarrow> nat \<Rightarrow> string \<Rightarrow> string \<Rightarrow> ('w, unit) chat_job" where
  "chat_send_job E s room text =
     (if text = ''/refresh'' then handle_refresh E s
      else
        act (reading (authoritative_room s room)) (\<lambda>res.
        case res of
          Inl (code, msg) \<Rightarrow> send_error s code msg
        | Inr current \<Rightarrow>
            (case slash_command E s current text of
               Some command \<Rightarrow> command
             | None \<Rightarrow> plain_message E s current text)))"

definition room_users_job :: "'w chat_env \<Rightarrow> nat \<Rightarrow> string \<Rightarrow> ('w, unit) chat_job" where
  "room_users_job E s requested =
     act (reading (\<lambda>st. if requested \<noteq> [] then requested else case st_cur_room st s of Some r \<Rightarrow> r | None \<Rightarrow> ''lobby''))
       (send_room_users E s)"

end
