(* ===== verification/Chat_Server.thy ===== *)
theory Chat_Server
  imports Chat_Messages
begin

text \<open>
  The chat server as a whole: the handlers that run on the I/O threads (\<^verbatim>\<open>handlers_login.cpp\<close>, \<^verbatim>\<open>handlers_join.cpp\<close>,
  \<^verbatim>\<open>handlers_leave.cpp\<close>, \<^verbatim>\<open>handlers_chat.cpp\<close>, \<^verbatim>\<open>handlers_ping.cpp\<close>, \<^verbatim>\<open>session_events.cpp\<close> under \<^verbatim>\<open>server/src/chat\<close>), the
  requests of administrators, the routes of \<^verbatim>\<open>server/src/app/router.cpp\<close>, the jobs that the queued tasks stand for, and
  the events that drive the pool of threads.
\<close>

abbreviation (input) MSG_PING :: u16 where "MSG_PING \<equiv> 0x0002"
abbreviation (input) MSG_PONG :: u16 where "MSG_PONG \<equiv> 0x0003"
abbreviation (input) MSG_LOGIN_REQ :: u16 where "MSG_LOGIN_REQ \<equiv> 0x0010"
abbreviation (input) MSG_JOIN_ROOM :: u16 where "MSG_JOIN_ROOM \<equiv> 0x0102"
abbreviation (input) MSG_LEAVE_ROOM :: u16 where "MSG_LEAVE_ROOM \<equiv> 0x0103"
abbreviation (input) MSG_WHISPER_REQ :: u16 where "MSG_WHISPER_REQ \<equiv> 0x0104"
abbreviation (input) MSG_ROOMS_REQ :: u16 where "MSG_ROOMS_REQ \<equiv> 0x0202"
abbreviation (input) MSG_ROOM_USERS_REQ :: u16 where "MSG_ROOM_USERS_REQ \<equiv> 0x0203"
abbreviation (input) MSG_REFRESH_REQ :: u16 where "MSG_REFRESH_REQ \<equiv> 0x0204"

section \<open>Handlers\<close>

text \<open>A task is queued, or the client told that the server is busy.\<close>

definition queue_or_busy :: "nat \<Rightarrow> chat_task \<Rightarrow> ('w, unit) chat_job" where
  "queue_or_busy s t =
     act (try_push t) (\<lambda>ok. if ok then job_skip else send_error s ERR_SERVER_BUSY ''server busy'')"

text \<open>The client's protocol version may follow the two strings.\<close>

definition on_login :: "nat \<Rightarrow> bytes \<Rightarrow> ('w, unit) chat_job" where
  "on_login s payload =
     (let bad = send_error s ERR_INVALID_PAYLOAD ''bad login payload'' in
      case read_lp_utf8 payload of
        None \<Rightarrow> bad
      | Some (user, sp) \<Rightarrow>
          (case read_lp_utf8 sp of
             None \<Rightarrow> bad
           | Some (token, sp) \<Rightarrow>
               (let queue = queue_or_busy s (TaskLogin s (bytes_string user) (bytes_string token)) in
                if sp = [] then queue
                else if length sp < 4 then bad
                else if drop 4 sp \<noteq> [] then bad
                else if \<not> is_protocol_version_compatible (read_be16 sp 0) (read_be16 sp 2)
                then send_error s ERR_UNSUPPORTED_VERSION ''unsupported version''
                else queue)))"

text \<open>A password that cannot be read is an empty one.\<close>

definition on_join :: "nat \<Rightarrow> bytes \<Rightarrow> ('w, unit) chat_job" where
  "on_join s payload =
     (case read_lp_utf8 payload of
        None \<Rightarrow> send_error s ERR_INVALID_PAYLOAD ''bad join payload''
      | Some (room, sp) \<Rightarrow>
          queue_or_busy s (TaskJoin s (bytes_string room)
            (case read_lp_utf8 sp of Some (password, _) \<Rightarrow> bytes_string password | None \<Rightarrow> [])))"

definition on_leave :: "nat \<Rightarrow> bytes \<Rightarrow> ('w, unit) chat_job" where
  "on_leave s payload =
     queue_or_busy s (TaskLeave s (case read_lp_utf8 payload of Some (room, _) \<Rightarrow> bytes_string room | None \<Rightarrow> []))"

definition two_strings :: "bytes \<Rightarrow> (string \<times> string) option" where
  "two_strings payload =
     (case read_lp_utf8 payload of
        None \<Rightarrow> None
      | Some (x, sp) \<Rightarrow> (case read_lp_utf8 sp of None \<Rightarrow> None | Some (y, _) \<Rightarrow> Some (bytes_string x, bytes_string y)))"

definition on_whisper :: "nat \<Rightarrow> bytes \<Rightarrow> ('w, unit) chat_job" where
  "on_whisper s payload =
     (case two_strings payload of
        None \<Rightarrow> send_error s ERR_INVALID_PAYLOAD ''bad whisper payload''
      | Some (target, text) \<Rightarrow> queue_or_busy s (TaskWhisper s target text))"

definition on_chat_send :: "nat \<Rightarrow> bytes \<Rightarrow> ('w, unit) chat_job" where
  "on_chat_send s payload =
     (case two_strings payload of
        None \<Rightarrow> send_error s ERR_INVALID_PAYLOAD ''bad chat payload''
      | Some (room, text) \<Rightarrow> queue_or_busy s (TaskChatSend s room text))"

definition on_rooms_request :: "nat \<Rightarrow> bytes \<Rightarrow> ('w, unit) chat_job" where
  "on_rooms_request s payload = queue_or_busy s (TaskRooms s)"

definition on_room_users_request :: "nat \<Rightarrow> bytes \<Rightarrow> ('w, unit) chat_job" where
  "on_room_users_request s payload =
     queue_or_busy s (TaskRoomUsers s (case read_lp_utf8 payload of Some (room, _) \<Rightarrow> bytes_string room | None \<Rightarrow> []))"

definition on_refresh_request :: "nat \<Rightarrow> bytes \<Rightarrow> ('w, unit) chat_job" where
  "on_refresh_request s payload = queue_or_busy s (TaskRefresh s)"

definition on_ping :: "'w chat_env \<Rightarrow> nat \<Rightarrow> bytes \<Rightarrow> ('w, unit) chat_job" where
  "on_ping E s payload =
     job_seq (send_frame s MSG_PONG (RawBody payload) 0)
       (act (reading (\<lambda>st. if s \<in> st_authed st then str_or_empty (st_user_uuid st s) else [])) (\<lambda>uid.
        if uid = [] then job_skip else touch_user_presence E uid))"

section \<open>Routes\<close>

text \<open>Every route carries the policy of its opcode; frames of other opcodes have no handler here.\<close>

definition register_routes :: "'w chat_env \<Rightarrow> u16 \<rightharpoonup> OpcodePolicy \<times> (nat \<Rightarrow> bytes \<Rightarrow> ('w, unit) chat_job)" where
  "register_routes E = map_of
     [(MSG_PING, system_opcode_policy MSG_PING, on_ping E),
      (MSG_PONG, system_opcode_policy MSG_PONG, \<lambda>s payload. job_skip),
      (MSG_LOGIN_REQ, game_opcode_policy MSG_LOGIN_REQ, on_login),
      (MSG_JOIN_ROOM, game_opcode_policy MSG_JOIN_ROOM, on_join),
      (MSG_CHAT_SEND, game_opcode_policy MSG_CHAT_SEND, on_chat_send),
      (MSG_WHISPER_REQ, game_opcode_policy MSG_WHISPER_REQ, on_whisper),
      (MSG_LEAVE_ROOM, game_opcode_policy MSG_LEAVE_ROOM, on_leave),
      (MSG_ROOMS_REQ, game_opcode_policy MSG_ROOMS_REQ, on_rooms_request),
      (MSG_ROOM_USERS_REQ, game_opcode_policy MSG_ROOM_USERS_REQ, on_room_users_request),
      (MSG_REFRESH_REQ, game_opcode_policy MSG_REFRESH_REQ, on_refresh_request)]"

section \<open>Requests of administrators\<close>

definition json_escape :: "string \<Rightarrow> string" where
  "json_escape s = concat (map (\<lambda>c.
     if c = CHR 0x5C then [CHR 0x5C, CHR 0x5C]
     else if c = CHR 0x22 then [CHR 0x5C, CHR 0x22]
     else if c = CHR 0x0A then [CHR 0x5C, CHR ''n'']
     else if c = CHR 0x0D then [CHR 0x5C, CHR ''r'']
     else if c = CHR 0x09 then [CHR 0x5C, CHR ''t'']
     else [c]) s)"

definition json_quoted :: "string \<Rightarrow> string" where
  "json_quoted s = [CHR 0x22] @ json_escape s @ [CHR 0x22]"

definition json_array_of_strings :: "string list \<Rightarrow> string" where
  "json_array_of_strings vs =
     ''['' @ (case vs of [] \<Rightarrow> [] | v # rest \<Rightarrow> json_quoted v @ concat (map (\<lambda>w. '','' @ json_quoted w) rest)) @ '']''"

definition json_field :: "string \<Rightarrow> string \<Rightarrow> string" where
  "json_field key json = json_quoted key @ '':'' @ json"

definition admin_disconnect_users :: "'w chat_env \<Rightarrow> string list \<Rightarrow> string \<Rightarrow> ('w, unit) chat_job" where
  "admin_disconnect_users E users reason =
     (let targets = filter (\<lambda>u. u \<noteq> []) users in
      if targets = [] then job_skip
      else
        job_bind (maybe_handle_admin_command_hook E ''disconnect_users'' ''control-plane''
            (''{'' @ json_field ''users'' (json_array_of_strings targets) @ '','' @ json_field ''reason'' (json_quoted reason) @ ''}'') []) (\<lambda>denied.
        if denied then job_skip else act (try_push (TaskDisconnect targets reason)) (\<lambda>_. job_skip)))"

definition admin_broadcast_notice :: "'w chat_env \<Rightarrow> string \<Rightarrow> ('w, unit) chat_job" where
  "admin_broadcast_notice E text =
     (if text = [] then job_skip
      else
        job_bind (maybe_handle_admin_command_hook E ''announce'' ''control-plane''
            (''{'' @ json_field ''text'' (json_quoted text) @ ''}'') text) (\<lambda>denied.
        if denied then job_skip else act (try_push (TaskNotice text)) (\<lambda>_. job_skip)))"

definition admin_apply_runtime_setting :: "'w chat_env \<Rightarrow> string \<Rightarrow> string \<Rightarrow> ('w, unit) chat_job" where
  "admin_apply_runtime_setting E key v =
     (if key = [] \<or> v = [] then job_skip
      else
        job_bind (maybe_handle_admin_command_hook E ''apply_runtime_setting'' ''control-plane''
            (''{'' @ json_field ''key'' (json_quoted key) @ '','' @ json_field ''value'' (json_quoted v) @ ''}'') (key @ ''='' @ v)) (\<lambda>denied.
        if denied then job_skip
        else
          act (outside (ce_steady_now E)) (\<lambda>started.
          act (metric record_runtime_setting_reload_attempt) (\<lambda>_.
          act (try_push (TaskSetting key v started)) (\<lambda>ok.
          if ok then job_skip else setting_done E False started)))))"

definition admin_apply_user_moderation :: "'w chat_env \<Rightarrow> string \<Rightarrow> string list \<Rightarrow> u32 \<Rightarrow> string \<Rightarrow> ('w, unit) chat_job" where
  "admin_apply_user_moderation E op users duration_sec reason =
     (case moderation_task op users duration_sec reason of
        None \<Rightarrow> job_skip
      | Some t \<Rightarrow>
          job_bind (maybe_handle_admin_command_hook E ''apply_user_moderation'' ''control-plane''
              (''{'' @ json_field ''op'' (json_quoted op) @ '',''
               @ json_field ''users'' (json_array_of_strings (filter (\<lambda>u. u \<noteq> []) (map c_trim users))) @ '',''
               @ json_field ''duration_sec'' (show_nat (unat duration_sec)) @ '','' @ json_field ''reason'' (json_quoted reason) @ ''}'') op) (\<lambda>denied.
          if denied then job_skip else act (try_push t) (\<lambda>_. job_skip)))"

section \<open>Tasks\<close>

text \<open>Loading, reloading and unloading of plugins is done by the chain's host.\<close>

definition poll_reload_job :: "'w chat_env \<Rightarrow> ('w, unit) chat_job" where
  "poll_reload_job E =
     act (\<lambda>c. case cs_hook_plugin c of
            None \<Rightarrow> ((), c)
          | Some ps \<Rightarrow> (case ce_poll_chain E ps (cs_world c) of (ps, w) \<Rightarrow> ((), c\<lparr>cs_hook_plugin := Some ps, cs_world := w\<rparr>)))
       (\<lambda>_. job_skip)"

definition task_job :: "'w chat_env \<Rightarrow> chat_task \<Rightarrow> ('w, unit) chat_job" where
  "task_job E t =
     (case t of
        TaskLogin s user token \<Rightarrow> login_job E s user token
      | TaskJoin s room password \<Rightarrow> join_job E s room password
      | TaskLeave s room \<Rightarrow> leave_job E s room
      | TaskChatSend s room text \<Rightarrow> chat_send_job E s room text
      | TaskWhisper s target text \<Rightarrow> dispatch_whisper E s target text
      | TaskRooms s \<Rightarrow> send_rooms_list E s
      | TaskRoomUsers s requested \<Rightarrow> room_users_job E s requested
      | TaskRefresh s \<Rightarrow> handle_refresh E s
      | TaskClose s \<Rightarrow> close_job E s
      | TaskDisconnect users notice \<Rightarrow> disconnect_job E users notice
      | TaskNotice text \<Rightarrow> notice_job E text
      | TaskSetting key v started \<Rightarrow> setting_job E key v started
      | TaskModeration op users duration_sec reason \<Rightarrow> moderation_job E op users duration_sec reason
      | TaskPollReload \<Rightarrow> poll_reload_job E)"

section \<open>Events\<close>

text \<open>Messages that other servers and the control plane publish.\<close>

datatype fanout =
    FanRefresh string
  | FanRoom string bytes
  | FanWhisper bytes
  | FanDisconnect "string list" string
  | FanAnnounce string
  | FanSetting string string
  | FanModeration string "string list" u32 string

definition fanout_job :: "'w chat_env \<Rightarrow> fanout \<Rightarrow> ('w, unit) chat_job" where
  "fanout_job E f =
     (case f of
        FanRefresh room \<Rightarrow> broadcast_refresh_local room
      | FanRoom room body \<Rightarrow> broadcast_room E room (RawBody body)
      | FanWhisper body \<Rightarrow> deliver_remote_whisper E body
      | FanDisconnect users reason \<Rightarrow> admin_disconnect_users E users reason
      | FanAnnounce text \<Rightarrow> admin_broadcast_notice E text
      | FanSetting key v \<Rightarrow> admin_apply_runtime_setting E key v
      | FanModeration op users duration_sec reason \<Rightarrow> admin_apply_user_moderation E op users duration_sec reason)"

text \<open>No table of the service mentions the address.\<close>

definition forgotten :: "ChatState \<Rightarrow> nat \<Rightarrow> bool" where
  "forgotten st s \<longleftrightarrow>
     st_user st s = None \<and> st_cur_room st s = None \<and> s \<notin> st_authed st \<and> s \<notin> st_guest st
     \<and> (\<forall>(r, xs) \<in> set (st_rooms st). s \<notin> set xs) \<and> (\<forall>u xs. st_by_user st u = Some xs \<longrightarrow> s \<notin> set xs)"

text \<open>
  What happens outside the running jobs. A session object may be destroyed at any time, which includes
  every time at which the last shared pointer to it may go away. A new object gets an address that no
  table mentions. For the sets of weak pointers this is so because they keep the memory of the sessions
  they hold. For the tables with plain pointers as keys it is an assumption: \<open>close_job\<close> removes the
  entries, unless a login that was queued earlier runs after it.
\<close>

inductive chat_event :: "'w chat_env \<Rightarrow> 'w ChatService \<Rightarrow> 'w ChatService \<Rightarrow> ('w, unit) chat_job list \<Rightarrow> bool" for E where
  ev_frame: "live c s \<Longrightarrow> register_routes E msg_id = Some (policy, handler) \<Longrightarrow> chat_event E c c [handler s payload]"
| ev_worker: "JobQueue_Pop (cs_queue c) (cs_metrics c) = Returns (Some t, notify, q, m) \<Longrightarrow>
    chat_event E c (c\<lparr>cs_queue := q, cs_metrics := m\<rparr>) [task_job E t]"
| ev_open: "\<not> live c s \<Longrightarrow> forgotten (cs_state c) s \<Longrightarrow> chat_event E c (c\<lparr>cs_sessions := (cs_sessions c)(s \<mapsto> n)\<rparr>) []"
| ev_close: "live c s \<Longrightarrow> jq_push_enter (TaskClose s) (cs_queue c) (cs_metrics c) = (PushAccepted, q, m) \<Longrightarrow>
    chat_event E c (c\<lparr>cs_queue := q, cs_metrics := m\<rparr>) []"
| ev_destroy: "chat_event E c (c\<lparr>cs_sessions := (cs_sessions c)(s := None)\<rparr>) []"
| ev_fanout: "chat_event E c c [fanout_job E f]"
| ev_poll: "chat_event E c (snd (try_push TaskPollReload c)) []"
| ev_reload: "chat_event E c (c\<lparr>cs_lua_runtime := map_option (\<lambda>u. snd (reload_scripts fs scripts u)) (cs_lua_runtime c)\<rparr>) []"
| ev_world: "chat_event E c (c\<lparr>cs_world := w\<rparr>) []"

inductive_cases chat_event_cases: "chat_event E c c' new"

end
