(* ===== verification/Chat_Config.thy ===== *)
theory Chat_Config
  imports Chat_Server
begin

text \<open>
  The configuration of the chat service: its constructor in \<^verbatim>\<open>server/src/chat/chat_service_core.cpp\<close> reads the process
  environment. A variable that is missing, empty, no number or out of range leaves the default, which
  \<^verbatim>\<open>server/include/server/chat/chat_service.hpp\<close> sets.
\<close>

section \<open>Reading the environment\<close>

definition read_env :: "environment \<Rightarrow> string \<Rightarrow> string \<Rightarrow> string option" where
  "read_env env primary secondary =
     (case env_nonempty env primary of Some v \<Rightarrow> Some v | None \<Rightarrow> env_nonempty env secondary)"

text \<open>The pieces between commas and semicolons, trimmed; empty ones are left out.\<close>

fun split_separators :: "string \<Rightarrow> string \<Rightarrow> string list" where
  "split_separators current [] = [current]"
| "split_separators current (c # cs) =
     (if c = CHR '','' \<or> c = CHR '';'' then current # split_separators [] cs else split_separators (current @ [c]) cs)"

definition split_csv :: "string \<Rightarrow> string list" where
  "split_csv raw = filter (\<lambda>p. p \<noteq> []) (map c_trim (split_separators [] raw))"

definition parse_u32_bounded :: "string option \<Rightarrow> u32 \<Rightarrow> u32 \<Rightarrow> u32 \<Rightarrow> u32" where
  "parse_u32_bounded raw fallback min_value max_value =
     (case raw of
        None \<Rightarrow> fallback
      | Some r \<Rightarrow>
          if r = [] then fallback
          else case c_strtoull r of
              None \<Rightarrow> fallback
            | Some parsed \<Rightarrow> if parsed < unat min_value \<or> unat max_value < parsed then fallback else of_nat parsed)"

text \<open>The same for the limits of the history, whose bounds are checked in place.\<close>

definition bounded_or :: "string option \<Rightarrow> nat \<Rightarrow> nat \<Rightarrow> nat \<Rightarrow> nat" where
  "bounded_or raw lo hi fallback =
     (case raw of
        None \<Rightarrow> fallback
      | Some r \<Rightarrow> (case c_strtoull r of None \<Rightarrow> fallback | Some v \<Rightarrow> if lo \<le> v \<and> v \<le> hi then v else fallback))"

section \<open>Groups of settings\<close>

definition read_write_behind :: "environment \<Rightarrow> WriteBehindConfig" where
  "read_write_behind env =
     \<lparr>wb_enabled = (case env_nonempty env ''WRITE_BEHIND_ENABLED'' of Some flag \<Rightarrow> flag \<noteq> ''0'' | None \<Rightarrow> False),
      wb_stream_key = (case env_nonempty env ''REDIS_STREAM_KEY'' of Some key \<Rightarrow> key | None \<Rightarrow> ''session_events''),
      wb_maxlen = (case env_nonempty env ''REDIS_STREAM_MAXLEN'' of
          None \<Rightarrow> None
        | Some raw \<Rightarrow> (case c_strtoull raw of None \<Rightarrow> None | Some v \<Rightarrow> if 0 < v then Some v else None)),
      wb_approximate = (env_nonempty env ''REDIS_STREAM_APPROX'' \<noteq> Some ''0'')\<rparr>"

definition read_presence :: "environment \<Rightarrow> PresenceConfig" where
  "read_presence env =
     \<lparr>pc_ttl = (case env_nonempty env ''PRESENCE_TTL_SEC'' of
          None \<Rightarrow> 30
        | Some raw \<Rightarrow>
            (let t = (case c_strtoull raw of Some v \<Rightarrow> v | None \<Rightarrow> 0) in if 0 < t \<and> t < 3600 then of_nat t else 30)),
      pc_prefix = (case env_nonempty env ''REDIS_CHANNEL_PREFIX'' of Some p \<Rightarrow> p | None \<Rightarrow> [])\<rparr>"

text \<open>The list in Redis is never shorter than what is asked from it.\<close>

definition read_history :: "environment \<Rightarrow> HistoryConfig" where
  "read_history env =
     (let recent_limit = bounded_or (read_env env ''RECENT_HISTORY_LIMIT'' ''SNAPSHOT_RECENT_LIMIT'') 5 2000 20;
          max_list_len = bounded_or (env_nonempty env ''ROOM_RECENT_MAXLEN'') recent_limit 5000 200;
          cache_ttl_sec = bounded_or (env_nonempty env ''CACHE_TTL_RECENT_MSGS'') 60 604800 21600;
          fetch_factor = bounded_or (read_env env ''RECENT_HISTORY_FETCH_FACTOR'' ''SNAPSHOT_FETCH_FACTOR'') 1 10 3 in
      \<lparr>hc_recent_limit = recent_limit, hc_max_list_len = (if max_list_len < recent_limit then recent_limit else max_list_len),
       hc_fetch_factor = fetch_factor, hc_cache_ttl_sec = of_nat cache_ttl_sec\<rparr>)"

definition read_admins :: "environment \<Rightarrow> string set" where
  "read_admins env =
     (case read_env env ''CHAT_ADMIN_USERS'' ''ADMIN_USERS'' of Some raw \<Rightarrow> set (split_csv raw) | None \<Rightarrow> {})"

section \<open>Plugins\<close>

record ChainConfig =
  cf_plugin_paths :: "string list"
  cf_plugins_dir :: "string option"
  cf_fallback_plugins_dir :: "string option"
  cf_cache_dir :: string
  cf_single_lock_path :: "string option"
  cf_hook_warn_budget_us :: u64

text \<open>A list of paths comes before a directory, a directory before a single path; the result is \<open>None\<close> when hooks are off.\<close>

definition read_chain_config :: "environment \<Rightarrow> ChainConfig option" where
  "read_chain_config env =
     (let listed = (case env_nonempty env ''CHAT_HOOK_PLUGIN_PATHS'' of Some raw \<Rightarrow> split_csv raw | None \<Rightarrow> []);
          dir = (if listed \<noteq> [] then None else env_nonempty env ''CHAT_HOOK_PLUGINS_DIR'');
          single = (if listed \<noteq> [] \<or> dir \<noteq> None then None else env_nonempty env ''CHAT_HOOK_PLUGIN_PATH'');
          configured = (listed \<noteq> [] \<or> dir \<noteq> None \<or> single \<noteq> None);
          chat_hook_enabled = (case env_nonempty env ''CHAT_HOOK_ENABLED'' of Some flag \<Rightarrow> flag \<noteq> ''0'' | None \<Rightarrow> True) in
      if configured \<and> chat_hook_enabled
      then Some
        \<lparr>cf_plugin_paths = (case single of Some p \<Rightarrow> listed @ [p] | None \<Rightarrow> listed), cf_plugins_dir = dir,
         cf_fallback_plugins_dir = (if dir \<noteq> None then env_nonempty env ''CHAT_HOOK_FALLBACK_PLUGINS_DIR'' else None),
         cf_cache_dir = (case env_nonempty env ''CHAT_HOOK_CACHE_DIR'' of Some d \<Rightarrow> d | None \<Rightarrow> []),
         cf_single_lock_path = env_nonempty env ''CHAT_HOOK_LOCK_PATH'',
         cf_hook_warn_budget_us = ucast (parse_u32_bounded (env ''CHAT_HOOK_WARN_BUDGET_US'') 0 0 60000000)\<rparr>
      else None)"

section \<open>The constructor\<close>

definition LuaHookState_init :: LuaHookState where
  "LuaHookState_init =
     \<lparr>lh_consecutive_failures = Map.empty, lh_auto_disable_total = Map.empty, lh_calls_total = Map.empty,
      lh_errors_total = Map.empty, lh_instruction_limit_hits = Map.empty, lh_memory_limit_hits = Map.empty,
      lh_script_calls_total = Map.empty, lh_script_errors_total = Map.empty, lh_disabled = {}, lh_reload_epoch = 0\<rparr>"

text \<open>
  The job queue, the Lua runtime and the metrics are made before the service. \<open>make_chain\<close> makes the chain of plugin
  hosts from its configuration; it is loaded once at once.
\<close>

definition ChatService_create ::
  "'w chat_env \<Rightarrow> (ChainConfig \<Rightarrow> 'w chat_plugin list) \<Rightarrow> environment \<Rightarrow> chat_task JobQueue \<Rightarrow> LuaRuntime option \<Rightarrow>
   metrics \<Rightarrow> 'w \<Rightarrow> 'w ChatService" where
  "ChatService_create E make_chain env q lua m w =
     (let (plugins, w) = (case read_chain_config env of
            None \<Rightarrow> (None, w)
          | Some cfg \<Rightarrow> (case ce_poll_chain E (make_chain cfg) w of (ps, w) \<Rightarrow> (Some ps, w))) in
      \<lparr>cs_state = ChatState_init,
       cs_gateway_id = (case env_nonempty env ''GATEWAY_ID'' of Some gw \<Rightarrow> gw | None \<Rightarrow> ''gw-default''),
       cs_redis_pubsub_enabled = (case env ''USE_REDIS_PUBSUB'' of Some use \<Rightarrow> use \<noteq> ''0'' | None \<Rightarrow> False),
       cs_admin_users = read_admins env,
       cs_spam_message_threshold = unat (parse_u32_bounded (env ''CHAT_SPAM_THRESHOLD'') 6 3 100),
       cs_spam_window_sec = parse_u32_bounded (env ''CHAT_SPAM_WINDOW_SEC'') 5 1 120,
       cs_spam_mute_sec = parse_u32_bounded (env ''CHAT_SPAM_MUTE_SEC'') 30 5 86400,
       cs_spam_ban_sec = parse_u32_bounded (env ''CHAT_SPAM_BAN_SEC'') 600 10 604800,
       cs_spam_ban_violation_threshold = parse_u32_bounded (env ''CHAT_SPAM_BAN_VIOLATIONS'') 3 1 20,
       cs_lua_auto_disable_threshold = ucast (parse_u32_bounded (env ''LUA_AUTO_DISABLE_THRESHOLD'') 3 1 1000000),
       cs_write_behind = read_write_behind env, cs_presence = read_presence env, cs_history = read_history env,
       cs_lua_runtime = lua, cs_lua_hooks = LuaHookState_init, cs_hook_plugin = plugins,
       cs_plugin_hook_metrics = Map.empty, cs_queue = q, cs_metrics = m, cs_deadlocked = False,
       cs_sessions = Map.empty, cs_out = [], cs_world = w\<rparr>)"

section \<open>Ranges\<close>

text \<open>
  The ranges within which every setting stays: those of the constructor and of \<open>kRuntimeSettingRules\<close>
  together. That the list is at least as long as the limit is not among them, see \<open>setting_job\<close>.
\<close>

definition settings_ok :: "'w ChatService \<Rightarrow> bool" where
  "settings_ok c \<longleftrightarrow>
     1 \<le> pc_ttl (cs_presence c) \<and> pc_ttl (cs_presence c) \<le> 3600
     \<and> 5 \<le> hc_recent_limit (cs_history c) \<and> hc_recent_limit (cs_history c) \<le> 2000
     \<and> 5 \<le> hc_max_list_len (cs_history c) \<and> hc_max_list_len (cs_history c) \<le> 5000
     \<and> 3 \<le> cs_spam_message_threshold c \<and> cs_spam_message_threshold c \<le> 100
     \<and> 1 \<le> cs_spam_window_sec c \<and> cs_spam_window_sec c \<le> 120
     \<and> 5 \<le> cs_spam_mute_sec c \<and> cs_spam_mute_sec c \<le> 86400
     \<and> 10 \<le> cs_spam_ban_sec c \<and> cs_spam_ban_sec c \<le> 604800
     \<and> 1 \<le> cs_spam_ban_violation_threshold c \<and> cs_spam_ban_violation_threshold c \<le> 20"

lemma parse_u32_bounded_range:
  assumes "lo \<le> fallback" "fallback \<le> hi"
  shows "lo \<le> parse_u32_bounded raw fallback lo hi" "parse_u32_bounded raw fallback lo hi \<le> hi"
proof -
  have "unat (of_nat v :: u32) = v" if "v \<le> unat hi" for v
    using that by (metis le_unat_uoi)
  then show "lo \<le> parse_u32_bounded raw fallback lo hi" "parse_u32_bounded raw fallback lo hi \<le> hi"
    using assms by (auto simp: parse_u32_bounded_def word_le_nat_alt split: option.splits)
qed

lemma bounded_or_range: "lo \<le> fallback \<Longrightarrow> fallback \<le> hi \<Longrightarrow> lo \<le> bounded_or raw lo hi fallback \<and> bounded_or raw lo hi fallback \<le> hi"
  by (simp add: bounded_or_def split: option.split)

lemma read_presence_range: "1 \<le> pc_ttl (read_presence env)" "pc_ttl (read_presence env) \<le> 3600"
proof -
  have "1 \<le> (of_nat t :: u32) \<and> (of_nat t :: u32) \<le> 3600" if "0 < t" "t < 3600" for t
    using that by (simp add: word_le_nat_alt unat_of_nat take_bit_nat_eq_self)
  then show "1 \<le> pc_ttl (read_presence env)" "pc_ttl (read_presence env) \<le> 3600"
    by (auto simp: read_presence_def Let_def split: option.split)
qed

lemma read_history_range:
  "5 \<le> hc_recent_limit (read_history env)" "hc_recent_limit (read_history env) \<le> 2000"
  "hc_recent_limit (read_history env) \<le> hc_max_list_len (read_history env)" "hc_max_list_len (read_history env) \<le> 5000"
proof -
  let ?l = "bounded_or (read_env env ''RECENT_HISTORY_LIMIT'' ''SNAPSHOT_RECENT_LIMIT'') 5 2000 20"
  have l: "5 \<le> ?l" "?l \<le> 2000" using bounded_or_range [of 5 20 2000] by simp_all
  have "bounded_or (env_nonempty env ''ROOM_RECENT_MAXLEN'') ?l 5000 200 \<le> 5000"
    by (simp add: bounded_or_def split: option.split)
  with l show "5 \<le> hc_recent_limit (read_history env)" "hc_recent_limit (read_history env) \<le> 2000"
    "hc_recent_limit (read_history env) \<le> hc_max_list_len (read_history env)" "hc_max_list_len (read_history env) \<le> 5000"
    by (simp_all add: read_history_def Let_def)
qed

lemma create_settings_ok: "settings_ok (ChatService_create E make_chain env q lua m w)"
proof -
  have th: "3 \<le> unat (parse_u32_bounded raw 6 3 100)" "unat (parse_u32_bounded raw 6 3 100) \<le> 100" for raw
    using parse_u32_bounded_range [of 3 6 100 raw] by (simp_all add: word_le_nat_alt)
  have "5 \<le> hc_max_list_len (read_history env)" using read_history_range [of env] by linarith
  then show ?thesis
    by (simp add: settings_ok_def ChatService_create_def Let_def case_prod_beta read_presence_range read_history_range th
        parse_u32_bounded_range)
qed

end
