(* ===== verification/Chat_Tables.thy ===== *)
theory Chat_Tables
  imports Chat_Server
begin

text \<open>
  The tables of the chat service agree with each other: for every session object that exists, the names,
  the sets of sessions by name, the current room and the members of rooms describe the same situation. Every
  section under the service mutex keeps this, so it holds whatever the other threads do. The constant
  \<open>reg_ok\<close> states the agreement; one lemma per section follows.
\<close>

named_theorems section_oks "sections under the service mutex that keep the tables in agreement"

section \<open>Agreement\<close>

definition named :: "(string \<rightharpoonup> RoomSet) \<Rightarrow> string \<Rightarrow> RoomSet" where
  "named m u = (case m u of Some xs \<Rightarrow> xs | None \<Rightarrow> [])"

definition user_set :: "ChatState \<Rightarrow> string \<Rightarrow> RoomSet" where
  "user_set st u = named (st_by_user st) u"

lemma named_upd [simp]: "named (m(u \<mapsto> xs)) v = (if v = u then xs else named m v)"
  by (simp add: named_def)

definition rooms_ok :: "ChatState \<Rightarrow> bool" where
  "rooms_ok st \<longleftrightarrow> distinct (map fst (st_rooms st)) \<and> (\<forall>r. rs_ok (room_set st r))"

definition users_ok :: "ChatState \<Rightarrow> bool" where
  "users_ok st \<longleftrightarrow> (\<forall>u. rs_ok (user_set st u))"

text \<open>One session: it is logged in exactly when it has a name, its name's set holds it, and so does its room's.\<close>

definition login_ok :: "ChatState \<Rightarrow> nat \<Rightarrow> bool" where
  "login_ok st s \<longleftrightarrow>
     (s \<in> st_authed st \<longleftrightarrow> st_user st s \<noteq> None) \<and> st_user st s \<noteq> Some []
     \<and> (s \<in> st_guest st \<longrightarrow> s \<in> st_authed st)
     \<and> (\<forall>u. s \<in> set (user_set st u) \<longleftrightarrow> st_user st s = Some u)"

definition place_ok :: "ChatState \<Rightarrow> nat \<Rightarrow> bool" where
  "place_ok st s \<longleftrightarrow>
     (s \<in> st_authed st \<longrightarrow> st_cur_room st s \<noteq> None)
     \<and> (\<forall>r. st_cur_room st s = Some r \<longrightarrow> s \<in> set (room_set st r))"

definition reg_ok :: "(nat \<Rightarrow> bool) \<Rightarrow> ChatState \<Rightarrow> bool" where
  "reg_ok alive st \<longleftrightarrow> rooms_ok st \<and> users_ok st \<and> (\<forall>s. alive s \<longrightarrow> login_ok st s \<and> place_ok st s)"

definition section_ok :: "((nat \<Rightarrow> bool) \<Rightarrow> ChatState \<Rightarrow> 'a \<times> ChatState) \<Rightarrow> bool" where
  "section_ok f \<longleftrightarrow> (\<forall>alive st. reg_ok alive st \<longrightarrow> reg_ok alive (snd (f alive st)))"

lemma section_okI: "(\<And>alive st. reg_ok alive st \<Longrightarrow> reg_ok alive (snd (f alive st))) \<Longrightarrow> section_ok f"
  by (simp add: section_ok_def)

lemmas reg_defs = reg_ok_def rooms_ok_def users_ok_def login_ok_def place_ok_def

text \<open>Only six tables matter.\<close>

lemma reg_ok_frame [simp]:
  "reg_ok alive (st\<lparr>st_room_ids := a\<rparr>) = reg_ok alive st" "reg_ok alive (st\<lparr>st_room_passwords := a\<rparr>) = reg_ok alive st"
  "reg_ok alive (st\<lparr>st_room_owners := a\<rparr>) = reg_ok alive st" "reg_ok alive (st\<lparr>st_room_invites := b\<rparr>) = reg_ok alive st"
  "reg_ok alive (st\<lparr>st_user_uuid := c\<rparr>) = reg_ok alive st" "reg_ok alive (st\<lparr>st_session_uuid := c\<rparr>) = reg_ok alive st"
  "reg_ok alive (st\<lparr>st_session_ip := c\<rparr>) = reg_ok alive st" "reg_ok alive (st\<lparr>st_session_hwid_hash := c\<rparr>) = reg_ok alive st"
  "reg_ok alive (st\<lparr>st_user_last_ip := a\<rparr>) = reg_ok alive st" "reg_ok alive (st\<lparr>st_user_last_hwid_hash := a\<rparr>) = reg_ok alive st"
  "reg_ok alive (st\<lparr>st_by_session_id := d\<rparr>) = reg_ok alive st" "reg_ok alive (st\<lparr>st_muted_users := e\<rparr>) = reg_ok alive st"
  "reg_ok alive (st\<lparr>st_banned_users := e\<rparr>) = reg_ok alive st" "reg_ok alive (st\<lparr>st_banned_ips := f\<rparr>) = reg_ok alive st"
  "reg_ok alive (st\<lparr>st_banned_hwid_hashes := f\<rparr>) = reg_ok alive st" "reg_ok alive (st\<lparr>st_spam_events := g\<rparr>) = reg_ok alive st"
  "reg_ok alive (st\<lparr>st_spam_violations := h\<rparr>) = reg_ok alive st" "reg_ok alive (st\<lparr>st_user_blacklists := b\<rparr>) = reg_ok alive st"
  by (simp_all add: reg_defs room_set_def user_set_def)

text \<open>Expired pointers come and go.\<close>

lemma reg_ok_prune:
  assumes "reg_ok alive st" "rooms_ok st'" "users_ok st'"
    and "st_user st' = st_user st" "st_cur_room st' = st_cur_room st" "st_authed st' = st_authed st" "st_guest st' = st_guest st"
    and "\<And>r s. alive s \<Longrightarrow> s \<in> set (room_set st' r) \<longleftrightarrow> s \<in> set (room_set st r)"
    and "\<And>u s. alive s \<Longrightarrow> s \<in> set (user_set st' u) \<longleftrightarrow> s \<in> set (user_set st u)"
  shows "reg_ok alive st'"
proof -
  have "login_ok st' s" "place_ok st' s" if "alive s" for s
    using assms(1) that by (auto simp: reg_ok_def login_ok_def place_ok_def assms)
  with assms(2,3) show ?thesis by (simp add: reg_ok_def)
qed

lemma reg_ok_anti_mono: "reg_ok alive st \<Longrightarrow> (\<And>s. alive' s \<Longrightarrow> alive s) \<Longrightarrow> reg_ok alive' st"
  by (simp add: reg_ok_def)

section \<open>Rooms\<close>

lemma room_set_put_room [simp]: "room_set (put_room r xs st) r' = (if r' = r then xs else room_set st r')"
  by (simp add: room_set_def put_room_def update_conv')

lemma set_room_insert [simp]:
  "set (room_set (room_insert r s st) r') = (if r' = r then insert s (set (room_set st r)) else set (room_set st r'))"
  by (simp add: room_insert_def)

lemma room_set_forget_room [simp]: "room_set (forget_room r st) r' = (if r' = r then [] else room_set st r')"
  by (simp add: room_set_def forget_room_def delete_conv')

lemma put_room_tables [simp]:
  "st_user (put_room r xs st) = st_user st" "st_cur_room (put_room r xs st) = st_cur_room st"
  "st_authed (put_room r xs st) = st_authed st" "st_guest (put_room r xs st) = st_guest st"
  "st_by_user (put_room r xs st) = st_by_user st" "user_set (put_room r xs st) = user_set st"
  by (simp_all add: put_room_def user_set_def fun_eq_iff)

lemma forget_room_tables [simp]:
  "st_user (forget_room r st) = st_user st" "st_cur_room (forget_room r st) = st_cur_room st"
  "st_authed (forget_room r st) = st_authed st" "st_guest (forget_room r st) = st_guest st"
  "st_by_user (forget_room r st) = st_by_user st" "user_set (forget_room r st) = user_set st"
  by (simp_all add: forget_room_def user_set_def fun_eq_iff)

lemma rooms_ok_put_room [simp]: "rooms_ok st \<Longrightarrow> rs_ok xs \<Longrightarrow> rooms_ok (put_room r xs st)"
  by (simp add: rooms_ok_def put_room_def distinct_update) (simp add: room_set_put_room flip: put_room_def)

lemma rooms_ok_forget_room [simp]: "rooms_ok st \<Longrightarrow> rooms_ok (forget_room r st)"
  by (simp add: rooms_ok_def distinct_delete forget_room_def) (simp add: room_set_forget_room flip: forget_room_def)

lemma users_ok_rooms [simp]:
  "users_ok (put_room r xs st) = users_ok st" "users_ok (forget_room r st) = users_ok st" "users_ok (room_insert r s st) = users_ok st"
  by (simp_all add: users_ok_def room_insert_def)

lemma room_insert_tables [simp]:
  "st_user (room_insert r s st) = st_user st" "st_cur_room (room_insert r s st) = st_cur_room st"
  "st_authed (room_insert r s st) = st_authed st" "st_guest (room_insert r s st) = st_guest st"
  "st_by_user (room_insert r s st) = st_by_user st" "user_set (room_insert r s st) = user_set st"
  by (simp_all add: room_insert_def)

lemma rooms_ok_room_insert [simp]: "rooms_ok st \<Longrightarrow> rooms_ok (room_insert r s st)"
  by (simp add: room_insert_def rooms_ok_def [of st])

lemma map_of_room_set: "map_of (st_rooms st) r = Some xs \<Longrightarrow> room_set st r = xs"
  by (simp add: room_set_def)

lemma rooms_ok_member: "rooms_ok st \<Longrightarrow> map_of (st_rooms st) r = Some xs \<Longrightarrow> rs_ok xs"
  by (metis map_of_room_set rooms_ok_def)

text \<open>A room with its expired pointers erased.\<close>

lemma reg_ok_put_filter:
  assumes "reg_ok alive st" "map_of (st_rooms st) r = Some xs" "rs_ok ys" "\<And>s. alive s \<Longrightarrow> s \<in> set ys \<longleftrightarrow> s \<in> set xs"
  shows "reg_ok alive (put_room r ys st)"
  using assms by (intro reg_ok_prune [OF assms(1)]) (auto simp: reg_ok_def map_of_room_set)

lemma hand_over_frame [simp]: "reg_ok alive (hand_over a r st) = reg_ok alive st"
  by (simp add: hand_over_def Let_def)

lemma reg_ok_parts: "reg_ok alive st \<Longrightarrow> rooms_ok st" "reg_ok alive st \<Longrightarrow> users_ok st"
  by (simp_all add: reg_ok_def)

lemma room_targets_ok: "reg_ok alive st \<Longrightarrow> reg_ok alive (snd (room_targets r alive st))"
  by (auto simp: room_targets_def collect_room_sessions_def dest: rooms_ok_member [OF reg_ok_parts(1)]
      intro!: reg_ok_put_filter split: option.splits)

lemma snd_recipients: "snd (recipients r u alive st) = snd (room_targets r alive st)"
  by (simp add: recipients_def case_prod_beta)

lemma sections_of_rooms [section_oks]:
  "section_ok (room_targets r)" "section_ok (recipients r u)" "section_ok (local_users r)" "section_ok (lua_get_room_users r)"
  by (auto intro!: section_okI simp: snd_recipients local_users_def lua_get_room_users_def case_prod_beta room_targets_ok)

text \<open>Expired pointers are erased in every room, and rooms with nobody left go.\<close>

definition pruned :: "(nat \<Rightarrow> bool) \<Rightarrow> ChatState \<Rightarrow> (string \<times> RoomSet) list" where
  "pruned alive st = map (\<lambda>(n, xs). (n, filter alive xs)) (st_rooms st)"

lemma map_of_pruned: "map_of (pruned alive st) r = map_option (filter alive) (map_of (st_rooms st) r)"
  unfolding pruned_def by (simp add: map_of_map)

lemma keys_pruned: "map fst (pruned alive st) = map fst (st_rooms st)"
  by (simp add: pruned_def case_prod_beta comp_def)

lemma map_of_filter_distinct:
  "distinct (map fst xs) \<Longrightarrow>
   map_of (filter P xs) k = (case map_of xs k of Some v \<Rightarrow> if P (k, v) then Some v else None | None \<Rightarrow> None)"
  by (induction xs) (auto simp: map_of_eq_None_iff dest: map_of_SomeD split: option.splits)

lemma reg_ok_pruned:
  assumes "reg_ok alive st" "distinct (map fst rs)" "\<And>r. room_set (st\<lparr>st_rooms := rs\<rparr>) r = filter alive (room_set st r)"
  shows "reg_ok alive (st\<lparr>st_rooms := rs\<rparr>)"
proof (rule reg_ok_prune [OF assms(1)])
  show "rooms_ok (st\<lparr>st_rooms := rs\<rparr>)" using assms by (simp add: reg_ok_def rooms_ok_def)
  show "users_ok (st\<lparr>st_rooms := rs\<rparr>)" using assms by (simp add: reg_ok_def users_ok_def user_set_def)
qed (use assms in \<open>simp_all add: user_set_def\<close>)

lemma room_set_pruned: "room_set (st\<lparr>st_rooms := pruned alive st\<rparr>) r = filter alive (room_set st r)"
  by (simp add: room_set_def map_of_pruned split: option.splits)

lemma everyone_ok [section_oks]: "section_ok everyone"
proof (rule section_okI)
  fix alive st assume ok: "reg_ok alive st"
  then have "reg_ok alive (st\<lparr>st_rooms := pruned alive st\<rparr>)"
    by (intro reg_ok_pruned) (auto simp: room_set_pruned keys_pruned reg_ok_def rooms_ok_def)
  then show "reg_ok alive (snd (everyone alive st))" by (simp add: everyone_def Let_def pruned_def)
qed

lemma prune_rooms_ok:
  assumes "reg_ok alive st"
  shows "reg_ok alive (prune_rooms alive st)"
proof -
  let ?rs = "filter (\<lambda>(n, xs). \<not> (xs = [] \<and> n \<noteq> ''lobby'')) (pruned alive st)"
  have keys: "distinct (map fst (pruned alive st))"
    using assms by (simp add: keys_pruned reg_ok_def rooms_ok_def)
  have "reg_ok alive (st\<lparr>st_rooms := ?rs\<rparr>)"
  proof (rule reg_ok_pruned [OF assms])
    show "distinct (map fst ?rs)" using keys by (rule distinct_map_filter)
    show "room_set (st\<lparr>st_rooms := ?rs\<rparr>) r = filter alive (room_set st r)" for r
      by (auto simp: room_set_def map_of_filter_distinct [OF keys] map_of_pruned split: option.splits)
  qed
  then show ?thesis by (simp add: prune_rooms_def Let_def flip: pruned_def)
qed

lemma list_rooms_ok [section_oks]: "section_ok (list_rooms infos)"
  by (rule section_okI) (simp add: list_rooms_def Let_def prune_rooms_ok)

lemma set_split_while: "set xs = set (takeWhile Q xs) \<union> set (dropWhile Q xs)"
  by (metis set_append takeWhile_dropWhile_id)

lemma sorted_may_view:
  assumes "rs_ok xs"
  shows "rs_ok (filter P (takeWhile Q xs) @ dropWhile Q xs)"
proof -
  have "rs_ok (takeWhile Q xs @ dropWhile Q xs)" using assms by simp
  then show ?thesis by (simp del: takeWhile_dropWhile_id add: rs_ok_def sorted_append sorted_wrt_filter) auto
qed

lemma may_view_ok [section_oks]: "section_ok (may_view s r)"
proof (rule section_okI)
  fix alive st assume ok: "reg_ok alive st"
  have kept: "x \<in> set (filter alive (takeWhile Q xs) @ dropWhile Q xs) \<longleftrightarrow> x \<in> set xs" if "alive x" for x Q and xs :: "nat list"
    using that by (simp add: set_split_while [of xs Q])
  show "reg_ok alive (snd (may_view s r alive st))"
    using ok kept rooms_ok_member [OF reg_ok_parts(1) [OF ok]]
    by (auto simp: may_view_def Let_def sorted_may_view split: option.splits intro!: reg_ok_put_filter)
qed

section \<open>Names\<close>

lemma user_set_upd [simp]: "user_set (st\<lparr>st_by_user := m\<rparr>) u = named m u"
  by (simp add: user_set_def)

lemma room_set_frame [simp]:
  "room_set (st\<lparr>st_by_user := m\<rparr>) = room_set st" "room_set (st\<lparr>st_cur_room := n\<rparr>) = room_set st"
  "room_set (st\<lparr>st_user := n\<rparr>) = room_set st" "room_set (st\<lparr>st_authed := a\<rparr>) = room_set st" "room_set (st\<lparr>st_guest := a\<rparr>) = room_set st"
  by (simp_all add: room_set_def fun_eq_iff)

lemma rooms_ok_frame [simp]:
  "rooms_ok (st\<lparr>st_by_user := m\<rparr>) = rooms_ok st" "rooms_ok (st\<lparr>st_cur_room := n\<rparr>) = rooms_ok st"
  "rooms_ok (st\<lparr>st_user := n\<rparr>) = rooms_ok st" "rooms_ok (st\<lparr>st_authed := a\<rparr>) = rooms_ok st" "rooms_ok (st\<lparr>st_guest := a\<rparr>) = rooms_ok st"
  by (simp_all add: rooms_ok_def room_set_def)

lemma reg_ok_filter_user:
  assumes "reg_ok alive st" "st_by_user st u = Some xs" "rs_ok ys" "\<And>s. alive s \<Longrightarrow> s \<in> set ys \<longleftrightarrow> s \<in> set xs"
  shows "reg_ok alive (st\<lparr>st_by_user := (st_by_user st)(u \<mapsto> ys)\<rparr>)"
  by (rule reg_ok_prune [OF assms(1)])
     (use assms in \<open>auto simp: reg_ok_def users_ok_def user_set_def\<close>, auto simp: named_def)

lemma by_user_ok: "reg_ok alive st \<Longrightarrow> st_by_user st u = Some xs \<Longrightarrow> rs_ok xs"
  unfolding reg_ok_def users_ok_def user_set_def named_def by (metis option.simps(5))

lemma user_sessions_ok: "reg_ok alive st \<Longrightarrow> reg_ok alive (snd (user_sessions u alive st))"
  by (auto simp: user_sessions_def intro!: reg_ok_filter_user dest: by_user_ok split: option.splits)

lemma penalties_frame [simp]:
  "reg_ok alive (ban_user t r u st) = reg_ok alive st" "reg_ok alive (unban_user u st) = reg_ok alive st"
  "reg_ok alive (mute_user t r u st) = reg_ok alive st"
  by (simp_all add: ban_user_def unban_user_def mute_user_def)

lemma moderate_one_ok: "reg_ok alive (snd acc) \<Longrightarrow> reg_ok alive (snd (moderate_one op now d r ds alive u acc))"
  by (simp add: moderate_one_def case_prod_beta user_sessions_ok)

lemma foldl_keeps: "(\<And>a x. P a \<Longrightarrow> P (f a x)) \<Longrightarrow> P a \<Longrightarrow> P (foldl f a xs)"
  by (induction xs arbitrary: a) auto

lemma moderate_all_ok [section_oks]: "section_ok (moderate_all op now d r ds us)"
  by (rule section_okI) (simp add: moderate_all_def foldl_keeps [where P = "\<lambda>a. reg_ok _ (snd a)"] moderate_one_ok)

lemma disconnect_targets_ok [section_oks]: "section_ok (disconnect_targets us)"
  by (rule section_okI)
     (simp add: disconnect_targets_def foldl_keeps [where P = "\<lambda>a. reg_ok _ (snd a)"] case_prod_beta user_sessions_ok)

lemma find_session_frame: "reg_ok alive (snd (find_session_by_id_locked i al st)) = reg_ok alive st"
  by (simp add: find_session_by_id_locked_def split: option.splits)

lemma sections_of_scripts [section_oks]:
  "section_ok (find_session_by_id_locked i)" "section_ok (lua_get_user_name i)" "section_ok (lua_get_user_room i)"
  "section_ok (lua_is_user_muted now u)" "section_ok (lua_is_user_banned now u)"
  by (rule section_okI, simp add: find_session_frame lua_is_user_muted_def lua_is_user_banned_def lua_get_user_name_def
        lua_get_user_room_def case_prod_beta split: option.splits prod.splits;
      metis find_session_frame snd_conv)+

section \<open>A session moves\<close>

text \<open>
  While a session moves, the tables agree for every other session; they agree for all again once the
  session has its place.
\<close>

abbreviation (input) others :: "(nat \<Rightarrow> bool) \<Rightarrow> nat \<Rightarrow> nat \<Rightarrow> bool" where
  "others alive s \<equiv> \<lambda>x. alive x \<and> x \<noteq> s"

lemma login_ok_place [simp]:
  "login_ok (st\<lparr>st_cur_room := n\<rparr>) s = login_ok st s" "login_ok (room_insert r x st) s = login_ok st s"
  "login_ok (put_room r xs st) s = login_ok st s" "login_ok (forget_room r st) s = login_ok st s"
  by (simp_all add: login_ok_def user_set_def)

lemma reg_ok_enter:
  assumes "reg_ok (others alive s) st" "alive s \<Longrightarrow> login_ok st s"
  shows "reg_ok alive (room_insert r s (st\<lparr>st_cur_room := (st_cur_room st)(s \<mapsto> r)\<rparr>))"
proof -
  have "place_ok (room_insert r s (st\<lparr>st_cur_room := (st_cur_room st)(s \<mapsto> r)\<rparr>)) x" if "alive x" for x
    using assms that by (auto simp: reg_ok_def place_ok_def)
  moreover have "login_ok st x" if "alive x" for x
    using assms that by (cases "x = s") (auto simp: reg_ok_def)
  ultimately show ?thesis
    using assms(1) by (simp add: reg_ok_def) (simp add: users_ok_def user_set_def)
qed

lemma to_lobby_ok: "reg_ok (others alive s) st \<Longrightarrow> (alive s \<Longrightarrow> login_ok st s) \<Longrightarrow> reg_ok alive (to_lobby s st)"
  unfolding to_lobby_def by (rule reg_ok_enter)

lemma to_lobby_stays: "reg_ok alive st \<Longrightarrow> reg_ok alive (to_lobby s st)"
  by (rule to_lobby_ok) (auto simp: reg_ok_def)

lemma reg_ok_forget:
  assumes "reg_ok alive st" "\<And>s. alive s \<Longrightarrow> st_cur_room st s \<noteq> Some r"
  shows "reg_ok alive (forget_room r st)"
  using assms by (auto simp: reg_ok_def place_ok_def)

lemma reg_ok_put_erase:
  assumes "reg_ok alive st" "map_of (st_rooms st) r = Some xs" "rs_ok ys"
    and "\<And>x. alive x \<Longrightarrow> x \<noteq> s \<Longrightarrow> x \<in> set ys \<longleftrightarrow> x \<in> set xs"
  shows "reg_ok (others alive s) (put_room r ys st)"
  by (rule reg_ok_put_filter [OF reg_ok_anti_mono [OF assms(1)]]) (use assms in auto)

lemma reg_ok_vacant:
  assumes "reg_ok alive st" "room_set st r = []"
  shows "reg_ok alive (forget_room r st)"
  by (rule reg_ok_forget [OF assms(1)]) (use assms in \<open>auto simp: reg_ok_def place_ok_def\<close>)

lemma hand_over_tables [simp]:
  "st_user (hand_over a r st) = st_user st" "st_cur_room (hand_over a r st) = st_cur_room st"
  "st_authed (hand_over a r st) = st_authed st" "st_guest (hand_over a r st) = st_guest st"
  "user_set (hand_over a r st) = user_set st" "login_ok (hand_over a r st) s = login_ok st s"
  by (simp_all add: hand_over_def Let_def login_ok_def user_set_def fun_eq_iff)

lemma leave_room_ok:
  assumes "reg_ok (others alive s) st" "map_of (st_rooms st) room = Some xs"
  shows "reg_ok (others alive s) (snd (leave_room alive s name room xs st))"
proof -
  have "rs_ok (filter alive (rs_erase s xs))" using rooms_ok_member [OF reg_ok_parts(1) [OF assms(1)] assms(2)] by simp
  with assms have put: "reg_ok (others alive s) (put_room room (filter alive (rs_erase s xs)) st)"
    by (intro reg_ok_put_filter) auto
  then show ?thesis
    by (auto simp: leave_room_def collect_room_sessions_def Let_def intro: reg_ok_vacant)
qed

lemma leave_room_tables [simp]:
  "st_user (snd (leave_room alive s name room xs st)) = st_user st"
  "st_cur_room (snd (leave_room alive s name room xs st)) = st_cur_room st"
  "login_ok (snd (leave_room alive s name room xs st)) x = login_ok st x"
  by (simp_all add: leave_room_def Let_def case_prod_beta)

lemma leave_previous_ok:
  assumes "reg_ok alive st"
  shows "reg_ok (others alive s) (leave_previous alive s sender room st)"
proof -
  have put: "reg_ok (others alive s) (put_room old (filter alive (rs_erase s xs)) st)"
    if "map_of (st_rooms st) old = Some xs" for old xs
    by (rule reg_ok_put_erase [OF assms that])
       (use rooms_ok_member [OF reg_ok_parts(1) [OF assms] that] in auto)
  have stay: "reg_ok (others alive s) st" using assms by (auto elim!: reg_ok_anti_mono)
  have gone: "reg_ok (others alive s) (forget_room old (put_room old (filter alive (rs_erase s xs)) st))"
    if "map_of (st_rooms st) old = Some xs" "filter alive (rs_erase s xs) = []" for old xs
    by (rule reg_ok_vacant [OF put [OF that(1)]]) (simp add: that(2))
  show ?thesis
    by (simp add: leave_previous_def Let_def stay put gone split: option.split) (use gone in force)
qed

lemma leave_previous_login [simp]: "login_ok (leave_previous alive s sender room st) x = login_ok st x"
  by (auto simp: leave_previous_def Let_def split: option.splits)

lemma use_invite_frame [simp]: "reg_ok alive (use_invite room sender st) = reg_ok alive st"
  by (simp add: use_invite_def Let_def split: option.splits)

lemma enter_room_ok:
  assumes "reg_ok (others alive s) st" "alive s \<Longrightarrow> login_ok st s"
  shows "reg_ok alive (enter_room s sender room invited st)"
  using reg_ok_enter [OF assms, of room] by (auto simp: enter_room_def Let_def)

lemma login_ok_password [simp]: "login_ok (st\<lparr>st_room_passwords := p\<rparr>) s = login_ok st s"
  by (simp add: login_ok_def user_set_def)

lemma cache_password_ok [simp]:
  "reg_ok alive (cache_password p room st) = reg_ok alive st" "login_ok (cache_password p room st) s = login_ok st s"
  by (simp_all add: cache_password_def split: option.splits)

lemma join_section_ok [section_oks]: "section_ok (join_section E admins s sender room provided rp)"
proof (rule section_okI)
  fix alive st assume ok: "reg_ok alive st"
  have enter: "reg_ok alive (snd (recipients room sender alive
      (enter_room s sender room invited (leave_previous alive s sender room st'))))"
    if "reg_ok alive st'" for invited st'
    unfolding snd_recipients using that
    by (intro room_targets_ok enter_room_ok leave_previous_ok) (simp_all add: reg_ok_def)
  show "reg_ok alive (snd (join_section E admins s sender room provided rp alive st))"
    using ok by (auto simp: join_section_def Let_def case_prod_beta enter split: sum.split option.split)
qed

section \<open>Login and close\<close>

text \<open>A change of the tables of names that concerns one session only.\<close>

lemma reg_ok_rename:
  assumes "reg_ok alive st" "rooms_ok st'" "users_ok st'" "st_cur_room st' = st_cur_room st"
    and "\<And>x. x \<noteq> s \<Longrightarrow> st_user st' x = st_user st x"
    and "\<And>x. x \<noteq> s \<Longrightarrow> x \<in> st_authed st' \<longleftrightarrow> x \<in> st_authed st" "\<And>x. x \<noteq> s \<Longrightarrow> x \<in> st_guest st' \<longleftrightarrow> x \<in> st_guest st"
    and "\<And>x r. x \<noteq> s \<Longrightarrow> x \<in> set (room_set st' r) \<longleftrightarrow> x \<in> set (room_set st r)"
    and "\<And>x u. x \<noteq> s \<Longrightarrow> x \<in> set (user_set st' u) \<longleftrightarrow> x \<in> set (user_set st u)"
  shows "reg_ok (others alive s) st'"
proof -
  have "login_ok st' x" "place_ok st' x" if "alive x" "x \<noteq> s" for x
    using assms(1) that by (auto simp: reg_ok_def login_ok_def place_ok_def assms)
  with assms(2,3) show ?thesis by (simp add: reg_ok_def)
qed

text \<open>The sets by name after the old name of a session lost it, and after the new one got it.\<close>

definition drop_name :: "nat \<Rightarrow> string option \<Rightarrow> (string \<rightharpoonup> RoomSet) \<Rightarrow> (string \<rightharpoonup> RoomSet)" where
  "drop_name s old m =
     (case old of None \<Rightarrow> m | Some n \<Rightarrow> (case m n of Some xs \<Rightarrow> m(n \<mapsto> rs_erase s xs) | None \<Rightarrow> m))"

lemma named_drop_name: "named (drop_name s old m) u = (if old = Some u then rs_erase s (named m u) else named m u)"
  by (auto simp: drop_name_def named_def rs_erase_def split: option.splits)

lemma register_login_eq:
  "snd (register_login s n g ip h alive st) =
   (let m = drop_name s (st_user st s) (st_by_user st);
        st1 = st\<lparr>st_user := (st_user st)(s \<mapsto> n), st_by_user := m(n \<mapsto> rs_insert s (named m n)),
                 st_authed := insert s (st_authed st), st_guest := (if g then insert s (st_guest st) else st_guest st - {s}),
                 st_session_ip := (st_session_ip st)(s \<mapsto> ip), st_session_hwid_hash := (st_session_hwid_hash st)(s \<mapsto> h),
                 st_user_last_ip := (if ip \<noteq> [] then (st_user_last_ip st)(n \<mapsto> ip) else st_user_last_ip st),
                 st_user_last_hwid_hash := (if h \<noteq> [] then (st_user_last_hwid_hash st)(n \<mapsto> h) else st_user_last_hwid_hash st)\<rparr>
    in room_insert ''lobby'' s (st1\<lparr>st_cur_room := (st_cur_room st1)(s \<mapsto> ''lobby'')\<rparr>))"
  by (simp add: register_login_def drop_name_def named_def Let_def)

lemma register_login_ok:
  assumes "reg_ok alive st" "n \<noteq> []"
  shows "reg_ok alive (snd (register_login s n g ip h alive st))"
proof -
  let ?m = "drop_name s (st_user st s) (st_by_user st)"
  let ?a = "insert s (st_authed st)" and ?g = "if g then insert s (st_guest st) else st_guest st - {s}"
  let ?st1 = "st\<lparr>st_user := (st_user st)(s \<mapsto> n), st_by_user := ?m(n \<mapsto> rs_insert s (named ?m n)),
                 st_authed := ?a, st_guest := ?g\<rparr>"
  have rs: "rs_ok (named ?m u)" for u
    using assms by (auto simp: reg_ok_def users_ok_def user_set_def named_drop_name)
  have "reg_ok (others alive s) ?st1"
  proof (rule reg_ok_rename [OF assms(1)])
    show "users_ok ?st1" using rs by (auto simp: users_ok_def user_set_def)
    show "x \<in> set (user_set ?st1 u) \<longleftrightarrow> x \<in> set (user_set st u)" if "x \<noteq> s" for x u
      using that by (auto simp: user_set_def named_drop_name)
  qed (use assms in \<open>auto simp: reg_ok_def\<close>)
  moreover have "login_ok ?st1 s" if "alive s"
    using assms that by (auto simp: reg_ok_def login_ok_def user_set_def named_drop_name)
  ultimately show ?thesis
    unfolding register_login_eq Let_def by (intro reg_ok_enter) (simp_all add: login_ok_def user_set_def)
qed

lemma register_login_section [section_oks]: "n \<noteq> [] \<Longrightarrow> section_ok (register_login s n g ip h)"
  by (rule section_okI) (rule register_login_ok)

text \<open>The state after the first half of \<open>close_section\<close>.\<close>

definition without_name :: "nat \<Rightarrow> u32 \<Rightarrow> ChatState \<Rightarrow> ChatState" where
  "without_name s i st =
     st\<lparr>st_by_session_id := (st_by_session_id st)(i := None),
        st_authed := st_authed st - {s}, st_guest := st_guest st - {s},
        st_by_user := drop_name s (if user_or_guest st s = [] then None else Some (user_or_guest st s)) (st_by_user st),
        st_user := (st_user st)(s := None), st_session_uuid := (st_session_uuid st)(s := None),
        st_session_ip := (st_session_ip st)(s := None), st_session_hwid_hash := (st_session_hwid_hash st)(s := None)\<rparr>"

lemma close_section_eq:
  "snd (close_section s i alive st) =
   (case st_cur_room st s of
      None \<Rightarrow> without_name s i st
    | Some room \<Rightarrow>
        let st1 = without_name s i st;
            st2 = (case map_of (st_rooms st1) room of
                     None \<Rightarrow> st1 | Some xs \<Rightarrow> snd (leave_room alive s (user_or_guest st s) room xs st1))
        in st2\<lparr>st_cur_room := (st_cur_room st2)(s := None)\<rparr>)"
  by (simp add: close_section_def without_name_def drop_name_def Let_def case_prod_beta split: option.split)

lemma without_name_ok:
  assumes "reg_ok alive st"
  shows "reg_ok (others alive s) (without_name s i st)" and "alive s \<Longrightarrow> login_ok (without_name s i st) s"
proof -
  have rs: "rs_ok (named (st_by_user st) u)" for u
    using assms by (simp add: reg_ok_def users_ok_def user_set_def)
  show "reg_ok (others alive s) (without_name s i st)"
    by (rule reg_ok_rename [OF assms])
       (use assms rs in \<open>auto simp: without_name_def reg_ok_def users_ok_def user_set_def named_drop_name rooms_ok_def room_set_def\<close>)
  show "login_ok (without_name s i st) s" if "alive s"
    using assms that
    by (auto simp: without_name_def reg_ok_def login_ok_def user_set_def named_drop_name user_or_guest_def split: option.splits)
qed

lemma reg_ok_placeless:
  assumes "reg_ok (others alive s) st" "alive s \<Longrightarrow> login_ok st s" "s \<notin> st_authed st"
  shows "reg_ok alive (st\<lparr>st_cur_room := (st_cur_room st)(s := None)\<rparr>)"
proof -
  have "login_ok st x" "place_ok (st\<lparr>st_cur_room := (st_cur_room st)(s := None)\<rparr>) x" if "alive x" for x
    using assms that by (cases "x = s"; auto simp: reg_ok_def place_ok_def)+
  with assms(1) show ?thesis by (simp add: reg_ok_def) (simp add: users_ok_def user_set_def)
qed

lemma leave_room_authed [simp]: "st_authed (snd (leave_room alive s name room xs st)) = st_authed st"
  by (simp add: leave_room_def Let_def case_prod_beta)

lemma close_section_ok [section_oks]: "section_ok (close_section s i)"
proof (rule section_okI)
  fix alive st assume ok: "reg_ok alive st"
  let ?st1 = "without_name s i st"
  note st1 = without_name_ok [OF ok, of s i]
  have out: "s \<notin> st_authed ?st1" "st_cur_room ?st1 = st_cur_room st" by (simp_all add: without_name_def)
  show "reg_ok alive (snd (close_section s i alive st))"
  proof (cases "st_cur_room st s")
    case None
    then have "(st_cur_room ?st1)(s := None) = st_cur_room ?st1" by (simp add: out fun_upd_idem)
    with reg_ok_placeless [OF st1 out(1)] None show ?thesis by (simp add: close_section_eq)
  next
    case (Some room)
    show ?thesis
    proof (cases "map_of (st_rooms ?st1) room")
      case None
      with reg_ok_placeless [OF st1 out(1)] Some show ?thesis by (simp add: close_section_eq Let_def)
    next
      case (Some xs)
      have "reg_ok alive ((snd (leave_room alive s n room xs ?st1))
              \<lparr>st_cur_room := (st_cur_room (snd (leave_room alive s n room xs ?st1)))(s := None)\<rparr>)" for n
        by (rule reg_ok_placeless) (use st1 out leave_room_ok [OF st1(1) Some] in auto)
      with Some \<open>st_cur_room st s = _\<close> show ?thesis by (simp add: close_section_eq Let_def)
    qed
  qed
qed

lemma check_bans_ok [section_oks]: "section_ok (check_bans now u ip h)"
  by (rule section_okI)
     (simp add: check_bans_def check_user_ban_def check_ip_ban_def check_device_ban_def case_prod_beta split: option.split)

lemma sections_of_ids [section_oks]:
  "section_ok (cache_room_id r i)" "section_ok (set_user_uuid s i)" "section_ok (forget_room_records r)"
  by (auto intro!: section_okI simp: cache_room_id_def set_user_uuid_def forget_room_records_def)

section \<open>Commands and messages\<close>

lemma sections_of_whispers [section_oks]:
  "section_ok (whisper_section s u t)" "section_ok (remote_whisper_section u t)"
  by (auto intro!: section_okI simp: whisper_section_def remote_whisper_section_def Let_def case_prod_beta user_sessions_ok)

lemma invite_section_ok [section_oks]: "section_ok (invite_section admins s u r)"
  by (rule section_okI) (simp add: invite_section_def)

lemma reg_ok_step_out:
  assumes "reg_ok alive st"
  shows "reg_ok (others alive p) (case map_of (st_rooms st) r of None \<Rightarrow> st | Some xs \<Rightarrow> put_room r (rs_erase p xs) st)"
proof (cases "map_of (st_rooms st) r")
  case (Some xs)
  with reg_ok_put_erase [OF assms Some, of "rs_erase p xs" p] rooms_ok_member [OF reg_ok_parts(1) [OF assms] Some]
  show ?thesis by simp
qed (use assms in \<open>auto elim!: reg_ok_anti_mono\<close>)

lemma kick_one_ok:
  assumes "reg_ok alive (snd acc)"
  shows "reg_ok alive (snd (kick_one room p acc))"
proof -
  let ?st = "case map_of (st_rooms (snd acc)) room of None \<Rightarrow> snd acc | Some xs \<Rightarrow> put_room room (rs_erase p xs) (snd acc)"
  have "login_ok ?st p" if "alive p" using assms that by (simp add: reg_ok_def split: option.split)
  then have "reg_ok alive (to_lobby p ?st)" by (rule to_lobby_ok [OF reg_ok_step_out [OF assms]])
  with assms show ?thesis by (simp add: kick_one_def case_prod_beta)
qed

lemma kick_section_ok [section_oks]: "section_ok (kick_section admins s u room)"
proof (rule section_okI)
  fix alive st assume ok: "reg_ok alive st"
  have "reg_ok alive (snd (foldl (\<lambda>acc p. kick_one room p acc) ([], snd (user_sessions u alive st)) ps))" for ps
    by (rule foldl_keeps [where P = "\<lambda>a. reg_ok alive (snd a)"]) (simp_all add: kick_one_ok user_sessions_ok ok)
  then show "reg_ok alive (snd (kick_section admins s u room alive st))"
    using ok by (auto simp: kick_section_def Let_def case_prod_beta intro: reg_ok_vacant split: option.split)
qed

lemma cur_room_to_lobby [simp]: "st_cur_room (to_lobby p st) = (st_cur_room st)(p \<mapsto> ''lobby'')"
  by (simp add: to_lobby_def)

lemma cur_room_all_to_lobby:
  "st_cur_room (foldl (\<lambda>st p. to_lobby p st) st ps) x = (if x \<in> set ps then Some ''lobby'' else st_cur_room st x)"
  by (induction ps arbitrary: st) auto

lemma remove_room_section_ok [section_oks]:
  assumes "room \<noteq> ''lobby''"
  shows "section_ok (remove_room_section admins s room)"
proof (rule section_okI)
  fix alive st assume ok: "reg_ok alive st"
  let ?moved = "filter alive (room_set st room)"
  let ?st = "foldl (\<lambda>st p. to_lobby p st) st ?moved"
  have "reg_ok alive ?st" by (rule foldl_keeps [where P = "reg_ok alive"]) (simp_all add: to_lobby_stays ok)
  moreover have "st_cur_room ?st x \<noteq> Some room" if "alive x" for x
    using that ok assms by (auto simp: cur_room_all_to_lobby reg_ok_def place_ok_def)
  ultimately have "reg_ok alive (forget_room room ?st)" by (rule reg_ok_forget)
  with ok show "reg_ok alive (snd (remove_room_section admins s room alive st))"
    by (simp add: remove_room_section_def Let_def)
qed

lemma sections_of_blacklists [section_oks]: "section_ok (block_user a u)" "section_ok (unblock_user a u)"
  by (auto intro!: section_okI simp: block_user_def unblock_user_def Let_def split: option.split)

lemma spam_check_ok: "reg_ok alive st \<Longrightarrow> reg_ok alive (snd (spam_check cfg now u alive st))"
  by (simp add: spam_check_def Let_def case_prod_beta user_sessions_ok)

lemma moderate_message_ok [section_oks]: "section_ok (moderate_message cfg now s)"
  by (rule section_okI)
     (simp add: moderate_message_def active_penalty_def Let_def case_prod_beta spam_check_ok split: option.split)

text \<open>The sections written out in the commands of administrators.\<close>

lemma section_ok_unchanged [section_oks]: "section_ok (\<lambda>alive st. (r alive st, st))"
  by (simp add: section_ok_def)

lemma section_ok_if [section_oks]:
  "section_ok f \<Longrightarrow> section_ok g \<Longrightarrow> section_ok (\<lambda>alive st. if b st then f alive st else g alive st)"
  by (simp add: section_ok_def)

lemma sections_of_penalties [section_oks]:
  "section_ok (\<lambda>alive st. (r alive st, mute_user t w u st))" "section_ok (\<lambda>alive st. (r alive st, unban_user u st))"
  "section_ok (\<lambda>alive st. (r alive st, st\<lparr>st_muted_users := m st\<rparr>))"
  "section_ok (\<lambda>alive st. map_prod f id (user_sessions u alive (ban_user t w u st)))"
  "section_ok (\<lambda>alive st. map_prod f id (user_sessions u alive st))"
  by (simp_all add: section_ok_def user_sessions_ok)

end
