(* ===== verification/Chat_Invariant.thy ===== *)
theory Chat_Invariant
  imports Chat_Config Chat_Tables
begin

text \<open>
  Every job of the chat service keeps the tables in agreement and the settings in their ranges, action by
  action, so both hold under every interleaving of the threads of the server.
\<close>

named_theorems action_oks "atomic actions that keep the invariant"
named_theorems job_oks "jobs that keep the invariant"

definition chat_inv :: "'w ChatService \<Rightarrow> bool" where
  "chat_inv c \<longleftrightarrow> reg_ok (live c) (cs_state c) \<and> settings_ok c"

lemma keeps_sum [keeps_intros]:
  "(\<And>y. x = Inl y \<Longrightarrow> job_keeps Q (j y)) \<Longrightarrow> (\<And>y. x = Inr y \<Longrightarrow> job_keeps Q (k y)) \<Longrightarrow>
   job_keeps Q (case x of Inl y \<Rightarrow> j y | Inr y \<Rightarrow> k y)"
  by (cases x) auto

section \<open>What hooks and messages cannot change\<close>

text \<open>
  The contract of a fact about the service that is not touched by messages to sessions, external
  calls, the job queue, the metrics, the Lua runtime and its counters, and the plugins.
\<close>

locale bystander =
  fixes P :: "'w ChatService \<Rightarrow> bool"
  assumes P_frame [simp]:
    "P (c\<lparr>cs_world := w\<rparr>) = P c" "P (c\<lparr>cs_out := out\<rparr>) = P c" "P (c\<lparr>cs_queue := q\<rparr>) = P c" "P (c\<lparr>cs_metrics := m\<rparr>) = P c"
    "P (c\<lparr>cs_lua_runtime := u\<rparr>) = P c" "P (c\<lparr>cs_lua_hooks := h\<rparr>) = P c"
    "P (c\<lparr>cs_plugin_hook_metrics := pm\<rparr>) = P c" "P (c\<lparr>cs_hook_plugin := ps\<rparr>) = P c" "P (c\<lparr>cs_deadlocked := d\<rparr>) = P c"
begin

lemma P_actions [simp]:
  "P (snd (reading f c)) = P c" "P (snd (asking g c)) = P c" "P (snd (outside x c)) = P c" "P (snd (emit e c)) = P c"
  "P (snd (metric k c)) = P c" "P (snd (try_push t c)) = P c"
  "P (snd (lua_update l c)) = P c" "P (snd (hooks_section b c)) = P c"
  "P (snd (record_plugin_hook_metric pn hn err dur c)) = P c"
  by (simp_all add: reading_def asking_def outside_def emit_def metric_def try_push_def lua_update_def hooks_section_def
      record_plugin_hook_metric_def Let_def case_prod_beta)

lemma quietly_keeps [job_oks]: "job_keeps P (quietly f)"
  unfolding quietly_def by (intro keeps_intros) simp

lemma sends_keep [job_oks]:
  "job_keeps P (send_frame s i b fl)" "job_keeps P (send_error s code msg)" "job_keeps P (stop_session s)"
  unfolding send_frame_def send_error_def stop_session_def by (intro keeps_intros; simp)+

lemma clock_keeps [keeps_intros]: "(\<And>t. job_keeps P (k t)) \<Longrightarrow> job_keeps P (clock_ms E k)"
  unfolding clock_ms_def by (intro keeps_intros) simp_all

lemma user_uuid_of_keeps [keeps_intros]: "(\<And>u. job_keeps P (k u)) \<Longrightarrow> job_keeps P (user_uuid_of s k)"
  unfolding user_uuid_of_def by (intro keeps_intros) simp_all

lemma redis_do_keeps [job_oks]: "job_keeps P (redis_do E f)"
  unfolding redis_do_def by (intro keeps_intros job_oks)

lemma send_system_notice_keeps [job_oks]: "job_keeps P (send_system_notice E s t)"
  unfolding send_system_notice_def by (intro keeps_intros job_oks)

lemma send_all_keeps [job_oks]: "job_keeps P (send_all ts i b)"
  unfolding send_all_def by (intro keeps_intros job_oks)

lemma send_notices_keeps [job_oks]: "job_keeps P (send_notices E s ns)"
  unfolding send_notices_def by (intro keeps_intros job_oks)

lemma send_whisper_result_keeps [job_oks]: "job_keeps P (send_whisper_result s ok r)"
  unfolding send_whisper_result_def by (intro keeps_intros job_oks)

lemma touch_user_presence_keeps [job_oks]: "job_keeps P (touch_user_presence E u)"
  unfolding touch_user_presence_def by (intro keeps_intros job_oks; simp)

lemma emit_write_behind_event_keeps [job_oks]: "job_keeps P (emit_write_behind_event E ty i u r x)"
  unfolding emit_write_behind_event_def by (intro keeps_intros job_oks; simp)

lemma apply_user_moderation_keeps [job_oks]: "job_keeps P (apply_user_moderation_without_hook op us d r)"
  unfolding apply_user_moderation_without_hook_def by (intro keeps_intros; simp)

lemma broadcast_notice_keeps [job_oks]: "job_keeps P (broadcast_notice_to_all_sessions n)"
  unfolding broadcast_notice_to_all_sessions_def by (intro keeps_intros; simp)

lemma timed_call_keeps [keeps_intros]: "(\<And>r. job_keeps P (k r)) \<Longrightarrow> job_keeps P (timed_call E hook p call k)"
  unfolding timed_call_def by (intro keeps_intros; simp)

lemma gate_chain_keeps [job_oks]: "job_keeps P (gate_chain E hook call out ps)"
  by (induction ps arbitrary: out) (auto simp: Let_def intro!: keeps_intros split: HookDecisionV2.split)

lemma chat_send_chain_keeps [job_oks]: "job_keeps P (chat_send_chain E i r u ns t ps)"
  by (induction ps arbitrary: ns t) (auto simp: Let_def intro!: keeps_intros split: HookDecisionV2.split)

lemma admin_chain_keeps [job_oks]: "job_keeps P (admin_chain E cmd iss pl out ps)"
  by (induction ps arbitrary: out) (auto simp: Let_def intro!: keeps_intros split: HookDecisionV2.split)

lemma execute_script_keeps:
  "(\<And>ctx run. job_keeps P (runner ctx run)) \<Longrightarrow> job_keeps P (execute_script E runner t p n f ctx)"
  unfolding execute_script_def by (intro keeps_intros; simp)

lemma call_scripts_keeps:
  assumes "\<And>ctx run. job_keeps P (runner ctx run)"
  shows "job_keeps P (call_scripts E runner f ctx acc peak scripts)"
proof (induction scripts arbitrary: acc peak)
  case (Cons sc scripts)
  obtain n pth where "sc = (n, pth)" by (cases sc)
  with Cons show ?case by (simp, intro keeps_intros execute_script_keeps assms; simp)
qed (simp add: keeps_intros)

lemma call_all_keeps:
  "(\<And>ctx run. job_keeps P (runner ctx run)) \<Longrightarrow> job_keeps P (call_all E runner f ctx)"
  unfolding call_all_def by (intro keeps_intros call_scripts_keeps; simp)

lemma invoke_lua_cold_hook_keeps:
  "(\<And>ctx run. job_keeps P (runner ctx run)) \<Longrightarrow> job_keeps P (invoke_lua_cold_hook E runner hook ctx)"
  unfolding invoke_lua_cold_hook_def by (intro keeps_intros call_all_keeps; simp)

lemma gate_hook_keeps:
  assumes "\<And>ctx run. job_keeps P (runner ctx run)" "\<And>i ps. job_keeps P (chain i ps)"
  shows "job_keeps P (gate_hook E runner s hook ctx chain what)"
  unfolding gate_hook_def lua_stage_def Let_def
  by (intro keeps_intros job_oks invoke_lua_cold_hook_keeps; simp add: assms)

end

section \<open>Two facts about the service\<close>

text \<open>The invariant, and that the tables are these and the sessions those.\<close>

definition frozen :: "ChatState \<Rightarrow> (nat \<rightharpoonup> ChatSession) \<Rightarrow> 'w ChatService \<Rightarrow> bool" where
  "frozen st ss c \<longleftrightarrow> cs_state c = st \<and> cs_sessions c = ss"

interpretation inv: bystander chat_inv
  by unfold_locales (simp_all add: chat_inv_def settings_ok_def live_def [abs_def])

interpretation frz: bystander "frozen st ss" for st ss
  by unfold_locales (simp_all add: frozen_def)

section \<open>Atomic actions\<close>

lemma locked_inv: "section_ok f \<Longrightarrow> chat_inv c \<Longrightarrow> chat_inv (snd (locked f c))"
  by (simp add: chat_inv_def locked_def section_ok_def settings_ok_def live_def [abs_def])

lemma get_or_create_session_uuid_inv [simp]: "chat_inv (snd (get_or_create_session_uuid E s c)) = chat_inv c"
  by (auto simp: get_or_create_session_uuid_def Let_def case_prod_beta chat_inv_def settings_ok_def live_def [abs_def]
      split: option.split)

lemma register_session_inv [simp]: "chat_inv (snd (register_session s c)) = chat_inv c"
  by (simp add: register_session_def Let_def chat_inv_def settings_ok_def live_def [abs_def])

section \<open>Helpers\<close>

lemma broadcasts_keep [job_oks]:
  "job_keeps chat_inv (broadcast_room E r b)" "job_keeps chat_inv (broadcast_refresh_local r)"
  unfolding broadcast_room_def broadcast_refresh_local_def Let_def
  by (intro keeps_intros job_oks; simp add: locked_inv section_oks)+

lemma broadcast_refresh_keeps [job_oks]: "job_keeps chat_inv (broadcast_refresh E r)"
  unfolding broadcast_refresh_def by (intro keeps_intros job_oks; simp)

lemma ensure_room_id_ci_keeps [job_oks]: "job_keeps chat_inv (ensure_room_id_ci E r)"
  unfolding ensure_room_id_ci_def Let_def by (intro keeps_intros job_oks; simp add: locked_inv section_oks)

section \<open>Snapshots\<close>

lemma cache_recent_message_keeps [job_oks]: "job_keeps chat_inv (cache_recent_message E r m)"
  unfolding cache_recent_message_def by (intro keeps_intros job_oks; simp)

lemma load_each_keeps [job_oks]: "job_keeps chat_inv (load_each r is)"
  by (induction "is") (auto intro!: keeps_intros)

lemma load_recent_keeps [job_oks]: "job_keeps chat_inv (load_recent_messages_from_cache E r)"
  unfolding load_recent_messages_from_cache_def Let_def by (intro keeps_intros job_oks; simp)

lemma count_users_keeps [keeps_intros]: "(\<And>n. job_keeps chat_inv (k n)) \<Longrightarrow> job_keeps chat_inv (count_users r key k)"
  unfolding count_users_def by (intro keeps_intros) simp_all

lemma room_infos_keeps [job_oks]: "job_keeps chat_inv (room_infos r ps ns i names)"
proof (induction names arbitrary: i)
  case (Cons a names)
  then show ?case by (simp add: Let_def) (intro keeps_intros; simp)
qed (simp add: keeps_intros)

lemma redis_batch_keeps [keeps_intros]: "(\<And>x. job_keeps chat_inv (k x)) \<Longrightarrow> job_keeps chat_inv (redis_batch keys f k)"
  unfolding redis_batch_def by (intro keeps_intros) simp_all

lemma load_redis_rooms_keeps [job_oks]: "job_keeps chat_inv (load_redis_rooms E)"
  unfolding load_redis_rooms_def by (intro keeps_intros job_oks; simp)

lemma send_rooms_list_keeps [job_oks]: "job_keeps chat_inv (send_rooms_list E s)"
  unfolding send_rooms_list_def by (intro keeps_intros job_oks; simp add: locked_inv section_oks)

lemma send_room_users_keeps [job_oks]: "job_keeps chat_inv (send_room_users E s r)"
  unfolding send_room_users_def Let_def by (intro keeps_intros job_oks; simp add: locked_inv section_oks)

lemma load_history_keeps [job_oks]: "job_keeps chat_inv (load_history E s rid hit cached shown)"
  unfolding load_history_def Let_def by (intro keeps_intros job_oks; simp)

lemma snapshot_parts_keep [job_oks]: "job_keeps chat_inv (snapshot_users E r b)" "job_keeps chat_inv (snapshot_room_id E r)"
  unfolding snapshot_users_def snapshot_room_id_def Let_def by (intro keeps_intros job_oks; simp add: locked_inv section_oks)+

lemma send_snapshot_keeps [job_oks]: "job_keeps chat_inv (send_snapshot E s r)"
  unfolding send_snapshot_def Let_def by (intro keeps_intros job_oks; simp add: locked_inv section_oks)

lemma handle_refresh_keeps [job_oks]: "job_keeps chat_inv (handle_refresh E s)"
  unfolding handle_refresh_def by (intro keeps_intros job_oks; simp)

end
