(* ===== verification/Chat_Agreement.thy ===== *)
theory Chat_Agreement
  imports Chat_Invariant
begin

text \<open>
  The jobs of the chat service and the events that start them keep the invariant: the theory ends with the
  interpretation of the pool of threads on the chat server.
\<close>

section \<open>Moderation and settings\<close>

lemma moderation_keeps [job_oks]:
  "job_keeps chat_inv (disconnect_session E n s)" "job_keeps chat_inv (disconnect_job E us n)" "job_keeps chat_inv (notice_job E n)"
  unfolding disconnect_session_def disconnect_job_def notice_job_def
  by (intro keeps_intros job_oks; simp add: locked_inv section_oks)+

lemma moderation_job_keeps [job_oks]: "job_keeps chat_inv (moderation_job E op us d r)"
  unfolding moderation_job_def by (intro keeps_intros job_oks; simp add: locked_inv section_oks)

text \<open>What a setting is checked against, and that storing it within that range keeps the ranges.\<close>

definition setting_in_range :: "RuntimeSettingKey \<Rightarrow> u32 \<Rightarrow> bool" where
  "setting_in_range key v \<longleftrightarrow>
     (\<exists>rule \<in> set kRuntimeSettingRules. rr_key_id rule = key \<and> rr_min_value rule \<le> v \<and> v \<le> rr_max_value rule)"

lemma check_setting_range:
  assumes "fst (check_setting k raw c) = Some (key, v)"
  shows "setting_in_range key v"
proof -
  obtain rule where "rule \<in> set kRuntimeSettingRules" "rr_key_id rule = key" "rr_min_value rule \<le> v" "v \<le> rr_max_value rule"
    using assms
    by (auto simp: check_setting_def find_runtime_setting_rule_def Let_def not_less find_Some_iff
        split: prod.splits option.splits if_splits dest!: nth_mem)
  then show ?thesis by (auto simp: setting_in_range_def)
qed

lemma check_setting_inv [simp]: "chat_inv (snd (check_setting k raw c)) = chat_inv c"
  by (simp add: check_setting_def Let_def split: prod.split option.split)

lemma store_setting_inv:
  assumes "setting_in_range key v" "chat_inv c"
  shows "chat_inv (snd (store_setting key v c))"
proof -
  have "5 \<le> unat v \<and> unat v \<le> n" if "5 \<le> v" "v \<le> of_nat n" "n \<le> 5000" for n
    using that by (simp add: word_le_nat_alt unat_of_nat take_bit_nat_eq_self)
  moreover have "3 \<le> unat v \<and> unat v \<le> 100" if "3 \<le> v" "v \<le> 100"
    using that by (simp add: word_le_nat_alt)
  moreover have "1 \<le> v" if "5 \<le> v" using that by (simp add: word_le_nat_alt)
  ultimately show ?thesis
    using assms
    by (cases key)
       (auto simp: setting_in_range_def kRuntimeSettingRules_def setting_rule_def store_setting_def chat_inv_def settings_ok_def
         live_def [abs_def] word_le_nat_alt)
qed

lemma raise_list_len_inv [simp]: "chat_inv c \<Longrightarrow> chat_inv (snd (raise_list_len c))"
  by (simp add: raise_list_len_def Let_def chat_inv_def settings_ok_def live_def [abs_def])

lemma setting_done_keeps [job_oks]: "job_keeps chat_inv (setting_done E ok t)"
  unfolding setting_done_def by (intro keeps_intros; simp)

lemma setting_job_keeps [job_oks]: "job_keeps chat_inv (setting_job E k raw t)"
  unfolding setting_job_def
  by (intro keeps_intros job_oks; simp add: store_setting_inv check_setting_range)

section \<open>Host functions and hooks\<close>

lemma host_calls_keep [job_oks]:
  "job_keeps chat_inv (lua_send_notice E i t)" "job_keeps chat_inv (lua_broadcast_room E r t)"
  "job_keeps chat_inv (lua_broadcast_all t)" "job_keeps chat_inv (lua_kick_user E i t)"
  "job_keeps chat_inv (lua_mute_user u d t)" "job_keeps chat_inv (lua_ban_user u d t)"
  "job_keeps chat_inv (done_or_error w ok)"
  unfolding lua_send_notice_def lua_broadcast_room_def lua_broadcast_all_def lua_kick_user_def lua_mute_user_def lua_ban_user_def
    done_or_error_def
  by (intro keeps_intros job_oks; simp add: locked_inv section_oks)+

lemma get_args_keep:
  "(\<And>v. job_keeps Q (k v)) \<Longrightarrow> job_keeps Q (get_u32_arg args i n k)"
  "(\<And>t. job_keeps Q (l t)) \<Longrightarrow> job_keeps Q (get_string_arg args i n l)"
  unfolding get_u32_arg_def get_string_arg_def by (auto intro!: keeps_intros split: HostValue.split)

lemma chat_lua_host_keeps [job_oks]: "job_keeps chat_inv (chat_lua_host E ctx n args)"
  unfolding chat_lua_host_def by (intro keeps_intros get_args_keep job_oks; simp add: locked_inv section_oks)

lemma script_job_keeps [job_oks]: "job_keeps chat_inv (script_job E ctx run)"
  by (induction run) (auto intro!: keeps_intros job_oks)

lemma script_under_mutex_inv: "chat_inv c \<Longrightarrow> chat_inv (snd (script_under_mutex E ctx run c))"
proof (induction run arbitrary: c)
  case (HostCall n args k)
  have "chat_inv (snd (run_job (chat_lua_host E ctx n args) c))"
    by (rule run_job_keeps [OF chat_lua_host_keeps HostCall.prems])
  with HostCall show ?case by (simp add: case_prod_beta)
qed simp

lemma runners_keep [job_oks]: "job_keeps chat_inv (run_freely E ctx run)" "job_keeps chat_inv (run_locked E ctx run)"
  unfolding run_freely_def run_locked_def by (intro keeps_intros job_oks; simp add: script_under_mutex_inv)+

lemma chains_keep [job_oks]:
  "job_keeps chat_inv (chain_on_login E i u ps)" "job_keeps chat_inv (chain_on_join E i u r ps)"
  "job_keeps chat_inv (chain_on_leave E i u r ps)" "job_keeps chat_inv (chain_on_session_event E i kd u rs ps)"
  unfolding chain_on_login_def chain_on_join_def chain_on_leave_def chain_on_session_event_def by (intro job_oks)+

lemma hooks_keep [job_oks]:
  "job_keeps chat_inv (maybe_handle_login_hook E s u)" "job_keeps chat_inv (maybe_handle_join_hook E s u r)"
  "job_keeps chat_inv (maybe_handle_leave_hook E s u r)"
  unfolding maybe_handle_login_hook_def maybe_handle_join_hook_def maybe_handle_leave_hook_def
  by (intro inv.gate_hook_keeps job_oks)+

lemma other_hooks_keep [job_oks]:
  "job_keeps chat_inv (maybe_handle_chat_hook_plugin E s r u t)" "job_keeps chat_inv (notify_session_event_hook E i kd u rs)"
  "job_keeps chat_inv (maybe_handle_admin_command_hook E cmd iss pl a)"
  unfolding maybe_handle_chat_hook_plugin_def notify_session_event_hook_def maybe_handle_admin_command_hook_def Let_def
  by (intro keeps_intros job_oks inv.invoke_lua_cold_hook_keeps; simp)+

text \<open>A hook that runs while the mutex is held changes no table.\<close>

lemma host_takes_mutex_at:
  "host_takes_mutex ''server.get_user_name'' args = has_u32_arg args 0"
  "host_takes_mutex ''server.get_user_room'' args = has_u32_arg args 0"
  "host_takes_mutex ''server.get_room_users'' args = has_text_arg args 0"
  "host_takes_mutex ''server.get_room_owner'' args = has_text_arg args 0"
  "host_takes_mutex ''server.is_user_muted'' args = has_text_arg args 0"
  "host_takes_mutex ''server.is_user_banned'' args = has_text_arg args 0"
  "host_takes_mutex ''server.get_room_list'' args" "host_takes_mutex ''server.get_online_count'' args"
  "host_takes_mutex ''server.get_room_count'' args"
  "host_takes_mutex ''server.send_notice'' args = (has_u32_arg args 0 \<and> args ! 0 \<noteq> HvInt 0 \<and> has_text_arg args 1)"
  "host_takes_mutex ''server.broadcast_room'' args = (has_text_arg args 0 \<and> has_text_arg args 1)"
  "host_takes_mutex ''server.kick_user'' args = (has_u32_arg args 0 \<and> args ! 0 \<noteq> HvInt 0 \<and> has_string_arg args 1)"
  by (simp_all add: host_takes_mutex_def)

lemma get_u32_arg_keeps:
  "(\<And>v. has_u32_arg args i \<Longrightarrow> args ! i = HvInt v \<Longrightarrow> 0 \<le> v \<Longrightarrow> v \<le> 0xFFFFFFFF \<Longrightarrow> job_keeps Q (k (of_int v))) \<Longrightarrow>
   job_keeps Q (get_u32_arg args i n k)"
  by (auto simp: get_u32_arg_def has_u32_arg_def not_less intro!: keeps_intros split: HostValue.split)

lemma get_string_arg_keeps:
  "(\<And>t. has_string_arg args i \<Longrightarrow> t = [] \<or> has_text_arg args i \<Longrightarrow> job_keeps Q (k t)) \<Longrightarrow>
   job_keeps Q (get_string_arg args i n k)"
  by (auto simp: get_string_arg_def has_string_arg_def has_text_arg_def intro!: keeps_intros split: HostValue.split)

lemma frozen_unlocked [simp]:
  "frozen st ss (snd (locked (\<lambda>al s. (f al s, s)) c)) = frozen st ss c"
  by (simp add: frozen_def locked_def)

lemma empty_queries_frozen:
  "frozen st ss (snd (locked (lua_get_room_users []) c)) = frozen st ss c"
  "frozen st ss (snd (locked (lua_is_user_muted now []) c)) = frozen st ss c"
  "frozen st ss (snd (locked (lua_is_user_banned now []) c)) = frozen st ss c"
  by (simp_all add: frozen_def locked_def lua_get_room_users_def lua_is_user_muted_def lua_is_user_banned_def)

lemma refused_host_calls [simp]:
  "lua_send_notice E 0 t = Return False" "lua_send_notice E i [] = Return False" "lua_kick_user E 0 t = Return False"
  "lua_broadcast_room E [] t = Return False" "lua_broadcast_room E r [] = Return False"
  by (simp_all add: lua_send_notice_def lua_kick_user_def lua_broadcast_room_def)

lemma queued_host_calls_frozen:
  "job_keeps (frozen st ss) (lua_broadcast_all t)" "job_keeps (frozen st ss) (lua_mute_user u d t)"
  "job_keeps (frozen st ss) (lua_ban_user u d t)" "job_keeps (frozen st ss) (done_or_error w ok)"
  unfolding lua_broadcast_all_def lua_mute_user_def lua_ban_user_def done_or_error_def by (intro keeps_intros job_oks)+

lemma host_frozen:
  assumes "\<not> host_takes_mutex n args"
  shows "job_keeps (frozen st ss) (chat_lua_host E ctx n args)"
  unfolding chat_lua_host_def
  apply (intro keeps_if)
  apply (use assms in \<open>simp_all only: host_takes_mutex_at not_True_eq_False\<close>)
  apply (intro get_u32_arg_keeps get_string_arg_keeps keeps_bind queued_host_calls_frozen keeps_act keeps_Return; (auto simp: empty_queries_frozen keeps_Return)?)+
  done

lemma script_under_mutex_frozen: "frozen st ss c \<Longrightarrow> frozen st ss (snd (script_under_mutex E ctx run c))"
proof (induction run arbitrary: c)
  case (HostCall n args k)
  have "frozen st ss (snd (run_job (chat_lua_host E ctx n args) c))" if "\<not> host_takes_mutex n args"
    by (rule run_job_keeps [OF host_frozen [OF that] HostCall.prems])
  with HostCall show ?case by (simp add: case_prod_beta)
qed simp

lemma run_locked_frozen: "job_keeps (frozen st ss) (run_locked E ctx run)"
  unfolding run_locked_def by (intro keeps_intros; simp add: script_under_mutex_frozen)

lemma hooks_under_mutex_frozen:
  "job_keeps (frozen st ss) (maybe_handle_join_hook E s u r)" "job_keeps (frozen st ss) (maybe_handle_leave_hook E s u r)"
  unfolding maybe_handle_join_hook_def maybe_handle_leave_hook_def chain_on_join_def chain_on_leave_def
  by (intro frz.gate_hook_keeps run_locked_frozen job_oks)+

lemma leave_hook_frozen:
  "cs_state (snd (run_job (maybe_handle_leave_hook E s u r) c)) = cs_state c"
  "cs_sessions (snd (run_job (maybe_handle_leave_hook E s u r) c)) = cs_sessions c"
  using run_job_keeps [OF hooks_under_mutex_frozen(2) [of "cs_state c" "cs_sessions c" E s u r], of c] by (simp_all add: frozen_def)

section \<open>Sessions and rooms\<close>

lemma chat_inv_set_state: "chat_inv c \<Longrightarrow> reg_ok (live c) st \<Longrightarrow> chat_inv (c\<lparr>cs_state := st\<rparr>)"
  by (simp add: chat_inv_def settings_ok_def live_def [abs_def])

lemma ensure_unique_inv [simp]:
  assumes "chat_inv c"
  shows "chat_inv (snd (ensure_unique_or_error E s u c))"
proof -
  have reg: "reg_ok (live c) (cs_state c)" using assms by (simp add: chat_inv_def)
  have kept: "x \<in> set (dropWhile (\<lambda>p. \<not> a p) xs) \<longleftrightarrow> x \<in> set xs" if "a x" for x a and xs :: "nat list"
    using that by (induction xs) auto
  have "reg_ok (live c) (cs_state c\<lparr>st_by_user := (st_by_user (cs_state c))(u \<mapsto> dropWhile (\<lambda>p. \<not> live c p) xs)\<rparr>)"
    if "st_by_user (cs_state c) u = Some xs" for xs
    by (rule reg_ok_filter_user [OF reg that])
       (use by_user_ok [OF reg that] kept [of "live c"] in \<open>simp_all add: rs_ok_def sorted_dropWhile\<close>)
  with assms show ?thesis
    by (auto simp: ensure_unique_or_error_def Let_def case_prod_beta split: option.split intro!: chat_inv_set_state)
qed

lemma get_or_create_user_keeps [job_oks]: "job_keeps chat_inv (get_or_create_user db n)"
  unfolding get_or_create_user_def Let_def by (intro keeps_intros; simp)

lemma login_parts_keep [job_oks]:
  "job_keeps chat_inv (login_persist E s n ip)" "job_keeps chat_inv (login_announce E s n)"
  unfolding login_persist_def login_announce_def Let_def by (intro keeps_intros job_oks; simp add: locked_inv section_oks)+

lemma login_finish_keeps [job_oks]: "job_keeps chat_inv (login_finish E s i n ip)"
  unfolding login_finish_def by (intro keeps_intros job_oks; simp)

lemma login_job_keeps [job_oks]: "job_keeps chat_inv (login_job E s u t)"
  unfolding login_job_def Let_def by (intro keeps_intros job_oks; simp add: locked_inv section_oks)

lemma close_redis_keeps [job_oks]: "job_keeps chat_inv (close_redis E s n r)"
  unfolding close_redis_def by (intro keeps_intros job_oks; simp)

lemma close_job_keeps [job_oks]: "job_keeps chat_inv (close_job E s)"
  unfolding close_job_def by (intro keeps_intros job_oks; simp add: locked_inv section_oks)

lemma join_locked_inv: "chat_inv c \<Longrightarrow> chat_inv (snd (join_locked E s r p rp c))"
proof -
  assume inv: "chat_inv c"
  have "chat_inv (snd (run_job (maybe_handle_join_hook E s u r) c))" for u by (rule run_job_keeps [OF hooks_keep(2) inv])
  then have "chat_inv (snd (locked (join_section E a s u r p rp) (snd (run_job (maybe_handle_join_hook E s u r) c))))" for a u
    by (intro locked_inv section_oks)
  with inv run_job_keeps [OF hooks_keep(2) inv] show ?thesis
    by (auto simp: join_locked_def Let_def case_prod_beta split: prod.split sum.split)
qed

lemma leave_locked_inv: "chat_inv c \<Longrightarrow> chat_inv (snd (leave_locked E s r c))"
proof -
  assume inv: "chat_inv c"
  let ?hook = "\<lambda>u room. snd (run_job (maybe_handle_leave_hook E s u room) c)"
  have hook: "chat_inv (?hook u room)" for u room by (rule run_job_keeps [OF hooks_keep(3) inv])
  have reg: "reg_ok (live c) (cs_state c)" using inv by (simp add: chat_inv_def)
  then have others: "reg_ok (others (live c) s) (cs_state c)" by (auto elim!: reg_ok_anti_mono)
  have "reg_ok (live c) (to_lobby s (snd (leave_room (live c) s u room xs (cs_state c))))"
    if "map_of (st_rooms (cs_state c)) room = Some xs" for u room xs
    using reg by (intro to_lobby_ok leave_room_ok [OF others that]) (auto simp: reg_ok_def)
  moreover have "live (?hook u room) = live c" for u room by (simp add: live_def [abs_def] leave_hook_frozen)
  ultimately show ?thesis
    using inv by (auto simp: leave_locked_def Let_def case_prod_beta leave_hook_frozen hook to_lobby_stays reg
        split: option.split intro!: chat_inv_set_state)
qed

lemma join_parts_keep [job_oks]:
  "job_keeps chat_inv (join_persist E s r)" "job_keeps chat_inv (leave_redis_room E rc r u)"
  unfolding join_persist_def leave_redis_room_def Let_def by (intro keeps_intros job_oks; simp add: locked_inv section_oks)+

lemma join_redis_keeps [job_oks]: "job_keeps chat_inv (join_redis E j r i)"
  unfolding join_redis_def by (intro keeps_intros job_oks; simp)

lemma join_finish_keeps [job_oks]: "job_keeps chat_inv (join_finish E s i r j)"
  unfolding join_finish_def Let_def by (intro keeps_intros job_oks)

lemma join_job_keeps [job_oks]: "job_keeps chat_inv (join_job E s r p)"
  unfolding join_job_def Let_def by (intro keeps_intros job_oks; simp add: join_locked_inv)

lemma leave_redis_keeps [job_oks]: "job_keeps chat_inv (leave_redis E s d)"
  unfolding leave_redis_def Let_def by (intro keeps_intros job_oks; simp add: locked_inv section_oks)

lemma leave_finish_keeps [job_oks]: "job_keeps chat_inv (leave_finish E s i d)"
  unfolding leave_finish_def Let_def by (intro keeps_intros job_oks; simp add: locked_inv section_oks)

lemma leave_job_keeps [job_oks]: "job_keeps chat_inv (leave_job E s r)"
  unfolding leave_job_def by (intro keeps_intros job_oks; simp add: leave_locked_inv)

section \<open>Messages and commands\<close>

lemma whispers_keep [job_oks]:
  "job_keeps chat_inv (refuse_whisper E s n r)" "job_keeps chat_inv (deliver_remote_whisper E b)"
  unfolding refuse_whisper_def deliver_remote_whisper_def by (intro keeps_intros job_oks; simp add: locked_inv section_oks)+

lemma route_whisper_keeps [job_oks]: "job_keeps chat_inv (route_whisper E s u t x ts)"
  unfolding route_whisper_def Let_def by (intro keeps_intros job_oks; simp)

lemma dispatch_whisper_keeps [job_oks]: "job_keeps chat_inv (dispatch_whisper E s t x)"
  unfolding dispatch_whisper_def by (intro keeps_intros job_oks; simp add: locked_inv section_oks)

lemma with_admins_keeps [keeps_intros]: "(\<And>a. job_keeps chat_inv (k a)) \<Longrightarrow> job_keeps chat_inv (with_admins k)"
  unfolding with_admins_def by (intro keeps_intros) simp_all

lemma room_commands_keep [job_oks]:
  "job_keeps chat_inv (invite_command E s cur a)" "job_keeps chat_inv (kick_command E s cur a)"
  "job_keeps chat_inv (remove_room_command E s cur a)"
  unfolding invite_command_def kick_command_def remove_room_command_def Let_def case_prod_beta
  by (intro keeps_intros job_oks; simp add: locked_inv section_oks)+

lemma admin_commands_keep [job_oks]:
  "job_keeps chat_inv (mute_command E s a)" "job_keeps chat_inv (unmute_command E s a)" "job_keeps chat_inv (ban_command E s a)"
  "job_keeps chat_inv (unban_command E s a)" "job_keeps chat_inv (gkick_command E s a)"
  unfolding mute_command_def unmute_command_def ban_command_def unban_command_def gkick_command_def Let_def case_prod_beta
  by (intro keeps_intros job_oks; simp add: locked_inv section_oks)+

lemma blacklist_command_keeps [job_oks]: "job_keeps chat_inv (blacklist_command E s t)"
  unfolding blacklist_command_def Let_def case_prod_beta by (intro keeps_intros job_oks; simp add: locked_inv section_oks)

lemma whisper_command_keeps [job_oks]: "job_keeps chat_inv (whisper_command E s a)"
  unfolding whisper_command_def by (intro keeps_intros job_oks)

lemma slash_command_keeps: "slash_command E s cur t = Some j \<Longrightarrow> job_keeps chat_inv j"
  by (auto simp: slash_command_def split: if_splits intro!: job_oks)

lemma message_parts_keep [job_oks]:
  "job_keeps chat_inv (persist_message E s r t)" "job_keeps chat_inv (mark_seen E s rid i)" "job_keeps chat_inv (publish_message E r b)"
  "job_keeps chat_inv (send_message s ts b)" "job_keeps chat_inv (penalise E s rs)"
  unfolding persist_message_def mark_seen_def publish_message_def send_message_def penalise_def
  by (intro keeps_intros job_oks; simp)+

lemma broadcast_message_keeps [job_oks]: "job_keeps chat_inv (broadcast_message E s r u t)"
  unfolding broadcast_message_def Let_def by (intro keeps_intros job_oks; simp add: locked_inv section_oks)

lemma keeps_verdict:
  assumes "job_keeps Q g" "\<And>r. job_keeps Q (b r)" "\<And>r. job_keeps Q (m r)" "\<And>r. job_keeps Q (sm r)" "\<And>r ss. job_keeps Q (sb r ss)"
    "\<And>u. job_keeps Q (k u)"
  shows "job_keeps Q (case v of VerdictGuest \<Rightarrow> g | VerdictBanned r \<Rightarrow> b r | VerdictMuted r \<Rightarrow> m r | VerdictSpamMuted r \<Rightarrow> sm r
    | VerdictSpamBanned r ss \<Rightarrow> sb r ss | VerdictOk u \<Rightarrow> k u)"
  using assms by (cases v) auto

lemma plain_message_keeps [job_oks]: "job_keeps chat_inv (plain_message E s r t)"
  unfolding plain_message_def by (intro keeps_intros keeps_verdict job_oks; simp add: locked_inv section_oks)

lemma chat_send_job_keeps [job_oks]: "job_keeps chat_inv (chat_send_job E s r t)"
  unfolding chat_send_job_def by (intro keeps_intros job_oks; simp add: slash_command_keeps)

lemma room_users_job_keeps [job_oks]: "job_keeps chat_inv (room_users_job E s r)"
  unfolding room_users_job_def by (intro keeps_intros job_oks; simp)

section \<open>Handlers, tasks, events\<close>

lemma queue_or_busy_keeps [job_oks]: "job_keeps chat_inv (queue_or_busy s t)"
  unfolding queue_or_busy_def by (intro keeps_intros job_oks; simp)

lemma handlers_keep [job_oks]:
  "job_keeps chat_inv (on_login s p)" "job_keeps chat_inv (on_join s p)" "job_keeps chat_inv (on_leave s p)"
  "job_keeps chat_inv (on_whisper s p)" "job_keeps chat_inv (on_chat_send s p)" "job_keeps chat_inv (on_rooms_request s p)"
  "job_keeps chat_inv (on_room_users_request s p)" "job_keeps chat_inv (on_refresh_request s p)" "job_keeps chat_inv (on_ping E s p)"
  unfolding on_login_def on_join_def on_leave_def on_whisper_def on_chat_send_def on_rooms_request_def on_room_users_request_def
    on_refresh_request_def on_ping_def Let_def
  by (intro keeps_intros job_oks; simp)+

lemma routes_keep: "register_routes E i = Some (policy, h) \<Longrightarrow> job_keeps chat_inv (h s p)"
  by (auto simp: register_routes_def split: if_splits intro!: job_oks keeps_intros)

lemma admin_requests_keep [job_oks]:
  "job_keeps chat_inv (admin_disconnect_users E us r)" "job_keeps chat_inv (admin_broadcast_notice E t)"
  "job_keeps chat_inv (admin_apply_runtime_setting E k v)" "job_keeps chat_inv (admin_apply_user_moderation E op us d r)"
  unfolding admin_disconnect_users_def admin_broadcast_notice_def admin_apply_runtime_setting_def admin_apply_user_moderation_def Let_def
  by (intro keeps_intros job_oks; simp)+

lemma poll_reload_job_keeps [job_oks]: "job_keeps chat_inv (poll_reload_job E)"
  unfolding poll_reload_job_def by (intro keeps_intros; simp split: option.split prod.split)

lemma task_job_keeps: "job_keeps chat_inv (task_job E t)"
  by (cases t) (simp_all add: task_job_def job_oks)

lemma fanout_job_keeps: "job_keeps chat_inv (fanout_job E f)"
  by (cases f) (simp_all add: fanout_job_def job_oks)

lemma event_keeps: "chat_event E c c' new \<Longrightarrow> chat_inv c \<Longrightarrow> chat_inv c'"
proof (induction rule: chat_event.induct)
  case (ev_open c s n)
  let ?d = "c\<lparr>cs_sessions := (cs_sessions c)(s \<mapsto> n)\<rparr>"
  have "login_ok (cs_state c) s" "place_ok (cs_state c) s"
    using ev_open(2) by (auto simp: forgotten_def login_ok_def place_ok_def user_set_def named_def split: option.splits)
  moreover have "live ?d x \<longleftrightarrow> live c x \<or> x = s" for x by (auto simp: live_def)
  ultimately show ?case using ev_open(3) by (auto simp: chat_inv_def reg_ok_def settings_ok_def)
next
  case (ev_destroy c s)
  then show ?case
    by (auto simp: chat_inv_def settings_ok_def live_def [abs_def] elim!: reg_ok_anti_mono)
qed simp_all

interpretation chat_pool: worker_pool "chat_event E" chat_inv for E
proof
  show "chat_inv c'" if "chat_event E c c' new" "chat_inv c" for c c' new using that by (rule event_keeps)
  show "job_keeps chat_inv j" if "chat_event E c c' new" "j \<in> set new" for c c' new j
    using that by cases (auto simp: task_job_keeps fanout_job_keeps routes_keep)
qed

lemma create_inv: "chat_inv (ChatService_create E make_chain env q lua m w)"
  by (simp add: chat_inv_def create_settings_ok)
     (simp add: ChatService_create_def Let_def case_prod_beta ChatState_init_def live_def reg_defs room_set_def user_set_def named_def)

end
