(* ===== verification/Worker_Pool.thy ===== *)
theory Worker_Pool
  imports Worker_Job
begin

text \<open>
  Runs of a pool of jobs: running a job alone to its end is one of the interleavings.
\<close>

section \<open>One job after the other\<close>

lemma pool_run_alone:
  assumes "pool_reach env s0 (js, s)" "i < length js"
  shows "pool_reach env s0 (js[i := Return ()], snd (run_job (js ! i) s))"
proof -
  have "pool_reach env s0 (js[i := Return ()], snd (run_job j s))" if "js ! i = j" "pool_reach env s0 (js, s)" "i < length js" for j js s
    using that
  proof (induction j arbitrary: js s)
    case (Return x)
    then have "js[i := Return ()] = js" by (metis list_update_id old.unit.exhaust)
    with Return show ?case by simp
  next
    case (Act f)
    obtain k s' where fs: "f s = (k, s')" by (cases "f s")
    have "pool_reach env s0 (js[i := k], s')"
      by (rule pool_more [OF Act.prems(2)]) (rule pool_act [OF Act.prems(3,1) fs])
    moreover have "(k, s') \<in> range f" using fs by (metis rangeI)
    ultimately have "pool_reach env s0 ((js[i := k])[i := Return ()], snd (run_job k s'))"
      using Act.prems by (intro Act.IH [of "(k, s')" k]) (simp_all add: prod_set_defs)
    then show ?case by (simp add: fs map_prod_def)
  qed
  with assms show ?thesis by blast
qed

lemma pool_finished:
  assumes "pool_reach env s0 (js, s)" "i < length js" "js ! i = Return ()"
  shows "pool_reach env s0 (take i js @ drop (Suc i) js, s)"
  by (rule pool_more [OF assms(1) pool_done]) (use assms in auto)

text \<open>A job that an event starts while nothing else runs, run to its end.\<close>

lemma pool_event_run:
  assumes "pool_reach env s0 ([], s)" "env s s' [j]"
  shows "pool_reach env s0 ([], snd (run_job j s'))"
proof -
  have "pool_step env ([], s) ([] @ [j], s')" by (rule pool_env) (rule assms(2))
  with assms(1) have "pool_reach env s0 ([j], s')" by (simp add: pool_more)
  from pool_run_alone [OF this, of 0] have "pool_reach env s0 ([Return ()], snd (run_job j s'))" by simp
  from pool_finished [OF this, of 0] show ?thesis by simp
qed

lemma pool_event_only:
  assumes "pool_reach env s0 ([], s)" "env s s' []"
  shows "pool_reach env s0 ([], s')"
proof -
  have "pool_step env ([], s) ([] @ [], s')" by (rule pool_env) (rule assms(2))
  with assms(1) show ?thesis by (simp add: pool_more)
qed

end
