(* ===== verification/Chat_Properties.thy ===== *)
theory Chat_Properties
  imports Chat_Agreement Worker_Pool
begin

text \<open>
  Properties of the chat server as a whole: what holds under every interleaving of its threads, and what the
  handlers on the I/O threads do with a frame they cannot queue.
\<close>

section \<open>A server without Redis and database\<close>

text \<open>The instance the examples use; its world is the time of the steady clock.\<close>

definition plain_env :: "int chat_env" where
  "plain_env =
     \<lparr>ce_redis = None, ce_db = None, ce_sha256 = (\<lambda>s. Some (map (\<lambda>c. of_nat (of_char c)) s)), ce_std_hash = (\<lambda>s. of_nat (length s)),
      ce_serialize = (\<lambda>_. []), ce_parse_chat = (\<lambda>_. None), ce_parse_whisper = (\<lambda>_. None), ce_serialize_message = (\<lambda>_. None),
      ce_parse_message = (\<lambda>_. None), ce_steady_now = (\<lambda>w. (w, w)), ce_system_now_ms = (\<lambda>w. (0, w)), ce_random = (\<lambda>w. (0, w)),
      ce_trace = (\<lambda>w. (([], []), w)), ce_poll_chain = (\<lambda>ps w. (ps, w)), ce_read_script = (\<lambda>_ w. (Inl [], w)),
      ce_vm = (\<lambda>_ _ _ _ _ w. (Finish \<lparr>vr_created = False, vr_script = undefined, vr_hook = None\<rparr>, w))\<rparr>"

definition plain_service :: "chat_task list \<Rightarrow> int ChatService" where
  "plain_service tasks =
     ChatService_create plain_env (\<lambda>_. []) (\<lambda>_. None) \<lparr>jq_jobs = tasks, jq_stopping = False, jq_max_size = 8\<rparr> None metrics_init 0"

lemma plain_env_simps [simp]:
  "ce_redis plain_env = None" "ce_db plain_env = None" "ce_steady_now plain_env w = (w, w)" "ce_system_now_ms plain_env w = (0, w)"
  by (simp_all add: plain_env_def)

lemma plain_service_parts [simp]:
  "cs_state (plain_service ts) = ChatState_init" "cs_sessions (plain_service ts) = Map.empty" "cs_hook_plugin (plain_service ts) = None"
  "cs_lua_runtime (plain_service ts) = None" "cs_queue (plain_service ts) = \<lparr>jq_jobs = ts, jq_stopping = False, jq_max_size = 8\<rparr>"
  "cs_world (plain_service ts) = 0" "cs_admin_users (plain_service ts) = {}"
  by (simp_all add: plain_service_def ChatService_create_def read_chain_config_def env_nonempty_def read_admins_def read_env_def)

section \<open>Agreement of the tables\<close>


text \<open>A session opens and its login is served.\<close>

definition opened :: "nat \<Rightarrow> 'w ChatService \<Rightarrow> 'w ChatService" where
  "opened s c = c\<lparr>cs_sessions := (cs_sessions c)(s \<mapsto> \<lparr>cn_session_id = 7, cn_remote_ip = ''10.0.0.1''\<rparr>)\<rparr>"

definition dequeued :: "'w ChatService \<Rightarrow> 'w ChatService" where
  "dequeued c = (case JobQueue_Pop (cs_queue c) (cs_metrics c) of Returns (t, notify, q, m) \<Rightarrow> c\<lparr>cs_queue := q, cs_metrics := m\<rparr> | Blocks \<Rightarrow> c)"

definition after_login :: "string \<Rightarrow> int ChatService" where
  "after_login u = snd (run_job (login_job plain_env 1 u []) (dequeued (opened 1 (plain_service [TaskLogin 1 u []]))))"

lemma after_login_reached:
  "pool_reach (chat_event plain_env) (plain_service [TaskLogin 1 u []]) ([], after_login u)"
proof -
  let ?c0 = "plain_service [TaskLogin 1 u []]"
  have "chat_event plain_env ?c0 (opened 1 ?c0) []"
    unfolding opened_def by (rule ev_open) (simp_all add: live_def forgotten_def ChatState_init_def)
  then have opened: "pool_reach (chat_event plain_env) ?c0 ([], opened 1 ?c0)"
    by (rule pool_event_only [OF pool_init])
  have "chat_event plain_env (opened 1 ?c0) (dequeued (opened 1 ?c0)) [task_job plain_env (TaskLogin 1 u [])]"
    unfolding dequeued_def by (simp add: opened_def JobQueue_Pop_def) (rule ev_worker, simp add: JobQueue_Pop_def)
  from pool_event_run [OF opened this] show ?thesis by (simp add: after_login_def task_job_def)
qed

lemmas login_run_defs =
  dequeued_def opened_def JobQueue_Pop_def get_or_create_session_uuid_def Let_def case_prod_beta asking_def
  register_session_def ensure_unique_or_error_def ChatState_init_def maybe_handle_login_hook_def gate_hook_def lua_stage_def
  invoke_lua_cold_hook_def LuaColdHookOutcome_init_def send_notices_def job_each_def outside_def locked_def check_bans_def
  check_user_ban_def check_ip_ban_def check_device_ban_def hash_hwid_token_def register_login_def room_insert_def put_room_def
  login_finish_def login_persist_def emit_def send_frame_def login_announce_def emit_write_behind_event_def live_def

lemma after_login_state:
  "live (after_login ''amy'') 1" "1 \<in> st_authed (cs_state (after_login ''amy''))"
  "st_user (cs_state (after_login ''amy'')) 1 = Some ''amy''"
  unfolding after_login_def login_job_def
  by (simp_all add: login_run_defs)



text \<open>A setting is stored: the job of the task that an administrator's request queued.\<close>

definition after_setting :: "int ChatService" where
  "after_setting =
     snd (run_job (setting_job plain_env ''chat_spam_threshold'' ''50'' 0) (dequeued (plain_service [TaskSetting ''chat_spam_threshold'' ''50'' 0])))"

lemma after_setting_reached:
  "pool_reach (chat_event plain_env) (plain_service [TaskSetting ''chat_spam_threshold'' ''50'' 0]) ([], after_setting)"
proof -
  let ?c0 = "plain_service [TaskSetting ''chat_spam_threshold'' ''50'' 0]"
  have "chat_event plain_env ?c0 (dequeued ?c0) [task_job plain_env (TaskSetting ''chat_spam_threshold'' ''50'' 0)]"
    unfolding dequeued_def by (simp add: JobQueue_Pop_def) (rule ev_worker, simp add: JobQueue_Pop_def)
  then have "pool_reach (chat_event plain_env) ?c0 ([], snd (run_job (task_job plain_env (TaskSetting ''chat_spam_threshold'' ''50'' 0)) (dequeued ?c0)))"
    by (rule pool_event_run [OF pool_init])
  then show ?thesis by (simp only: after_setting_def task_job_def chat_task.case)
qed

lemma check_setting_example: "check_setting ''chat_spam_threshold'' ''50'' c = (Some (kChatSpamThreshold, 50), c)"
proof -
  have "parse_setting_value (c_trim ''50'') = (Some 50, False)"
    by (simp add: parse_setting_value_def c_trim_def c_isspace_def std_stoull_def stoull_used_def Let_def
        digits_value_def digit_value_def)
  moreover have "c_lower (c_trim ''chat_spam_threshold'') = ''chat_spam_threshold''"
    by (simp add: c_trim_def c_lower_def c_isspace_def c_tolower_def)
  moreover have "find_runtime_setting_rule ''chat_spam_threshold'' = Some (setting_rule kChatSpamThreshold ''chat_spam_threshold'' 3 100)"
    by (simp add: find_runtime_setting_rule_def kRuntimeSettingRules_def setting_rule_def)
  ultimately show ?thesis by (simp add: check_setting_def setting_rule_def Let_def)
qed


section \<open>Frames that are queued or refused\<close>

text \<open>The two outcomes of a handler: one task at the end of the queue, or one error to the client.\<close>

definition queues :: "'w ChatService \<Rightarrow> 'w ChatService \<Rightarrow> bool" where
  "queues c c' \<longleftrightarrow>
     (\<exists>t m. c' = c\<lparr>cs_queue := (cs_queue c)\<lparr>jq_jobs := jq_jobs (cs_queue c) @ [t]\<rparr>, cs_metrics := m\<rparr>)"

definition refuses :: "nat \<Rightarrow> u16 \<Rightarrow> 'w ChatService \<Rightarrow> 'w ChatService \<Rightarrow> bool" where
  "refuses s code c c' \<longleftrightarrow> (\<exists>msg m. c' = c\<lparr>cs_metrics := m, cs_out := cs_out c @ [OutError s code msg]\<rparr>)"

definition settles :: "nat \<Rightarrow> 'w ChatService \<Rightarrow> 'w ChatService \<Rightarrow> bool" where
  "settles s c c' \<longleftrightarrow>
     (\<exists>code \<in> {ERR_INVALID_PAYLOAD, ERR_UNSUPPORTED_VERSION}. refuses s code c c')
     \<or> (if jq_stopping (cs_queue c) \<or> jq_full (cs_queue c) then refuses s ERR_SERVER_BUSY c c' else queues c c')"

lemma send_error_refuses: "refuses s code c (snd (run_job (send_error s code msg) c))"
proof -
  have "snd (run_job (send_error s code msg) c) = c\<lparr>cs_metrics := cs_metrics c, cs_out := cs_out c @ [OutError s code msg]\<rparr>"
    by (simp add: send_error_def emit_def)
  then show ?thesis unfolding refuses_def by blast
qed

abbreviation (input) no_room :: "'w ChatService \<Rightarrow> bool" where
  "no_room c \<equiv> jq_stopping (cs_queue c) \<or> jq_full (cs_queue c)"

lemma try_push_refused:
  assumes "no_room c"
  obtains m where "try_push t c = (False, c\<lparr>cs_metrics := m\<rparr>)"
proof -
  have "\<exists>m. JobQueue_TryPush (Some t) (cs_queue c) (cs_metrics c) = (False, cs_queue c, m)"
    using assms by (auto simp: JobQueue_TryPush_def)
  then obtain m where "JobQueue_TryPush (Some t) (cs_queue c) (cs_metrics c) = (False, cs_queue c, m)" by blast
  then have "try_push t c = (False, c\<lparr>cs_metrics := m\<rparr>)" by (simp add: try_push_def)
  then show thesis by (rule that)
qed

lemma try_push_accepted:
  assumes "\<not> no_room c"
  obtains m where "try_push t c = (True, c\<lparr>cs_queue := (cs_queue c)\<lparr>jq_jobs := jq_jobs (cs_queue c) @ [t]\<rparr>, cs_metrics := m\<rparr>)"
proof -
  have "\<exists>m. try_push t c = (True, c\<lparr>cs_queue := (cs_queue c)\<lparr>jq_jobs := jq_jobs (cs_queue c) @ [t]\<rparr>, cs_metrics := m\<rparr>)"
    by (rule exI) (simp add: try_push_def JobQueue_TryPush_def jq_enqueue_def Let_def assms [simplified])
  then show thesis using that by blast
qed

lemma queue_or_busy_refused:
  assumes "no_room c"
  shows "refuses s ERR_SERVER_BUSY c (snd (run_job (queue_or_busy s t) c))"
proof -
  obtain m where "try_push t c = (False, c\<lparr>cs_metrics := m\<rparr>)" by (rule try_push_refused [OF assms])
  then have "snd (run_job (queue_or_busy s t) c) = c\<lparr>cs_metrics := m, cs_out := cs_out c @ [OutError s ERR_SERVER_BUSY ''server busy'']\<rparr>"
    by (simp add: queue_or_busy_def send_error_def emit_def)
  then show ?thesis unfolding refuses_def by blast
qed

lemma queue_or_busy_accepted:
  assumes "\<not> no_room c"
  shows "queues c (snd (run_job (queue_or_busy s t) c))"
proof -
  obtain m where "try_push t c = (True, c\<lparr>cs_queue := (cs_queue c)\<lparr>jq_jobs := jq_jobs (cs_queue c) @ [t]\<rparr>, cs_metrics := m\<rparr>)"
    by (rule try_push_accepted [OF assms])
  then have "snd (run_job (queue_or_busy s t) c) = c\<lparr>cs_queue := (cs_queue c)\<lparr>jq_jobs := jq_jobs (cs_queue c) @ [t]\<rparr>, cs_metrics := m\<rparr>"
    by (simp add: queue_or_busy_def)
  then show ?thesis unfolding queues_def by blast
qed

lemma queue_or_busy_settles: "settles s c (snd (run_job (queue_or_busy s t) c))"
  unfolding settles_def by (rule disjI2) (simp add: queue_or_busy_refused queue_or_busy_accepted)

lemma bad_payload_settles:
  "settles s c (snd (run_job (send_error s ERR_INVALID_PAYLOAD msg) c))"
  "settles s c (snd (run_job (send_error s ERR_UNSUPPORTED_VERSION msg) c))"
proof -
  have "settles s c (snd (run_job (send_error s code msg) c))" if "code \<in> {ERR_INVALID_PAYLOAD, ERR_UNSUPPORTED_VERSION}" for code
    unfolding settles_def using that send_error_refuses by (intro disjI1 bexI)
  from this [of ERR_INVALID_PAYLOAD] this [of ERR_UNSUPPORTED_VERSION]
  show "settles s c (snd (run_job (send_error s ERR_INVALID_PAYLOAD msg) c))"
    "settles s c (snd (run_job (send_error s ERR_UNSUPPORTED_VERSION msg) c))" by simp_all
qed

lemma on_login_settles: "settles s c (snd (run_job (on_login s p) c))"
  unfolding on_login_def Let_def
  by (cases "read_lp_utf8 p"; simp add: bad_payload_settles case_prod_beta split: option.split)
     (simp add: queue_or_busy_settles bad_payload_settles)

lemma handlers_settle:
  "settles s c (snd (run_job (on_join s p) c))" "settles s c (snd (run_job (on_leave s p) c))"
  "settles s c (snd (run_job (on_whisper s p) c))" "settles s c (snd (run_job (on_chat_send s p) c))"
  "settles s c (snd (run_job (on_rooms_request s p) c))" "settles s c (snd (run_job (on_room_users_request s p) c))"
  "settles s c (snd (run_job (on_refresh_request s p) c))"
  unfolding on_join_def on_leave_def on_whisper_def on_chat_send_def on_rooms_request_def on_room_users_request_def
    on_refresh_request_def
  by (cases "read_lp_utf8 p"; cases "two_strings p"; simp add: bad_payload_settles queue_or_busy_settles case_prod_beta)+


definition full_service :: "int ChatService" where
  "full_service = plain_service (replicate 8 TaskPollReload)"

lemma full_service_full: "jq_full (cs_queue full_service)"
  by (simp add: full_service_def jq_full_def)


end
