(* ===== verification/Chat_Access.thy ===== *)
theory Chat_Access
  imports Chat_Properties
begin

text \<open>
  Who may enter a room, what becomes of a room when its members leave, what a ban prevents, and which passwords open a
  room.
\<close>

section \<open>Joining\<close>

lemma frozen_hook:
  "cs_state (snd (run_job (maybe_handle_join_hook E s u r) c)) = cs_state c"
  "cs_sessions (snd (run_job (maybe_handle_join_hook E s u r) c)) = cs_sessions c"
  using run_job_keeps [OF hooks_under_mutex_frozen(1) [of "cs_state c" "cs_sessions c" E s u r], of c] by (simp_all add: frozen_def)

lemma room_set_simps [simp]:
  "room_set (st\<lparr>st_room_owners := a\<rparr>) = room_set st" "room_set (st\<lparr>st_room_invites := b\<rparr>) = room_set st"
  "room_set (st\<lparr>st_room_passwords := a\<rparr>) = room_set st"
  by (simp_all add: room_set_def fun_eq_iff)

lemma hand_over_rooms [simp]: "st_rooms (hand_over a r st) = st_rooms st" "room_set (hand_over a r st) = room_set st"
  by (simp_all add: hand_over_def Let_def)

lemma leave_previous_left:
  assumes "st_cur_room st s = Some r" "r \<noteq> room"
  shows "s \<notin> set (room_set (leave_previous alive s sender room st) r)"
  using assms by (auto simp: leave_previous_def Let_def room_set_def [of st] split: option.split)

lemma use_invite_tables [simp]:
  "room_set (use_invite r u st) = room_set st" "st_cur_room (use_invite r u st) = st_cur_room st"
  by (simp_all add: use_invite_def Let_def split: option.split)

lemma enter_room_tables:
  "st_cur_room (enter_room s sender room invited st) s = Some room"
  "set (room_set (enter_room s sender room invited st) r) = (if r = room then insert s (set (room_set st room)) else set (room_set st r))"
  by (simp_all add: enter_room_def Let_def)

lemma room_targets_tables:
  "st_cur_room (snd (room_targets r alive st)) = st_cur_room st"
  "set (room_set (snd (room_targets r alive st)) r') = (if r' = r then {x \<in> set (room_set st r). alive x} else set (room_set st r'))"
  by (auto simp: room_targets_def collect_room_sessions_def room_set_def [of st] split: option.split)

lemma join_section_joined:
  assumes "join_section E admins s sender room pw rp alive st = (Inr j, st')"
  shows "join_allowed E admins sender room pw (cache_password rp room st)"
    and "st_cur_room st' s = Some room" "alive s \<Longrightarrow> s \<in> set (room_set st' room)"
    and "st_cur_room st s = Some r \<Longrightarrow> r \<noteq> room \<Longrightarrow> s \<notin> set (room_set st' r)"
proof -
  let ?st1 = "cache_password rp room st"
  from assms show allowed: "join_allowed E admins sender room pw ?st1"
    by (simp add: join_section_def Let_def split: if_splits)
  from assms allowed obtain np where np: "renewed_password E room pw (expected_password room ?st1) = Inr np"
    by (auto simp: join_section_def Let_def split: sum.splits)
  let ?st2 = "case np of Some h \<Rightarrow> ?st1\<lparr>st_room_passwords := (st_room_passwords ?st1)(room \<mapsto> h)\<rparr> | None \<Rightarrow> ?st1"
  let ?st3 = "enter_room s sender room (has_room_invite st room sender) (leave_previous alive s sender room ?st2)"
  have st': "st' = snd (room_targets room alive ?st3)"
    using assms allowed np by (simp add: join_section_def Let_def case_prod_beta flip: snd_recipients [of room sender])
  have cur: "st_cur_room ?st2 s = st_cur_room st s"
    by (simp add: cache_password_def split: option.split)
  show "st_cur_room st' s = Some room" "alive s \<Longrightarrow> s \<in> set (room_set st' room)"
    by (simp_all add: st' room_targets_tables enter_room_tables)
  show "s \<notin> set (room_set st' r)" if "st_cur_room st s = Some r" "r \<noteq> room"
    using that leave_previous_left [of ?st2 s r room alive sender] cur
    by (simp add: st' room_targets_tables enter_room_tables)
qed

lemma join_section_refused:
  "join_section E admins s sender room pw rp alive st = (Inl e, st') \<Longrightarrow> \<exists>p. st' = st\<lparr>st_room_passwords := p\<rparr>"
  by (auto simp: join_section_def Let_def cache_password_def case_prod_beta split: sum.splits option.splits if_splits
      intro: exI [of _ "st_room_passwords st"])

lemma same_passwords: "\<exists>p. st = st\<lparr>st_room_passwords := p\<rparr>"
  by (rule exI [of _ "st_room_passwords st"]) simp


lemma after_login_tables:
  "st_rooms (cs_state (after_login ''amy'')) = [(''lobby'', [1])]" "st_cur_room (cs_state (after_login ''amy'')) = [1 \<mapsto> ''lobby'']"
  "st_room_owners (cs_state (after_login ''amy'')) = Map.empty" "st_room_passwords (cs_state (after_login ''amy'')) = Map.empty"
  "cs_hook_plugin (after_login ''amy'') = None" "cs_lua_runtime (after_login ''amy'') = None"
  unfolding after_login_def login_job_def
  by (simp_all add: login_run_defs room_set_def rs_insert_def)

definition joined_den :: "joined option \<times> int ChatService" where
  "joined_den = join_locked plain_env 1 ''den'' [] None (after_login ''amy'')"

lemma joined_den_some: "\<exists>j. fst joined_den = Some j"
proof -
  have hook: "run_job (maybe_handle_join_hook plain_env 1 u r) (after_login ''amy'') = (Some False, after_login ''amy'')" for u r
    by (simp add: maybe_handle_join_hook_def gate_hook_def lua_stage_def invoke_lua_cold_hook_def asking_def Let_def case_prod_beta
        LuaColdHookOutcome_init_def send_notices_def job_each_def after_login_tables)
  have "\<exists>j. fst (join_section plain_env a 1 u ''den'' [] None al (cs_state (after_login ''amy''))) = Inr j" for a u al
    by (simp add: join_section_def Let_def join_allowed_def room_exists_def cache_password_def expected_password_def str_or_empty_def
        after_login_tables renewed_password_def case_prod_beta)
  then obtain j where "fst (join_section plain_env (cs_admin_users (after_login ''amy'')) 1 (user_or_guest (cs_state (after_login ''amy'')) 1) ''den'' [] None
      (live (after_login ''amy'')) (cs_state (after_login ''amy''))) = Inr j" by blast
  then show ?thesis
    using after_login_state by (simp add: joined_den_def join_locked_def Let_def hook locked_def case_prod_beta del: One_nat_def)
qed


section \<open>Leaving\<close>

text \<open>The search for a new owner: a named member that is no guest if there is one, else a guest if there is one.\<close>

lemma next_owner_found:
  "next_owner alive user xs acc =
     (case filter (\<lambda>x. user x \<noteq> None \<and> user x \<noteq> Some ''guest'') (filter alive xs) of
        x # _ \<Rightarrow> the (user x)
      | [] \<Rightarrow> if \<exists>x \<in> set xs. alive x \<and> user x = Some ''guest'' then ''guest'' else acc)"
  by (induction xs arbitrary: acc) (auto split: option.split list.split)

lemma next_owner_member:
  assumes "\<exists>x \<in> set xs. alive x \<and> user x \<noteq> None"
  obtains x where "x \<in> set xs" "alive x" "user x = Some (next_owner alive user xs [])"
    "next_owner alive user xs [] = ''guest'' \<longrightarrow> (\<forall>y \<in> set xs. alive y \<longrightarrow> user y \<in> {None, Some ''guest''})"
proof (cases "filter (\<lambda>x. user x \<noteq> None \<and> user x \<noteq> Some ''guest'') (filter alive xs)")
  case Nil
  then have only: "\<forall>y \<in> set xs. alive y \<longrightarrow> user y \<in> {None, Some ''guest''}" by (auto simp: filter_empty_conv)
  with assms obtain x where "x \<in> set xs" "alive x" "user x = Some ''guest''" by auto
  moreover from this have "next_owner alive user xs [] = ''guest''" using Nil by (auto simp: next_owner_found)
  ultimately show thesis using only that [of x] by simp
next
  case (Cons x rest)
  then have "x \<in> set (filter (\<lambda>x. user x \<noteq> None \<and> user x \<noteq> Some ''guest'') (filter alive xs))" by simp
  then have "x \<in> set xs" "alive x" "user x = Some (the (user x))" "the (user x) \<noteq> ''guest''" by auto
  with Cons that [of x] show thesis by (simp add: next_owner_found)
qed


text \<open>Amy, who owns the den, leaves it; Bob stays.\<close>

definition den_state :: ChatState where
  "den_state = ChatState_init
     \<lparr>st_rooms := [(''den'', [1, 2])], st_room_owners := [''den'' \<mapsto> ''amy''], st_user := [1 \<mapsto> ''amy'', 2 \<mapsto> ''bob''],
      st_by_user := [''amy'' \<mapsto> [1], ''bob'' \<mapsto> [2]], st_authed := {1, 2}, st_cur_room := [1 \<mapsto> ''den'', 2 \<mapsto> ''den'']\<rparr>"

lemma den_state_ok: "reg_ok (\<lambda>x. x \<in> {1, 2}) den_state"
  by (auto simp: den_state_def ChatState_init_def reg_defs room_set_def user_set_def named_def rs_ok_def split: option.split)


section \<open>Bans\<close>

lemma check_bans_denies:
  "fst (check_bans now v ip h alive st) \<noteq> [] \<longleftrightarrow>
     (\<exists>p. st_banned_users st v = Some p \<and> now < tp_expires_at p)
     \<or> (ip \<noteq> [] \<and> (\<exists>t. st_banned_ips st ip = Some t \<and> now < t))
     \<or> (h \<noteq> [] \<and> (\<exists>t. st_banned_hwid_hashes st h = Some t \<and> now < t))"
  by (auto simp: check_bans_def check_user_ban_def check_ip_ban_def check_device_ban_def case_prod_beta not_le split: option.split)



section \<open>Room passwords\<close>

lemma hash_room_password_eq:
  "hash_room_password E pw \<noteq> [] \<Longrightarrow> hash_room_password E q = hash_room_password E pw \<longleftrightarrow> ce_sha256 E q = ce_sha256 E pw"
  by (auto simp: hash_room_password_def sha256_hex_def Let_def hex_encode_inject split: option.splits if_splits)

lemma renewed_password_hash: "renewed_password E room pw expected = Inr (Some h) \<Longrightarrow> h = hash_room_password E pw \<and> h \<noteq> []"
  by (auto simp: renewed_password_def nonempty_def split: if_splits)

lemma leave_previous_passwords: "st_room_passwords (leave_previous alive s sender room st) room = st_room_passwords st room"
  by (auto simp: leave_previous_def Let_def put_room_def forget_room_def hand_over_def split: option.split)

lemma enter_room_passwords: "st_room_passwords (enter_room s sender room invited st) = st_room_passwords st"
  by (simp add: enter_room_def Let_def use_invite_def room_insert_def put_room_def split: option.split)

lemma recipients_passwords: "st_room_passwords (snd (recipients r u alive st)) = st_room_passwords st"
  by (simp add: snd_recipients room_targets_def case_prod_beta put_room_def split: option.split)

text \<open>
  C13. When a join sets the password of a room, for a new room or because the stored hash was of the old kind, the
  room's stored hash is a SHA-256 hash with its prefix, which exactly the passwords with the same digest open.
\<close>

theorem room_password_opens:
  assumes "join_section E admins s u room pw rp alive st = (Inr j, st')" "jn_new_password j = Some h"
  shows "expected_password room st' = h \<and> is_modern_room_password_hash h
    \<and> (\<forall>q. verify_room_password E q (expected_password room st') \<longleftrightarrow> ce_sha256 E q = ce_sha256 E pw)"
proof -
  from assms have new: "renewed_password E room pw (expected_password room (cache_password rp room st)) = Inr (Some h)"
    and stored: "st_room_passwords st' room = Some h"
    by (auto simp: join_section_def Let_def case_prod_beta recipients_passwords enter_room_passwords leave_previous_passwords
        split: if_splits sum.splits)
  from renewed_password_hash [OF new] have h: "h = hash_room_password E pw" "h \<noteq> []" by auto
  then have modern: "is_modern_room_password_hash h"
    by (auto simp: hash_room_password_def is_modern_room_password_hash_def Let_def split: if_splits)
  with h hash_room_password_eq [of E pw] stored show ?thesis
    by (simp add: expected_password_def str_or_empty_def verify_room_password_def)
qed

definition locked_den :: "((u16 \<times> string) + joined) \<times> ChatState" where
  "locked_den = join_section plain_env {} 1 ''amy'' ''den'' ''key'' None (\<lambda>_. True) ChatState_init"

lemma locked_den_password: "\<exists>j h. fst locked_den = Inr j \<and> jn_new_password j = Some h"
  by (simp add: locked_den_def join_section_def Let_def join_allowed_def room_exists_def cache_password_def expected_password_def
      str_or_empty_def ChatState_init_def renewed_password_def hash_room_password_def sha256_hex_def plain_env_def
      hex_encode_def hex_byte_def kRoomPasswordHashPrefix_def case_prod_beta)

theorem room_password_opens_witness:
  "verify_room_password plain_env ''key'' (expected_password ''den'' (snd locked_den))
   \<and> \<not> verify_room_password plain_env ''kez'' (expected_password ''den'' (snd locked_den))"
proof -
  obtain j h where j: "fst locked_den = Inr j" "jn_new_password j = Some h" using locked_den_password by blast
  have "join_section plain_env {} 1 ''amy'' ''den'' ''key'' None (\<lambda>_. True) ChatState_init = (Inr j, snd locked_den)"
    by (metis j(1) locked_den_def prod.collapse)
  moreover have "ce_sha256 plain_env ''kez'' \<noteq> ce_sha256 plain_env ''key''" by (simp add: plain_env_def)
  ultimately show ?thesis using room_password_opens [OF _ j(2)] by blast
qed

end
