(* ===== verification/Chat_Spam.thy ===== *)
theory Chat_Spam
  imports Chat_Properties
begin

text \<open>
  The limit on the rate of messages. The service keeps a sliding window of a sender's messages and clears it when
  the sender is penalised; the limit holds across that reset because the penalty lasts at least as long as the window.
\<close>

section \<open>Messages one after the other\<close>

text \<open>The times at which the messages of a session were let through.\<close>

fun accepted_at :: "spam_config \<Rightarrow> nat \<Rightarrow> (nat \<Rightarrow> bool) \<Rightarrow> int list \<Rightarrow> ChatState \<Rightarrow> int list" where
  "accepted_at cfg s alive [] st = []"
| "accepted_at cfg s alive (t # ts) st =
     (case moderate_message cfg t s alive st of
        (VerdictOk _, st') \<Rightarrow> t # accepted_at cfg s alive ts st'
      | (_, st') \<Rightarrow> accepted_at cfg s alive ts st')"

definition in_span :: "int \<Rightarrow> int \<Rightarrow> int list \<Rightarrow> int list" where
  "in_span x w ts = filter (\<lambda>t. x \<le> t \<and> t < x + w) ts"

definition events_of :: "string \<Rightarrow> ChatState \<Rightarrow> int list" where
  "events_of u st = (case st_spam_events st u of Some es \<Rightarrow> es | None \<Rightarrow> [])"

text \<open>No penalty of the user is in force at the time.\<close>

definition free_at :: "int \<Rightarrow> string \<Rightarrow> ChatState \<Rightarrow> bool" where
  "free_at t u st \<longleftrightarrow>
     (\<forall>p. st_muted_users st u = Some p \<longrightarrow> tp_expires_at p \<le> t) \<and> (\<forall>p. st_banned_users st u = Some p \<longrightarrow> tp_expires_at p \<le> t)"

text \<open>
  Of the messages let through so far the last ones are the end of the sender's window, and the ones before are
  over when the next one can be let through.
\<close>

definition window_ok :: "int \<Rightarrow> int \<Rightarrow> string \<Rightarrow> int list \<Rightarrow> ChatState \<Rightarrow> bool" where
  "window_ok w now u ts st \<longleftrightarrow>
     (\<exists>old recent pre. ts = old @ recent \<and> events_of u st = pre @ recent \<and> (\<forall>t \<in> set ts. t \<le> now)
        \<and> (\<forall>t. now \<le> t \<longrightarrow> free_at t u st \<longrightarrow> (\<forall>x \<in> set old. x + w \<le> t)))"

lemma spam_check_user: "st_user (snd (spam_check cfg now u alive st)) = st_user st"
  by (simp add: spam_check_def Let_def case_prod_beta user_sessions_def ban_user_def mute_user_def split: option.split)

lemma moderate_message_user: "st_user (snd (moderate_message cfg now s alive st)) = st_user st"
  by (simp add: moderate_message_def active_penalty_def Let_def case_prod_beta spam_check_user split: option.split)

text \<open>The three outcomes: a penalty in force, a message let through, a violation.\<close>

lemma penalties_of:
  "st_spam_events (snd (user_sessions u alive st)) = st_spam_events st"
  "st_banned_users (snd (user_sessions u alive st)) = st_banned_users st"
  "st_spam_events (ban_user t r u st) = st_spam_events st"
  "st_banned_users (ban_user t r u st) u = Some \<lparr>tp_expires_at = t, tp_reason = r\<rparr>"
  by (simp_all add: user_sessions_def ban_user_def split: option.split)

lemma spam_check_passes:
  assumes "length (dropWhile (\<lambda>t. t < now - seconds (sp_window_sec cfg)) (events_of u st) @ [now]) \<le> sp_threshold cfg"
  shows "fst (spam_check cfg now u alive st) = VerdictOk u"
    "events_of u (snd (spam_check cfg now u alive st)) = dropWhile (\<lambda>t. t < now - seconds (sp_window_sec cfg)) (events_of u st) @ [now]"
  using assms by (simp_all add: spam_check_def Let_def events_of_def)

lemma spam_check_violation:
  assumes "\<not> length (dropWhile (\<lambda>t. t < now - seconds (sp_window_sec cfg)) (events_of u st) @ [now]) \<le> sp_threshold cfg"
  shows "fst (spam_check cfg now u alive st) \<noteq> VerdictOk x" "events_of u (snd (spam_check cfg now u alive st)) = []"
    "free_at t u (snd (spam_check cfg now u alive st)) \<Longrightarrow> now + min (seconds (sp_mute_sec cfg)) (seconds (sp_ban_sec cfg)) \<le> t"
proof -
  let ?st = "st\<lparr>st_spam_events := (st_spam_events st)(u \<mapsto> []),
     st_spam_violations := (st_spam_violations st)(u \<mapsto> (case st_spam_violations st u of Some n \<Rightarrow> n | None \<Rightarrow> 0) + 1)\<rparr>"
  let ?bst = "ban_user (now + seconds (sp_ban_sec cfg)) ''temporarily banned for repeated spam'' u ?st"
  let ?mst = "mute_user (now + seconds (sp_mute_sec cfg)) ''temporarily muted for spam'' u ?st"
  have res: "spam_check cfg now u alive st =
      (if sp_violations cfg \<le> (case st_spam_violations st u of Some n \<Rightarrow> n | None \<Rightarrow> 0) + 1
       then (VerdictSpamBanned ''temporarily banned for repeated spam'' (fst (user_sessions u alive ?bst)), snd (user_sessions u alive ?bst))
       else (VerdictSpamMuted ''temporarily muted for spam'', ?mst))"
    using assms unfolding spam_check_def Let_def events_of_def by (simp add: case_prod_beta)
  show "fst (spam_check cfg now u alive st) \<noteq> VerdictOk x" by (simp add: res)
  show "events_of u (snd (spam_check cfg now u alive st)) = []"
    by (simp add: res events_of_def penalties_of) (simp add: mute_user_def)
  show "now + min (seconds (sp_mute_sec cfg)) (seconds (sp_ban_sec cfg)) \<le> t" if "free_at t u (snd (spam_check cfg now u alive st))"
    using that by (simp add: res free_at_def penalties_of mute_user_def min_def split: if_splits)
qed

lemma active_penalty_cases:
  assumes "active_penalty now f u m = (r, m')"
  shows "(\<forall>p. m' u = Some p \<longrightarrow> tp_expires_at p \<le> t) \<Longrightarrow> now \<le> t \<Longrightarrow> (\<forall>p. m u = Some p \<longrightarrow> tp_expires_at p \<le> t)"
    and "r = None \<Longrightarrow> m u = Some p \<Longrightarrow> tp_expires_at p \<le> now"
  using assms by (auto simp: active_penalty_def split: option.splits if_splits)

lemma moderate_message_cases:
  assumes "u = user_or_guest st s" "u \<noteq> ''guest''" "moderate_message cfg now s alive st = (v, st')"
  obtains
    (penalised) "\<And>x. v \<noteq> VerdictOk x" "events_of u st' = events_of u st" "\<And>t. now \<le> t \<Longrightarrow> free_at t u st' \<Longrightarrow> free_at t u st"
  | (passed) "v = VerdictOk u" "free_at now u st"
      "events_of u st' = dropWhile (\<lambda>t. t < now - seconds (sp_window_sec cfg)) (events_of u st) @ [now]"
      "length (events_of u st') \<le> sp_threshold cfg"
  | (violation) "\<And>x. v \<noteq> VerdictOk x" "events_of u st' = []"
      "\<And>t. free_at t u st' \<Longrightarrow> now + min (seconds (sp_mute_sec cfg)) (seconds (sp_ban_sec cfg)) \<le> t"
proof -
  obtain muted m where m: "active_penalty now ''temporarily muted'' u (st_muted_users st) = (muted, m)" by fastforce
  obtain banned b where b: "active_penalty now ''temporarily banned'' u (st_banned_users st) = (banned, b)" by fastforce
  let ?st1 = "st\<lparr>st_muted_users := m, st_banned_users := b\<rparr>"
  have ev1: "events_of u ?st1 = events_of u st" by (simp add: events_of_def)
  have res: "(v, st') = (case banned of Some r \<Rightarrow> (VerdictBanned r, ?st1)
      | None \<Rightarrow> (case muted of Some r \<Rightarrow> (VerdictMuted r, ?st1) | None \<Rightarrow> spam_check cfg now u alive ?st1))"
    by (simp add: assms(3) [symmetric] moderate_message_def Let_def assms(1) [symmetric] assms(2) m b)
  have free1: "free_at t u st" if "free_at t u ?st1" "now \<le> t" for t
    unfolding free_at_def
    by (intro conjI active_penalty_cases(1) [OF m] active_penalty_cases(1) [OF b]) (use that in \<open>simp_all add: free_at_def\<close>)
  show thesis
  proof (cases "banned = None \<and> muted = None")
    case True
    have free: "free_at now u st"
      unfolding free_at_def using True active_penalty_cases(2) [OF m] active_penalty_cases(2) [OF b] by blast
    have "spam_check cfg now u alive ?st1 = (v, st')" using res True by simp
    then have v: "v = fst (spam_check cfg now u alive ?st1)" and st': "st' = snd (spam_check cfg now u alive ?st1)" by simp_all
    show thesis
    proof (cases "length (dropWhile (\<lambda>t. t < now - seconds (sp_window_sec cfg)) (events_of u ?st1) @ [now]) \<le> sp_threshold cfg")
      case True
      from spam_check_passes [OF this, of alive] True free show thesis
        by (intro passed) (simp_all add: v st' ev1)
    next
      case False
      show thesis by (rule violation) (use spam_check_violation [OF False] in \<open>simp_all add: v st'\<close>)
    qed
  next
    case False
    then have "st' = ?st1" "\<And>x. v \<noteq> VerdictOk x" using res by (auto split: option.splits)
    then show thesis by (intro penalised) (use ev1 free1 in auto)
  qed
qed

section \<open>The limit\<close>

lemma in_span_append: "in_span x w (a @ b) = in_span x w a @ in_span x w b"
  by (simp add: in_span_def)

lemma length_in_span: "length (in_span x w ts) \<le> length ts"
  by (simp add: in_span_def)

text \<open>Dropping what is older than the window from the window's start leaves the recent messages but the old ones among them.\<close>

lemma drop_recent:
  obtains gone kept pre' where "recent = gone @ kept" "dropWhile P (pre @ recent) = pre' @ kept" "\<forall>t \<in> set gone. P t"
proof (cases "\<forall>t \<in> set pre. P t")
  case True
  then have "dropWhile P (pre @ recent) = [] @ dropWhile P recent" by (simp add: dropWhile_append2)
  then show thesis by (intro that [of "takeWhile P recent" "dropWhile P recent"]) (auto dest: set_takeWhileD)
next
  case False
  then have "dropWhile P (pre @ recent) = dropWhile P pre @ recent" by (auto simp: dropWhile_append1)
  then show thesis by (intro that [of "[]" recent "dropWhile P pre"]) auto
qed

lemma window_step:
  assumes ok: "window_ok w now u ts st" and later: "now \<le> t"
    and u: "u = user_or_guest st s" "u \<noteq> ''guest''" and step: "moderate_message cfg t s alive st = (v, st')"
    and w: "w = seconds (sp_window_sec cfg)" "w \<le> seconds (sp_mute_sec cfg)" "w \<le> seconds (sp_ban_sec cfg)" "0 < w"
    and limit: "\<And>x. length (in_span x w ts) \<le> sp_threshold cfg"
  shows "if v = VerdictOk u then window_ok w t u (ts @ [t]) st' \<and> (\<forall>x. length (in_span x w (ts @ [t])) \<le> sp_threshold cfg)
    else window_ok w t u ts st' \<and> (\<forall>x. v \<noteq> VerdictOk x)"
proof -
  obtain old recent pre where ts: "ts = old @ recent" and ev: "events_of u st = pre @ recent" and past: "\<forall>x \<in> set ts. x \<le> now"
    and over: "\<And>t. now \<le> t \<Longrightarrow> free_at t u st \<Longrightarrow> \<forall>x \<in> set old. x + w \<le> t"
    using ok by (auto simp: window_ok_def)
  have past': "\<forall>x \<in> set ts. x \<le> t" using past later by force
  from u step show ?thesis
  proof (cases rule: moderate_message_cases)
    case penalised
    have "\<forall>x \<in> set old. x + w \<le> t'" if "t \<le> t'" "free_at t' u st'" for t'
      using over [of t'] penalised(3) [OF that] later that(1) by simp
    then have "window_ok w t u ts st'"
      unfolding window_ok_def using ts ev past' penalised(2)
      by (intro exI [of _ old] exI [of _ recent] exI [of _ pre]) simp
    with penalised(1) show ?thesis by simp
  next
    case passed
    obtain gone kept pre' where split: "recent = gone @ kept" and dropped: "dropWhile (\<lambda>x. x < t - w) (pre @ recent) = pre' @ kept"
      and gone: "\<forall>x \<in> set gone. x < t - w" by (rule drop_recent)
    have ev': "events_of u st' = pre' @ kept @ [t]" using passed(3) by (simp add: ev w(1) [symmetric] dropped)
    have old: "\<forall>x \<in> set (old @ gone). x + w \<le> t" using over [OF later passed(2)] gone by auto
    have "window_ok w t u (ts @ [t]) st'"
      unfolding window_ok_def using ts split ev' past' old
      by (intro exI [of _ "old @ gone"] exI [of _ "kept @ [t]"] exI [of _ pre']) fastforce
    moreover have "length (in_span x w (ts @ [t])) \<le> sp_threshold cfg" for x
    proof (cases "x \<le> t \<and> t < x + w")
      case True
      have "y < x" if "y \<in> set (old @ gone)" for y using old that True by fastforce
      then have "\<forall>y \<in> set (old @ gone). \<not> x \<le> y" by (simp add: not_le)
      then have "in_span x w (old @ gone) = []" by (auto simp: in_span_def filter_empty_conv)
      then have "length (in_span x w (ts @ [t])) \<le> length (kept @ [t])"
        using length_in_span [of x w "kept @ [t]"] by (simp add: ts split in_span_append)
      also have "\<dots> \<le> sp_threshold cfg" using passed(4) by (simp add: ev')
      finally show ?thesis .
    next
      case False
      then have "in_span x w [t] = []" by (auto simp: in_span_def)
      with limit show ?thesis by (simp add: in_span_append)
    qed
    ultimately show ?thesis using passed(1) by simp
  next
    case violation
    have "x + w \<le> t'" if "free_at t' u st'" "x \<in> set ts" for x t'
      using violation(3) [OF that(1)] past that(2) later w(2,3) by fastforce
    then have "window_ok w t u ts st'"
      unfolding window_ok_def using violation(2) past'
      by (intro exI [of _ ts] exI [of _ "[]"] exI [of _ "[]"]) simp
    with violation(1) show ?thesis by simp
  qed
qed

lemma accepted_limit:
  assumes "window_ok w now u ts st" "sorted (now # sent)" "u = user_or_guest st s" "u \<noteq> ''guest''"
    and "w = seconds (sp_window_sec cfg)" "w \<le> seconds (sp_mute_sec cfg)" "w \<le> seconds (sp_ban_sec cfg)" "0 < w"
    and "\<And>x. length (in_span x w ts) \<le> sp_threshold cfg"
  shows "length (in_span x w (ts @ accepted_at cfg s alive sent st)) \<le> sp_threshold cfg"
  using assms
proof (induction sent arbitrary: now ts st)
  case (Cons t sent)
  obtain v st' where mm: "moderate_message cfg t s alive st = (v, st')" by fastforce
  have user: "u = user_or_guest st' s"
    using Cons.prems(3) moderate_message_user [of cfg t s alive st] by (simp add: mm user_or_guest_def)
  have t: "now \<le> t" "sorted (t # sent)" using Cons.prems(2) by auto
  note step = window_step [OF Cons.prems(1) t(1) Cons.prems(3,4) mm Cons.prems(5-9)]
  show ?case
  proof (cases "v = VerdictOk u")
    case True
    with step have "window_ok w t u (ts @ [t]) st'" "\<And>x. length (in_span x w (ts @ [t])) \<le> sp_threshold cfg" by auto
    from Cons.IH [OF this(1) t(2) user Cons.prems(4-8) this(2)] True show ?thesis by (simp add: mm)
  next
    case False
    with step have "window_ok w t u ts st'" and v: "\<forall>x. v \<noteq> VerdictOk x" by simp_all
    moreover from v have "accepted_at cfg s alive (t # sent) st = accepted_at cfg s alive sent st'"
      by (cases v) (simp_all add: mm)
    ultimately show ?thesis using Cons.IH [OF _ t(2) user Cons.prems(4-9)] by simp
  qed
qed simp

lemma accepted_guest: "user_or_guest st s = ''guest'' \<Longrightarrow> accepted_at cfg s alive sent st = []"
proof (induction sent arbitrary: st)
  case (Cons t sent)
  then show ?case by (simp add: moderate_message_def)
qed simp

text \<open>
  C7. As long as a penalty lasts at least as long as the window, the service lets through at most the configured number
  of a session's messages in any span of the window's length, however the messages are spread, across violations and
  penalties, and whatever state it starts from.
\<close>

theorem spam_limit_holds:
  assumes "sorted sent" "sp_window_sec cfg \<le> sp_mute_sec cfg" "sp_window_sec cfg \<le> sp_ban_sec cfg"
  shows "length (filter (\<lambda>t. x \<le> t \<and> t < x + seconds (sp_window_sec cfg)) (accepted_at cfg s alive sent st)) \<le> sp_threshold cfg"
proof (cases "user_or_guest st s = ''guest'' \<or> sent = [] \<or> sp_window_sec cfg = 0")
  case True
  then show ?thesis by (auto simp: accepted_guest seconds_def)
next
  case False
  let ?w = "seconds (sp_window_sec cfg)" and ?u = "user_or_guest st s"
  have w: "?w \<le> seconds (sp_mute_sec cfg)" "?w \<le> seconds (sp_ban_sec cfg)" "0 < ?w"
    using assms(2,3) False by (simp_all add: seconds_def word_le_def) (metis order_le_less uint_0_iff unsigned_greater_eq)
  have "window_ok ?w (hd sent) ?u [] st" by (simp add: window_ok_def)
  moreover have "sorted (hd sent # sent)" using assms(1) False by (cases sent) auto
  ultimately have "length (in_span x ?w ([] @ accepted_at cfg s alive sent st)) \<le> sp_threshold cfg"
    using w False by (intro accepted_limit) (auto simp: in_span_def)
  then show ?thesis by (simp add: in_span_def)
qed

definition spam_example :: spam_config where
  "spam_example = \<lparr>sp_threshold = 2, sp_window_sec = 5, sp_mute_sec = 30, sp_ban_sec = 600, sp_violations = 3\<rparr>"

lemma spam_example_run:
  "accepted_at spam_example 1 (\<lambda>_. True) [0, 1, 2, 3, 31000000000] (ChatState_init\<lparr>st_user := [1 \<mapsto> ''amy'']\<rparr>) = [0, 1, 31000000000]"
proof -
  have "\<not> (3 :: u32) \<le> 1" by (simp add: word_le_nat_alt)
  then show ?thesis
    by (simp add: spam_example_def moderate_message_def spam_check_def active_penalty_def Let_def user_or_guest_def ChatState_init_def
        seconds_def mute_user_def)
qed

theorem spam_limit_holds_witness:
  "accepted_at spam_example 1 (\<lambda>_. True) [0, 1, 2, 3, 31000000000] (ChatState_init\<lparr>st_user := [1 \<mapsto> ''amy'']\<rparr>) = [0, 1, 31000000000]
   \<and> length (filter (\<lambda>t. 0 \<le> t \<and> t < 0 + seconds 5) [0, 1, 31000000000]) \<le> 2"
  using spam_limit_holds [of "[0, 1, 2, 3, 31000000000]" spam_example 0 1 "\<lambda>_. True" "ChatState_init\<lparr>st_user := [1 \<mapsto> ''amy'']\<rparr>"]
    spam_example_run by (simp add: spam_example_def del: filter.simps One_nat_def)

end
