(* ===== verification/Spec2Isabelle.thy ===== *)
theory Spec2Isabelle
  imports Utf8 Rudp_Exchange Udp_Guards Rollout_Policy Admin_Auth Session_Directory Runtime_Metrics
  Worker_Shutdown Session_Properties Game_Opcodes Udp_Authorisation Gateway_App Chat_Access Chat_Spam
begin

text \<open>
  \<^bold>\<open>Verification of the Knights chat server.\<close>

  Knights is a chat system in C++. Clients connect over TCP, and optionally UDP, to a gateway
  (\<^verbatim>\<open>gateway/\<close>), which authenticates the login, chooses a chat server and from then on copies bytes between
  the client and that server. The chat server (\<^verbatim>\<open>server/\<close>) parses frames on its I/O threads, queues jobs
  and runs them on worker threads; the jobs use Redis, PostgreSQL, native plugins and Lua scripts. Both
  processes are built from a library (\<^verbatim>\<open>core/\<close>): sessions, dispatcher, reliable UDP, queues, pools,
  metrics, signatures.

  \<^bold>\<open>Conventions.\<close> Words of 8 to 64 bits are \<open>u8\<close> to \<open>u64\<close> and wrap as in C++; sizes and counters that cannot
  overflow in memory are \<open>nat\<close>. An object is a record, a method a function that returns the updated record.
  Completion handlers and timers are events, and a run is any sequence of events: nothing is assumed
  about their order beyond what the code enforces. Code outside the repository (Redis, the database,
  OpenSSL, protobuf, the Lua machine, clocks) is a parameter; where a theorem relies on its documented
  behaviour the hypothesis is named (\<open>redis_laws\<close>, for one). Functions of the C and C++ libraries on
  strings and numbers are in \<open>C_Strings\<close> and \<open>Text\<close>.

  \<^bold>\<open>Wire formats.\<close> \<open>Wire\<close> and \<open>Utf8\<close> (\<^verbatim>\<open>core/protocol/packet.hpp\<close>): the frame header, length-prefixed strings and
  the UTF-8 validator, with round trips and the equivalence of the validator with a reference encoder.
  \<open>Game_Opcodes\<close>: the opcode tables and their policies.

  \<^bold>\<open>Reliable UDP.\<close> \<open>Rudp_Packet\<close>, \<open>Ack_Window\<close>, \<open>Retransmission_Queue\<close>, \<open>Rudp_Peer\<close>, \<open>Rudp_Engine\<close> (\<^verbatim>\<open>core/net/rudp\<close>), and
  \<open>Rudp_Exchange\<close> for two engines that talk to each other: delivery at most once, transfer with
  acknowledgement, what an acknowledgement means, limits in flight, and the refinement of the
  64-bit window to the set of numbers received.

  \<^bold>\<open>Sessions and threads.\<close> \<open>Memory_Pool\<close>, \<open>Session_Core\<close>, \<open>Session_Run\<close>, \<open>Dispatcher\<close> (\<^verbatim>\<open>core/net/session.cpp\<close>,
  \<^verbatim>\<open>dispatcher.cpp\<close>) model a session with its strand; \<open>Session_Invariant\<close> and \<open>Session_Properties\<close> show for every run
  that frames leave in order and within the limit, that a session is closed once, that buffers are
  neither lost nor shared, and that the dispatcher enforces the policy of an opcode. \<open>Job_Queue\<close> and
  \<open>Worker_Threads\<close> model the queue at the granularity of its critical sections and all schedules of the threads;
  \<open>Worker_Shutdown\<close> shows that stopping the queue ends every thread.
  \<open>Runtime_Metrics\<close> has the counters, \<open>Connection\<close> the simpler base class the gateway uses.

  \<^bold>\<open>Gateway.\<close> \<open>Gateway_Config\<close>, \<open>Gateway_Routing\<close>, \<open>Gateway_Connection\<close>, \<open>Gateway_Bridge\<close>, \<open>Backend_Connection\<close>,
  \<open>Backend_Properties\<close>, \<open>Gateway_App\<close>: configuration, choice of a backend, the two connections of a client and their
  composition. The bridge is transparent: the backend gets what the client sent, in order. \<open>Session_Directory\<close>:
  gateways agree on the backend of a client. \<open>Udp_Bind\<close>, \<open>Udp_Ingress\<close>, \<open>Udp_Guards\<close>, \<open>Udp_Authorisation\<close>: tickets, bound
  endpoints, and that nothing else reaches a backend. \<open>Rollout_Policy\<close>, \<open>Token_Bucket\<close>, \<open>Resilience\<close>, \<open>Admin_Auth\<close>: rollout,
  limits and signed commands.

  \<^bold>\<open>Chat server.\<close> A job of a worker is a resumption (\<open>Worker_Job\<close>): each action is one section under a mutex, one
  call of an external service or one message to a session, and other threads may act between two of
  them. \<open>Chat_Types\<close> has the tables of \<open>ChatService::State\<close>; an address of a session is a number, a set of weak
  pointers a sorted list of addresses. \<open>Chat_Core\<close>, \<open>Chat_Snapshot\<close>, \<open>Chat_Moderation\<close> and \<open>Chat_Hooks\<close> model
  \<^verbatim>\<open>chat_service_core.cpp\<close>, the plugin chain and the Lua bindings, \<open>Lua_Runtime\<close> the runtime facade; \<open>Chat_Login\<close>, \<open>Chat_Rooms\<close> and
  \<open>Chat_Messages\<close> the jobs of the handlers, and \<open>Chat_Server\<close> the handlers, routes, administration and the events
  that drive the pool. \<open>Chat_Config\<close> is the constructor, which reads the environment.

  \<^bold>\<open>What holds of the chat server.\<close> \<open>Worker_Pool\<close> has runs of one job after the other as interleavings.
  \<open>Chat_Tables\<close> defines when the tables agree (\<open>reg_ok\<close>) and shows it section by section,
  \<open>Chat_Invariant\<close> has the laws that helper jobs need of an invariant as the locale \<open>bystander\<close>, and \<open>Chat_Agreement\<close>
  interprets the locale \<open>worker_pool\<close> with all jobs and events. \<open>Chat_Properties\<close> concludes for every interleaving
  that the tables agree and the settings stay in range, and that a frame is queued or refused. \<open>Chat_Access\<close> has the rights to enter a room, passwords, ownership and bans, \<open>Chat_Spam\<close> the limit
  on messages across violations and penalties.

  \<^bold>\<open>Bounds.\<close> No loop of the model has fuel: recursions follow the data, with termination proofs where it is not
  structural. A job is a finite tree, since every loop of the source that it models ranges over a
  container read before.

  \<^bold>\<open>Not modelled.\<close> Start and shutdown of the processes, sockets and accept loops, logging, metrics pages, dynamic
  loading of plugins, the Lua machine, SQL and Redis clients, the write-behind worker, the control plane
  application, the load generator's scenarios and the graphical client: they are operating system calls,
  library calls or separate programs. Threads that poll the I/O context while they wait for a Lua hook
  are modelled as other threads. Data races on unprotected members are modelled by the order of their
  reads and writes, not by torn values.
\<close>

end
